(* ===== verification/Prelude.thy ===== *)
theory Prelude
  imports Main "HOL-Library.AList" "HOL-Library.Char_ord" "HOL-Library.List_Lexorder" "HOL-Library.Sublist"
begin

text \<open>
  Shared vocabulary of the development: Go error values and error chains, results of fallible
  functions, the state-and-error monad in which the stateful operations are written, the rules
  that decompose a run of it, and generic facts on lists and association lists.
\<close>

section \<open>Collections of facts\<close>

named_theorems go_eval \<open>equations that evaluate the Go library functions\<close>
named_theorems io_run \<open>equations for successful runs of the state-and-error monad\<close>
named_theorems plain_errors \<open>checks whose errors do not come from the operating system\<close>

section \<open>Go errors\<close>

text \<open>
  An error value. \<open>Errorf f args\<close> is \<open>fmt.Errorf\<close> without a wrapped error, \<open>Wrap f args e\<close> the
  same with \<open>%w\<close>; \<open>OsNotExist\<close> is the operating system's not-exist error, \<open>OsError\<close> any other one and
  \<open>Joined\<close> the result of \<open>errors.Join\<close>. A Go \<open>error\<close> is an \<open>err option\<close> whose \<open>None\<close> is \<open>nil\<close>.
\<close>

datatype err =
    Errorf string "string list"
  | Wrap string "string list" err
  | OsNotExist
  | OsError string
  | Joined "err list"

type_synonym error = "err option"
type_synonym 'a res = "err + 'a"

text \<open>\<open>errors.Is(err, os.ErrNotExist)\<close> looks through wrapping, \<open>os.IsNotExist\<close> does not.\<close>

fun isErrNotExist :: "err \<Rightarrow> bool" where
  "isErrNotExist (Errorf f as) = False"
| "isErrNotExist (Wrap f as e) = isErrNotExist e"
| "isErrNotExist OsNotExist = True"
| "isErrNotExist (OsError m) = False"
| "isErrNotExist (Joined es) = list_ex isErrNotExist es"

fun osIsNotExist :: "err \<Rightarrow> bool" where
  "osIsNotExist OsNotExist = True"
| "osIsNotExist e = False"

definition errorsJoin :: "error list \<Rightarrow> error" where
  "errorsJoin es = (case List.map_filter (\<lambda>e. e) es of [] \<Rightarrow> None | xs \<Rightarrow> Some (Joined xs))"

text \<open>A sequence of checks returns the first error.\<close>

fun first_error :: "error list \<Rightarrow> error" where
  "first_error [] = None"
| "first_error (None # es) = first_error es"
| "first_error (Some e # es) = Some e"

definition reject :: "bool \<Rightarrow> string \<Rightarrow> string list \<Rightarrow> error" where
  "reject c f as = (if c then Some (Errorf f as) else None)"

definition each_error :: "('a \<Rightarrow> error) \<Rightarrow> 'a list \<Rightarrow> error" where
  "each_error f xs = first_error (map f xs)"

definition wrap_error :: "string \<Rightarrow> string list \<Rightarrow> error \<Rightarrow> error" where
  "wrap_error f as e = map_option (Wrap f as) e"

definition error_of :: "'a res \<Rightarrow> error" where
  "error_of r = (case r of Inl e \<Rightarrow> Some e | Inr x \<Rightarrow> None)"

definition res_bind :: "'a res \<Rightarrow> ('a \<Rightarrow> 'b res) \<Rightarrow> 'b res" where
  "res_bind r f = (case r of Inl e \<Rightarrow> Inl e | Inr x \<Rightarrow> f x)"

definition res_need :: "error \<Rightarrow> 'a res \<Rightarrow> 'a res" where
  "res_need e r = (case e of Some x \<Rightarrow> Inl x | None \<Rightarrow> r)"

definition fail :: "string \<Rightarrow> string list \<Rightarrow> 'a res" where
  "fail f as = Inl (Errorf f as)"

text \<open>A \<open>range\<close> loop that appends and returns at the first error.\<close>

fun res_map :: "('a \<Rightarrow> 'b res) \<Rightarrow> 'a list \<Rightarrow> 'b list res" where
  "res_map f [] = Inr []"
| "res_map f (x # xs) = res_bind (f x) (\<lambda>y. res_bind (res_map f xs) (\<lambda>ys. Inr (y # ys)))"

lemma first_error_Cons:
  "first_error (e # es) = (case e of None \<Rightarrow> first_error es | Some x \<Rightarrow> Some x)"
  by (cases e) auto

lemma first_error_Cons_None [simp]: "first_error (e # es) = None \<longleftrightarrow> e = None \<and> first_error es = None"
  by (cases e) auto

lemma first_error_Cons_Some [simp]:
  "first_error (e # es) = Some x \<longleftrightarrow> e = Some x \<or> e = None \<and> first_error es = Some x"
  by (cases e) auto

lemma first_error_None: "first_error es = None \<longleftrightarrow> (\<forall>e \<in> set es. e = None)"
  by (induction es) auto

lemma first_error_append:
  "first_error (es @ fs) = (case first_error es of None \<Rightarrow> first_error fs | Some x \<Rightarrow> Some x)"
  by (induction es) (auto simp: first_error_Cons split: option.splits)

lemma reject_None [simp]: "reject c f as = None \<longleftrightarrow> \<not> c"
  by (simp add: reject_def)

lemma reject_Some [simp]: "reject c f as = Some e \<longleftrightarrow> c \<and> e = Errorf f as"
  by (auto simp: reject_def)

lemma each_error_None [simp]: "each_error f xs = None \<longleftrightarrow> (\<forall>x \<in> set xs. f x = None)"
  by (auto simp: each_error_def first_error_None)

lemma wrap_error_None [simp]: "wrap_error f as e = None \<longleftrightarrow> e = None"
  by (simp add: wrap_error_def)

lemma error_of_None: "error_of r = None \<longleftrightarrow> (\<exists>x. r = Inr x)"
  by (auto simp: error_of_def split: sum.splits)

lemma error_of_simps [simp]: "error_of (Inr x) = None" "error_of (Inl e) = Some e"
  by (simp_all add: error_of_def)

lemma res_bind_Inr [simp]: "res_bind r f = Inr y \<longleftrightarrow> (\<exists>x. r = Inr x \<and> f x = Inr y)"
  by (auto simp: res_bind_def split: sum.splits)

lemma res_bind_simps [simp]: "res_bind (Inr x) f = f x" "res_bind (Inl e) f = Inl e"
  by (simp_all add: res_bind_def)

lemma res_need_Inr [simp]: "res_need e r = Inr y \<longleftrightarrow> e = None \<and> r = Inr y"
  by (auto simp: res_need_def split: option.splits)

lemma res_need_simps [simp]: "res_need None r = r" "res_need (Some x) r = Inl x"
  by (simp_all add: res_need_def)

lemma fail_Inr [simp]: "fail f as \<noteq> Inr x"
  by (simp add: fail_def)

lemma Inr_fail [simp]: "Inr x \<noteq> fail f as"
  by (simp add: fail_def)

lemma res_map_length: "res_map f xs = Inr ys \<Longrightarrow> length ys = length xs"
  by (induction xs arbitrary: ys) auto

lemma res_map_set: "res_map f xs = Inr ys \<Longrightarrow> y \<in> set ys \<Longrightarrow> \<exists>x \<in> set xs. f x = Inr y"
  by (induction xs arbitrary: ys) auto

lemma res_map_nth: "res_map f xs = Inr ys \<Longrightarrow> i < length xs \<Longrightarrow> f (xs ! i) = Inr (ys ! i)"
proof (induction xs arbitrary: ys i)
  case Nil
  then show ?case by simp
next
  case (Cons x xs)
  then show ?case by (cases i) auto
qed


section \<open>Errors that are not the operating system's\<close>

text \<open>
  Several readers decide by \<open>os.IsNotExist\<close>; a failed check must not be mistaken for a missing file.
\<close>

definition plain_error :: "error \<Rightarrow> bool" where
  "plain_error e \<longleftrightarrow> e \<noteq> Some OsNotExist"

lemma plain_error_reject [plain_errors]: "plain_error (reject c f as)"
  by (simp add: plain_error_def reject_def)

lemma plain_error_None [plain_errors]: "plain_error None"
  by (simp add: plain_error_def)

lemma plain_error_wrap [plain_errors]: "plain_error (wrap_error f as e)"
  by (cases e) (simp_all add: plain_error_def wrap_error_def)

lemma plain_error_Wrap [plain_errors]: "plain_error (Some (Wrap f as e))" "plain_error (Some (Errorf f as))"
  by (simp_all add: plain_error_def)

lemma plain_error_first [plain_errors]:
  "plain_error (first_error [])" "plain_error e \<Longrightarrow> plain_error (first_error es) \<Longrightarrow> plain_error (first_error (e # es))"
  by (cases e; simp add: plain_error_def)+

lemma plain_error_each [plain_errors]: "(\<And>x. plain_error (f x)) \<Longrightarrow> plain_error (each_error f xs)"
  unfolding each_error_def by (induction xs) (auto intro: plain_errors)

lemma plain_error_fail [plain_errors]: "plain_error (error_of (fail f as))" "plain_error (error_of (Inr x))"
  by (simp_all add: plain_error_def fail_def)

lemma plain_error_res_bind [plain_errors]:
  "plain_error (error_of r) \<Longrightarrow> (\<And>x. plain_error (error_of (f x))) \<Longrightarrow> plain_error (error_of (res_bind r f))"
  by (cases r) auto

lemma plain_error_res_need [plain_errors]:
  "plain_error e \<Longrightarrow> plain_error (error_of r) \<Longrightarrow> plain_error (error_of (res_need e r))"
  by (cases e) auto

lemma plain_errorD: "plain_error (Some e) \<Longrightarrow> \<not> osIsNotExist e"
  by (cases e) (simp_all add: plain_error_def)

section \<open>Pointwise related lists\<close>

lemma list_all2_left: "list_all2 P xs ys \<Longrightarrow> x \<in> set xs \<Longrightarrow> \<exists>y \<in> set ys. P x y"
  by (induction rule: list_all2_induct) auto

lemma list_all2_right: "list_all2 P xs ys \<Longrightarrow> y \<in> set ys \<Longrightarrow> \<exists>x \<in> set xs. P x y"
  by (induction rule: list_all2_induct) auto

end
