(* ===== verification/Go_IO.thy ===== *)
theory Go_IO
  imports Prelude
begin

text \<open>
  The state-and-error monad of the stateful operations. A computation returns an error or a value
  and in both cases the state it leaves behind: an operation of the program that fails half way
  keeps the effects it already had. The frame calculus at the end proves, rule by rule, that a
  computation relates its start and end state by a preorder whatever its outcome.
\<close>

section \<open>Computations\<close>

type_synonym ('s, 'a) io = "'s \<Rightarrow> 'a res \<times> 's"

definition io_ok :: "'a \<Rightarrow> ('s, 'a) io" where
  "io_ok x = (\<lambda>s. (Inr x, s))"

definition io_err :: "err \<Rightarrow> ('s, 'a) io" where
  "io_err e = (\<lambda>s. (Inl e, s))"

definition io_fail :: "string \<Rightarrow> string list \<Rightarrow> ('s, 'a) io" where
  "io_fail f as = io_err (Errorf f as)"

definition io_bind :: "('s, 'a) io \<Rightarrow> ('a \<Rightarrow> ('s, 'b) io) \<Rightarrow> ('s, 'b) io" where
  "io_bind m f = (\<lambda>s. case m s of (Inl e, t) \<Rightarrow> (Inl e, t) | (Inr x, t) \<Rightarrow> f x t)"

definition io_then :: "('s, 'a) io \<Rightarrow> ('s, 'b) io \<Rightarrow> ('s, 'b) io" where
  "io_then m n = io_bind m (\<lambda>_. n)"

definition io_get :: "('s \<Rightarrow> 'a) \<Rightarrow> ('s, 'a) io" where
  "io_get f = (\<lambda>s. (Inr (f s), s))"

definition io_upd :: "('s \<Rightarrow> 's) \<Rightarrow> ('s, unit) io" where
  "io_upd f = (\<lambda>s. (Inr (), f s))"

definition io_lift :: "'a res \<Rightarrow> ('s, 'a) io" where
  "io_lift r = (\<lambda>s. (r, s))"

definition io_need :: "error \<Rightarrow> ('s, unit) io" where
  "io_need e = (\<lambda>s. (case e of None \<Rightarrow> Inr () | Some x \<Rightarrow> Inl x, s))"

definition io_reject :: "bool \<Rightarrow> string \<Rightarrow> string list \<Rightarrow> ('s, unit) io" where
  "io_reject c f as = io_need (reject c f as)"

definition io_when :: "bool \<Rightarrow> ('s, unit) io \<Rightarrow> ('s, unit) io" where
  "io_when c m = (if c then m else io_ok ())"

text \<open>\<open>io_catch\<close> hands the outcome of a computation to the caller instead of propagating its error.\<close>

definition io_catch :: "('s, 'a) io \<Rightarrow> ('s, 'a res) io" where
  "io_catch m = (\<lambda>s. case m s of (r, t) \<Rightarrow> (Inr r, t))"

definition io_wrap :: "string \<Rightarrow> string list \<Rightarrow> ('s, 'a) io \<Rightarrow> ('s, 'a) io" where
  "io_wrap f as m = (\<lambda>s. case m s of (Inl e, t) \<Rightarrow> (Inl (Wrap f as e), t) | (Inr x, t) \<Rightarrow> (Inr x, t))"

text \<open>A \<open>range\<close> loop whose body may fail: the rest of the list is not visited after an error.\<close>

fun io_each :: "('a \<Rightarrow> ('s, unit) io) \<Rightarrow> 'a list \<Rightarrow> ('s, unit) io" where
  "io_each f [] = io_ok ()"
| "io_each f (x # xs) = io_then (f x) (io_each f xs)"

fun io_map :: "('a \<Rightarrow> ('s, 'b) io) \<Rightarrow> 'a list \<Rightarrow> ('s, 'b list) io" where
  "io_map f [] = io_ok []"
| "io_map f (x # xs) = io_bind (f x) (\<lambda>y. io_bind (io_map f xs) (\<lambda>ys. io_ok (y # ys)))"

section \<open>Successful and failed runs\<close>

lemma io_ok_run [io_run]: "io_ok x s = (r, t) \<longleftrightarrow> r = Inr x \<and> t = s"
  by (auto simp: io_ok_def)

lemma io_err_run [io_run]: "io_err e s = (r, t) \<longleftrightarrow> r = Inl e \<and> t = s"
  by (auto simp: io_err_def)

lemma io_fail_run [io_run]: "io_fail f as s = (r, t) \<longleftrightarrow> r = Inl (Errorf f as) \<and> t = s"
  by (auto simp: io_fail_def io_err_def)

lemma io_get_run [io_run]: "io_get f s = (r, t) \<longleftrightarrow> r = Inr (f s) \<and> t = s"
  by (auto simp: io_get_def)

lemma io_upd_run [io_run]: "io_upd f s = (r, t) \<longleftrightarrow> r = Inr () \<and> t = f s"
  by (auto simp: io_upd_def)

lemma io_lift_run [io_run]: "io_lift x s = (r, t) \<longleftrightarrow> x = r \<and> t = s"
  by (auto simp: io_lift_def)

lemma io_need_Inr [io_run]: "io_need e s = (Inr u, t) \<longleftrightarrow> e = None \<and> t = s"
  by (auto simp: io_need_def split: option.splits)

lemma io_need_Inl [io_run]: "io_need e s = (Inl x, t) \<longleftrightarrow> e = Some x \<and> t = s"
  by (auto simp: io_need_def split: option.splits)

lemma io_reject_Inr [io_run]: "io_reject c f as s = (Inr u, t) \<longleftrightarrow> \<not> c \<and> t = s"
  by (auto simp: io_reject_def io_need_Inr)

lemma io_reject_Inl [io_run]: "io_reject c f as s = (Inl e, t) \<longleftrightarrow> c \<and> e = Errorf f as \<and> t = s"
  by (auto simp: io_reject_def io_need_Inl)

lemma io_bind_Inr [io_run]:
  "io_bind m f s = (Inr y, t) \<longleftrightarrow> (\<exists>x u. m s = (Inr x, u) \<and> f x u = (Inr y, t))"
  by (auto simp: io_bind_def split: prod.splits sum.splits)

lemma io_bind_Inl:
  "io_bind m f s = (Inl e, t) \<longleftrightarrow>
     m s = (Inl e, t) \<or> (\<exists>x u. m s = (Inr x, u) \<and> f x u = (Inl e, t))"
  by (auto simp: io_bind_def split: prod.splits sum.splits)

lemma io_then_Inr [io_run]:
  "io_then m n s = (Inr y, t) \<longleftrightarrow> (\<exists>x u. m s = (Inr x, u) \<and> n u = (Inr y, t))"
  by (simp add: io_then_def io_bind_Inr)

lemma io_then_Inl:
  "io_then m n s = (Inl e, t) \<longleftrightarrow>
     m s = (Inl e, t) \<or> (\<exists>x u. m s = (Inr x, u) \<and> n u = (Inl e, t))"
  by (simp add: io_then_def io_bind_Inl)

lemma io_when_Inr [io_run]:
  "io_when c m s = (Inr u, t) \<longleftrightarrow> (if c then m s = (Inr u, t) else t = s)"
  by (auto simp: io_when_def io_ok_run)

lemma io_catch_run [io_run]: "io_catch m s = (r, t) \<longleftrightarrow> (\<exists>x. m s = (x, t) \<and> r = Inr x)"
  by (auto simp: io_catch_def split: prod.splits)

lemma io_wrap_Inr [io_run]: "io_wrap f as m s = (Inr x, t) \<longleftrightarrow> m s = (Inr x, t)"
  by (auto simp: io_wrap_def split: prod.splits sum.splits)

lemma io_each_snd_Nil [simp]: "io_each f [] s = (Inr (), s)"
  by (simp add: io_ok_def)

lemma io_map_length: "io_map f xs s = (Inr ys, t) \<Longrightarrow> length ys = length xs"
  by (induction xs arbitrary: ys s) (auto simp: io_run)

section \<open>The frame calculus\<close>

text \<open>\<open>io_rel R m\<close>: whatever the outcome of \<open>m\<close>, its end state is related to its start state.\<close>

definition io_rel :: "('s \<Rightarrow> 's \<Rightarrow> bool) \<Rightarrow> ('s, 'a) io \<Rightarrow> bool" where
  "io_rel R m \<longleftrightarrow> (\<forall>s. R s (snd (m s)))"

lemma io_relD: "io_rel R m \<Longrightarrow> m s = (r, t) \<Longrightarrow> R s t"
  by (metis io_rel_def snd_conv)

lemma io_relI: "(\<And>s. R s (snd (m s))) \<Longrightarrow> io_rel R m"
  by (simp add: io_rel_def)

text \<open>
  The contract a frame condition has to satisfy so that it can be checked one step at a time:
  it is a preorder. The rules derived here are the interface the component theories use.
\<close>

locale io_frame =
  fixes R :: "'s \<Rightarrow> 's \<Rightarrow> bool"
  assumes frame_refl: "R s s"
    and frame_trans: "R s t \<Longrightarrow> R t u \<Longrightarrow> R s u"
begin

lemma rel_pure:
  "io_rel R (io_ok x)" "io_rel R (io_err e)" "io_rel R (io_fail f as)" "io_rel R (io_get g)"
  "io_rel R (io_lift r)" "io_rel R (io_need n)" "io_rel R (io_reject c f as)"
  by (simp_all add: io_rel_def io_ok_def io_err_def io_fail_def io_get_def io_lift_def
      io_need_def io_reject_def frame_refl)

lemma rel_bind: "io_rel R m \<Longrightarrow> (\<And>x. io_rel R (f x)) \<Longrightarrow> io_rel R (io_bind m f)"
  unfolding io_rel_def io_bind_def
  by (auto split: prod.splits sum.splits) (metis frame_trans snd_conv)+

lemma rel_then: "io_rel R m \<Longrightarrow> io_rel R n \<Longrightarrow> io_rel R (io_then m n)"
  by (simp add: io_then_def rel_bind)

lemma rel_when: "(c \<Longrightarrow> io_rel R m) \<Longrightarrow> io_rel R (io_when c m)"
  by (simp add: io_when_def rel_pure)

lemma rel_if: "(c \<Longrightarrow> io_rel R m) \<Longrightarrow> (\<not> c \<Longrightarrow> io_rel R n) \<Longrightarrow> io_rel R (if c then m else n)"
  by simp

lemma rel_option:
  "(o1 = None \<Longrightarrow> io_rel R m) \<Longrightarrow> (\<And>x. o1 = Some x \<Longrightarrow> io_rel R (f x)) \<Longrightarrow>
   io_rel R (case o1 of None \<Rightarrow> m | Some x \<Rightarrow> f x)"
  by (cases o1) auto

lemma rel_sum:
  "(\<And>e. r = Inl e \<Longrightarrow> io_rel R (f e)) \<Longrightarrow> (\<And>x. r = Inr x \<Longrightarrow> io_rel R (g x)) \<Longrightarrow>
   io_rel R (case r of Inl e \<Rightarrow> f e | Inr x \<Rightarrow> g x)"
  by (cases r) auto

lemma rel_prod: "(\<And>a b. p = (a, b) \<Longrightarrow> io_rel R (f a b)) \<Longrightarrow> io_rel R (case p of (a, b) \<Rightarrow> f a b)"
  by (cases p) auto

lemma rel_catch: "io_rel R m \<Longrightarrow> io_rel R (io_catch m)"
  by (auto simp: io_rel_def io_catch_def split: prod.splits) (metis snd_conv)

lemma rel_wrap: "io_rel R m \<Longrightarrow> io_rel R (io_wrap f as m)"
  by (auto simp: io_rel_def io_wrap_def split: prod.splits sum.splits) (metis snd_conv)+

lemma rel_upd: "(\<And>s. R s (f s)) \<Longrightarrow> io_rel R (io_upd f)"
  by (simp add: io_rel_def io_upd_def)

lemma rel_each: "(\<And>x. x \<in> set xs \<Longrightarrow> io_rel R (f x)) \<Longrightarrow> io_rel R (io_each f xs)"
  by (induction xs) (auto intro: rel_then simp: rel_pure)

lemma rel_map: "(\<And>x. x \<in> set xs \<Longrightarrow> io_rel R (f x)) \<Longrightarrow> io_rel R (io_map f xs)"
  by (induction xs) (auto intro!: rel_bind simp: rel_pure)

lemmas rel_rules = rel_pure rel_bind rel_then rel_when rel_if rel_option rel_sum rel_prod
  rel_catch rel_wrap rel_each rel_map

end

text \<open>Preserving an invariant is the preorder \<open>I s \<longrightarrow> I t\<close>.\<close>

definition keeps :: "('s \<Rightarrow> bool) \<Rightarrow> 's \<Rightarrow> 's \<Rightarrow> bool" where
  "keeps I s t \<longleftrightarrow> (I s \<longrightarrow> I t)"

interpretation keeps: io_frame "keeps I"
  by unfold_locales (auto simp: keeps_def)

lemma io_rel_keepsD: "io_rel (keeps I) m \<Longrightarrow> I s \<Longrightarrow> m s = (r, t) \<Longrightarrow> I t"
  by (metis io_relD keeps_def)

section \<open>Invariants and preorders along runs\<close>

text \<open>
  The contract of a system whose steps preserve an invariant and stay within a preorder: the laws
  below lift both from one step to a run.
\<close>

locale step_system = io_frame R for R :: "'s \<Rightarrow> 's \<Rightarrow> bool" +
  fixes step :: "'s \<Rightarrow> 's \<Rightarrow> bool" and inv :: "'s \<Rightarrow> bool"
  assumes step_inv: "step s t \<Longrightarrow> inv s \<Longrightarrow> inv t"
    and step_rel: "step s t \<Longrightarrow> R s t"
begin

lemma run_inv: "step\<^sup>*\<^sup>* s t \<Longrightarrow> inv s \<Longrightarrow> inv t"
  by (induction rule: rtranclp_induct) (auto intro: step_inv)

lemma run_rel: "step\<^sup>*\<^sup>* s t \<Longrightarrow> R s t"
  by (induction rule: rtranclp_induct) (auto intro: frame_refl frame_trans step_rel)

lemma run_between: "step\<^sup>*\<^sup>* s t \<Longrightarrow> step\<^sup>*\<^sup>* t u \<Longrightarrow> inv s \<Longrightarrow> inv t \<and> R s t \<and> R t u \<and> R s u"
  using run_inv run_rel frame_trans by blast

end

section \<open>Files and system calls\<close>

text \<open>
  A JSON file is absent, undecodable or holds a value. Every system call that changes a tree consumes one
  entry of the fault schedule of its state: it succeeds, fails without effect, or reports an error after its
  effect took place. An empty schedule means success.
\<close>

datatype 'a json_file = NoFile | BadFile | File 'a

datatype fault = IoOk | IoFailBefore string | IoFailAfter string

definition fault_call ::
  "('s \<Rightarrow> fault list) \<Rightarrow> (fault list \<Rightarrow> 's \<Rightarrow> 's) \<Rightarrow> ('s \<Rightarrow> 's) \<Rightarrow> ('s, unit) io" where
  "fault_call faults put f = (\<lambda>s.
     case faults s of
       [] \<Rightarrow> (Inr (), f s)
     | IoOk # fs \<Rightarrow> (Inr (), f (put fs s))
     | IoFailBefore m # fs \<Rightarrow> (Inl (OsError m), put fs s)
     | IoFailAfter m # fs \<Rightarrow> (Inl (OsError m), f (put fs s)))"

text \<open>What a state with a fault schedule provides; the laws of a system call follow from one equation.\<close>

locale fault_disk =
  fixes faults :: "'s \<Rightarrow> fault list" and put :: "fault list \<Rightarrow> 's \<Rightarrow> 's"
  assumes put_same: "put (faults s) s = s"
begin

lemma call_cases:
  assumes "fault_call faults put f s = (r, t)"
  obtains (ok) fs where "r = Inr ()" "t = f (put fs s)"
    | (before) fs m where "r = Inl (OsError m)" "t = put fs s"
    | (after) fs m where "r = Inl (OsError m)" "t = f (put fs s)"
proof (cases "faults s")
  case Nil
  with assms have "r = Inr ()" "t = f s" by (auto simp: fault_call_def)
  then show thesis using ok [of "faults s"] by (simp only: put_same)
next
  case (Cons a fs)
  with assms show thesis by (cases a) (auto simp: fault_call_def intro: that)
qed

lemma call_success: "faults s = [] \<Longrightarrow> fault_call faults put f s = (Inr (), f s)"
  by (simp add: fault_call_def)

lemma call_frame:
  assumes "\<And>s fs. R s (put fs s)" "\<And>s fs. R s (f (put fs s))"
  shows "io_rel R (fault_call faults put f)"
proof (rule io_relI)
  fix s
  obtain r t where c: "fault_call faults put f s = (r, t)" by (cases "fault_call faults put f s")
  then show "R s (snd (fault_call faults put f s))"
    by (cases rule: call_cases) (use assms c in auto)
qed

end

section \<open>Evaluation\<close>

text \<open>
  The kernel evaluates a computation only when it is given a state: with the equations below a continuation
  is not unfolded before its argument is known.
\<close>

fun io_resume :: "'a res \<times> 's \<Rightarrow> ('a \<Rightarrow> ('s, 'b) io) \<Rightarrow> 'b res \<times> 's" where
  "io_resume (Inl e, t) f = (Inl e, t)"
| "io_resume (Inr x, t) f = f x t"

fun io_follow :: "'a res \<times> 's \<Rightarrow> ('s, 'b) io \<Rightarrow> 'b res \<times> 's" where
  "io_follow (Inl e, t) n = (Inl e, t)"
| "io_follow (Inr x, t) n = n t"

lemma io_bind_code [code]: "io_bind m f s = io_resume (m s) f"
  unfolding io_bind_def by (cases "m s"; cases "fst (m s)") auto

lemma io_then_code [code]: "io_then m n s = io_follow (m s) n"
  unfolding io_then_def io_bind_def by (cases "m s"; cases "fst (m s)") auto

lemma io_codes [code]:
  "io_ok x s = (Inr x, s)" "io_err e s = (Inl e, s)" "io_fail f as s = (Inl (Errorf f as), s)"
  "io_get g s = (Inr (g s), s)" "io_lift r s = (r, s)" "io_when c m s = (if c then m s else (Inr (), s))"
  by (simp_all add: io_ok_def io_err_def io_fail_def io_get_def io_lift_def io_when_def)

lemma io_need_code [code]: "io_need None s = (Inr (), s)" "io_need (Some x) s = (Inl x, s)"
  by (simp_all add: io_need_def)

lemma io_reject_code [code]: "io_reject c f as s = (if c then (Inl (Errorf f as), s) else (Inr (), s))"
  by (simp add: io_reject_def io_need_def reject_def)

lemma run_outcome: "fst p = r \<Longrightarrow> p = (r, snd p)"
  by (cases p) simp

end
