(* ===== verification/Go_Strings.thy ===== *)
theory Go_Strings
  imports Prelude
begin

text \<open>
  The functions of Go's \<^verbatim>\<open>strings\<close> package that the sources call. A Go string is its list of bytes.
  \<open>TrimSpace\<close> and \<open>Fields\<close> treat as white space exactly the UTF-8 encodings of the code points for which
  \<^verbatim>\<open>unicode.IsSpace\<close> holds; \<open>ToLower\<close> and \<open>EqualFold\<close> fold the ASCII letters and leave every other byte
  as it is.
\<close>

section \<open>Prefixes and suffixes\<close>

fun strip_prefix :: "'a list \<Rightarrow> 'a list \<Rightarrow> 'a list option" where
  "strip_prefix [] s = Some s"
| "strip_prefix (p # ps) [] = None"
| "strip_prefix (p # ps) (c # cs) = (if p = c then strip_prefix ps cs else None)"

definition CutPrefix :: "string \<Rightarrow> string \<Rightarrow> string option" where
  "CutPrefix s p = strip_prefix p s"

definition HasPrefix :: "string \<Rightarrow> string \<Rightarrow> bool" where
  "HasPrefix s p \<longleftrightarrow> strip_prefix p s \<noteq> None"

definition HasSuffix :: "string \<Rightarrow> string \<Rightarrow> bool" where
  "HasSuffix s p \<longleftrightarrow> strip_prefix (rev p) (rev s) \<noteq> None"

definition TrimPrefix :: "string \<Rightarrow> string \<Rightarrow> string" where
  "TrimPrefix s p = (case strip_prefix p s of None \<Rightarrow> s | Some r \<Rightarrow> r)"

definition TrimSuffix :: "string \<Rightarrow> string \<Rightarrow> string" where
  "TrimSuffix s p = (case strip_prefix (rev p) (rev s) of None \<Rightarrow> s | Some r \<Rightarrow> rev r)"

lemma strip_prefix_Some: "strip_prefix p s = Some r \<longleftrightarrow> s = p @ r"
  by (induction p s rule: strip_prefix.induct) auto

lemma strip_prefix_None: "strip_prefix p s = None \<longleftrightarrow> (\<forall>r. s \<noteq> p @ r)"
  by (metis not_None_eq option.distinct(1) strip_prefix_Some)

lemma strip_prefix_append [simp]: "strip_prefix p (p @ r) = Some r"
  by (simp add: strip_prefix_Some)

lemma HasPrefix_iff: "HasPrefix s p \<longleftrightarrow> (\<exists>r. s = p @ r)"
  by (auto simp: HasPrefix_def strip_prefix_Some)

lemma HasSuffix_iff: "HasSuffix s p \<longleftrightarrow> (\<exists>r. s = r @ p)"
proof -
  have "HasSuffix s p \<longleftrightarrow> (\<exists>r. rev s = rev p @ r)"
    by (auto simp: HasSuffix_def strip_prefix_Some)
  also have "\<dots> \<longleftrightarrow> (\<exists>r. s = r @ p)"
    by (metis rev_append rev_rev_ident)
  finally show ?thesis .
qed

lemma HasPrefix_append [simp]: "HasPrefix (p @ r) p"
  by (auto simp: HasPrefix_iff)

lemma HasPrefix_refl [simp]: "HasPrefix s s"
  by (metis HasPrefix_iff append_Nil2)

lemma HasPrefix_trans: "HasPrefix a b \<Longrightarrow> HasPrefix b c \<Longrightarrow> HasPrefix a c"
  by (auto simp: HasPrefix_iff)

lemma CutPrefix_Some: "CutPrefix s p = Some r \<longleftrightarrow> s = p @ r"
  by (simp add: CutPrefix_def strip_prefix_Some)

lemma CutPrefix_HasPrefix: "CutPrefix s p = None \<longleftrightarrow> \<not> HasPrefix s p"
  by (simp add: CutPrefix_def HasPrefix_def)

lemma TrimPrefix_append [simp]: "TrimPrefix (p @ r) p = r"
  by (simp add: TrimPrefix_def)

section \<open>White space\<close>

definition space_encodings :: "string list" where
  "space_encodings =
     [[CHR 0x09], [CHR 0x0A], [CHR 0x0B], [CHR 0x0C], [CHR 0x0D], [CHR 0x20],
      [CHR 0xC2, CHR 0x85], [CHR 0xC2, CHR 0xA0], [CHR 0xE1, CHR 0x9A, CHR 0x80],
      [CHR 0xE2, CHR 0x80, CHR 0x80], [CHR 0xE2, CHR 0x80, CHR 0x81],
      [CHR 0xE2, CHR 0x80, CHR 0x82], [CHR 0xE2, CHR 0x80, CHR 0x83],
      [CHR 0xE2, CHR 0x80, CHR 0x84], [CHR 0xE2, CHR 0x80, CHR 0x85],
      [CHR 0xE2, CHR 0x80, CHR 0x86], [CHR 0xE2, CHR 0x80, CHR 0x87],
      [CHR 0xE2, CHR 0x80, CHR 0x88], [CHR 0xE2, CHR 0x80, CHR 0x89],
      [CHR 0xE2, CHR 0x80, CHR 0x8A], [CHR 0xE2, CHR 0x80, CHR 0xA8],
      [CHR 0xE2, CHR 0x80, CHR 0xA9], [CHR 0xE2, CHR 0x80, CHR 0xAF],
      [CHR 0xE2, CHR 0x81, CHR 0x9F], [CHR 0xE3, CHR 0x80, CHR 0x80]]"

fun strip_any :: "string list \<Rightarrow> string \<Rightarrow> string option" where
  "strip_any [] s = None"
| "strip_any (e # es) s = (case strip_prefix e s of Some r \<Rightarrow> Some r | None \<Rightarrow> strip_any es s)"

function trim_with :: "string list \<Rightarrow> string \<Rightarrow> string" where
  "trim_with es s =
     (case strip_any es s of
        None \<Rightarrow> s
      | Some r \<Rightarrow> if length r < length s then trim_with es r else s)"
  by pat_completeness auto
termination
  by (relation "measure (\<lambda>(es, s). length s)") auto

declare trim_with.simps [simp del]

definition TrimSpace :: "string \<Rightarrow> string" where
  "TrimSpace s = rev (trim_with (map rev space_encodings) (rev (trim_with space_encodings s)))"

lemma strip_any_Some: "strip_any es s = Some r \<Longrightarrow> \<exists>e \<in> set es. s = e @ r"
  by (induction es) (auto simp: strip_prefix_Some split: option.splits)

lemma strip_any_None: "strip_any es s = None \<longleftrightarrow> (\<forall>e \<in> set es. \<forall>r. s \<noteq> e @ r)"
  by (induction es) (auto simp: strip_prefix_None split: option.splits, auto simp: strip_prefix_Some)

lemma trim_with_suffix: "\<exists>p. s = p @ trim_with es s"
proof (induction es s rule: trim_with.induct)
  case (1 es s)
  show ?case
  proof (cases "strip_any es s")
    case None
    then show ?thesis by (simp add: trim_with.simps)
  next
    case (Some r)
    then obtain e where e: "s = e @ r" using strip_any_Some by blast
    show ?thesis
    proof (cases "length r < length s")
      case True
      with "1.IH" Some obtain p where "r = p @ trim_with es r" by blast
      moreover have "trim_with es s = trim_with es r"
        using True Some by (subst trim_with.simps) simp
      ultimately have "s = (e @ p) @ trim_with es s"
        using e by simp
      then show ?thesis by blast
    qed (simp add: Some trim_with.simps [of es s])
  qed
qed

lemma trim_with_stuck: "[] \<notin> set es \<Longrightarrow> strip_any es (trim_with es s) = None"
proof (induction es s rule: trim_with.induct)
  case (1 es s)
  show ?case
  proof (cases "strip_any es s")
    case None
    then show ?thesis by (simp add: trim_with.simps [of es s])
  next
    case (Some r)
    then obtain e where "e \<in> set es" "s = e @ r" using strip_any_Some by blast
    with "1.prems" have lt: "length r < length s" by (cases e) auto
    with "1.IH" [OF Some lt "1.prems"] Some show ?thesis
      by (simp add: trim_with.simps [of es s])
  qed
qed

lemma trim_with_id: "strip_any es s = None \<Longrightarrow> trim_with es s = s"
  by (simp add: trim_with.simps)

lemma space_encodings_nonempty [simp]: "[] \<notin> set space_encodings" "[] \<notin> rev ` set space_encodings"
  by (simp_all add: space_encodings_def)

lemma strip_any_prefix_None: "strip_any es (s @ t) = None \<Longrightarrow> strip_any es s = None"
  by (force simp: strip_any_None)

text \<open>A string is trimmed when it neither starts nor ends with an encoded white space.\<close>

definition trimmed :: "string \<Rightarrow> bool" where
  "trimmed s \<longleftrightarrow> strip_any space_encodings s = None \<and>
     strip_any (map rev space_encodings) (rev s) = None"

lemma TrimSpace_trimmed: "trimmed (TrimSpace s)"
proof -
  let ?l = "trim_with space_encodings s"
  let ?r = "trim_with (map rev space_encodings) (rev ?l)"
  obtain p where p: "rev ?l = p @ ?r" using trim_with_suffix by blast
  then have "?l = rev ?r @ rev p" by (metis rev_append rev_rev_ident)
  moreover have "strip_any space_encodings ?l = None"
    by (rule trim_with_stuck) simp
  ultimately have "strip_any space_encodings (rev ?r) = None"
    by (metis strip_any_prefix_None)
  moreover have "strip_any (map rev space_encodings) ?r = None"
    by (rule trim_with_stuck) simp
  ultimately show ?thesis by (simp add: trimmed_def TrimSpace_def)
qed

lemma TrimSpace_id: "trimmed s \<Longrightarrow> TrimSpace s = s"
  by (simp add: trimmed_def TrimSpace_def trim_with_id)

lemma TrimSpace_idem [simp]: "TrimSpace (TrimSpace s) = TrimSpace s"
  by (simp add: TrimSpace_id TrimSpace_trimmed)

lemma trimmed_iff: "trimmed s \<longleftrightarrow> TrimSpace s = s"
  by (metis TrimSpace_id TrimSpace_trimmed)

lemma TrimSpace_Nil [simp]: "TrimSpace [] = []"
  by (rule TrimSpace_id) (simp add: trimmed_def space_encodings_def)

lemma TrimSpace_sublist: "\<exists>p q. s = p @ TrimSpace s @ q"
proof -
  let ?l = "trim_with space_encodings s"
  obtain p where p: "s = p @ ?l" using trim_with_suffix by blast
  obtain q where "rev ?l = q @ trim_with (map rev space_encodings) (rev ?l)"
    using trim_with_suffix by blast
  then have "?l = TrimSpace s @ rev q"
    by (metis TrimSpace_def rev_append rev_rev_ident)
  with p show ?thesis by metis
qed

lemma set_TrimSpace: "set (TrimSpace s) \<subseteq> set s"
proof -
  obtain p q where "s = p @ TrimSpace s @ q" using TrimSpace_sublist by blast
  then show ?thesis by (metis Un_iff set_append subsetI)
qed

section \<open>Splitting into fields\<close>

function fields_go :: "string \<Rightarrow> string \<Rightarrow> string list" where
  "fields_go cur [] = (if cur = [] then [] else [cur])"
| "fields_go cur (c # cs) =
     (case strip_any space_encodings (c # cs) of
        Some r \<Rightarrow> (if cur = [] then [] else [cur]) @ (if length r < length (c # cs) then fields_go [] r else [])
      | None \<Rightarrow> fields_go (cur @ [c]) cs)"
  by pat_completeness auto
termination
  by (relation "measure (\<lambda>(cur, s). length s)") auto

definition Fields :: "string \<Rightarrow> string list" where
  "Fields s = fields_go [] s"

text \<open>A token is free of white space when no encoded white space starts at any position of it.\<close>

fun space_free :: "string \<Rightarrow> bool" where
  "space_free [] = True"
| "space_free (c # cs) = (strip_any space_encodings (c # cs) = None \<and> space_free cs)"

lemma space_encodings_blank_check:
  "list_all (\<lambda>e. e = [CHR 0x20] \<or> CHR 0x20 \<notin> set e) space_encodings"
  by code_simp

lemma space_encodings_no_blank:
  "e \<in> set space_encodings \<Longrightarrow> e = [CHR 0x20] \<or> CHR 0x20 \<notin> set e"
  using space_encodings_blank_check by (simp add: list_all_iff)

lemma space_prefix_before_blank:
  assumes e: "e \<in> set space_encodings" and eq: "s @ CHR 0x20 # t = e @ r" and ne: "s \<noteq> []"
  shows "\<exists>q. s = e @ q"
proof -
  from eq obtain us where us: "s = e @ us \<or> s @ us = e \<and> CHR 0x20 # t = us @ r"
    unfolding append_eq_append_conv2 by blast
  show ?thesis
  proof (cases "s = e @ us")
    case True
    then show ?thesis by blast
  next
    case False
    with us have long: "s @ us = e" "CHR 0x20 # t = us @ r" by auto
    with False have "CHR 0x20 \<in> set e" by (cases us) auto
    with space_encodings_no_blank [OF e] long ne show ?thesis by (cases s) auto
  qed
qed

lemma fields_go_token:
  "space_free tok \<Longrightarrow> fields_go cur (tok @ CHR 0x20 # rest) = fields_go (cur @ tok) (CHR 0x20 # rest)"
proof (induction tok arbitrary: cur)
  case Nil
  then show ?case by simp
next
  case (Cons c cs)
  have "strip_any space_encodings ((c # cs) @ CHR 0x20 # rest) = None"
  proof (rule ccontr)
    assume "strip_any space_encodings ((c # cs) @ CHR 0x20 # rest) \<noteq> None"
    then obtain e r where "e \<in> set space_encodings" "(c # cs) @ CHR 0x20 # rest = e @ r"
      using strip_any_Some by blast
    with space_prefix_before_blank obtain q where "c # cs = e @ q" by blast
    moreover have "strip_any space_encodings (c # cs) = None" using Cons.prems by simp
    ultimately show False using \<open>e \<in> set space_encodings\<close> by (metis strip_any_None)
  qed
  then have "fields_go cur ((c # cs) @ CHR 0x20 # rest) = fields_go (cur @ [c]) (cs @ CHR 0x20 # rest)"
    by simp
  also have "\<dots> = fields_go ((cur @ [c]) @ cs) (CHR 0x20 # rest)"
    using Cons by (simp del: fields_go.simps)
  finally show ?case by (simp del: fields_go.simps)
qed

lemma fields_go_last: "space_free tok \<Longrightarrow> cur @ tok \<noteq> [] \<Longrightarrow> fields_go cur tok = [cur @ tok]"
  by (induction tok arbitrary: cur) auto

lemma fields_go_blank: "fields_go cur (CHR 0x20 # rest) = (if cur = [] then [] else [cur]) @ fields_go [] rest"
proof -
  have "strip_any space_encodings (CHR 0x20 # rest) = Some rest"
    by (simp add: space_encodings_def)
  then show ?thesis by simp
qed

section \<open>Joining\<close>

fun Join :: "string list \<Rightarrow> string \<Rightarrow> string" where
  "Join [] sep = []"
| "Join [x] sep = x"
| "Join (x # y # xs) sep = x @ sep @ Join (y # xs) sep"

text \<open>\<open>strings.Fields\<close> inverts joining with single blanks.\<close>

lemma Fields_Join:
  "\<forall>tok \<in> set toks. tok \<noteq> [] \<and> space_free tok \<Longrightarrow> Fields (Join toks '' '') = toks"
proof (induction toks "'' ''" rule: Join.induct)
  case 1
  then show ?case by (simp add: Fields_def)
next
  case (2 x)
  then show ?case by (simp add: Fields_def fields_go_last)
next
  case (3 x y xs)
  then have "Fields (Join (y # xs) '' '') = y # xs" by simp
  moreover have "fields_go [] (x @ CHR 0x20 # Join (y # xs) '' '')
      = x # fields_go [] (Join (y # xs) '' '')"
    using 3 fields_go_token [of x "[]" "Join (y # xs) '' ''"] fields_go_blank [of x "Join (y # xs) '' ''"]
    by (simp del: fields_go.simps)
  ultimately show ?case by (simp add: Fields_def)
qed

section \<open>Searching, case and replacement\<close>

definition ContainsAny :: "string \<Rightarrow> string \<Rightarrow> bool" where
  "ContainsAny s chars \<longleftrightarrow> list_ex (\<lambda>c. c \<in> set chars) s"

fun Contains :: "string \<Rightarrow> string \<Rightarrow> bool" where
  "Contains [] p = (p = [])"
| "Contains (c # cs) p = (HasPrefix (c # cs) p \<or> Contains cs p)"

text \<open>
  Go folds all of Unicode. A byte outside ASCII is left alone here, so that the two agree on ASCII strings, which is what the sources
  compare in this way: digests in hexadecimal, whose letters have no counterpart outside ASCII, and names of phases, kinds and
  interfaces.
\<close>

definition lower_char :: "char \<Rightarrow> char" where
  "lower_char c = (if CHR ''A'' \<le> c \<and> c \<le> CHR ''Z'' then char_of (of_char c + 32 :: nat) else c)"

definition ToLower :: "string \<Rightarrow> string" where
  "ToLower s = map lower_char s"

definition EqualFold :: "string \<Rightarrow> string \<Rightarrow> bool" where
  "EqualFold s t \<longleftrightarrow> ToLower s = ToLower t"

text \<open>\<open>strings.ReplaceAll\<close> of a single byte.\<close>

definition ReplaceByte :: "char \<Rightarrow> char \<Rightarrow> string \<Rightarrow> string" where
  "ReplaceByte a b s = map (\<lambda>c. if c = a then b else c) s"

definition blank_chars :: string where
  "blank_chars = [CHR 0x20, CHR 0x09, CHR 0x0A, CHR 0x0D]"

definition hexDigit :: "char \<Rightarrow> bool" where
  "hexDigit c \<longleftrightarrow> CHR ''0'' \<le> c \<and> c \<le> CHR ''9'' \<or> CHR ''a'' \<le> c \<and> c \<le> CHR ''f'' \<or>
     CHR ''A'' \<le> c \<and> c \<le> CHR ''F''"

text \<open>\<open>hex.DecodeString\<close> accepts an even number of hexadecimal digits of either case.\<close>

definition hexDecodes :: "string \<Rightarrow> bool" where
  "hexDecodes s \<longleftrightarrow> even (length s) \<and> list_all hexDigit s"

definition parse_digits :: "string \<Rightarrow> int option" where
  "parse_digits s =
     (if s = [] \<or> \<not> list_all (\<lambda>c. CHR ''0'' \<le> c \<and> c \<le> CHR ''9'') s then None
      else Some (foldl (\<lambda>n c. 10 * n + (of_char c - 48)) 0 s))"

text \<open>\<^verbatim>\<open>strconv.ParseInt\<close> in base 10 at 64 bits: an optional sign, digits, and the range of the type.\<close>

definition ParseInt64 :: "string \<Rightarrow> int res" where
  "ParseInt64 s =
     (let (neg, ds) = (case s of [] \<Rightarrow> (False, [])
                       | c # rest \<Rightarrow> if c = CHR ''-'' then (True, rest) else if c = CHR ''+'' then (False, rest) else (False, s))
      in case parse_digits ds of
           None \<Rightarrow> fail ''invalid syntax'' []
         | Some n \<Rightarrow>
             let v = (if neg then - n else n)
             in if v < - (2 ^ 63) \<or> v > 2 ^ 63 - 1 then fail ''value out of range'' [] else Inr v)"

lemma ContainsAny_iff: "ContainsAny s chars \<longleftrightarrow> set s \<inter> set chars \<noteq> {}"
  by (auto simp: ContainsAny_def list_ex_iff)

lemma EqualFold_refl [simp]: "EqualFold s s"
  by (simp add: EqualFold_def)

lemma EqualFold_sym: "EqualFold s t \<Longrightarrow> EqualFold t s"
  by (simp add: EqualFold_def)

lemma EqualFold_trans: "EqualFold s t \<Longrightarrow> EqualFold t u \<Longrightarrow> EqualFold s u"
  by (simp add: EqualFold_def)

section \<open>Evaluation\<close>

text \<open>Equations on the bits of a byte, by which the kernel evaluates the functions above on literals.\<close>

definition graphic :: "char \<Rightarrow> bool" where
  "graphic c \<longleftrightarrow> CHR 0x21 \<le> c \<and> c \<le> CHR 0x7F"

lemma graphic_code [code]:
  "graphic (Char b0 b1 b2 b3 b4 b5 b6 b7) \<longleftrightarrow> \<not> b7 \<and> (b6 \<or> b5 \<and> (b4 \<or> b3 \<or> b2 \<or> b1 \<or> b0))"
  by (cases b0; cases b1; cases b2; cases b3; cases b4; cases b5; cases b6; cases b7)
     (simp_all add: graphic_def less_eq_char_def)

lemma lower_char_code [code]:
  "lower_char (Char b0 b1 b2 b3 b4 b5 b6 b7) =
     (if b6 \<and> \<not> b5 \<and> \<not> b7 \<and> (b0 \<or> b1 \<or> b2 \<or> b3 \<or> b4) \<and> \<not> (b4 \<and> b3 \<and> (b2 \<or> b1 \<and> b0))
      then Char b0 b1 b2 b3 b4 True b6 b7 else Char b0 b1 b2 b3 b4 b5 b6 b7)"
  by (cases b0; cases b1; cases b2; cases b3; cases b4; cases b5; cases b6; cases b7)
     (simp_all add: lower_char_def less_eq_char_def char_of_def bit_0)

lemma hexDigit_code [code]:
  "hexDigit (Char b0 b1 b2 b3 b4 b5 b6 b7) \<longleftrightarrow>
     \<not> b7 \<and> (\<not> b6 \<and> b5 \<and> b4 \<and> \<not> (b3 \<and> (b2 \<or> b1)) \<or> b6 \<and> \<not> b4 \<and> \<not> b3 \<and> (b0 \<or> b1 \<or> b2) \<and> \<not> (b0 \<and> b1 \<and> b2))"
  by (cases b0; cases b1; cases b2; cases b3; cases b4; cases b5; cases b6; cases b7)
     (simp_all add: hexDigit_def less_eq_char_def)

lemma hexDecodes_code [code]:
  "hexDecodes [] \<longleftrightarrow> True" "hexDecodes [c] \<longleftrightarrow> False"
  "hexDecodes (c # d # s) \<longleftrightarrow> hexDigit c \<and> hexDigit d \<and> hexDecodes s"
  by (auto simp: hexDecodes_def)

lemma space_encodings_ends:
  "e \<in> set space_encodings \<Longrightarrow> e \<noteq> [] \<and> \<not> graphic (hd e) \<and> \<not> graphic (last e)"
  by (auto simp: space_encodings_def graphic_def less_eq_char_def)

lemma trimmed_graphic: "graphic (hd s) \<Longrightarrow> graphic (last s) \<Longrightarrow> TrimSpace s = s"
proof -
  assume g: "graphic (hd s)" "graphic (last s)"
  have "s \<noteq> e @ r \<and> rev s \<noteq> rev e @ r" if "e \<in> set space_encodings" for e r
  proof -
    note e = space_encodings_ends [OF that]
    have "rev s = rev e @ r \<Longrightarrow> s = rev r @ e" by (metis rev_append rev_rev_ident)
    with e g show ?thesis by (metis hd_append2 last_appendR)
  qed
  then have "strip_any space_encodings s = None" "strip_any (map rev space_encodings) (rev s) = None"
    by (auto simp: strip_any_None)
  then show ?thesis by (simp add: TrimSpace_def trim_with.simps)
qed

lemma TrimSpace_code [code]:
  "TrimSpace s =
     (if s = [] then []
      else if graphic (hd s) \<and> graphic (last s) then s
      else rev (trim_with (map rev space_encodings) (rev (trim_with space_encodings s))))"
  using trimmed_graphic [of s] by (cases "s = []"; cases "graphic (hd s) \<and> graphic (last s)") (auto simp: TrimSpace_Nil, auto simp: TrimSpace_def)

end
