(* ===== verification/Go_Path.thy ===== *)
theory Go_Path
  imports Go_Strings
begin

text \<open>
  Go's lexical path functions on a slash-separated system: \<^verbatim>\<open>path.Clean\<close>, \<^verbatim>\<open>filepath.Join\<close>, \<^verbatim>\<open>Base\<close>, \<^verbatim>\<open>Dir\<close>,
  \<^verbatim>\<open>Ext\<close> and \<^verbatim>\<open>IsAbs\<close>. The lemmas show that a cleaned rooted path has no dot components, so a path below
  a directory cannot leave it.
\<close>

section \<open>Components\<close>

fun split_slash :: "string \<Rightarrow> string list" where
  "split_slash [] = [[]]"
| "split_slash (c # cs) =
     (if c = CHR ''/'' then [] # split_slash cs
      else (case split_slash cs of [] \<Rightarrow> [[c]] | w # ws \<Rightarrow> (c # w) # ws))"

text \<open>The output stack of \<open>Clean\<close> is kept in reverse.\<close>

fun clean_comps :: "bool \<Rightarrow> string list \<Rightarrow> string list \<Rightarrow> string list" where
  "clean_comps rooted acc [] = rev acc"
| "clean_comps rooted acc (c # cs) =
     (if c = [] \<or> c = ''.'' then clean_comps rooted acc cs
      else if c = ''..'' then
        (case acc of
           [] \<Rightarrow> if rooted then clean_comps rooted [] cs else clean_comps rooted [''..''] cs
         | tp # rest \<Rightarrow> if tp = ''..'' then clean_comps rooted (''..'' # acc) cs
                         else clean_comps rooted rest cs)
      else clean_comps rooted (c # acc) cs)"

definition IsAbs :: "string \<Rightarrow> bool" where
  "IsAbs p = HasPrefix p ''/''"

definition Clean :: "string \<Rightarrow> string" where
  "Clean p =
     (if p = [] then ''.''
      else let body = Join (clean_comps (IsAbs p) [] (split_slash p)) ''/''
           in if IsAbs p then CHR ''/'' # body else if body = [] then ''.'' else body)"

definition PathJoin :: "string list \<Rightarrow> string" where
  "PathJoin elems = (case filter (\<lambda>e. e \<noteq> []) elems of [] \<Rightarrow> [] | es \<Rightarrow> Clean (Join es ''/''))"

definition trim_slashes :: "string \<Rightarrow> string" where
  "trim_slashes p = rev (dropWhile (\<lambda>c. c = CHR ''/'') (rev p))"

definition Base :: "string \<Rightarrow> string" where
  "Base p =
     (if p = [] then ''.''
      else if trim_slashes p = [] then ''/''
      else last (split_slash (trim_slashes p)))"

definition Dir :: "string \<Rightarrow> string" where
  "Dir p = Clean (rev (dropWhile (\<lambda>c. c \<noteq> CHR ''/'') (rev p)))"

definition Ext :: "string \<Rightarrow> string" where
  "Ext p =
     (let final = last (split_slash p)
      in if CHR ''.'' \<in> set final
         then CHR ''.'' # rev (takeWhile (\<lambda>c. c \<noteq> CHR ''.'') (rev final)) else [])"

section \<open>Facts on components\<close>

lemma split_slash_nonempty [simp]: "split_slash s \<noteq> []"
  by (induction s) (auto split: list.splits)

lemma split_slash_no_slash: "w \<in> set (split_slash s) \<Longrightarrow> CHR ''/'' \<notin> set w"
  by (induction s arbitrary: w) (auto split: list.splits if_splits)

lemma split_slash_id: "CHR ''/'' \<notin> set s \<Longrightarrow> split_slash s = [s]"
  by (induction s) auto

lemma split_slash_append: "split_slash (a @ CHR ''/'' # b) = split_slash a @ split_slash b"
  by (induction a) (auto split: list.splits)

lemma split_slash_Join:
  "ws \<noteq> [] \<Longrightarrow> \<forall>w \<in> set ws. CHR ''/'' \<notin> set w \<Longrightarrow> split_slash (Join ws ''/'') = ws"
  by (induction ws "''/''" rule: Join.induct) (auto simp: split_slash_id split_slash_append)

text \<open>The components a cleaned path is made of.\<close>

definition plain_comp :: "string \<Rightarrow> bool" where
  "plain_comp w \<longleftrightarrow> w \<noteq> [] \<and> w \<noteq> ''.'' \<and> w \<noteq> ''..'' \<and> CHR ''/'' \<notin> set w"

lemma clean_comps_rooted_plain:
  "\<forall>w \<in> set acc. plain_comp w \<Longrightarrow> \<forall>w \<in> set cs. CHR ''/'' \<notin> set w \<Longrightarrow>
   w \<in> set (clean_comps True acc cs) \<Longrightarrow> plain_comp w"
proof (induction "True" acc cs rule: clean_comps.induct)
  case (2 acc c cs)
  then show ?case
    by (auto split: if_splits list.splits) (auto simp: plain_comp_def)
qed auto

lemma clean_comps_plain_id:
  "\<forall>w \<in> set cs. plain_comp w \<Longrightarrow> clean_comps rooted acc cs = rev acc @ cs"
  by (induction cs arbitrary: acc) (auto simp: plain_comp_def)

text \<open>The invariant of the stack of a relative path: leading \<open>..\<close> components, then plain ones.\<close>

definition rel_stack :: "string list \<Rightarrow> bool" where
  "rel_stack acc \<longleftrightarrow> (\<exists>ps n. acc = ps @ replicate n ''..'' \<and> (\<forall>w \<in> set ps. plain_comp w))"

lemma rel_stack_push: "rel_stack acc \<Longrightarrow> plain_comp c \<Longrightarrow> rel_stack (c # acc)"
  unfolding rel_stack_def by (metis append_Cons set_ConsD)

lemma rel_stack_dots: "rel_stack (''..'' # acc) \<Longrightarrow> rel_stack (''..'' # ''..'' # acc)"
proof -
  assume "rel_stack (''..'' # acc)"
  then obtain ps n where eq: "''..'' # acc = ps @ replicate n ''..''" and ps: "\<forall>w \<in> set ps. plain_comp w"
    by (auto simp: rel_stack_def)
  then have "ps = []" by (cases ps) (auto simp: plain_comp_def)
  with eq have "''..'' # ''..'' # acc = [] @ replicate (Suc n) ''..''" by simp
  then show ?thesis unfolding rel_stack_def by (metis empty_iff empty_set)
qed

lemma rel_stack_pop: "rel_stack (tp # rest) \<Longrightarrow> rel_stack rest"
proof -
  assume "rel_stack (tp # rest)"
  then obtain ps n where eq: "tp # rest = ps @ replicate n ''..''" and ps: "\<forall>w \<in> set ps. plain_comp w"
    by (auto simp: rel_stack_def)
  show ?thesis
  proof (cases ps)
    case Nil
    with eq have "rest = [] @ replicate (n - 1) ''..''" by (cases n) auto
    then show ?thesis unfolding rel_stack_def by (metis empty_iff empty_set)
  next
    case (Cons a list)
    with eq ps show ?thesis unfolding rel_stack_def by (metis append_Cons list.inject list.set_intros(2))
  qed
qed

lemma rel_stack_Nil: "rel_stack []" "rel_stack [''..'']"
  unfolding rel_stack_def
  by (metis append_Nil empty_iff empty_set replicate_0)
     (metis append_Nil empty_iff empty_set replicate_0 replicate_Suc One_nat_def)

lemma clean_comps_rel_stack:
  "rel_stack acc \<Longrightarrow> \<forall>w \<in> set cs. CHR ''/'' \<notin> set w \<Longrightarrow> rel_stack (rev (clean_comps False acc cs))"
proof (induction "False" acc cs rule: clean_comps.induct)
  case (2 acc c cs)
  have c: "plain_comp c" if "c \<noteq> []" "c \<noteq> ''.''" "c \<noteq> ''..''"
    using that 2 by (simp add: plain_comp_def)
  from 2 c show ?case
    by (auto split: list.splits intro: rel_stack_push rel_stack_dots rel_stack_Nil dest: rel_stack_pop)
qed simp

lemma clean_comps_dots:
  "clean_comps False (replicate k ''..'') (replicate n ''..'' @ cs) = clean_comps False (replicate (n + k) ''..'') cs"
proof (induction n arbitrary: k)
  case (Suc n)
  have "clean_comps False (replicate k ''..'') (replicate (Suc n) ''..'' @ cs)
      = clean_comps False (replicate (Suc k) ''..'') (replicate n ''..'' @ cs)"
    by (cases k) simp_all
  with Suc [of "Suc k"] show ?case by simp
qed simp

lemma clean_comps_idem:
  assumes "\<forall>w \<in> set cs. CHR ''/'' \<notin> set w"
  shows "clean_comps rooted [] (clean_comps rooted [] cs) = clean_comps rooted [] cs"
proof (cases rooted)
  case True
  then have "\<forall>w \<in> set (clean_comps rooted [] cs). plain_comp w"
    using clean_comps_rooted_plain [of "[]" cs] assms by simp
  then show ?thesis by (simp add: clean_comps_plain_id)
next
  case False
  then obtain ps n where eq: "rev (clean_comps rooted [] cs) = ps @ replicate n ''..''"
      and ps: "\<forall>w \<in> set ps. plain_comp w"
    using clean_comps_rel_stack [of "[]" cs] assms rel_stack_Nil by (auto simp: rel_stack_def)
  then have r: "clean_comps rooted [] cs = replicate n ''..'' @ rev ps"
    by (metis rev_append rev_replicate rev_rev_ident)
  with False ps show ?thesis
    using clean_comps_dots [of 0 n "rev ps"] by (simp add: clean_comps_plain_id)
qed


section \<open>Cleaned paths\<close>

lemma IsAbs_Cons: "IsAbs (CHR ''/'' # r)"
  by (simp add: IsAbs_def HasPrefix_iff)

lemma IsAbs_iff: "IsAbs p \<longleftrightarrow> (\<exists>r. p = CHR ''/'' # r)"
  by (simp add: IsAbs_def HasPrefix_iff)

lemma clean_comps_no_slash:
  assumes "\<forall>w \<in> set cs. CHR ''/'' \<notin> set w" "w \<in> set (clean_comps rooted [] cs)"
  shows "CHR ''/'' \<notin> set w"
proof (cases rooted)
  case True
  then show ?thesis using clean_comps_rooted_plain [of "[]" cs w] assms by (simp add: plain_comp_def)
next
  case False
  then obtain ps n where "rev (clean_comps rooted [] cs) = ps @ replicate n ''..''" "\<forall>w \<in> set ps. plain_comp w"
    using clean_comps_rel_stack [of "[]" cs] assms rel_stack_Nil by (auto simp: rel_stack_def)
  then have "w \<in> set ps \<or> w = ''..''"
    using assms(2) set_rev [of "clean_comps rooted [] cs"] by (auto split: if_splits)
  moreover have "w \<in> set ps \<Longrightarrow> CHR ''/'' \<notin> set w"
    using \<open>\<forall>w \<in> set ps. plain_comp w\<close> by (simp add: plain_comp_def)
  moreover have "CHR ''/'' \<notin> set ''..''" by simp
  ultimately show ?thesis by metis
qed

text \<open>The components of a path, after cleaning.\<close>

definition comps :: "string \<Rightarrow> string list" where
  "comps p = clean_comps (IsAbs p) [] (split_slash p)"

lemma comps_no_slash: "w \<in> set (comps p) \<Longrightarrow> CHR ''/'' \<notin> set w"
  using clean_comps_no_slash [of "split_slash p" w "IsAbs p"] split_slash_no_slash [of _ p]
  by (simp add: comps_def)

lemma comps_rooted_plain: "IsAbs p \<Longrightarrow> w \<in> set (comps p) \<Longrightarrow> plain_comp w"
  using clean_comps_rooted_plain [of "[]" "split_slash p" w] split_slash_no_slash
  by (auto simp: comps_def)

lemma comps_nonempty_comp: "w \<in> set (comps p) \<Longrightarrow> w \<noteq> []"
proof -
  have "w \<in> set (clean_comps r a cs) \<Longrightarrow> [] \<notin> set a \<Longrightarrow> w \<noteq> []" for r a cs
    by (induction r a cs rule: clean_comps.induct) (auto split: if_splits list.splits)
  then show "w \<in> set (comps p) \<Longrightarrow> w \<noteq> []" by (force simp: comps_def)
qed

lemma Clean_rooted: "IsAbs p \<Longrightarrow> Clean p = CHR ''/'' # Join (comps p) ''/''"
  by (auto simp: Clean_def comps_def IsAbs_iff)

lemma Join_Nil_iff: "[] \<notin> set ws \<Longrightarrow> Join ws sep = [] \<longleftrightarrow> ws = []"
  by (induction ws sep rule: Join.induct) auto

lemma Clean_relative:
  "\<not> IsAbs p \<Longrightarrow> Clean p = (if comps p = [] then ''.'' else Join (comps p) ''/'')"
  using Join_Nil_iff [of "comps p"] comps_nonempty_comp [of "[]" p]
  by (auto simp: Clean_def comps_def Let_def)

lemma comps_of_rooted_Join:
  assumes "\<forall>w \<in> set ws. plain_comp w"
  shows "comps (CHR ''/'' # Join ws ''/'') = ws"
proof (cases "ws = []")
  case False
  then have "split_slash (Join ws ''/'') = ws"
    using assms by (intro split_slash_Join) (auto simp: plain_comp_def)
  then show ?thesis using assms by (simp add: comps_def IsAbs_Cons clean_comps_plain_id)
qed (simp add: comps_def IsAbs_Cons)

lemma Join_first: "ws \<noteq> [] \<Longrightarrow> \<exists>r. Join ws sep = hd ws @ r"
  by (induction ws sep rule: Join.induct) auto

lemma Clean_idem [simp]: "Clean (Clean p) = Clean p"
proof (cases "IsAbs p")
  case True
  then have "comps (Clean p) = comps p"
    using comps_of_rooted_Join [of "comps p"] comps_rooted_plain [OF True] by (simp add: Clean_rooted)
  with True show ?thesis by (simp add: Clean_rooted IsAbs_Cons)
next
  case False
  show ?thesis
  proof (cases "comps p = []")
    case True
    with False show ?thesis by (simp add: Clean_relative) (simp add: Clean_def IsAbs_def HasPrefix_def)
  next
    case ne: False
    obtain r where r: "Join (comps p) ''/'' = hd (comps p) @ r" using Join_first [OF ne] by blast
    have h: "hd (comps p) \<noteq> []" "CHR ''/'' \<notin> set (hd (comps p))"
      using ne comps_nonempty_comp [of _ p] comps_no_slash [of _ p] by (meson hd_in_set)+
    then have nabs: "\<not> IsAbs (Join (comps p) ''/'')" by (auto simp: r IsAbs_iff neq_Nil_conv)
    have "split_slash (Join (comps p) ''/'') = comps p"
      using ne comps_no_slash by (intro split_slash_Join) auto
    then have "comps (Join (comps p) ''/'') = comps p"
      using nabs False clean_comps_idem [of "split_slash p" False] split_slash_no_slash
      by (simp add: comps_def)
    with False ne nabs show ?thesis by (simp add: Clean_relative)
  qed
qed

lemma Clean_not_Nil [simp]: "Clean p \<noteq> []"
  using Clean_rooted [of p] Clean_relative [of p] Join_Nil_iff [of "comps p"] comps_nonempty_comp [of "[]" p]
  by (cases "IsAbs p") auto

lemma IsAbs_Clean [simp]: "IsAbs (Clean p) \<longleftrightarrow> IsAbs p"
proof (cases "IsAbs p")
  case False
  show ?thesis
  proof (cases "comps p = []")
    case True
    with False show ?thesis by (simp add: Clean_relative) (simp add: IsAbs_def HasPrefix_def)
  next
    case ne: False
    obtain r where r: "Join (comps p) ''/'' = hd (comps p) @ r" using Join_first [OF ne] by blast
    have "hd (comps p) \<noteq> []" "CHR ''/'' \<notin> set (hd (comps p))"
      using ne comps_nonempty_comp [of _ p] comps_no_slash [of _ p] by (meson hd_in_set)+
    with False ne r show ?thesis by (auto simp: Clean_relative IsAbs_iff neq_Nil_conv)
  qed
qed (simp add: Clean_rooted IsAbs_Cons)

text \<open>A plain component below a rooted directory stays there, and determines the path.\<close>

lemma comps_append_plain:
  assumes "IsAbs d" "plain_comp w"
  shows "comps (d @ CHR ''/'' # w) = comps d @ [w]"
proof -
  have sp: "split_slash (d @ CHR ''/'' # w) = split_slash d @ [w]"
    using assms(2) by (simp add: split_slash_append split_slash_id plain_comp_def)
  have "clean_comps True acc (cs @ [w]) = clean_comps True acc cs @ [w]" for acc cs
    using assms(2)
    by (induction "True" acc cs rule: clean_comps.induct) (auto simp: plain_comp_def split: list.splits)
  moreover have "IsAbs (d @ CHR ''/'' # w)" using assms(1) by (auto simp: IsAbs_iff)
  ultimately show ?thesis using sp assms(1) by (simp add: comps_def)
qed

lemma PathJoin_two:
  assumes "IsAbs d" "plain_comp w"
  shows "PathJoin [d, w] = CHR ''/'' # Join (comps d @ [w]) ''/''"
proof -
  have "d \<noteq> []" "w \<noteq> []" using assms by (auto simp: IsAbs_iff plain_comp_def)
  moreover have "IsAbs (d @ CHR ''/'' # w)" using assms(1) by (auto simp: IsAbs_iff)
  ultimately show ?thesis using comps_append_plain [OF assms] by (simp add: PathJoin_def Clean_rooted)
qed

lemma PathJoin_two_inj:
  assumes "IsAbs d" "plain_comp v" "plain_comp w" "PathJoin [d, v] = PathJoin [d, w]"
  shows "v = w"
proof -
  have "comps (PathJoin [d, x]) = comps d @ [x]" if "plain_comp x" for x
    using that assms(1) comps_rooted_plain [OF assms(1)]
    by (simp add: PathJoin_two comps_of_rooted_Join)
  with assms show ?thesis by (metis last_snoc)
qed

end
