(* ===== verification/Segments.thy ===== *)
theory Segments
  imports Go_Path
begin

text \<open>
  The checks every identifier and path of the generation store goes through: \<open>cleanToken\<close>,
  \<open>cleanSegment\<close>, \<open>cleanOption\<close>, \<open>cleanTitle\<close>, \<open>cleanUKIPath\<close> and \<open>entryPath\<close> of
  \<^verbatim>\<open>internal/generation/loader.go\<close>, \<open>rootedPath\<close>, \<open>cleanGenerationPath\<close> and \<open>cleanActivationPath\<close> of \<^verbatim>\<open>activation.go\<close>
  and \<open>validateSHA256\<close> of \<^verbatim>\<open>metadata.go\<close>. The lemmas show that a cleaned identifier is one plain path
  component, that cleaning is idempotent, and that the paths built from it stay below their directory
  and determine it.
\<close>

section \<open>Tokens\<close>

definition cleanToken :: "string \<Rightarrow> string \<Rightarrow> string res" where
  "cleanToken name raw =
     (let value = TrimSpace raw
      in if value = [] then fail ''%s is required'' [name]
         else if ContainsAny value blank_chars then fail ''%s %q must not contain whitespace'' [name, value]
         else Inr value)"

definition cleanSegment :: "string \<Rightarrow> string \<Rightarrow> string res" where
  "cleanSegment name raw =
     res_bind (cleanToken name raw) (\<lambda>value.
       if ContainsAny value [CHR ''/'', CHR 0x5C] \<or> value = ''.'' \<or> value = ''..'' \<or> Clean value \<noteq> value
       then fail ''%s %q must be a single path segment'' [name, value]
       else Inr value)"

definition cleanTitle :: "string \<Rightarrow> string res" where
  "cleanTitle raw =
     (let value = TrimSpace raw
      in if ContainsAny value [CHR 0x0A, CHR 0x0D] then fail ''loader title must not contain newlines'' []
         else Inr value)"

definition cleanOption :: "string \<Rightarrow> string res" where
  "cleanOption raw =
     (let option = TrimSpace raw
      in if option = [] then Inr []
         else if ContainsAny option blank_chars then fail ''loader option %q must not contain whitespace'' [option]
         else Inr option)"

definition UKIDirectory :: string where "UKIDirectory = ''/efi/EFI/katl''"

definition cleanUKIPath :: "string \<Rightarrow> string res" where
  "cleanUKIPath raw =
     (let p = TrimSpace raw
      in if p = [] then fail ''UKI path is required'' []
         else if ContainsAny p blank_chars then fail ''UKI path must not contain whitespace'' []
         else if \<not> HasPrefix p (UKIDirectory @ ''/'') \<and> \<not> HasPrefix p ''/EFI/katl/'' \<and>
                 \<not> HasPrefix p ''/efi/EFI/Linux/'' \<and> \<not> HasPrefix p ''/EFI/Linux/''
           then fail ''UKI path %q must be under /EFI/katl or legacy /EFI/Linux on the ESP'' [p]
         else if Contains p ''/../'' \<or> HasSuffix p ''/..'' \<or> Clean p \<noteq> p
           then fail ''UKI path %q must be clean'' [p]
         else Inr p)"

definition entryPath :: "string \<Rightarrow> string" where
  "entryPath raw =
     (let p = TrimSpace raw in if HasPrefix p ''/efi/'' then TrimPrefix p ''/efi'' else p)"

definition validateSHA256 :: "string \<Rightarrow> string \<Rightarrow> error" where
  "validateSHA256 name value =
     first_error
       [reject (length value \<noteq> 32 * 2) ''%s SHA-256 must be %d lowercase hex characters'' [name],
        reject (value \<noteq> ToLower value) ''%s SHA-256 must be lowercase hex'' [name],
        reject (\<not> hexDecodes value) ''%s SHA-256 is invalid: %w'' [name]]"

section \<open>Rooted paths\<close>

definition GenerationRecordsDir :: string where "GenerationRecordsDir = ''/var/lib/katl/generations''"

definition DefaultExtensionsActivationDir :: string where "DefaultExtensionsActivationDir = ''/run/extensions''"

definition DefaultConfextsActivationDir :: string where "DefaultConfextsActivationDir = ''/run/confexts''"

text \<open>\<open>filepath.Clean("/" + strings.TrimPrefix(strings.TrimSpace(value), "/"))\<close>\<close>

definition clean_rooted :: "string \<Rightarrow> string" where
  "clean_rooted value = Clean (CHR ''/'' # TrimPrefix (TrimSpace value) ''/'')"

definition rootedPath :: "string \<Rightarrow> string \<Rightarrow> string res" where
  "rootedPath rawRoot absolutePath =
     (let root = TrimSpace rawRoot; p = clean_rooted absolutePath
      in if root = [] then fail ''target root is required'' []
         else if p = ''/'' then Inr (Clean root)
         else Inr (PathJoin [Clean root, TrimPrefix p ''/'']))"

definition cleanGenerationPath :: "string \<Rightarrow> string \<Rightarrow> string \<Rightarrow> string \<Rightarrow> string res" where
  "cleanGenerationPath name generationID raw kind =
     (let value = clean_rooted raw; pre = PathJoin [GenerationRecordsDir, generationID, kind]
      in if value = ''.'' \<or> value = ''/'' then fail ''%s path is required'' [name]
         else if value \<noteq> pre \<and> \<not> HasPrefix value (pre @ ''/'')
           then fail ''%s path %q must be under %s'' [name, value, pre]
         else Inr value)"

definition cleanActivationPath :: "string \<Rightarrow> string \<Rightarrow> string \<Rightarrow> string res" where
  "cleanActivationPath name raw root =
     (let value = clean_rooted raw
      in if value = root \<or> value = ''/'' then fail ''%s activation path must name an entry under %s'' [name, root]
         else if \<not> HasPrefix value (root @ ''/'')
           then fail ''%s activation path %q must be under %s'' [name, value, root]
         else Inr value)"

section \<open>Lemmas on tokens\<close>

lemma cleanToken_Inr:
  "cleanToken name raw = Inr v \<longleftrightarrow> v = TrimSpace raw \<and> v \<noteq> [] \<and> \<not> ContainsAny v blank_chars"
  by (auto simp: cleanToken_def Let_def)

lemma cleanToken_error_name: "(\<exists>e. cleanToken n raw = Inl e) \<longleftrightarrow> (\<exists>e. cleanToken m raw = Inl e)"
  by (auto simp: cleanToken_def Let_def fail_def)

lemma cleanSegment_Inr:
  "cleanSegment name raw = Inr v \<longleftrightarrow>
     v = TrimSpace raw \<and> v \<noteq> [] \<and> \<not> ContainsAny v blank_chars \<and> \<not> ContainsAny v [CHR ''/'', CHR 0x5C] \<and>
     v \<noteq> ''.'' \<and> v \<noteq> ''..'' \<and> Clean v = v"
  by (auto simp: cleanSegment_def cleanToken_Inr)

lemma cleanSegment_name: "cleanSegment n raw = Inr v \<Longrightarrow> cleanSegment m raw = Inr v"
  unfolding cleanSegment_Inr .

lemma cleanSegment_idem: "cleanSegment n raw = Inr v \<Longrightarrow> cleanSegment m v = Inr v"
  unfolding cleanSegment_Inr by (metis TrimSpace_idem)

lemma cleanSegment_plain: "cleanSegment n raw = Inr v \<Longrightarrow> plain_comp v"
  by (auto simp: cleanSegment_Inr plain_comp_def ContainsAny_iff)

lemma comps_plain: "plain_comp w \<Longrightarrow> comps w = [w]"
  by (auto simp: comps_def plain_comp_def split_slash_id IsAbs_iff)

lemma Clean_plain: "plain_comp w \<Longrightarrow> Clean w = w"
proof -
  assume p: "plain_comp w"
  then have "\<not> IsAbs w" by (auto simp: plain_comp_def IsAbs_iff)
  with comps_plain [OF p] show "Clean w = w" by (simp add: Clean_relative)
qed

text \<open>The identifiers \<open>cleanSegment\<close> accepts unchanged, without the redundant test.\<close>

lemma cleanSegment_fixed:
  "cleanSegment n v = Inr v \<longleftrightarrow>
     trimmed v \<and> \<not> ContainsAny v blank_chars \<and> CHR 0x5C \<notin> set v \<and> plain_comp v"
proof -
  have "plain_comp v \<Longrightarrow> Clean v = v" by (rule Clean_plain)
  then show ?thesis
    by (auto simp: cleanSegment_Inr plain_comp_def ContainsAny_iff trimmed_iff)
qed

section \<open>Lemmas on paths\<close>

lemma clean_rooted_IsAbs [simp]: "IsAbs (clean_rooted v)"
  by (simp add: clean_rooted_def IsAbs_Cons)

lemma clean_rooted_Clean [simp]: "Clean (clean_rooted v) = clean_rooted v"
  by (simp add: clean_rooted_def)

lemma Clean_fixed_plain:
  assumes "IsAbs p" "Clean p = p"
  shows "p = CHR ''/'' # Join (comps p) ''/'' \<and> (\<forall>w \<in> set (comps p). plain_comp w)"
  using assms Clean_rooted comps_rooted_plain by metis

lemma cleanActivationPath_Inr:
  "cleanActivationPath n raw d = Inr v \<Longrightarrow> v = clean_rooted raw \<and> HasPrefix v (d @ ''/'') \<and> Clean v = v \<and> v \<noteq> d"
  by (auto simp: cleanActivationPath_def Let_def split: if_splits)

lemma cleanGenerationPath_Inr:
  "cleanGenerationPath n g raw k = Inr v \<Longrightarrow>
     v = clean_rooted raw \<and> Clean v = v \<and>
     (v = PathJoin [GenerationRecordsDir, g, k] \<or> HasPrefix v (PathJoin [GenerationRecordsDir, g, k] @ ''/''))"
proof -
  assume a: "cleanGenerationPath n g raw k = Inr v"
  then have v: "v = clean_rooted raw" by (auto simp: cleanGenerationPath_def Let_def split: if_splits)
  then have "Clean v = v" by simp
  with a v show ?thesis by (auto simp: cleanGenerationPath_def Let_def split: if_splits)
qed


text \<open>
  A cleaned path with the textual prefix of a directory is below it component by component: no dot
  component leads out again.
\<close>

definition below :: "string \<Rightarrow> string \<Rightarrow> bool" where
  "below d v \<longleftrightarrow> (\<exists>ws. ws \<noteq> [] \<and> comps v = comps d @ ws \<and> (\<forall>w \<in> set ws. plain_comp w))"

lemma split_slash_clean_rooted:
  assumes "IsAbs p" "Clean p = p" "comps p \<noteq> []"
  shows "split_slash p = [] # comps p"
proof -
  have p: "p = CHR ''/'' # Join (comps p) ''/''" and pl: "\<forall>w \<in> set (comps p). plain_comp w"
    using Clean_fixed_plain [OF assms(1,2)] by auto
  have "split_slash (Join (comps p) ''/'') = comps p"
    using assms(3) pl by (intro split_slash_Join) (auto simp: plain_comp_def)
  then show ?thesis by (subst p) simp
qed

lemma prefix_below:
  assumes "IsAbs d" "Clean d = d" "comps d \<noteq> []" "HasPrefix v (d @ ''/'')" "Clean v = v"
  shows "below d v"
proof -
  obtain r where v: "v = d @ CHR ''/'' # r" using assms(4) by (auto simp: HasPrefix_iff)
  from assms(1) obtain d' where d': "d = CHR ''/'' # d'" by (auto simp: IsAbs_iff)
  have av: "IsAbs v" by (simp add: v d' IsAbs_Cons)
  have sd: "split_slash d = [] # comps d" by (rule split_slash_clean_rooted [OF assms(1-3)])
  have sv: "split_slash v = [] # comps d @ split_slash r" by (simp add: v split_slash_append sd)
  have "comps v \<noteq> []"
  proof
    assume "comps v = []"
    then have "v = ''/''" using Clean_rooted [OF av] assms(5) by simp
    then show False using v d' by simp
  qed
  from split_slash_clean_rooted [OF av assms(5) this] sv
  have eq: "comps v = comps d @ split_slash r" by simp
  then have "plain_comp w" if "w \<in> set (split_slash r)" for w
    using comps_rooted_plain [OF av, of w] that by simp
  then show ?thesis
    unfolding below_def by (intro exI [of _ "split_slash r"] conjI ballI) (simp_all add: eq)
qed

lemma comps_fixed_dirs:
  "comps DefaultExtensionsActivationDir = [''run'', ''extensions'']"
  "comps DefaultConfextsActivationDir = [''run'', ''confexts'']"
  "comps GenerationRecordsDir = [''var'', ''lib'', ''katl'', ''generations'']"
  by (simp_all add: comps_def DefaultExtensionsActivationDir_def DefaultConfextsActivationDir_def
      GenerationRecordsDir_def IsAbs_Cons)

lemma Clean_fixed_dirs:
  "IsAbs DefaultExtensionsActivationDir" "Clean DefaultExtensionsActivationDir = DefaultExtensionsActivationDir"
  "IsAbs DefaultConfextsActivationDir" "Clean DefaultConfextsActivationDir = DefaultConfextsActivationDir"
  "IsAbs GenerationRecordsDir" "Clean GenerationRecordsDir = GenerationRecordsDir"
  by (simp_all add: Clean_rooted comps_def DefaultExtensionsActivationDir_def
      DefaultConfextsActivationDir_def GenerationRecordsDir_def IsAbs_Cons)

lemma PathJoin_generation:
  assumes "plain_comp g" "plain_comp k"
  shows "comps (PathJoin [GenerationRecordsDir, g, k]) = [''var'', ''lib'', ''katl'', ''generations'', g, k]"
    and "IsAbs (PathJoin [GenerationRecordsDir, g, k])"
    and "Clean (PathJoin [GenerationRecordsDir, g, k]) = PathJoin [GenerationRecordsDir, g, k]"
proof -
  have ne: "GenerationRecordsDir \<noteq> []" "g \<noteq> []" "k \<noteq> []"
    using assms by (auto simp: plain_comp_def GenerationRecordsDir_def)
  let ?p = "(GenerationRecordsDir @ CHR ''/'' # g) @ CHR ''/'' # k"
  have j: "PathJoin [GenerationRecordsDir, g, k] = Clean ?p" using ne by (simp add: PathJoin_def)
  have ab: "IsAbs (GenerationRecordsDir @ CHR ''/'' # g)" "IsAbs ?p"
    by (simp_all add: GenerationRecordsDir_def IsAbs_Cons)
  have c: "comps ?p = [''var'', ''lib'', ''katl'', ''generations'', g, k]"
    using comps_append_plain [OF ab(1) assms(2)] comps_append_plain [OF Clean_fixed_dirs(5) assms(1)]
    by (simp add: comps_fixed_dirs)
  have "comps (Clean ?p) = comps ?p"
    unfolding Clean_rooted [OF ab(2)] using comps_rooted_plain [OF ab(2)]
    by (intro comps_of_rooted_Join) blast
  then show "comps (PathJoin [GenerationRecordsDir, g, k]) = [''var'', ''lib'', ''katl'', ''generations'', g, k]"
    using c j by simp
  show "IsAbs (PathJoin [GenerationRecordsDir, g, k])" "Clean (PathJoin [GenerationRecordsDir, g, k]) = PathJoin [GenerationRecordsDir, g, k]"
    using ab(2) by (simp_all add: j)
qed

lemma cleanGenerationPath_below:
  assumes "cleanGenerationPath n g raw k = Inr v" "plain_comp g" "plain_comp k"
  shows "v = PathJoin [GenerationRecordsDir, g, k] \<or> below (PathJoin [GenerationRecordsDir, g, k]) v"
  using cleanGenerationPath_Inr [OF assms(1)] prefix_below [of "PathJoin [GenerationRecordsDir, g, k]" v]
    PathJoin_generation [OF assms(2,3)] by auto

end
