(* ===== verification/ConfigApply.thy ===== *)
theory ConfigApply
  imports Segments
begin

text \<open>
  The status record of a configuration apply (\<^verbatim>\<open>internal/generation/config_apply_status.go\<close>): its
  construction, its phase, failure and rollback marks and its validation. Times are instants counted
  from Go's zero time, so that \<open>0\<close> is \<open>IsZero\<close> and \<open>UTC()\<close> the identity; the current time is the parameter
  \<open>now\<close>. The redaction of secrets is the parameter \<open>redact\<close>, any function on messages.
\<close>

type_synonym time = int

section \<open>Data\<close>

definition APIVersion :: string where "APIVersion = ''katl.dev/v1alpha1''"

definition ConfigApplyStatusKind :: string where "ConfigApplyStatusKind = ''ConfigApplyStatus''"

definition ApplyModeAuto :: string where "ApplyModeAuto = ''auto''"
definition ApplyModeLive :: string where "ApplyModeLive = ''live''"
definition ApplyModeNextBoot :: string where "ApplyModeNextBoot = ''next-boot''"

definition ConfigApplyPhasePlanned :: string where "ConfigApplyPhasePlanned = ''planned''"
definition ConfigApplyPhaseRendered :: string where "ConfigApplyPhaseRendered = ''rendered''"
definition ConfigApplyPhaseStaged :: string where "ConfigApplyPhaseStaged = ''staged''"
definition ConfigApplyPhaseActivating :: string where "ConfigApplyPhaseActivating = ''activating''"
definition ConfigApplyPhaseActive :: string where "ConfigApplyPhaseActive = ''active''"
definition ConfigApplyPhaseNextBoot :: string where "ConfigApplyPhaseNextBoot = ''next-boot''"
definition ConfigApplyPhaseRollingBack :: string where "ConfigApplyPhaseRollingBack = ''rolling-back''"
definition ConfigApplyPhaseRolledBack :: string where "ConfigApplyPhaseRolledBack = ''rolled-back''"
definition ConfigApplyPhaseFailed :: string where "ConfigApplyPhaseFailed = ''failed''"

record KubeadmActionRequired =
  ka_Required :: bool
  ka_PreviousConfigName :: string
  ka_SelectedConfigName :: string
  ka_Reason :: string

record ConfigApplyEffect =
  ef_Action :: string
  ef_Target :: string
  ef_Status :: string
  ef_Diagnostic :: string

record ConfigApplyDomainAction =
  da_Domain :: string
  da_Action :: string
  da_Status :: string
  da_Sets :: "string list"
  da_Paths :: "string list"
  da_Effects :: "ConfigApplyEffect list"
  da_Diagnostic :: string

record DiagnosticArtifact =
  ar_Name :: string
  ar_Path :: string

record ConfigApplyRollback =
  rb_TargetGenerationID :: string
  rb_Result :: string
  rb_Reason :: string

record ConfigApplyStatus =
  cs_APIVersion :: string
  cs_Kind :: string
  cs_GenerationID :: string
  cs_PreviousGeneration :: string
  cs_RequestedApplyMode :: string
  cs_AcceptedApplyMode :: string
  cs_ChangedDomains :: "string list"
  cs_Phase :: string
  cs_HealthState :: string
  cs_DomainActions :: "ConfigApplyDomainAction list"
  cs_DiagnosticArtifacts :: "DiagnosticArtifact list"
  cs_Rollback :: "ConfigApplyRollback option"
  cs_Kubeadm :: KubeadmActionRequired
  cs_FailureReason :: string
  cs_UpdatedAt :: time

record ConfigApplyStatusRequest =
  cq_GenerationID :: string
  cq_PreviousGeneration :: string
  cq_RequestedApplyMode :: string
  cq_AcceptedApplyMode :: string
  cq_ChangedDomains :: "string list"
  cq_HealthState :: string
  cq_Kubeadm :: KubeadmActionRequired
  cq_UpdatedAt :: time

section \<open>Checks\<close>

definition nonzeroUTC :: "time \<Rightarrow> time \<Rightarrow> time" where
  "nonzeroUTC now value = (if value = 0 then now else value)"

fun clean_domains_from :: "string list \<Rightarrow> string list \<Rightarrow> string list res" where
  "clean_domains_from cleaned [] = Inr cleaned"
| "clean_domains_from cleaned (raw # rest) =
     (let domain = TrimSpace raw
      in if domain = [] then fail ''changed domain is required'' []
         else if domain \<in> set cleaned then clean_domains_from cleaned rest
         else clean_domains_from (cleaned @ [domain]) rest)"

definition cleanChangedDomains :: "string list \<Rightarrow> string list res" where
  "cleanChangedDomains domains =
     res_bind (clean_domains_from [] domains) (\<lambda>cleaned.
       if cleaned = [] then fail ''changed domains are required'' [] else Inr cleaned)"

definition redactKubeadmActionRequired ::
  "(string \<Rightarrow> string) \<Rightarrow> KubeadmActionRequired \<Rightarrow> KubeadmActionRequired" where
  "redactKubeadmActionRequired redact action = action\<lparr>ka_Reason := redact (ka_Reason action)\<rparr>"

definition validateRequestedApplyMode :: "string \<Rightarrow> string \<Rightarrow> error" where
  "validateRequestedApplyMode name value =
     reject (TrimSpace value \<notin> {ApplyModeAuto, ApplyModeLive, ApplyModeNextBoot})
       ''%s = %q, want %q, %q, or %q'' [name, value]"

definition validateAcceptedApplyMode :: "string \<Rightarrow> string \<Rightarrow> error" where
  "validateAcceptedApplyMode name value =
     reject (TrimSpace value \<notin> {ApplyModeLive, ApplyModeNextBoot}) ''%s = %q, want %q or %q'' [name, value]"

definition validateConfigApplyPhase :: "string \<Rightarrow> error" where
  "validateConfigApplyPhase phase =
     reject (TrimSpace phase \<notin>
               {ConfigApplyPhasePlanned, ConfigApplyPhaseRendered, ConfigApplyPhaseStaged,
                ConfigApplyPhaseActivating, ConfigApplyPhaseActive, ConfigApplyPhaseNextBoot,
                ConfigApplyPhaseRollingBack, ConfigApplyPhaseRolledBack, ConfigApplyPhaseFailed})
       ''config apply phase = %q is unsupported'' [phase]"

definition validateActionStatus :: "string \<Rightarrow> error" where
  "validateActionStatus status =
     reject (TrimSpace status \<notin> {''planned'', ''skipped'', ''passed'', ''failed''})
       ''config apply action status = %q is unsupported'' [status]"

definition validate_effect :: "ConfigApplyEffect \<Rightarrow> error" where
  "validate_effect effect =
     first_error
       [reject (TrimSpace (ef_Action effect) = [] \<or> TrimSpace (ef_Target effect) = [] \<or> TrimSpace (ef_Status effect) = [])
          ''config apply status effect requires action, target, and status'' [],
        validateActionStatus (ef_Status effect)]"

definition validate_action :: "ConfigApplyDomainAction \<Rightarrow> error" where
  "validate_action action =
     first_error
       [reject (TrimSpace (da_Domain action) = [] \<or> TrimSpace (da_Action action) = [] \<or> TrimSpace (da_Status action) = [])
          ''config apply status domain action requires domain, action, and status'' [],
        validateActionStatus (da_Status action),
        each_error validate_effect (da_Effects action)]"

definition ValidateConfigApplyStatus :: "ConfigApplyStatus \<Rightarrow> error" where
  "ValidateConfigApplyStatus status =
     first_error
       [reject (cs_APIVersion status \<noteq> APIVersion) ''config apply status apiVersion = %q, want %q'' [cs_APIVersion status],
        reject (cs_Kind status \<noteq> ConfigApplyStatusKind) ''config apply status kind = %q, want %q'' [cs_Kind status],
        reject (TrimSpace (cs_GenerationID status) = []) ''config apply status generation id is required'' [],
        reject (TrimSpace (cs_PreviousGeneration status) = [])
          ''config apply status previous generation id is required'' [],
        validateRequestedApplyMode ''requested apply mode'' (cs_RequestedApplyMode status),
        validateAcceptedApplyMode ''accepted apply mode'' (cs_AcceptedApplyMode status),
        reject (cs_ChangedDomains status = []) ''config apply status changed domains are required'' [],
        each_error (\<lambda>domain. reject (TrimSpace domain = []) ''config apply status changed domain is required'' [])
          (cs_ChangedDomains status),
        validateConfigApplyPhase (cs_Phase status),
        reject (TrimSpace (cs_HealthState status) = []) ''config apply status health state is required'' [],
        reject (cs_UpdatedAt status = 0) ''config apply status updatedAt is required'' [],
        each_error validate_action (cs_DomainActions status),
        each_error (\<lambda>artifact. reject (TrimSpace (ar_Name artifact) = [] \<or> TrimSpace (ar_Path artifact) = [])
            ''config apply status diagnostic artifacts require name and path'' [])
          (cs_DiagnosticArtifacts status),
        (case cs_Rollback status of
           None \<Rightarrow> None
         | Some rollback \<Rightarrow>
             reject (TrimSpace (rb_TargetGenerationID rollback) = [] \<or> TrimSpace (rb_Result rollback) = [])
               ''config apply status rollback requires target generation id and result'' [])]"

section \<open>Construction and marks\<close>

definition NewConfigApplyStatus ::
  "(string \<Rightarrow> string) \<Rightarrow> time \<Rightarrow> ConfigApplyStatusRequest \<Rightarrow> ConfigApplyStatus res" where
  "NewConfigApplyStatus redact now request =
     res_need
       (first_error
          [reject (TrimSpace (cq_GenerationID request) = []) ''generation id is required'' [],
           reject (TrimSpace (cq_PreviousGeneration request) = []) ''previous generation id is required'' [],
           validateRequestedApplyMode ''requested apply mode'' (cq_RequestedApplyMode request)])
       (let accepted = (if TrimSpace (cq_AcceptedApplyMode request) = [] then cq_RequestedApplyMode request
                        else cq_AcceptedApplyMode request);
            health = (if TrimSpace (cq_HealthState request) = [] then ''unknown'' else cq_HealthState request)
        in res_need (validateAcceptedApplyMode ''accepted apply mode'' accepted)
          (res_bind (cleanChangedDomains (cq_ChangedDomains request)) (\<lambda>domains.
             let status =
               \<lparr>cs_APIVersion = APIVersion, cs_Kind = ConfigApplyStatusKind,
                cs_GenerationID = TrimSpace (cq_GenerationID request),
                cs_PreviousGeneration = TrimSpace (cq_PreviousGeneration request),
                cs_RequestedApplyMode = TrimSpace (cq_RequestedApplyMode request),
                cs_AcceptedApplyMode = TrimSpace accepted, cs_ChangedDomains = domains,
                cs_Phase = ConfigApplyPhasePlanned, cs_HealthState = TrimSpace health,
                cs_DomainActions = [], cs_DiagnosticArtifacts = [], cs_Rollback = None,
                cs_Kubeadm = redactKubeadmActionRequired redact (cq_Kubeadm request),
                cs_FailureReason = [], cs_UpdatedAt = nonzeroUTC now (cq_UpdatedAt request)\<rparr>
             in res_need (ValidateConfigApplyStatus status) (Inr status))))"

definition MarkConfigApplyPhase ::
  "time \<Rightarrow> ConfigApplyStatus \<Rightarrow> string \<Rightarrow> time \<Rightarrow> ConfigApplyStatus res" where
  "MarkConfigApplyPhase now status phase at =
     res_need (validateConfigApplyPhase phase)
       (let marked = status\<lparr>cs_Phase := phase, cs_UpdatedAt := nonzeroUTC now at\<rparr>
        in res_need (ValidateConfigApplyStatus marked) (Inr marked))"

text \<open>The cause of a failure is given by its message; \<open>nil\<close> has the empty one.\<close>

definition errorString :: "string option \<Rightarrow> string" where
  "errorString cause = (case cause of None \<Rightarrow> [] | Some message \<Rightarrow> message)"

definition MarkConfigApplyFailed ::
  "(string \<Rightarrow> string) \<Rightarrow> time \<Rightarrow> ConfigApplyStatus \<Rightarrow> string option \<Rightarrow> time \<Rightarrow> ConfigApplyStatus res" where
  "MarkConfigApplyFailed redact now status cause at =
     (let marked = status\<lparr>cs_Phase := ConfigApplyPhaseFailed,
                          cs_FailureReason := redact (errorString cause), cs_UpdatedAt := nonzeroUTC now at\<rparr>
      in res_need (ValidateConfigApplyStatus marked) (Inr marked))"

definition MarkConfigApplyRollback ::
  "(string \<Rightarrow> string) \<Rightarrow> time \<Rightarrow> ConfigApplyStatus \<Rightarrow> string \<Rightarrow> string \<Rightarrow> string \<Rightarrow> time \<Rightarrow> ConfigApplyStatus res" where
  "MarkConfigApplyRollback redact now status targetGenerationID result reason at =
     res_need
       (first_error
          [reject (TrimSpace targetGenerationID = []) ''rollback target generation id is required'' [],
           reject (TrimSpace result = []) ''rollback result is required'' []])
       (let marked = status\<lparr>cs_Phase := ConfigApplyPhaseRolledBack,
              cs_Rollback := Some \<lparr>rb_TargetGenerationID = TrimSpace targetGenerationID,
                                   rb_Result = TrimSpace result, rb_Reason = redact reason\<rparr>,
              cs_UpdatedAt := nonzeroUTC now at\<rparr>
        in res_need (ValidateConfigApplyStatus marked) (Inr marked))"

section \<open>Lemmas\<close>

lemma clean_domains_from_Inr:
  "clean_domains_from acc ds = Inr r \<Longrightarrow> distinct acc \<Longrightarrow>
     distinct r \<and> set r = set acc \<union> TrimSpace ` set ds \<and> [] \<notin> TrimSpace ` set ds"
proof (induction ds arbitrary: acc)
  case (Cons raw rest)
  from Cons.prems(1) have ne: "TrimSpace raw \<noteq> []" by (auto simp: Let_def)
  have "clean_domains_from (if TrimSpace raw \<in> set acc then acc else acc @ [TrimSpace raw]) rest = Inr r"
    using Cons.prems(1) ne by (simp add: Let_def split: if_splits)
  from Cons.IH [OF this] Cons.prems(2) ne show ?case by (auto split: if_splits)
qed simp

lemma cleanChangedDomains_Inr:
  assumes "cleanChangedDomains ds = Inr r"
  shows "distinct r \<and> set r = TrimSpace ` set ds \<and> [] \<notin> set r \<and> r \<noteq> []"
  using assms clean_domains_from_Inr [of "[]" ds r]
  by (auto simp: cleanChangedDomains_def split: if_splits)

lemma clean_domains_from_id:
  "\<forall>d \<in> set ds. TrimSpace d = d \<and> d \<noteq> [] \<Longrightarrow> distinct (acc @ ds) \<Longrightarrow> clean_domains_from acc ds = Inr (acc @ ds)"
  by (induction acc ds rule: clean_domains_from.induct) (auto simp: Let_def)

lemma cleanChangedDomains_idem:
  assumes "cleanChangedDomains ds = Inr r"
  shows "cleanChangedDomains r = Inr r"
proof -
  note r = cleanChangedDomains_Inr [OF assms]
  then have "\<forall>d \<in> set r. TrimSpace d = d \<and> d \<noteq> []" by (metis TrimSpace_idem imageE)
  with r show ?thesis using clean_domains_from_id [of r "[]"] by (simp add: cleanChangedDomains_def)
qed

lemma NewConfigApplyStatus_Inr:
  assumes "NewConfigApplyStatus redact now q = Inr s"
  shows "ValidateConfigApplyStatus s = None" "cs_Phase s = ConfigApplyPhasePlanned"
    "cs_GenerationID s = TrimSpace (cq_GenerationID q)" "distinct (cs_ChangedDomains s)"
    "cs_Rollback s = None"
  using assms cleanChangedDomains_Inr by (auto simp: NewConfigApplyStatus_def Let_def split: if_splits)

end
