(* ===== verification/KernelCmdline.thy ===== *)
theory KernelCmdline
  imports Go_Path
begin

text \<open>
  The kernel track (\<^verbatim>\<open>internal/flavour/flavour.go\<close>) and the rules for operator-owned kernel arguments
  (\<^verbatim>\<open>internal/kernelcmdline/kernel_command_line.go\<close>): which arguments Katl owns, how the configured ones
  are validated, replaced and merged with those of the running system. The lemmas characterise the
  result of each loop as a filtered list without duplicates.
\<close>

section \<open>Flavour\<close>

definition Standard :: string where "Standard = ''standard''"

definition LTS :: string where "LTS = ''lts''"

definition Normalize :: "string \<Rightarrow> string res" where
  "Normalize value =
     (if value = [] \<or> value = Standard then Inr Standard
      else if value = LTS then Inr LTS
      else fail ''unknown KatlOS flavour %q; choose standard or lts'' [value])"

definition Suffix :: "string \<Rightarrow> string" where
  "Suffix value = (if value = LTS then ''-lts'' else [])"

section \<open>Protected arguments\<close>

text \<open>\<open>strconv.ParseUint(s, 10, 16)\<close>: a nonempty run of decimal digits whose value fits 16 bits.\<close>

fun decimal_value :: "nat \<Rightarrow> string \<Rightarrow> nat option" where
  "decimal_value acc [] = Some acc"
| "decimal_value acc (c # cs) =
     (if of_char c \<ge> (48 :: nat) \<and> of_char c \<le> (57 :: nat)
      then decimal_value (10 * acc + (of_char c - 48)) cs else None)"

definition ParseUint16 :: "string \<Rightarrow> nat option" where
  "ParseUint16 s =
     (if s = [] then None
      else case decimal_value 0 s of None \<Rightarrow> None | Some n \<Rightarrow> if n < 2 ^ 16 then Some n else None)"

definition protected_prefixes :: "string list" where
  "protected_prefixes =
     [''root='', ''rootfstype='', ''init='', ''rdinit='', ''usr='', ''mount.usr='',
      ''systemd.machine_id='', ''systemd.getty_auto='', ''systemd.gpt_auto='', ''systemd.unit='',
      ''rd.systemd.unit='', ''systemd.volatile='', ''systemd.verity='', ''systemd.image_policy='',
      ''katl.generation='', ''katl.root-slot='']"

definition Protected :: "string \<Rightarrow> bool" where
  "Protected option \<longleftrightarrow>
     (case CutPrefix option ''console=tty'' of
        Some terminal \<Rightarrow> ParseUint16 (takeWhile (\<lambda>c. c \<noteq> CHR '','') terminal) \<noteq> None
      | None \<Rightarrow> False) \<or>
     option = ''ro'' \<or> option = ''rw'' \<or>
     list_ex (HasPrefix option) protected_prefixes"

section \<open>Validation and merging\<close>

fun validate_configured_from :: "string list \<Rightarrow> string list \<Rightarrow> error" where
  "validate_configured_from seen [] = None"
| "validate_configured_from seen (option # rest) =
     (if option = [] then Some (Errorf ''commandLine[%d] must not be empty'' [])
      else if TrimSpace option \<noteq> option
        then Some (Errorf ''commandLine[%d] %q must not contain leading or trailing whitespace'' [option])
      else if ContainsAny option blank_chars
        then Some (Errorf ''commandLine[%d] %q must be one argument without whitespace'' [option])
      else if Protected option
        then Some (Errorf ''commandLine[%d] %q is managed by Katl and cannot be configured'' [option])
      else if option \<in> set seen
        then Some (Errorf ''commandLine contains duplicate argument %q'' [option])
      else validate_configured_from (option # seen) rest)"

definition ValidateConfigured :: "string list \<Rightarrow> error" where
  "ValidateConfigured options = validate_configured_from [] options"

definition ValidateRequiredCompatibility :: "string list \<Rightarrow> string list \<Rightarrow> error" where
  "ValidateRequiredCompatibility configured required =
     (let requiredSet = map TrimSpace required
      in each_error (\<lambda>option. reject (option \<in> set requiredSet)
           ''configured argument %q is required by the selected KatlOS image; remove it from kernel.commandLine''
           [option]) configured)"

definition ValidateEffective :: "string list \<Rightarrow> string list \<Rightarrow> error" where
  "ValidateEffective configured effective =
     first_error
       [ValidateConfigured configured,
        each_error (\<lambda>option. reject (option \<notin> set effective)
          ''configured argument %q is missing from the effective kernel command line'' [option]) configured]"

text \<open>The append-unless-seen loop both merges use; \<open>out\<close> is also the set of seen arguments.\<close>

fun append_unseen :: "string list \<Rightarrow> string list \<Rightarrow> string list" where
  "append_unseen out [] = out"
| "append_unseen out (option # rest) =
     (if option \<in> set out then append_unseen out rest else append_unseen (out @ [option]) rest)"

definition ReplaceConfigured :: "string list \<Rightarrow> string list \<Rightarrow> string list \<Rightarrow> string list" where
  "ReplaceConfigured base previous desired =
     append_unseen (append_unseen [] (filter (\<lambda>option. option \<notin> set previous) base)) desired"

fun merge_current_from :: "string list \<Rightarrow> string list \<Rightarrow> string list \<Rightarrow> string list" where
  "merge_current_from replaced out [] = out"
| "merge_current_from replaced out (raw # rest) =
     (let option = TrimSpace raw
      in if option = [] \<or> Protected option then merge_current_from replaced out rest
         else if option \<in> set replaced then merge_current_from replaced out rest
         else if option \<in> set out then merge_current_from replaced out rest
         else merge_current_from replaced (out @ [option]) rest)"

definition MergeCurrent :: "string list \<Rightarrow> string list \<Rightarrow> string list \<Rightarrow> string list" where
  "MergeCurrent base current replaced = merge_current_from replaced base current"

section \<open>Lemmas\<close>

lemma Normalize_Inr: "Normalize v = Inr f \<Longrightarrow> f = Standard \<or> f = LTS"
  by (auto simp: Normalize_def split: if_splits)

text \<open>The arguments a valid operator configuration consists of.\<close>

definition configurable :: "string \<Rightarrow> bool" where
  "configurable option \<longleftrightarrow>
     option \<noteq> [] \<and> TrimSpace option = option \<and> \<not> ContainsAny option blank_chars \<and> \<not> Protected option"

lemma validate_configured_from_None:
  "validate_configured_from seen options = None \<longleftrightarrow>
     list_all configurable options \<and> distinct options \<and> set options \<inter> set seen = {}"
  by (induction options arbitrary: seen) (auto simp: configurable_def)

lemma ValidateConfigured_None:
  "ValidateConfigured options = None \<longleftrightarrow> list_all configurable options \<and> distinct options"
  by (simp add: ValidateConfigured_def validate_configured_from_None)

lemma ValidateEffective_None:
  "ValidateEffective configured effective = None \<longleftrightarrow>
     list_all configurable configured \<and> distinct configured \<and> set configured \<subseteq> set effective"
  by (auto simp: ValidateEffective_def ValidateConfigured_None)

lemma append_unseen_set [simp]: "set (append_unseen out xs) = set out \<union> set xs"
  by (induction out xs rule: append_unseen.induct) auto

lemma append_unseen_distinct [simp]: "distinct (append_unseen out xs) \<longleftrightarrow> distinct out"
  by (induction out xs rule: append_unseen.induct) auto

lemma append_unseen_prefix: "prefix out (append_unseen out xs)"
proof (induction out xs rule: append_unseen.induct)
  case (2 out x xs)
  then show ?case
    by (simp add: prefix_def) (metis append.assoc)
qed simp

lemma append_unseen_new: "set xs \<inter> set out = {} \<Longrightarrow> distinct xs \<Longrightarrow> append_unseen out xs = out @ xs"
  by (induction out xs rule: append_unseen.induct) auto

lemma merge_current_from_set:
  "set (merge_current_from replaced out current) =
     set out \<union> {option \<in> TrimSpace ` set current. option \<noteq> [] \<and> \<not> Protected option \<and> option \<notin> set replaced}"
  by (induction replaced out current rule: merge_current_from.induct) (auto simp: Let_def)

lemma merge_current_from_prefix: "prefix out (merge_current_from replaced out current)"
proof (induction replaced out current rule: merge_current_from.induct)
  case (2 replaced out raw rest)
  then show ?case
    by (simp add: Let_def prefix_def) (metis append.assoc)
qed simp

lemma merge_current_from_distinct: "distinct out \<Longrightarrow> distinct (merge_current_from replaced out current)"
  by (induction replaced out current rule: merge_current_from.induct) (auto simp: Let_def)

text \<open>
  Replacing the configured arguments of a command line gives exactly the unconfigured base arguments and the desired ones,
  each once, and the result is effective; merging the arguments of the running kernel adds no protected and no
  replaced argument.
\<close>

lemma configured_arguments_effective:
  assumes "ValidateConfigured desired = None"
  shows "set (ReplaceConfigured base previous desired) = (set base - set previous) \<union> set desired \<and>
    distinct (ReplaceConfigured base previous desired) \<and>
    ValidateEffective desired (ReplaceConfigured base previous desired) = None \<and>
    prefix (ReplaceConfigured base previous desired)
      (MergeCurrent (ReplaceConfigured base previous desired) current previous) \<and>
    (\<forall>a \<in> set (MergeCurrent (ReplaceConfigured base previous desired) current previous).
       a \<in> set (ReplaceConfigured base previous desired) \<or> \<not> Protected a \<and> a \<notin> set previous)"
  using assms unfolding ValidateConfigured_None
  by (auto simp: ReplaceConfigured_def MergeCurrent_def ValidateEffective_None merge_current_from_set
      merge_current_from_prefix)

end
