(* ===== verification/KernelModule.thy ===== *)
theory KernelModule
  imports Go_Path
begin

text \<open>
  The contract for kernel modules built against a runtime (\<^verbatim>\<open>internal/kernelmodule/contract.go\<close>,
  \<^verbatim>\<open>index_selection.go\<close> and \<^verbatim>\<open>moduleName\<close> of \<^verbatim>\<open>compose.go\<close>). \<open>IndexInputs\<close> binds generated module indexes to the
  complete selected inventory; the lemmas show that it depends on the inventory as a set, not on the
  order of the bundles. The digest of the inventory's JSON form is the parameter \<open>module_digest\<close>.
\<close>

section \<open>Data\<close>

record Target =
  tg_Release :: string
  tg_RuntimeSHA256 :: string

record Module =
  mo_Name :: string
  mo_Path :: string
  mo_SHA256 :: string
  mo_Replaces :: string
  mo_Required :: bool

record Contract =
  kc_Target :: Target
  kc_Modules :: "Module list"

record IndexSelection =
  is_Target :: Target
  is_ModulesSHA256 :: string

section \<open>Validation\<close>

definition name_first :: "char \<Rightarrow> bool" where
  "name_first c \<longleftrightarrow>
     (let n = (of_char c :: nat)
      in 97 \<le> n \<and> n \<le> 122 \<or> 65 \<le> n \<and> n \<le> 90 \<or> 48 \<le> n \<and> n \<le> 57 \<or> c = CHR ''_'')"

definition namePattern :: "string \<Rightarrow> bool" where
  "namePattern s \<longleftrightarrow>
     (case s of [] \<Rightarrow> False | c # cs \<Rightarrow> name_first c \<and> list_all (\<lambda>d. name_first d \<or> d = CHR ''-'') cs)"

definition validateDigest :: "string \<Rightarrow> error" where
  "validateDigest value =
     first_error
       [reject (length value \<noteq> 64 \<or> value \<noteq> ToLower value)
          ''SHA-256 must contain 64 lowercase hexadecimal characters'' [],
        reject (\<not> hexDecodes value) ''invalid SHA-256: %w'' []]"

definition trim_compression :: "string \<Rightarrow> string" where
  "trim_compression s = TrimSuffix (TrimSuffix (TrimSuffix s ''.xz'') ''.zst'') ''.gz''"

definition isModule :: "string \<Rightarrow> bool" where
  "isModule p = HasSuffix (trim_compression p) ''.ko''"

definition moduleName :: "string \<Rightarrow> string" where
  "moduleName p = ReplaceByte (CHR ''-'') (CHR ''_'') (TrimSuffix (trim_compression (Base p)) ''.ko'')"

definition Target_Validate :: "Target \<Rightarrow> error" where
  "Target_Validate t =
     first_error
       [reject (tg_Release t = [] \<or> tg_Release t = ''.'' \<or> tg_Release t = ''..'' \<or>
                Base (tg_Release t) \<noteq> tg_Release t \<or>
                ContainsAny (tg_Release t) (CHR 0x5C # CHR 0x00 # blank_chars))
          ''kernel release must be a safe directory name'' [],
        validateDigest (tg_RuntimeSHA256 t)]"

fun validate_modules :: "string \<Rightarrow> string list \<Rightarrow> string list \<Rightarrow> Module list \<Rightarrow> error" where
  "validate_modules release names paths [] = None"
| "validate_modules release names paths (m # rest) =
     (let name = ReplaceByte (CHR ''-'') (CHR ''_'') (mo_Name m)
      in first_error
       [reject (\<not> namePattern (mo_Name m) \<or> name \<in> set names)
          ''invalid or duplicate kernel module name %q'' [mo_Name m],
        reject (\<not> HasPrefix (mo_Path m) (''usr/lib/modules/'' @ release @ ''/'') \<or> Clean (mo_Path m) \<noteq> mo_Path m \<or>
                ContainsAny (mo_Path m) [CHR 0x5C, CHR 0x00, CHR 0x0A, CHR 0x0D] \<or> mo_Path m \<in> set paths)
          ''invalid or duplicate kernel module path %q'' [mo_Path m],
        reject (\<not> HasSuffix (trim_compression (mo_Path m)) ''.ko'')
          ''kernel module path %q must name a .ko file, optionally compressed'' [mo_Path m],
        reject (moduleName (mo_Path m) \<noteq> name)
          ''kernel module path %q must match module name %q'' [mo_Path m, mo_Name m],
        reject (mo_Replaces m \<noteq> [] \<and> ReplaceByte (CHR ''-'') (CHR ''_'') (mo_Replaces m) \<noteq> name)
          ''module %q may only replace the same named base module'' [mo_Name m],
        wrap_error ''module %q: %w'' [mo_Name m] (validateDigest (mo_SHA256 m)),
        validate_modules release (name # names) (mo_Path m # paths) rest])"

definition Contract_Validate :: "Contract \<Rightarrow> error" where
  "Contract_Validate c =
     first_error
       [wrap_error ''kernel target: %w'' [] (Target_Validate (kc_Target c)),
        reject (kc_Modules c = []) ''kernel module inventory is required'' [],
        validate_modules (tg_Release (kc_Target c)) [] [] (kc_Modules c)]"

definition Contract_ValidateRuntime :: "Contract \<Rightarrow> string \<Rightarrow> error" where
  "Contract_ValidateRuntime c runtimeSHA256 =
     first_error
       [Contract_Validate c,
        reject (tg_RuntimeSHA256 (kc_Target c) \<noteq> runtimeSHA256)
          ''kernel extension requires runtime %s, target runtime is %s''
          [tg_RuntimeSHA256 (kc_Target c), runtimeSHA256]]"

definition IndexSelection_Validate :: "IndexSelection \<Rightarrow> error" where
  "IndexSelection_Validate s =
     first_error [Target_Validate (is_Target s), validateDigest (is_ModulesSHA256 s)]"

section \<open>Index selection\<close>

definition normalize_module :: "Module \<Rightarrow> Module" where
  "normalize_module m =
     m\<lparr>mo_Name := moduleName (mo_Name m),
       mo_Replaces := (if mo_Replaces m \<noteq> [] then moduleName (mo_Replaces m) else mo_Replaces m)\<rparr>"

fun collect_modules :: "Module list \<Rightarrow> (string \<times> Module) list \<Rightarrow> (string \<times> Module) list res" where
  "collect_modules [] acc = Inr acc"
| "collect_modules (raw # rest) acc =
     (let m = normalize_module raw
      in case map_of acc (mo_Name m) of
           Some previous \<Rightarrow>
             if previous \<noteq> m then fail ''module %q has conflicting inventories'' [mo_Name m]
             else collect_modules rest (AList.update (mo_Name m) m acc)
         | None \<Rightarrow> collect_modules rest (AList.update (mo_Name m) m acc))"

fun collect_contracts ::
  "Contract list \<Rightarrow> Target \<Rightarrow> (string \<times> Module) list \<Rightarrow> (Target \<times> (string \<times> Module) list) res" where
  "collect_contracts [] t acc = Inr (t, acc)"
| "collect_contracts (c # rest) t acc =
     res_need
       (first_error
          [Contract_Validate c,
           reject (tg_Release t \<noteq> [] \<and> t \<noteq> kc_Target c)
             ''selected module bundles target different kernel builds'' []])
       (res_bind (collect_modules (kc_Modules c) acc) (\<lambda>acc'. collect_contracts rest (kc_Target c) acc'))"

definition IndexInputs :: "(Module list \<Rightarrow> string) \<Rightarrow> Contract list \<Rightarrow> IndexSelection res" where
  "IndexInputs module_digest contracts =
     res_bind (collect_contracts contracts \<lparr>tg_Release = [], tg_RuntimeSHA256 = []\<rparr> [])
       (\<lambda>(t, modules).
          if modules = [] then fail ''module index selection requires a module inventory'' []
          else Inr \<lparr>is_Target = t,
                    is_ModulesSHA256 = module_digest (sort_key mo_Name (map snd modules))\<rparr>)"


section \<open>The inventory as a set\<close>

definition inventory :: "Contract list \<Rightarrow> Module set" where
  "inventory cs = (\<Union>c \<in> set cs. normalize_module ` set (kc_Modules c))"

definition one_per_name :: "Module set \<Rightarrow> bool" where
  "one_per_name M \<longleftrightarrow> (\<forall>m \<in> M. \<forall>m' \<in> M. mo_Name m = mo_Name m' \<longrightarrow> m = m')"

definition keyed_modules :: "(string \<times> Module) list \<Rightarrow> bool" where
  "keyed_modules acc \<longleftrightarrow> distinct (map fst acc) \<and> (\<forall>p \<in> set acc. fst p = mo_Name (snd p))"

lemma keyed_modules_Nil [simp]: "keyed_modules []"
  by (simp add: keyed_modules_def)

lemma keyed_modules_lookup:
  "keyed_modules acc \<Longrightarrow> map_of acc (mo_Name m) = Some p \<longleftrightarrow> p \<in> snd ` set acc \<and> mo_Name p = mo_Name m"
  unfolding keyed_modules_def map_of_eq_Some_iff by (force simp: image_iff)

lemma keyed_modules_update:
  assumes "keyed_modules acc"
  shows "keyed_modules (AList.update (mo_Name m) m acc)"
    and "map_of acc (mo_Name m) = None \<or> map_of acc (mo_Name m) = Some m \<Longrightarrow>
         snd ` set (AList.update (mo_Name m) m acc) = insert m (snd ` set acc)"
proof -
  show k: "keyed_modules (AList.update (mo_Name m) m acc)"
  proof -
    have "p \<in> set (AList.update k v acc) \<Longrightarrow> p = (k, v) \<or> p \<in> set acc" for p and k and v :: Module
      by (induction acc) (auto split: if_splits)
    with assms show ?thesis by (fastforce simp: keyed_modules_def distinct_update)
  qed
  assume old: "map_of acc (mo_Name m) = None \<or> map_of acc (mo_Name m) = Some m"
  have "x \<in> snd ` set (AList.update (mo_Name m) m acc) \<longleftrightarrow> x = m \<or> x \<in> snd ` set acc" for x
  proof -
    have "x \<in> snd ` set (AList.update (mo_Name m) m acc) \<longleftrightarrow>
          map_of (AList.update (mo_Name m) m acc) (mo_Name x) = Some x"
      using keyed_modules_lookup [OF k, of x x] by simp
    also have "\<dots> \<longleftrightarrow> x = m \<or> map_of acc (mo_Name x) = Some x"
      using old by (cases "mo_Name x = mo_Name m") (auto simp: update_conv)
    finally show ?thesis using keyed_modules_lookup [OF assms, of x x] by simp
  qed
  then show "snd ` set (AList.update (mo_Name m) m acc) = insert m (snd ` set acc)" by blast
qed

lemma collect_modules_spec:
  assumes "keyed_modules acc" "one_per_name (snd ` set acc)"
  shows "(case collect_modules ms acc of
            Inr acc' \<Rightarrow> keyed_modules acc' \<and> snd ` set acc' = snd ` set acc \<union> normalize_module ` set ms \<and>
                        one_per_name (snd ` set acc')
          | Inl e \<Rightarrow> \<not> one_per_name (snd ` set acc \<union> normalize_module ` set ms))"
  using assms
proof (induction ms arbitrary: acc)
  case Nil
  then show ?case by simp
next
  case (Cons raw ms)
  let ?m = "normalize_module raw"
  show ?case
  proof (cases "\<exists>p. map_of acc (mo_Name ?m) = Some p \<and> p \<noteq> ?m")
    case True
    then obtain p where "p \<in> snd ` set acc" "mo_Name p = mo_Name ?m" "p \<noteq> ?m" "map_of acc (mo_Name ?m) = Some p"
      using keyed_modules_lookup [OF Cons.prems(1), of ?m] by auto
    then show ?thesis by (auto simp: Let_def fail_def one_per_name_def)
  next
    case False
    then have old: "map_of acc (mo_Name ?m) = None \<or> map_of acc (mo_Name ?m) = Some ?m"
      by (cases "map_of acc (mo_Name ?m)") auto
    note upd = keyed_modules_update [OF Cons.prems(1), of ?m]
    have "one_per_name (insert ?m (snd ` set acc))"
    proof -
      have "x = ?m" if "x \<in> snd ` set acc" "mo_Name x = mo_Name ?m" for x
        using old that keyed_modules_lookup [OF Cons.prems(1), of ?m x] by auto
      then show ?thesis using Cons.prems(2) unfolding one_per_name_def by (metis insert_iff)
    qed
    moreover have "collect_modules (raw # ms) acc = collect_modules ms (AList.update (mo_Name ?m) ?m acc)"
      using old by (auto simp: Let_def)
    moreover have "insert ?m (snd ` set acc) \<union> normalize_module ` set ms =
        snd ` set acc \<union> normalize_module ` set (raw # ms)" by auto
    ultimately show ?thesis
      using Cons.IH [OF upd(1)] unfolding upd(2) [OF old] by (simp only:)
  qed
qed

lemma one_per_name_Nil: "one_per_name {}"
  by (simp add: one_per_name_def)

lemma one_per_name_mono: "one_per_name M \<Longrightarrow> N \<subseteq> M \<Longrightarrow> one_per_name N"
  unfolding one_per_name_def by blast

lemma valid_contract_release: "Contract_Validate c = None \<Longrightarrow> tg_Release (kc_Target c) \<noteq> []"
  by (simp add: Contract_Validate_def Target_Validate_def)

lemma collect_contracts_spec:
  assumes "keyed_modules acc" "one_per_name (snd ` set acc)"
  shows "collect_contracts cs t acc = Inr (t', acc') \<Longrightarrow>
           keyed_modules acc' \<and> snd ` set acc' = snd ` set acc \<union> inventory cs \<and> one_per_name (snd ` set acc') \<and>
           (\<forall>c \<in> set cs. Contract_Validate c = None \<and> kc_Target c = t') \<and>
           (cs = [] \<longrightarrow> t' = t) \<and> (tg_Release t \<noteq> [] \<longrightarrow> t' = t)"
  using assms
proof (induction cs arbitrary: t acc)
  case Nil
  then show ?case by (auto simp: inventory_def)
next
  case (Cons c cs)
  from Cons.prems(1) obtain acc1 where
      v: "Contract_Validate c = None" and tt: "tg_Release t = [] \<or> t = kc_Target c"
      and m: "collect_modules (kc_Modules c) acc = Inr acc1"
      and r: "collect_contracts cs (kc_Target c) acc1 = Inr (t', acc')"
    by (auto split: option.splits)
  from collect_modules_spec [OF Cons.prems(2,3), of "kc_Modules c"] m
  have a: "keyed_modules acc1" "snd ` set acc1 = snd ` set acc \<union> normalize_module ` set (kc_Modules c)"
      "one_per_name (snd ` set acc1)" by auto
  from Cons.IH [OF r a(1,3)] a(2) v tt valid_contract_release [OF v]
  show ?case by (auto simp: inventory_def)
qed

lemma collect_contracts_complete:
  assumes "keyed_modules acc" "one_per_name (snd ` set acc \<union> inventory cs)"
    "\<forall>c \<in> set cs. Contract_Validate c = None \<and> kc_Target c = t'" "tg_Release t = [] \<or> t = t'"
  shows "\<exists>t2 acc'. collect_contracts cs t acc = Inr (t2, acc')"
  using assms
proof (induction cs arbitrary: t acc)
  case (Cons c cs)
  have o: "one_per_name (snd ` set acc)" "one_per_name (snd ` set acc \<union> normalize_module ` set (kc_Modules c))"
    using Cons.prems(2) by (auto elim!: one_per_name_mono simp: inventory_def)
  with collect_modules_spec [OF Cons.prems(1) o(1), of "kc_Modules c"] obtain acc1 where
      m: "collect_modules (kc_Modules c) acc = Inr acc1" and k: "keyed_modules acc1"
      and s: "snd ` set acc1 = snd ` set acc \<union> normalize_module ` set (kc_Modules c)"
    by (auto split: sum.splits)
  have "one_per_name (snd ` set acc1 \<union> inventory cs)"
    using Cons.prems(2) by (simp add: s inventory_def Un_assoc)
  from Cons.IH [OF k this, of "kc_Target c"] Cons.prems(3,4) m show ?case by auto
qed simp

text \<open>The canonical list of an inventory: sorted by name, one module per name.\<close>

definition canonical_list :: "Module set \<Rightarrow> Module list \<Rightarrow> bool" where
  "canonical_list M ms \<longleftrightarrow> set ms = M \<and> sorted (map mo_Name ms) \<and> distinct (map mo_Name ms)"

lemma canonical_list_unique: "canonical_list M ms \<Longrightarrow> canonical_list M ms' \<Longrightarrow> ms = ms'"
proof -
  assume a: "canonical_list M ms" "canonical_list M ms'"
  then have "map mo_Name ms = map mo_Name ms'"
    by (intro sorted_distinct_set_unique) (auto simp: canonical_list_def)
  moreover have "inj_on mo_Name (set ms \<union> set ms')"
    using a by (auto simp: canonical_list_def distinct_map)
  ultimately show ?thesis by (rule map_inj_on)
qed

lemma keyed_modules_canonical:
  assumes "keyed_modules acc"
  shows "canonical_list (snd ` set acc) (sort_key mo_Name (map snd acc))"
proof -
  have "map mo_Name (map snd acc) = map fst acc"
    using assms by (auto simp: keyed_modules_def)
  moreover have "distinct (map fst acc)" using assms by (simp add: keyed_modules_def)
  ultimately have "distinct (map mo_Name (map snd acc))" by metis
  then have "distinct (map mo_Name (sort_key mo_Name (map snd acc)))"
    by (simp only: distinct_map distinct_sort set_sort)
  then show ?thesis by (simp add: canonical_list_def)
qed

theorem IndexInputs_spec:
  "IndexInputs d cs = Inr sel \<longleftrightarrow>
     cs \<noteq> [] \<and> (\<forall>c \<in> set cs. Contract_Validate c = None \<and> kc_Target c = is_Target sel) \<and>
     one_per_name (inventory cs) \<and>
     (\<exists>ms. canonical_list (inventory cs) ms \<and> is_ModulesSHA256 sel = d ms)"
proof (cases "collect_contracts cs \<lparr>tg_Release = [], tg_RuntimeSHA256 = []\<rparr> []")
  case (Inr p)
  obtain t acc where p: "p = (t, acc)" by (cases p)
  from collect_contracts_spec [OF _ _ Inr [unfolded p]] one_per_name_Nil
  have s: "keyed_modules acc" "snd ` set acc = inventory cs" "one_per_name (inventory cs)"
      "\<forall>c \<in> set cs. Contract_Validate c = None \<and> kc_Target c = t"
      "cs = [] \<Longrightarrow> t = \<lparr>tg_Release = [], tg_RuntimeSHA256 = []\<rparr>"
    using one_per_name_Nil by auto
  have c: "canonical_list (inventory cs) (sort_key mo_Name (map snd acc))"
    using keyed_modules_canonical [OF s(1)] s(2) by simp
  have e: "acc = [] \<longleftrightarrow> cs = []"
  proof
    assume "acc = []"
    then have "\<forall>c \<in> set cs. kc_Modules c = []" using s(2) by (auto simp: inventory_def)
    moreover have "kc_Modules c \<noteq> []" if "c \<in> set cs" for c
      using s(4) that by (simp add: Contract_Validate_def)
    ultimately show "cs = []" by (cases cs) auto
  qed (use s(2) in \<open>simp add: inventory_def\<close>)
  have sel: "IndexInputs d cs = Inr sel \<longleftrightarrow>
      acc \<noteq> [] \<and> sel = \<lparr>is_Target = t, is_ModulesSHA256 = d (sort_key mo_Name (map snd acc))\<rparr>"
    by (auto simp: IndexInputs_def Inr p)
  have tt: "(\<forall>c \<in> set cs. Contract_Validate c = None \<and> kc_Target c = is_Target sel) \<longleftrightarrow> is_Target sel = t"
    if "cs \<noteq> []" using s(4) that by (cases cs) auto
  have dd: "(\<exists>ms. canonical_list (inventory cs) ms \<and> is_ModulesSHA256 sel = d ms) \<longleftrightarrow>
      is_ModulesSHA256 sel = d (sort_key mo_Name (map snd acc))"
    using c canonical_list_unique [OF c] by blast
  have "sel = \<lparr>is_Target = a, is_ModulesSHA256 = b\<rparr> \<longleftrightarrow> is_Target sel = a \<and> is_ModulesSHA256 sel = b" for a b
    by (cases sel) simp
  then show ?thesis
    unfolding sel e dd using s(3) tt by blast
next
  case (Inl x)
  then show ?thesis
    using collect_contracts_complete [of "[]" cs "is_Target sel" "\<lparr>tg_Release = [], tg_RuntimeSHA256 = []\<rparr>"]
    by (auto simp: IndexInputs_def)
qed

end
