(* ===== verification/ExtensionRelease.thy ===== *)
theory ExtensionRelease
  imports KernelCmdline KernelModule
begin

text \<open>
  Release-owned extension selections (\<^verbatim>\<open>internal/extensionrelease/manifest.go\<close>) and the OCI reference
  checks they use (\<^verbatim>\<open>internal/installer/payloadbundle/oci.go\<close>). The third-party reference parser is the
  parameter \<open>ParseNamed\<close>, which returns the parsed name, tag and digest of a fully qualified reference.
\<close>

section \<open>OCI references\<close>

record oci_digest =
  dg_Algorithm :: string
  dg_String :: string

record oci_named =
  on_Name :: string
  on_Tag :: "string option"
  on_Digest :: "oci_digest option"

type_synonym oci_parser = "string \<Rightarrow> oci_named option"

definition IsNameOnly :: "oci_named \<Rightarrow> bool" where
  "IsNameOnly r \<longleftrightarrow> on_Tag r = None \<and> on_Digest r = None"

definition ParseReference :: "oci_parser \<Rightarrow> string \<Rightarrow> oci_named res" where
  "ParseReference ParseNamed value =
     (case ParseNamed (TrimSpace value) of
        None \<Rightarrow> fail ''invalid OCI reference: %w'' []
      | Some named \<Rightarrow>
          if IsNameOnly named then fail ''OCI reference requires a tag or manifest digest'' []
          else case on_Digest named of
                 Some pinned \<Rightarrow>
                   if dg_Algorithm pinned \<noteq> ''sha256''
                   then fail ''OCI reference requires a sha256 manifest digest'' []
                   else Inr named
               | None \<Rightarrow> Inr named)"

definition Tag :: "oci_named \<Rightarrow> string" where
  "Tag r = (case on_Tag r of Some t \<Rightarrow> t | None \<Rightarrow> [])"

definition ManifestDigest :: "oci_named \<Rightarrow> string" where
  "ManifestDigest r = (case on_Digest r of Some pinned \<Rightarrow> dg_String pinned | None \<Rightarrow> [])"

section \<open>Release manifests\<close>

record ReleaseTarget =
  rt_Version :: string
  rt_Architecture :: string
  rt_Flavour :: string
  rt_RuntimeInterface :: string
  rt_Kernel :: Target

record Manifest =
  mf_Target :: ReleaseTarget
  mf_Extensions :: "(string \<times> string) list"

definition ValidateRepository :: "oci_parser \<Rightarrow> string \<Rightarrow> error" where
  "ValidateRepository ParseNamed value =
     reject (case ParseNamed value of None \<Rightarrow> True | Some ref \<Rightarrow> \<not> IsNameOnly ref)
       ''release extension %q must be a full OCI repository without a tag or digest'' [value]"

definition ReleaseTarget_Validate :: "ReleaseTarget \<Rightarrow> error" where
  "ReleaseTarget_Validate t =
     first_error
       [reject (TrimSpace (rt_Version t) = [] \<or> TrimSpace (rt_Architecture t) = [] \<or>
                TrimSpace (rt_RuntimeInterface t) = [])
          ''release version, architecture, and runtime interface are required'' [],
        reject (Normalize (rt_Flavour t) \<noteq> Inr (rt_Flavour t))
          ''release target requires an explicit supported kernel flavor'' [],
        Target_Validate (rt_Kernel t)]"

definition ReleaseTarget_ValidateRuntime ::
  "ReleaseTarget \<Rightarrow> string \<Rightarrow> string \<Rightarrow> string \<Rightarrow> string \<Rightarrow> string \<Rightarrow> error" where
  "ReleaseTarget_ValidateRuntime t version architecture kernelFlavour runtimeInterface runtimeSHA256 =
     (case ReleaseTarget_Validate t of
        Some e \<Rightarrow> Some e
      | None \<Rightarrow>
          (case Normalize kernelFlavour of
             Inl e \<Rightarrow> Some e
           | Inr canonical \<Rightarrow>
               reject (rt_Version t \<noteq> version \<or> rt_Architecture t \<noteq> architecture \<or> rt_Flavour t \<noteq> canonical \<or>
                       rt_RuntimeInterface t \<noteq> runtimeInterface \<or>
                       tg_RuntimeSHA256 (rt_Kernel t) \<noteq> runtimeSHA256)
                 ''extension release target does not match the selected runtime'' []))"

definition validate_extension :: "oci_parser \<Rightarrow> string \<times> string \<Rightarrow> error" where
  "validate_extension ParseNamed = (\<lambda>(repository, value).
     (case ValidateRepository ParseNamed repository of
        Some e \<Rightarrow> Some e
      | None \<Rightarrow>
          (case ParseReference ParseNamed value of
             Inl e \<Rightarrow> Some (Wrap ''release extension %q: %w'' [repository] e)
           | Inr ref \<Rightarrow>
               first_error
                 [reject (ManifestDigest ref = [])
                    ''release extension %q must be pinned by OCI digest'' [repository],
                  reject (on_Name ref \<noteq> repository)
                    ''release extension %q must select an artifact in the same repository'' [repository]])))"

definition Manifest_Validate :: "oci_parser \<Rightarrow> Manifest \<Rightarrow> error" where
  "Manifest_Validate ParseNamed m =
     first_error [ReleaseTarget_Validate (mf_Target m), each_error (validate_extension ParseNamed) (mf_Extensions m)]"

definition Resolve :: "oci_parser \<Rightarrow> Manifest \<Rightarrow> ReleaseTarget \<Rightarrow> string \<Rightarrow> string res" where
  "Resolve ParseNamed m t repository =
     res_need
       (first_error
          [Manifest_Validate ParseNamed m,
           reject (mf_Target m \<noteq> t) ''extension release manifest does not match the target runtime'' []])
       (case map_of (mf_Extensions m) repository of
          None \<Rightarrow> fail ''extension %q is unavailable for KatlOS %s (%s/%s)''
                    [repository, rt_Version t, rt_Architecture t, rt_Flavour t]
        | Some ref \<Rightarrow> Inr ref)"

section \<open>Lemmas\<close>

text \<open>What a selection of a valid manifest is: a reference pinned by digest in the repository asked for.\<close>

lemma ParseReference_Inr:
  "ParseReference P v = Inr r \<Longrightarrow>
     P (TrimSpace v) = Some r \<and> (case on_Digest r of Some d \<Rightarrow> dg_Algorithm d = ''sha256'' | None \<Rightarrow> on_Tag r \<noteq> None)"
  by (auto simp: ParseReference_def IsNameOnly_def split: option.splits if_splits)

lemma validate_extension_None:
  assumes "validate_extension P (repository, v) = None"
  shows "\<exists>r d. P (TrimSpace v) = Some r \<and> on_Name r = repository \<and> on_Digest r = Some d \<and>
               dg_Algorithm d = ''sha256'' \<and> dg_String d \<noteq> []"
proof -
  from assms obtain r where r: "ParseReference P v = Inr r" "ManifestDigest r \<noteq> []" "on_Name r = repository"
    by (auto simp: validate_extension_def split: option.splits sum.splits)
  with ParseReference_Inr [OF r(1)] show ?thesis
    by (auto simp: ManifestDigest_def split: option.splits)
qed

lemma ReleaseTarget_ValidateRuntime_None:
  "ReleaseTarget_ValidateRuntime t v a f i s = None \<longleftrightarrow>
     ReleaseTarget_Validate t = None \<and> rt_Version t = v \<and> rt_Architecture t = a \<and>
     Normalize f = Inr (rt_Flavour t) \<and> rt_RuntimeInterface t = i \<and> tg_RuntimeSHA256 (rt_Kernel t) = s"
  by (auto simp: ReleaseTarget_ValidateRuntime_def split: option.splits sum.splits)

lemma Resolve_pinned:
  assumes "Resolve P m t repository = Inr v"
  shows "mf_Target m = t \<and> Manifest_Validate P m = None \<and> map_of (mf_Extensions m) repository = Some v \<and>
    (\<exists>r d. P (TrimSpace v) = Some r \<and> on_Name r = repository \<and> on_Digest r = Some d \<and>
           dg_Algorithm d = ''sha256'' \<and> dg_String d \<noteq> [])"
proof -
  from assms have m: "Manifest_Validate P m = None" "mf_Target m = t" "map_of (mf_Extensions m) repository = Some v"
    by (auto simp: Resolve_def split: option.splits)
  then have "validate_extension P (repository, v) = None"
    by (auto simp: Manifest_Validate_def dest: map_of_SomeD)
  with m validate_extension_None show ?thesis by blast
qed

end
