(* ===== verification/Metadata.thy ===== *)
theory Metadata
  imports ConfigApply ExtensionRelease
begin

text \<open>
  The generation record and its construction (\<^verbatim>\<open>internal/generation/metadata.go\<close>, with
  \<open>validateModuleIndexes\<close> of \<^verbatim>\<open>module_indexes.go\<close>): the data of a generation, the normalisation of extension
  references, the generated confext and volume bindings, and the validation of a whole record. A slice
  whose \<open>nil\<close> is told from the empty one is an option, a pointer is an option.
\<close>

section \<open>Data\<close>

definition GeneratedConfextName :: string where "GeneratedConfextName = ''zzzz-katl-node''"

definition RecordKind :: string where "RecordKind = ''GenerationRecord''"

definition IsGeneratedConfextName :: "string \<Rightarrow> bool" where
  "IsGeneratedConfextName name \<longleftrightarrow>
     TrimSpace name = GeneratedConfextName \<or> TrimSpace name = ''katl-node''"

record KubernetesUpgrade =
  ku_OperationID :: string
  ku_TargetKubeadmAccessMode :: string
  ku_KubeletActivationGate :: string

record VolumeBinding =
  vb_Name :: string
  vb_PartitionUUID :: string
  vb_FilesystemUUID :: string

record RootSelection =
  rs_Flavour :: string
  rs_Slot :: string
  rs_PartitionUUID :: string
  rs_RuntimeVersion :: string
  rs_RuntimeInterface :: string
  rs_Architecture :: string
  rs_RuntimeArtifactSHA256 :: string

record BootSelection =
  bt_UKIPath :: string
  bt_LoaderEntryPath :: string

record ExtensionCompatibility =
  ec_Kernel :: "Contract option"
  ec_ModuleIndexes :: "IndexSelection option"
  ec_RuntimeInterfaces :: "string list"

record ExtensionRef =
  er_Name :: string
  er_Path :: string
  er_ActivationPath :: string
  er_SHA256 :: string
  er_ArtifactVersion :: string
  er_PayloadVersion :: string
  er_Architecture :: string
  er_Compatibility :: ExtensionCompatibility

record ConfextCompatibility =
  cc_ID :: string
  cc_VersionID :: string
  cc_ConfextLevel :: int

record GeneratedConfext =
  gc_Name :: string
  gc_Path :: string
  gc_ActivationPath :: string
  gc_SHA256 :: string
  gc_Compatibility :: ConfextCompatibility

record ConfigApplyRecord =
  ca_SourceDigest :: string
  ca_ChangedDomains :: "string list"
  ca_RequestedApplyMode :: string
  ca_AcceptedApplyMode :: string
  ca_PreviousGeneration :: string
  ca_Kubeadm :: KubeadmActionRequired

record Record =
  re_ExtensionRelease :: "Manifest option"
  re_APIVersion :: string
  re_Kind :: string
  re_GenerationID :: string
  re_RuntimeVersion :: string
  re_PreviousGenerationID :: string
  re_Root :: RootSelection
  re_Boot :: BootSelection
  re_Sysexts :: "ExtensionRef list"
  re_BundledConfexts :: "ExtensionRef list"
  re_Confexts :: "GeneratedConfext list"
  re_KernelCommandLine :: "string list"
  re_ConfiguredKernelCommandLine :: "string list"
  re_ConfigApply :: "ConfigApplyRecord option"
  re_KubernetesUpgrade :: "KubernetesUpgrade option"
  re_VolumeBindings :: "VolumeBinding list"
  re_CreatedAt :: time
  re_BootState :: string
  re_HealthState :: string

record FirstInstallRequest =
  fi_ExtensionRelease :: "Manifest option"
  fi_Root :: RootSelection
  fi_GenerationID :: string
  fi_UKIPath :: string
  fi_Sysexts :: "ExtensionRef list"
  fi_BundledConfexts :: "ExtensionRef list"
  fi_GeneratedConfext :: GeneratedConfext
  fi_KernelCommandLine :: "string list"
  fi_ConfiguredKernelCommandLine :: "string list"
  fi_VolumeBindings :: "VolumeBinding list"
  fi_CreatedAt :: time

record RuntimeConfigRequest =
  rc_GenerationID :: string
  rc_Previous :: Record
  rc_SourceDigest :: string
  rc_Sysexts :: "ExtensionRef list"
  rc_BundledConfexts :: "ExtensionRef list"
  rc_GeneratedConfext :: GeneratedConfext
  rc_ChangedDomains :: "string list"
  rc_RequestedApplyMode :: string
  rc_AcceptedApplyMode :: string
  rc_Kubeadm :: KubeadmActionRequired
  rc_CreatedAt :: time
  rc_KernelCommandLine :: "string list option"
  rc_ConfiguredKernelCommandLine :: "string list"
  rc_ConfiguredKernelCommandLineSet :: bool
  rc_VolumeBindings :: "VolumeBinding list"
  rc_VolumeBindingsSet :: bool

section \<open>Normalisation\<close>

definition normalizeGeneratedConfext :: "GeneratedConfext \<Rightarrow> GeneratedConfext res" where
  "normalizeGeneratedConfext raw =
     (let c = (if TrimSpace (gc_Name raw) = [] then raw\<lparr>gc_Name := GeneratedConfextName\<rparr> else raw)
      in if TrimSpace (gc_Path c) = [] then fail ''generated confext path is required'' []
         else let d = (if TrimSpace (gc_ActivationPath c) = []
                       then c\<lparr>gc_ActivationPath := ''/run/confexts/'' @ gc_Name c\<rparr> else c)
              in res_need
                   (first_error
                      [validateSHA256 ''generated confext'' (gc_SHA256 d),
                       reject (TrimSpace (cc_ID (gc_Compatibility d)) = [] \<or>
                               TrimSpace (cc_VersionID (gc_Compatibility d)) = [] \<or>
                               cc_ConfextLevel (gc_Compatibility d) < 1)
                         ''generated confext compatibility metadata is required'' []])
                   (Inr (d\<lparr>gc_SHA256 := ToLower (gc_SHA256 d)\<rparr>)))"

text \<open>The character test of a volume binding name, with the index \<open>i\<close> of the range loop.\<close>

fun binding_name_chars :: "nat \<Rightarrow> nat \<Rightarrow> string \<Rightarrow> bool" where
  "binding_name_chars len i [] = True"
| "binding_name_chars len i (c # cs) =
     (((let n = (of_char c :: nat) in 97 \<le> n \<and> n \<le> 122 \<or> 48 \<le> n \<and> n \<le> 57) \<or>
       (c = CHR ''-'' \<and> 0 < i \<and> i + 1 < len)) \<and> binding_name_chars len (i + 1) cs)"

definition trim_binding :: "VolumeBinding \<Rightarrow> VolumeBinding" where
  "trim_binding b =
     \<lparr>vb_Name = TrimSpace (vb_Name b), vb_PartitionUUID = TrimSpace (vb_PartitionUUID b),
      vb_FilesystemUUID = TrimSpace (vb_FilesystemUUID b)\<rparr>"

fun clean_bindings_from :: "VolumeBinding list \<Rightarrow> VolumeBinding list \<Rightarrow> VolumeBinding list res" where
  "clean_bindings_from cleaned [] = Inr cleaned"
| "clean_bindings_from cleaned (raw # rest) =
     (let b = trim_binding raw
      in res_need
           (first_error
              [reject (vb_Name b = []) ''volume binding name is required'' [],
               reject (\<not> binding_name_chars (length (vb_Name b)) 0 (vb_Name b))
                 ''volume binding name %q must use lowercase letters, digits, and internal dashes'' [vb_Name b],
               reject (vb_PartitionUUID b = [] \<and> vb_FilesystemUUID b = [])
                 ''volume binding %q requires a partition UUID or filesystem UUID'' [vb_Name b],
               reject (vb_Name b \<in> set (map vb_Name cleaned)) ''duplicate volume binding %q'' [vb_Name b]])
           (clean_bindings_from (cleaned @ [b]) rest))"

definition cleanVolumeBindings :: "VolumeBinding list \<Rightarrow> VolumeBinding list res" where
  "cleanVolumeBindings bindings =
     res_bind (clean_bindings_from [] bindings) (\<lambda>cleaned. Inr (sort_key vb_Name cleaned))"

fun clean_exts_from ::
  "string \<Rightarrow> ExtensionRef list \<Rightarrow> ExtensionRef list \<Rightarrow> ExtensionRef list res" where
  "clean_exts_from kind cleaned [] = Inr cleaned"
| "clean_exts_from kind cleaned (ref # rest) =
     res_need
       (first_error
          [reject (TrimSpace (er_Name ref) = [] \<or> TrimSpace (er_Path ref) = [] \<or> TrimSpace (er_ActivationPath ref) = [])
             ''%s name, path, and activation path are required'' [kind],
           reject (er_Name ref \<in> set (map er_Name cleaned)) ''duplicate %s %q'' [kind, er_Name ref],
           reject (Clean (er_ActivationPath ref) \<in> set (map (\<lambda>r. Clean (er_ActivationPath r)) cleaned))
             ''%s %q and %q share activation path %q'' [kind, er_Name ref, Clean (er_ActivationPath ref)],
           validateSHA256 (kind @ '' '' @ er_Name ref) (er_SHA256 ref),
           reject (TrimSpace (er_ArtifactVersion ref) = [] \<or> TrimSpace (er_PayloadVersion ref) = [] \<or>
                   TrimSpace (er_Architecture ref) = [])
             ''%s %q version and architecture metadata is required'' [kind, er_Name ref],
           reject (ec_RuntimeInterfaces (er_Compatibility ref) = [])
             ''%s %q runtime compatibility metadata is required'' [kind, er_Name ref]])
       (clean_exts_from kind (cleaned @ [ref\<lparr>er_SHA256 := ToLower (er_SHA256 ref)\<rparr>]) rest)"

definition cleanExtsNamed :: "string \<Rightarrow> ExtensionRef list \<Rightarrow> ExtensionRef list res" where
  "cleanExtsNamed kind refs = clean_exts_from kind [] refs"

definition cleanExts :: "ExtensionRef list \<Rightarrow> ExtensionRef list res" where
  "cleanExts refs = cleanExtsNamed ''sysext'' refs"

section \<open>Validation\<close>

definition ValidatePair :: "RootSelection \<Rightarrow> ExtensionRef \<Rightarrow> error" where
  "ValidatePair root sysext =
     first_error
       [(case ec_ModuleIndexes (er_Compatibility sysext) of
           None \<Rightarrow> None
         | Some indexes \<Rightarrow>
             first_error
               [IndexSelection_Validate indexes,
                reject (tg_RuntimeSHA256 (is_Target indexes) \<noteq> rs_RuntimeArtifactSHA256 root)
                  ''module indexes %q target a different runtime build'' [er_Name sysext],
                reject (ec_Kernel (er_Compatibility sysext) \<noteq> None)
                  ''module indexes cannot declare module payloads'' []]),
        (case ec_Kernel (er_Compatibility sysext) of
           None \<Rightarrow> None
         | Some contract \<Rightarrow>
             wrap_error ''sysext %q: %w'' [er_Name sysext]
               (Contract_ValidateRuntime contract (rs_RuntimeArtifactSHA256 root))),
        reject (TrimSpace (rs_RuntimeInterface root) = []) ''runtime interface is required'' [],
        reject (TrimSpace (rs_Architecture root) = []) ''runtime architecture is required'' [],
        reject (TrimSpace (er_Name sysext) = []) ''sysext name is required'' [],
        reject (er_Architecture sysext \<noteq> rs_Architecture root)
          ''sysext %q architecture %q is incompatible with runtime architecture %q''
          [er_Name sysext, er_Architecture sysext, rs_Architecture root],
        reject (rs_RuntimeInterface root \<notin> set (ec_RuntimeInterfaces (er_Compatibility sysext)))
          ''sysext %q does not support runtime interface %q'' [er_Name sysext, rs_RuntimeInterface root]]"

definition validateExtensionRelease :: "oci_parser \<Rightarrow> RootSelection \<Rightarrow> Manifest option \<Rightarrow> error" where
  "validateExtensionRelease ParseNamed root release =
     (case release of
        None \<Rightarrow> None
      | Some m \<Rightarrow>
          first_error
            [wrap_error ''extension release: %w'' [] (Manifest_Validate ParseNamed m),
             ReleaseTarget_ValidateRuntime (mf_Target m) (rs_RuntimeVersion root) (rs_Architecture root)
               (rs_Flavour root) (rs_RuntimeInterface root) (rs_RuntimeArtifactSHA256 root)])"

definition validateConfigApplyRecord :: "ConfigApplyRecord \<Rightarrow> error" where
  "validateConfigApplyRecord config =
     first_error
       [validateSHA256 ''configuration source'' (ca_SourceDigest config),
        wrap_error ''config apply metadata: %w'' [] (error_of (cleanChangedDomains (ca_ChangedDomains config))),
        validateRequestedApplyMode ''requested apply mode'' (ca_RequestedApplyMode config),
        validateAcceptedApplyMode ''accepted apply mode'' (ca_AcceptedApplyMode config),
        reject (TrimSpace (ca_PreviousGeneration config) = [])
          ''config apply metadata previous generation id is required'' []]"

definition ValidateRecord :: "oci_parser \<Rightarrow> Record \<Rightarrow> error" where
  "ValidateRecord ParseNamed r =
     first_error
       [validateExtensionRelease ParseNamed (re_Root r) (re_ExtensionRelease r),
        error_of (Normalize (rs_Flavour (re_Root r))),
        wrap_error ''configured kernel command line: %w'' []
          (ValidateEffective (re_ConfiguredKernelCommandLine r) (re_KernelCommandLine r)),
        each_error (ValidatePair (re_Root r)) (re_Sysexts r),
        each_error (\<lambda>c. wrap_error ''bundled confext: %w'' [] (ValidatePair (re_Root r) c)) (re_BundledConfexts r),
        (case re_ConfigApply r of None \<Rightarrow> None | Some config \<Rightarrow> validateConfigApplyRecord config),
        error_of (cleanVolumeBindings (re_VolumeBindings r))]"

text \<open>
  \<open>validateModuleIndexes\<close>: the loop collects the selected contracts and at most one index image.
\<close>

fun collect_indexes ::
  "ExtensionRef list \<Rightarrow> Contract list \<Rightarrow> IndexSelection option \<Rightarrow> (Contract list \<times> IndexSelection option) res" where
  "collect_indexes [] modules indexes = Inr (modules, indexes)"
| "collect_indexes (ref # rest) modules indexes =
     (let modules' = (case ec_Kernel (er_Compatibility ref) of
                        None \<Rightarrow> modules | Some contract \<Rightarrow> modules @ [contract])
      in case ec_ModuleIndexes (er_Compatibility ref) of
           None \<Rightarrow> collect_indexes rest modules' indexes
         | Some sel \<Rightarrow>
             if indexes \<noteq> None then fail ''generation contains multiple module index images'' []
             else collect_indexes rest modules' (Some sel))"

definition validateModuleIndexes :: "(Module list \<Rightarrow> string) \<Rightarrow> ExtensionRef list \<Rightarrow> error" where
  "validateModuleIndexes module_digest refs =
     (case collect_indexes refs [] None of
        Inl e \<Rightarrow> Some e
      | Inr (modules, indexes) \<Rightarrow>
          if modules = [] then
            reject (indexes \<noteq> None)
              ''generation retains module indexes without selected kernel extensions'' []
          else (case IndexInputs module_digest modules of
                  Inl e \<Rightarrow> Some e
                | Inr selection \<Rightarrow>
                    reject (indexes \<noteq> Some selection)
                      ''generation requires dependency indexes for its selected kernel modules'' []))"


section \<open>New records\<close>

definition NewFirstInstallRecord :: "oci_parser \<Rightarrow> time \<Rightarrow> FirstInstallRequest \<Rightarrow> Record res" where
  "NewFirstInstallRecord ParseNamed now request =
     res_need
       (first_error
          [reject (TrimSpace (fi_GenerationID request) = []) ''generation id is required'' [],
           reject (TrimSpace (rs_RuntimeVersion (fi_Root request)) = []) ''runtime version is required'' [],
           reject (TrimSpace (rs_RuntimeInterface (fi_Root request)) = []) ''runtime interface is required'' [],
           reject (TrimSpace (rs_Architecture (fi_Root request)) = []) ''runtime architecture is required'' [],
           reject (TrimSpace (rs_Slot (fi_Root request)) = []) ''root slot is required'' [],
           reject (TrimSpace (rs_PartitionUUID (fi_Root request)) = []) ''root partition UUID is required'' [],
           validateSHA256 ''runtime artifact'' (rs_RuntimeArtifactSHA256 (fi_Root request)),
           reject (TrimSpace (fi_UKIPath request) = []) ''UKI path is required'' []])
       (res_bind (cleanExts (fi_Sysexts request)) (\<lambda>sysexts.
        res_bind (cleanExtsNamed ''bundled confext'' (fi_BundledConfexts request)) (\<lambda>bundledConfexts.
        res_bind (normalizeGeneratedConfext (fi_GeneratedConfext request)) (\<lambda>confext.
        res_bind (cleanVolumeBindings (fi_VolumeBindings request)) (\<lambda>volumeBindings.
          let rec =
            \<lparr>re_ExtensionRelease = fi_ExtensionRelease request, re_APIVersion = APIVersion, re_Kind = RecordKind,
             re_GenerationID = fi_GenerationID request,
             re_RuntimeVersion = rs_RuntimeVersion (fi_Root request), re_PreviousGenerationID = [],
             re_Root = fi_Root request, re_Boot = \<lparr>bt_UKIPath = fi_UKIPath request, bt_LoaderEntryPath = []\<rparr>,
             re_Sysexts = sysexts, re_BundledConfexts = bundledConfexts, re_Confexts = [confext],
             re_KernelCommandLine = fi_KernelCommandLine request,
             re_ConfiguredKernelCommandLine = fi_ConfiguredKernelCommandLine request,
             re_ConfigApply = None, re_KubernetesUpgrade = None, re_VolumeBindings = volumeBindings,
             re_CreatedAt = nonzeroUTC now (fi_CreatedAt request),
             re_BootState = ''pending'', re_HealthState = ''unknown''\<rparr>
          in res_need (ValidateRecord ParseNamed rec) (Inr rec))))))"

definition runtimeKernelCommandLine :: "RuntimeConfigRequest \<Rightarrow> string list" where
  "runtimeKernelCommandLine request =
     (case rc_KernelCommandLine request of
        Some line \<Rightarrow> line | None \<Rightarrow> re_KernelCommandLine (rc_Previous request))"

definition runtimeConfiguredKernelCommandLine :: "RuntimeConfigRequest \<Rightarrow> string list" where
  "runtimeConfiguredKernelCommandLine request =
     (if rc_ConfiguredKernelCommandLineSet request then rc_ConfiguredKernelCommandLine request
      else re_ConfiguredKernelCommandLine (rc_Previous request))"

definition NewRuntimeConfigRecord ::
  "oci_parser \<Rightarrow> (string \<Rightarrow> string) \<Rightarrow> time \<Rightarrow> RuntimeConfigRequest \<Rightarrow> Record res" where
  "NewRuntimeConfigRecord ParseNamed redact now request =
     (let previous = rc_Previous request in
      res_need
       (first_error
          [wrap_error ''previous generation metadata is invalid: %w'' [] (ValidateRecord ParseNamed previous),
           reject (TrimSpace (re_GenerationID previous) = []) ''previous generation id is required'' [],
           reject (TrimSpace (rc_GenerationID request) = []) ''generation id is required'' []])
       (res_bind (cleanSegment ''generation id'' (rc_GenerationID request)) (\<lambda>generationID.
        let accepted = (if TrimSpace (rc_AcceptedApplyMode request) = [] then rc_RequestedApplyMode request
                        else rc_AcceptedApplyMode request)
        in res_need
          (first_error
             [reject (generationID = re_GenerationID previous)
                ''runtime configuration generation must differ from previous generation'' [],
              validateSHA256 ''configuration source'' (rc_SourceDigest request),
              validateRequestedApplyMode ''requested apply mode'' (rc_RequestedApplyMode request),
              validateAcceptedApplyMode ''accepted apply mode'' accepted])
        (res_bind (cleanChangedDomains (rc_ChangedDomains request)) (\<lambda>domains.
        res_bind (cleanExts (rc_Sysexts request)) (\<lambda>sysexts.
        res_bind (cleanExtsNamed ''bundled confext'' (rc_BundledConfexts request)) (\<lambda>bundledConfexts.
        res_bind (normalizeGeneratedConfext (rc_GeneratedConfext request)) (\<lambda>confext.
        res_bind (cleanVolumeBindings (if rc_VolumeBindingsSet request then rc_VolumeBindings request
                                       else re_VolumeBindings previous)) (\<lambda>volumeBindings.
          let rec =
            \<lparr>re_ExtensionRelease = re_ExtensionRelease previous, re_APIVersion = APIVersion, re_Kind = RecordKind,
             re_GenerationID = generationID, re_RuntimeVersion = re_RuntimeVersion previous,
             re_PreviousGenerationID = TrimSpace (re_GenerationID previous), re_Root = re_Root previous,
             re_Boot = \<lparr>bt_UKIPath = bt_UKIPath (re_Boot previous),
                        bt_LoaderEntryPath = PathJoin [''loader/entries'', ''katl-'' @ generationID @ ''.conf'']\<rparr>,
             re_Sysexts = sysexts, re_BundledConfexts = bundledConfexts, re_Confexts = [confext],
             re_KernelCommandLine = runtimeKernelCommandLine request,
             re_ConfiguredKernelCommandLine = runtimeConfiguredKernelCommandLine request,
             re_ConfigApply = Some
               \<lparr>ca_SourceDigest = ToLower (rc_SourceDigest request), ca_ChangedDomains = domains,
                ca_RequestedApplyMode = TrimSpace (rc_RequestedApplyMode request),
                ca_AcceptedApplyMode = TrimSpace accepted,
                ca_PreviousGeneration = TrimSpace (re_GenerationID previous),
                ca_Kubeadm = redactKubeadmActionRequired redact (rc_Kubeadm request)\<rparr>,
             re_KubernetesUpgrade = None, re_VolumeBindings = volumeBindings,
             re_CreatedAt = nonzeroUTC now (rc_CreatedAt request),
             re_BootState = ''pending'', re_HealthState = ''unknown''\<rparr>
          in res_need (ValidateRecord ParseNamed rec) (Inr rec))))))))))"

section \<open>Lemmas\<close>

lemma validateSHA256_None:
  "validateSHA256 n v = None \<longleftrightarrow> length v = 64 \<and> ToLower v = v \<and> hexDecodes v"
  by (auto simp: validateSHA256_def)

lemma trim_binding_idem [simp]: "trim_binding (trim_binding b) = trim_binding b"
  by (simp add: trim_binding_def)

text \<open>The bindings the loop accepts.\<close>

definition good_binding :: "VolumeBinding \<Rightarrow> bool" where
  "good_binding b \<longleftrightarrow>
     vb_Name b \<noteq> [] \<and> binding_name_chars (length (vb_Name b)) 0 (vb_Name b) \<and>
     (vb_PartitionUUID b \<noteq> [] \<or> vb_FilesystemUUID b \<noteq> [])"

lemma clean_bindings_from_Inr:
  "clean_bindings_from acc bs = Inr r \<longleftrightarrow>
     r = acc @ map trim_binding bs \<and> list_all (\<lambda>b. good_binding (trim_binding b)) bs \<and>
     set (map vb_Name acc) \<inter> set (map (\<lambda>b. vb_Name (trim_binding b)) bs) = {} \<and>
     distinct (map (\<lambda>b. vb_Name (trim_binding b)) bs)"
proof (induction bs arbitrary: acc)
  case (Cons b bs)
  have step: "clean_bindings_from acc (b # bs) = Inr r \<longleftrightarrow>
      good_binding (trim_binding b) \<and> vb_Name (trim_binding b) \<notin> set (map vb_Name acc) \<and>
      clean_bindings_from (acc @ [trim_binding b]) bs = Inr r"
    by (simp add: Let_def good_binding_def)
  show ?case unfolding step Cons.IH by auto
qed auto

lemma cleanVolumeBindings_Inr:
  "cleanVolumeBindings bs = Inr r \<longleftrightarrow>
     r = sort_key vb_Name (map trim_binding bs) \<and> list_all (\<lambda>b. good_binding (trim_binding b)) bs \<and>
     distinct (map (\<lambda>b. vb_Name (trim_binding b)) bs)"
  by (auto simp: cleanVolumeBindings_def clean_bindings_from_Inr)

lemma distinct_map_sort_key: "distinct (map f (sort_key f xs)) \<longleftrightarrow> distinct (map f xs)"
  by (simp only: distinct_map distinct_sort set_sort)

lemma cleanVolumeBindings_normal:
  assumes "cleanVolumeBindings bs = Inr r"
  shows "sorted (map vb_Name r)" "distinct (map vb_Name r)" "set r = trim_binding ` set bs"
    "\<forall>b \<in> set r. good_binding b \<and> trim_binding b = b"
  using assms by (auto simp: cleanVolumeBindings_Inr distinct_map_sort_key list_all_iff comp_def)

lemma cleanVolumeBindings_idem:
  assumes "cleanVolumeBindings bs = Inr r"
  shows "cleanVolumeBindings r = Inr r"
proof -
  note n = cleanVolumeBindings_normal [OF assms]
  have t: "map trim_binding r = r" using n(4) by (simp add: map_idI)
  have "distinct (map (\<lambda>b. vb_Name (trim_binding b)) r)" using n(2,4) by (simp add: distinct_map inj_on_def)
  with n t show ?thesis
    by (simp add: cleanVolumeBindings_Inr sorted_sort_id list_all_iff sort_key_id_if_sorted)
qed

definition good_ext :: "ExtensionRef \<Rightarrow> bool" where
  "good_ext r \<longleftrightarrow>
     TrimSpace (er_Name r) \<noteq> [] \<and> TrimSpace (er_Path r) \<noteq> [] \<and> TrimSpace (er_ActivationPath r) \<noteq> [] \<and>
     validateSHA256 [] (er_SHA256 r) = None \<and> TrimSpace (er_ArtifactVersion r) \<noteq> [] \<and>
     TrimSpace (er_PayloadVersion r) \<noteq> [] \<and> TrimSpace (er_Architecture r) \<noteq> [] \<and>
     ec_RuntimeInterfaces (er_Compatibility r) \<noteq> []"

text \<open>A valid digest is lowercase, so cleaning the references changes none of them.\<close>

lemma clean_exts_from_Inr:
  "clean_exts_from k acc rs = Inr out \<longleftrightarrow>
     out = acc @ rs \<and> list_all good_ext rs \<and>
     set (map er_Name acc) \<inter> set (map er_Name rs) = {} \<and> distinct (map er_Name rs) \<and>
     set (map (\<lambda>r. Clean (er_ActivationPath r)) acc) \<inter> set (map (\<lambda>r. Clean (er_ActivationPath r)) rs) = {} \<and>
     distinct (map (\<lambda>r. Clean (er_ActivationPath r)) rs)"
proof (induction rs arbitrary: acc)
  case (Cons r rs)
  have id: "validateSHA256 n (er_SHA256 r) = None \<Longrightarrow> r\<lparr>er_SHA256 := ToLower (er_SHA256 r)\<rparr> = r" for n
    by (simp add: validateSHA256_None)
  have any: "validateSHA256 n v = None \<longleftrightarrow> validateSHA256 [] v = None" for n v
    by (simp add: validateSHA256_None)
  have "clean_exts_from k acc (r # rs) = Inr out \<longleftrightarrow>
      good_ext r \<and> er_Name r \<notin> set (map er_Name acc) \<and>
      Clean (er_ActivationPath r) \<notin> set (map (\<lambda>r. Clean (er_ActivationPath r)) acc) \<and>
      clean_exts_from k (acc @ [r]) rs = Inr out"
    using id any [of "k @ '' '' @ er_Name r"] by (auto simp: good_ext_def)
  then show ?case unfolding Cons.IH by auto
qed auto

lemma cleanExtsNamed_Inr:
  "cleanExtsNamed k rs = Inr out \<longleftrightarrow>
     out = rs \<and> list_all good_ext rs \<and> distinct (map er_Name rs) \<and>
     distinct (map (\<lambda>r. Clean (er_ActivationPath r)) rs)"
  by (auto simp: cleanExtsNamed_def clean_exts_from_Inr)

lemma collect_indexes_Inr:
  "collect_indexes refs ms ix = Inr (ms', ix') \<Longrightarrow>
     ms' = ms @ List.map_filter (\<lambda>r. ec_Kernel (er_Compatibility r)) refs \<and>
     (let found = List.map_filter (\<lambda>r. ec_ModuleIndexes (er_Compatibility r)) refs
      in (case ix of None \<Rightarrow> (case ix' of None \<Rightarrow> found = [] | Some s \<Rightarrow> found = [s])
                   | Some s \<Rightarrow> found = [] \<and> ix' = ix))"
proof (induction refs arbitrary: ms ix)
  case (Cons r refs)
  let ?ms = "case ec_Kernel (er_Compatibility r) of None \<Rightarrow> ms | Some c \<Rightarrow> ms @ [c]"
  have ms: "?ms @ List.map_filter (\<lambda>r. ec_Kernel (er_Compatibility r)) refs =
      ms @ List.map_filter (\<lambda>r. ec_Kernel (er_Compatibility r)) (r # refs)"
    by (simp add: map_filter_simps split: option.splits)
  show ?case
  proof (cases "ec_ModuleIndexes (er_Compatibility r)")
    case None
    with Cons.prems have "collect_indexes refs ?ms ix = Inr (ms', ix')" by (simp add: Let_def)
    from Cons.IH [OF this] None show ?thesis unfolding ms by (simp add: map_filter_simps)
  next
    case (Some sel)
    with Cons.prems have ix: "ix = None" and "collect_indexes refs ?ms (Some sel) = Inr (ms', ix')"
      by (auto simp: Let_def fail_def split: if_splits)
    from Cons.IH [OF this(2)] Some ix show ?thesis unfolding ms by (simp add: map_filter_simps Let_def)
  qed
qed (auto simp: map_filter_simps Let_def split: option.splits)

end
