(* ===== verification/Split.thy ===== *)
theory Split
  imports Metadata
begin

text \<open>
  The split form of a generation (\<^verbatim>\<open>internal/generation/split.go\<close>): an immutable specification and a
  status that moves through commit, boot and health states. Here are the data, the conversions from and to the
  legacy record, the validation of both halves and the admitted status transitions; the files they are
  kept in are modelled in the store. The digest of a specification's canonical JSON is a field of the environment.
\<close>

section \<open>Data\<close>

definition SpecKind :: string where "SpecKind = ''GenerationSpec''"
definition StatusKind :: string where "StatusKind = ''GenerationStatus''"

definition CommitStateCandidate :: string where "CommitStateCandidate = ''candidate''"
definition CommitStateCommitted :: string where "CommitStateCommitted = ''committed''"
definition CommitStateSuperseded :: string where "CommitStateSuperseded = ''superseded''"
definition CommitStateAbandoned :: string where "CommitStateAbandoned = ''abandoned''"

definition BootStatePending :: string where "BootStatePending = ''pending''"
definition BootStateTrying :: string where "BootStateTrying = ''trying''"
definition BootStateGood :: string where "BootStateGood = ''good''"
definition BootStateFailed :: string where "BootStateFailed = ''failed''"

definition HealthStateUnknown :: string where "HealthStateUnknown = ''unknown''"
definition HealthStateHealthy :: string where "HealthStateHealthy = ''healthy''"
definition HealthStateUnhealthy :: string where "HealthStateUnhealthy = ''unhealthy''"
definition HealthStateDeferred :: string where "HealthStateDeferred = ''deferred''"

lemmas state_names =
  CommitStateCandidate_def CommitStateCommitted_def CommitStateSuperseded_def CommitStateAbandoned_def
  BootStatePending_def BootStateTrying_def BootStateGood_def BootStateFailed_def
  HealthStateUnknown_def HealthStateHealthy_def HealthStateUnhealthy_def HealthStateDeferred_def

record GenerationSpec =
  gs_ExtensionRelease :: "Manifest option"
  gs_APIVersion :: string
  gs_Kind :: string
  gs_GenerationID :: string
  gs_RuntimeVersion :: string
  gs_PreviousGenerationID :: string
  gs_Root :: RootSelection
  gs_Boot :: BootSelection
  gs_Sysexts :: "ExtensionRef list"
  gs_BundledConfexts :: "ExtensionRef list"
  gs_Confexts :: "GeneratedConfext list"
  gs_KernelCommandLine :: "string list"
  gs_ConfiguredKernelCommandLine :: "string list"
  gs_KubernetesUpgrade :: "KubernetesUpgrade option"
  gs_VolumeBindings :: "VolumeBinding list"
  gs_CreatedAt :: time

record StatusTransition =
  tr_At :: time
  tr_OperationID :: string
  tr_Reason :: string
  tr_CommitState :: string
  tr_BootState :: string
  tr_HealthState :: string

record GenerationStatus =
  st_UnavailableReason :: string
  st_APIVersion :: string
  st_Kind :: string
  st_GenerationID :: string
  st_SpecDigest :: string
  st_CommitState :: string
  st_BootState :: string
  st_HealthState :: string
  st_UpdatedAt :: time
  st_StatusTransitions :: "StatusTransition list"
  st_CommittedAt :: "time option"
  st_CommittedByOperation :: string

text \<open>
  What the generation code calls outside itself: the OCI reference parser, the digests of canonical
  JSON, the redaction of messages and the clock.
\<close>

record env =
  en_ParseNamed :: oci_parser
  en_module_digest :: "Module list \<Rightarrow> string"
  en_spec_digest :: "GenerationSpec \<Rightarrow> string"
  en_redact :: "string \<Rightarrow> string"
  en_now :: time

section \<open>Conversions\<close>

definition SpecFromRecord :: "Record \<Rightarrow> GenerationSpec" where
  "SpecFromRecord r =
     (let configured = (case re_ConfigApply r of None \<Rightarrow> [] | Some c \<Rightarrow> TrimSpace (ca_PreviousGeneration c));
          previous = (if configured = [] then TrimSpace (re_PreviousGenerationID r) else configured)
      in \<lparr>gs_ExtensionRelease = re_ExtensionRelease r, gs_APIVersion = APIVersion, gs_Kind = SpecKind,
          gs_GenerationID = TrimSpace (re_GenerationID r), gs_RuntimeVersion = TrimSpace (re_RuntimeVersion r),
          gs_PreviousGenerationID = previous, gs_Root = re_Root r, gs_Boot = re_Boot r,
          gs_Sysexts = re_Sysexts r, gs_BundledConfexts = re_BundledConfexts r, gs_Confexts = re_Confexts r,
          gs_KernelCommandLine = re_KernelCommandLine r,
          gs_ConfiguredKernelCommandLine = re_ConfiguredKernelCommandLine r,
          gs_KubernetesUpgrade = re_KubernetesUpgrade r, gs_VolumeBindings = re_VolumeBindings r,
          gs_CreatedAt = re_CreatedAt r\<rparr>)"

definition StatusFromRecord :: "env \<Rightarrow> Record \<Rightarrow> string \<Rightarrow> GenerationStatus" where
  "StatusFromRecord env r specDigest =
     \<lparr>st_UnavailableReason = [], st_APIVersion = APIVersion, st_Kind = StatusKind,
      st_GenerationID = TrimSpace (re_GenerationID r), st_SpecDigest = specDigest,
      st_CommitState = (if re_ConfigApply r \<noteq> None then CommitStateCandidate else CommitStateCommitted),
      st_BootState = (if TrimSpace (re_BootState r) = [] then BootStatePending else TrimSpace (re_BootState r)),
      st_HealthState = (if TrimSpace (re_HealthState r) = [] then HealthStateUnknown else TrimSpace (re_HealthState r)),
      st_UpdatedAt = nonzeroUTC (en_now env) (re_CreatedAt r),
      st_StatusTransitions = [], st_CommittedAt = None, st_CommittedByOperation = []\<rparr>"

definition RecordFromSplit :: "GenerationSpec \<Rightarrow> GenerationStatus \<Rightarrow> Record" where
  "RecordFromSplit spec status =
     \<lparr>re_ExtensionRelease = gs_ExtensionRelease spec, re_APIVersion = APIVersion, re_Kind = RecordKind,
      re_GenerationID = gs_GenerationID spec, re_RuntimeVersion = gs_RuntimeVersion spec,
      re_PreviousGenerationID = gs_PreviousGenerationID spec, re_Root = gs_Root spec, re_Boot = gs_Boot spec,
      re_Sysexts = gs_Sysexts spec, re_BundledConfexts = gs_BundledConfexts spec, re_Confexts = gs_Confexts spec,
      re_KernelCommandLine = gs_KernelCommandLine spec,
      re_ConfiguredKernelCommandLine = gs_ConfiguredKernelCommandLine spec, re_ConfigApply = None,
      re_KubernetesUpgrade = gs_KubernetesUpgrade spec, re_VolumeBindings = gs_VolumeBindings spec,
      re_CreatedAt = gs_CreatedAt spec, re_BootState = st_BootState status, re_HealthState = st_HealthState status\<rparr>"

section \<open>Validation\<close>

definition validate_upgrade :: "KubernetesUpgrade \<Rightarrow> error" where
  "validate_upgrade u =
     first_error
       [error_of (cleanSegment ''Kubernetes upgrade operation id'' (ku_OperationID u)),
        reject (TrimSpace (ku_TargetKubeadmAccessMode u) = [] \<or> TrimSpace (ku_KubeletActivationGate u) = [])
          ''Kubernetes upgrade access mode and kubelet activation gate are required'' []]"

definition ValidateGenerationSpec :: "env \<Rightarrow> GenerationSpec \<Rightarrow> error" where
  "ValidateGenerationSpec env spec =
     first_error
       [error_of (Normalize (rs_Flavour (gs_Root spec))),
        reject (gs_APIVersion spec \<noteq> APIVersion) ''generation spec apiVersion must be %q'' [],
        reject (gs_Kind spec \<noteq> SpecKind) ''generation spec kind must be %q'' [],
        error_of (cleanSegment ''generation id'' (gs_GenerationID spec)),
        reject (TrimSpace (gs_RuntimeVersion spec) = []) ''runtime version is required'' [],
        reject (TrimSpace (rs_Slot (gs_Root spec)) = []) ''root slot is required'' [],
        reject (TrimSpace (rs_PartitionUUID (gs_Root spec)) = []) ''root partition UUID is required'' [],
        reject (TrimSpace (rs_RuntimeInterface (gs_Root spec)) = []) ''runtime interface is required'' [],
        reject (TrimSpace (rs_Architecture (gs_Root spec)) = []) ''runtime architecture is required'' [],
        validateSHA256 ''runtime artifact'' (rs_RuntimeArtifactSHA256 (gs_Root spec)),
        validateExtensionRelease (en_ParseNamed env) (gs_Root spec) (gs_ExtensionRelease spec),
        reject (TrimSpace (bt_UKIPath (gs_Boot spec)) = []) ''UKI path is required'' [],
        wrap_error ''configured kernel command line: %w'' []
          (ValidateEffective (gs_ConfiguredKernelCommandLine spec) (gs_KernelCommandLine spec)),
        each_error (ValidatePair (gs_Root spec)) (gs_Sysexts spec),
        each_error (\<lambda>c. wrap_error ''bundled confext: %w'' [] (ValidatePair (gs_Root spec) c)) (gs_BundledConfexts spec),
        each_error (\<lambda>c. error_of (normalizeGeneratedConfext c)) (gs_Confexts spec),
        (case gs_KubernetesUpgrade spec of None \<Rightarrow> None | Some u \<Rightarrow> validate_upgrade u),
        error_of (cleanVolumeBindings (gs_VolumeBindings spec)),
        reject (gs_CreatedAt spec = 0) ''generation spec createdAt is required'' []]"

definition CanonicalSpecDigest :: "env \<Rightarrow> GenerationSpec \<Rightarrow> string res" where
  "CanonicalSpecDigest env spec =
     res_need (ValidateGenerationSpec env spec) (Inr (''sha256:'' @ en_spec_digest env spec))"

definition validCommitState :: "string \<Rightarrow> bool" where
  "validCommitState s \<longleftrightarrow>
     s \<in> {CommitStateCandidate, CommitStateCommitted, CommitStateSuperseded, CommitStateAbandoned}"

definition validBootState :: "string \<Rightarrow> bool" where
  "validBootState s \<longleftrightarrow> s \<in> {BootStatePending, BootStateTrying, BootStateGood, BootStateFailed}"

definition validHealthState :: "string \<Rightarrow> bool" where
  "validHealthState s \<longleftrightarrow>
     s \<in> {HealthStateUnknown, HealthStateHealthy, HealthStateUnhealthy, HealthStateDeferred}"

definition ValidateGenerationStatus :: "env \<Rightarrow> GenerationSpec \<Rightarrow> GenerationStatus \<Rightarrow> error" where
  "ValidateGenerationStatus env spec status =
     first_error
       [ValidateGenerationSpec env spec,
        reject (st_APIVersion status \<noteq> APIVersion) ''generation status apiVersion must be %q'' [],
        reject (st_Kind status \<noteq> StatusKind) ''generation status kind must be %q'' [],
        reject (st_GenerationID status \<noteq> gs_GenerationID spec)
          ''generation status id %q does not match spec id %q'' [st_GenerationID status, gs_GenerationID spec],
        (case CanonicalSpecDigest env spec of
           Inl e \<Rightarrow> Some e
         | Inr wantDigest \<Rightarrow>
             reject (st_SpecDigest status \<noteq> wantDigest)
               ''generation status specDigest mismatch: got %q, want %q'' [st_SpecDigest status, wantDigest]),
        reject (\<not> validCommitState (st_CommitState status)) ''unsupported generation commitState %q'' [st_CommitState status],
        reject (\<not> validBootState (st_BootState status)) ''unsupported generation bootState %q'' [st_BootState status],
        reject (\<not> validHealthState (st_HealthState status)) ''unsupported generation healthState %q'' [st_HealthState status],
        reject (st_UpdatedAt status = 0) ''generation status updatedAt is required'' []]"

definition NewGenerationStatus ::
  "env \<Rightarrow> GenerationSpec \<Rightarrow> string \<Rightarrow> string \<Rightarrow> string \<Rightarrow> time \<Rightarrow> GenerationStatus res" where
  "NewGenerationStatus env spec commitState bootState healthState updatedAt =
     res_bind (CanonicalSpecDigest env spec) (\<lambda>digest.
       let status =
         \<lparr>st_UnavailableReason = [], st_APIVersion = APIVersion, st_Kind = StatusKind,
          st_GenerationID = gs_GenerationID spec, st_SpecDigest = digest,
          st_CommitState = TrimSpace commitState, st_BootState = TrimSpace bootState,
          st_HealthState = TrimSpace healthState, st_UpdatedAt = nonzeroUTC (en_now env) updatedAt,
          st_StatusTransitions = [], st_CommittedAt = None, st_CommittedByOperation = []\<rparr>
       in res_need (ValidateGenerationStatus env spec status) (Inr status))"

section \<open>Status transitions\<close>

definition ValidateCommitTransition :: "string \<Rightarrow> string \<Rightarrow> error" where
  "ValidateCommitTransition from to =
     reject (from @ ''->'' @ to \<notin>
               {CommitStateCandidate @ ''->'' @ CommitStateCommitted,
                CommitStateCandidate @ ''->'' @ CommitStateAbandoned,
                CommitStateCommitted @ ''->'' @ CommitStateSuperseded,
                CommitStateSuperseded @ ''->'' @ CommitStateCommitted})
       ''invalid commitState transition %s -> %s'' [from, to]"

definition ValidateBootTransition :: "string \<Rightarrow> string \<Rightarrow> error" where
  "ValidateBootTransition from to =
     reject (from @ ''->'' @ to \<notin>
               {BootStatePending @ ''->'' @ BootStateTrying,
                BootStatePending @ ''->'' @ BootStateGood,
                BootStateTrying @ ''->'' @ BootStateGood,
                BootStatePending @ ''->'' @ BootStateFailed,
                BootStateTrying @ ''->'' @ BootStateFailed,
                BootStateGood @ ''->'' @ BootStateFailed,
                BootStateFailed @ ''->'' @ BootStateGood})
       ''invalid bootState transition %s -> %s'' [from, to]"

definition ValidateStatusTransition :: "GenerationStatus \<Rightarrow> GenerationStatus \<Rightarrow> error" where
  "ValidateStatusTransition previous new =
     first_error
       [reject (st_GenerationID previous \<noteq> st_GenerationID new)
          ''generation status transition cannot change generation id'' [],
        reject (st_SpecDigest previous \<noteq> st_SpecDigest new)
          ''generation status transition cannot change specDigest'' [],
        (if st_CommitState previous \<noteq> st_CommitState new
         then ValidateCommitTransition (st_CommitState previous) (st_CommitState new) else None),
        (if st_BootState previous \<noteq> st_BootState new
         then ValidateBootTransition (st_BootState previous) (st_BootState new) else None)]"

definition IsKnownGood :: "GenerationStatus \<Rightarrow> bool" where
  "IsKnownGood status \<longleftrightarrow>
     st_UnavailableReason status = [] \<and>
     (st_CommitState status = CommitStateCommitted \<or> st_CommitState status = CommitStateSuperseded) \<and>
     st_BootState status = BootStateGood \<and> st_HealthState status = HealthStateHealthy"


section \<open>The status machine\<close>

text \<open>The admitted moves of the commit and of the boot state, as step relations.\<close>

inductive commit_step :: "string \<Rightarrow> string \<Rightarrow> bool" where
  commit: "commit_step CommitStateCandidate CommitStateCommitted"
| abandon: "commit_step CommitStateCandidate CommitStateAbandoned"
| supersede: "commit_step CommitStateCommitted CommitStateSuperseded"
| recommit: "commit_step CommitStateSuperseded CommitStateCommitted"

inductive boot_step :: "string \<Rightarrow> string \<Rightarrow> bool" where
  attempt: "boot_step BootStatePending BootStateTrying"
| pending_good: "boot_step BootStatePending BootStateGood"
| trying_good: "boot_step BootStateTrying BootStateGood"
| pending_failed: "boot_step BootStatePending BootStateFailed"
| trying_failed: "boot_step BootStateTrying BootStateFailed"
| good_failed: "boot_step BootStateGood BootStateFailed"
| failed_good: "boot_step BootStateFailed BootStateGood"

inductive_cases commit_stepE: "commit_step c d"
inductive_cases boot_stepE: "boot_step b c"

text \<open>The dash of the arrow occurs nowhere else, so the concatenated key determines both states.\<close>

lemma takeWhile_upto: "x \<notin> set f \<Longrightarrow> takeWhile (\<lambda>c. c \<noteq> x) (f @ x # r) = f"
  by (induction f) auto

lemma arrow_split:
  assumes "CHR ''-'' \<notin> set a" "CHR ''-'' \<notin> set b"
  shows "f @ ''->'' @ t = a @ ''->'' @ b \<longleftrightarrow> f = a \<and> t = b"
proof
  assume eq: "f @ ''->'' @ t = a @ ''->'' @ b"
  have "count_list (f @ ''->'' @ t) (CHR ''-'') = count_list (a @ ''->'' @ b) (CHR ''-'')" by (simp only: eq)
  then have "count_list f (CHR ''-'') = 0" using assms by (simp add: count_notin)
  then have "CHR ''-'' \<notin> set f" by (simp add: count_list_0_iff)
  then have "f = takeWhile (\<lambda>c. c \<noteq> CHR ''-'') (f @ ''->'' @ t)" by (simp add: takeWhile_upto)
  also have "\<dots> = a" using assms(1) unfolding eq by (simp add: takeWhile_upto)
  finally show "f = a \<and> t = b" using eq by simp
qed simp

lemma no_dash:
  "CHR ''-'' \<notin> set CommitStateCandidate" "CHR ''-'' \<notin> set CommitStateCommitted"
  "CHR ''-'' \<notin> set CommitStateSuperseded" "CHR ''-'' \<notin> set CommitStateAbandoned"
  "CHR ''-'' \<notin> set BootStatePending" "CHR ''-'' \<notin> set BootStateTrying"
  "CHR ''-'' \<notin> set BootStateGood" "CHR ''-'' \<notin> set BootStateFailed"
  by (simp_all add: state_names)

lemma ValidateCommitTransition_None: "ValidateCommitTransition c d = None \<longleftrightarrow> commit_step c d"
proof -
  have "ValidateCommitTransition c d = None \<longleftrightarrow>
     (c = CommitStateCandidate \<and> d = CommitStateCommitted) \<or> (c = CommitStateCandidate \<and> d = CommitStateAbandoned) \<or>
     (c = CommitStateCommitted \<and> d = CommitStateSuperseded) \<or> (c = CommitStateSuperseded \<and> d = CommitStateCommitted)"
    unfolding ValidateCommitTransition_def by (simp add: arrow_split [simplified] no_dash)
  then show ?thesis unfolding commit_step.simps [of c d] by (simp only:)
qed

lemma ValidateBootTransition_None: "ValidateBootTransition b c = None \<longleftrightarrow> boot_step b c"
proof -
  have "ValidateBootTransition b c = None \<longleftrightarrow>
     (b = BootStatePending \<and> c = BootStateTrying) \<or> (b = BootStatePending \<and> c = BootStateGood) \<or>
     (b = BootStateTrying \<and> c = BootStateGood) \<or> (b = BootStatePending \<and> c = BootStateFailed) \<or>
     (b = BootStateTrying \<and> c = BootStateFailed) \<or> (b = BootStateGood \<and> c = BootStateFailed) \<or>
     (b = BootStateFailed \<and> c = BootStateGood)"
    unfolding ValidateBootTransition_def by (simp add: arrow_split [simplified] no_dash)
  then show ?thesis unfolding boot_step.simps [of b c] by (simp only:)
qed

text \<open>What one accepted status update may change.\<close>

definition status_move :: "GenerationStatus \<Rightarrow> GenerationStatus \<Rightarrow> bool" where
  "status_move s t \<longleftrightarrow>
     st_GenerationID s = st_GenerationID t \<and> st_SpecDigest s = st_SpecDigest t \<and>
     (st_CommitState s = st_CommitState t \<or> commit_step (st_CommitState s) (st_CommitState t)) \<and>
     (st_BootState s = st_BootState t \<or> boot_step (st_BootState s) (st_BootState t))"

lemma ValidateStatusTransition_None: "ValidateStatusTransition s t = None \<longleftrightarrow> status_move s t"
  by (auto simp: ValidateStatusTransition_def status_move_def ValidateCommitTransition_None
      ValidateBootTransition_None)

lemma status_move_refl [simp]: "status_move s s"
  by (simp add: status_move_def)

lemma status_moves_abandoned:
  "status_move\<^sup>*\<^sup>* s t \<Longrightarrow> st_CommitState s = CommitStateAbandoned \<Longrightarrow> st_CommitState t = CommitStateAbandoned"
  by (induction rule: rtranclp_induct)
     (auto simp: status_move_def elim!: commit_stepE simp: state_names)

lemma status_moves_not_pending:
  "status_move\<^sup>*\<^sup>* s t \<Longrightarrow> st_BootState s \<noteq> BootStatePending \<Longrightarrow> st_BootState t \<noteq> BootStatePending"
  by (induction rule: rtranclp_induct)
     (auto simp: status_move_def elim!: boot_stepE simp: state_names)

lemma status_moves_not_candidate:
  "status_move\<^sup>*\<^sup>* s t \<Longrightarrow> st_CommitState s \<noteq> CommitStateCandidate \<Longrightarrow> st_CommitState t \<noteq> CommitStateCandidate"
  by (induction rule: rtranclp_induct)
     (auto simp: status_move_def elim!: commit_stepE simp: state_names)

lemma status_moves_tried:
  "status_move\<^sup>*\<^sup>* s t \<Longrightarrow> st_BootState s \<in> {BootStateGood, BootStateFailed} \<Longrightarrow>
   st_BootState t \<in> {BootStateGood, BootStateFailed}"
  by (induction rule: rtranclp_induct)
     (auto simp: status_move_def elim!: boot_stepE simp: state_names)

lemma status_moves_identity:
  "status_move\<^sup>*\<^sup>* s t \<Longrightarrow> st_GenerationID s = st_GenerationID t \<and> st_SpecDigest s = st_SpecDigest t"
  by (induction rule: rtranclp_induct) (auto simp: status_move_def)

section \<open>Lemmas on validation and conversion\<close>

lemma CanonicalSpecDigest_Inr:
  "CanonicalSpecDigest env spec = Inr d \<longleftrightarrow>
     ValidateGenerationSpec env spec = None \<and> d = ''sha256:'' @ en_spec_digest env spec"
  by (auto simp: CanonicalSpecDigest_def)

lemma ValidateGenerationStatus_None:
  "ValidateGenerationStatus env spec status = None \<longleftrightarrow>
     ValidateGenerationSpec env spec = None \<and> st_APIVersion status = APIVersion \<and> st_Kind status = StatusKind \<and>
     st_GenerationID status = gs_GenerationID spec \<and> st_SpecDigest status = ''sha256:'' @ en_spec_digest env spec \<and>
     validCommitState (st_CommitState status) \<and> validBootState (st_BootState status) \<and>
     validHealthState (st_HealthState status) \<and> st_UpdatedAt status \<noteq> 0"
  by (auto simp: ValidateGenerationStatus_def CanonicalSpecDigest_def)

lemma valid_spec_id:
  assumes "ValidateGenerationSpec env spec = None"
  shows "\<exists>v. cleanSegment ''generation id'' (gs_GenerationID spec) = Inr v"
  using assms by (auto simp: ValidateGenerationSpec_def error_of_None)

text \<open>A specification survives the trip through the legacy record up to surrounding blanks.\<close>

lemma SpecFromRecord_RecordFromSplit:
  assumes "gs_APIVersion spec = APIVersion" "gs_Kind spec = SpecKind"
    "trimmed (gs_GenerationID spec)" "trimmed (gs_RuntimeVersion spec)" "trimmed (gs_PreviousGenerationID spec)"
  shows "SpecFromRecord (RecordFromSplit spec status) = spec"
  using assms by (simp add: SpecFromRecord_def RecordFromSplit_def trimmed_iff)

lemma RecordFromSplit_states:
  "StatusFromRecord env (RecordFromSplit spec status) d =
     \<lparr>st_UnavailableReason = [], st_APIVersion = APIVersion, st_Kind = StatusKind,
      st_GenerationID = TrimSpace (gs_GenerationID spec), st_SpecDigest = d,
      st_CommitState = CommitStateCommitted,
      st_BootState = (if TrimSpace (st_BootState status) = [] then BootStatePending else TrimSpace (st_BootState status)),
      st_HealthState = (if TrimSpace (st_HealthState status) = [] then HealthStateUnknown else TrimSpace (st_HealthState status)),
      st_UpdatedAt = nonzeroUTC (en_now env) (gs_CreatedAt spec),
      st_StatusTransitions = [], st_CommittedAt = None, st_CommittedByOperation = []\<rparr>"
  by (simp add: StatusFromRecord_def RecordFromSplit_def)

end
