(* ===== verification/Activation.thy ===== *)
theory Activation
  imports Split
begin

text \<open>
  Planning the activation of a generation (\<^verbatim>\<open>internal/generation/activation.go\<close>) and the boot loader entry
  that selects it (\<^verbatim>\<open>internal/generation/loader.go\<close>, with \<open>ParseMachineID\<close> of \<^verbatim>\<open>internal/nodeidentity/identity.go\<close>).
  The lemmas show that a plan's links are distinct and contained in their directories and that the
  command line of a rendered entry selects the generation it was rendered for. The formatted creation
  time in the default title is a parameter.
\<close>

section \<open>Paths and the kernel command line\<close>

definition MetadataPath :: "string \<Rightarrow> string \<Rightarrow> string res" where
  "MetadataPath root generationID =
     res_bind (cleanSegment ''generation id'' generationID) (\<lambda>g.
       rootedPath root (PathJoin [GenerationRecordsDir, g, ''metadata.json'']))"

definition GenerationDir :: "string \<Rightarrow> string \<Rightarrow> string res" where
  "GenerationDir root generationID =
     res_bind (cleanSegment ''generation id'' generationID) (\<lambda>g.
       rootedPath root (PathJoin [GenerationRecordsDir, g]))"

definition ConfigApplyStatusPath :: "string \<Rightarrow> string \<Rightarrow> string res" where
  "ConfigApplyStatusPath root generationID =
     res_bind (cleanSegment ''generation id'' generationID) (\<lambda>g.
       rootedPath root (PathJoin [GenerationRecordsDir, g, ''config-apply-status.json'']))"

fun selected_generation_from :: "string list \<Rightarrow> string res" where
  "selected_generation_from [] = fail ''katl.generation kernel argument is required'' []"
| "selected_generation_from (field # rest) =
     (case CutPrefix field ''katl.generation='' of
        None \<Rightarrow> selected_generation_from rest
      | Some value \<Rightarrow> cleanSegment ''generation id'' value)"

definition SelectedGenerationFromCommandLine :: "string \<Rightarrow> string res" where
  "SelectedGenerationFromCommandLine cmdline = selected_generation_from (Fields cmdline)"

section \<open>The activation plan\<close>

record ActivationLink =
  al_Name :: string
  al_SourcePath :: string
  al_ActivationPath :: string

record ActivationPlan =
  ap_GenerationID :: string
  ap_Sysexts :: "ActivationLink list"
  ap_BundledConfexts :: "ActivationLink list"
  ap_Confexts :: "ActivationLink list"

definition rememberActivation :: "string list \<Rightarrow> string \<Rightarrow> string list res" where
  "rememberActivation seen activation =
     (if activation \<in> set seen then fail ''duplicate activation path %q'' [activation] else Inr (seen @ [activation]))"

text \<open>The body of the three loops; \<open>label\<close> names the kind, \<open>dir\<close> the subdirectory of the generation.\<close>

fun plan_links ::
  "string \<Rightarrow> string \<Rightarrow> string \<Rightarrow> string \<Rightarrow> (string \<times> string \<times> string) list \<Rightarrow> string list \<Rightarrow>
   (ActivationLink list \<times> string list) res" where
  "plan_links label generationID dir actDir [] seen = Inr ([], seen)"
| "plan_links label generationID dir actDir ((name, pth, act) # rest) seen =
     res_bind (cleanGenerationPath (label @ name) generationID pth dir) (\<lambda>source.
     res_bind (cleanActivationPath (label @ name) act actDir) (\<lambda>activation.
     res_bind (rememberActivation seen activation) (\<lambda>seen'.
     res_bind (plan_links label generationID dir actDir rest seen') (\<lambda>(links, out).
       Inr (\<lparr>al_Name = name, al_SourcePath = source, al_ActivationPath = activation\<rparr> # links, out)))))"

definition ext_triple :: "ExtensionRef \<Rightarrow> string \<times> string \<times> string" where
  "ext_triple r = (er_Name r, er_Path r, er_ActivationPath r)"

definition confext_triple :: "GeneratedConfext \<Rightarrow> string \<times> string \<times> string" where
  "confext_triple c = (gc_Name c, gc_Path c, gc_ActivationPath c)"

definition PlanActivation :: "env \<Rightarrow> Record \<Rightarrow> ActivationPlan res" where
  "PlanActivation env r =
     res_need
       (first_error
          [ValidateRecord (en_ParseNamed env) r,
           validateModuleIndexes (en_module_digest env) (re_Sysexts r)])
       (res_bind (cleanSegment ''generation id'' (re_GenerationID r)) (\<lambda>generationID.
        res_bind (plan_links ''sysext '' generationID ''sysext'' DefaultExtensionsActivationDir
                    (map ext_triple (re_Sysexts r)) []) (\<lambda>(sysexts, seen1).
        res_bind (plan_links ''bundled confext '' generationID ''bundled-confext'' DefaultConfextsActivationDir
                    (map ext_triple (re_BundledConfexts r)) seen1) (\<lambda>(bundled, seen2).
        res_bind (plan_links ''confext '' generationID ''confext'' DefaultConfextsActivationDir
                    (map confext_triple (re_Confexts r)) seen2) (\<lambda>(confexts, seen3).
          Inr \<lparr>ap_GenerationID = generationID, ap_Sysexts = sysexts, ap_BundledConfexts = bundled,
               ap_Confexts = confexts\<rparr>)))))"

definition plan_all_links :: "ActivationPlan \<Rightarrow> ActivationLink list" where
  "plan_all_links p = ap_Sysexts p @ ap_BundledConfexts p @ ap_Confexts p"

definition selectedKubernetesSysext :: "ExtensionRef list \<Rightarrow> ExtensionRef option" where
  "selectedKubernetesSysext refs = find (\<lambda>ref. er_Name ref = ''kubernetes'') refs"

section \<open>The loader entry\<close>

record LoaderRequest =
  lr_Record :: Record
  lr_MachineID :: string
  lr_Title :: string

record LoaderEntry =
  le_Name :: string
  le_Content :: string

definition ParseMachineID :: "string \<Rightarrow> string res" where
  "ParseMachineID raw =
     (let machineID = TrimSpace raw
      in res_need
           (first_error
              [reject (length machineID \<noteq> 32) ''machine id must be 32 lowercase hex characters'' [],
               reject (machineID \<noteq> ToLower machineID) ''machine id must be lowercase hex'' [],
               reject (\<not> hexDecodes machineID) ''machine id is invalid: %w'' []])
           (Inr machineID))"

text \<open>One iteration of the option loop: \<open>Inr None\<close> when the option is dropped, \<open>Inr (Some option)\<close> when kept.\<close>

definition entry_option ::
  "string \<Rightarrow> string \<Rightarrow> string \<Rightarrow> string \<Rightarrow> string \<Rightarrow> string option res" where
  "entry_option root machine generation slot raw =
     res_bind (cleanOption raw) (\<lambda>option.
       if option = [] then Inr None
       else if HasPrefix option ''root='' then
         if option \<noteq> root then fail ''loader root option %q does not match selected root PARTUUID'' [option] else Inr None
       else if HasPrefix option ''rootfstype='' then
         if option \<noteq> ''rootfstype=squashfs'' then fail ''loader rootfstype option %q is unsupported'' [option] else Inr None
       else if option = ''ro'' then Inr None
       else if option = ''rw'' then fail ''loader option rw is unsupported'' []
       else if HasPrefix option ''systemd.gpt_auto='' then
         if option \<noteq> ''systemd.gpt_auto=no'' then fail ''loader systemd.gpt_auto option %q is unsupported'' [option]
         else Inr None
       else if HasPrefix option ''systemd.machine_id='' then
         if option \<noteq> machine then fail ''loader machine-id option does not match install machine-id'' [] else Inr None
       else if HasPrefix option ''katl.generation='' then
         if option \<noteq> generation then fail ''loader generation option does not match generation metadata'' [] else Inr None
       else if HasPrefix option ''katl.root-slot='' then
         if option \<noteq> slot then fail ''loader root-slot option does not match generation metadata'' [] else Inr None
       else Inr (Some option))"

definition entryOptions ::
  "Record \<Rightarrow> string \<Rightarrow> string \<Rightarrow> string \<Rightarrow> string \<Rightarrow> string list res" where
  "entryOptions r machineID generationID rootSlot rootUUID =
     (let root = ''root=PARTUUID='' @ rootUUID; machine = ''systemd.machine_id='' @ machineID;
          generation = ''katl.generation='' @ generationID; slot = ''katl.root-slot='' @ rootSlot;
          base = [root, ''rootfstype=squashfs'', ''ro'', ''systemd.gpt_auto=no'', machine, generation, slot]
      in res_bind (res_map (entry_option root machine generation slot) (re_KernelCommandLine r)) (\<lambda>extra.
           Inr (base @ List.map_filter (\<lambda>x. x) extra)))"

definition RenderEntry :: "(time \<Rightarrow> string) \<Rightarrow> LoaderRequest \<Rightarrow> LoaderEntry res" where
  "RenderEntry FormatTime request =
     (let r = lr_Record request in
      res_bind (cleanSegment ''generation id'' (re_GenerationID r)) (\<lambda>generationID.
      res_bind (cleanToken ''runtime version'' (re_RuntimeVersion r)) (\<lambda>runtimeVersion.
      res_bind (cleanToken ''root slot'' (rs_Slot (re_Root r))) (\<lambda>rootSlot.
      res_bind (cleanToken ''root partition UUID'' (rs_PartitionUUID (re_Root r))) (\<lambda>rootUUID.
      res_bind (cleanUKIPath (bt_UKIPath (re_Boot r))) (\<lambda>ukiPath.
      res_bind (ParseMachineID (lr_MachineID request)) (\<lambda>machineID.
      res_bind (entryOptions r machineID generationID rootSlot rootUUID) (\<lambda>options.
      res_bind (cleanTitle (lr_Title request)) (\<lambda>given.
        let title = (if given = []
              then ''KatlOS'' @ Suffix (rs_Flavour (re_Root r)) @ '' '' @ runtimeVersion @ '' ('' @
                   FormatTime (re_CreatedAt r) @ '')''
              else given)
        in Inr \<lparr>le_Name = ''katl-'' @ generationID @ ''.conf'',
                le_Content = Join
                  [''title '' @ title, ''version '' @ runtimeVersion, ''sort-key katl'',
                   ''machine-id '' @ machineID, ''efi '' @ entryPath ukiPath,
                   ''options '' @ Join options '' '', []] [CHR 0x0A]\<rparr>)))))))))"

section \<open>Lemmas on plans\<close>

lemma rememberActivation_Inr: "rememberActivation seen a = Inr t \<longleftrightarrow> a \<notin> set seen \<and> t = seen @ [a]"
  by (auto simp: rememberActivation_def)

lemma plan_links_Cons_Inr:
  "plan_links label g dir actDir ((name, pth, act) # rest) seen = Inr (links, out) \<longleftrightarrow>
     (\<exists>source activation ls.
        cleanGenerationPath (label @ name) g pth dir = Inr source \<and>
        cleanActivationPath (label @ name) act actDir = Inr activation \<and> activation \<notin> set seen \<and>
        plan_links label g dir actDir rest (seen @ [activation]) = Inr (ls, out) \<and>
        links = \<lparr>al_Name = name, al_SourcePath = source, al_ActivationPath = activation\<rparr> # ls)"
  by (auto simp: rememberActivation_Inr)

declare plan_links.simps(2) [simp del]

lemma plan_links_seen:
  "plan_links label g dir actDir ts seen = Inr (links, out) \<Longrightarrow>
     out = seen @ map al_ActivationPath links \<and> (distinct seen \<longrightarrow> distinct out)"
proof (induction ts arbitrary: seen links)
  case (Cons t ts)
  obtain name pth act where t: "t = (name, pth, act)" by (cases t)
  from Cons.prems obtain source activation ls where "activation \<notin> set seen"
      "plan_links label g dir actDir ts (seen @ [activation]) = Inr (ls, out)"
      "links = \<lparr>al_Name = name, al_SourcePath = source, al_ActivationPath = activation\<rparr> # ls"
    unfolding t plan_links_Cons_Inr by blast
  with Cons.IH [of "seen @ [activation]" ls] show ?case
    by (metis append.assoc append_Cons append_Nil distinct_append distinct_singleton disjoint_insert(2)
        inf_bot_right list.simps(9,15) empty_set ActivationLink.select_convs(3))
qed simp

lemma plan_links_names:
  "plan_links label g dir actDir ts seen = Inr (links, out) \<Longrightarrow> map al_Name links = map fst ts"
  by (induction ts arbitrary: seen links) (auto simp: plan_links_Cons_Inr)

lemma plan_links_source:
  "plan_links label g dir actDir ts seen = Inr (links, out) \<Longrightarrow> l \<in> set links \<Longrightarrow>
     \<exists>n raw. cleanGenerationPath n g raw dir = Inr (al_SourcePath l)"
  by (induction ts arbitrary: seen links) (simp, fastforce simp: plan_links_Cons_Inr)

lemma plan_links_activation:
  "plan_links label g dir actDir ts seen = Inr (links, out) \<Longrightarrow> l \<in> set links \<Longrightarrow>
     \<exists>n raw. cleanActivationPath n raw actDir = Inr (al_ActivationPath l)"
  by (induction ts arbitrary: seen links) (simp, fastforce simp: plan_links_Cons_Inr)

lemma activation_path_below:
  "cleanActivationPath n raw DefaultExtensionsActivationDir = Inr v \<Longrightarrow> below DefaultExtensionsActivationDir v"
  "cleanActivationPath n raw DefaultConfextsActivationDir = Inr v \<Longrightarrow> below DefaultConfextsActivationDir v"
  using prefix_below [of DefaultExtensionsActivationDir v] prefix_below [of DefaultConfextsActivationDir v]
    cleanActivationPath_Inr [of n raw _ v]
  by (simp_all add: Clean_fixed_dirs comps_fixed_dirs)

lemma PlanActivation_parts:
  assumes "PlanActivation env r = Inr p"
  obtains seen1 seen2 seen3 where
    "cleanSegment ''generation id'' (re_GenerationID r) = Inr (ap_GenerationID p)"
    "plan_links ''sysext '' (ap_GenerationID p) ''sysext'' DefaultExtensionsActivationDir
       (map ext_triple (re_Sysexts r)) [] = Inr (ap_Sysexts p, seen1)"
    "plan_links ''bundled confext '' (ap_GenerationID p) ''bundled-confext'' DefaultConfextsActivationDir
       (map ext_triple (re_BundledConfexts r)) seen1 = Inr (ap_BundledConfexts p, seen2)"
    "plan_links ''confext '' (ap_GenerationID p) ''confext'' DefaultConfextsActivationDir
       (map confext_triple (re_Confexts r)) seen2 = Inr (ap_Confexts p, seen3)"
  using assms by (auto simp: PlanActivation_def)

lemma PlanActivation_valid:
  "PlanActivation env r = Inr p \<Longrightarrow>
     ValidateRecord (en_ParseNamed env) r = None \<and> validateModuleIndexes (en_module_digest env) (re_Sysexts r) = None"
  by (auto simp: PlanActivation_def)

lemma PlanActivation_distinct:
  assumes "PlanActivation env r = Inr p"
  shows "distinct (map al_ActivationPath (plan_all_links p))"
proof -
  from assms obtain seen1 seen2 seen3 where
    "plan_links ''sysext '' (ap_GenerationID p) ''sysext'' DefaultExtensionsActivationDir
       (map ext_triple (re_Sysexts r)) [] = Inr (ap_Sysexts p, seen1)"
    "plan_links ''bundled confext '' (ap_GenerationID p) ''bundled-confext'' DefaultConfextsActivationDir
       (map ext_triple (re_BundledConfexts r)) seen1 = Inr (ap_BundledConfexts p, seen2)"
    "plan_links ''confext '' (ap_GenerationID p) ''confext'' DefaultConfextsActivationDir
       (map confext_triple (re_Confexts r)) seen2 = Inr (ap_Confexts p, seen3)"
    by (rule PlanActivation_parts)
  note l = this [THEN plan_links_seen]
  then have "seen3 = map al_ActivationPath (plan_all_links p)" by (simp add: plan_all_links_def)
  moreover have "distinct seen3" using l by (metis distinct.simps(1))
  ultimately show ?thesis by (simp only:)
qed

lemma PlanActivation_below:
  assumes "PlanActivation env r = Inr p"
  shows "l \<in> set (ap_Sysexts p) \<Longrightarrow> below DefaultExtensionsActivationDir (al_ActivationPath l)"
    and "l \<in> set (ap_BundledConfexts p @ ap_Confexts p) \<Longrightarrow> below DefaultConfextsActivationDir (al_ActivationPath l)"
proof -
  from assms obtain seen1 seen2 seen3 where
    "plan_links ''sysext '' (ap_GenerationID p) ''sysext'' DefaultExtensionsActivationDir
       (map ext_triple (re_Sysexts r)) [] = Inr (ap_Sysexts p, seen1)"
    "plan_links ''bundled confext '' (ap_GenerationID p) ''bundled-confext'' DefaultConfextsActivationDir
       (map ext_triple (re_BundledConfexts r)) seen1 = Inr (ap_BundledConfexts p, seen2)"
    "plan_links ''confext '' (ap_GenerationID p) ''confext'' DefaultConfextsActivationDir
       (map confext_triple (re_Confexts r)) seen2 = Inr (ap_Confexts p, seen3)"
    by (rule PlanActivation_parts)
  note l = this [THEN plan_links_activation]
  show "l \<in> set (ap_Sysexts p) \<Longrightarrow> below DefaultExtensionsActivationDir (al_ActivationPath l)"
    using l(1) activation_path_below(1) by blast
  show "l \<in> set (ap_BundledConfexts p @ ap_Confexts p) \<Longrightarrow> below DefaultConfextsActivationDir (al_ActivationPath l)"
    using l(2,3) activation_path_below(2) by (metis Un_iff set_append)
qed

lemma PlanActivation_sources:
  assumes "PlanActivation env r = Inr p" "l \<in> set (plan_all_links p)"
  shows "\<exists>k \<in> {''sysext'', ''bundled-confext'', ''confext''}.
    let d = PathJoin [GenerationRecordsDir, ap_GenerationID p, k]
    in al_SourcePath l = d \<or> below d (al_SourcePath l)"
proof -
  from assms(1) obtain seen1 seen2 seen3 where
    g: "cleanSegment ''generation id'' (re_GenerationID r) = Inr (ap_GenerationID p)" and pl:
    "plan_links ''sysext '' (ap_GenerationID p) ''sysext'' DefaultExtensionsActivationDir
       (map ext_triple (re_Sysexts r)) [] = Inr (ap_Sysexts p, seen1)"
    "plan_links ''bundled confext '' (ap_GenerationID p) ''bundled-confext'' DefaultConfextsActivationDir
       (map ext_triple (re_BundledConfexts r)) seen1 = Inr (ap_BundledConfexts p, seen2)"
    "plan_links ''confext '' (ap_GenerationID p) ''confext'' DefaultConfextsActivationDir
       (map confext_triple (re_Confexts r)) seen2 = Inr (ap_Confexts p, seen3)"
    by (rule PlanActivation_parts)
  note l = pl [THEN plan_links_source] and plain = cleanSegment_plain [OF g]
  have ks: "plain_comp ''sysext''" "plain_comp ''bundled-confext''" "plain_comp ''confext''"
    by (simp_all add: plain_comp_def)
  from assms(2) obtain n raw k where "k \<in> {''sysext'', ''bundled-confext'', ''confext''}"
      "cleanGenerationPath n (ap_GenerationID p) raw k = Inr (al_SourcePath l)"
    unfolding plan_all_links_def set_append Un_iff using l by (metis insertI1 insertI2)
  then show ?thesis using cleanGenerationPath_below [OF _ plain] ks by (auto simp: Let_def)
qed

section \<open>Lemmas on loader entries\<close>

lemma entry_option_Some:
  "entry_option root machine generation slot raw = Inr (Some o1) \<Longrightarrow> o1 \<noteq> [] \<and> o1 = TrimSpace raw"
  by (auto simp: entry_option_def cleanOption_def Let_def split: if_splits)

lemma entry_option_set:
  assumes "res_map (entry_option root machine generation slot) opts = Inr extra"
  shows "set (List.map_filter (\<lambda>x. x) extra) \<subseteq> TrimSpace ` set opts - {[]}"
proof
  fix o1 assume "o1 \<in> set (List.map_filter (\<lambda>x. x) extra)"
  then have "Some o1 \<in> set extra" by (auto simp: List.map_filter_def)
  from res_map_set [OF assms this] obtain raw where
    raw: "raw \<in> set opts" "entry_option root machine generation slot raw = Inr (Some o1)" by blast
  from entry_option_Some [OF raw(2)] raw(1) show "o1 \<in> TrimSpace ` set opts - {[]}" by auto
qed

lemma entryOptions_Inr:
  assumes "entryOptions r m g slot uuid = Inr opts"
  shows "\<exists>extra. opts = [''root=PARTUUID='' @ uuid, ''rootfstype=squashfs'', ''ro'', ''systemd.gpt_auto=no'',
      ''systemd.machine_id='' @ m, ''katl.generation='' @ g, ''katl.root-slot='' @ slot] @ extra \<and> set extra \<subseteq> TrimSpace ` set (re_KernelCommandLine r) - {[]}"
  using assms entry_option_set by (auto simp: entryOptions_def Let_def)

lemma selected_generation_entryOptions:
  assumes "entryOptions r m g slot uuid = Inr opts"
  shows "selected_generation_from opts = cleanSegment ''generation id'' g"
proof -
  from entryOptions_Inr [OF assms] obtain extra where
    o: "opts = [''root=PARTUUID='' @ uuid, ''rootfstype=squashfs'', ''ro'', ''systemd.gpt_auto=no'',
        ''systemd.machine_id='' @ m, ''katl.generation='' @ g, ''katl.root-slot='' @ slot] @ extra" by blast
  show ?thesis by (simp add: o CutPrefix_def)
qed

text \<open>The words of an entry's \<open>options\<close> line select the generation of the entry.\<close>

lemma entry_command_line_roundtrip:
  assumes "entryOptions r m g slot uuid = Inr opts" "list_all space_free opts" "cleanSegment n raw = Inr g"
  shows "SelectedGenerationFromCommandLine (Join opts '' '') = Inr g"
proof -
  have ne: "[] \<notin> set opts"
    using entryOptions_Inr [OF assms(1)] by auto
  then have "Fields (Join opts '' '') = opts"
    using assms(2) by (intro Fields_Join) (auto simp: list_all_iff)
  then show ?thesis
    using selected_generation_entryOptions [OF assms(1)] cleanSegment_idem [OF assms(3)]
    by (simp add: SelectedGenerationFromCommandLine_def)
qed

end
