(* ===== verification/UpgradeHandoff.thy ===== *)
theory UpgradeHandoff
  imports Activation
begin

text \<open>
  The record an upgrade leaves for the first boot of its candidate (\<^verbatim>\<open>internal/generation/upgrade_handoff.go\<close>):
  its fields, its validation and the path it is stored under. Reading and writing the file are in
  \<^verbatim>\<open>NodeStore\<close>.
\<close>

definition UpgradeHandoffVersion :: int where "UpgradeHandoffVersion = 1"

record UpgradeHandoff =
  uh_Version :: int
  uh_OperationID :: string
  uh_SourceGenerationID :: string
  uh_CandidateGenerationID :: string
  uh_ImageSHA256 :: string
  uh_ImageSizeBytes :: nat
  uh_ConfigurationSHA256 :: string
  uh_RootSlot :: string
  uh_RootPartitionUUID :: string
  uh_UKIPath :: string
  uh_LoaderEntryPath :: string
  uh_KubernetesBootstrapped :: bool
  uh_CreatedAt :: time

definition upgradeHandoffDirectory :: "string \<Rightarrow> string \<Rightarrow> string res" where
  "upgradeHandoffDirectory root candidate =
     res_bind (cleanSegment ''generation id'' candidate) (\<lambda>g.
       rootedPath root (PathJoin [''/var/lib/katl/upgrade-handoffs'', g]))"

definition upgradeHandoffPath :: "string \<Rightarrow> string \<Rightarrow> string res" where
  "upgradeHandoffPath root candidate =
     res_bind (upgradeHandoffDirectory root candidate) (\<lambda>dir. Inr (PathJoin [dir, ''handoff.json'']))"

definition validUpgradeDigest :: "string \<Rightarrow> bool" where
  "validUpgradeDigest value \<longleftrightarrow>
     length value = 64 \<and> list_all (\<lambda>c. c \<in> set ''0123456789abcdef'') value"

definition validateUpgradeHandoff :: "UpgradeHandoff \<Rightarrow> error" where
  "validateUpgradeHandoff r =
     first_error
       [reject (uh_Version r \<noteq> UpgradeHandoffVersion \<or> uh_OperationID r = [] \<or> uh_SourceGenerationID r = [] \<or>
                uh_CandidateGenerationID r = [] \<or> uh_ImageSHA256 r = [] \<or> uh_ImageSizeBytes r = 0 \<or>
                uh_RootPartitionUUID r = [] \<or> uh_UKIPath r = [] \<or> uh_LoaderEntryPath r = [] \<or> uh_CreatedAt r = 0)
          ''incomplete or unsupported upgrade handoff'' [],
        reject (uh_ConfigurationSHA256 r \<noteq> [] \<and> \<not> validUpgradeDigest (uh_ConfigurationSHA256 r))
          ''invalid handoff configuration digest'' [],
        error_of (MetadataPath ''/'' (uh_SourceGenerationID r)),
        error_of (MetadataPath ''/'' (uh_CandidateGenerationID r)),
        reject (uh_RootSlot r \<noteq> ''root-a'' \<and> uh_RootSlot r \<noteq> ''root-b'') ''invalid handoff root slot'' [],
        reject (\<not> HasPrefix (uh_UKIPath r) (UKIDirectory @ ''/'') \<or> \<not> HasPrefix (uh_LoaderEntryPath r) ''loader/entries/'')
          ''invalid handoff boot path'' []]"

lemma validateUpgradeHandoff_candidate:
  assumes "validateUpgradeHandoff r = None"
  shows "\<exists>g. cleanSegment ''generation id'' (uh_CandidateGenerationID r) = Inr g"
proof -
  from assms have "error_of (MetadataPath ''/'' (uh_CandidateGenerationID r)) = None"
    by (simp add: validateUpgradeHandoff_def first_error_None)
  then show ?thesis by (cases "cleanSegment ''generation id'' (uh_CandidateGenerationID r)") (auto simp: MetadataPath_def)
qed

end
