(* ===== verification/ErrorFacts.thy ===== *)
theory ErrorFacts
  imports Split
begin

text \<open>
  The validators of generations report their own errors only: none of them is the not-exist error by
  which the readers of the store recognise a missing file.
\<close>

lemma plain_Normalize [plain_errors]: "plain_error (error_of (Normalize v))"
  by (auto simp: Normalize_def intro: plain_errors)

lemma plain_cleanToken [plain_errors]: "plain_error (error_of (cleanToken n v))"
  by (auto simp: cleanToken_def Let_def intro: plain_errors)

lemma plain_cleanSegment [plain_errors]: "plain_error (error_of (cleanSegment n v))"
  by (auto simp: cleanSegment_def intro!: plain_errors)

lemma plain_validateSHA256 [plain_errors]: "plain_error (validateSHA256 n v)"
  by (simp add: validateSHA256_def plain_errors)

lemma plain_validateDigest [plain_errors]: "plain_error (validateDigest v)"
  by (simp add: validateDigest_def plain_errors)

lemma plain_Target_Validate [plain_errors]: "plain_error (Target_Validate t)"
  by (simp add: Target_Validate_def plain_errors)

lemma plain_validate_modules [plain_errors]: "plain_error (validate_modules r ns ps ms)"
  by (induction r ns ps ms rule: validate_modules.induct) (simp_all add: Let_def plain_errors)

lemma plain_Contract_Validate [plain_errors]: "plain_error (Contract_Validate c)"
  by (simp add: Contract_Validate_def plain_errors)

lemma plain_ValidateRuntime [plain_errors]: "plain_error (Contract_ValidateRuntime c v)"
  by (simp add: Contract_ValidateRuntime_def plain_errors)

lemma plain_IndexSelection_Validate [plain_errors]: "plain_error (IndexSelection_Validate i)"
  by (simp add: IndexSelection_Validate_def plain_errors)

lemma plain_ReleaseTarget_Validate [plain_errors]: "plain_error (ReleaseTarget_Validate t)"
  by (simp add: ReleaseTarget_Validate_def plain_errors)

lemma plain_ReleaseTarget_ValidateRuntime [plain_errors]:
  "plain_error (ReleaseTarget_ValidateRuntime t v a f i s)"
proof (cases "ReleaseTarget_Validate t")
  case None
  then show ?thesis
    using plain_Normalize [of f]
    by (cases "Normalize f") (simp_all add: ReleaseTarget_ValidateRuntime_def plain_error_reject)
next
  case (Some e)
  then show ?thesis using plain_ReleaseTarget_Validate [of t] by (simp add: ReleaseTarget_ValidateRuntime_def)
qed

lemma plain_validateExtensionRelease [plain_errors]: "plain_error (validateExtensionRelease P r m)"
  by (cases m) (simp_all add: validateExtensionRelease_def plain_errors)

lemma plain_ValidatePair [plain_errors]: "plain_error (ValidatePair r e)"
  by (simp add: ValidatePair_def plain_errors split: option.split)

lemma plain_normalizeGeneratedConfext [plain_errors]: "plain_error (error_of (normalizeGeneratedConfext c))"
  unfolding normalizeGeneratedConfext_def Let_def by (simp add: plain_errors)

lemma plain_validate_upgrade [plain_errors]: "plain_error (validate_upgrade u)"
  by (simp add: validate_upgrade_def plain_errors)

lemma plain_clean_bindings_from [plain_errors]: "plain_error (error_of (clean_bindings_from acc bs))"
  by (induction bs arbitrary: acc) (simp_all add: Let_def plain_errors)

lemma plain_cleanVolumeBindings [plain_errors]: "plain_error (error_of (cleanVolumeBindings bs))"
  by (simp add: cleanVolumeBindings_def plain_errors)

lemma plain_ValidateGenerationSpec [plain_errors]: "plain_error (ValidateGenerationSpec env spec)"
  by (simp add: ValidateGenerationSpec_def plain_errors split: option.split)

lemma invalid_spec_not_missing: "ValidateGenerationSpec env spec = Some e \<Longrightarrow> \<not> osIsNotExist e"
  using plain_ValidateGenerationSpec [of env spec] by (simp add: plain_errorD)

end
