(* ===== verification/NodeStore.thy ===== *)
theory NodeStore
  imports Go_IO UpgradeHandoff ErrorFacts
begin

text \<open>
  The durable state of a node that the generation package reads and writes, and the primitive accesses to
  it: the split records of \<^verbatim>\<open>split.go\<close>, the legacy record of \<^verbatim>\<open>activation.go\<close>, the boot selection of
  \<^verbatim>\<open>boot_selection.go\<close>, the status file of \<^verbatim>\<open>config_apply_status.go\<close> and the state lock of \<^verbatim>\<open>lock.go\<close>.

  A node is the file tree below one root. A generation directory is kept under its name; a JSON file
  is absent, undecodable or holds a value. Every system call that changes the tree consumes one
  entry of \<open>nd_faults\<close>: it succeeds, fails without effect, or reports an error after its effect took
  place (a failed directory sync after the rename of \<open>writeFileAtomic\<close>). A crash is the case in which
  all later calls fail without effect. The firmware variables change through the setters passed in.
\<close>

section \<open>State\<close>

record gen_dir =
  gd_spec :: "GenerationSpec json_file"
  gd_status :: "GenerationStatus json_file"
  gd_metadata :: "Record json_file"
  gd_config :: "ConfigApplyStatus json_file"

definition empty_gen :: gen_dir where
  "empty_gen = \<lparr>gd_spec = NoFile, gd_status = NoFile, gd_metadata = NoFile, gd_config = NoFile\<rparr>"

definition BootSelectionKind :: string where "BootSelectionKind = ''BootSelection''"
definition DefaultPromotionPending :: string where "DefaultPromotionPending = ''pending''"
definition DefaultPromotionDone :: string where "DefaultPromotionDone = ''promoted''"

record BootSelectionRecord =
  bs_OneShot :: bool
  bs_APIVersion :: string
  bs_Kind :: string
  bs_DefaultGenerationID :: string
  bs_TargetBootGenerationID :: string
  bs_TrialGenerationID :: string
  bs_PreviousKnownGoodGenerationID :: string
  bs_BootedGenerationID :: string
  bs_ActiveGenerationID :: string
  bs_Generation0FallbackID :: string
  bs_FailedBootGenerationID :: string
  bs_DefaultBootEntry :: string
  bs_TargetBootEntry :: string
  bs_TrialBootEntry :: string
  bs_PreviousKnownGoodBootEntry :: string
  bs_BootedBootEntry :: string
  bs_BootCountedTrialPath :: string
  bs_PendingTransactionID :: string
  bs_PendingHealthValidation :: bool
  bs_PersistentDefaultPromotion :: string
  bs_RecoveryRequired :: bool
  bs_UpdatedAt :: time

record bootRecoveryArm =
  ba_TrialGeneration :: string
  ba_FallbackGeneration :: string

record efi =
  efi_default :: string
  efi_oneshot :: string

record node =
  nd_gens :: "(string \<times> gen_dir) list"
  nd_records_dir :: bool
  nd_tombstones :: "string list"
  nd_selection :: "BootSelectionRecord json_file"
  nd_arm :: "bootRecoveryArm json_file"
  nd_handoffs :: "(string \<times> UpgradeHandoff json_file) list"
  nd_paths :: "string list"
  nd_efi :: efi
  nd_faults :: "fault list"

text \<open>A firmware setter may fail, and may or may not have changed the variables when it does.\<close>

type_synonym BootDefaultSetter = "string \<Rightarrow> string \<Rightarrow> efi \<Rightarrow> error \<times> efi"

section \<open>System calls\<close>

definition syscall :: "(node \<Rightarrow> node) \<Rightarrow> (node, unit) io" where
  "syscall f = fault_call nd_faults (\<lambda>fs s. s\<lparr>nd_faults := fs\<rparr>) f"

definition call_setter :: "BootDefaultSetter \<Rightarrow> string \<Rightarrow> string \<Rightarrow> (node, unit) io" where
  "call_setter setter root entry = (\<lambda>s.
     case setter root entry (nd_efi s) of
       (None, e) \<Rightarrow> (Inr (), s\<lparr>nd_efi := e\<rparr>)
     | (Some x, e) \<Rightarrow> (Inl x, s\<lparr>nd_efi := e\<rparr>))"

definition gen_at :: "node \<Rightarrow> string \<Rightarrow> gen_dir" where
  "gen_at s g = (case map_of (nd_gens s) g of Some d \<Rightarrow> d | None \<Rightarrow> empty_gen)"

definition upd_gen :: "string \<Rightarrow> (gen_dir \<Rightarrow> gen_dir) \<Rightarrow> node \<Rightarrow> node" where
  "upd_gen g f s = s\<lparr>nd_gens := AList.update g (f (gen_at s g)) (nd_gens s), nd_records_dir := True\<rparr>"

text \<open>
  \<open>withStateLock\<close> creates the directory it locks and keeps it when the action fails. The boot directory
  holds the selection only, so creating it shows in no field.
\<close>

definition withGenLock :: "string \<Rightarrow> (node, 'a) io \<Rightarrow> (node, 'a) io" where
  "withGenLock g action = io_then (syscall (upd_gen g (\<lambda>d. d))) action"

definition withBootLock :: "(node, 'a) io \<Rightarrow> (node, 'a) io" where
  "withBootLock action = io_then (syscall (\<lambda>s. s)) action"

section \<open>Reading generations\<close>

definition readGenerationSpecFile :: "env \<Rightarrow> string \<Rightarrow> node \<Rightarrow> GenerationSpec res" where
  "readGenerationSpecFile env g s =
     (case gd_spec (gen_at s g) of
        NoFile \<Rightarrow> Inl OsNotExist
      | BadFile \<Rightarrow> fail ''decode generation spec: %w'' []
      | File spec \<Rightarrow> res_need (ValidateGenerationSpec env spec) (Inr spec))"

definition readGenerationStatusFile :: "string \<Rightarrow> node \<Rightarrow> GenerationStatus res" where
  "readGenerationStatusFile g s =
     (case gd_status (gen_at s g) of
        NoFile \<Rightarrow> Inl OsNotExist
      | BadFile \<Rightarrow> fail ''decode generation status: %w'' []
      | File status \<Rightarrow> Inr status)"

definition readRecordFile :: "env \<Rightarrow> string \<Rightarrow> node \<Rightarrow> Record res" where
  "readRecordFile env g s =
     (case gd_metadata (gen_at s g) of
        NoFile \<Rightarrow> Inl (Wrap ''read generation metadata: %w'' [] OsNotExist)
      | BadFile \<Rightarrow> fail ''decode generation metadata: %w'' []
      | File r \<Rightarrow> res_need (ValidateRecord (en_ParseNamed env) r) (Inr r))"

definition validateGenerationDirID :: "string \<Rightarrow> string \<Rightarrow> error" where
  "validateGenerationDirID g generationID =
     reject (g \<noteq> generationID) ''generation record path id %q does not match payload id %q'' [g, generationID]"

definition ReadSplitRecords :: "env \<Rightarrow> string \<Rightarrow> node \<Rightarrow> (GenerationSpec \<times> GenerationStatus) res" where
  "ReadSplitRecords env g s =
     (case readGenerationSpecFile env g s of
        Inl err \<Rightarrow>
          if osIsNotExist err then
            (case readRecordFile env g s of
               Inl legacyErr \<Rightarrow> Inl (Wrap ''read generation spec: %w'' [] err)
             | Inr legacy \<Rightarrow>
                 let spec = SpecFromRecord legacy in
                 res_bind (CanonicalSpecDigest env spec) (\<lambda>digest.
                   let status = StatusFromRecord env legacy digest
                   in res_need (ValidateGenerationStatus env spec status) (Inr (spec, status))))
          else Inl (Wrap ''read generation spec: %w'' [] err)
      | Inr spec \<Rightarrow>
          res_need (validateGenerationDirID g (gs_GenerationID spec))
            (case readGenerationStatusFile g s of
               Inl err \<Rightarrow> Inl (Wrap ''read generation status: %w'' [] err)
             | Inr status \<Rightarrow> res_need (ValidateGenerationStatus env spec status) (Inr (spec, status))))"

text \<open>The directory of a generation: its cleaned name, when the root is given.\<close>

definition generation_key :: "string \<Rightarrow> string \<Rightarrow> string res" where
  "generation_key root generationID =
     res_bind (cleanSegment ''generation id'' generationID) (\<lambda>g.
     res_bind (rootedPath root (PathJoin [GenerationRecordsDir, g])) (\<lambda>_. Inr g))"

definition ReadGeneration :: "env \<Rightarrow> string \<Rightarrow> string \<Rightarrow> node \<Rightarrow> (GenerationSpec \<times> GenerationStatus) res" where
  "ReadGeneration env root generationID s =
     res_bind (generation_key root generationID) (\<lambda>g. ReadSplitRecords env g s)"

definition ReadRecord :: "env \<Rightarrow> string \<Rightarrow> node \<Rightarrow> Record res" where
  "ReadRecord env g s =
     (if gd_spec (gen_at s g) = NoFile then readRecordFile env g s
      else res_bind (ReadSplitRecords env g s) (\<lambda>(spec, status).
             if st_UnavailableReason status \<noteq> []
             then fail ''generation %s cannot activate: %s'' [gs_GenerationID spec, st_UnavailableReason status]
             else Inr (RecordFromSplit spec status)))"

section \<open>Writing generations\<close>

definition write_spec :: "string \<Rightarrow> GenerationSpec \<Rightarrow> (node, unit) io" where
  "write_spec g spec = syscall (upd_gen g (\<lambda>d. d\<lparr>gd_spec := File spec\<rparr>))"

definition write_status :: "string \<Rightarrow> GenerationStatus \<Rightarrow> (node, unit) io" where
  "write_status g status = syscall (upd_gen g (\<lambda>d. d\<lparr>gd_status := File status\<rparr>))"

definition publish_spec :: "env \<Rightarrow> string \<Rightarrow> GenerationSpec \<Rightarrow> string \<Rightarrow> (node, unit) io" where
  "publish_spec env g spec digest =
     io_bind (io_get (readGenerationSpecFile env g)) (\<lambda>existing.
       case existing of
         Inr old \<Rightarrow>
           io_bind (io_lift (CanonicalSpecDigest env old)) (\<lambda>existingDigest.
             io_reject (existingDigest \<noteq> digest) ''generation spec selection fields are immutable'' [])
       | Inl err \<Rightarrow>
           if \<not> osIsNotExist err then io_err err
           else io_bind (io_get (\<lambda>s. gd_status (gen_at s g))) (\<lambda>st.
                  if st \<noteq> NoFile then io_fail ''generation status exists without its specification'' []
                  else write_spec g spec))"

definition publish_status :: "env \<Rightarrow> string \<Rightarrow> GenerationSpec \<Rightarrow> GenerationStatus \<Rightarrow> (node, unit) io" where
  "publish_status env g spec status =
     io_bind (io_get (readGenerationStatusFile g)) (\<lambda>existing.
       case existing of
         Inr old \<Rightarrow> io_need (ValidateGenerationStatus env spec old)
       | Inl err \<Rightarrow> if \<not> osIsNotExist err then io_err err else write_status g status)"

definition WriteSplitRecords :: "env \<Rightarrow> string \<Rightarrow> GenerationSpec \<Rightarrow> GenerationStatus \<Rightarrow> (node, unit) io" where
  "WriteSplitRecords env g spec status =
     io_bind (io_lift (PlanActivation env (RecordFromSplit spec status))) (\<lambda>_.
     withGenLock g
       (io_bind (io_lift (CanonicalSpecDigest env spec)) (\<lambda>digest.
          let stamped = (if st_SpecDigest status = [] then status\<lparr>st_SpecDigest := digest\<rparr> else status)
          in io_then (io_need (ValidateGenerationStatus env spec stamped))
            (io_then (publish_spec env g spec digest) (publish_status env g spec stamped)))))"

definition WriteGeneration :: "env \<Rightarrow> string \<Rightarrow> GenerationSpec \<Rightarrow> GenerationStatus \<Rightarrow> (node, unit) io" where
  "WriteGeneration env root spec status =
     io_bind (io_lift (generation_key root (gs_GenerationID spec))) (\<lambda>g. WriteSplitRecords env g spec status)"

definition writeStatusRecord :: "env \<Rightarrow> string \<Rightarrow> GenerationSpec \<Rightarrow> GenerationStatus \<Rightarrow> (node, unit) io" where
  "writeStatusRecord env g spec status =
     io_then (io_need (ValidateGenerationStatus env spec status))
     (io_bind (io_get (ReadSplitRecords env g)) (\<lambda>r.
      io_bind (io_lift r) (\<lambda>(existingSpec, existingStatus).
      io_bind (io_lift (CanonicalSpecDigest env existingSpec)) (\<lambda>existingDigest.
      io_bind (io_lift (CanonicalSpecDigest env spec)) (\<lambda>newDigest.
      io_then (io_reject (existingDigest \<noteq> newDigest) ''generation spec selection fields are immutable'' [])
      (io_then (io_need (ValidateStatusTransition existingStatus status))
        (io_wrap ''write generation status: %w'' [] (write_status g status))))))))"

definition WriteGenerationStatus :: "env \<Rightarrow> string \<Rightarrow> GenerationSpec \<Rightarrow> GenerationStatus \<Rightarrow> (node, unit) io" where
  "WriteGenerationStatus env root spec status =
     io_bind (io_lift (generation_key root (gs_GenerationID spec))) (\<lambda>g.
       withGenLock g (writeStatusRecord env g spec status))"


section \<open>The boot selection\<close>

definition validateBootEntryPath :: "string \<Rightarrow> string \<Rightarrow> error" where
  "validateBootEntryPath name raw =
     (let value = TrimSpace raw; cleaned = Clean value
      in if value = [] then None
         else first_error
           [reject (IsAbs value \<or> Contains value ''..'') ''%s must be a $BOOT-relative path'' [name],
            reject (cleaned = ''.'' \<or> HasPrefix cleaned ''../'' \<or> cleaned \<noteq> value)
              ''%s must be a clean $BOOT-relative path'' [name]])"

definition selection_ids :: "BootSelectionRecord \<Rightarrow> (string \<times> string) list" where
  "selection_ids b =
     [(''defaultGenerationID'', bs_DefaultGenerationID b),
      (''targetBootGenerationID'', bs_TargetBootGenerationID b),
      (''trialGenerationID'', bs_TrialGenerationID b),
      (''previousKnownGoodGenerationID'', bs_PreviousKnownGoodGenerationID b),
      (''bootedGenerationID'', bs_BootedGenerationID b),
      (''activeGenerationID'', bs_ActiveGenerationID b),
      (''generation0FallbackID'', bs_Generation0FallbackID b),
      (''failedBootGenerationID'', bs_FailedBootGenerationID b)]"

definition selection_entries :: "BootSelectionRecord \<Rightarrow> (string \<times> string) list" where
  "selection_entries b =
     [(''defaultBootEntry'', bs_DefaultBootEntry b),
      (''targetBootEntry'', bs_TargetBootEntry b),
      (''trialBootEntry'', bs_TrialBootEntry b),
      (''previousKnownGoodBootEntry'', bs_PreviousKnownGoodBootEntry b),
      (''bootedBootEntry'', bs_BootedBootEntry b)]"

definition ValidateBootSelection :: "BootSelectionRecord \<Rightarrow> error" where
  "ValidateBootSelection b =
     first_error
       [reject (bs_APIVersion b \<noteq> APIVersion) ''boot selection apiVersion must be %q'' [],
        reject (bs_Kind b \<noteq> BootSelectionKind) ''boot selection kind must be %q'' [],
        reject (TrimSpace (bs_DefaultGenerationID b) = [] \<and> \<not> bs_RecoveryRequired b)
          ''boot selection defaultGenerationID is required'' [],
        each_error (\<lambda>(name, value). if TrimSpace value = [] then None else error_of (cleanSegment name value))
          (selection_ids b),
        reject (bs_OneShot b \<and> bs_PendingHealthValidation b)
          ''one-shot selection cannot request persistent boot promotion'' [],
        reject (bs_PendingHealthValidation b \<and> TrimSpace (bs_BootedGenerationID b) = [] \<and>
                TrimSpace (bs_TargetBootGenerationID b) = [] \<and> TrimSpace (bs_TrialGenerationID b) = [])
          ''pending health validation requires a booted, target, or trial generation'' [],
        reject (bs_PendingHealthValidation b \<and> bs_PersistentDefaultPromotion b \<noteq> DefaultPromotionPending)
          ''pending health validation requires pending persistent default promotion'' [],
        reject (bs_PersistentDefaultPromotion b \<notin> {[], DefaultPromotionPending, DefaultPromotionDone})
          ''unsupported persistent default promotion state %q'' [bs_PersistentDefaultPromotion b],
        reject (TrimSpace (bs_FailedBootGenerationID b) \<noteq> [] \<and> \<not> bs_RecoveryRequired b \<and>
                TrimSpace (bs_PreviousKnownGoodGenerationID b) = [])
          ''failed boot selection requires previous known-good generation or recoveryRequired'' [],
        reject (bs_UpdatedAt b = 0) ''boot selection updatedAt is required'' [],
        each_error (\<lambda>(name, value). validateBootEntryPath name value) (selection_entries b)]"

definition BootSelectionPath :: "string \<Rightarrow> string res" where
  "BootSelectionPath root = rootedPath root ''/var/lib/katl/boot/selection.json''"

definition ReadBootSelection :: "string \<Rightarrow> node \<Rightarrow> BootSelectionRecord res" where
  "ReadBootSelection root s =
     res_bind (BootSelectionPath root) (\<lambda>_.
       case nd_selection s of
         NoFile \<Rightarrow> Inl (Wrap ''read boot selection: %w'' [] OsNotExist)
       | BadFile \<Rightarrow> fail ''decode boot selection: %w'' []
       | File b \<Rightarrow> res_need (ValidateBootSelection b) (Inr b))"

definition WriteBootSelection :: "string \<Rightarrow> BootSelectionRecord \<Rightarrow> (node, unit) io" where
  "WriteBootSelection root b =
     io_then (io_need (ValidateBootSelection b))
     (io_bind (io_lift (BootSelectionPath root)) (\<lambda>_.
        io_wrap ''write boot selection: %w'' [] (syscall (\<lambda>s. s\<lparr>nd_selection := File b\<rparr>))))"

section \<open>The configuration apply status\<close>

definition WriteConfigApplyStatus :: "string \<Rightarrow> ConfigApplyStatus \<Rightarrow> (node, unit) io" where
  "WriteConfigApplyStatus g status =
     io_then (io_need (ValidateConfigApplyStatus status))
       (io_wrap ''write config apply status: %w'' [] (syscall (upd_gen g (\<lambda>d. d\<lparr>gd_config := File status\<rparr>))))"

definition ReadConfigApplyStatus :: "string \<Rightarrow> node \<Rightarrow> ConfigApplyStatus res" where
  "ReadConfigApplyStatus g s =
     (case gd_config (gen_at s g) of
        NoFile \<Rightarrow> Inl (Wrap ''read config apply status: %w'' [] OsNotExist)
      | BadFile \<Rightarrow> fail ''decode config apply status: %w'' []
      | File status \<Rightarrow>
          res_need
            (first_error
               [ValidateConfigApplyStatus status,
                reject (g \<noteq> cs_GenerationID status)
                  ''config apply status path id %q does not match payload id %q'' [g, cs_GenerationID status]])
            (Inr status))"

section \<open>The upgrade handoff\<close>

definition handoff_at :: "node \<Rightarrow> string \<Rightarrow> UpgradeHandoff json_file" where
  "handoff_at s g = (case map_of (nd_handoffs s) g of Some f \<Rightarrow> f | None \<Rightarrow> NoFile)"

text \<open>The directory of a handoff: its cleaned candidate, when the root is given.\<close>

definition handoff_key :: "string \<Rightarrow> string \<Rightarrow> string res" where
  "handoff_key root candidate =
     res_bind (upgradeHandoffPath root candidate) (\<lambda>_. cleanSegment ''generation id'' candidate)"

definition WriteUpgradeHandoff :: "string \<Rightarrow> UpgradeHandoff \<Rightarrow> (node, unit) io" where
  "WriteUpgradeHandoff root r =
     io_then (io_need (validateUpgradeHandoff r))
     (io_bind (io_lift (handoff_key root (uh_CandidateGenerationID r))) (\<lambda>g.
        syscall (\<lambda>s. s\<lparr>nd_handoffs := AList.update g (File r) (nd_handoffs s)\<rparr>)))"

definition ReadUpgradeHandoff :: "string \<Rightarrow> string \<Rightarrow> node \<Rightarrow> UpgradeHandoff res" where
  "ReadUpgradeHandoff root candidate s =
     res_bind (handoff_key root candidate) (\<lambda>g.
       case handoff_at s g of
         NoFile \<Rightarrow> Inl OsNotExist
       | BadFile \<Rightarrow> fail ''decode upgrade handoff'' []
       | File r \<Rightarrow>
           res_need
             (first_error
                [validateUpgradeHandoff r,
                 reject (uh_CandidateGenerationID r \<noteq> candidate) ''handoff candidate does not match selected generation'' []])
             (Inr r))"

section \<open>Lookups after updates\<close>

lemma gen_at_upd: "gen_at (upd_gen g f s) h = (if h = g then f (gen_at s g) else gen_at s h)"
  by (simp add: gen_at_def upd_gen_def update_conv)

lemma upd_gen_fields [simp]:
  "nd_selection (upd_gen g f s) = nd_selection s" "nd_efi (upd_gen g f s) = nd_efi s"
  "nd_paths (upd_gen g f s) = nd_paths s" "nd_arm (upd_gen g f s) = nd_arm s"
  "nd_tombstones (upd_gen g f s) = nd_tombstones s" "nd_faults (upd_gen g f s) = nd_faults s"
  by (simp_all add: upd_gen_def)

lemma gen_at_fields [simp]:
  "gen_at (s\<lparr>nd_selection := a\<rparr>) h = gen_at s h" "gen_at (s\<lparr>nd_faults := b\<rparr>) h = gen_at s h"
  "gen_at (s\<lparr>nd_efi := c\<rparr>) h = gen_at s h" "gen_at (s\<lparr>nd_arm := d\<rparr>) h = gen_at s h"
  "gen_at (s\<lparr>nd_paths := e\<rparr>) h = gen_at s h" "gen_at (s\<lparr>nd_handoffs := f\<rparr>) h = gen_at s h"
  by (simp_all add: gen_at_def)

text \<open>The outcomes of a system call.\<close>

interpretation disk: fault_disk nd_faults "\<lambda>fs s. s\<lparr>nd_faults := fs\<rparr>"
  by unfold_locales simp

lemma syscall_cases:
  assumes "syscall f s = (r, t)"
  obtains (ok) fs where "r = Inr ()" "t = f (s\<lparr>nd_faults := fs\<rparr>)"
    | (before) fs m where "r = Inl (OsError m)" "t = s\<lparr>nd_faults := fs\<rparr>"
    | (after) fs m where "r = Inl (OsError m)" "t = f (s\<lparr>nd_faults := fs\<rparr>)"
  by (rule disk.call_cases [OF assms [unfolded syscall_def]]) (erule (1) that)+

lemma syscall_Inr: "syscall f s = (Inr u, t) \<Longrightarrow> \<exists>fs. t = f (s\<lparr>nd_faults := fs\<rparr>)"
  by (erule syscall_cases) auto

lemma syscall_no_faults [simp]: "nd_faults s = [] \<Longrightarrow> syscall f s = (Inr (), f s)"
  unfolding syscall_def by (rule disk.call_success)

text \<open>A relation that ignores the fault list holds of a call when it holds of its effect.\<close>

lemma syscall_rel:
  assumes "\<And>s fs. R s (s\<lparr>nd_faults := fs\<rparr>)" "\<And>s fs. R s (f (s\<lparr>nd_faults := fs\<rparr>))"
  shows "io_rel R (syscall f)"
  unfolding syscall_def using assms by (rule disk.call_frame)

end
