(* ===== verification/StoreFacts.thy ===== *)
theory StoreFacts
  imports NodeStore
begin

text \<open>
  What the accesses to the node state guarantee: the effect of every write, the round trips of the generation
  records and of the boot selection, the validity invariant of the store and the relation \<open>evolves\<close> by
  which specifications are immutable and statuses move along the status machine only.
\<close>

section \<open>Keys\<close>

lemma rootedPath_Inr_iff: "(\<exists>p. rootedPath root q = Inr p) \<longleftrightarrow> TrimSpace root \<noteq> []"
  by (auto simp: rootedPath_def Let_def)

lemma generation_key_Inr:
  "generation_key root raw = Inr g \<longleftrightarrow> cleanSegment ''generation id'' raw = Inr g \<and> TrimSpace root \<noteq> []"
  using rootedPath_Inr_iff [of root "PathJoin [GenerationRecordsDir, g]"]
  by (auto simp: generation_key_def)

lemma BootSelectionPath_Inr_iff: "(\<exists>p. BootSelectionPath root = Inr p) \<longleftrightarrow> TrimSpace root \<noteq> []"
  by (simp add: BootSelectionPath_def rootedPath_Inr_iff)

text \<open>Distinct generations have distinct directories: the store may be keyed by the cleaned identifier.\<close>

lemma strip_any_before:
  assumes "\<forall>e \<in> set es. c \<notin> set e" "strip_any es x = None"
  shows "strip_any es (x @ c # r) = None"
proof (rule ccontr)
  assume "strip_any es (x @ c # r) \<noteq> None"
  then obtain e q where e: "e \<in> set es" "x @ c # r = e @ q" using strip_any_Some by blast
  from e(2) obtain us where us: "x = e @ us \<or> x @ us = e \<and> c # r = us @ q"
    unfolding append_eq_append_conv2 by blast
  show False
  proof (cases "\<exists>us. x = e @ us")
    case True
    with e(1) assms(2) show False by (auto simp: strip_any_None)
  next
    case False
    with us have "x @ us = e" "c # r = us @ q" by auto
    with False have "c \<in> set e" by (cases us) auto
    with e(1) assms(1) show False by blast
  qed
qed

lemma no_slash_encoding: "list_all (\<lambda>e. CHR ''/'' \<notin> set e) space_encodings"
  by code_simp

lemma trimmed_path:
  assumes "trimmed x"
  shows "trimmed (CHR ''/'' # d @ CHR ''/'' # x)"
proof -
  have no: "\<forall>e \<in> set space_encodings. CHR ''/'' \<notin> set e" using no_slash_encoding by (simp add: list_all_iff)
  have "strip_any space_encodings [] = None"
    using space_encodings_nonempty by (auto simp: strip_any_None)
  then have "strip_any space_encodings (CHR ''/'' # d @ CHR ''/'' # x) = None"
    using strip_any_before [OF no, of "[]" "d @ CHR ''/'' # x"] by simp
  moreover have "strip_any (map rev space_encodings) (rev (CHR ''/'' # d @ CHR ''/'' # x)) = None"
    using strip_any_before [of "map rev space_encodings" "CHR ''/''" "rev x"] no assms
    by (simp add: trimmed_def)
  ultimately show ?thesis by (simp add: trimmed_def)
qed


lemma comps_Clean_rooted: "IsAbs p \<Longrightarrow> comps (Clean p) = comps p"
  by (simp add: Clean_rooted comps_of_rooted_Join comps_rooted_plain)

lemma generation_path:
  assumes "plain_comp g"
  shows "PathJoin [GenerationRecordsDir, g] = GenerationRecordsDir @ CHR ''/'' # g"
proof -
  have "PathJoin [GenerationRecordsDir, g] = CHR ''/'' # Join (comps GenerationRecordsDir @ [g]) ''/''"
    by (rule PathJoin_two [OF Clean_fixed_dirs(5) assms])
  also have "\<dots> = GenerationRecordsDir @ CHR ''/'' # g"
    by (simp add: comps_fixed_dirs) (simp add: GenerationRecordsDir_def)
  finally show ?thesis .
qed

lemma GenerationDir_comps:
  assumes "GenerationDir root raw = Inr d" "IsAbs (TrimSpace root)"
  shows "\<exists>g. cleanSegment ''generation id'' raw = Inr g \<and>
    comps d = comps (TrimSpace root) @ [''var'', ''lib'', ''katl'', ''generations'', g]"
proof -
  from assms(1) obtain g where g: "cleanSegment ''generation id'' raw = Inr g"
      and r: "rootedPath root (PathJoin [GenerationRecordsDir, g]) = Inr d"
    by (auto simp: GenerationDir_def)
  note plain = cleanSegment_plain [OF g]
  have tr: "trimmed g" using g TrimSpace_trimmed by (auto simp: cleanSegment_Inr)
  let ?p = "GenerationRecordsDir @ CHR ''/'' # g"
  have "trimmed ?p"
    using trimmed_path [OF tr, of "''var/lib/katl/generations''"] by (simp add: GenerationRecordsDir_def)
  moreover have "Clean ?p = ?p"
    using generation_path [OF plain] by (metis PathJoin_two Clean_fixed_dirs(5) plain Clean_rooted
        comps_of_rooted_Join comps_append_plain comps_rooted_plain IsAbs_Clean Clean_idem IsAbs_Cons)
  moreover have "?p = CHR ''/'' # ''var/lib/katl/generations/'' @ g" by (simp add: GenerationRecordsDir_def)
  ultimately have c: "clean_rooted (PathJoin [GenerationRecordsDir, g]) = CHR ''/'' # ''var/lib/katl/generations/'' @ g"
    unfolding generation_path [OF plain] clean_rooted_def
    by (metis TrimPrefix_append TrimSpace_id append_Cons append_Nil)
  let ?q = "((((Clean (TrimSpace root) @ CHR ''/'' # ''var'') @ CHR ''/'' # ''lib'') @ CHR ''/'' # ''katl'') @
      CHR ''/'' # ''generations'') @ CHR ''/'' # g"
  from r c have "d = PathJoin [Clean (TrimSpace root), ''var/lib/katl/generations/'' @ g]"
    using assms(2) TrimPrefix_append [of "''/''" "''var/lib/katl/generations/'' @ g"]
    by (auto simp: rootedPath_def Let_def IsAbs_iff)
  then have d: "d = Clean ?q"
    by (simp add: PathJoin_def)
  have ab: "IsAbs (Clean (TrimSpace root) @ r)" for r
    using assms(2) IsAbs_Clean [of "TrimSpace root"] by (auto simp: IsAbs_iff)
  have pl: "plain_comp ''var''" "plain_comp ''lib''" "plain_comp ''katl''" "plain_comp ''generations''"
    by (simp_all add: plain_comp_def)
  have "comps ?q = comps (Clean (TrimSpace root)) @ [''var'', ''lib'', ''katl'', ''generations'', g]"
    using ab [of "[]"] by (subst comps_append_plain, simp add: ab, simp add: pl plain)+ simp
  then show ?thesis
    using g d comps_Clean_rooted [OF assms(2)] comps_Clean_rooted [of ?q] ab by (simp add: append_assoc)
qed

lemma GenerationDir_inj:
  assumes "GenerationDir root a = Inr d" "GenerationDir root b = Inr d" "IsAbs (TrimSpace root)"
  shows "TrimSpace a = TrimSpace b"
  using GenerationDir_comps [OF assms(1,3)] GenerationDir_comps [OF assms(2,3)]
  by (auto simp: cleanSegment_Inr)


section \<open>Reading\<close>

lemma valid_status_spec: "ValidateGenerationStatus env spec st = None \<Longrightarrow> ValidateGenerationSpec env spec = None"
  by (simp add: ValidateGenerationStatus_None)

lemma ReadSplitRecords_split:
  assumes "gd_spec (gen_at s g) \<noteq> NoFile"
  shows "ReadSplitRecords env g s = Inr (spec, status) \<longleftrightarrow>
    gd_spec (gen_at s g) = File spec \<and> gd_status (gen_at s g) = File status \<and> g = gs_GenerationID spec \<and>
    ValidateGenerationStatus env spec status = None"
proof (cases "gd_spec (gen_at s g)")
  case (File x)
  show ?thesis
  proof (cases "ValidateGenerationSpec env x")
    case None
    with File have "ReadSplitRecords env g s =
        res_need (validateGenerationDirID g (gs_GenerationID x))
          (case readGenerationStatusFile g s of
             Inl err \<Rightarrow> Inl (Wrap ''read generation status: %w'' [] err)
           | Inr st \<Rightarrow> res_need (ValidateGenerationStatus env x st) (Inr (x, st)))"
      by (simp add: ReadSplitRecords_def readGenerationSpecFile_def)
    with File show ?thesis
      by (cases "gd_status (gen_at s g)")
         (auto simp: validateGenerationDirID_def readGenerationStatusFile_def fail_def)
  next
    case (Some e)
    then have "ValidateGenerationStatus env x status \<noteq> None" using valid_status_spec [of env x status] by auto
    with File Some show ?thesis
      using invalid_spec_not_missing [OF Some]
      by (auto simp: ReadSplitRecords_def readGenerationSpecFile_def)
  qed
next
  case BadFile
  then show ?thesis by (simp add: ReadSplitRecords_def readGenerationSpecFile_def fail_def)
qed (use assms in simp)

lemma ReadSplitRecords_legacy:
  assumes "gd_spec (gen_at s g) = NoFile"
  shows "ReadSplitRecords env g s = Inr (spec, status) \<longleftrightarrow>
    (\<exists>r. gd_metadata (gen_at s g) = File r \<and> ValidateRecord (en_ParseNamed env) r = None \<and> spec = SpecFromRecord r \<and>
         status = StatusFromRecord env r (''sha256:'' @ en_spec_digest env spec) \<and>
         ValidateGenerationStatus env spec status = None)"
proof (cases "gd_metadata (gen_at s g)")
  case (File r)
  have "ReadSplitRecords env g s = Inr (spec, status) \<longleftrightarrow>
      ValidateRecord (en_ParseNamed env) r = None \<and> ValidateGenerationSpec env (SpecFromRecord r) = None \<and>
      spec = SpecFromRecord r \<and> status = StatusFromRecord env r (''sha256:'' @ en_spec_digest env spec) \<and>
      ValidateGenerationStatus env spec status = None"
    using assms File
    by (cases "ValidateRecord (en_ParseNamed env) r")
       (auto simp: ReadSplitRecords_def readGenerationSpecFile_def readRecordFile_def CanonicalSpecDigest_Inr Let_def)
  then show ?thesis using File valid_status_spec [of env spec status] by auto
qed (use assms in \<open>simp_all add: ReadSplitRecords_def readGenerationSpecFile_def readRecordFile_def fail_def\<close>)

lemma ReadSplitRecords_valid:
  "ReadSplitRecords env g s = Inr (spec, status) \<Longrightarrow> ValidateGenerationStatus env spec status = None"
  by (cases "gd_spec (gen_at s g) = NoFile") (auto simp: ReadSplitRecords_split ReadSplitRecords_legacy)

lemma ReadSplitRecords_cong:
  "gen_at s g = gen_at t g \<Longrightarrow> ReadSplitRecords env g s = ReadSplitRecords env g t"
  unfolding ReadSplitRecords_def readGenerationSpecFile_def readGenerationStatusFile_def readRecordFile_def
  by (simp only:)

lemma ReadGeneration_Inr:
  "ReadGeneration env root raw s = Inr p \<longleftrightarrow>
     (\<exists>g. generation_key root raw = Inr g \<and> ReadSplitRecords env g s = Inr p)"
  by (auto simp: ReadGeneration_def)

lemma ReadBootSelection_Inr:
  "ReadBootSelection root s = Inr b \<longleftrightarrow>
     nd_selection s = File b \<and> ValidateBootSelection b = None \<and> TrimSpace root \<noteq> []"
  using BootSelectionPath_Inr_iff [of root]
  by (auto simp: ReadBootSelection_def fail_def split: json_file.splits)

section \<open>Effects of writes\<close>

definition only_faults :: "node \<Rightarrow> node \<Rightarrow> bool" where
  "only_faults s t \<longleftrightarrow> (\<exists>fs. t = s\<lparr>nd_faults := fs\<rparr>)"

lemma only_faults_refl [simp]: "only_faults s s"
  unfolding only_faults_def by (rule exI [of _ "nd_faults s"]) simp

lemma only_faults_upd [simp]: "only_faults s (s\<lparr>nd_faults := fs\<rparr>)"
  by (auto simp: only_faults_def)

lemma only_faults_trans: "only_faults s t \<Longrightarrow> only_faults t u \<Longrightarrow> only_faults s u"
  by (auto simp: only_faults_def)

lemma only_faults_fields:
  "only_faults s t \<Longrightarrow> gen_at t g = gen_at s g" "only_faults s t \<Longrightarrow> nd_selection t = nd_selection s"
  "only_faults s t \<Longrightarrow> nd_gens t = nd_gens s" "only_faults s t \<Longrightarrow> nd_efi t = nd_efi s"
  "only_faults s t \<Longrightarrow> nd_arm t = nd_arm s" "only_faults s t \<Longrightarrow> nd_paths t = nd_paths s"
  by (auto simp: only_faults_def)

lemma syscall_effect:
  assumes "syscall f s = (r, t)"
  shows "(\<exists>m. r = Inl (OsError m)) \<and> only_faults s t \<or> (\<exists>fs. t = f (s\<lparr>nd_faults := fs\<rparr>))"
  using assms by (rule syscall_cases) auto

lemma write_status_effect:
  assumes "write_status g st s = (r, t)"
  shows "(\<exists>m. r = Inl (OsError m)) \<and> only_faults s t \<or>
     (\<exists>fs. t = upd_gen g (\<lambda>d. d\<lparr>gd_status := File st\<rparr>) (s\<lparr>nd_faults := fs\<rparr>))"
  using syscall_effect assms by (auto simp: write_status_def)

text \<open>
  A status update either changes nothing or writes one status that is a move from the stored one and
  belongs to the stored specification.
\<close>

lemma writeStatusRecord_effect:
  assumes "writeStatusRecord env g spec status s = (r, t)"
  shows "(\<exists>e. r = Inl e) \<and> only_faults s t \<or>
    (\<exists>fs spec0 status0. ReadSplitRecords env g s = Inr (spec0, status0) \<and> status_move status0 status \<and>
       ValidateGenerationStatus env spec status = None \<and> en_spec_digest env spec0 = en_spec_digest env spec \<and>
       t = upd_gen g (\<lambda>d. d\<lparr>gd_status := File status\<rparr>) (s\<lparr>nd_faults := fs\<rparr>))"
proof (cases "ValidateGenerationStatus env spec status")
  case None
  show ?thesis
  proof (cases "ReadSplitRecords env g s")
    case (Inr p)
    obtain spec0 status0 where p: "p = (spec0, status0)" by (cases p)
    have v0: "ValidateGenerationSpec env spec0 = None" "ValidateGenerationSpec env spec = None"
      using ReadSplitRecords_valid [OF Inr [unfolded p]] None by (simp_all add: ValidateGenerationStatus_None)
    have eq: "writeStatusRecord env g spec status s =
       (if en_spec_digest env spec0 \<noteq> en_spec_digest env spec
        then (Inl (Errorf ''generation spec selection fields are immutable'' []), s)
        else case ValidateStatusTransition status0 status of
               Some e \<Rightarrow> (Inl e, s)
             | None \<Rightarrow> io_wrap ''write generation status: %w'' [] (write_status g status) s)"
      using None Inr p v0
      by (simp add: writeStatusRecord_def io_then_def io_bind_def io_need_def io_get_def io_lift_def
          CanonicalSpecDigest_def io_reject_def reject_def split: option.splits)
    show ?thesis
    proof (cases "en_spec_digest env spec0 = en_spec_digest env spec \<and> ValidateStatusTransition status0 status = None")
      case True
      then obtain r' where w: "write_status g status s = (r', t)" and e: "(\<exists>e. r' = Inl e) \<longrightarrow> (\<exists>e. r = Inl e)"
        using assms eq by (auto simp: io_wrap_def split: prod.splits sum.splits)
      from write_status_effect [OF w] show ?thesis
      proof
        assume "(\<exists>m. r' = Inl (OsError m)) \<and> only_faults s t"
        with e show ?thesis by blast
      next
        assume "\<exists>fs. t = upd_gen g (\<lambda>d. d\<lparr>gd_status := File status\<rparr>) (s\<lparr>nd_faults := fs\<rparr>)"
        with True None Inr p show ?thesis unfolding ValidateStatusTransition_None by auto
      qed
    next
      case False
      with assms eq show ?thesis by (auto split: option.splits if_splits)
    qed
  next
    case (Inl e)
    with None assms show ?thesis
      by (auto simp: writeStatusRecord_def io_then_def io_bind_def io_need_def io_get_def io_lift_def)
  qed
next
  case (Some e)
  with assms show ?thesis by (auto simp: writeStatusRecord_def io_then_def io_bind_def io_need_def)
qed


section \<open>Evolution of the generation records\<close>

text \<open>
  The frame of every operation that does not remove a generation: a specification, once published, and a
  legacy record stay as they are; the status of a published generation changes by admitted moves only.
\<close>

definition dir_evolves :: "gen_dir \<Rightarrow> gen_dir \<Rightarrow> bool" where
  "dir_evolves d e \<longleftrightarrow>
     (gd_spec d \<noteq> NoFile \<longrightarrow> gd_spec e = gd_spec d) \<and> gd_metadata e = gd_metadata d \<and>
     (\<forall>a. gd_spec d \<noteq> NoFile \<longrightarrow> gd_status d = File a \<longrightarrow> (\<exists>b. gd_status e = File b \<and> status_move\<^sup>*\<^sup>* a b))"

definition evolves :: "node \<Rightarrow> node \<Rightarrow> bool" where
  "evolves s t \<longleftrightarrow> (\<forall>g. dir_evolves (gen_at s g) (gen_at t g))"

lemma dir_evolves_refl [simp]: "dir_evolves d d"
  by (auto simp: dir_evolves_def)

lemma dir_evolves_trans: "dir_evolves c d \<Longrightarrow> dir_evolves d e \<Longrightarrow> dir_evolves c e"
  unfolding dir_evolves_def by (metis rtranclp_trans)

interpretation evolves: io_frame evolves
  by unfold_locales (auto simp: evolves_def intro: dir_evolves_trans)

lemma evolves_only_faults: "only_faults s t \<Longrightarrow> evolves s t"
  by (auto simp: only_faults_def evolves_def)

lemma evolves_upd_gen: "dir_evolves (gen_at s g) (f (gen_at s g)) \<Longrightarrow> evolves s (upd_gen g f (s\<lparr>nd_faults := fs\<rparr>))"
  by (auto simp: evolves_def gen_at_upd)

lemma evolves_syscall:
  "(\<And>s. dir_evolves (gen_at s g) (f (gen_at s g))) \<Longrightarrow> io_rel evolves (syscall (upd_gen g f))"
  by (intro syscall_rel evolves_upd_gen) (simp_all add: evolves_only_faults)

lemma evolves_syscall_other:
  "(\<And>s h. gen_at (f s) h = gen_at s h) \<Longrightarrow> io_rel evolves (syscall f)"
  by (intro syscall_rel) (simp_all add: evolves_def)

lemma evolves_setter: "io_rel evolves (call_setter setter root entry)"
  by (rule io_relI) (auto simp: call_setter_def evolves_def split: prod.splits option.splits)

lemma evolves_withGenLock: "io_rel evolves m \<Longrightarrow> io_rel evolves (withGenLock g m)"
  unfolding withGenLock_def by (intro evolves.rel_then evolves_syscall) simp_all

lemma evolves_withBootLock: "io_rel evolves m \<Longrightarrow> io_rel evolves (withBootLock m)"
  unfolding withBootLock_def by (intro evolves.rel_then evolves_syscall_other) simp_all

lemma evolves_writeStatusRecord: "io_rel evolves (writeStatusRecord env g spec status)"
proof (rule io_relI)
  fix s
  obtain r t where w: "writeStatusRecord env g spec status s = (r, t)" by fastforce
  have "evolves s t"
    using writeStatusRecord_effect [OF w]
  proof
    assume "(\<exists>e. r = Inl e) \<and> only_faults s t"
    then show ?thesis by (simp add: evolves_only_faults)
  next
    assume "\<exists>fs spec0 status0. ReadSplitRecords env g s = Inr (spec0, status0) \<and> status_move status0 status \<and>
       ValidateGenerationStatus env spec status = None \<and> en_spec_digest env spec0 = en_spec_digest env spec \<and>
       t = upd_gen g (\<lambda>d. d\<lparr>gd_status := File status\<rparr>) (s\<lparr>nd_faults := fs\<rparr>)"
    then obtain fs spec0 status0 where r: "ReadSplitRecords env g s = Inr (spec0, status0)" "status_move status0 status"
        and t: "t = upd_gen g (\<lambda>d. d\<lparr>gd_status := File status\<rparr>) (s\<lparr>nd_faults := fs\<rparr>)" by blast
    have "dir_evolves (gen_at s g) ((gen_at s g)\<lparr>gd_status := File status\<rparr>)"
      using r by (auto simp: dir_evolves_def ReadSplitRecords_split)
    then show ?thesis unfolding t by (rule evolves_upd_gen)
  qed
  with w show "evolves s (snd (writeStatusRecord env g spec status s))" by simp
qed

lemma evolves_WriteGenerationStatus: "io_rel evolves (WriteGenerationStatus env root spec status)"
  unfolding WriteGenerationStatus_def
  by (intro evolves.rel_rules evolves_withGenLock evolves_writeStatusRecord)

lemma evolves_publish_spec: "io_rel evolves (publish_spec env g spec digest)"
proof (rule io_relI)
  fix s
  show "evolves s (snd (publish_spec env g spec digest s))"
  proof (cases "gd_spec (gen_at s g) = NoFile \<and> gd_status (gen_at s g) = NoFile")
    case True
    then have "snd (publish_spec env g spec digest s) = snd (write_spec g spec s)"
      by (simp add: publish_spec_def io_bind_def io_get_def readGenerationSpecFile_def)
    moreover obtain r t where w: "write_spec g spec s = (r, t)" by fastforce
    moreover have "evolves s t"
      using syscall_effect [OF w [unfolded write_spec_def]] True
      by (auto simp: evolves_only_faults dir_evolves_def intro!: evolves_upd_gen)
    ultimately show ?thesis by simp
  next
    case False
    then have "snd (publish_spec env g spec digest s) = s"
      using invalid_spec_not_missing
      by (auto simp: publish_spec_def io_bind_def io_get_def readGenerationSpecFile_def io_lift_def io_reject_def
          io_need_def io_err_def io_fail_def res_need_def fail_def
          split: json_file.splits option.splits prod.splits sum.splits)
    then show ?thesis by (simp add: evolves.frame_refl)
  qed
qed

lemma evolves_publish_status: "io_rel evolves (publish_status env g spec status)"
proof (rule io_relI)
  fix s
  show "evolves s (snd (publish_status env g spec status s))"
  proof (cases "gd_status (gen_at s g) = NoFile")
    case True
    then have "snd (publish_status env g spec status s) = snd (write_status g status s)"
      by (simp add: publish_status_def io_bind_def io_get_def readGenerationStatusFile_def)
    moreover obtain r t where w: "write_status g status s = (r, t)" by fastforce
    moreover have "evolves s t"
      using write_status_effect [OF w] True
      by (auto simp: evolves_only_faults dir_evolves_def intro!: evolves_upd_gen)
    ultimately show ?thesis by simp
  next
    case False
    then have "snd (publish_status env g spec status s) = s"
      by (auto simp: publish_status_def io_bind_def io_get_def readGenerationStatusFile_def io_need_def
          io_err_def fail_def split: json_file.splits)
    then show ?thesis by (simp add: evolves.frame_refl)
  qed
qed

lemma evolves_WriteSplitRecords: "io_rel evolves (WriteSplitRecords env g spec status)"
  unfolding WriteSplitRecords_def Let_def
  by (intro evolves.rel_rules evolves_withGenLock evolves_publish_spec evolves_publish_status)

lemma evolves_WriteGeneration: "io_rel evolves (WriteGeneration env root spec status)"
  unfolding WriteGeneration_def by (intro evolves.rel_rules evolves_WriteSplitRecords)

lemma evolves_WriteBootSelection: "io_rel evolves (WriteBootSelection root b)"
  unfolding WriteBootSelection_def by (intro evolves.rel_rules evolves_syscall_other) simp

lemma evolves_WriteConfigApplyStatus: "io_rel evolves (WriteConfigApplyStatus g status)"
  unfolding WriteConfigApplyStatus_def by (intro evolves.rel_rules evolves_syscall) (simp add: dir_evolves_def)

lemmas evolves_ops =
  evolves_setter evolves_withGenLock evolves_withBootLock evolves_WriteGenerationStatus evolves_WriteGeneration
  evolves_WriteBootSelection evolves_WriteConfigApplyStatus


section \<open>The validity invariant\<close>

text \<open>
  Every selection, specification, status and apply status on disk that decodes is one the writers accept:
  the selection is valid; a specification is valid and lies in the directory of its identifier; a status
  carries the digest of the specification beside it.
\<close>

definition selection_ok :: "node \<Rightarrow> bool" where
  "selection_ok s \<longleftrightarrow> (\<forall>b. nd_selection s = File b \<longrightarrow> ValidateBootSelection b = None)"

definition status_fits :: "env \<Rightarrow> string \<Rightarrow> GenerationSpec \<Rightarrow> GenerationStatus \<Rightarrow> bool" where
  "status_fits env g spec st \<longleftrightarrow>
     st_APIVersion st = APIVersion \<and> st_Kind st = StatusKind \<and> TrimSpace (st_GenerationID st) = g \<and>
     st_SpecDigest st = ''sha256:'' @ en_spec_digest env spec \<and> validCommitState (st_CommitState st) \<and>
     validBootState (st_BootState st) \<and> validHealthState (st_HealthState st) \<and> st_UpdatedAt st \<noteq> 0"

definition gen_ok :: "env \<Rightarrow> string \<Rightarrow> gen_dir \<Rightarrow> bool" where
  "gen_ok env g d \<longleftrightarrow>
     (\<forall>spec. gd_spec d = File spec \<longrightarrow>
        ValidateGenerationSpec env spec = None \<and> cleanSegment ''generation id'' (gs_GenerationID spec) = Inr g) \<and>
     (\<forall>spec st. gd_spec d = File spec \<longrightarrow> gd_status d = File st \<longrightarrow> status_fits env g spec st) \<and>
     (\<forall>c. gd_config d = File c \<longrightarrow> ValidateConfigApplyStatus c = None)"

definition gens_ok :: "env \<Rightarrow> node \<Rightarrow> bool" where
  "gens_ok env s \<longleftrightarrow> (\<forall>g. gen_ok env g (gen_at s g))"

definition store_ok :: "env \<Rightarrow> node \<Rightarrow> bool" where
  "store_ok env s \<longleftrightarrow> selection_ok s \<and> gens_ok env s"

lemma gen_ok_empty [simp]: "gen_ok env g empty_gen"
  by (simp add: gen_ok_def empty_gen_def)

lemma store_ok_faults [simp]: "store_ok env (s\<lparr>nd_faults := fs\<rparr>) = store_ok env s"
  by (simp add: store_ok_def selection_ok_def gens_ok_def)

lemma store_ok_only_faults: "only_faults s t \<Longrightarrow> store_ok env s \<Longrightarrow> store_ok env t"
  by (auto simp: only_faults_def)

lemma store_ok_upd_gen:
  "store_ok env s \<Longrightarrow> gen_ok env g (f (gen_at s g)) \<Longrightarrow> store_ok env (upd_gen g f (s\<lparr>nd_faults := fs\<rparr>))"
  by (auto simp: store_ok_def selection_ok_def gens_ok_def gen_at_upd)

lemma ok_syscall_other:
  "(\<And>s h. gen_at (f s) h = gen_at s h) \<Longrightarrow> (\<And>s. nd_selection (f s) = nd_selection s) \<Longrightarrow>
   io_rel (keeps (store_ok env)) (syscall f)"
  by (rule syscall_rel) (simp_all add: keeps_def store_ok_def selection_ok_def gens_ok_def)

lemma ok_syscall_gen:
  "(\<And>d. gen_ok env g d \<Longrightarrow> gen_ok env g (f d)) \<Longrightarrow> io_rel (keeps (store_ok env)) (syscall (upd_gen g f))"
  by (rule syscall_rel) (auto simp: keeps_def intro!: store_ok_upd_gen, simp add: store_ok_def gens_ok_def)

lemma ok_setter: "io_rel (keeps (store_ok env)) (call_setter setter root entry)"
  by (rule io_relI)
     (auto simp: call_setter_def keeps_def store_ok_def selection_ok_def gens_ok_def split: prod.splits option.splits)

lemma ok_withGenLock: "io_rel (keeps (store_ok env)) m \<Longrightarrow> io_rel (keeps (store_ok env)) (withGenLock g m)"
  unfolding withGenLock_def by (intro keeps.rel_then ok_syscall_gen) simp_all

lemma ok_withBootLock: "io_rel (keeps (store_ok env)) m \<Longrightarrow> io_rel (keeps (store_ok env)) (withBootLock m)"
  unfolding withBootLock_def by (intro keeps.rel_then ok_syscall_other) simp_all

lemma WriteBootSelection_effect:
  assumes "WriteBootSelection root b s = (r, t)"
  shows "(\<exists>e. r = Inl e) \<and> only_faults s t \<or>
    ValidateBootSelection b = None \<and> (\<exists>fs. t = s\<lparr>nd_faults := fs, nd_selection := File b\<rparr>)"
proof (cases "ValidateBootSelection b = None \<and> (\<exists>p. BootSelectionPath root = Inr p)")
  case True
  then obtain r' where w: "syscall (\<lambda>s. s\<lparr>nd_selection := File b\<rparr>) s = (r', t)" and e: "(\<exists>e. r' = Inl e) \<longrightarrow> (\<exists>e. r = Inl e)"
    using assms
    by (auto simp: WriteBootSelection_def io_then_def io_bind_def io_need_def io_lift_def io_wrap_def
        split: prod.splits sum.splits)
  from syscall_effect [OF w] show ?thesis
  proof
    assume "(\<exists>m. r' = Inl (OsError m)) \<and> only_faults s t"
    with e show ?thesis by blast
  next
    assume "\<exists>fs. t = (\<lambda>s. s\<lparr>nd_selection := File b\<rparr>) (s\<lparr>nd_faults := fs\<rparr>)"
    with True show ?thesis by auto
  qed
next
  case False
  with assms show ?thesis
    by (auto simp: WriteBootSelection_def io_then_def io_bind_def io_need_def io_lift_def
        split: option.splits sum.splits)
qed

lemma ok_WriteBootSelection: "io_rel (keeps (store_ok env)) (WriteBootSelection root b)"
proof (rule io_relI)
  fix s
  obtain r t where w: "WriteBootSelection root b s = (r, t)" by fastforce
  from WriteBootSelection_effect [OF w] show "keeps (store_ok env) s (snd (WriteBootSelection root b s))"
    unfolding w keeps_def snd_conv
    by (auto simp: store_ok_def selection_ok_def gens_ok_def only_faults_def)
qed

lemma status_fits_of_valid:
  assumes "ValidateGenerationStatus env spec st = None" "cleanSegment ''generation id'' (gs_GenerationID spec) = Inr g"
    "en_spec_digest env spec' = en_spec_digest env spec"
  shows "status_fits env g spec' st"
  using assms by (auto simp: ValidateGenerationStatus_None status_fits_def cleanSegment_Inr)

lemma ok_writeStatusRecord:
  assumes "cleanSegment ''generation id'' (gs_GenerationID spec) = Inr g"
  shows "io_rel (keeps (store_ok env)) (writeStatusRecord env g spec status)"
proof (rule io_relI)
  fix s
  obtain r t where w: "writeStatusRecord env g spec status s = (r, t)" by fastforce
  show "keeps (store_ok env) s (snd (writeStatusRecord env g spec status s))"
    unfolding w keeps_def snd_conv
  proof
    assume ok: "store_ok env s"
    from writeStatusRecord_effect [OF w] show "store_ok env t"
    proof
      assume "(\<exists>e. r = Inl e) \<and> only_faults s t"
      with ok show ?thesis using store_ok_only_faults by blast
    next
      assume "\<exists>fs spec0 status0. ReadSplitRecords env g s = Inr (spec0, status0) \<and> status_move status0 status \<and>
         ValidateGenerationStatus env spec status = None \<and> en_spec_digest env spec0 = en_spec_digest env spec \<and>
         t = upd_gen g (\<lambda>d. d\<lparr>gd_status := File status\<rparr>) (s\<lparr>nd_faults := fs\<rparr>)"
      then obtain fs spec0 status0 where r: "ReadSplitRecords env g s = Inr (spec0, status0)"
          and v: "ValidateGenerationStatus env spec status = None" "en_spec_digest env spec0 = en_spec_digest env spec"
          and t: "t = upd_gen g (\<lambda>d. d\<lparr>gd_status := File status\<rparr>) (s\<lparr>nd_faults := fs\<rparr>)" by blast
      have "gen_ok env g ((gen_at s g)\<lparr>gd_status := File status\<rparr>)"
        using ok r status_fits_of_valid [OF v(1) assms v(2)]
        by (auto simp: gen_ok_def store_ok_def gens_ok_def ReadSplitRecords_split)
      with ok show ?thesis unfolding t by (intro store_ok_upd_gen)
    qed
  qed
qed

lemma ok_WriteGenerationStatus: "io_rel (keeps (store_ok env)) (WriteGenerationStatus env root spec status)"
proof (cases "generation_key root (gs_GenerationID spec)")
  case (Inl e)
  then show ?thesis by (simp add: WriteGenerationStatus_def io_rel_def io_bind_def io_lift_def keeps_def)
next
  case (Inr g)
  then have g: "cleanSegment ''generation id'' (gs_GenerationID spec) = Inr g" by (simp add: generation_key_Inr)
  have "WriteGenerationStatus env root spec status = withGenLock g (writeStatusRecord env g spec status)"
    using Inr by (simp add: WriteGenerationStatus_def io_bind_def io_lift_def)
  with ok_withGenLock [OF ok_writeStatusRecord [OF g]] show ?thesis by simp
qed


section \<open>Publishing a generation\<close>

lemma publish_spec_effect:
  assumes "publish_spec env g spec digest s = (r, t)"
  shows "only_faults s t \<and> ((\<exists>e. r = Inl e) \<or>
      (\<exists>old. gd_spec (gen_at s g) = File old \<and> ValidateGenerationSpec env old = None \<and>
             ''sha256:'' @ en_spec_digest env old = digest \<and> r = Inr ())) \<or>
    gd_spec (gen_at s g) = NoFile \<and> gd_status (gen_at s g) = NoFile \<and>
      (\<exists>fs. t = upd_gen g (\<lambda>d. d\<lparr>gd_spec := File spec\<rparr>) (s\<lparr>nd_faults := fs\<rparr>))"
proof (cases "gd_spec (gen_at s g)")
  case NoFile
  show ?thesis
  proof (cases "gd_status (gen_at s g) = NoFile")
    case True
    with NoFile assms have "syscall (upd_gen g (\<lambda>d. d\<lparr>gd_spec := File spec\<rparr>)) s = (r, t)"
      by (simp add: publish_spec_def io_bind_def io_get_def readGenerationSpecFile_def write_spec_def)
    from syscall_effect [OF this] NoFile True show ?thesis by auto
  next
    case False
    with NoFile assms show ?thesis
      by (auto simp: publish_spec_def io_bind_def io_get_def readGenerationSpecFile_def io_fail_def io_err_def)
  qed
next
  case BadFile
  with assms show ?thesis
    by (auto simp: publish_spec_def io_bind_def io_get_def readGenerationSpecFile_def io_err_def fail_def)
next
  case (File old)
  show ?thesis
  proof (cases "ValidateGenerationSpec env old")
    case None
    with File assms show ?thesis
      by (cases "''sha256:'' @ en_spec_digest env old = digest")
         (auto simp: publish_spec_def io_bind_def io_get_def readGenerationSpecFile_def io_lift_def
          CanonicalSpecDigest_def io_reject_def io_need_def reject_def)
  next
    case (Some e)
    with File assms invalid_spec_not_missing [OF Some] show ?thesis
      by (auto simp: publish_spec_def io_bind_def io_get_def readGenerationSpecFile_def io_err_def)
  qed
qed

lemma publish_status_effect:
  assumes "publish_status env g spec status s = (r, t)"
  shows "only_faults s t \<and> ((\<exists>e. r = Inl e) \<or>
      (\<exists>old. gd_status (gen_at s g) = File old \<and> ValidateGenerationStatus env spec old = None \<and> r = Inr ())) \<or>
    gd_status (gen_at s g) = NoFile \<and>
      (\<exists>fs. t = upd_gen g (\<lambda>d. d\<lparr>gd_status := File status\<rparr>) (s\<lparr>nd_faults := fs\<rparr>))"
proof (cases "gd_status (gen_at s g)")
  case NoFile
  with assms have "write_status g status s = (r, t)"
    by (simp add: publish_status_def io_bind_def io_get_def readGenerationStatusFile_def)
  from write_status_effect [OF this] NoFile show ?thesis by auto
next
  case BadFile
  with assms show ?thesis
    by (auto simp: publish_status_def io_bind_def io_get_def readGenerationStatusFile_def io_err_def fail_def)
next
  case (File old)
  with assms show ?thesis
    by (auto simp: publish_status_def io_bind_def io_get_def readGenerationStatusFile_def io_need_def
        split: option.splits)
qed

definition stamped :: "env \<Rightarrow> GenerationSpec \<Rightarrow> GenerationStatus \<Rightarrow> GenerationStatus" where
  "stamped env spec status =
     (if st_SpecDigest status = [] then status\<lparr>st_SpecDigest := ''sha256:'' @ en_spec_digest env spec\<rparr> else status)"

definition publish :: "env \<Rightarrow> string \<Rightarrow> GenerationSpec \<Rightarrow> GenerationStatus \<Rightarrow> (node, unit) io" where
  "publish env g spec status =
     io_then (publish_spec env g spec (''sha256:'' @ en_spec_digest env spec))
       (publish_status env g spec (stamped env spec status))"

lemma WriteSplitRecords_cases:
  "(\<exists>e. WriteSplitRecords env g spec status = io_err e) \<or>
   (\<exists>e. WriteSplitRecords env g spec status = withGenLock g (io_err e)) \<or>
   ValidateGenerationStatus env spec (stamped env spec status) = None \<and>
   (\<exists>p. PlanActivation env (RecordFromSplit spec status) = Inr p) \<and>
   WriteSplitRecords env g spec status = withGenLock g (publish env g spec status)"
proof (cases "PlanActivation env (RecordFromSplit spec status)")
  case (Inl e)
  then have "WriteSplitRecords env g spec status = io_err e"
    by (auto simp: WriteSplitRecords_def io_bind_def io_lift_def io_err_def)
  then show ?thesis by blast
next
  case (Inr p)
  let ?body = "io_bind (io_lift (CanonicalSpecDigest env spec)) (\<lambda>digest.
          let st = (if st_SpecDigest status = [] then status\<lparr>st_SpecDigest := digest\<rparr> else status)
          in io_then (io_need (ValidateGenerationStatus env spec st))
            (io_then (publish_spec env g spec digest) (publish_status env g spec st)))"
  have w: "WriteSplitRecords env g spec status = withGenLock g ?body"
    using Inr by (simp add: WriteSplitRecords_def io_bind_def io_lift_def)
  show ?thesis
  proof (cases "ValidateGenerationSpec env spec")
    case None
    then have b: "?body = io_then (io_need (ValidateGenerationStatus env spec (stamped env spec status))) (publish env g spec status)"
      by (simp add: io_bind_def io_lift_def CanonicalSpecDigest_def publish_def stamped_def Let_def)
    show ?thesis
    proof (cases "ValidateGenerationStatus env spec (stamped env spec status)")
      case None
      then have "io_then (io_need (ValidateGenerationStatus env spec (stamped env spec status))) (publish env g spec status) = publish env g spec status"
        by (simp add: io_then_def io_bind_def io_need_def)
      with w b Inr None show ?thesis by simp
    next
      case (Some e)
      then have "?body = io_err e" using b by (auto simp: io_then_def io_bind_def io_need_def io_err_def)
      with w show ?thesis by auto
    qed
  next
    case (Some e)
    then have "?body = io_err e" by (auto simp: io_bind_def io_lift_def CanonicalSpecDigest_def io_err_def)
    with w show ?thesis by auto
  qed
qed

lemma ok_publish:
  assumes v: "ValidateGenerationStatus env spec (stamped env spec status) = None"
    and g: "cleanSegment ''generation id'' (gs_GenerationID spec) = Inr g"
  shows "io_rel (keeps (store_ok env)) (publish env g spec status)"
proof (rule io_relI)
  fix s
  let ?d = "''sha256:'' @ en_spec_digest env spec"
  let ?st = "stamped env spec status"
  obtain r u where p: "publish_spec env g spec ?d s = (r, u)" by fastforce
  have vs: "ValidateGenerationSpec env spec = None" using v by (rule valid_status_spec)
  show "keeps (store_ok env) s (snd (publish env g spec status s))"
    unfolding keeps_def
  proof
    assume ok: "store_ok env s"
    have u: "store_ok env u \<and> (r = Inr () \<longrightarrow> (\<exists>old. gd_spec (gen_at u g) = File old \<and> en_spec_digest env old = en_spec_digest env spec))"
      using publish_spec_effect [OF p]
    proof
      assume a: "only_faults s u \<and> ((\<exists>e. r = Inl e) \<or> (\<exists>old. gd_spec (gen_at s g) = File old \<and>
         ValidateGenerationSpec env old = None \<and> ''sha256:'' @ en_spec_digest env old = ?d \<and> r = Inr ()))"
      then have "store_ok env u" using ok store_ok_only_faults by blast
      with a show ?thesis by (auto simp: only_faults_fields)
    next
      assume a: "gd_spec (gen_at s g) = NoFile \<and> gd_status (gen_at s g) = NoFile \<and>
         (\<exists>fs. u = upd_gen g (\<lambda>d. d\<lparr>gd_spec := File spec\<rparr>) (s\<lparr>nd_faults := fs\<rparr>))"
      have "gen_ok env g ((gen_at s g)\<lparr>gd_spec := File spec\<rparr>)"
        using a ok vs g by (auto simp: gen_ok_def store_ok_def gens_ok_def)
      with a ok store_ok_upd_gen [of env s g] show ?thesis by (auto simp: gen_at_upd)
    qed
    show "store_ok env (snd (publish env g spec status s))"
    proof (cases r)
      case (Inl e)
      with p u show ?thesis by (simp add: publish_def io_then_def io_bind_def)
    next
      case (Inr x)
      obtain r2 t where q: "publish_status env g spec ?st u = (r2, t)" by fastforce
      with p Inr have "snd (publish env g spec status s) = t" by (simp add: publish_def io_then_def io_bind_def)
      moreover have "store_ok env t"
        using publish_status_effect [OF q]
      proof
        assume "only_faults u t \<and> ((\<exists>e. r2 = Inl e) \<or> (\<exists>old. gd_status (gen_at u g) = File old \<and>
           ValidateGenerationStatus env spec old = None \<and> r2 = Inr ()))"
        then show ?thesis using u store_ok_only_faults by blast
      next
        assume a: "gd_status (gen_at u g) = NoFile \<and>
           (\<exists>fs. t = upd_gen g (\<lambda>d. d\<lparr>gd_status := File ?st\<rparr>) (u\<lparr>nd_faults := fs\<rparr>))"
        have "gen_ok env g ((gen_at u g)\<lparr>gd_status := File ?st\<rparr>)"
          using u Inr status_fits_of_valid [OF v g] by (auto simp: gen_ok_def store_ok_def gens_ok_def)
        with a u store_ok_upd_gen [of env u g] show ?thesis by auto
      qed
      ultimately show ?thesis by simp
    qed
  qed
qed

lemma ok_WriteSplitRecords:
  assumes "cleanSegment ''generation id'' (gs_GenerationID spec) = Inr g"
  shows "io_rel (keeps (store_ok env)) (WriteSplitRecords env g spec status)"
  using WriteSplitRecords_cases [of env g spec status] ok_publish [OF _ assms]
  by (auto intro!: keeps.rel_rules ok_withGenLock)

lemma ok_WriteGeneration: "io_rel (keeps (store_ok env)) (WriteGeneration env root spec status)"
proof (cases "generation_key root (gs_GenerationID spec)")
  case (Inl e)
  then show ?thesis by (simp add: WriteGeneration_def io_rel_def io_bind_def io_lift_def keeps_def)
next
  case (Inr g)
  then have "WriteGeneration env root spec status = WriteSplitRecords env g spec status"
    by (simp add: WriteGeneration_def io_bind_def io_lift_def)
  with Inr ok_WriteSplitRecords show ?thesis by (simp add: generation_key_Inr)
qed

lemma ok_WriteConfigApplyStatus: "io_rel (keeps (store_ok env)) (WriteConfigApplyStatus g status)"
proof (cases "ValidateConfigApplyStatus status")
  case None
  then show ?thesis
    unfolding WriteConfigApplyStatus_def
    by (intro keeps.rel_rules ok_syscall_gen) (auto simp: gen_ok_def)
next
  case (Some e)
  then show ?thesis
    by (simp add: WriteConfigApplyStatus_def io_rel_def io_then_def io_bind_def io_need_def keeps_def)
qed

lemmas ok_ops =
  ok_setter ok_withGenLock ok_withBootLock ok_WriteGenerationStatus ok_WriteGeneration
  ok_WriteBootSelection ok_WriteConfigApplyStatus


section \<open>Round trips\<close>

lemma WriteGenerationStatus_key:
  "generation_key root (gs_GenerationID spec) = Inr g \<Longrightarrow>
   WriteGenerationStatus env root spec status = withGenLock g (writeStatusRecord env g spec status)"
  by (simp add: WriteGenerationStatus_def io_bind_def io_lift_def)

lemma withGenLock_cases:
  assumes "withGenLock g m s = (r, t)"
  obtains e where "r = Inl e" "only_faults s t \<or> (\<exists>fs. t = upd_gen g (\<lambda>d. d) (s\<lparr>nd_faults := fs\<rparr>))"
    | fs where "m (upd_gen g (\<lambda>d. d) (s\<lparr>nd_faults := fs\<rparr>)) = (r, t)"
proof -
  obtain r1 u where l: "syscall (upd_gen g (\<lambda>d. d)) s = (r1, u)" by fastforce
  then have m: "withGenLock g m s = (case r1 of Inl e \<Rightarrow> (Inl e, u) | Inr _ \<Rightarrow> m u)"
    by (simp add: withGenLock_def io_then_def io_bind_def split: sum.splits)
  from l show thesis
  proof (cases rule: syscall_cases)
    case (ok fs)
    with m assms that(2) [of fs] show ?thesis by simp
  next
    case (before fs m')
    with m assms that(1) [of "OsError m'"] show ?thesis by auto
  next
    case (after fs m')
    with m assms that(1) [of "OsError m'"] show ?thesis by auto
  qed
qed

text \<open>A successful status update is what the next read returns, and it touches nothing else.\<close>

lemma WriteGenerationStatus_success:
  assumes w: "WriteGenerationStatus env root spec status s = (Inr u, t)"
  shows "\<exists>g fs spec0 status0. generation_key root (gs_GenerationID spec) = Inr g \<and>
    ReadSplitRecords env g s = Inr (spec0, status0) \<and> status_move status0 status \<and>
    ValidateGenerationStatus env spec status = None \<and> en_spec_digest env spec0 = en_spec_digest env spec \<and>
    t = upd_gen g (\<lambda>d. d\<lparr>gd_status := File status\<rparr>) (upd_gen g (\<lambda>d. d) (s\<lparr>nd_faults := fs\<rparr>))"
proof -
  from w obtain g where k: "generation_key root (gs_GenerationID spec) = Inr g"
    by (cases "generation_key root (gs_GenerationID spec)")
       (auto simp: WriteGenerationStatus_def io_bind_def io_lift_def)
  with w have "withGenLock g (writeStatusRecord env g spec status) s = (Inr u, t)"
    by (simp add: WriteGenerationStatus_key)
  then obtain fs where r: "writeStatusRecord env g spec status (upd_gen g (\<lambda>d. d) (s\<lparr>nd_faults := fs\<rparr>)) = (Inr u, t)"
    by (cases rule: withGenLock_cases) auto
  have same: "ReadSplitRecords env g (upd_gen g (\<lambda>d. d) (s\<lparr>nd_faults := fs\<rparr>)) = ReadSplitRecords env g s"
    by (rule ReadSplitRecords_cong) (simp add: gen_at_upd)
  from writeStatusRecord_effect [OF r] obtain fs' spec0 status0 where e:
      "ReadSplitRecords env g s = Inr (spec0, status0)" "status_move status0 status"
      "ValidateGenerationStatus env spec status = None" "en_spec_digest env spec0 = en_spec_digest env spec"
      "t = upd_gen g (\<lambda>d. d\<lparr>gd_status := File status\<rparr>) ((upd_gen g (\<lambda>d. d) (s\<lparr>nd_faults := fs\<rparr>))\<lparr>nd_faults := fs'\<rparr>)"
    using same by auto
  moreover have "(upd_gen g (\<lambda>d. d) (s\<lparr>nd_faults := fs\<rparr>))\<lparr>nd_faults := fs'\<rparr> = upd_gen g (\<lambda>d. d) (s\<lparr>nd_faults := fs'\<rparr>)"
    by (simp add: upd_gen_def gen_at_def)
  ultimately show ?thesis using k by metis
qed

lemma WriteGenerationStatus_frame:
  assumes "WriteGenerationStatus env root spec status s = (r, t)"
  shows "nd_selection t = nd_selection s" "nd_efi t = nd_efi s" "nd_arm t = nd_arm s" "nd_paths t = nd_paths s"
    "generation_key root (gs_GenerationID spec) \<noteq> Inr h \<Longrightarrow> gen_at t h = gen_at s h"
proof -
  have "nd_selection t = nd_selection s \<and> nd_efi t = nd_efi s \<and> nd_arm t = nd_arm s \<and> nd_paths t = nd_paths s \<and>
      (generation_key root (gs_GenerationID spec) \<noteq> Inr h \<longrightarrow> gen_at t h = gen_at s h)"
  proof (cases "generation_key root (gs_GenerationID spec)")
    case (Inl e)
    with assms show ?thesis by (auto simp: WriteGenerationStatus_def io_bind_def io_lift_def)
  next
    case (Inr g)
    with assms have "withGenLock g (writeStatusRecord env g spec status) s = (r, t)"
      by (simp add: WriteGenerationStatus_key)
    then show ?thesis
    proof (cases rule: withGenLock_cases)
      case (1 e)
      with Inr show ?thesis by (auto simp: only_faults_def gen_at_upd)
    next
      case (2 fs)
      from writeStatusRecord_effect [OF this] Inr show ?thesis
        by (auto simp: only_faults_def gen_at_upd)
    qed
  qed
  then show "nd_selection t = nd_selection s" "nd_efi t = nd_efi s" "nd_arm t = nd_arm s" "nd_paths t = nd_paths s"
    "generation_key root (gs_GenerationID spec) \<noteq> Inr h \<Longrightarrow> gen_at t h = gen_at s h" by auto
qed

lemma WriteGenerationStatus_reads_back:
  assumes r: "ReadGeneration env root raw s = Inr (spec, status0)"
    and split: "gd_spec (gen_at s (TrimSpace raw)) \<noteq> NoFile"
    and w: "WriteGenerationStatus env root spec status s = (Inr u, t)"
  shows "ReadGeneration env root raw t = Inr (spec, status)"
proof -
  from r obtain g where k: "generation_key root raw = Inr g" and rs: "ReadSplitRecords env g s = Inr (spec, status0)"
    by (auto simp: ReadGeneration_Inr)
  then have g: "g = TrimSpace raw" by (auto simp: generation_key_Inr cleanSegment_Inr)
  with split rs have f: "gd_spec (gen_at s g) = File spec" "g = gs_GenerationID spec"
    by (auto simp: ReadSplitRecords_split)
  from WriteGenerationStatus_success [OF w] k f obtain fs where
      v: "ValidateGenerationStatus env spec status = None"
      and t: "t = upd_gen g (\<lambda>d. d\<lparr>gd_status := File status\<rparr>) (upd_gen g (\<lambda>d. d) (s\<lparr>nd_faults := fs\<rparr>))"
    by (auto simp: generation_key_Inr cleanSegment_Inr)
  have "ReadSplitRecords env g t = Inr (spec, status)"
    using f v unfolding t by (subst ReadSplitRecords_split) (auto simp: gen_at_upd)
  with k show ?thesis by (auto simp: ReadGeneration_Inr)
qed

text \<open>For a legacy generation the new status is stored but never read.\<close>

lemma legacy_status_write_lost:
  assumes "gd_spec (gen_at s (TrimSpace raw)) = NoFile"
    and "ReadGeneration env root raw s = Inr (spec, status0)"
    and w: "WriteGenerationStatus env root spec status s = (Inr u, t)"
  shows "ReadGeneration env root raw t = Inr (spec, status0)"
proof -
  from assms(2) obtain g where k: "generation_key root raw = Inr g" and rs: "ReadSplitRecords env g s = Inr (spec, status0)"
    by (auto simp: ReadGeneration_Inr)
  then have g: "g = TrimSpace raw" by (auto simp: generation_key_Inr cleanSegment_Inr)
  from WriteGenerationStatus_success [OF w] obtain h fs where
      t: "t = upd_gen h (\<lambda>d. d\<lparr>gd_status := File status\<rparr>) (upd_gen h (\<lambda>d. d) (s\<lparr>nd_faults := fs\<rparr>))" by blast
  have "gd_spec (gen_at t g) = NoFile" "gd_metadata (gen_at t g) = gd_metadata (gen_at s g)"
    using assms(1) g by (auto simp: t gen_at_upd)
  then have "ReadSplitRecords env g t = Inr (spec, status0)"
    using rs assms(1) g by (simp add: ReadSplitRecords_legacy)
  with k show ?thesis by (auto simp: ReadGeneration_Inr)
qed


section \<open>Interrupted publication\<close>

text \<open>The stages of a publication that started from an empty directory.\<close>

definition stage_of :: "env \<Rightarrow> GenerationSpec \<Rightarrow> GenerationStatus \<Rightarrow> gen_dir \<Rightarrow> bool" where
  "stage_of env spec status d \<longleftrightarrow>
     gd_spec d = NoFile \<and> gd_status d = NoFile \<or>
     gd_spec d = File spec \<and> gd_status d \<in> {NoFile, File (stamped env spec status)}"

lemma publish_stage:
  assumes "stage_of env spec status (gen_at s g)" "publish env g spec status s = (r, t)"
  shows "stage_of env spec status (gen_at t g) \<and>
    (r = Inr () \<longrightarrow> gd_spec (gen_at t g) = File spec \<and> gd_status (gen_at t g) = File (stamped env spec status))"
proof -
  let ?d = "''sha256:'' @ en_spec_digest env spec"
  obtain r1 u where p: "publish_spec env g spec ?d s = (r1, u)" by fastforce
  have u: "stage_of env spec status (gen_at u g) \<and> (r1 = Inr () \<longrightarrow> gd_spec (gen_at u g) = File spec)"
    using publish_spec_effect [OF p]
  proof
    assume "only_faults s u \<and> ((\<exists>e. r1 = Inl e) \<or> (\<exists>old. gd_spec (gen_at s g) = File old \<and>
         ValidateGenerationSpec env old = None \<and> ''sha256:'' @ en_spec_digest env old = ?d \<and> r1 = Inr ()))"
    with assms(1) show ?thesis by (auto simp: only_faults_fields stage_of_def)
  next
    assume "gd_spec (gen_at s g) = NoFile \<and> gd_status (gen_at s g) = NoFile \<and>
         (\<exists>fs. u = upd_gen g (\<lambda>d. d\<lparr>gd_spec := File spec\<rparr>) (s\<lparr>nd_faults := fs\<rparr>))"
    then show ?thesis by (auto simp: stage_of_def gen_at_upd)
  qed
  show ?thesis
  proof (cases r1)
    case (Inl e)
    with assms(2) p u show ?thesis by (auto simp: publish_def io_then_def io_bind_def)
  next
    case (Inr x)
    with assms(2) p have q: "publish_status env g spec (stamped env spec status) u = (r, t)"
      by (simp add: publish_def io_then_def io_bind_def)
    from publish_status_effect [OF q] show ?thesis
    proof
      assume "only_faults u t \<and> ((\<exists>e. r = Inl e) \<or> (\<exists>old. gd_status (gen_at u g) = File old \<and>
           ValidateGenerationStatus env spec old = None \<and> r = Inr ()))"
      with u Inr show ?thesis by (auto simp: only_faults_fields stage_of_def)
    next
      assume "gd_status (gen_at u g) = NoFile \<and>
           (\<exists>fs. t = upd_gen g (\<lambda>d. d\<lparr>gd_status := File (stamped env spec status)\<rparr>) (u\<lparr>nd_faults := fs\<rparr>))"
      with u Inr show ?thesis by (auto simp: stage_of_def gen_at_upd)
    qed
  qed
qed

lemma publish_completes:
  assumes "stage_of env spec status (gen_at s g)" "nd_faults s = []"
    "ValidateGenerationStatus env spec (stamped env spec status) = None"
  shows "fst (publish env g spec status s) = Inr ()"
proof -
  note vs = valid_status_spec [OF assms(3)]
  have "\<exists>u. publish_spec env g spec (''sha256:'' @ en_spec_digest env spec) s = (Inr (), u) \<and> nd_faults u = [] \<and>
      gd_status (gen_at u g) = gd_status (gen_at s g)"
    using assms(1,2) vs
    by (auto simp: stage_of_def publish_spec_def io_bind_def io_get_def readGenerationSpecFile_def io_lift_def
        CanonicalSpecDigest_def io_reject_def io_need_def reject_def write_spec_def gen_at_upd)
  then obtain u where u: "publish_spec env g spec (''sha256:'' @ en_spec_digest env spec) s = (Inr (), u)"
      "nd_faults u = []" "gd_status (gen_at u g) = gd_status (gen_at s g)" by blast
  have "fst (publish_status env g spec (stamped env spec status) u) = Inr ()"
    using assms(1,3) u
    by (auto simp: stage_of_def publish_status_def io_bind_def io_get_def readGenerationStatusFile_def
        io_need_def write_status_def)
  with u(1) show ?thesis by (simp add: publish_def io_then_def io_bind_def)
qed

lemma WriteGeneration_valid_key:
  assumes "ValidateGenerationStatus env spec (stamped env spec status) = None" "TrimSpace root \<noteq> []"
    "PlanActivation env (RecordFromSplit spec status) = Inr p"
  shows "\<exists>g. cleanSegment ''generation id'' (gs_GenerationID spec) = Inr g \<and>
    WriteGeneration env root spec status = withGenLock g (publish env g spec status)"
proof -
  have vs: "ValidateGenerationSpec env spec = None" by (rule valid_status_spec [OF assms(1)])
  then obtain g where g: "cleanSegment ''generation id'' (gs_GenerationID spec) = Inr g"
    using valid_spec_id by blast
  then have "WriteGeneration env root spec status = WriteSplitRecords env g spec status"
    using assms(2) generation_key_Inr [of root "gs_GenerationID spec" g]
    by (simp add: WriteGeneration_def io_bind_def io_lift_def)
  also have "\<dots> = withGenLock g (publish env g spec status)"
  proof -
    define d where "d = ''sha256:'' @ en_spec_digest env spec"
    have "CanonicalSpecDigest env spec = Inr d" using vs by (simp add: CanonicalSpecDigest_Inr d_def)
    moreover have "stamped env spec status = (if st_SpecDigest status = [] then status\<lparr>st_SpecDigest := d\<rparr> else status)"
      by (simp add: stamped_def d_def)
    ultimately show ?thesis
      using assms(1,3) unfolding publish_def d_def [symmetric]
      by (simp add: WriteSplitRecords_def io_bind_def io_lift_def io_then_def io_need_def Let_def split: if_splits)
  qed
  finally show ?thesis using g by blast
qed

lemma WriteGeneration_retry:
  assumes v: "ValidateGenerationStatus env spec (stamped env spec status) = None" and root: "TrimSpace root \<noteq> []"
    and p: "PlanActivation env (RecordFromSplit spec status) = Inr p"
    and id: "trimmed (gs_GenerationID spec)"
    and fresh: "gd_spec (gen_at s (gs_GenerationID spec)) = NoFile" "gd_status (gen_at s (gs_GenerationID spec)) = NoFile"
    and first: "WriteGeneration env root spec status s = (r, t)"
  shows "\<exists>u. WriteGeneration env root spec status (t\<lparr>nd_faults := []\<rparr>) = (Inr (), u) \<and>
    ReadGeneration env root (gs_GenerationID spec) u = Inr (spec, stamped env spec status)"
proof -
  from WriteGeneration_valid_key [OF v root p] obtain g where
      g: "cleanSegment ''generation id'' (gs_GenerationID spec) = Inr g"
      and w: "WriteGeneration env root spec status = withGenLock g (publish env g spec status)" by blast
  have gid: "g = gs_GenerationID spec" using g id by (simp add: cleanSegment_Inr trimmed_iff)
  have st: "stage_of env spec status (gen_at s g)" using fresh by (simp add: stage_of_def gid)
  from first [unfolded w] have t: "stage_of env spec status (gen_at t g)"
  proof (cases rule: withGenLock_cases)
    case (1 e)
    with st show ?thesis by (auto simp: only_faults_fields gen_at_upd)
  next
    case (2 fs)
    have "stage_of env spec status (gen_at (upd_gen g (\<lambda>d. d) (s\<lparr>nd_faults := fs\<rparr>)) g)"
      using st by (simp add: gen_at_upd)
    from publish_stage [OF this 2] show ?thesis by blast
  qed
  let ?t = "upd_gen g (\<lambda>d. d) (t\<lparr>nd_faults := []\<rparr>)"
  have t': "stage_of env spec status (gen_at ?t g)" using t by (simp add: gen_at_upd)
  have "nd_faults ?t = []" by simp
  from publish_completes [OF t' this v] obtain u where u: "publish env g spec status ?t = (Inr (), u)"
    by (cases "publish env g spec status ?t") simp
  then have "WriteGeneration env root spec status (t\<lparr>nd_faults := []\<rparr>) = (Inr (), u)"
    unfolding w by (simp add: withGenLock_def io_then_def io_bind_def)
  moreover have "ReadSplitRecords env g u = Inr (spec, stamped env spec status)"
    using publish_stage [OF t' u] v gid by (subst ReadSplitRecords_split) auto
  ultimately show ?thesis
    using g root gid by (auto simp: ReadGeneration_Inr generation_key_Inr)
qed

section \<open>The upgrade handoff\<close>

lemma WriteUpgradeHandoff_reads_back:
  assumes "WriteUpgradeHandoff root r s = (Inr u, t)"
  shows "ReadUpgradeHandoff root (uh_CandidateGenerationID r) t = Inr r"
proof -
  from assms obtain g where valid: "validateUpgradeHandoff r = None"
      and key: "handoff_key root (uh_CandidateGenerationID r) = Inr g"
      and w: "syscall (\<lambda>s. s\<lparr>nd_handoffs := AList.update g (File r) (nd_handoffs s)\<rparr>) s = (Inr u, t)"
    by (auto simp: WriteUpgradeHandoff_def io_run)
  from syscall_Inr [OF w] have "handoff_at t g = File r" by (auto simp: handoff_at_def update_conv)
  with valid key show ?thesis by (simp add: ReadUpgradeHandoff_def)
qed

end
