(* ===== verification/BootHealth.thy ===== *)
theory BootHealth
  imports StoreFacts
begin

text \<open>
  Boot health (\<^verbatim>\<open>internal/generation/boot_health.go\<close>) and the authorization of an automatic recovery reboot
  (\<^verbatim>\<open>boot_recovery.go\<close>): recording the booted generation, promoting a healthy boot or a live activation,
  and falling back from a failed boot. The operations are computations on the node; the firmware setters
  and the clock are parameters.
\<close>

section \<open>Requests and results\<close>

record BootHealthRequest =
  hq_Root :: string
  hq_GenerationID :: string
  hq_CommandLine :: string
  hq_Result :: string
  hq_Reason :: string
  hq_Now :: time
  hq_RequestReboot :: bool
  hq_ForceFailure :: bool
  hq_SetBootDefault :: "BootDefaultSetter option"

record BootHealthResult =
  hr_GenerationID :: string
  hr_Result :: string
  hr_Promoted :: bool
  hr_Failed :: bool
  hr_RebootRequested :: bool
  hr_RecoveryRequired :: bool
  hr_DefaultGeneration :: string
  hr_BootDefaultEntry :: string
  hr_BootDefaultSet :: bool

record LivePromotionRequest =
  lp_Root :: string
  lp_GenerationID :: string
  lp_OperationID :: string
  lp_Reason :: string
  lp_Now :: time
  lp_SetBootDefault :: "BootDefaultSetter option"
  lp_SetBootOneshot :: "BootDefaultSetter option"

definition BootHealthSuccess :: string where "BootHealthSuccess = ''success''"
definition BootHealthFailure :: string where "BootHealthFailure = ''failure''"
definition BootHealthTimeout :: string where "BootHealthTimeout = ''timeout''"

section \<open>Helpers\<close>

definition cleanRoot :: "string \<Rightarrow> string" where
  "cleanRoot root = (if TrimSpace root = [] then ''/'' else root)"

definition transitionReason :: "string \<Rightarrow> string \<Rightarrow> string" where
  "transitionReason value fallback = (if TrimSpace value = [] then fallback else TrimSpace value)"

fun firstNonEmptyBootGeneration :: "string list \<Rightarrow> string" where
  "firstNonEmptyBootGeneration [] = ''<missing>''"
| "firstNonEmptyBootGeneration (v # vs) =
     (if TrimSpace v \<noteq> [] then TrimSpace v else firstNonEmptyBootGeneration vs)"

fun root_part_uuid_from :: "string list \<Rightarrow> string res" where
  "root_part_uuid_from [] = fail ''kernel command line missing root=PARTUUID'' []"
| "root_part_uuid_from (field # rest) =
     (case CutPrefix field ''root=PARTUUID='' of
        None \<Rightarrow> root_part_uuid_from rest
      | Some value \<Rightarrow>
          if TrimSpace value = [] then fail ''root PARTUUID is empty'' [] else Inr (TrimSpace value))"

definition SelectedRootPartUUIDFromCommandLine :: "string \<Rightarrow> string res" where
  "SelectedRootPartUUIDFromCommandLine commandLine = root_part_uuid_from (Fields commandLine)"

definition isManualKnownGoodFallback :: "BootSelectionRecord \<Rightarrow> string \<Rightarrow> bool" where
  "isManualKnownGoodFallback b g \<longleftrightarrow>
     \<not> bs_PendingHealthValidation b \<and> g \<noteq> [] \<and> g \<noteq> TrimSpace (bs_DefaultGenerationID b) \<and>
     g = TrimSpace (bs_PreviousKnownGoodGenerationID b)"

definition isFallbackRecovery :: "BootSelectionRecord \<Rightarrow> string \<Rightarrow> bool" where
  "isFallbackRecovery b g \<longleftrightarrow>
     isManualKnownGoodFallback b g \<or>
     (\<not> bs_PendingHealthValidation b \<and> TrimSpace (bs_FailedBootGenerationID b) \<noteq> [] \<and>
      g \<noteq> TrimSpace (bs_FailedBootGenerationID b) \<and> g = TrimSpace (bs_DefaultGenerationID b) \<and>
      g = TrimSpace (bs_PreviousKnownGoodGenerationID b)) \<or>
     (\<not> bs_PendingHealthValidation b \<and> g \<noteq> [] \<and> g \<noteq> TrimSpace (bs_DefaultGenerationID b) \<and>
      g = TrimSpace (bs_BootedGenerationID b) \<and> g = TrimSpace (bs_FailedBootGenerationID b))"

definition infer_entry :: "BootSelectionRecord \<Rightarrow> GenerationSpec \<Rightarrow> string \<Rightarrow> BootSelectionRecord" where
  "infer_entry b spec g =
     b\<lparr>bs_BootedGenerationID := g,
       bs_BootedBootEntry :=
         (if g = TrimSpace (bs_TrialGenerationID b) \<and> TrimSpace (bs_TrialBootEntry b) \<noteq> []
          then TrimSpace (bs_TrialBootEntry b)
          else if g = TrimSpace (bs_TargetBootGenerationID b) \<and> TrimSpace (bs_TargetBootEntry b) \<noteq> []
          then TrimSpace (bs_TargetBootEntry b)
          else TrimSpace (bt_LoaderEntryPath (gs_Boot spec)))\<rparr>"

definition inferBootedSelection ::
  "BootSelectionRecord \<Rightarrow> GenerationSpec \<Rightarrow> string \<Rightarrow> string \<Rightarrow> BootSelectionRecord" where
  "inferBootedSelection b spec g commandLine =
     (if SelectedGenerationFromCommandLine commandLine \<noteq> Inr g then b
      else if bs_PendingHealthValidation b then
        if g \<noteq> TrimSpace (bs_TrialGenerationID b) \<and> g \<noteq> TrimSpace (bs_TargetBootGenerationID b) then b
        else infer_entry b spec g
      else if g = bs_TargetBootGenerationID b \<or> g = bs_DefaultGenerationID b \<and> bs_OneShot b then
        b\<lparr>bs_BootedGenerationID := g, bs_BootedBootEntry := bt_LoaderEntryPath (gs_Boot spec)\<rparr>
      else if isManualKnownGoodFallback b g then
        b\<lparr>bs_BootedGenerationID := g, bs_BootedBootEntry := TrimSpace (bt_LoaderEntryPath (gs_Boot spec))\<rparr>
      else if g = TrimSpace (bs_ActiveGenerationID b) \<and> g = TrimSpace (bs_DefaultGenerationID b) \<and>
              g \<noteq> TrimSpace (bs_BootedGenerationID b) then
        b\<lparr>bs_BootedGenerationID := g, bs_BootedBootEntry := TrimSpace (bt_LoaderEntryPath (gs_Boot spec))\<rparr>
      else if TrimSpace (bs_FailedBootGenerationID b) = [] \<or> g \<noteq> TrimSpace (bs_DefaultGenerationID b) \<or>
              TrimSpace (bs_BootedGenerationID b) \<noteq> TrimSpace (bs_FailedBootGenerationID b) then b
      else infer_entry b spec g)"

definition validateBootedSelection ::
  "BootSelectionRecord \<Rightarrow> GenerationSpec \<Rightarrow> string \<Rightarrow> string \<Rightarrow> error" where
  "validateBootedSelection b spec g commandLine =
     first_error
       [reject (bs_PendingHealthValidation b \<and> g \<noteq> TrimSpace (bs_TargetBootGenerationID b) \<and>
                g \<noteq> TrimSpace (bs_TrialGenerationID b))
          ''selected generation %s does not match pending boot target %s''
          [g, firstNonEmptyBootGeneration [TrimSpace (bs_TargetBootGenerationID b), TrimSpace (bs_TrialGenerationID b)]],
        reject (TrimSpace (bs_BootedGenerationID b) = []) ''bootedGenerationID is required for boot health'' [],
        reject (TrimSpace (bs_BootedGenerationID b) \<noteq> g)
          ''bootedGenerationID %s does not match selected generation %s'' [bs_BootedGenerationID b, g],
        (case SelectedGenerationFromCommandLine commandLine of
           Inl e \<Rightarrow> Some e
         | Inr cmdlineGeneration \<Rightarrow>
             reject (cmdlineGeneration \<noteq> g)
               ''kernel command line generation %s does not match selected generation %s'' [cmdlineGeneration, g]),
        (case SelectedRootPartUUIDFromCommandLine commandLine of
           Inl e \<Rightarrow> Some e
         | Inr rootUUID \<Rightarrow>
             reject (\<not> EqualFold rootUUID (rs_PartitionUUID (gs_Root spec)))
               ''kernel command line root PARTUUID %s does not match generation root PARTUUID %s''
               [rootUUID, rs_PartitionUUID (gs_Root spec)]),
        reject (TrimSpace (bs_BootedBootEntry b) = []) ''bootedBootEntry is required for boot health'' [],
        reject (TrimSpace (bt_LoaderEntryPath (gs_Boot spec)) = [])
          ''generation %s loaderEntryPath is required for boot health'' [g],
        reject (TrimSpace (bs_BootedBootEntry b) \<noteq> bt_LoaderEntryPath (gs_Boot spec))
          ''bootedBootEntry %s does not match generation loader entry %s''
          [TrimSpace (bs_BootedBootEntry b), bt_LoaderEntryPath (gs_Boot spec)]]"

definition validRollbackTarget :: "env \<Rightarrow> string \<Rightarrow> string \<Rightarrow> node \<Rightarrow> bool" where
  "validRollbackTarget env root g s =
     (case ReadGeneration env root g s of Inl _ \<Rightarrow> False | Inr (spec, status) \<Rightarrow> IsKnownGood status)"

definition transition_of :: "time \<Rightarrow> string \<Rightarrow> string \<Rightarrow> GenerationStatus \<Rightarrow> StatusTransition" where
  "transition_of at operationID reason status =
     \<lparr>tr_At = at, tr_OperationID = operationID, tr_Reason = reason, tr_CommitState = st_CommitState status,
      tr_BootState = st_BootState status, tr_HealthState = st_HealthState status\<rparr>"

definition superseded_status :: "time \<Rightarrow> string \<Rightarrow> GenerationStatus \<Rightarrow> GenerationStatus" where
  "superseded_status now replacementID status =
     (let st = status\<lparr>st_CommitState := CommitStateSuperseded, st_UpdatedAt := now\<rparr>
      in st\<lparr>st_StatusTransitions := st_StatusTransitions st @
              [transition_of now [] (''superseded by known-good generation '' @ replacementID) st]\<rparr>)"

definition supersedePreviousGeneration :: "env \<Rightarrow> string \<Rightarrow> string \<Rightarrow> string \<Rightarrow> time \<Rightarrow> (node, unit) io" where
  "supersedePreviousGeneration env root previousID replacementID now =
     io_bind (io_get (ReadGeneration env root previousID)) (\<lambda>r.
     io_bind (io_lift r) (\<lambda>(spec, status).
       if st_CommitState status \<noteq> CommitStateCommitted then io_ok ()
       else WriteGenerationStatus env root spec (superseded_status now replacementID status)))"

section \<open>Recovery authorization\<close>

text \<open>The path below the node's root that \<open>rootedPathUnchecked\<close> resolves.\<close>

definition rootedPathUnchecked :: "string \<Rightarrow> string" where
  "rootedPathUnchecked absolutePath = Clean (CHR ''/'' # TrimPrefix absolutePath ''/'')"

definition stat_ok :: "node \<Rightarrow> string \<Rightarrow> bool" where
  "stat_ok s p \<longleftrightarrow> rootedPathUnchecked p \<in> set (nd_paths s)"

definition validBootRecoveryTarget :: "env \<Rightarrow> string \<Rightarrow> BootSelectionRecord \<Rightarrow> string \<Rightarrow> node \<Rightarrow> bool" where
  "validBootRecoveryTarget env root b g s =
     (case ReadGeneration env root g s of
        Inl _ \<Rightarrow> False
      | Inr (spec, status) \<Rightarrow>
          let entry0 = TrimSpace (bs_PreviousKnownGoodBootEntry b);
              entry = (if entry0 = [] \<and> TrimSpace (bs_DefaultGenerationID b) = g
                       then TrimSpace (bs_DefaultBootEntry b) else entry0)
          in IsKnownGood status \<and> entry \<noteq> [] \<and> entry = TrimSpace (bt_LoaderEntryPath (gs_Boot spec)) \<and>
             stat_ok s (PathJoin [''/efi'', entry]) \<and>
             stat_ok s (PathJoin [''/efi'', entryPath (bt_UKIPath (gs_Boot spec))]))"

definition ClearBootRecovery :: "(node, unit) io" where
  "ClearBootRecovery =
     io_bind (io_get nd_arm) (\<lambda>arm.
       if arm = NoFile then io_ok ()
       else io_wrap ''clear boot recovery authorization: %w'' [] (syscall (\<lambda>s. s\<lparr>nd_arm := NoFile\<rparr>)))"

definition ArmBootRecovery :: "env \<Rightarrow> string \<Rightarrow> string \<Rightarrow> (node, bool) io" where
  "ArmBootRecovery env rawRoot rawGeneration =
     (let root = cleanRoot rawRoot; g = TrimSpace rawGeneration in
      if g = [] then io_fail ''generationID is required to arm boot recovery'' []
      else withBootLock
        (io_then ClearBootRecovery
        (io_bind (io_get (ReadBootSelection root)) (\<lambda>r.
           case r of
             Inl e \<Rightarrow> if isErrNotExist e then io_ok False else io_err e
           | Inr b \<Rightarrow>
               if \<not> bs_PendingHealthValidation b \<or>
                  (g \<noteq> TrimSpace (bs_TrialGenerationID b) \<and> g \<noteq> TrimSpace (bs_TargetBootGenerationID b))
               then io_ok False
               else io_bind (io_get (\<lambda>s. s)) (\<lambda>s.
                 let fallbackID = TrimSpace (bs_PreviousKnownGoodGenerationID b) in
                 if fallbackID = [] \<or> fallbackID = g \<or> \<not> validBootRecoveryTarget env root b fallbackID s
                 then io_ok False
                 else io_then
                   (io_wrap ''arm boot recovery: %w'' []
                      (syscall (\<lambda>s. s\<lparr>nd_arm := File \<lparr>ba_TrialGeneration = g, ba_FallbackGeneration = fallbackID\<rparr>\<rparr>)))
                   (io_ok True))))))"

definition bootRecoveryArmed :: "env \<Rightarrow> string \<Rightarrow> string \<Rightarrow> node \<Rightarrow> bool res" where
  "bootRecoveryArmed env rawRoot generationID s =
     (let root = cleanRoot rawRoot in
      case nd_arm s of
        NoFile \<Rightarrow> Inr False
      | BadFile \<Rightarrow> fail ''decode boot recovery authorization: %w'' []
      | File arm \<Rightarrow>
          let trialID = TrimSpace (ba_TrialGeneration arm); fallbackID = TrimSpace (ba_FallbackGeneration arm) in
          if trialID \<noteq> TrimSpace generationID \<or> fallbackID = [] \<or> fallbackID = trialID then Inr False
          else res_bind (ReadBootSelection root s) (\<lambda>b.
            if TrimSpace (bs_PreviousKnownGoodGenerationID b) \<noteq> fallbackID then Inr False
            else Inr (validBootRecoveryTarget env root b fallbackID s)))"


section \<open>Recording the booted generation\<close>

definition RecordBootedGeneration :: "env \<Rightarrow> string \<Rightarrow> string \<Rightarrow> (node, unit) io" where
  "RecordBootedGeneration env rawRoot commandLine =
     (let root = cleanRoot rawRoot in
      withBootLock
        (io_bind (io_get (ReadBootSelection root)) (\<lambda>r.
           case r of
             Inl e \<Rightarrow> if isErrNotExist e then io_ok () else io_err e
           | Inr selection \<Rightarrow>
               io_bind (io_lift (SelectedGenerationFromCommandLine commandLine)) (\<lambda>g.
               io_bind (io_get (ReadGeneration env root g)) (\<lambda>gr.
               io_bind (io_lift gr) (\<lambda>(spec, status).
                 let observed = inferBootedSelection selection spec g commandLine in
                 io_then (io_need (validateBootedSelection observed spec g commandLine))
                   (if bs_BootedGenerationID observed = bs_BootedGenerationID selection \<and>
                       bs_BootedBootEntry observed = bs_BootedBootEntry selection then io_ok ()
                    else WriteBootSelection root (observed\<lparr>bs_UpdatedAt := en_now env\<rparr>))))))))"

section \<open>Promotion of a booted generation\<close>

definition health_result :: "string \<Rightarrow> string \<Rightarrow> string \<Rightarrow> string \<Rightarrow> BootHealthResult" where
  "health_result g result defaultGeneration entry =
     \<lparr>hr_GenerationID = g, hr_Result = result, hr_Promoted = False, hr_Failed = False,
      hr_RebootRequested = False, hr_RecoveryRequired = False, hr_DefaultGeneration = defaultGeneration,
      hr_BootDefaultEntry = entry, hr_BootDefaultSet = False\<rparr>"

definition next_default_entry :: "BootSelectionRecord \<Rightarrow> GenerationSpec \<Rightarrow> bool \<Rightarrow> bool \<Rightarrow> string" where
  "next_default_entry b spec temporary fallbackRecovery =
     (if temporary then TrimSpace (bs_DefaultBootEntry b)
      else if TrimSpace (bs_TargetBootEntry b) \<noteq> [] then TrimSpace (bs_TargetBootEntry b)
      else if TrimSpace (bs_TrialBootEntry b) \<noteq> [] then TrimSpace (bs_TrialBootEntry b)
      else if fallbackRecovery then TrimSpace (bt_LoaderEntryPath (gs_Boot spec))
      else TrimSpace (bs_DefaultBootEntry b))"

definition healthy_status :: "time \<Rightarrow> string \<Rightarrow> GenerationStatus \<Rightarrow> GenerationStatus" where
  "healthy_status now reason status =
     (let st = status\<lparr>st_CommitState := CommitStateCommitted, st_BootState := BootStateGood,
                      st_HealthState := HealthStateHealthy, st_UpdatedAt := now\<rparr>
      in st\<lparr>st_StatusTransitions := st_StatusTransitions st @
              [transition_of now [] (transitionReason reason ''katl boot health succeeded'') st]\<rparr>)"

definition promoted_selection :: "BootSelectionRecord \<Rightarrow> string \<Rightarrow> bool \<Rightarrow> string \<Rightarrow> BootSelectionRecord" where
  "promoted_selection b g temporary entry =
     (if temporary then b else b\<lparr>bs_DefaultGenerationID := g, bs_OneShot := False\<rparr>)
       \<lparr>bs_TargetBootGenerationID := [], bs_TrialGenerationID := [], bs_BootedGenerationID := g,
        bs_ActiveGenerationID := g, bs_PendingTransactionID := [], bs_PendingHealthValidation := False,
        bs_PersistentDefaultPromotion := DefaultPromotionDone, bs_FailedBootGenerationID := [],
        bs_RecoveryRequired := False, bs_DefaultBootEntry := entry, bs_TargetBootEntry := [],
        bs_TrialBootEntry := [], bs_BootCountedTrialPath := []\<rparr>"

definition set_default_entry :: "BootDefaultSetter option \<Rightarrow> string \<Rightarrow> string \<Rightarrow> (node, unit) io" where
  "set_default_entry setter root entry =
     (case setter of
        None \<Rightarrow> io_fail ''boot default update required for %s but no updater is configured'' [entry]
      | Some f \<Rightarrow> io_wrap ''set boot default %s: %w'' [entry] (call_setter f root entry))"

text \<open>The selection a promotion records.\<close>

definition promotion_final ::
  "BootSelectionRecord \<Rightarrow> string \<Rightarrow> bool \<Rightarrow> bool \<Rightarrow> string \<Rightarrow> time \<Rightarrow> BootSelectionRecord" where
  "promotion_final selection g temporary fallbackRecovery entry now =
     (let previousID = TrimSpace (bs_DefaultGenerationID selection);
          promoted = promoted_selection selection g temporary entry;
          replaced = (\<not> temporary \<and> previousID \<noteq> [] \<and> previousID \<noteq> g);
          recorded = (if replaced \<and> \<not> fallbackRecovery
            then promoted\<lparr>bs_PreviousKnownGoodGenerationID := previousID,
                          bs_PreviousKnownGoodBootEntry := TrimSpace (bs_DefaultBootEntry selection)\<rparr>
            else promoted)
      in (if fallbackRecovery
          then recorded\<lparr>bs_PreviousKnownGoodGenerationID := [], bs_PreviousKnownGoodBootEntry := []\<rparr>
          else recorded)\<lparr>bs_UpdatedAt := now\<rparr>)"

text \<open>The part of a promotion that follows the checks.\<close>

definition promote_commit ::
  "env \<Rightarrow> BootHealthRequest \<Rightarrow> string \<Rightarrow> time \<Rightarrow> GenerationSpec \<Rightarrow> GenerationStatus \<Rightarrow>
   BootSelectionRecord \<Rightarrow> bool \<Rightarrow> bool \<Rightarrow> (node, BootHealthResult) io" where
  "promote_commit env request g now spec status selection temporary fallbackRecovery =
     (let root = cleanRoot (hq_Root request);
          previousID = TrimSpace (bs_DefaultGenerationID selection);
          entry = next_default_entry selection spec temporary fallbackRecovery;
          bootDefaultSet = (entry \<noteq> [] \<and> TrimSpace (bs_DefaultBootEntry selection) \<noteq> entry);
          final = promotion_final selection g temporary fallbackRecovery entry now
      in
      io_then (io_when bootDefaultSet (set_default_entry (hq_SetBootDefault request) root entry))
      (io_then (io_when (st_CommitState status \<noteq> CommitStateCommitted \<or> st_BootState status \<noteq> BootStateGood \<or>
                         st_HealthState status \<noteq> HealthStateHealthy)
                 (WriteGenerationStatus env root spec (healthy_status now (hq_Reason request) status)))
      (io_then (io_when (\<not> temporary \<and> previousID \<noteq> [] \<and> previousID \<noteq> g)
                 (supersedePreviousGeneration env root previousID g now))
      (io_then (WriteBootSelection root final)
        (io_ok ((health_result g BootHealthSuccess (bs_DefaultGenerationID final) (bs_DefaultBootEntry final))
           \<lparr>hr_Promoted := \<not> temporary, hr_BootDefaultSet := bootDefaultSet\<rparr>))))))"

definition promoteBootedGeneration ::
  "env \<Rightarrow> BootHealthRequest \<Rightarrow> string \<Rightarrow> time \<Rightarrow> (node, BootHealthResult) io" where
  "promoteBootedGeneration env request g now =
     (let root = cleanRoot (hq_Root request) in
      io_bind (io_get (ReadBootSelection root)) (\<lambda>sr.
      io_bind (io_lift sr) (\<lambda>selection0.
      io_bind (io_get (ReadGeneration env root g)) (\<lambda>gr.
      io_bind (io_lift gr) (\<lambda>(spec, status).
      io_then (io_reject (st_UnavailableReason status \<noteq> []) ''generation %s cannot boot: %s'' [g, st_UnavailableReason status])
      (if \<not> bs_PendingHealthValidation selection0 \<and> bs_TargetBootGenerationID selection0 \<noteq> [] \<and>
          bs_TargetBootGenerationID selection0 \<noteq> g \<and> g = bs_BootedGenerationID selection0 \<and> IsKnownGood status
       then io_then (io_need (validateBootedSelection selection0 spec g (hq_CommandLine request)))
              (io_ok (health_result g BootHealthSuccess (bs_DefaultGenerationID selection0) (bs_DefaultBootEntry selection0)))
       else
         let temporary = (bs_OneShot selection0 \<and> g \<noteq> bs_DefaultGenerationID selection0);
             selection = inferBootedSelection selection0 spec g (hq_CommandLine request)
         in
         io_then (io_need (validateBootedSelection selection spec g (hq_CommandLine request)))
         (io_then (io_reject (st_CommitState status \<noteq> CommitStateCommitted \<and> st_CommitState status \<noteq> CommitStateSuperseded)
                     ''generation %s commitState %s cannot be promoted'' [g, st_CommitState status])
           (promote_commit env request g now spec status selection temporary (isFallbackRecovery selection0 g)))))))))"

section \<open>Failure of a booted generation\<close>

definition failed_status :: "time \<Rightarrow> string \<Rightarrow> GenerationStatus \<Rightarrow> GenerationStatus" where
  "failed_status now reason status =
     (let st = status\<lparr>st_BootState := BootStateFailed, st_HealthState := HealthStateUnhealthy, st_UpdatedAt := now\<rparr>
      in st\<lparr>st_StatusTransitions := st_StatusTransitions st @
              [transition_of now [] (transitionReason reason ''katl boot health failed'') st]\<rparr>)"

text \<open>The fallback candidate and the selection up to the check of the candidate.\<close>

definition fallback_candidate :: "BootSelectionRecord \<Rightarrow> string \<Rightarrow> string \<times> BootSelectionRecord" where
  "fallback_candidate b g =
     (let previous0 = TrimSpace (bs_PreviousKnownGoodGenerationID b);
          oneshot = (bs_OneShot b \<and> bs_DefaultGenerationID b \<noteq> g);
          previous1 = (if oneshot then bs_DefaultGenerationID b else previous0);
          b1 = (if oneshot
                then b\<lparr>bs_PreviousKnownGoodGenerationID := bs_DefaultGenerationID b,
                       bs_PreviousKnownGoodBootEntry := bs_DefaultBootEntry b\<rparr>
                else b)\<lparr>bs_OneShot := False\<rparr>;
          previous2 = (if previous1 = [] \<and> bs_DefaultGenerationID b1 \<noteq> g
                       then TrimSpace (bs_DefaultGenerationID b1) else previous1)
      in (previous2, b1))"

definition failed_selection ::
  "BootSelectionRecord \<Rightarrow> string \<Rightarrow> string \<Rightarrow> time \<Rightarrow> BootSelectionRecord" where
  "failed_selection b previousID g now =
     (let b1 = b\<lparr>bs_FailedBootGenerationID := g, bs_TargetBootGenerationID := [], bs_TrialGenerationID := [],
                 bs_TargetBootEntry := [], bs_TrialBootEntry := [], bs_PendingTransactionID := [],
                 bs_PendingHealthValidation := False, bs_PersistentDefaultPromotion := [],
                 bs_BootCountedTrialPath := []\<rparr>;
          b2 = (if previousID \<noteq> []
                then b1\<lparr>bs_DefaultGenerationID := previousID, bs_RecoveryRequired := False,
                        bs_DefaultBootEntry :=
                          (if TrimSpace (bs_PreviousKnownGoodBootEntry b1) \<noteq> []
                           then bs_PreviousKnownGoodBootEntry b1 else bs_DefaultBootEntry b1)\<rparr>
                else b1\<lparr>bs_RecoveryRequired := True\<rparr>)
      in b2\<lparr>bs_UpdatedAt := now\<rparr>)"

text \<open>The rest of a failure report once the status is written; \<open>usable\<close> is the check of the candidate.\<close>

definition fail_commit ::
  "BootHealthRequest \<Rightarrow> string \<Rightarrow> time \<Rightarrow> BootSelectionRecord \<Rightarrow> bool \<Rightarrow> string \<Rightarrow> BootSelectionRecord \<Rightarrow> bool \<Rightarrow>
   (node, BootHealthResult) io" where
  "fail_commit request g now selection recoveryArmed candidate b1 usable =
     (let root = cleanRoot (hq_Root request);
          previousID = (if candidate \<noteq> [] \<and> \<not> usable then [] else candidate);
          b2 = (if candidate \<noteq> [] \<and> \<not> usable
                then b1\<lparr>bs_PreviousKnownGoodGenerationID := [], bs_PreviousKnownGoodBootEntry := []\<rparr> else b1);
          final = failed_selection b2 previousID g now;
          moved = (\<not> bs_RecoveryRequired final \<and> bs_DefaultBootEntry final \<noteq> bs_DefaultBootEntry selection);
          rebootRequested = (hq_RequestReboot request \<and> recoveryArmed \<and> \<not> bs_RecoveryRequired final)
      in
      io_then (io_when moved
                 (case hq_SetBootDefault request of
                    None \<Rightarrow> io_fail ''boot default updater required for recovery'' []
                  | Some f \<Rightarrow> call_setter f root (bs_DefaultBootEntry final)))
      (io_then (io_when rebootRequested ClearBootRecovery)
      (io_then (WriteBootSelection root final)
        (io_ok ((health_result g (hq_Result request) (bs_DefaultGenerationID final) (bs_DefaultBootEntry final))
           \<lparr>hr_Failed := True, hr_RebootRequested := rebootRequested,
            hr_RecoveryRequired := bs_RecoveryRequired final\<rparr>)))))"

definition fail_fallback ::
  "env \<Rightarrow> BootHealthRequest \<Rightarrow> string \<Rightarrow> time \<Rightarrow> BootSelectionRecord \<Rightarrow> bool \<Rightarrow> (node, BootHealthResult) io" where
  "fail_fallback env request g now selection recoveryArmed =
     (case fallback_candidate selection g of (candidate, b1) \<Rightarrow>
      io_bind (io_get (validRollbackTarget env (cleanRoot (hq_Root request)) candidate))
        (fail_commit request g now selection recoveryArmed candidate b1))"

definition failBootedGeneration ::
  "env \<Rightarrow> BootHealthRequest \<Rightarrow> string \<Rightarrow> time \<Rightarrow> (node, BootHealthResult) io" where
  "failBootedGeneration env request g now =
     (let root = cleanRoot (hq_Root request) in
      io_bind (io_get (bootRecoveryArmed env root g)) (\<lambda>ar.
      io_bind (io_lift ar) (\<lambda>recoveryArmed.
      io_bind (io_get (ReadBootSelection root)) (\<lambda>sr.
      io_bind (io_lift sr) (\<lambda>selection0.
      io_bind (io_get (ReadGeneration env root g)) (\<lambda>gr.
      io_bind (io_lift gr) (\<lambda>(spec, status).
      let selection = inferBootedSelection selection0 spec g (hq_CommandLine request) in
      io_then (io_need (validateBootedSelection selection spec g (hq_CommandLine request)))
      (if st_BootState status = BootStateGood \<and> st_HealthState status = HealthStateHealthy \<and>
          \<not> hq_ForceFailure request \<and> bs_TargetBootGenerationID selection \<noteq> g
       then io_ok (health_result g (hq_Result request) (TrimSpace (bs_DefaultGenerationID selection))
                     (TrimSpace (bs_DefaultBootEntry selection)))
       else
         io_then (io_when (st_BootState status \<noteq> BootStateFailed \<or> st_HealthState status \<noteq> HealthStateUnhealthy)
                    (WriteGenerationStatus env root spec (failed_status now (hq_Reason request) status)))
           (fail_fallback env request g now selection recoveryArmed)))))))))"

definition recordBootHealth :: "env \<Rightarrow> BootHealthRequest \<Rightarrow> (node, BootHealthResult) io" where
  "recordBootHealth env request =
     (let now = nonzeroUTC (en_now env) (hq_Now request) in
      io_bind (if TrimSpace (hq_GenerationID request) = []
               then io_lift (SelectedGenerationFromCommandLine (hq_CommandLine request))
               else io_ok (TrimSpace (hq_GenerationID request))) (\<lambda>g.
      io_then (io_reject (TrimSpace (hq_CommandLine request) = []) ''boot health requires kernel command line evidence'' [])
      (if TrimSpace (hq_Result request) = BootHealthSuccess then promoteBootedGeneration env request g now
       else if TrimSpace (hq_Result request) = BootHealthFailure \<or> TrimSpace (hq_Result request) = BootHealthTimeout
       then failBootedGeneration env request g now
       else io_fail ''boot health result must be success, failure, or timeout'' [])))"

definition RecordBootHealth :: "env \<Rightarrow> BootHealthRequest \<Rightarrow> (node, BootHealthResult) io" where
  "RecordBootHealth env request = withBootLock (recordBootHealth env request)"


section \<open>Promotion of a live activation\<close>

text \<open>
  A \<open>nil\<close> setter is called on no path: the guards of \<open>promoteLiveGeneration\<close> exclude it. The
  compensation runs all its steps, collects their errors and returns them joined with the cause.
\<close>

definition call_opt :: "BootDefaultSetter option \<Rightarrow> string \<Rightarrow> string \<Rightarrow> (node, unit) io" where
  "call_opt setter root entry =
     (case setter of None \<Rightarrow> io_fail ''nil pointer dereference'' [] | Some f \<Rightarrow> call_setter f root entry)"

definition io_note :: "string \<Rightarrow> error \<Rightarrow> (node, unit) io \<Rightarrow> (node, error) io" where
  "io_note message acc m =
     io_bind (io_catch m) (\<lambda>r.
       case r of Inl e \<Rightarrow> io_ok (errorsJoin [acc, Some (Wrap message [] e)]) | Inr _ \<Rightarrow> io_ok acc)"

definition live_status :: "time \<Rightarrow> LivePromotionRequest \<Rightarrow> GenerationStatus \<Rightarrow> GenerationStatus" where
  "live_status now request status =
     (let st = status\<lparr>st_CommitState := CommitStateCommitted, st_BootState := BootStateGood,
                      st_HealthState := HealthStateHealthy, st_UpdatedAt := now, st_CommittedAt := Some now,
                      st_CommittedByOperation := TrimSpace (lp_OperationID request)\<rparr>
      in st\<lparr>st_StatusTransitions := st_StatusTransitions st @
              [transition_of now (TrimSpace (lp_OperationID request))
                 (transitionReason (lp_Reason request) ''live activation passed health checks and was promoted as known-good'') st]\<rparr>)"

definition compensated_status :: "time \<Rightarrow> LivePromotionRequest \<Rightarrow> GenerationStatus \<Rightarrow> GenerationStatus" where
  "compensated_status now request status =
     (let st = status\<lparr>st_CommitState := CommitStateSuperseded, st_UpdatedAt := now\<rparr>
      in st\<lparr>st_StatusTransitions := st_StatusTransitions st @
              [transition_of now (TrimSpace (lp_OperationID request))
                 ''live promotion was compensated before changing the persistent boot default'' st]\<rparr>)"

definition live_selection ::
  "BootSelectionRecord \<Rightarrow> string \<Rightarrow> string \<Rightarrow> string \<Rightarrow> string \<Rightarrow> time \<Rightarrow> BootSelectionRecord" where
  "live_selection b g entry previousID previousEntry now =
     (let b1 = b\<lparr>bs_OneShot := False, bs_DefaultGenerationID := g, bs_TargetBootGenerationID := [],
                 bs_TrialGenerationID := [], bs_ActiveGenerationID := g, bs_PendingTransactionID := [],
                 bs_PendingHealthValidation := False, bs_PersistentDefaultPromotion := DefaultPromotionDone,
                 bs_FailedBootGenerationID := [], bs_RecoveryRequired := False, bs_DefaultBootEntry := entry,
                 bs_TargetBootEntry := [], bs_TrialBootEntry := [], bs_BootCountedTrialPath := []\<rparr>
      in (if previousID \<noteq> [] \<and> previousID \<noteq> g
          then b1\<lparr>bs_PreviousKnownGoodGenerationID := previousID, bs_PreviousKnownGoodBootEntry := previousEntry\<rparr>
          else b1)\<lparr>bs_UpdatedAt := now\<rparr>)"

definition rollbackDurable ::
  "env \<Rightarrow> string \<Rightarrow> LivePromotionRequest \<Rightarrow> time \<Rightarrow> BootSelectionRecord \<Rightarrow>
   (GenerationSpec \<times> GenerationStatus) option \<Rightarrow> GenerationSpec \<Rightarrow> GenerationStatus \<Rightarrow> error \<Rightarrow> (node, unit) io" where
  "rollbackDurable env root request now previousSelection previous spec status cause =
     io_bind (io_note ''restore boot selection: %w'' None (WriteBootSelection root previousSelection)) (\<lambda>e1.
     io_bind (case previous of
                None \<Rightarrow> io_ok e1
              | Some (pspec, pstatus) \<Rightarrow>
                  io_note ''restore previous generation: %w'' e1 (WriteGenerationStatus env root pspec pstatus)) (\<lambda>e2.
     io_bind (io_note ''supersede compensated candidate generation: %w'' e2
                (WriteGenerationStatus env root spec (compensated_status now request status))) (\<lambda>e3.
       io_need (errorsJoin [cause, e3]))))"

definition promoteLiveGeneration :: "env \<Rightarrow> LivePromotionRequest \<Rightarrow> (node, unit) io" where
  "promoteLiveGeneration env request =
     (let now = nonzeroUTC (en_now env) (lp_Now request); root = cleanRoot (lp_Root request);
          g = TrimSpace (lp_GenerationID request)
      in
      io_then (io_reject (g = []) ''live promotion generationID is required'' [])
      (io_bind (io_get (ReadGeneration env root g)) (\<lambda>gr.
       io_bind (io_lift gr) (\<lambda>(spec, status0).
       let resuming = (st_CommitState status0 = CommitStateCommitted \<and> IsKnownGood status0 \<and>
                       lp_OperationID request \<noteq> [] \<and> st_CommittedByOperation status0 = lp_OperationID request);
           entry = TrimSpace (bt_LoaderEntryPath (gs_Boot spec))
       in
       io_then (io_reject (st_CommitState status0 \<noteq> CommitStateCandidate \<and> \<not> resuming)
                  ''generation %s commitState %s cannot be promoted live'' [g, st_CommitState status0])
       (io_then (io_reject (entry = []) ''generation %s loader entry is required for live promotion'' [g])
       (io_bind (io_get (ReadBootSelection root)) (\<lambda>sr.
        io_bind (io_lift sr) (\<lambda>selection.
        io_then (io_reject (lp_SetBootOneshot request = None) ''boot one-shot updater is required for live promotion'' [])
        (if resuming \<and> bs_DefaultGenerationID selection = g then
           io_then (io_reject (bs_ActiveGenerationID selection \<noteq> g \<or> bs_PendingHealthValidation selection)
                      ''live promotion %s conflicts with current boot selection'' [g])
           (io_then (io_reject (lp_SetBootDefault request = None) ''boot default updater is required to resume live promotion'' [])
           (io_then (call_opt (lp_SetBootDefault request) root entry)
             (call_opt (lp_SetBootOneshot request) root entry)))
         else
           io_then (io_reject (resuming \<and> bs_DefaultGenerationID selection \<noteq> gs_PreviousGenerationID spec)
                      ''live promotion %s no longer follows the default generation'' [g])
           (let previousID = TrimSpace (bs_DefaultGenerationID selection);
                previousEntry = TrimSpace (bs_DefaultBootEntry selection);
                havePrevious = (previousID \<noteq> [] \<and> previousID \<noteq> g)
            in
            io_then (io_reject (previousEntry \<noteq> entry \<and> lp_SetBootDefault request = None)
                       ''boot default update required for %s but no updater is configured'' [entry])
            (io_bind (if havePrevious
                      then io_bind (io_get (ReadGeneration env root previousID)) (\<lambda>pr. io_bind (io_lift pr) (\<lambda>p. io_ok (Some p)))
                      else io_ok None) (\<lambda>previous.
             let status = (if resuming then status0 else live_status now request status0);
                 rollback = rollbackDurable env root request now selection previous spec status;
                 promoted = live_selection selection g entry previousID previousEntry now
             in
             io_then (io_when (\<not> resuming) (WriteGenerationStatus env root spec status))
             (io_bind (io_catch (io_when havePrevious (supersedePreviousGeneration env root previousID g now))) (\<lambda>r1.
              case r1 of Inl e \<Rightarrow> rollback (Some e) | Inr _ \<Rightarrow>
              io_bind (io_catch (WriteBootSelection root promoted)) (\<lambda>r2.
              case r2 of Inl e \<Rightarrow> rollback (Some e) | Inr _ \<Rightarrow>
              io_bind (if previousEntry \<noteq> entry then io_catch (call_opt (lp_SetBootDefault request) root entry)
                       else io_ok (Inr ())) (\<lambda>r3.
              case r3 of
                Inl e \<Rightarrow>
                  let cause = Wrap ''set boot default %s: %w'' [entry] e in
                  if previousEntry = []
                  then rollback (errorsJoin [Some cause, Some (Errorf ''restore boot default: previous boot entry is unavailable'' [])])
                  else io_bind (io_catch (call_opt (lp_SetBootDefault request) root previousEntry)) (\<lambda>r4.
                    case r4 of
                      Inl x \<Rightarrow> rollback (errorsJoin [Some cause, Some (Wrap ''restore boot default %s: %w'' [previousEntry] x)])
                    | Inr _ \<Rightarrow> rollback (Some cause))
              | Inr _ \<Rightarrow>
                  io_bind (io_catch (call_opt (lp_SetBootOneshot request) root entry)) (\<lambda>r5.
                  case r5 of
                    Inr _ \<Rightarrow> io_ok ()
                  | Inl e \<Rightarrow>
                      let cause = Wrap ''set boot one-shot %s: %w'' [entry] e in
                      io_bind (io_catch (call_opt (lp_SetBootOneshot request) root (bs_TargetBootEntry selection))) (\<lambda>r6.
                      io_bind (if previousEntry \<noteq> entry \<and> previousEntry \<noteq> []
                               then io_bind (io_catch (call_opt (lp_SetBootDefault request) root previousEntry)) (\<lambda>r7.
                                      io_ok (errorsJoin [error_of r6, error_of r7]))
                               else io_ok (error_of r6)) (\<lambda>restoreErr.
                        rollback (errorsJoin [Some cause, restoreErr]))))))))))))))))))))"

definition PromoteLiveGeneration :: "env \<Rightarrow> LivePromotionRequest \<Rightarrow> (node, unit) io" where
  "PromoteLiveGeneration env request = withBootLock (promoteLiveGeneration env request)"

section \<open>Frames\<close>

lemma evolves_supersede: "io_rel evolves (supersedePreviousGeneration env root p g now)"
  unfolding supersedePreviousGeneration_def by (intro evolves.rel_rules evolves_ops)

lemma ok_supersede: "io_rel (keeps (store_ok env)) (supersedePreviousGeneration env root p g now)"
  unfolding supersedePreviousGeneration_def by (intro keeps.rel_rules ok_ops)

lemma evolves_ClearBootRecovery: "io_rel evolves ClearBootRecovery"
  unfolding ClearBootRecovery_def by (intro evolves.rel_rules evolves_syscall_other) simp

lemma ok_ClearBootRecovery: "io_rel (keeps (store_ok env)) ClearBootRecovery"
  unfolding ClearBootRecovery_def by (intro keeps.rel_rules ok_syscall_other) simp_all

lemma evolves_set_default: "io_rel evolves (set_default_entry setter root entry)" "io_rel evolves (call_opt setter root entry)"
  unfolding set_default_entry_def call_opt_def by (intro evolves.rel_rules evolves_ops)+

lemma ok_set_default:
  "io_rel (keeps (store_ok env)) (set_default_entry setter root entry)"
  "io_rel (keeps (store_ok env)) (call_opt setter root entry)"
  unfolding set_default_entry_def call_opt_def by (intro keeps.rel_rules ok_ops)+

lemma evolves_io_note: "io_rel evolves m \<Longrightarrow> io_rel evolves (io_note msg acc m)"
  unfolding io_note_def by (intro evolves.rel_rules)

lemma ok_io_note: "io_rel (keeps I) m \<Longrightarrow> io_rel (keeps I) (io_note msg acc m)"
  unfolding io_note_def by (intro keeps.rel_rules)

lemma evolves_rollbackDurable: "io_rel evolves (rollbackDurable env root q now b p spec st cause)"
  unfolding rollbackDurable_def by (intro evolves.rel_rules evolves_io_note evolves_ops)

lemma ok_rollbackDurable: "io_rel (keeps (store_ok env)) (rollbackDurable env root q now b p spec st cause)"
  unfolding rollbackDurable_def by (intro keeps.rel_rules ok_io_note ok_ops)

lemmas evolves_health =
  evolves_ops evolves_supersede evolves_ClearBootRecovery evolves_set_default evolves_rollbackDurable

lemmas ok_health = ok_ops ok_supersede ok_ClearBootRecovery ok_set_default ok_rollbackDurable

lemma evolves_ArmBootRecovery: "io_rel evolves (ArmBootRecovery env root g)"
  unfolding ArmBootRecovery_def Let_def by (intro evolves.rel_rules evolves_health evolves_syscall_other) simp

lemma ok_ArmBootRecovery: "io_rel (keeps (store_ok env)) (ArmBootRecovery env root g)"
  unfolding ArmBootRecovery_def Let_def by (intro keeps.rel_rules ok_health ok_syscall_other) simp_all

lemma evolves_RecordBootedGeneration: "io_rel evolves (RecordBootedGeneration env root line)"
  unfolding RecordBootedGeneration_def Let_def by (intro evolves.rel_rules evolves_health)

lemma ok_RecordBootedGeneration: "io_rel (keeps (store_ok env)) (RecordBootedGeneration env root line)"
  unfolding RecordBootedGeneration_def Let_def by (intro keeps.rel_rules ok_health)

lemma evolves_promoteBooted: "io_rel evolves (promoteBootedGeneration env q g now)"
  unfolding promoteBootedGeneration_def promote_commit_def Let_def by (intro evolves.rel_rules evolves_health)

lemma ok_promoteBooted: "io_rel (keeps (store_ok env)) (promoteBootedGeneration env q g now)"
  unfolding promoteBootedGeneration_def promote_commit_def Let_def by (intro keeps.rel_rules ok_health)

lemma evolves_failBooted: "io_rel evolves (failBootedGeneration env q g now)"
  unfolding failBootedGeneration_def fail_fallback_def fail_commit_def Let_def by (intro evolves.rel_rules evolves_health)

lemma ok_failBooted: "io_rel (keeps (store_ok env)) (failBootedGeneration env q g now)"
  unfolding failBootedGeneration_def fail_fallback_def fail_commit_def Let_def by (intro keeps.rel_rules ok_health)

lemma evolves_RecordBootHealth: "io_rel evolves (RecordBootHealth env q)"
  unfolding RecordBootHealth_def recordBootHealth_def Let_def
  by (intro evolves.rel_rules evolves_health evolves_promoteBooted evolves_failBooted)

lemma ok_RecordBootHealth: "io_rel (keeps (store_ok env)) (RecordBootHealth env q)"
  unfolding RecordBootHealth_def recordBootHealth_def Let_def
  by (intro keeps.rel_rules ok_health ok_promoteBooted ok_failBooted)

lemma evolves_PromoteLive: "io_rel evolves (PromoteLiveGeneration env q)"
  unfolding PromoteLiveGeneration_def promoteLiveGeneration_def Let_def
  by (intro evolves.rel_rules evolves_health)

lemma ok_PromoteLive: "io_rel (keeps (store_ok env)) (PromoteLiveGeneration env q)"
  unfolding PromoteLiveGeneration_def promoteLiveGeneration_def Let_def
  by (intro keeps.rel_rules ok_health)

end
