(* ===== verification/Management.thy ===== *)
theory Management
  imports BootHealth
begin

text \<open>
  Managing the generations of a node: \<^verbatim>\<open>internal/generation/management.go\<close> (listing, selecting, removing and
  pruning generations, taking a root slot out of use), \<^verbatim>\<open>retention.go\<close>, \<^verbatim>\<open>mutation.go\<close> and \<^verbatim>\<open>initialize.go\<close>.

  \<^verbatim>\<open>os.ReadDir\<close> returns the names in order; what it returns of the records directory is the generation
  directories and the tombstones that a removal leaves until their files are gone, which the listing
  skips. \<^verbatim>\<open>slices.SortFunc\<close> is an insertion sort on the short lists of a node. Files outside the records
  (loader entries, unified kernel images, extension images) are the paths of \<open>nd_paths\<close>.
\<close>

section \<open>Retention\<close>

record Retention =
  rt_KeepLast :: "int option"
  rt_MaxAge :: string

text \<open>A day in nanoseconds, the unit of \<^verbatim>\<open>time.Duration\<close>.\<close>

definition day_ns :: int where "day_ns = 24 * 3600 * 1000000000"

text \<open>
  \<^verbatim>\<open>time.ParseDuration\<close>, which computes fractions in floating point, is the argument \<open>ParseDuration\<close>.
\<close>

definition Retention_Limits :: "(string \<Rightarrow> int res) \<Rightarrow> Retention \<Rightarrow> (int \<times> int) res" where
  "Retention_Limits ParseDuration r =
     (let count = (case rt_KeepLast r of None \<Rightarrow> 5 | Some n \<Rightarrow> n)
      in if count < 1 then fail ''keepLast must be at least 1'' []
         else if rt_MaxAge r = [] then Inr (count, 30 * day_ns)
         else
           let value = rt_MaxAge r;
               parsed = (if HasSuffix value ''d''
                         then res_bind (ParseInt64 (TrimSuffix value ''d'')) (\<lambda>days.
                                if days < 0 \<or> days > (2 ^ 63 - 1) div day_ns then fail ''days out of range'' []
                                else Inr (days * day_ns))
                         else ParseDuration value)
           in case parsed of
                Inl _ \<Rightarrow> fail ''maxAge must be a non-negative duration, such as 30d or 720h'' []
              | Inr age \<Rightarrow>
                  if age < 0 then fail ''maxAge must be a non-negative duration, such as 30d or 720h'' []
                  else Inr (count, age))"

section \<open>Listing the generations\<close>

record ManagedGeneration =
  mg_Spec :: GenerationSpec
  mg_Status :: GenerationStatus
  mg_UnavailableReason :: string
  mg_ProtectedBy :: "string list"

abbreviation mg_ID :: "ManagedGeneration \<Rightarrow> string" where
  "mg_ID item \<equiv> gs_GenerationID (mg_Spec item)"

abbreviation mg_Slot :: "ManagedGeneration \<Rightarrow> string" where
  "mg_Slot item \<equiv> rs_PartitionUUID (gs_Root (mg_Spec item))"

definition managed :: "GenerationSpec \<times> GenerationStatus \<Rightarrow> ManagedGeneration" where
  "managed = (\<lambda>(spec, status). \<lparr>mg_Spec = spec, mg_Status = status, mg_UnavailableReason = [], mg_ProtectedBy = []\<rparr>)"

fun read_items :: "env \<Rightarrow> string \<Rightarrow> node \<Rightarrow> string list \<Rightarrow> ManagedGeneration list res" where
  "read_items env root s [] = Inr []"
| "read_items env root s (name # names) =
     (if HasPrefix name ''.'' then read_items env root s names
      else res_bind (ReadGeneration env root name s) (\<lambda>r.
           res_bind (read_items env root s names) (\<lambda>items. Inr (managed r # items))))"

definition newer :: "ManagedGeneration \<Rightarrow> ManagedGeneration \<Rightarrow> bool" where
  "newer a b \<longleftrightarrow>
     gs_CreatedAt (mg_Spec b) < gs_CreatedAt (mg_Spec a) \<or>
     gs_CreatedAt (mg_Spec b) = gs_CreatedAt (mg_Spec a) \<and> mg_ID b < mg_ID a"

fun insert_item :: "ManagedGeneration \<Rightarrow> ManagedGeneration list \<Rightarrow> ManagedGeneration list" where
  "insert_item x [] = [x]"
| "insert_item x (y # ys) = (if newer y x then y # insert_item x ys else x # y # ys)"

definition sort_items :: "ManagedGeneration list \<Rightarrow> ManagedGeneration list" where
  "sort_items items = foldr insert_item items []"

definition published_commit :: "GenerationStatus \<Rightarrow> bool" where
  "published_commit st \<longleftrightarrow> st_CommitState st = CommitStateCommitted \<or> st_CommitState st = CommitStateSuperseded"

definition latest_in_slot :: "ManagedGeneration list \<Rightarrow> string \<Rightarrow> GenerationSpec option" where
  "latest_in_slot items slot =
     map_option mg_Spec (find (\<lambda>i. published_commit (mg_Status i) \<and> mg_Slot i = slot) items)"

definition ext_paths :: "GenerationSpec \<Rightarrow> string list" where
  "ext_paths spec = map er_Path (gs_Sysexts spec) @ map er_Path (gs_BundledConfexts spec) @ map gc_Path (gs_Confexts spec)"

definition boot_paths :: "GenerationSpec \<Rightarrow> string list" where
  "boot_paths spec =
     [PathJoin [''/efi'', bt_LoaderEntryPath (gs_Boot spec)], PathJoin [''/efi'', entryPath (bt_UKIPath (gs_Boot spec))]]
     @ ext_paths spec"

definition slot_replaced :: "GenerationSpec option \<Rightarrow> GenerationSpec \<Rightarrow> bool" where
  "slot_replaced latest spec =
     (case latest of
        None \<Rightarrow> False
      | Some current \<Rightarrow>
          gs_GenerationID current \<noteq> [] \<and>
          (gs_RuntimeVersion current \<noteq> gs_RuntimeVersion spec \<or>
           bt_UKIPath (gs_Boot current) \<noteq> bt_UKIPath (gs_Boot spec) \<or>
           rs_Flavour (gs_Root current) \<noteq> rs_Flavour (gs_Root spec) \<or>
           rs_RuntimeArtifactSHA256 (gs_Root current) \<noteq> rs_RuntimeArtifactSHA256 (gs_Root spec)))"

definition SlotReplaced :: string where "SlotReplaced = ''OS slot has been replaced''"

definition unavailable_reason :: "node \<Rightarrow> ManagedGeneration list \<Rightarrow> ManagedGeneration \<Rightarrow> string" where
  "unavailable_reason s items item =
     (if st_UnavailableReason (mg_Status item) \<noteq> [] then st_UnavailableReason (mg_Status item)
      else if slot_replaced (latest_in_slot items (mg_Slot item)) (mg_Spec item) then SlotReplaced
      else if bt_LoaderEntryPath (gs_Boot (mg_Spec item)) = [] then ''loader entry is missing''
      else if \<not> published_commit (mg_Status item) then ''generation is not committed''
      else case find (\<lambda>p. \<not> stat_ok s p) (boot_paths (mg_Spec item)) of
             None \<Rightarrow> [] | Some p \<Rightarrow> ''boot artifact unavailable: '' @ p)"

definition selection_roles :: "BootSelectionRecord \<Rightarrow> (string \<times> string) list" where
  "selection_roles b =
     [(bs_ActiveGenerationID b, ''active''), (bs_BootedGenerationID b, ''booted''),
      (bs_DefaultGenerationID b, ''default''), (bs_TargetBootGenerationID b, ''next boot''),
      (bs_TrialGenerationID b, ''trial''), (bs_PreviousKnownGoodGenerationID b, ''rollback'')]"

text \<open>
  The listing annotates its items in order: the reason why an item cannot boot, the selection fields
  that name it, and \<open>slot rollback\<close> for the first bootable known-good item of each slot.
\<close>

fun annotate_from ::
  "node \<Rightarrow> BootSelectionRecord \<Rightarrow> ManagedGeneration list \<Rightarrow> string list \<Rightarrow> ManagedGeneration list \<Rightarrow> ManagedGeneration list"
where
  "annotate_from s b items rollbackSlots [] = []"
| "annotate_from s b items rollbackSlots (item # rest) =
     (let reason = unavailable_reason s items item;
          roles = map snd (filter (\<lambda>(id, _). mg_ID item = id) (selection_roles b));
          keep = (reason = [] \<and> IsKnownGood (mg_Status item) \<and> mg_Slot item \<notin> set rollbackSlots)
      in item\<lparr>mg_UnavailableReason := reason,
              mg_ProtectedBy := roles @ (if keep then [''slot rollback''] else [])\<rparr>
         # annotate_from s b items (if keep then mg_Slot item # rollbackSlots else rollbackSlots) rest)"

definition owned_prefix :: "string \<Rightarrow> string" where
  "owned_prefix g = PathJoin [GenerationRecordsDir, g] @ ''/''"

definition referenced_by :: "ManagedGeneration list \<Rightarrow> ManagedGeneration \<Rightarrow> string list" where
  "referenced_by items item =
     map (\<lambda>other. ''referenced by '' @ mg_ID other)
       (filter (\<lambda>other. mg_ID other \<noteq> mg_ID item \<and>
          list_ex (\<lambda>p. HasPrefix (p @ ''/'') (owned_prefix (mg_ID item))) (ext_paths (mg_Spec other))) items)"

definition inspect :: "env \<Rightarrow> string \<Rightarrow> BootSelectionRecord \<Rightarrow> node \<Rightarrow> ManagedGeneration list res" where
  "inspect env root b s =
     (if \<not> nd_records_dir s then Inl OsNotExist
      else res_bind (read_items env root s (sort (map fst (nd_gens s)))) (\<lambda>read.
             let items = sort_items read; annotated = annotate_from s b items [] items
             in Inr (map (\<lambda>i. i\<lparr>mg_ProtectedBy := mg_ProtectedBy i @ referenced_by items i\<rparr>) annotated)))"

definition Inspect :: "env \<Rightarrow> string \<Rightarrow> (node, ManagedGeneration list \<times> BootSelectionRecord) io" where
  "Inspect env root =
     withBootLock
       (io_bind (io_get (ReadBootSelection root)) (\<lambda>sr.
        io_bind (io_lift sr) (\<lambda>b.
        io_bind (io_get (inspect env root b)) (\<lambda>ir.
        io_bind (io_lift ir) (\<lambda>items. io_ok (items, b))))))"


section \<open>Selecting a generation\<close>

record SelectRequest =
  sq_Root :: string
  sq_GenerationID :: string
  sq_OneShot :: bool
  sq_Now :: time
  sq_SetDefault :: "BootDefaultSetter option"
  sq_SetOneshot :: "BootDefaultSetter option"

definition selected_selection ::
  "time \<Rightarrow> SelectRequest \<Rightarrow> GenerationSpec \<Rightarrow> BootSelectionRecord \<Rightarrow> BootSelectionRecord" where
  "selected_selection now request spec previous =
     (let entry = bt_LoaderEntryPath (gs_Boot spec); g = sq_GenerationID request;
          b = previous\<lparr>bs_TargetBootGenerationID := g, bs_TargetBootEntry := entry, bs_OneShot := sq_OneShot request\<rparr>;
          b' = (if sq_OneShot request then b
                else (if bs_DefaultGenerationID b \<noteq> g
                      then b\<lparr>bs_PreviousKnownGoodGenerationID := bs_DefaultGenerationID previous,
                             bs_PreviousKnownGoodBootEntry := bs_DefaultBootEntry previous\<rparr>
                      else b)\<lparr>bs_DefaultGenerationID := g, bs_DefaultBootEntry := entry\<rparr>)
      in b'\<lparr>bs_UpdatedAt := nonzeroUTC now (sq_Now request)\<rparr>)"

text \<open>Intent first, then the firmware; a failed firmware update is compensated in the reverse order.\<close>

definition select_commit ::
  "SelectRequest \<Rightarrow> BootDefaultSetter \<Rightarrow> BootDefaultSetter \<Rightarrow> BootSelectionRecord \<Rightarrow> BootSelectionRecord \<Rightarrow> (node, unit) io"
where
  "select_commit request setDefault setOneshot previous b =
     (let root = sq_Root request in
      io_then (WriteBootSelection root b)
      (io_bind (io_catch (io_then (io_when (\<not> sq_OneShot request) (call_setter setDefault root (bs_DefaultBootEntry b)))
                           (call_setter setOneshot root (bs_TargetBootEntry b)))) (\<lambda>r.
       case r of
         Inr _ \<Rightarrow> io_ok ()
       | Inl err \<Rightarrow>
           io_bind (io_catch (call_setter setDefault root (bs_DefaultBootEntry previous))) (\<lambda>r1.
           io_bind (io_catch (call_setter setOneshot root (bs_TargetBootEntry previous))) (\<lambda>r2.
             let restore = errorsJoin [error_of r1, error_of r2] in
             io_bind (if restore = None then io_bind (io_catch (WriteBootSelection root previous)) (\<lambda>r3. io_ok (error_of r3))
                      else io_ok restore) (\<lambda>restore'.
               io_need (errorsJoin [Some err, restore'])))))))"

definition select_listed ::
  "env \<Rightarrow> SelectRequest \<Rightarrow> BootSelectionRecord \<Rightarrow> ManagedGeneration list \<Rightarrow> (node, unit) io" where
  "select_listed env request b items =
     (case find (\<lambda>i. mg_ID i = sq_GenerationID request) items of
        None \<Rightarrow> io_fail ''generation %q does not exist; list generations first'' [sq_GenerationID request]
      | Some selected \<Rightarrow>
          io_then (io_reject (mg_UnavailableReason selected \<noteq> []) ''generation %s cannot boot: %s''
                     [sq_GenerationID request, mg_UnavailableReason selected])
          (io_then (io_reject (\<not> IsKnownGood (mg_Status selected))
                      ''generation %s has not passed boot health; use the staged upgrade or configuration workflow''
                      [sq_GenerationID request])
          (case (sq_SetDefault request, sq_SetOneshot request) of
             (Some setDefault, Some setOneshot) \<Rightarrow>
               select_commit request setDefault setOneshot b
                 (selected_selection (en_now env) request (mg_Spec selected) b)
           | _ \<Rightarrow> io_fail ''boot selection setters are required'' [])))"

definition Select :: "env \<Rightarrow> SelectRequest \<Rightarrow> (node, unit) io" where
  "Select env request =
     withBootLock
       (io_bind (io_get (ReadBootSelection (sq_Root request))) (\<lambda>sr.
        io_bind (io_lift sr) (\<lambda>b.
        io_then (io_reject (bs_PendingHealthValidation b \<or> bs_RecoveryRequired b)
                   ''finish the pending boot or recover boot health before selecting a generation'' [])
        (io_bind (io_get (inspect env (sq_Root request) b)) (\<lambda>ir.
         io_bind (io_lift ir) (select_listed env request b))))))"

section \<open>Removing generations\<close>

definition LoaderEntriesDir :: string where "LoaderEntriesDir = ''/efi/loader/entries''"

definition entry_names :: "node \<Rightarrow> string list" where
  "entry_names s = sort (map Base (filter (\<lambda>p. Dir p = LoaderEntriesDir) (nd_paths s)))"

definition entry_of :: "string \<Rightarrow> string \<Rightarrow> bool" where
  "entry_of base name \<longleftrightarrow>
     name = base @ ''.conf'' \<or> HasPrefix name (base @ ''+'') \<and> HasSuffix name ''.conf''"

definition remove_path :: "string \<Rightarrow> (node, unit) io" where
  "remove_path p = syscall (\<lambda>s. s\<lparr>nd_paths := filter (\<lambda>q. q \<noteq> p) (nd_paths s)\<rparr>)"

definition sync_dir :: "(node, unit) io" where
  "sync_dir = syscall (\<lambda>s. s)"

definition removeEntries :: "GenerationSpec \<Rightarrow> (node, unit) io" where
  "removeEntries spec =
     (let entry = bt_LoaderEntryPath (gs_Boot spec) in
      if entry = [] then io_ok ()
      else
        io_then (io_need (validateBootEntryPath ''loader entry'' entry))
        (io_then (io_reject (Dir entry \<noteq> ''loader/entries'' \<or> Ext entry \<noteq> ''.conf'') ''unsupported loader entry %q'' [entry])
        (io_bind (io_get (\<lambda>s. s)) (\<lambda>s.
         if LoaderEntriesDir \<notin> set (nd_paths s) then io_ok ()
         else
           let base = TrimSuffix (Base entry) ''.conf'' in
           io_then (io_each (\<lambda>name. io_when (entry_of base name) (remove_path (PathJoin [LoaderEntriesDir, name]))) (entry_names s))
             sync_dir))))"

text \<open>
  The rename hides the directory with its files under a tombstone; it fails when the directory is
  gone or an earlier tombstone of the same name still holds files. The removal of the tombstone's
  files may fail and leave it behind.
\<close>

definition gen_path :: "string \<Rightarrow> string" where
  "gen_path g = PathJoin [GenerationRecordsDir, g]"

definition hide_gen :: "string \<Rightarrow> node \<Rightarrow> node" where
  "hide_gen g s =
     s\<lparr>nd_gens := AList.delete g (nd_gens s), nd_tombstones := g # nd_tombstones s,
       nd_paths := filter (\<lambda>p. p \<noteq> gen_path g \<and> \<not> HasPrefix p (owned_prefix g)) (nd_paths s)\<rparr>"

text \<open>\<open>os.Rename\<close> refuses an existing directory as the new name, also an empty one.\<close>

definition rename_gen :: "string \<Rightarrow> (node, unit) io" where
  "rename_gen g =
     io_bind (io_get (\<lambda>s. s)) (\<lambda>s.
       if g \<notin> fst ` set (nd_gens s) then io_err OsNotExist
       else if g \<in> set (nd_tombstones s) then io_err (OsError ''rename: file exists'')
       else syscall (hide_gen g))"

definition purge_tombstone :: "string \<Rightarrow> (node, unit) io" where
  "purge_tombstone g = syscall (\<lambda>s. s\<lparr>nd_tombstones := removeAll g (nd_tombstones s)\<rparr>)"

definition remove_generation :: "string \<Rightarrow> GenerationSpec \<Rightarrow> (node, unit) io" where
  "remove_generation root spec =
     io_then (removeEntries spec)
     (io_bind (io_lift (generation_key root (gs_GenerationID spec))) (\<lambda>g.
        io_then (rename_gen g) (purge_tombstone g)))"

text \<open>\<open>clearRemovedPointers\<close> updates the caller's selection, so it returns it.\<close>

definition clearRemovedPointers ::
  "string \<Rightarrow> BootSelectionRecord \<Rightarrow> string \<Rightarrow> (node, BootSelectionRecord) io" where
  "clearRemovedPointers root b g =
     (let b1 = (if bs_Generation0FallbackID b = g then b\<lparr>bs_Generation0FallbackID := []\<rparr> else b);
          b2 = (if bs_FailedBootGenerationID b1 = g then b1\<lparr>bs_FailedBootGenerationID := []\<rparr> else b1)
      in if bs_Generation0FallbackID b = g \<or> bs_FailedBootGenerationID b1 = g
         then io_then (WriteBootSelection root b2) (io_ok b2)
         else io_ok b2)"

definition remove_listed ::
  "string \<Rightarrow> string \<Rightarrow> BootSelectionRecord \<Rightarrow> ManagedGeneration list \<Rightarrow> (node, unit) io" where
  "remove_listed root g b items =
     (case find (\<lambda>i. mg_ID i = g) items of
        None \<Rightarrow> io_ok ()
      | Some item \<Rightarrow>
          io_then (io_reject (mg_ProtectedBy item \<noteq> []) ''generation %s is protected: %s''
                     [g, Join (mg_ProtectedBy item) '', ''])
          (io_then (clearRemovedPointers root b (mg_ID item)) (remove_generation root (mg_Spec item))))"

definition Remove :: "env \<Rightarrow> string \<Rightarrow> string \<Rightarrow> (node, unit) io" where
  "Remove env root g =
     io_bind (io_lift (cleanSegment ''generation id'' g)) (\<lambda>_.
     withBootLock
       (io_bind (io_get (ReadBootSelection root)) (\<lambda>sr.
        io_bind (io_lift sr) (\<lambda>b.
        io_then (io_reject (bs_PendingHealthValidation b \<or> bs_RecoveryRequired b)
                   ''finish the pending boot or recover boot health before removing generations'' [])
        (io_bind (io_get (inspect env root b)) (\<lambda>ir.
         io_bind (io_lift ir) (remove_listed root g b)))))))"

section \<open>Pruning\<close>

definition prune_key :: "ManagedGeneration \<Rightarrow> string" where
  "prune_key item = gs_RuntimeVersion (mg_Spec item) @ ''/'' @ rs_Flavour (gs_Root (mg_Spec item))"

definition within_retention :: "int \<Rightarrow> int \<Rightarrow> time \<Rightarrow> int \<Rightarrow> ManagedGeneration \<Rightarrow> bool" where
  "within_retention count age now position item \<longleftrightarrow>
     st_UnavailableReason (mg_Status item) = [] \<and> mg_UnavailableReason item \<noteq> SlotReplaced \<and>
     (position \<le> count \<or> \<not> gs_CreatedAt (mg_Spec item) < now - age)"

text \<open>The loop of \<open>Prune\<close>: it returns the ids removed so far together with the error that ended it.\<close>

fun prune_items ::
  "string \<Rightarrow> int \<Rightarrow> int \<Rightarrow> time \<Rightarrow> (string \<Rightarrow> int) \<Rightarrow> BootSelectionRecord \<Rightarrow> string list \<Rightarrow> ManagedGeneration list \<Rightarrow>
   (node, string list \<times> error) io" where
  "prune_items root count age now counts b removed [] = io_ok (removed, None)"
| "prune_items root count age now counts b removed (item # rest) =
     (let key = prune_key item; counts' = counts(key := counts key + 1) in
      if mg_ProtectedBy item \<noteq> [] \<or> within_retention count age now (counts' key) item
      then prune_items root count age now counts' b removed rest
      else io_bind (io_catch (clearRemovedPointers root b (mg_ID item))) (\<lambda>r1.
           case r1 of
             Inl e \<Rightarrow> io_ok (removed, Some e)
           | Inr b' \<Rightarrow>
               io_bind (io_catch (remove_generation root (mg_Spec item))) (\<lambda>r2.
               case r2 of
                 Inl e \<Rightarrow> io_ok (removed, Some e)
               | Inr _ \<Rightarrow> prune_items root count age now counts' b' (removed @ [mg_ID item]) rest)))"

definition Prune ::
  "(string \<Rightarrow> int res) \<Rightarrow> env \<Rightarrow> string \<Rightarrow> Retention \<Rightarrow> time \<Rightarrow> (node, string list \<times> error) io" where
  "Prune ParseDuration env root policy now =
     (case Retention_Limits ParseDuration policy of
        Inl e \<Rightarrow> io_ok ([], Some e)
      | Inr (count, age) \<Rightarrow>
          io_bind (io_catch (withBootLock
            (io_bind (io_get (ReadBootSelection root)) (\<lambda>sr.
             io_bind (io_lift sr) (\<lambda>b.
             if bs_PendingHealthValidation b \<or> bs_RecoveryRequired b then io_ok ([], None)
             else io_bind (io_get (inspect env root b)) (\<lambda>ir.
                  io_bind (io_lift ir) (\<lambda>items. prune_items root count age now (\<lambda>_. 0) b [] items))))))) (\<lambda>r.
            case r of Inl e \<Rightarrow> io_ok ([], Some e) | Inr out \<Rightarrow> io_ok out))"

section \<open>Taking a slot out of use\<close>

definition running_generation :: "BootSelectionRecord \<Rightarrow> string" where
  "running_generation b =
     (if bs_ActiveGenerationID b = [] then bs_BootedGenerationID b else bs_ActiveGenerationID b)"

definition slot_items :: "string \<Rightarrow> ManagedGeneration list \<Rightarrow> ManagedGeneration list" where
  "slot_items partitionUUID items = filter (\<lambda>i. EqualFold (mg_Slot i) partitionUUID) items"

definition fallback_to_running :: "string \<Rightarrow> GenerationSpec \<Rightarrow> BootSelectionRecord \<Rightarrow> BootSelectionRecord" where
  "fallback_to_running active spec b =
     b\<lparr>bs_DefaultGenerationID := active, bs_DefaultBootEntry := bt_LoaderEntryPath (gs_Boot spec),
       bs_TargetBootGenerationID := [], bs_TargetBootEntry := [], bs_TrialGenerationID := [],
       bs_TrialBootEntry := [], bs_OneShot := False, bs_PendingHealthValidation := False,
       bs_PendingTransactionID := [], bs_PersistentDefaultPromotion := DefaultPromotionDone,
       bs_BootCountedTrialPath := []\<rparr>"

definition drop_invalid_pointers :: "string set \<Rightarrow> time \<Rightarrow> BootSelectionRecord \<Rightarrow> BootSelectionRecord" where
  "drop_invalid_pointers invalid now b =
     (let b1 = (if bs_PreviousKnownGoodGenerationID b \<in> invalid
                then b\<lparr>bs_PreviousKnownGoodGenerationID := [], bs_PreviousKnownGoodBootEntry := []\<rparr> else b);
          b2 = (if bs_Generation0FallbackID b1 \<in> invalid then b1\<lparr>bs_Generation0FallbackID := []\<rparr> else b1);
          b3 = (if bs_FailedBootGenerationID b2 \<in> invalid then b2\<lparr>bs_FailedBootGenerationID := []\<rparr> else b2)
      in b3\<lparr>bs_UpdatedAt := now\<rparr>)"

definition replaced_status :: "time \<Rightarrow> GenerationStatus \<Rightarrow> GenerationStatus" where
  "replaced_status now st = st\<lparr>st_UnavailableReason := SlotReplaced, st_UpdatedAt := now\<rparr>"

text \<open>The firmware is pointed at the healthy running generation when the slot holds a selected one.\<close>

definition leave_slot ::
  "env \<Rightarrow> string \<Rightarrow> string set \<Rightarrow> BootDefaultSetter option \<Rightarrow> BootDefaultSetter option \<Rightarrow> BootSelectionRecord \<Rightarrow>
   (node, BootSelectionRecord) io" where
  "leave_slot env root invalid setDefault setOneshot b =
     (if bs_DefaultGenerationID b \<in> invalid \<or> bs_TargetBootGenerationID b \<in> invalid \<or> bs_TrialGenerationID b \<in> invalid
      then let active = running_generation b in
        io_bind (io_get (ReadGeneration env root active)) (\<lambda>gr.
        io_bind (io_lift gr) (\<lambda>(spec, state).
        io_then (io_reject (\<not> IsKnownGood state \<or> active \<in> invalid) ''running generation is not a safe boot default'' [])
        (case (setDefault, setOneshot) of
           (Some f, Some h) \<Rightarrow>
             io_then (call_setter f root (bt_LoaderEntryPath (gs_Boot spec)))
             (io_then (call_setter h root [])
               (io_ok (fallback_to_running active spec b)))
         | _ \<Rightarrow> io_fail ''boot setters required to replace selected slot'' [])))
      else io_ok b)"

definition invalidate_item :: "env \<Rightarrow> string \<Rightarrow> string set \<Rightarrow> time \<Rightarrow> ManagedGeneration \<Rightarrow> (node, unit) io" where
  "invalidate_item env root invalid now i =
     io_when (mg_ID i \<in> invalid)
       (io_then (WriteGenerationStatus env root (mg_Spec i) (replaced_status now (mg_Status i))) (removeEntries (mg_Spec i)))"

definition invalidate_listed ::
  "env \<Rightarrow> string \<Rightarrow> string \<Rightarrow> time \<Rightarrow> BootDefaultSetter option \<Rightarrow> BootDefaultSetter option \<Rightarrow>
   BootSelectionRecord \<Rightarrow> ManagedGeneration list \<Rightarrow> (node, unit) io" where
  "invalidate_listed env root partitionUUID now setDefault setOneshot b items =
     (let doomed = slot_items partitionUUID items; invalid = set (map mg_ID doomed) in
      io_then (io_need (each_error (\<lambda>i. reject (mg_ID i = bs_ActiveGenerationID b \<or> mg_ID i = bs_BootedGenerationID b)
          ''cannot overwrite slot containing selected generation %s; boot and select the running slot first'' [mg_ID i]) doomed))
      (io_bind (leave_slot env root invalid setDefault setOneshot b) (\<lambda>b1.
       io_then (WriteBootSelection root (drop_invalid_pointers invalid now b1))
         (io_each (invalidate_item env root invalid now) items))))"

definition InvalidateSlot ::
  "env \<Rightarrow> string \<Rightarrow> string \<Rightarrow> time \<Rightarrow> BootDefaultSetter option \<Rightarrow> BootDefaultSetter option \<Rightarrow> (node, unit) io" where
  "InvalidateSlot env root partitionUUID now setDefault setOneshot =
     withBootLock
       (io_bind (io_get (ReadBootSelection root)) (\<lambda>sr.
        io_bind (io_lift sr) (\<lambda>b.
        io_bind (io_get (inspect env root b)) (\<lambda>ir.
        io_bind (io_lift ir) (invalidate_listed env root partitionUUID now setDefault setOneshot b)))))"

section \<open>The base of a mutation\<close>

definition mutation_base :: "BootSelectionRecord \<Rightarrow> string" where
  "mutation_base b = (if running_generation b = [] then bs_DefaultGenerationID b else running_generation b)"

definition ValidateMutationBase :: "env \<Rightarrow> string \<Rightarrow> string \<Rightarrow> (node, unit) io" where
  "ValidateMutationBase env root expected =
     withBootLock
       (io_bind (io_get (ReadBootSelection root)) (\<lambda>sr.
        io_bind (io_lift sr) (\<lambda>b.
        io_then (io_reject (bs_RecoveryRequired b \<or> bs_PendingHealthValidation b \<or> bs_TrialGenerationID b \<noteq> [])
                   ''a boot trial or recovery is pending; complete it before applying configuration or upgrading'' [])
        (let active = mutation_base b in
         io_then (io_reject (expected \<noteq> [] \<and> active \<noteq> expected)
                    ''current generation changed from %q to %q; replan the operation'' [expected, active])
         (io_then (io_reject (bs_TargetBootGenerationID b \<noteq> [] \<and> bs_TargetBootGenerationID b \<noteq> active)
                     ''generation %q is selected for the next boot; complete or explicitly change that selection first''
                     [bs_TargetBootGenerationID b])
         (io_bind (io_get (inspect env root b)) (\<lambda>ir.
          io_bind (io_lift ir) (\<lambda>items.
            io_need (each_error (\<lambda>i. reject (st_CommitState (mg_Status i) = CommitStateCandidate)
              ''candidate generation %q is pending; complete it or explicitly remove it before applying configuration or upgrading''
              [mg_ID i]) items)))))))))"

section \<open>The first generation\<close>

definition initial_selection :: "GenerationSpec \<Rightarrow> BootSelectionRecord" where
  "initial_selection spec =
     \<lparr>bs_OneShot = False, bs_APIVersion = APIVersion, bs_Kind = BootSelectionKind,
      bs_DefaultGenerationID = gs_GenerationID spec, bs_TargetBootGenerationID = gs_GenerationID spec,
      bs_TrialGenerationID = [], bs_PreviousKnownGoodGenerationID = [], bs_BootedGenerationID = [],
      bs_ActiveGenerationID = [], bs_Generation0FallbackID = gs_GenerationID spec, bs_FailedBootGenerationID = [],
      bs_DefaultBootEntry = bt_LoaderEntryPath (gs_Boot spec), bs_TargetBootEntry = bt_LoaderEntryPath (gs_Boot spec),
      bs_TrialBootEntry = [], bs_PreviousKnownGoodBootEntry = [], bs_BootedBootEntry = [],
      bs_BootCountedTrialPath = [], bs_PendingTransactionID = [], bs_PendingHealthValidation = True,
      bs_PersistentDefaultPromotion = DefaultPromotionPending, bs_RecoveryRequired = False,
      bs_UpdatedAt = gs_CreatedAt spec\<rparr>"

definition Initialize :: "env \<Rightarrow> string \<Rightarrow> GenerationSpec \<Rightarrow> (node, unit) io" where
  "Initialize env root spec =
     io_bind (io_lift (rootedPath root ''/var/lib/katl/boot'')) (\<lambda>_.
     io_then (io_reject (gs_PreviousGenerationID spec \<noteq> []) ''initial generation must not have a predecessor'' [])
     (io_then (io_reject (bt_LoaderEntryPath (gs_Boot spec) = []) ''initial generation loader entry is required'' [])
     (io_bind (io_lift (NewGenerationStatus env spec CommitStateCommitted BootStatePending HealthStateUnknown
                          (gs_CreatedAt spec))) (\<lambda>status.
      withBootLock
        (io_bind (io_get (ReadBootSelection root)) (\<lambda>sr.
         case sr of
           Inl e \<Rightarrow>
             if \<not> isErrNotExist e then io_err e
             else io_then (WriteGeneration env root spec status) (WriteBootSelection root (initial_selection spec))
         | Inr b \<Rightarrow>
             io_then (io_reject (bs_Generation0FallbackID b \<noteq> gs_GenerationID spec)
                        ''boot selection already belongs to initial generation %s'' [bs_Generation0FallbackID b])
               (WriteGeneration env root spec status)))))))"

end
