(* ===== verification/BootHealthFacts.thy ===== *)
theory BootHealthFacts
  imports BootHealth
begin

text \<open>
  What boot health guarantees: promotion needs the evidence of the kernel command line and leaves the
  generation known good, default, active and booted; a failed boot falls back to a known-good generation or
  asks for recovery; the authorization of an automatic reboot is consumed by the reboot it authorizes.
\<close>

section \<open>Successful runs of the primitives\<close>

lemma call_setter_Inr:
  "call_setter f root e s = (Inr u, t) \<Longrightarrow> \<exists>efi. f root e (nd_efi s) = (None, efi) \<and> t = s\<lparr>nd_efi := efi\<rparr>"
  by (auto simp: call_setter_def split: prod.splits option.splits)

lemma WriteBootSelection_Inr:
  assumes "WriteBootSelection root b s = (Inr u, t)"
  shows "ValidateBootSelection b = None \<and> (\<exists>fs. t = s\<lparr>nd_faults := fs, nd_selection := File b\<rparr>)"
  using WriteBootSelection_effect [OF assms] by auto

lemma ClearBootRecovery_Inr:
  assumes "ClearBootRecovery s = (Inr u, t)"
  shows "\<exists>fs. t = s\<lparr>nd_faults := fs, nd_arm := NoFile\<rparr>"
proof (cases "nd_arm s = NoFile")
  case True
  with assms have "t = s" by (simp add: ClearBootRecovery_def io_run)
  with True have "t = s\<lparr>nd_faults := nd_faults s, nd_arm := NoFile\<rparr>" by (cases s) simp
  then show ?thesis by blast
next
  case False
  with assms have "syscall (\<lambda>s. s\<lparr>nd_arm := NoFile\<rparr>) s = (Inr u, t)" by (simp add: ClearBootRecovery_def io_run)
  from syscall_Inr [OF this] show ?thesis by blast
qed

text \<open>States with the same generation directories read the same generations.\<close>

definition same_gens :: "node \<Rightarrow> node \<Rightarrow> bool" where
  "same_gens s t \<longleftrightarrow> (\<forall>g. gen_at s g = gen_at t g)"

lemma same_gens_refl [simp]: "same_gens s s"
  by (simp add: same_gens_def)

lemma same_gens_trans: "same_gens s t \<Longrightarrow> same_gens t u \<Longrightarrow> same_gens s u"
  by (simp add: same_gens_def)

lemma same_gens_upd [simp]:
  "same_gens s (t\<lparr>nd_faults := a\<rparr>) = same_gens s t" "same_gens s (t\<lparr>nd_selection := b\<rparr>) = same_gens s t"
  "same_gens s (t\<lparr>nd_efi := c\<rparr>) = same_gens s t" "same_gens s (t\<lparr>nd_arm := d\<rparr>) = same_gens s t"
  by (simp_all add: same_gens_def)

lemma ReadGeneration_same: "same_gens s t \<Longrightarrow> ReadGeneration env root g t = ReadGeneration env root g s"
  unfolding same_gens_def ReadGeneration_def using ReadSplitRecords_cong [of s _ t env]
  by (cases "generation_key root g") auto

lemma validRollbackTarget_same: "same_gens s t \<Longrightarrow> validRollbackTarget env root g t = validRollbackTarget env root g s"
  by (simp add: validRollbackTarget_def ReadGeneration_same)

lemma withBootLock_Inr:
  assumes "withBootLock m s = (Inr x, t)"
  shows "\<exists>fs. m (s\<lparr>nd_faults := fs\<rparr>) = (Inr x, t)"
  using assms syscall_Inr by (fastforce simp: withBootLock_def io_run)

section \<open>Evidence\<close>

lemma validateBootedSelection_None:
  "validateBootedSelection b spec g line = None \<longleftrightarrow>
     (bs_PendingHealthValidation b \<longrightarrow> g = TrimSpace (bs_TargetBootGenerationID b) \<or> g = TrimSpace (bs_TrialGenerationID b)) \<and>
     g \<noteq> [] \<and> TrimSpace (bs_BootedGenerationID b) = g \<and> SelectedGenerationFromCommandLine line = Inr g \<and>
     (\<exists>uuid. SelectedRootPartUUIDFromCommandLine line = Inr uuid \<and> EqualFold uuid (rs_PartitionUUID (gs_Root spec))) \<and>
     TrimSpace (bs_BootedBootEntry b) \<noteq> [] \<and> TrimSpace (bt_LoaderEntryPath (gs_Boot spec)) \<noteq> [] \<and>
     TrimSpace (bs_BootedBootEntry b) = bt_LoaderEntryPath (gs_Boot spec)"
  by (auto simp: validateBootedSelection_def split: sum.splits)

text \<open>The evidence a boot health report needs.\<close>

definition boot_evidence :: "GenerationSpec \<Rightarrow> string \<Rightarrow> string \<Rightarrow> bool" where
  "boot_evidence spec g line \<longleftrightarrow>
     SelectedGenerationFromCommandLine line = Inr g \<and>
     (\<exists>uuid. SelectedRootPartUUIDFromCommandLine line = Inr uuid \<and> EqualFold uuid (rs_PartitionUUID (gs_Root spec)))"

lemma booted_evidence: "validateBootedSelection b spec g line = None \<Longrightarrow> boot_evidence spec g line"
  by (auto simp: validateBootedSelection_None boot_evidence_def)

lemma cmdline_generation_clean: "SelectedGenerationFromCommandLine line = Inr g \<Longrightarrow> cleanSegment ''generation id'' g = Inr g"
proof -
  have "selected_generation_from fs = Inr g \<Longrightarrow> cleanSegment ''generation id'' g = Inr g" for fs
    by (induction fs) (auto split: option.splits intro: cleanSegment_idem)
  then show "SelectedGenerationFromCommandLine line = Inr g \<Longrightarrow> cleanSegment ''generation id'' g = Inr g"
    by (simp add: SelectedGenerationFromCommandLine_def)
qed

section \<open>Failure\<close>

lemma failed_selection_fields:
  "bs_FailedBootGenerationID (failed_selection b p g now) = g"
  "bs_TargetBootGenerationID (failed_selection b p g now) = []"
  "bs_TrialGenerationID (failed_selection b p g now) = []"
  "\<not> bs_PendingHealthValidation (failed_selection b p g now)"
  "bs_RecoveryRequired (failed_selection b p g now) \<longleftrightarrow> p = []"
  "bs_OneShot (failed_selection b p g now) = bs_OneShot b"
  "bs_PreviousKnownGoodGenerationID (failed_selection b p g now) = bs_PreviousKnownGoodGenerationID b"
  "p \<noteq> [] \<Longrightarrow> bs_DefaultGenerationID (failed_selection b p g now) = p"
  by (simp_all add: failed_selection_def Let_def)

lemma setter_step:
  assumes "io_when c (case f of None \<Rightarrow> io_fail m as | Some h \<Rightarrow> call_setter h root e) s = (Inr u, t)"
  shows "\<exists>x. t = s\<lparr>nd_efi := x\<rparr>"
proof (cases c)
  case True
  with assms obtain h where "f = Some h" "call_setter h root e s = (Inr u, t)"
    by (cases f) (auto simp: io_run io_when_def)
  with call_setter_Inr show ?thesis by blast
next
  case False
  with assms have "t = s\<lparr>nd_efi := nd_efi s\<rparr>" by (simp add: io_run)
  then show ?thesis by blast
qed

lemma clear_step:
  assumes "io_when c ClearBootRecovery s = (Inr u, t)"
  shows "same_gens s t \<and> nd_selection t = nd_selection s \<and> (c \<longrightarrow> nd_arm t = NoFile) \<and> (\<not> c \<longrightarrow> nd_arm t = nd_arm s)"
proof (cases c)
  case True
  with assms ClearBootRecovery_Inr [of s u t] show ?thesis by (auto simp: io_run)
qed (use assms in \<open>simp add: io_run\<close>)

lemma fail_fallback_run:
  assumes "fail_fallback env q g now selection armed s = (Inr res, t)"
  shows "\<exists>final. same_gens s t \<and> nd_selection t = File final \<and> ValidateBootSelection final = None \<and>
    hr_Failed res \<and> hr_GenerationID res = g \<and>
    hr_DefaultGeneration res = bs_DefaultGenerationID final \<and> hr_RecoveryRequired res = bs_RecoveryRequired final \<and>
    hr_RebootRequested res = (hq_RequestReboot q \<and> armed \<and> \<not> bs_RecoveryRequired final) \<and>
    (hr_RebootRequested res \<longrightarrow> nd_arm t = NoFile) \<and>
    bs_FailedBootGenerationID final = g \<and> bs_TargetBootGenerationID final = [] \<and> bs_TrialGenerationID final = [] \<and>
    \<not> bs_PendingHealthValidation final \<and>
    (\<not> bs_RecoveryRequired final \<longrightarrow>
       validRollbackTarget env (cleanRoot (hq_Root q)) (bs_DefaultGenerationID final) s)"
proof -
  obtain candidate b1 where fc: "fallback_candidate selection g = (candidate, b1)" by fastforce
  let ?root = "cleanRoot (hq_Root q)"
  let ?usable = "validRollbackTarget env ?root candidate s"
  let ?drop = "candidate \<noteq> [] \<and> \<not> ?usable"
  let ?p = "if ?drop then [] else candidate"
  let ?b2 = "if ?drop then b1\<lparr>bs_PreviousKnownGoodGenerationID := [], bs_PreviousKnownGoodBootEntry := []\<rparr> else b1"
  define final where "final = failed_selection ?b2 ?p g now"
  define R where "R = (health_result g (hq_Result q) (bs_DefaultGenerationID final) (bs_DefaultBootEntry final))
           \<lparr>hr_Failed := True, hr_RebootRequested := hq_RequestReboot q \<and> armed \<and> \<not> bs_RecoveryRequired final,
            hr_RecoveryRequired := bs_RecoveryRequired final\<rparr>"
  define A where "A = io_when (\<not> bs_RecoveryRequired final \<and> bs_DefaultBootEntry final \<noteq> bs_DefaultBootEntry selection)
              (case hq_SetBootDefault q of None \<Rightarrow> io_fail ''boot default updater required for recovery'' []
               | Some f \<Rightarrow> call_setter f ?root (bs_DefaultBootEntry final))"
  define B where "B = io_when (hq_RequestReboot q \<and> armed \<and> \<not> bs_RecoveryRequired final) ClearBootRecovery"
  have "fail_fallback env q g now selection armed s = io_then A (io_then B (io_then (WriteBootSelection ?root final) (io_ok R))) s"
    unfolding fail_fallback_def fail_commit_def Let_def fc prod.case io_bind_def io_get_def sum.case A_def B_def R_def final_def ..
  with assms have run: "io_then A (io_then B (io_then (WriteBootSelection ?root final) (io_ok R))) s = (Inr res, t)" by simp
  then obtain u1 s1 u2 s2 u3 where set: "A s = (Inr u1, s1)" and clr: "B s1 = (Inr u2, s2)"
      and wr: "WriteBootSelection ?root final s2 = (Inr u3, t)" and res: "res = R"
    by (auto simp: io_then_Inr io_ok_run)
  obtain x where s1: "s1 = s\<lparr>nd_efi := x\<rparr>" using setter_step [OF set [unfolded A_def]] by blast
  note c = clear_step [OF clr [unfolded B_def]] and w = WriteBootSelection_Inr [OF wr]
  have g: "same_gens s t" using c w s1 by (auto simp: same_gens_def)
  have f: "bs_FailedBootGenerationID final = g" "bs_TargetBootGenerationID final = []" "bs_TrialGenerationID final = []"
      "\<not> bs_PendingHealthValidation final" "bs_RecoveryRequired final \<longleftrightarrow> ?p = []"
      "?p \<noteq> [] \<longrightarrow> bs_DefaultGenerationID final = ?p"
    by (simp_all only: final_def failed_selection_fields not_False_eq_True) (rule impI, rule failed_selection_fields)
  have v: "\<not> bs_RecoveryRequired final \<longrightarrow> validRollbackTarget env ?root (bs_DefaultGenerationID final) s"
    using f(5,6) by (auto split: if_splits)
  show ?thesis
    using g f v c w by (intro exI [of _ final]) (auto simp: res R_def health_result_def)
qed


text \<open>A failure report either leaves a healthy generation alone or writes its status and falls back.\<close>

lemma failBooted_run:
  assumes "failBootedGeneration env q g now s = (Inr res, t)"
  shows "\<exists>spec status armed selection.
    ReadGeneration env (cleanRoot (hq_Root q)) g s = Inr (spec, status) \<and> boot_evidence spec g (hq_CommandLine q) \<and>
    bootRecoveryArmed env (cleanRoot (hq_Root q)) g s = Inr armed \<and>
    (\<not> hr_Failed res \<and> \<not> hr_RebootRequested res \<and> t = s \<and> st_BootState status = BootStateGood \<and>
       st_HealthState status = HealthStateHealthy \<and> \<not> hq_ForceFailure q \<or>
     (\<exists>s1. io_when (st_BootState status \<noteq> BootStateFailed \<or> st_HealthState status \<noteq> HealthStateUnhealthy)
         (WriteGenerationStatus env (cleanRoot (hq_Root q)) spec (failed_status now (hq_Reason q) status)) s = (Inr (), s1) \<and>
       fail_fallback env q g now selection armed s1 = (Inr res, t)))"
proof -
  let ?root = "cleanRoot (hq_Root q)"
  from assms obtain armed selection0 spec status where
      a: "bootRecoveryArmed env ?root g s = Inr armed" "ReadBootSelection ?root s = Inr selection0"
        "ReadGeneration env ?root g s = Inr (spec, status)"
    unfolding failBootedGeneration_def Let_def by (auto simp: io_bind_Inr io_get_run io_lift_run)
  define selection where "selection = inferBootedSelection selection0 spec g (hq_CommandLine q)"
  let ?good = "st_BootState status = BootStateGood \<and> st_HealthState status = HealthStateHealthy \<and>
          \<not> hq_ForceFailure q \<and> bs_TargetBootGenerationID selection \<noteq> g"
  let ?mark = "io_when (st_BootState status \<noteq> BootStateFailed \<or> st_HealthState status \<noteq> HealthStateUnhealthy)
         (WriteGenerationStatus env ?root spec (failed_status now (hq_Reason q) status))"
  have eq: "failBootedGeneration env q g now s =
      io_then (io_need (validateBootedSelection selection spec g (hq_CommandLine q)))
        (if ?good then io_ok (health_result g (hq_Result q) (TrimSpace (bs_DefaultGenerationID selection))
                     (TrimSpace (bs_DefaultBootEntry selection)))
         else io_then ?mark (fail_fallback env q g now selection armed)) s"
    using a by (simp add: failBootedGeneration_def Let_def io_bind_def io_get_def io_lift_def selection_def)
  have v: "validateBootedSelection selection spec g (hq_CommandLine q) = None"
    and rest: "(if ?good then io_ok (health_result g (hq_Result q) (TrimSpace (bs_DefaultGenerationID selection))
                     (TrimSpace (bs_DefaultBootEntry selection)))
         else io_then ?mark (fail_fallback env q g now selection armed)) s = (Inr res, t)"
    using assms unfolding eq io_then_Inr io_need_Inr by auto
  have ev: "boot_evidence spec g (hq_CommandLine q)" by (rule booted_evidence [OF v])
  show ?thesis
  proof (cases ?good)
    case True
    with rest have "res = health_result g (hq_Result q) (TrimSpace (bs_DefaultGenerationID selection))
                     (TrimSpace (bs_DefaultBootEntry selection))" "t = s"
      by (simp_all add: io_ok_run)
    with True a ev show ?thesis by (auto simp: health_result_def)
  next
    case False
    with rest have "io_then ?mark (fail_fallback env q g now selection armed) s = (Inr res, t)" by (simp only: if_False)
    then obtain s1 where "?mark s = (Inr (), s1)" "fail_fallback env q g now selection armed s1 = (Inr res, t)"
      by (auto simp: io_then_Inr)
    with a ev show ?thesis by blast
  qed
qed

lemma failed_status_bad: "\<not> IsKnownGood (failed_status now reason status)"
  by (simp add: failed_status_def IsKnownGood_def Let_def state_names)

lemma failed_status_written:
  assumes r: "ReadGeneration env root g s = Inr (spec, status)" and split: "gd_spec (gen_at s (TrimSpace g)) \<noteq> NoFile"
    and w: "io_when (st_BootState status \<noteq> BootStateFailed \<or> st_HealthState status \<noteq> HealthStateUnhealthy)
         (WriteGenerationStatus env root spec (failed_status now reason status)) s = (Inr u, s1)"
  shows "\<exists>st. ReadGeneration env root g s1 = Inr (spec, st) \<and> st_BootState st = BootStateFailed \<and>
    st_HealthState st = HealthStateUnhealthy"
proof (cases "st_BootState status \<noteq> BootStateFailed \<or> st_HealthState status \<noteq> HealthStateUnhealthy")
  case True
  with w have "WriteGenerationStatus env root spec (failed_status now reason status) s = (Inr u, s1)" by (simp add: io_run)
  from WriteGenerationStatus_reads_back [OF r split this] show ?thesis by (simp add: failed_status_def Let_def)
next
  case False
  with w have "s1 = s" by (simp add: io_run)
  with r False show ?thesis by auto
qed

lemma validRollbackTarget_iff:
  "validRollbackTarget env root g s \<longleftrightarrow> (\<exists>spec st. ReadGeneration env root g s = Inr (spec, st) \<and> IsKnownGood st)"
  by (auto simp: validRollbackTarget_def split: sum.splits)

lemma failed_boot_outcome:
  assumes f: "failBootedGeneration env q g now s = (Inr res, t)" and failed: "hr_Failed res"
  shows "\<exists>b. nd_selection t = File b \<and> ValidateBootSelection b = None \<and>
    hr_GenerationID res = g \<and> bs_FailedBootGenerationID b = g \<and>
    \<not> bs_PendingHealthValidation b \<and> bs_TargetBootGenerationID b = [] \<and> bs_TrialGenerationID b = [] \<and>
    hr_RecoveryRequired res = bs_RecoveryRequired b \<and>
    (bs_RecoveryRequired b \<or> validRollbackTarget env (cleanRoot (hq_Root q)) (bs_DefaultGenerationID b) t)"
proof -
  from failBooted_run [OF f] failed obtain s1 selection armed where
    "fail_fallback env q g now selection armed s1 = (Inr res, t)" by blast
  from fail_fallback_run [OF this] show ?thesis using validRollbackTarget_same by metis
qed

lemma reboot_consumes_authorization:
  assumes f: "failBootedGeneration env q g now s = (Inr res, t)" and reboot: "hr_RebootRequested res"
  shows "nd_arm t = NoFile \<and> hq_RequestReboot q \<and> bootRecoveryArmed env (cleanRoot (hq_Root q)) g s = Inr True \<and>
    \<not> hr_RecoveryRequired res"
proof -
  from failBooted_run [OF f] reboot obtain s1 selection armed where
    a: "bootRecoveryArmed env (cleanRoot (hq_Root q)) g s = Inr armed"
      "fail_fallback env q g now selection armed s1 = (Inr res, t)" by blast
  from fail_fallback_run [OF a(2)] reboot a(1) show ?thesis by auto
qed

lemma bootRecoveryArmed_unarmed: "nd_arm s = NoFile \<Longrightarrow> bootRecoveryArmed env root g s = Inr False"
  by (simp add: bootRecoveryArmed_def Let_def)


section \<open>Promotion\<close>

text \<open>A node without legacy records: every readable generation has its own specification file.\<close>

definition no_legacy :: "node \<Rightarrow> bool" where
  "no_legacy s \<longleftrightarrow> (\<forall>g. gd_metadata (gen_at s g) = NoFile)"

lemma no_legacy_evolves: "evolves s t \<Longrightarrow> no_legacy s \<Longrightarrow> no_legacy t"
  by (simp add: no_legacy_def evolves_def dir_evolves_def)

lemma no_legacy_read:
  assumes "no_legacy s" "ReadSplitRecords env g s = Inr (spec, st)"
  shows "gd_spec (gen_at s g) = File spec \<and> gd_status (gen_at s g) = File st \<and> g = gs_GenerationID spec"
proof -
  have "gd_spec (gen_at s g) \<noteq> NoFile"
    using assms ReadSplitRecords_legacy [of s g env spec st] by (auto simp: no_legacy_def)
  from assms(2) [unfolded ReadSplitRecords_split [OF this]] show ?thesis by blast
qed

lemma no_legacy_ReadGeneration:
  assumes "no_legacy s" "ReadGeneration env root raw s = Inr (spec, st)"
  shows "gd_spec (gen_at s (TrimSpace raw)) \<noteq> NoFile" "gs_GenerationID spec = TrimSpace raw"
    "generation_key root (gs_GenerationID spec) = Inr (TrimSpace raw)"
proof -
  from assms(2) obtain g where k: "generation_key root raw = Inr g" and r: "ReadSplitRecords env g s = Inr (spec, st)"
    by (auto simp: ReadGeneration_Inr)
  then have g: "g = TrimSpace raw" by (auto simp: generation_key_Inr cleanSegment_Inr)
  note n = no_legacy_read [OF assms(1) r]
  then show "gd_spec (gen_at s (TrimSpace raw)) \<noteq> NoFile" "gs_GenerationID spec = TrimSpace raw" by (auto simp: g)
  then show "generation_key root (gs_GenerationID spec) = Inr (TrimSpace raw)"
    using k g by (auto simp: generation_key_Inr cleanSegment_Inr)
qed

lemma supersede_frame:
  assumes "supersedePreviousGeneration env root p g now s = (Inr u, t)" "no_legacy s" "TrimSpace p \<noteq> h"
  shows "gen_at t h = gen_at s h \<and> nd_selection t = nd_selection s"
proof -
  from assms(1) obtain spec st where r: "ReadGeneration env root p s = Inr (spec, st)"
      and w: "t = s \<or> WriteGenerationStatus env root spec (superseded_status now g st) s = (Inr u, t)"
    by (auto simp: supersedePreviousGeneration_def io_run split: if_splits)
  have "generation_key root (gs_GenerationID spec) = Inr (TrimSpace p)" using no_legacy_ReadGeneration [OF assms(2) r] by simp
  then have k: "generation_key root (gs_GenerationID spec) \<noteq> Inr h" using assms(3) by simp
  from w show ?thesis
  proof
    assume "WriteGenerationStatus env root spec (superseded_status now g st) s = (Inr u, t)"
    note f = WriteGenerationStatus_frame [OF this]
    from f(1) f(5) [OF k] show ?thesis by simp
  qed simp
qed

lemma superseded_previous:
  assumes "supersedePreviousGeneration env root p g now s = (Inr u, t)" "no_legacy s"
  shows "\<exists>spec st. ReadGeneration env root p t = Inr (spec, st) \<and> st_CommitState st \<noteq> CommitStateCommitted"
proof -
  from assms(1) obtain spec st where r: "ReadGeneration env root p s = Inr (spec, st)"
      and w: "if st_CommitState st \<noteq> CommitStateCommitted then t = s
              else WriteGenerationStatus env root spec (superseded_status now g st) s = (Inr u, t)"
    by (auto simp: supersedePreviousGeneration_def io_run split: if_splits)
  show ?thesis
  proof (cases "st_CommitState st = CommitStateCommitted")
    case True
    with w have "WriteGenerationStatus env root spec (superseded_status now g st) s = (Inr u, t)" by simp
    from WriteGenerationStatus_reads_back [OF r no_legacy_ReadGeneration(1) [OF assms(2) r] this]
    show ?thesis by (simp add: superseded_status_def Let_def state_names)
  next
    case False
    with w r show ?thesis by auto
  qed
qed

lemma promotion_final_fields:
  "bs_BootedGenerationID (promotion_final b g temp fb e now) = g"
  "bs_ActiveGenerationID (promotion_final b g temp fb e now) = g"
  "\<not> bs_PendingHealthValidation (promotion_final b g temp fb e now)"
  "\<not> bs_RecoveryRequired (promotion_final b g temp fb e now)"
  "bs_FailedBootGenerationID (promotion_final b g temp fb e now) = []"
  "bs_TargetBootGenerationID (promotion_final b g temp fb e now) = []"
  "bs_TrialGenerationID (promotion_final b g temp fb e now) = []"
  "bs_DefaultGenerationID (promotion_final b g temp fb e now) = (if temp then bs_DefaultGenerationID b else g)"
  "bs_DefaultBootEntry (promotion_final b g temp fb e now) = e"
  by (simp_all add: promotion_final_def promoted_selection_def Let_def)

lemma healthy_status_good:
  "st_UnavailableReason status = [] \<Longrightarrow> IsKnownGood (healthy_status now reason status)"
  by (simp add: healthy_status_def IsKnownGood_def Let_def)

lemma set_default_step:
  assumes "io_when c (set_default_entry f root e) s = (Inr u, t)"
  shows "same_gens s t \<and> nd_selection t = nd_selection s"
proof (cases c)
  case True
  with assms obtain h where "call_setter h root e s = (Inr u, t)"
    by (cases f) (auto simp: io_run set_default_entry_def)
  from call_setter_Inr [OF this] show ?thesis by auto
qed (use assms in \<open>simp add: io_run\<close>)

lemma promote_commit_run:
  assumes run: "promote_commit env q g now spec status selection temporary fb s = (Inr res, t)"
    and legacy: "no_legacy s" and r: "ReadGeneration env (cleanRoot (hq_Root q)) g s = Inr (spec, status)"
    and avail: "st_UnavailableReason status = []" and g: "TrimSpace g = g"
  shows "\<exists>st entry. nd_selection t = File (promotion_final selection g temporary fb entry now) \<and>
    ReadGeneration env (cleanRoot (hq_Root q)) g t = Inr (spec, st) \<and> IsKnownGood st \<and>
    hr_Promoted res = (\<not> temporary) \<and> hr_GenerationID res = g"
proof -
  let ?root = "cleanRoot (hq_Root q)"
  let ?prev = "TrimSpace (bs_DefaultGenerationID selection)"
  let ?stale = "st_CommitState status \<noteq> CommitStateCommitted \<or> st_BootState status \<noteq> BootStateGood \<or>
                st_HealthState status \<noteq> HealthStateHealthy"
  define entry where "entry = next_default_entry selection spec temporary fb"
  define A where "A = io_when (entry \<noteq> [] \<and> TrimSpace (bs_DefaultBootEntry selection) \<noteq> entry)
      (set_default_entry (hq_SetBootDefault q) ?root entry)"
  define B where "B = io_when ?stale (WriteGenerationStatus env ?root spec (healthy_status now (hq_Reason q) status))"
  define C where "C = io_when (\<not> temporary \<and> ?prev \<noteq> [] \<and> ?prev \<noteq> g) (supersedePreviousGeneration env ?root ?prev g now)"
  define final where "final = promotion_final selection g temporary fb entry now"
  define R where "R = (health_result g BootHealthSuccess (bs_DefaultGenerationID final) (bs_DefaultBootEntry final))
           \<lparr>hr_Promoted := \<not> temporary, hr_BootDefaultSet := entry \<noteq> [] \<and> TrimSpace (bs_DefaultBootEntry selection) \<noteq> entry\<rparr>"
  have "io_then A (io_then B (io_then C (io_then (WriteBootSelection ?root final) (io_ok R)))) s = (Inr res, t)"
    using run unfolding promote_commit_def Let_def A_def B_def C_def R_def final_def entry_def .
  then obtain u1 s1 u2 s2 u3 s3 u4 where a: "A s = (Inr u1, s1)" and b: "B s1 = (Inr u2, s2)" and c: "C s2 = (Inr u3, s3)"
      and w: "WriteBootSelection ?root final s3 = (Inr u4, t)" and res: "res = R"
    by (auto simp: io_then_Inr io_ok_run)
  have s1: "same_gens s s1" using set_default_step [OF a [unfolded A_def]] by simp
  have r1: "ReadGeneration env ?root g s1 = Inr (spec, status)" using r ReadGeneration_same [OF s1] by simp
  have l1: "no_legacy s1" using legacy s1 by (simp add: no_legacy_def same_gens_def)
  have "\<exists>st. ReadGeneration env ?root g s2 = Inr (spec, st) \<and> IsKnownGood st"
  proof (cases ?stale)
    case True
    with b have "WriteGenerationStatus env ?root spec (healthy_status now (hq_Reason q) status) s1 = (Inr u2, s2)"
      by (simp add: B_def io_run)
    from WriteGenerationStatus_reads_back [OF r1 no_legacy_ReadGeneration(1) [OF l1 r1] this]
    show ?thesis using healthy_status_good [OF avail] by blast
  next
    case False
    with b have "s2 = s1" by (simp add: B_def io_run)
    with r1 False avail show ?thesis by (auto simp: IsKnownGood_def)
  qed
  then obtain st where r2: "ReadGeneration env ?root g s2 = Inr (spec, st)" and good: "IsKnownGood st" by blast
  have l2: "no_legacy s2"
    using l1 b no_legacy_evolves [OF io_relD [OF evolves_WriteGenerationStatus], of env ?root spec "healthy_status now (hq_Reason q) status" s1 "Inr u2" s2]
    by (auto simp: B_def io_run split: if_splits)
  have g3: "gen_at s3 g = gen_at s2 g"
  proof (cases "\<not> temporary \<and> ?prev \<noteq> [] \<and> ?prev \<noteq> g")
    case True
    with c have "supersedePreviousGeneration env ?root ?prev g now s2 = (Inr u3, s3)" by (simp add: C_def io_run)
    from supersede_frame [OF this l2, of g] True show ?thesis by simp
  next
    case False
    with c show ?thesis by (auto simp: C_def io_run)
  qed
  have "gen_at t g = gen_at s2 g" "nd_selection t = File final" using WriteBootSelection_Inr [OF w] g3 by auto
  moreover from this(1) have "ReadGeneration env ?root g t = Inr (spec, st)"
    using r2 g ReadSplitRecords_cong [of t g s2 env] by (auto simp: ReadGeneration_Inr generation_key_Inr cleanSegment_Inr)
  ultimately show ?thesis using good unfolding final_def res R_def by (auto simp: health_result_def)
qed

lemma promoteBooted_run:
  assumes "promoteBootedGeneration env q g now s = (Inr res, t)" and "hr_Promoted res"
  shows "\<exists>spec status selection0 selection temporary fb.
    ReadBootSelection (cleanRoot (hq_Root q)) s = Inr selection0 \<and>
    ReadGeneration env (cleanRoot (hq_Root q)) g s = Inr (spec, status) \<and> st_UnavailableReason status = [] \<and>
    boot_evidence spec g (hq_CommandLine q) \<and>
    promote_commit env q g now spec status selection temporary fb s = (Inr res, t)"
proof -
  let ?root = "cleanRoot (hq_Root q)"
  from assms(1) obtain selection0 spec status where
      a: "ReadBootSelection ?root s = Inr selection0" "ReadGeneration env ?root g s = Inr (spec, status)"
    unfolding promoteBootedGeneration_def Let_def by (auto simp: io_bind_Inr io_get_run io_lift_run)
  let ?replay = "\<not> bs_PendingHealthValidation selection0 \<and> bs_TargetBootGenerationID selection0 \<noteq> [] \<and>
          bs_TargetBootGenerationID selection0 \<noteq> g \<and> g = bs_BootedGenerationID selection0 \<and> IsKnownGood status"
  define temporary where "temporary = (bs_OneShot selection0 \<and> g \<noteq> bs_DefaultGenerationID selection0)"
  define selection where "selection = inferBootedSelection selection0 spec g (hq_CommandLine q)"
  define R where "R = health_result g BootHealthSuccess (bs_DefaultGenerationID selection0) (bs_DefaultBootEntry selection0)"
  define P where "P = promote_commit env q g now spec status selection temporary (isFallbackRecovery selection0 g)"
  have "io_then (io_reject (st_UnavailableReason status \<noteq> []) ''generation %s cannot boot: %s'' [g, st_UnavailableReason status])
      (if ?replay then io_then (io_need (validateBootedSelection selection0 spec g (hq_CommandLine q))) (io_ok R)
       else io_then (io_need (validateBootedSelection selection spec g (hq_CommandLine q)))
         (io_then (io_reject (st_CommitState status \<noteq> CommitStateCommitted \<and> st_CommitState status \<noteq> CommitStateSuperseded)
            ''generation %s commitState %s cannot be promoted'' [g, st_CommitState status]) P)) s = (Inr res, t)"
    using assms(1) a unfolding promoteBootedGeneration_def Let_def selection_def temporary_def R_def P_def
    by (simp add: io_bind_def io_get_def io_lift_def)
  moreover have "\<not> hr_Promoted R" by (simp add: R_def health_result_def)
  ultimately have "st_UnavailableReason status = []" "validateBootedSelection selection spec g (hq_CommandLine q) = None"
      "P s = (Inr res, t)"
    using assms(2) by (auto simp: io_run split: if_splits)
  with a booted_evidence show ?thesis unfolding P_def by blast
qed

lemma SelectedGenerationFromCommandLine_trimmed:
  assumes "SelectedGenerationFromCommandLine line = Inr g"
  shows "TrimSpace g = g"
proof -
  have "selected_generation_from ws = Inr g \<Longrightarrow> TrimSpace g = g" for ws
    by (induction ws) (auto simp: cleanSegment_Inr split: option.splits)
  with assms show ?thesis by (simp add: SelectedGenerationFromCommandLine_def)
qed

lemma recordBootHealth_run:
  assumes "RecordBootHealth env q s = (Inr res, t)"
  shows "\<exists>fs g now. TrimSpace g = g \<and>
    (if TrimSpace (hq_Result q) = BootHealthSuccess
     then promoteBootedGeneration env q g now (s\<lparr>nd_faults := fs\<rparr>) = (Inr res, t)
     else failBootedGeneration env q g now (s\<lparr>nd_faults := fs\<rparr>) = (Inr res, t))"
proof -
  from withBootLock_Inr [OF assms [unfolded RecordBootHealth_def]]
  obtain fs where "recordBootHealth env q (s\<lparr>nd_faults := fs\<rparr>) = (Inr res, t)" ..
  then obtain u s1 where chosen: "(if TrimSpace (hq_GenerationID q) = []
        then io_lift (SelectedGenerationFromCommandLine (hq_CommandLine q))
        else io_ok (TrimSpace (hq_GenerationID q))) (s\<lparr>nd_faults := fs\<rparr>) = (Inr u, s1)"
      and rest: "io_then (io_reject (TrimSpace (hq_CommandLine q) = []) ''boot health requires kernel command line evidence'' [])
        (if TrimSpace (hq_Result q) = BootHealthSuccess
         then promoteBootedGeneration env q u (nonzeroUTC (en_now env) (hq_Now q))
         else if TrimSpace (hq_Result q) = BootHealthFailure \<or> TrimSpace (hq_Result q) = BootHealthTimeout
         then failBootedGeneration env q u (nonzeroUTC (en_now env) (hq_Now q))
         else io_fail ''boot health result must be success, failure, or timeout'' []) s1 = (Inr res, t)"
    unfolding recordBootHealth_def Let_def io_bind_Inr by blast
  from chosen have s1: "s1 = s\<lparr>nd_faults := fs\<rparr>"
    and g: "if TrimSpace (hq_GenerationID q) = [] then SelectedGenerationFromCommandLine (hq_CommandLine q) = Inr u
        else u = TrimSpace (hq_GenerationID q)"
    by (auto simp: io_lift_run io_ok_run split: if_splits)
  from rest s1 have run: "if TrimSpace (hq_Result q) = BootHealthSuccess
       then promoteBootedGeneration env q u (nonzeroUTC (en_now env) (hq_Now q)) (s\<lparr>nd_faults := fs\<rparr>) = (Inr res, t)
       else failBootedGeneration env q u (nonzeroUTC (en_now env) (hq_Now q)) (s\<lparr>nd_faults := fs\<rparr>) = (Inr res, t)"
    by (simp add: io_run split: if_splits)
  from g have "TrimSpace u = u"
    using SelectedGenerationFromCommandLine_trimmed by (auto split: if_splits)
  with run show ?thesis by blast
qed

section \<open>Reports\<close>

lemma ReadGeneration_faults [simp]: "ReadGeneration env root g (s\<lparr>nd_faults := fs\<rparr>) = ReadGeneration env root g s"
  by (rule ReadGeneration_same) (simp add: same_gens_def)

lemma no_legacy_faults [simp]: "no_legacy (s\<lparr>nd_faults := fs\<rparr>) = no_legacy s"
  by (simp add: no_legacy_def)

lemma report_success:
  assumes run: "RecordBootHealth env q s = (Inr res, t)" and result: "TrimSpace (hq_Result q) = BootHealthSuccess"
    and promoted: "hr_Promoted res" and legacy: "no_legacy s"
  shows "\<exists>b spec st0 st. ReadGeneration env (cleanRoot (hq_Root q)) (hr_GenerationID res) s = Inr (spec, st0) \<and>
    boot_evidence spec (hr_GenerationID res) (hq_CommandLine q) \<and> nd_selection t = File b \<and>
    bs_DefaultGenerationID b = hr_GenerationID res \<and> bs_ActiveGenerationID b = hr_GenerationID res \<and>
    bs_BootedGenerationID b = hr_GenerationID res \<and> bs_TargetBootGenerationID b = [] \<and> bs_TrialGenerationID b = [] \<and>
    \<not> bs_PendingHealthValidation b \<and> \<not> bs_RecoveryRequired b \<and>
    ReadGeneration env (cleanRoot (hq_Root q)) (hr_GenerationID res) t = Inr (spec, st) \<and> IsKnownGood st"
proof -
  from recordBootHealth_run [OF run] result obtain fs g now where g: "TrimSpace g = g"
      and p: "promoteBootedGeneration env q g now (s\<lparr>nd_faults := fs\<rparr>) = (Inr res, t)" by auto
  from promoteBooted_run [OF p promoted] obtain spec status selection temporary fb where
      r: "ReadGeneration env (cleanRoot (hq_Root q)) g (s\<lparr>nd_faults := fs\<rparr>) = Inr (spec, status)"
      and avail: "st_UnavailableReason status = []" and ev: "boot_evidence spec g (hq_CommandLine q)"
      and c: "promote_commit env q g now spec status selection temporary fb (s\<lparr>nd_faults := fs\<rparr>) = (Inr res, t)"
    by blast
  from promote_commit_run [OF c _ r avail g] legacy obtain st entry where
      "nd_selection t = File (promotion_final selection g temporary fb entry now)"
      "ReadGeneration env (cleanRoot (hq_Root q)) g t = Inr (spec, st)" "IsKnownGood st"
      "hr_Promoted res = (\<not> temporary)" "hr_GenerationID res = g" by auto
  with r ev promoted show ?thesis by (intro exI conjI) (auto simp: promotion_final_fields)
qed

lemma report_failure:
  assumes "RecordBootHealth env q s = (Inr res, t)" "TrimSpace (hq_Result q) \<noteq> BootHealthSuccess"
  shows "\<exists>fs g now. failBootedGeneration env q g now (s\<lparr>nd_faults := fs\<rparr>) = (Inr res, t)"
  using recordBootHealth_run [OF assms(1)] assms(2) by auto

lemma report_reboot:
  assumes "RecordBootHealth env q s = (Inr res, t)" "TrimSpace (hq_Result q) \<noteq> BootHealthSuccess" "hr_RebootRequested res"
  shows "nd_arm t = NoFile \<and> nd_arm s \<noteq> NoFile \<and> hq_RequestReboot q \<and> \<not> hr_RecoveryRequired res"
proof -
  from report_failure [OF assms(1,2)] obtain fs g now where
    "failBootedGeneration env q g now (s\<lparr>nd_faults := fs\<rparr>) = (Inr res, t)" by blast
  from reboot_consumes_authorization [OF this assms(3)] show ?thesis
    using bootRecoveryArmed_unarmed [of "s\<lparr>nd_faults := fs\<rparr>" env "cleanRoot (hq_Root q)" g] by auto
qed

text \<open>
  When no previous known-good generation is recorded, the fallback to the default writes a selection that
  its own validation rejects.
\<close>

lemma fallback_to_default_rejected:
  assumes "TrimSpace (bs_PreviousKnownGoodGenerationID b) = []" "\<not> bs_OneShot b" "bs_DefaultGenerationID b \<noteq> g"
    "TrimSpace (bs_DefaultGenerationID b) \<noteq> []" "TrimSpace g \<noteq> []"
    and usable: "validRollbackTarget env (cleanRoot (hq_Root q)) (TrimSpace (bs_DefaultGenerationID b)) s"
  shows "fail_fallback env q g now b armed s \<noteq> (Inr res, t)"
proof
  assume "fail_fallback env q g now b armed s = (Inr res, t)"
  then obtain u v where w: "WriteBootSelection (cleanRoot (hq_Root q))
      (failed_selection (b\<lparr>bs_OneShot := False\<rparr>) (TrimSpace (bs_DefaultGenerationID b)) g now) u = (Inr (), v)"
    using assms by (auto simp: fail_fallback_def fail_commit_def fallback_candidate_def Let_def io_run)
  then show False
    using WriteBootSelection_Inr [OF w] assms
    by (auto simp: ValidateBootSelection_def failed_selection_def Let_def first_error_None reject_None)
qed

end
