(* ===== verification/ManagementFacts.thy ===== *)
theory ManagementFacts
  imports Management BootHealthFacts "HOL-Library.Multiset"
begin

text \<open>
  What the listing promises, and that removal respects it: the listing shows every published
  generation once per directory, newest first; a generation that the boot selection names, that owns a file
  another generation references, or that is the bootable rollback of its slot is protected; removal
  and pruning leave the records and the files of everything else as they are.
\<close>

section \<open>The listing\<close>

abbreviation mg_pair :: "ManagedGeneration \<Rightarrow> GenerationSpec \<times> GenerationStatus" where
  "mg_pair i \<equiv> (mg_Spec i, mg_Status i)"

lemma mg_pair_managed [simp]: "mg_pair (managed r) = r"
  by (simp add: managed_def split: prod.splits)

lemma read_items_Inr:
  "read_items env root s names = Inr items \<Longrightarrow>
     list_all2 (\<lambda>name i. ReadGeneration env root name s = Inr (mg_pair i)) (filter (\<lambda>n. \<not> HasPrefix n ''.'') names) items"
proof (induction names arbitrary: items)
  case (Cons name names)
  show ?case
  proof (cases "HasPrefix name ''.''")
    case True
    with Cons show ?thesis by simp
  next
    case False
    with Cons.prems obtain r its where "ReadGeneration env root name s = Inr r" "read_items env root s names = Inr its"
        "items = managed r # its"
      by (auto simp: res_bind_Inr)
    with False Cons.IH [of its] show ?thesis by simp
  qed
qed simp

lemma insert_item_mset: "mset (insert_item x ys) = add_mset x (mset ys)"
  by (induction ys) auto

lemma sort_items_mset: "mset (sort_items items) = mset items"
  unfolding sort_items_def by (induction items) (auto simp: insert_item_mset)

lemma sort_items_set [simp]: "set (sort_items items) = set items"
  by (metis sort_items_mset set_mset_mset)

lemma newer_trans: "newer a b \<Longrightarrow> newer b c \<Longrightarrow> newer a c"
  by (auto simp: newer_def)

lemma not_newer_trans: "\<not> newer b a \<Longrightarrow> \<not> newer c b \<Longrightarrow> \<not> newer c a"
  by (auto simp: newer_def)

lemma newer_asym: "newer a b \<Longrightarrow> \<not> newer b a"
  by (auto simp: newer_def)

lemma insert_item_set [simp]: "set (insert_item x ys) = insert x (set ys)"
  by (metis insert_item_mset set_mset_add_mset_insert set_mset_mset)

lemma insert_item_sorted:
  "sorted_wrt (\<lambda>a b. \<not> newer b a) ys \<Longrightarrow> sorted_wrt (\<lambda>a b. \<not> newer b a) (insert_item x ys)"
proof (induction ys)
  case (Cons y ys)
  then show ?case by (auto dest: newer_asym not_newer_trans)
qed simp

lemma sort_items_sorted: "sorted_wrt (\<lambda>a b. \<not> newer b a) (sort_items items)"
  unfolding sort_items_def by (induction items) (simp_all add: insert_item_sorted)

lemma annotate_pairs: "map mg_pair (annotate_from s b items slots xs) = map mg_pair xs"
  by (induction xs arbitrary: slots) (simp_all add: Let_def)

lemma annotate_member:
  assumes "i \<in> set (annotate_from s b items slots xs)"
  shows "\<exists>x \<in> set xs. mg_pair i = mg_pair x \<and> mg_UnavailableReason i = unavailable_reason s items x \<and>
    map snd (filter (\<lambda>(g, _). mg_ID i = g) (selection_roles b)) \<in> {p. prefix p (mg_ProtectedBy i)}"
  using assms
proof (induction xs arbitrary: slots)
  case (Cons x xs)
  define keep where "keep = (unavailable_reason s items x = [] \<and> IsKnownGood (mg_Status x) \<and> mg_Slot x \<notin> set slots)"
  from Cons.prems consider
      "i = x\<lparr>mg_UnavailableReason := unavailable_reason s items x,
            mg_ProtectedBy := map snd (filter (\<lambda>(g, _). mg_ID x = g) (selection_roles b)) @ (if keep then [''slot rollback''] else [])\<rparr>"
    | "i \<in> set (annotate_from s b items (if keep then mg_Slot x # slots else slots) xs)"
    unfolding annotate_from.simps Let_def keep_def set_simps by blast
  then show ?case
  proof cases
    case 1
    then show ?thesis by (intro bexI [of _ x]) simp_all
  next
    case 2
    from Cons.IH [OF this] show ?thesis by auto
  qed
qed simp

text \<open>The first bootable known-good generation of a slot is marked.\<close>

definition slot_keeper :: "ManagedGeneration \<Rightarrow> bool" where
  "slot_keeper i \<longleftrightarrow> mg_UnavailableReason i = [] \<and> IsKnownGood (mg_Status i)"

lemma annotate_keeper:
  assumes "i \<in> set (annotate_from s b items slots xs)" "slot_keeper i" "mg_Slot i \<notin> set slots"
  shows "\<exists>k \<in> set (annotate_from s b items slots xs).
    slot_keeper k \<and> mg_Slot k = mg_Slot i \<and> ''slot rollback'' \<in> set (mg_ProtectedBy k)"
  using assms
proof (induction xs arbitrary: slots)
  case (Cons x xs)
  let ?reason = "unavailable_reason s items x"
  let ?keep = "?reason = [] \<and> IsKnownGood (mg_Status x) \<and> mg_Slot x \<notin> set slots"
  show ?case
  proof (cases "?keep \<and> mg_Slot x = mg_Slot i")
    case True
    then show ?thesis by (auto simp: Let_def slot_keeper_def)
  next
    case False
    let ?slots = "if ?keep then mg_Slot x # slots else slots"
    have out: "mg_Slot i \<notin> set ?slots" using False Cons.prems(3) by auto
    have "i \<in> set (annotate_from s b items ?slots xs)"
      using Cons.prems False by (auto simp: Let_def slot_keeper_def split: if_splits)
    from Cons.IH [OF this Cons.prems(2) out] show ?thesis by (auto simp: Let_def)
  qed
qed simp

definition visible_names :: "node \<Rightarrow> string list" where
  "visible_names s = filter (\<lambda>n. \<not> HasPrefix n ''.'') (sort (map fst (nd_gens s)))"

lemma inspect_run:
  assumes "inspect env root b s = Inr items"
  obtains read sorted where
    "list_all2 (\<lambda>name i. ReadGeneration env root name s = Inr (mg_pair i)) (visible_names s) read"
    "sorted = sort_items read"
    "items = map (\<lambda>i. i\<lparr>mg_ProtectedBy := mg_ProtectedBy i @ referenced_by sorted i\<rparr>) (annotate_from s b sorted [] sorted)"
proof -
  from assms obtain read where r: "read_items env root s (sort (map fst (nd_gens s))) = Inr read"
      and i: "items = map (\<lambda>i. i\<lparr>mg_ProtectedBy := mg_ProtectedBy i @ referenced_by (sort_items read) i\<rparr>)
        (annotate_from s b (sort_items read) [] (sort_items read))"
    unfolding inspect_def Let_def by (auto simp: res_bind_Inr split: if_splits)
  from that [OF read_items_Inr [OF r, folded visible_names_def] refl i] show thesis .
qed

lemma inspect_pairs:
  assumes "inspect env root b s = Inr items"
  shows "\<exists>read. list_all2 (\<lambda>name i. ReadGeneration env root name s = Inr (mg_pair i)) (visible_names s) read \<and>
    map mg_pair items = map mg_pair (sort_items read)"
  using assms
proof (rule inspect_run)
  fix read sorted
  assume "items = map (\<lambda>i. i\<lparr>mg_ProtectedBy := mg_ProtectedBy i @ referenced_by sorted i\<rparr>) (annotate_from s b sorted [] sorted)"
    and "sorted = sort_items read"
    and "list_all2 (\<lambda>name i. ReadGeneration env root name s = Inr (mg_pair i)) (visible_names s) read"
  then show ?thesis by (intro exI [of _ read]) (simp add: comp_def annotate_pairs)
qed

lemma inspect_item_read:
  assumes "inspect env root b s = Inr items" "i \<in> set items"
  shows "\<exists>name \<in> set (visible_names s). ReadGeneration env root name s = Inr (mg_pair i)"
proof -
  from inspect_pairs [OF assms(1)] obtain read where
    rs: "list_all2 (\<lambda>name i. ReadGeneration env root name s = Inr (mg_pair i)) (visible_names s) read"
      "map mg_pair items = map mg_pair (sort_items read)" by blast
  from assms(2) have "mg_pair i \<in> set (map mg_pair items)" by simp
  then obtain x where x: "x \<in> set read" "mg_pair i = mg_pair x" unfolding rs(2) by auto
  from list_all2_right [OF rs(1) x(1)] show ?thesis unfolding x(2) .
qed

lemma inspect_item_listed:
  assumes "inspect env root b s = Inr items" "name \<in> set (visible_names s)"
  shows "\<exists>i \<in> set items. ReadGeneration env root name s = Inr (mg_pair i)"
proof -
  from inspect_pairs [OF assms(1)] obtain read where
    rs: "list_all2 (\<lambda>name i. ReadGeneration env root name s = Inr (mg_pair i)) (visible_names s) read"
      "map mg_pair items = map mg_pair (sort_items read)" by blast
  from list_all2_left [OF rs(1) assms(2)] obtain x where
    x: "x \<in> set read" "ReadGeneration env root name s = Inr (mg_pair x)" ..
  then have "mg_pair x \<in> set (map mg_pair items)" unfolding rs(2) by simp
  then obtain i where "i \<in> set items" "mg_pair x = mg_pair i" by auto
  with x show ?thesis by auto
qed

lemma inspect_length:
  assumes "inspect env root b s = Inr items"
  shows "length items = length (visible_names s)"
proof -
  from inspect_pairs [OF assms] obtain read where
    r: "list_all2 (\<lambda>name i. ReadGeneration env root name s = Inr (mg_pair i)) (visible_names s) read"
      "map mg_pair items = map mg_pair (sort_items read)" by blast
  from arg_cong [OF r(2), of length] have "length items = length (sort_items read)" by simp
  also have "\<dots> = length read" by (metis size_mset sort_items_mset)
  finally show ?thesis using list_all2_lengthD [OF r(1)] by simp
qed

lemma inspect_sorted:
  assumes "inspect env root b s = Inr items"
  shows "sorted_wrt (\<lambda>x y. \<not> newer y x) items"
proof -
  from inspect_pairs [OF assms] obtain read where
    eq: "map mg_pair items = map mg_pair (sort_items (read))" by blast
  define nw where "nw = (\<lambda>p q :: GenerationSpec \<times> GenerationStatus.
    \<not> newer (managed q) (managed p))"
  have nw: "nw (mg_pair x) (mg_pair y) = (\<not> newer y x)" for x y
    by (simp add: nw_def newer_def managed_def)
  have "sorted_wrt (\<lambda>x y. nw (mg_pair x) (mg_pair y)) (sort_items (read))"
    unfolding nw by (rule sort_items_sorted)
  then have "sorted_wrt nw (map mg_pair items)" unfolding eq sorted_wrt_map .
  then show ?thesis unfolding sorted_wrt_map nw .
qed

lemma inspect_annotated:
  assumes "inspect env root b s = Inr items" "i \<in> set items"
  obtains sorted x j where "x \<in> set sorted" "mg_pair i = mg_pair x" "mg_pair ` set sorted = mg_pair ` set items"
    "mg_UnavailableReason i = unavailable_reason s sorted x"
    "\<And>g role. (g, role) \<in> set (selection_roles b) \<Longrightarrow> mg_ID i = g \<Longrightarrow> mg_ProtectedBy i \<noteq> []"
    "j \<in> set (annotate_from s b sorted [] sorted)" "mg_ProtectedBy i = mg_ProtectedBy j @ referenced_by sorted j" "mg_pair j = mg_pair i"
  using assms(1)
proof (rule inspect_run)
  fix read sorted
  assume items: "items = map (\<lambda>i. i\<lparr>mg_ProtectedBy := mg_ProtectedBy i @ referenced_by sorted i\<rparr>) (annotate_from s b sorted [] sorted)"
  from assms(2) obtain j where j: "j \<in> set (annotate_from s b sorted [] sorted)"
      "i = j\<lparr>mg_ProtectedBy := mg_ProtectedBy j @ referenced_by sorted j\<rparr>" unfolding items by auto
  from annotate_member [OF j(1)] obtain x where x: "x \<in> set sorted" "mg_pair j = mg_pair x"
      "mg_UnavailableReason j = unavailable_reason s sorted x"
      "prefix (map snd (filter (\<lambda>(g, _). mg_ID j = g) (selection_roles b))) (mg_ProtectedBy j)" by blast
  have role: "mg_ProtectedBy i \<noteq> []" if "(g, role) \<in> set (selection_roles b)" "mg_ID i = g" for g role
  proof -
    have "(g, role) \<in> set (filter (\<lambda>(g, _). mg_ID j = g) (selection_roles b))" using that j(2) by simp
    then have "map snd (filter (\<lambda>(g, _). mg_ID j = g) (selection_roles b)) \<noteq> []" by force
    with x(4) j(2) show ?thesis by (auto simp: prefix_def)
  qed
  have "mg_pair ` set sorted = mg_pair ` set items"
    using annotate_pairs [of s b sorted "[]" sorted, THEN arg_cong, of set] unfolding items by (simp add: image_image)
  with x j role show thesis by (intro that [of x sorted j]) simp_all
qed

section \<open>Protection\<close>

lemma ReadGeneration_trimmed:
  assumes "ReadGeneration env root raw s = Inr (spec, st)"
  shows "TrimSpace (gs_GenerationID spec) = gs_GenerationID spec"
proof -
  from assms obtain g where k: "generation_key root raw = Inr g" and r: "ReadSplitRecords env g s = Inr (spec, st)"
    by (auto simp: ReadGeneration_Inr)
  from k have g: "TrimSpace g = g" by (auto simp: generation_key_Inr cleanSegment_Inr)
  show ?thesis
  proof (cases "gd_spec (gen_at s g) = NoFile")
    case True
    from r [unfolded ReadSplitRecords_legacy [OF True]] show ?thesis by (auto simp: SpecFromRecord_def Let_def)
  next
    case False
    from r [unfolded ReadSplitRecords_split [OF False]] g show ?thesis by auto
  qed
qed

lemma inspect_trimmed:
  assumes "inspect env root b s = Inr items" "i \<in> set items"
  shows "TrimSpace (mg_ID i) = mg_ID i"
  using inspect_item_read [OF assms] ReadGeneration_trimmed by blast

definition selected_ids :: "BootSelectionRecord \<Rightarrow> string set" where
  "selected_ids b =
     {bs_ActiveGenerationID b, bs_BootedGenerationID b, bs_DefaultGenerationID b, bs_TargetBootGenerationID b,
      bs_TrialGenerationID b, bs_PreviousKnownGoodGenerationID b}"

lemma inspect_selected_protected:
  assumes "inspect env root b s = Inr items" "i \<in> set items" "mg_ID i \<in> selected_ids b"
  shows "mg_ProtectedBy i \<noteq> []"
proof (rule inspect_annotated [OF assms(1,2)])
  assume roles: "\<And>g role. (g, role) \<in> set (selection_roles b) \<Longrightarrow> mg_ID i = g \<Longrightarrow> mg_ProtectedBy i \<noteq> []"
  have "selected_ids b = fst ` set (selection_roles b)" by (auto simp: selected_ids_def selection_roles_def)
  with assms(3) obtain role where "(mg_ID i, role) \<in> set (selection_roles b)" by auto
  from roles [OF this refl] show ?thesis .
qed

lemma owned_path: "HasPrefix (p @ ''/'') (owned_prefix g) \<longleftrightarrow> p = gen_path g \<or> HasPrefix p (owned_prefix g)"
proof -
  have "(\<exists>r. p @ ''/'' = q @ ''/'' @ r) \<longleftrightarrow> p = q \<or> (\<exists>r. p = q @ ''/'' @ r)" for q
  proof
    assume "\<exists>r. p @ ''/'' = q @ ''/'' @ r"
    then obtain r where "p @ ''/'' = q @ ''/'' @ r" ..
    then show "p = q \<or> (\<exists>r. p = q @ ''/'' @ r)" by (cases r rule: rev_cases) auto
  qed auto
  then show ?thesis by (simp add: owned_prefix_def gen_path_def HasPrefix_iff)
qed

lemma inspect_referenced_protected:
  assumes "inspect env root b s = Inr items" "i \<in> set items" "other \<in> set items" "mg_ID other \<noteq> mg_ID i"
    and "p \<in> set (ext_paths (mg_Spec other))" "p = gen_path (mg_ID i) \<or> HasPrefix p (owned_prefix (mg_ID i))"
  shows "mg_ProtectedBy i \<noteq> []"
proof (rule inspect_annotated [OF assms(1,2)])
  fix sorted j
  assume same: "mg_pair ` set sorted = mg_pair ` set items" and j: "mg_pair j = mg_pair i"
    and prot: "mg_ProtectedBy i = mg_ProtectedBy j @ referenced_by sorted j"
  from same assms(3) have "mg_pair other \<in> mg_pair ` set sorted" by blast
  then obtain o' where o': "mg_pair other = mg_pair o'" "o' \<in> set sorted" by (rule imageE)
  have "o' \<in> set (filter (\<lambda>other. mg_ID other \<noteq> mg_ID j \<and>
      list_ex (\<lambda>p. HasPrefix (p @ ''/'') (owned_prefix (mg_ID j))) (ext_paths (mg_Spec other))) sorted)"
    using o' j assms(4,5,6) owned_path by (auto simp: list_ex_iff)
  then have "referenced_by sorted j \<noteq> []" unfolding referenced_by_def by force
  with prot show ?thesis by simp
qed

lemma inspect_slot_keeper:
  assumes "inspect env root b s = Inr items" "i \<in> set items" "slot_keeper i"
  shows "\<exists>k \<in> set items. slot_keeper k \<and> mg_Slot k = mg_Slot i \<and> mg_ProtectedBy k \<noteq> []"
  using assms(1)
proof (rule inspect_run)
  fix sorted
  assume items: "items = map (\<lambda>i. i\<lparr>mg_ProtectedBy := mg_ProtectedBy i @ referenced_by sorted i\<rparr>) (annotate_from s b sorted [] sorted)"
  let ?f = "\<lambda>i. i\<lparr>mg_ProtectedBy := mg_ProtectedBy i @ referenced_by sorted i\<rparr>"
  from assms(2) obtain j where j: "j \<in> set (annotate_from s b sorted [] sorted)" "i = ?f j" unfolding items by auto
  with assms(3) have "slot_keeper j" by (simp add: slot_keeper_def)
  from annotate_keeper [OF j(1) this] obtain k where k: "k \<in> set (annotate_from s b sorted [] sorted)" "slot_keeper k"
      "mg_Slot k = mg_Slot j" "''slot rollback'' \<in> set (mg_ProtectedBy k)" by auto
  have "?f k \<in> set items" unfolding items using k(1) by simp
  moreover have "slot_keeper (?f k)" "mg_Slot (?f k) = mg_Slot i" "mg_ProtectedBy (?f k) \<noteq> []"
    using k j(2) by (auto simp: slot_keeper_def)
  ultimately show ?thesis by blast
qed

section \<open>Removal\<close>

text \<open>
  The frame of removal: the directories in \<open>G\<close> are as before and the paths that satisfy \<open>P\<close> are kept.
\<close>

definition spares :: "string set \<Rightarrow> (string \<Rightarrow> bool) \<Rightarrow> node \<Rightarrow> node \<Rightarrow> bool" where
  "spares G P s t \<longleftrightarrow>
     (\<forall>h \<in> G. gen_at t h = gen_at s h) \<and> (\<forall>p. p \<in> set (nd_paths s) \<and> P p \<longrightarrow> p \<in> set (nd_paths t))"

interpretation spares: io_frame "spares G P"
  by unfold_locales (auto simp: spares_def)

definition plain_file :: "string \<Rightarrow> bool" where
  "plain_file p \<longleftrightarrow> \<not> HasPrefix p (LoaderEntriesDir @ ''/'')"

definition owned :: "string \<Rightarrow> string \<Rightarrow> bool" where
  "owned g p \<longleftrightarrow> p = gen_path g \<or> HasPrefix p (owned_prefix g)"

lemma spares_syscall:
  "(\<And>s. spares G P s (f s)) \<Longrightarrow> io_rel (spares G P) (syscall f)"
  by (rule syscall_rel) (auto simp: spares_def)

lemma spares_setter: "io_rel (spares G P) (call_setter setter root entry)"
  by (rule io_relI) (auto simp: call_setter_def spares_def split: prod.splits option.splits)

lemma spares_withBootLock: "io_rel (spares G P) m \<Longrightarrow> io_rel (spares G P) (withBootLock m)"
  unfolding withBootLock_def by (intro spares.rel_then spares_syscall) (simp_all add: spares_def)

lemma spares_WriteBootSelection: "io_rel (spares G P) (WriteBootSelection root b)"
  unfolding WriteBootSelection_def by (intro spares.rel_rules spares_syscall) (simp add: spares_def)

lemma spares_clearRemovedPointers: "io_rel (spares G P) (clearRemovedPointers root b g)"
  unfolding clearRemovedPointers_def Let_def by (intro spares.rel_rules spares_WriteBootSelection)

lemma Base_no_slash: "Base p = ''/'' \<or> CHR ''/'' \<notin> set (Base p)"
proof -
  have "CHR ''/'' \<notin> set (last (split_slash q))" for q
    by (rule split_slash_no_slash [of _ q]) simp
  then show ?thesis by (simp add: Base_def)
qed

lemma entry_of_plain:
  assumes "entry_of base name" "name = ''/'' \<or> CHR ''/'' \<notin> set name"
  shows "plain_comp name"
proof -
  from assms(1) have "suffix ''.conf'' name"
    by (auto simp: entry_of_def suffix_def HasSuffix_iff)
  with assms(2) show ?thesis by (auto simp: plain_comp_def suffix_def)
qed

lemma entry_file_path: "plain_comp name \<Longrightarrow> PathJoin [LoaderEntriesDir, name] = LoaderEntriesDir @ ''/'' @ name"
proof -
  have "IsAbs LoaderEntriesDir" "comps LoaderEntriesDir = [''efi'', ''loader'', ''entries'']"
    by (code_simp, code_simp)
  then show "plain_comp name \<Longrightarrow> ?thesis" by (simp add: PathJoin_two LoaderEntriesDir_def)
qed

lemma spares_remove_path: "(\<And>q. P q \<Longrightarrow> q \<noteq> p) \<Longrightarrow> io_rel (spares G P) (remove_path p)"
  unfolding remove_path_def by (rule spares_syscall) (auto simp: spares_def)

lemma spares_removeEntries:
  assumes "\<And>p. P p \<Longrightarrow> plain_file p"
  shows "io_rel (spares G P) (removeEntries spec)"
proof -
  have "q \<noteq> PathJoin [LoaderEntriesDir, name]" if "name \<in> set (entry_names s)" "entry_of base name" "P q" for q name base s
  proof -
    from that(1) have "name = ''/'' \<or> CHR ''/'' \<notin> set name" using Base_no_slash by (auto simp: entry_names_def)
    from entry_file_path [OF entry_of_plain [OF that(2) this]] assms [OF that(3)]
    show ?thesis by (auto simp: plain_file_def HasPrefix_iff)
  qed
  then show ?thesis
    unfolding removeEntries_def Let_def sync_dir_def
    by (intro spares.rel_rules spares_remove_path spares_syscall) (auto simp: spares_def)
qed

lemma gen_at_more [simp]: "gen_at (s\<lparr>nd_tombstones := ts\<rparr>) h = gen_at s h"
  by (simp add: gen_at_def)

lemma hide_gen_other: "h \<noteq> g \<Longrightarrow> gen_at (hide_gen g s) h = gen_at s h"
  by (simp add: hide_gen_def gen_at_def delete_conv)

lemma spares_rename_gen:
  assumes "g \<notin> G" "\<And>p. P p \<Longrightarrow> \<not> owned g p"
  shows "io_rel (spares G P) (rename_gen g)"
proof -
  have "gen_at (hide_gen g s) h = gen_at s h" if "h \<in> G" for h s
    using that assms(1) by (intro hide_gen_other) auto
  then have "spares G P s (hide_gen g s)" for s
    unfolding spares_def using assms(2) by (auto simp: hide_gen_def owned_def)
  then show ?thesis unfolding rename_gen_def by (intro spares.rel_rules spares_syscall)
qed

lemma generation_key_trim: "generation_key root raw = Inr g \<Longrightarrow> g = TrimSpace raw"
  by (auto simp: generation_key_Inr cleanSegment_Inr)

lemma spares_remove_generation:
  assumes "TrimSpace (gs_GenerationID spec) \<notin> G" "\<And>p. P p \<Longrightarrow> plain_file p \<and> \<not> owned (TrimSpace (gs_GenerationID spec)) p"
  shows "io_rel (spares G P) (remove_generation root spec)"
proof -
  let ?g = "TrimSpace (gs_GenerationID spec)"
  have key: "io_bind (io_lift (generation_key root (gs_GenerationID spec))) f =
      (case generation_key root (gs_GenerationID spec) of Inl e \<Rightarrow> io_err e | Inr _ \<Rightarrow> f ?g)" for f :: "string \<Rightarrow> (node, unit) io"
    using generation_key_trim [of root "gs_GenerationID spec"]
    by (cases "generation_key root (gs_GenerationID spec)") (auto simp: io_bind_def io_lift_def io_err_def)
  have "io_rel (spares G P) (purge_tombstone ?g)"
    unfolding purge_tombstone_def by (rule spares_syscall) (simp add: spares_def)
  moreover have "io_rel (spares G P) (rename_gen ?g)" using assms by (intro spares_rename_gen) auto
  ultimately show ?thesis
    unfolding remove_generation_def key using assms(2)
    by (intro spares.rel_rules spares_removeEntries) auto
qed

lemma spares_prune_items:
  assumes "\<And>i. i \<in> set items \<Longrightarrow> mg_ProtectedBy i = [] \<Longrightarrow> io_rel (spares G P) (remove_generation root (mg_Spec i))"
  shows "io_rel (spares G P) (prune_items root n age now counts b removed items)"
  using assms
proof (induction items arbitrary: counts b removed)
  case (Cons i items)
  have rest: "io_rel (spares G P) (prune_items root n age now counts' b' removed' items)" for counts' b' removed'
    by (rule Cons.IH) (simp add: Cons.prems)
  have "mg_ProtectedBy i = [] \<Longrightarrow> io_rel (spares G P) (remove_generation root (mg_Spec i))" by (simp add: Cons.prems)
  then show ?case
    unfolding prune_items.simps Let_def
    by (intro spares.rel_rules rest spares_clearRemovedPointers) auto
qed (simp add: spares.rel_pure)

section \<open>The listing ignores the fault schedule\<close>

lemma read_items_faults: "read_items env root (s\<lparr>nd_faults := fs\<rparr>) names = read_items env root s names"
proof -
  have "ReadGeneration env root name (s\<lparr>nd_faults := fs\<rparr>) = ReadGeneration env root name s" for name
    by (rule ReadGeneration_same) (simp add: same_gens_def)
  then show ?thesis by (induction names) simp_all
qed

lemma stat_ok_faults: "stat_ok (s\<lparr>nd_faults := fs\<rparr>) = stat_ok s"
  by (simp add: stat_ok_def fun_eq_iff)

lemma annotate_faults: "annotate_from (s\<lparr>nd_faults := fs\<rparr>) b items slots xs = annotate_from s b items slots xs"
proof -
  have "unavailable_reason (s\<lparr>nd_faults := fs\<rparr>) items = unavailable_reason s items"
    by (simp add: unavailable_reason_def stat_ok_faults fun_eq_iff)
  then show ?thesis by (induction xs arbitrary: slots) (simp_all only: annotate_from.simps)
qed

lemma inspect_faults [simp]: "inspect env root b (s\<lparr>nd_faults := fs\<rparr>) = inspect env root b s"
  by (simp add: inspect_def read_items_faults annotate_faults)

lemma ReadBootSelection_faults [simp]: "ReadBootSelection root (s\<lparr>nd_faults := fs\<rparr>) = ReadBootSelection root s"
  by (simp add: ReadBootSelection_def)

lemma withBootLock_cases:
  assumes "withBootLock m s = (r, t)"
  obtains (failed) e where "r = Inl e" "only_faults s t"
    | (ran) fs where "m (s\<lparr>nd_faults := fs\<rparr>) = (r, t)"
proof (cases "syscall (\<lambda>s. s) s")
  case (Pair r' u)
  from Pair show thesis
  proof (cases rule: syscall_cases)
    case (ok fs)
    with assms Pair show thesis by (intro ran [of fs]) (simp add: withBootLock_def io_then_def io_bind_def)
  next
    case (before fs m)
    with assms Pair show thesis by (intro failed [of "OsError m"]) (auto simp: withBootLock_def io_then_def io_bind_def)
  next
    case (after fs m)
    with assms Pair show thesis by (intro failed [of "OsError m"]) (auto simp: withBootLock_def io_then_def io_bind_def)
  qed
qed

section \<open>What removal spares\<close>

text \<open>
  The directories and the files that a removal guided by the listing \<open>items\<close> must leave alone.
\<close>

definition spared :: "ManagedGeneration list \<Rightarrow> string set" where
  "spared items = {h. \<forall>i \<in> set items. mg_ID i = h \<longrightarrow> mg_ProtectedBy i \<noteq> []}"

definition spared_path :: "ManagedGeneration list \<Rightarrow> string \<Rightarrow> bool" where
  "spared_path items p \<longleftrightarrow> plain_file p \<and> (\<forall>i \<in> set items. mg_ProtectedBy i = [] \<longrightarrow> \<not> owned (mg_ID i) p)"

lemma spares_mono: "spares G P s t \<Longrightarrow> G' \<subseteq> G \<Longrightarrow> (\<And>p. P' p \<Longrightarrow> P p) \<Longrightarrow> spares G' P' s t"
  by (auto simp: spares_def)

lemma spares_only_faults: "only_faults s t \<Longrightarrow> spares G P s t"
  by (auto simp: only_faults_def spares_def)

lemma spares_faults: "spares G P (s\<lparr>nd_faults := fs\<rparr>) t = spares G P s t"
  by (simp add: spares_def)

lemma spares_remove_item:
  assumes "inspect env root b s = Inr items" "i \<in> set items" "mg_ProtectedBy i = []"
  shows "io_rel (spares (- {mg_ID i}) (spared_path items)) (remove_generation root (mg_Spec i))"
    "io_rel (spares (spared items) (spared_path items)) (remove_generation root (mg_Spec i))"
  using assms inspect_trimmed [OF assms(1,2)]
  by (auto intro!: spares_remove_generation simp: spared_def spared_path_def)

theorem Remove_spares:
  assumes run: "Remove env root g s = (r, t)" and b: "ReadBootSelection root s = Inr b"
    and items: "inspect env root b s = Inr items"
  shows "spares (spared items \<union> - {g}) (spared_path items) s t"
proof (cases "cleanSegment ''generation id'' g")
  case (Inl e)
  with run have "t = s" by (auto simp: Remove_def io_bind_def io_lift_def)
  then show ?thesis by (simp add: spares.frame_refl)
next
  case (Inr v)
  have rel: "io_rel (spares (spared items \<union> - {g}) (spared_path items)) (remove_listed root g b items)"
  proof (cases "find (\<lambda>i. mg_ID i = g) items")
    case None
    then show ?thesis by (simp add: remove_listed_def spares.rel_pure)
  next
    case (Some i)
    then have i: "i \<in> set items" "mg_ID i = g" by (auto simp: find_Some_iff)
    show ?thesis
    proof (cases "mg_ProtectedBy i = []")
      case True
      then have "spared items \<union> - {g} = - {mg_ID i}" using i by (auto simp: spared_def)
      then show ?thesis
        using spares_remove_item(1) [OF items i(1) True] Some
        by (simp add: remove_listed_def spares.rel_then spares.rel_pure spares_clearRemovedPointers)
    next
      case False
      with Some show ?thesis
        by (simp add: remove_listed_def io_rel_def io_then_def io_bind_def io_reject_def io_need_def reject_def spares.frame_refl)
    qed
  qed
  let ?reject = "io_reject (bs_PendingHealthValidation b \<or> bs_RecoveryRequired b)
        ''finish the pending boot or recover boot health before removing generations'' []"
  from run Inr have "withBootLock
       (io_bind (io_get (ReadBootSelection root)) (\<lambda>sr.
        io_bind (io_lift sr) (\<lambda>b.
        io_then (io_reject (bs_PendingHealthValidation b \<or> bs_RecoveryRequired b)
                   ''finish the pending boot or recover boot health before removing generations'' [])
        (io_bind (io_get (inspect env root b)) (\<lambda>ir.
         io_bind (io_lift ir) (remove_listed root g b)))))) s = (r, t)"
    by (simp add: Remove_def io_bind_def io_lift_def)
  then show ?thesis
  proof (cases rule: withBootLock_cases)
    case (failed e)
    then show ?thesis by (simp add: spares_only_faults)
  next
    case (ran fs)
    then have "io_then ?reject (remove_listed root g b items) (s\<lparr>nd_faults := fs\<rparr>) = (r, t)"
      using b items
      by (auto simp: io_bind_def io_then_def io_get_def io_lift_def io_reject_def io_need_def split: option.splits)
    from io_relD [OF spares.rel_then [OF spares.rel_pure(7) rel] this] show ?thesis by (simp add: spares_faults)
  qed
qed

lemma caught_run:
  "io_bind (io_catch m) (\<lambda>r. case r of Inl e \<Rightarrow> io_ok (f e) | Inr x \<Rightarrow> io_ok x) s = (r, t) \<Longrightarrow> \<exists>r'. m s = (r', t)"
  by (auto simp: io_bind_def io_catch_def io_ok_def split: prod.splits sum.splits)

theorem Prune_spares:
  assumes run: "Prune ParseDuration env root policy now s = (r, t)" and b: "ReadBootSelection root s = Inr b"
    and items: "inspect env root b s = Inr items"
  shows "spares (spared items) (spared_path items) s t"
proof (cases "Retention_Limits ParseDuration policy")
  case (Inl e)
  with run have "t = s" by (simp add: Prune_def io_ok_def)
  then show ?thesis by (simp add: spares.frame_refl)
next
  case (Inr limits)
  then obtain n age where limits: "Retention_Limits ParseDuration policy = Inr (n, age)" by (cases limits) auto
  have rel: "io_rel (spares (spared items) (spared_path items)) (prune_items root n age now (\<lambda>_. 0) b [] items)"
    by (rule spares_prune_items) (rule spares_remove_item(2) [OF items])
  from run limits obtain r' where "withBootLock
            (io_bind (io_get (ReadBootSelection root)) (\<lambda>sr.
             io_bind (io_lift sr) (\<lambda>b.
             if bs_PendingHealthValidation b \<or> bs_RecoveryRequired b then io_ok ([], None)
             else io_bind (io_get (inspect env root b)) (\<lambda>ir.
                  io_bind (io_lift ir) (\<lambda>items. prune_items root n age now (\<lambda>_. 0) b [] items))))) s = (r', t)"
    unfolding Prune_def using caught_run by fastforce
  then show ?thesis
  proof (cases rule: withBootLock_cases)
    case (failed e)
    then show ?thesis by (simp add: spares_only_faults)
  next
    case (ran fs)
    then have "t = s\<lparr>nd_faults := fs\<rparr> \<or> prune_items root n age now (\<lambda>_. 0) b [] items (s\<lparr>nd_faults := fs\<rparr>) = (r', t)"
      using b items by (auto simp: io_bind_def io_get_def io_lift_def io_ok_def split: if_splits)
    then show ?thesis using io_relD [OF rel, of "s\<lparr>nd_faults := fs\<rparr>"]
      by (auto simp: spares_faults spares_only_faults)
  qed
qed

section \<open>Protected generations survive\<close>

lemma Remove_unlisted:
  assumes "Remove env root g s = (r, t)" "ReadBootSelection root s = Inr b" "inspect env root b s = Inl e"
  shows "only_faults s t"
proof (cases "cleanSegment ''generation id'' g")
  case (Inl e)
  with assms(1) show ?thesis by (simp add: Remove_def io_bind_def io_lift_def)
next
  case (Inr v)
  with assms(1) have "withBootLock
       (io_bind (io_get (ReadBootSelection root)) (\<lambda>sr.
        io_bind (io_lift sr) (\<lambda>b.
        io_then (io_reject (bs_PendingHealthValidation b \<or> bs_RecoveryRequired b)
                   ''finish the pending boot or recover boot health before removing generations'' [])
        (io_bind (io_get (inspect env root b)) (\<lambda>ir.
         io_bind (io_lift ir) (remove_listed root g b)))))) s = (r, t)"
    by (simp add: Remove_def io_bind_def io_lift_def)
  then show ?thesis
  proof (cases rule: withBootLock_cases)
    case (ran fs)
    with assms(2,3) have "t = s\<lparr>nd_faults := fs\<rparr>"
      by (auto simp: io_bind_def io_then_def io_get_def io_lift_def io_reject_def io_need_def split: option.splits)
    then show ?thesis by simp
  qed
qed

lemma Remove_selected:
  assumes run: "Remove env root g s = (r, t)" and b: "ReadBootSelection root s = Inr b" and h: "h \<in> selected_ids b"
  shows "gen_at t h = gen_at s h"
proof (cases "inspect env root b s")
  case (Inl e)
  with Remove_unlisted [OF run b] show ?thesis by (simp add: only_faults_fields)
next
  case (Inr items)
  have "h \<in> spared items" using inspect_selected_protected [OF Inr] h by (auto simp: spared_def)
  with Remove_spares [OF run b Inr] show ?thesis by (auto simp: spares_def)
qed

lemma Prune_unlisted:
  assumes run: "Prune P env root policy now s = (r, t)" and "ReadBootSelection root s = Inr b" "inspect env root b s = Inl e"
  shows "only_faults s t"
proof (cases "Retention_Limits P policy")
  case (Inl e)
  with run show ?thesis by (simp add: Prune_def io_ok_def)
next
  case (Inr limits)
  then obtain n age where limits: "Retention_Limits P policy = Inr (n, age)" by (cases limits) auto
  from run limits obtain r' where "withBootLock
            (io_bind (io_get (ReadBootSelection root)) (\<lambda>sr.
             io_bind (io_lift sr) (\<lambda>b.
             if bs_PendingHealthValidation b \<or> bs_RecoveryRequired b then io_ok ([], None)
             else io_bind (io_get (inspect env root b)) (\<lambda>ir.
                  io_bind (io_lift ir) (\<lambda>items. prune_items root n age now (\<lambda>_. 0) b [] items))))) s = (r', t)"
    unfolding Prune_def using caught_run by fastforce
  then show ?thesis
  proof (cases rule: withBootLock_cases)
    case (ran fs)
    with assms(2,3) have "t = s\<lparr>nd_faults := fs\<rparr>"
      by (auto simp: io_bind_def io_get_def io_lift_def io_ok_def split: if_splits)
    then show ?thesis by simp
  qed
qed

lemma Prune_selected:
  assumes run: "Prune P env root policy now s = (r, t)" and b: "ReadBootSelection root s = Inr b" and h: "h \<in> selected_ids b"
  shows "gen_at t h = gen_at s h"
proof (cases "inspect env root b s")
  case (Inl e)
  with Prune_unlisted [OF run b] show ?thesis by (simp add: only_faults_fields)
next
  case (Inr items)
  have "h \<in> spared items" using inspect_selected_protected [OF Inr] h by (auto simp: spared_def)
  with Prune_spares [OF run b Inr] show ?thesis by (auto simp: spares_def)
qed

lemma shared_path_spared:
  assumes items: "inspect env root b s = Inr items" and "other \<in> set items" "p \<in> set (ext_paths (mg_Spec other))"
    and "plain_file p" "mg_ID other \<in> spared items"
  shows "spared_path items p"
  unfolding spared_path_def
proof (intro conjI ballI impI notI)
  fix i assume i: "i \<in> set items" "mg_ProtectedBy i = []" "owned (mg_ID i) p"
  show False
  proof (cases "mg_ID other = mg_ID i")
    case True
    with i assms(5) show False by (auto simp: spared_def)
  next
    case False
    from inspect_referenced_protected [OF items i(1) assms(2) False assms(3)] i(2,3) show False by (auto simp: owned_def)
  qed
qed fact

lemma Prune_shared_files:
  assumes run: "Prune P env root policy now s = (r, t)" and b: "ReadBootSelection root s = Inr b"
    and items: "inspect env root b s = Inr items" and "other \<in> set items" "p \<in> set (ext_paths (mg_Spec other))"
    and "plain_file p" "mg_ID other \<in> spared items" "p \<in> set (nd_paths s)"
  shows "p \<in> set (nd_paths t)"
  using Prune_spares [OF run b items] shared_path_spared [OF items assms(4,5,6,7)] assms(8) by (auto simp: spares_def)

text \<open>Some bootable known-good generation of every slot that had one is left alone.\<close>

lemma Prune_slot_rollback:
  assumes run: "Prune P env root policy now s = (r, t)" and b: "ReadBootSelection root s = Inr b"
    and items: "inspect env root b s = Inr items" and i: "i \<in> set items" "slot_keeper i"
    and ids: "distinct (map mg_ID items)"
  shows "\<exists>k \<in> set items. slot_keeper k \<and> mg_Slot k = mg_Slot i \<and> gen_at t (mg_ID k) = gen_at s (mg_ID k)"
proof -
  from inspect_slot_keeper [OF items i] obtain k where k: "k \<in> set items" "slot_keeper k" "mg_Slot k = mg_Slot i"
    "mg_ProtectedBy k \<noteq> []" by blast
  have "inj_on mg_ID (set items)" using ids by (simp add: distinct_map)
  then have "mg_ID k \<in> spared items" using k(1,4) by (auto simp: spared_def dest: inj_onD)
  with Prune_spares [OF run b items] k show ?thesis by (auto simp: spares_def)
qed

section \<open>Retention\<close>

text \<open>The number of items of the same version and flavour that the listing shows before this one.\<close>

definition newer_peers :: "ManagedGeneration list \<Rightarrow> ManagedGeneration \<Rightarrow> int" where
  "newer_peers pre i = int (length (filter (\<lambda>j. prune_key j = prune_key i) pre))"

lemma newer_peers_Cons: "newer_peers (j # pre) i = (if prune_key j = prune_key i then 1 else 0) + newer_peers pre i"
  by (simp add: newer_peers_def)

lemma prune_items_removed:
  assumes "prune_items root n age now counts b removed items s = (Inr (out, e), t)" "g \<in> set out"
  shows "g \<in> set removed \<or> (\<exists>pre i post. items = pre @ i # post \<and> mg_ID i = g \<and> mg_ProtectedBy i = [] \<and>
    \<not> within_retention n age now (counts (prune_key i) + newer_peers pre i + 1) i)"
  using assms
proof (induction items arbitrary: counts b removed s)
  case (Cons i items)
  let ?counts = "counts(prune_key i := counts (prune_key i) + 1)"
  have step: "g \<in> set removed' \<or> (\<exists>pre j post. i # items = pre @ j # post \<and> mg_ID j = g \<and> mg_ProtectedBy j = [] \<and>
      \<not> within_retention n age now (counts (prune_key j) + newer_peers pre j + 1) j)"
    if run: "prune_items root n age now ?counts b' removed' items s' = (Inr (out, e), t)" for b' removed' s'
  proof -
    from Cons.IH [OF run Cons.prems(2)] consider "g \<in> set removed'" | pre j post where "items = pre @ j # post" "mg_ID j = g"
        "mg_ProtectedBy j = []" "\<not> within_retention n age now (?counts (prune_key j) + newer_peers pre j + 1) j" by blast
    then show ?thesis
    proof cases
      case 2
      have "?counts (prune_key j) + newer_peers pre j + 1 = counts (prune_key j) + newer_peers (i # pre) j + 1"
        by (simp add: newer_peers_Cons)
      with 2 have "i # items = (i # pre) @ j # post \<and> mg_ID j = g \<and> mg_ProtectedBy j = [] \<and>
          \<not> within_retention n age now (counts (prune_key j) + newer_peers (i # pre) j + 1) j" by simp
      then show ?thesis by blast
    qed simp
  qed
  let ?keep = "mg_ProtectedBy i \<noteq> [] \<or> within_retention n age now (counts (prune_key i) + 1) i"
  show ?case
  proof (cases ?keep)
    case True
    with Cons.prems(1) have "prune_items root n age now ?counts b removed items s = (Inr (out, e), t)"
      by (simp add: Let_def)
    from step [OF this] show ?thesis .
  next
    case False
    with Cons.prems(1) consider "out = removed"
      | b' s' where "prune_items root n age now ?counts b' (removed @ [mg_ID i]) items s' = (Inr (out, e), t)"
      by (auto simp: Let_def io_bind_def io_catch_def io_ok_def split: prod.splits sum.splits)
    then show ?thesis
    proof cases
      case 1
      with Cons.prems(2) show ?thesis by simp
    next
      case 2
      have "i # items = [] @ i # items \<and> mg_ProtectedBy i = [] \<and>
          \<not> within_retention n age now (counts (prune_key i) + newer_peers [] i + 1) i"
        using False by (simp add: newer_peers_def)
      then have here: "\<exists>pre j post. i # items = pre @ j # post \<and> mg_ID j = mg_ID i \<and> mg_ProtectedBy j = [] \<and>
          \<not> within_retention n age now (counts (prune_key j) + newer_peers pre j + 1) j" by blast
      from step [OF 2] show ?thesis
      proof
        assume "g \<in> set (removed @ [mg_ID i])"
        then show ?thesis using here by auto
      qed simp
    qed
  qed
qed (simp add: io_ok_def)

lemma Retention_Limits_bounds:
  assumes "Retention_Limits ParseDuration policy = Inr (n, age)"
  shows "1 \<le> n \<and> 0 \<le> age \<and> (rt_MaxAge policy = [] \<or> HasSuffix (rt_MaxAge policy) ''d'' \<longrightarrow> age \<le> 2 ^ 63 - 1)"
proof -
  have "day_ns * ((2 ^ 63 - 1) div day_ns) \<le> 2 ^ 63 - 1" "0 \<le> day_ns" "30 * day_ns \<le> 2 ^ 63 - 1" by (simp_all add: day_ns_def)
  moreover have "d * day_ns \<le> 2 ^ 63 - 1" if "d \<le> (2 ^ 63 - 1) div day_ns" for d
    using that by (simp add: day_ns_def)
  ultimately show ?thesis
    using assms by (auto simp: Retention_Limits_def Let_def res_bind_Inr split: option.splits if_splits sum.splits)
qed

section \<open>Frames of the management operations\<close>

lemma evolves_removeEntries: "io_rel evolves (removeEntries spec)"
  unfolding removeEntries_def Let_def remove_path_def sync_dir_def
  by (intro evolves.rel_rules evolves_syscall_other) simp_all

lemma ok_removeEntries: "io_rel (keeps (store_ok env)) (removeEntries spec)"
  unfolding removeEntries_def Let_def remove_path_def sync_dir_def
  by (intro keeps.rel_rules ok_syscall_other) simp_all

lemma gens_ok_hide: "gens_ok env s \<Longrightarrow> gens_ok env (hide_gen g s)"
  unfolding gens_ok_def
proof
  fix h assume a: "\<forall>g. gen_ok env g (gen_at s g)"
  show "gen_ok env h (gen_at (hide_gen g s) h)"
  proof (cases "h = g")
    case True
    then have "gen_at (hide_gen g s) h = empty_gen" by (simp add: hide_gen_def gen_at_def delete_conv)
    then show ?thesis by simp
  qed (simp add: a hide_gen_other)
qed

lemma ok_remove_generation: "io_rel (keeps (store_ok env)) (remove_generation root spec)"
proof -
  have hide: "io_rel (keeps (store_ok env)) (syscall (hide_gen g))" for g
    by (rule syscall_rel) (auto simp: keeps_def store_ok_def selection_ok_def hide_gen_def [of g, THEN arg_cong, of nd_selection]
        intro!: gens_ok_hide, simp_all add: gens_ok_def)
  have purge: "io_rel (keeps (store_ok env)) (purge_tombstone g)" for g
    unfolding purge_tombstone_def by (rule ok_syscall_other) simp_all
  show ?thesis
    unfolding remove_generation_def rename_gen_def by (intro keeps.rel_rules ok_removeEntries hide purge)
qed

lemma evolves_clearRemovedPointers: "io_rel evolves (clearRemovedPointers root b g)"
  unfolding clearRemovedPointers_def Let_def by (intro evolves.rel_rules evolves_ops)

lemma ok_clearRemovedPointers: "io_rel (keeps (store_ok env)) (clearRemovedPointers root b g)"
  unfolding clearRemovedPointers_def Let_def by (intro keeps.rel_rules ok_ops)

lemma evolves_Select: "io_rel evolves (Select env q)"
  unfolding Select_def select_listed_def select_commit_def Let_def by (intro evolves.rel_rules evolves_ops)

lemma ok_Select: "io_rel (keeps (store_ok env)) (Select env q)"
  unfolding Select_def select_listed_def select_commit_def Let_def by (intro keeps.rel_rules ok_ops)

lemma ok_Remove: "io_rel (keeps (store_ok env)) (Remove env root g)"
  unfolding Remove_def remove_listed_def
  by (intro keeps.rel_rules ok_ops ok_clearRemovedPointers ok_remove_generation)

lemma ok_prune_items: "io_rel (keeps (store_ok env)) (prune_items root n age now counts b removed items)"
  by (induction items arbitrary: counts b removed)
    (auto simp: Let_def keeps.rel_pure intro!: keeps.rel_rules ok_clearRemovedPointers ok_remove_generation)

lemma ok_Prune: "io_rel (keeps (store_ok env)) (Prune P env root policy now)"
  unfolding Prune_def by (intro keeps.rel_rules ok_ops ok_prune_items)

lemma evolves_InvalidateSlot: "io_rel evolves (InvalidateSlot env root uuid now f h)"
  unfolding InvalidateSlot_def invalidate_listed_def leave_slot_def invalidate_item_def Let_def
  by (intro evolves.rel_rules evolves_ops evolves_removeEntries)

lemma ok_InvalidateSlot: "io_rel (keeps (store_ok env)) (InvalidateSlot env root uuid now f h)"
  unfolding InvalidateSlot_def invalidate_listed_def leave_slot_def invalidate_item_def Let_def
  by (intro keeps.rel_rules ok_ops ok_removeEntries)

lemma evolves_ValidateMutationBase: "io_rel evolves (ValidateMutationBase env root expected)"
  unfolding ValidateMutationBase_def Let_def by (intro evolves.rel_rules evolves_ops)

lemma ok_ValidateMutationBase: "io_rel (keeps (store_ok env)) (ValidateMutationBase env root expected)"
  unfolding ValidateMutationBase_def Let_def by (intro keeps.rel_rules ok_ops)

lemma evolves_Initialize: "io_rel evolves (Initialize env root spec)"
  unfolding Initialize_def by (intro evolves.rel_rules evolves_ops)

lemma ok_Initialize: "io_rel (keeps (store_ok env)) (Initialize env root spec)"
  unfolding Initialize_def by (intro keeps.rel_rules ok_ops)

section \<open>Outcomes\<close>

theorem Select_outcome:
  assumes "Select env q s = (Inr u, t)"
  shows "\<exists>b items i. ReadBootSelection (sq_Root q) s = Inr b \<and> inspect env (sq_Root q) b s = Inr items \<and> i \<in> set items \<and>
    mg_ID i = sq_GenerationID q \<and> mg_UnavailableReason i = [] \<and> IsKnownGood (mg_Status i) \<and>
    \<not> bs_PendingHealthValidation b \<and> \<not> bs_RecoveryRequired b \<and> same_gens s t \<and>
    nd_selection t = File (selected_selection (en_now env) q (mg_Spec i) b)"
proof -
  from withBootLock_Inr [OF assms [unfolded Select_def]] obtain fs b items where
      b: "ReadBootSelection (sq_Root q) s = Inr b" "\<not> bs_PendingHealthValidation b" "\<not> bs_RecoveryRequired b"
      and items: "inspect env (sq_Root q) b s = Inr items" and run: "select_listed env q b items (s\<lparr>nd_faults := fs\<rparr>) = (Inr u, t)"
    by (auto simp: io_bind_Inr io_then_Inr io_get_run io_lift_run io_reject_Inr)
  from run obtain i where find: "find (\<lambda>i. mg_ID i = sq_GenerationID q) items = Some i"
    by (auto simp: select_listed_def io_fail_run split: option.splits)
  with run have good: "mg_UnavailableReason i = []" "IsKnownGood (mg_Status i)"
    by (auto simp: select_listed_def io_then_Inr io_reject_Inr)
  from run find obtain f h where
      c: "select_commit q f h b (selected_selection (en_now env) q (mg_Spec i) b) (s\<lparr>nd_faults := fs\<rparr>) = (Inr u, t)"
    by (auto simp: select_listed_def io_then_Inr io_reject_Inr io_fail_run split: option.splits)
  let ?final = "selected_selection (en_now env) q (mg_Spec i) b"
  have join: "errorsJoin [Some e, x] \<noteq> None" for e x by (simp add: errorsJoin_def)
  from c obtain s1 where w: "WriteBootSelection (sq_Root q) ?final (s\<lparr>nd_faults := fs\<rparr>) = (Inr (), s1)"
      and set: "io_then (io_when (\<not> sq_OneShot q) (call_setter f (sq_Root q) (bs_DefaultBootEntry ?final)))
                  (call_setter h (sq_Root q) (bs_TargetBootEntry ?final)) s1 = (Inr (), t)"
    unfolding select_commit_def Let_def io_then_Inr [of "WriteBootSelection _ _"]
    by (auto simp: io_bind_Inr io_catch_run io_ok_run io_need_Inr join split: sum.splits) (metis (full_types) obj_sumE old.unit.exhaust)
  from WriteBootSelection_Inr [OF w] obtain fs' where s1: "s1 = s\<lparr>nd_faults := fs', nd_selection := File ?final\<rparr>" by auto
  from set have "same_gens s1 t \<and> nd_selection t = nd_selection s1"
    by (auto simp: io_run dest!: call_setter_Inr split: if_splits)
  then have "same_gens s t" "nd_selection t = File ?final" using s1 by (auto simp: same_gens_def)
  moreover from find have "i \<in> set items" "mg_ID i = sq_GenerationID q" by (auto simp: find_Some_iff)
  ultimately show ?thesis using b items good by blast
qed

theorem mutation_base_outcome:
  assumes "ValidateMutationBase env root expected s = (Inr u, t)"
  shows "\<exists>b items. ReadBootSelection root s = Inr b \<and> inspect env root b s = Inr items \<and> only_faults s t \<and>
    \<not> bs_RecoveryRequired b \<and> \<not> bs_PendingHealthValidation b \<and> bs_TrialGenerationID b = [] \<and>
    (expected \<noteq> [] \<longrightarrow> mutation_base b = expected) \<and>
    bs_TargetBootGenerationID b \<in> {[], mutation_base b} \<and>
    (\<forall>i \<in> set items. st_CommitState (mg_Status i) \<noteq> CommitStateCandidate)"
proof -
  from withBootLock_Inr [OF assms [unfolded ValidateMutationBase_def Let_def]] obtain fs b items where
      "ReadBootSelection root s = Inr b" "inspect env root b s = Inr items" "t = s\<lparr>nd_faults := fs\<rparr>"
      "\<not> bs_RecoveryRequired b" "\<not> bs_PendingHealthValidation b" "bs_TrialGenerationID b = []"
      "expected \<noteq> [] \<longrightarrow> mutation_base b = expected" "bs_TargetBootGenerationID b = [] \<or> bs_TargetBootGenerationID b = mutation_base b"
      "each_error (\<lambda>i. reject (st_CommitState (mg_Status i) = CommitStateCandidate)
              ''candidate generation %q is pending; complete it or explicitly remove it before applying configuration or upgrading''
              [mg_ID i]) items = None"
    by (auto simp: io_bind_Inr io_then_Inr io_get_run io_lift_run io_reject_Inr io_need_Inr)
  then show ?thesis by (intro exI [of _ b] exI [of _ items]) (auto simp: each_error_None)
qed

text \<open>A loop whose body establishes a fact for its element and destroys none establishes them all.\<close>

lemma io_each_establish:
  assumes "io_each f xs s = (Inr u, t)"
    and "\<And>x s t. f x s = (Inr (), t) \<Longrightarrow> Q x t" "\<And>x y s t. f x s = (Inr (), t) \<Longrightarrow> Q y s \<Longrightarrow> Q y t"
  shows "(\<forall>x \<in> set xs. Q x t) \<and> (\<forall>y. Q y s \<longrightarrow> Q y t)"
  using assms(1)
proof (induction xs arbitrary: s)
  case (Cons x xs)
  then obtain s1 where x: "f x s = (Inr (), s1)" and xs: "io_each f xs s1 = (Inr u, t)" by (auto simp: io_then_Inr)
  from Cons.IH [OF xs] assms(2) [OF x] assms(3) [OF x] show ?case by auto
qed (simp add: io_ok_run)

definition same_selection :: "node \<Rightarrow> node \<Rightarrow> bool" where
  "same_selection s t \<longleftrightarrow> nd_selection t = nd_selection s"

interpretation same_selection: io_frame same_selection
  by unfold_locales (auto simp: same_selection_def)

lemma same_selection_removeEntries: "io_rel same_selection (removeEntries spec)"
  unfolding removeEntries_def Let_def remove_path_def sync_dir_def
  by (intro same_selection.rel_rules syscall_rel) (simp_all add: same_selection_def)

lemma same_selection_status: "io_rel same_selection (WriteGenerationStatus env root spec st)"
  using WriteGenerationStatus_frame(1) unfolding io_rel_def same_selection_def by (metis prod.collapse)

lemma same_gens_removeEntries: "removeEntries spec s = (r, t) \<Longrightarrow> gen_at t g = gen_at s g"
proof -
  have "io_rel (spares UNIV (\<lambda>_. False)) (removeEntries spec)" by (rule spares_removeEntries) simp
  then show "removeEntries spec s = (r, t) \<Longrightarrow> gen_at t g = gen_at s g" by (auto simp: spares_def dest: io_relD)
qed

text \<open>The status file of a directory says that its slot was replaced.\<close>

definition marked_replaced :: "node \<Rightarrow> string \<Rightarrow> bool" where
  "marked_replaced s g \<longleftrightarrow> (\<exists>st. gd_status (gen_at s g) = File st \<and> st_UnavailableReason st = SlotReplaced)"

lemma invalidate_item_run:
  assumes "invalidate_item env root invalid now i s = (Inr u, t)" "mg_ID i \<in> invalid"
  shows "marked_replaced t (TrimSpace (mg_ID i)) \<and> (\<forall>g. marked_replaced s g \<longrightarrow> marked_replaced t g)"
proof -
  from assms obtain s1 where w: "WriteGenerationStatus env root (mg_Spec i) (replaced_status now (mg_Status i)) s = (Inr (), s1)"
      and e: "removeEntries (mg_Spec i) s1 = (Inr u, t)"
    by (auto simp: invalidate_item_def io_then_Inr io_when_def)
  from WriteGenerationStatus_success [OF w] obtain g fs where k: "generation_key root (mg_ID i) = Inr g"
      and s1: "s1 = upd_gen g (\<lambda>d. d\<lparr>gd_status := File (replaced_status now (mg_Status i))\<rparr>) (upd_gen g (\<lambda>d. d) (s\<lparr>nd_faults := fs\<rparr>))"
    by blast
  from generation_key_trim [OF k] same_gens_removeEntries [OF e] show ?thesis
    by (auto simp: marked_replaced_def s1 gen_at_upd replaced_status_def)
qed

lemma invalidate_items_run:
  assumes "io_each (invalidate_item env root invalid now) items s = (Inr u, t)" "i \<in> set items" "mg_ID i \<in> invalid"
  shows "marked_replaced t (TrimSpace (mg_ID i))"
proof -
  let ?Q = "\<lambda>i t. mg_ID i \<in> invalid \<longrightarrow> marked_replaced t (TrimSpace (mg_ID i))"
  have "?Q x t" if "invalidate_item env root invalid now x s = (Inr (), t)" for x s t
    using invalidate_item_run [OF that] by blast
  moreover have "?Q y t" if "invalidate_item env root invalid now x s = (Inr (), t)" "?Q y s" for x y s t
    using invalidate_item_run [OF that(1)] that
    by (cases "mg_ID x \<in> invalid") (auto simp: invalidate_item_def io_when_def io_ok_run)
  ultimately show ?thesis using io_each_establish [OF assms(1), of ?Q] assms(2,3) by blast
qed

lemma same_selection_items: "io_rel same_selection (io_each (invalidate_item env root invalid now) items)"
  unfolding invalidate_item_def
  by (intro same_selection.rel_rules same_selection_status same_selection_removeEntries)

lemma leave_slot_run:
  assumes "leave_slot env root invalid f h b s = (Inr b1, t)" "running_generation b \<notin> invalid \<or> running_generation b = []"
    "[] \<notin> invalid"
  shows "nd_selection t = nd_selection s \<and> same_gens s t \<and> bs_DefaultGenerationID b1 \<notin> invalid \<and> bs_TargetBootGenerationID b1 \<notin> invalid \<and>
    bs_TrialGenerationID b1 \<notin> invalid \<and> bs_ActiveGenerationID b1 = bs_ActiveGenerationID b \<and>
    bs_BootedGenerationID b1 = bs_BootedGenerationID b"
proof (cases "bs_DefaultGenerationID b \<in> invalid \<or> bs_TargetBootGenerationID b \<in> invalid \<or> bs_TrialGenerationID b \<in> invalid")
  case False
  with assms show ?thesis by (simp add: leave_slot_def io_ok_run)
next
  case True
  with assms(1) obtain spec f' h' s1 where
      "call_setter f' root (bt_LoaderEntryPath (gs_Boot spec)) s = (Inr (), s1)" "call_setter h' root [] s1 = (Inr (), t)"
      "b1 = fallback_to_running (running_generation b) spec b" "running_generation b \<notin> invalid"
    by (cases f; cases h)
      (auto simp: leave_slot_def Let_def io_bind_Inr io_then_Inr io_get_run io_lift_run io_reject_Inr io_ok_run io_fail_run)
  with assms(3) show ?thesis by (auto simp: fallback_to_running_def dest!: call_setter_Inr)
qed

lemma drop_invalid_pointers_ids:
  assumes "[] \<notin> invalid"
  shows "bs_PreviousKnownGoodGenerationID (drop_invalid_pointers invalid now b) \<notin> invalid"
    "bs_Generation0FallbackID (drop_invalid_pointers invalid now b) \<notin> invalid"
    "bs_FailedBootGenerationID (drop_invalid_pointers invalid now b) \<notin> invalid"
    "bs_DefaultGenerationID (drop_invalid_pointers invalid now b) = bs_DefaultGenerationID b"
    "bs_TargetBootGenerationID (drop_invalid_pointers invalid now b) = bs_TargetBootGenerationID b"
    "bs_TrialGenerationID (drop_invalid_pointers invalid now b) = bs_TrialGenerationID b"
    "bs_ActiveGenerationID (drop_invalid_pointers invalid now b) = bs_ActiveGenerationID b"
    "bs_BootedGenerationID (drop_invalid_pointers invalid now b) = bs_BootedGenerationID b"
  using assms by (simp_all add: drop_invalid_pointers_def Let_def)

lemma inspect_ID_nonempty:
  assumes "inspect env root b s = Inr items" "i \<in> set items"
  shows "mg_ID i \<noteq> []"
proof -
  from inspect_item_read [OF assms] obtain name where r: "ReadGeneration env root name s = Inr (mg_pair i)" by blast
  then obtain g where "generation_key root name = Inr g" and r: "ReadSplitRecords env g s = Inr (mg_pair i)"
    by (auto simp: ReadGeneration_Inr)
  from valid_spec_id [OF valid_status_spec [OF ReadSplitRecords_valid [OF r]]]
  show ?thesis by (auto simp: cleanSegment_Inr)
qed

theorem InvalidateSlot_outcome:
  assumes "InvalidateSlot env root uuid now f h s = (Inr u, t)"
  shows "\<exists>b items b'. ReadBootSelection root s = Inr b \<and> inspect env root b s = Inr items \<and> nd_selection t = File b' \<and>
    (\<forall>i \<in> set items. EqualFold (mg_Slot i) uuid \<longrightarrow>
       mg_ID i \<notin> selected_ids b' \<union> {bs_Generation0FallbackID b', bs_FailedBootGenerationID b'} \<and> marked_replaced t (mg_ID i))"
proof -
  from withBootLock_Inr [OF assms [unfolded InvalidateSlot_def invalidate_listed_def Let_def]] obtain fs b items where
      b: "ReadBootSelection root s = Inr b" and items: "inspect env root b s = Inr items"
      and run: "io_then (io_need (each_error (\<lambda>i. reject (mg_ID i = bs_ActiveGenerationID b \<or> mg_ID i = bs_BootedGenerationID b)
              ''cannot overwrite slot containing selected generation %s; boot and select the running slot first'' [mg_ID i]) (slot_items uuid items)))
          (io_bind (leave_slot env root (set (map mg_ID (slot_items uuid items))) f h b) (\<lambda>b1.
           io_then (WriteBootSelection root (drop_invalid_pointers (set (map mg_ID (slot_items uuid items))) now b1))
             (io_each (invalidate_item env root (set (map mg_ID (slot_items uuid items))) now) items)))
          (s\<lparr>nd_faults := fs\<rparr>) = (Inr u, t)"
    by (auto simp: io_bind_Inr [of "io_get _"] io_bind_Inr [of "io_lift _"] io_get_run io_lift_run)
  define invalid where "invalid = set (map mg_ID (slot_items uuid items))"
  from run [folded invalid_def] obtain b1 s1 s2 where
      safe: "\<forall>i \<in> set (slot_items uuid items). mg_ID i \<noteq> bs_ActiveGenerationID b \<and> mg_ID i \<noteq> bs_BootedGenerationID b"
      and leave: "leave_slot env root invalid f h b (s\<lparr>nd_faults := fs\<rparr>) = (Inr b1, s1)"
      and w: "WriteBootSelection root (drop_invalid_pointers invalid now b1) s1 = (Inr (), s2)"
      and each: "io_each (invalidate_item env root invalid now) items s2 = (Inr u, t)"
    by (auto simp: io_then_Inr io_bind_Inr io_need_Inr)
  have ne: "[] \<notin> invalid" using inspect_ID_nonempty [OF items] by (force simp: invalid_def slot_items_def)
  have run_ok: "running_generation b \<notin> invalid \<or> running_generation b = []"
    using safe by (auto simp: invalid_def running_generation_def)
  note l = leave_slot_run [OF leave run_ok ne]
  let ?b = "drop_invalid_pointers invalid now b1"
  have sel: "nd_selection t = File ?b"
    using io_relD [OF same_selection_items each] WriteBootSelection_Inr [OF w] by (auto simp: same_selection_def)
  have "mg_ID i \<notin> selected_ids ?b \<union> {bs_Generation0FallbackID ?b, bs_FailedBootGenerationID ?b}"
    if i: "mg_ID i \<in> invalid" for i
    using l drop_invalid_pointers_ids [OF ne, of now b1] i safe unfolding selected_ids_def
    by (auto simp: invalid_def)
  moreover have "marked_replaced t (mg_ID i)" if "i \<in> set items" "mg_ID i \<in> invalid" for i
    using invalidate_items_run [OF each that] inspect_trimmed [OF items that(1)] by simp
  moreover have "mg_ID i \<in> invalid" if "i \<in> set items" "EqualFold (mg_Slot i) uuid" for i
    using that by (auto simp: invalid_def slot_items_def)
  ultimately show ?thesis using b items sel by blast
qed

lemma same_selection_syscall: "(\<And>s. nd_selection (f s) = nd_selection s) \<Longrightarrow> io_rel same_selection (syscall f)"
  by (rule syscall_rel) (simp_all add: same_selection_def)

lemma same_selection_WriteGeneration: "io_rel same_selection (WriteGeneration env root spec status)"
  unfolding WriteGeneration_def WriteSplitRecords_def withGenLock_def publish_spec_def publish_status_def
    write_spec_def write_status_def Let_def
  by (intro same_selection.rel_rules same_selection_syscall) simp_all

lemma first_error_member: "first_error es = Some x \<Longrightarrow> Some x \<in> set es"
  by (induction es) (auto split: option.splits)

lemma cleanSegment_Inl: "cleanSegment n v = Inl e \<Longrightarrow> \<not> isErrNotExist e"
  by (auto simp: cleanSegment_def cleanToken_def Let_def fail_def res_bind_def split: if_splits sum.splits)

lemma validateBootEntryPath_Some: "validateBootEntryPath n v = Some e \<Longrightarrow> \<not> isErrNotExist e"
  by (auto simp: validateBootEntryPath_def Let_def reject_Some dest!: first_error_member split: if_splits)

lemma ValidateBootSelection_Some:
  assumes "ValidateBootSelection b = Some e"
  shows "\<not> isErrNotExist e"
proof -
  have ids: "\<not> isErrNotExist e"
    if "each_error (\<lambda>(name, value). if TrimSpace value = [] then None else error_of (cleanSegment name value)) xs = Some e" for xs
    using first_error_member [OF that [unfolded each_error_def]] cleanSegment_Inl
    by (auto simp: error_of_def split: if_splits sum.splits)
  have entries: "\<not> isErrNotExist e" if "each_error (\<lambda>(name, value). validateBootEntryPath name value) xs = Some e" for xs
    using first_error_member [OF that [unfolded each_error_def]] by (auto dest!: validateBootEntryPath_Some [OF sym])
  from first_error_member [OF assms [unfolded ValidateBootSelection_def]] show ?thesis
    by (auto simp: reject_Some eq_commute [of "Some e"] dest: ids entries)
qed

lemma ReadBootSelection_missing:
  "ReadBootSelection root s = Inl e \<Longrightarrow> isErrNotExist e \<Longrightarrow> nd_selection s = NoFile"
  using ValidateBootSelection_Some
  by (auto simp: ReadBootSelection_def BootSelectionPath_def rootedPath_def Let_def fail_def res_bind_def res_need_def
      split: json_file.splits if_splits option.splits sum.splits)

lemma initial_selection_valid:
  assumes "cleanSegment ''generation id'' (gs_GenerationID spec) = Inr g" "gs_CreatedAt spec \<noteq> 0"
    "validateBootEntryPath ''defaultBootEntry'' (bt_LoaderEntryPath (gs_Boot spec)) = None"
  shows "ValidateBootSelection (initial_selection spec) = None"
proof -
  have "TrimSpace (gs_GenerationID spec) \<noteq> []" using assms(1) by (auto simp: cleanSegment_Inr)
  moreover have "error_of (cleanSegment n (gs_GenerationID spec)) = None" for n
    using cleanSegment_name [OF assms(1)] by (simp add: error_of_None)
  moreover have "validateBootEntryPath n (bt_LoaderEntryPath (gs_Boot spec)) = None" for n
    using assms(3) by (auto simp: validateBootEntryPath_def Let_def first_error_None reject_None split: if_splits)
  moreover have "validateBootEntryPath n [] = None" for n
    by (simp add: validateBootEntryPath_def Let_def TrimSpace_Nil)
  ultimately show ?thesis
    using assms(2)
    by (simp add: ValidateBootSelection_def initial_selection_def selection_ids_def selection_entries_def TrimSpace_Nil
        DefaultPromotionPending_def first_error_None reject_None)
qed

text \<open>
  Initialization either finds the selection of the same first generation and leaves it, or publishes one;
  it never replaces a selection that was there.
\<close>

theorem Initialize_outcome:
  assumes "Initialize env root spec s = (Inr u, t)"
  shows "(case nd_selection s of
      File b \<Rightarrow> nd_selection t = File b \<and> bs_Generation0FallbackID b = gs_GenerationID spec
    | NoFile \<Rightarrow> nd_selection t = File (initial_selection spec) \<and> ValidateBootSelection (initial_selection spec) = None
    | BadFile \<Rightarrow> False)"
proof -
  from assms obtain status where
    "withBootLock
        (io_bind (io_get (ReadBootSelection root)) (\<lambda>sr.
         case sr of
           Inl e \<Rightarrow>
             if \<not> isErrNotExist e then io_err e
             else io_then (WriteGeneration env root spec status) (WriteBootSelection root (initial_selection spec))
         | Inr b \<Rightarrow>
             io_then (io_reject (bs_Generation0FallbackID b \<noteq> gs_GenerationID spec)
                        ''boot selection already belongs to initial generation %s'' [bs_Generation0FallbackID b])
               (WriteGeneration env root spec status))) s = (Inr u, t)"
    unfolding Initialize_def by (auto simp: io_bind_Inr [of "io_lift _"] io_then_Inr [of "io_reject _ _ _"] io_lift_run io_reject_Inr)
  from withBootLock_Inr [OF this] obtain fs where
    run: "(case ReadBootSelection root s of
           Inl e \<Rightarrow>
             if \<not> isErrNotExist e then io_err e
             else io_then (WriteGeneration env root spec status) (WriteBootSelection root (initial_selection spec))
         | Inr b \<Rightarrow>
             io_then (io_reject (bs_Generation0FallbackID b \<noteq> gs_GenerationID spec)
                        ''boot selection already belongs to initial generation %s'' [bs_Generation0FallbackID b])
               (WriteGeneration env root spec status)) (s\<lparr>nd_faults := fs\<rparr>) = (Inr u, t)"
    by (auto simp: io_bind_Inr [of "io_get _"] io_get_run)
  show ?thesis
  proof (cases "ReadBootSelection root s")
    case (Inr b)
    with run have "WriteGeneration env root spec status (s\<lparr>nd_faults := fs\<rparr>) = (Inr u, t)"
        "bs_Generation0FallbackID b = gs_GenerationID spec"
      by (simp_all add: io_then_Inr io_reject_Inr)
    moreover from this(1) have "nd_selection t = nd_selection s"
      using io_relD [OF same_selection_WriteGeneration] by (force simp: same_selection_def)
    moreover from Inr have "nd_selection s = File b"
      by (auto simp: ReadBootSelection_def res_bind_Inr split: json_file.splits)
    ultimately show ?thesis by simp
  next
    case (Inl e)
    with run have e: "isErrNotExist e" by (cases "isErrNotExist e") (simp_all add: io_err_run)
    with run Inl obtain s1 where "WriteBootSelection root (initial_selection spec) s1 = (Inr u, t)" by (auto simp: io_then_Inr)
    from WriteBootSelection_Inr [OF this] have "nd_selection t = File (initial_selection spec)"
        "ValidateBootSelection (initial_selection spec) = None" by auto
    moreover have "nd_selection s = NoFile"
      by (rule ReadBootSelection_missing [OF Inl e])
    ultimately show ?thesis by simp
  qed
qed

lemma caught_success:
  assumes "io_bind (io_catch m) (\<lambda>r. case r of Inl e \<Rightarrow> io_ok ([], Some e) | Inr out \<Rightarrow> io_ok out) s = (Inr (removed, e), t)"
    "g \<in> set removed"
  shows "m s = (Inr (removed, e), t)"
proof (cases "m s")
  case (Pair r u)
  with assms show ?thesis by (cases r) (auto simp: io_bind_def io_catch_def io_ok_def)
qed

lemma Prune_retention:
  assumes run: "Prune P env root policy now s = (Inr (removed, e), t)" and b: "ReadBootSelection root s = Inr b"
    and items: "inspect env root b s = Inr items" and limits: "Retention_Limits P policy = Inr (n, age)"
    and g: "g \<in> set removed"
  shows "\<exists>pre i post. items = pre @ i # post \<and> mg_ID i = g \<and> mg_ProtectedBy i = [] \<and>
    (st_UnavailableReason (mg_Status i) \<noteq> [] \<or> mg_UnavailableReason i = SlotReplaced \<or>
     n \<le> newer_peers pre i \<and> gs_CreatedAt (mg_Spec i) < now - age)"
proof -
  let ?body = "io_bind (io_get (ReadBootSelection root)) (\<lambda>sr.
             io_bind (io_lift sr) (\<lambda>b.
             if bs_PendingHealthValidation b \<or> bs_RecoveryRequired b then io_ok ([], None)
             else io_bind (io_get (inspect env root b)) (\<lambda>ir.
                  io_bind (io_lift ir) (\<lambda>items. prune_items root n age now (\<lambda>_. 0) b [] items))))"
  from run limits have "io_bind (io_catch (withBootLock ?body))
      (\<lambda>r. case r of Inl e \<Rightarrow> io_ok ([], Some e) | Inr out \<Rightarrow> io_ok out) s = (Inr (removed, e), t)"
    unfolding Prune_def by simp
  then have "withBootLock ?body s = (Inr (removed, e), t)" using g by (rule caught_success)
  from withBootLock_Inr [OF this] obtain fs where "?body (s\<lparr>nd_faults := fs\<rparr>) = (Inr (removed, e), t)" ..
  with b items g have "prune_items root n age now (\<lambda>_. 0) b [] items (s\<lparr>nd_faults := fs\<rparr>) = (Inr (removed, e), t)"
    by (auto simp: io_bind_Inr io_get_run io_lift_run io_ok_run split: if_splits)
  from prune_items_removed [OF this g] obtain pre i post where "items = pre @ i # post" "mg_ID i = g" "mg_ProtectedBy i = []"
      "\<not> within_retention n age now (newer_peers pre i + 1) i" by auto
  then show ?thesis by (intro exI [of _ pre] exI [of _ i] exI [of _ post]) (auto simp: within_retention_def)
qed

end
