(* ===== verification/Lifecycle.thy ===== *)
theory Lifecycle
  imports ManagementFacts
begin

text \<open>
  The node as a transition system: any sequence of the operations of \<^verbatim>\<open>internal/generation\<close>, with any
  outcome of every system call, interleaved with changes of the files the package does not own and
  of the fault schedule. What one operation preserves holds along every such history.
\<close>

section \<open>The steps of a node\<close>

inductive record_step :: "env \<Rightarrow> node \<Rightarrow> node \<Rightarrow> bool" for env where
  faults: "record_step env s (s\<lparr>nd_faults := fs\<rparr>)"
| files: "record_step env s (s\<lparr>nd_paths := ps\<rparr>)"
| publish: "WriteGeneration env root spec status s = (r, t) \<Longrightarrow> record_step env s t"
| status: "WriteGenerationStatus env root spec status s = (r, t) \<Longrightarrow> record_step env s t"
| config: "WriteConfigApplyStatus g cstatus s = (r, t) \<Longrightarrow> record_step env s t"
| selection: "WriteBootSelection root b s = (r, t) \<Longrightarrow> record_step env s t"
| handoff: "WriteUpgradeHandoff root h s = (r, t) \<Longrightarrow> record_step env s t"
| initialize: "Initialize env root spec s = (r, t) \<Longrightarrow> record_step env s t"
| select: "Select env request s = (r, t) \<Longrightarrow> record_step env s t"
| invalidate: "InvalidateSlot env root uuid now setDefault setOneshot s = (r, t) \<Longrightarrow> record_step env s t"
| mutation: "ValidateMutationBase env root expected s = (r, t) \<Longrightarrow> record_step env s t"
| listing: "Inspect env root s = (li, t) \<Longrightarrow> record_step env s t"
| booted: "RecordBootedGeneration env root line s = (r, t) \<Longrightarrow> record_step env s t"
| health: "RecordBootHealth env hq s = (hr, t) \<Longrightarrow> record_step env s t"
| live: "PromoteLiveGeneration env lq s = (r, t) \<Longrightarrow> record_step env s t"
| arm: "ArmBootRecovery env root g s = (ar, t) \<Longrightarrow> record_step env s t"
| disarm: "ClearBootRecovery s = (r, t) \<Longrightarrow> record_step env s t"

inductive node_step :: "env \<Rightarrow> node \<Rightarrow> node \<Rightarrow> bool" for env where
  keep: "record_step env s t \<Longrightarrow> node_step env s t"
| remove: "Remove env root g s = (r, t) \<Longrightarrow> node_step env s t"
| prune: "Prune ParseDuration env root policy now s = (pr, t) \<Longrightarrow> node_step env s t"

inductive_cases record_stepE: "record_step env s t"
inductive_cases node_stepE: "node_step env s t"

lemma evolves_WriteUpgradeHandoff: "io_rel evolves (WriteUpgradeHandoff root h)"
  unfolding WriteUpgradeHandoff_def by (intro evolves.rel_rules evolves_syscall_other) simp

lemma ok_WriteUpgradeHandoff: "io_rel (keeps (store_ok env)) (WriteUpgradeHandoff root h)"
  unfolding WriteUpgradeHandoff_def by (intro keeps.rel_rules ok_syscall_other) simp_all

lemma evolves_Inspect: "io_rel evolves (Inspect env root)"
  unfolding Inspect_def by (intro evolves.rel_rules evolves_ops)

lemma ok_Inspect: "io_rel (keeps (store_ok env)) (Inspect env root)"
  unfolding Inspect_def by (intro keeps.rel_rules ok_ops)

lemma evolves_fields [simp]: "evolves s (s\<lparr>nd_faults := fs\<rparr>)" "evolves s (s\<lparr>nd_paths := ps\<rparr>)"
  by (simp_all add: evolves_def)

lemma store_ok_paths [simp]: "store_ok env (s\<lparr>nd_paths := ps\<rparr>) = store_ok env s"
  by (simp add: store_ok_def selection_ok_def gens_ok_def)

lemmas evolves_all = evolves_ops evolves_WriteUpgradeHandoff evolves_Initialize evolves_Select evolves_InvalidateSlot
  evolves_ValidateMutationBase evolves_Inspect evolves_RecordBootedGeneration evolves_RecordBootHealth
  evolves_PromoteLive evolves_ArmBootRecovery evolves_ClearBootRecovery

lemmas ok_all = ok_ops ok_WriteUpgradeHandoff ok_Initialize ok_Select ok_InvalidateSlot ok_ValidateMutationBase
  ok_Inspect ok_RecordBootedGeneration ok_RecordBootHealth ok_PromoteLive ok_ArmBootRecovery ok_ClearBootRecovery
  ok_Remove ok_Prune

lemma keeps_run: "m s = (r, t) \<Longrightarrow> io_rel (keeps I) m \<Longrightarrow> I s \<Longrightarrow> I t"
  by (rule io_rel_keepsD)

lemma record_step_evolves: "record_step env s t \<Longrightarrow> evolves s t"
  by (erule record_stepE; (simp | (erule io_relD [rotated], rule evolves_all)))

lemma record_step_ok: "record_step env s t \<Longrightarrow> store_ok env s \<Longrightarrow> store_ok env t"
  by (erule record_stepE; (simp | (erule keeps_run, rule ok_all, assumption)))

lemma node_step_ok: "node_step env s t \<Longrightarrow> store_ok env s \<Longrightarrow> store_ok env t"
  by (erule node_stepE; (erule record_step_ok, assumption | (erule keeps_run, rule ok_all, assumption)))

interpretation records: step_system evolves "record_step env" "store_ok env"
  by unfold_locales (auto intro: record_step_ok record_step_evolves)

interpretation node: step_system "keeps (store_ok env)" "node_step env" "store_ok env"
  by unfold_locales (auto simp: keeps_def intro: node_step_ok)

end
