(* ===== verification/Fixtures.thy ===== *)
theory Fixtures
  imports Lifecycle
begin

text \<open>
  Concrete data on which the properties are evaluated: a node with a known-good generation \<open>a\<close> and a
  trial generation \<open>b\<close> on the other slot, the requests that report the outcome of the trial boot, and
  the records they lead to. The clock, the digests and the reference parser are fixed functions.
\<close>

definition demo_env :: env where
  "demo_env = \<lparr>en_ParseNamed = (\<lambda>_. None), en_module_digest = (\<lambda>_. ''modules''),
     en_spec_digest = gs_GenerationID, en_redact = (\<lambda>s. s), en_now = 100\<rparr>"

definition demo_sha :: string where "demo_sha = replicate 64 CHR ''0''"

definition demo_confext :: "string \<Rightarrow> GeneratedConfext" where
  "demo_confext g = \<lparr>gc_Name = ''katl-node'', gc_Path = ''/var/lib/katl/generations/'' @ g @ ''/confext/node.raw'',
     gc_ActivationPath = ''/run/confexts/katl-node'', gc_SHA256 = demo_sha,
     gc_Compatibility = \<lparr>cc_ID = ''katl'', cc_VersionID = ''1'', cc_ConfextLevel = 1\<rparr>\<rparr>"

definition demo_spec :: "string \<Rightarrow> string \<Rightarrow> time \<Rightarrow> GenerationSpec" where
  "demo_spec g slot created =
     \<lparr>gs_ExtensionRelease = None, gs_APIVersion = APIVersion, gs_Kind = SpecKind, gs_GenerationID = g,
      gs_RuntimeVersion = ''v1'', gs_PreviousGenerationID = [],
      gs_Root = \<lparr>rs_Flavour = [], rs_Slot = slot, rs_PartitionUUID = slot, rs_RuntimeVersion = ''v1'',
                 rs_RuntimeInterface = ''katl-1'', rs_Architecture = ''amd64'', rs_RuntimeArtifactSHA256 = demo_sha\<rparr>,
      gs_Boot = \<lparr>bt_UKIPath = ''/EFI/Linux/katl.efi'', bt_LoaderEntryPath = ''loader/entries/katl-'' @ g @ ''.conf''\<rparr>,
      gs_Sysexts = [], gs_BundledConfexts = [], gs_Confexts = [demo_confext g],
      gs_KernelCommandLine = [], gs_ConfiguredKernelCommandLine = [], gs_KubernetesUpgrade = None,
      gs_VolumeBindings = [], gs_CreatedAt = created\<rparr>"

definition demo_status :: "string \<Rightarrow> string \<Rightarrow> string \<Rightarrow> string \<Rightarrow> GenerationStatus" where
  "demo_status g commit boot health =
     \<lparr>st_UnavailableReason = [], st_APIVersion = APIVersion, st_Kind = StatusKind, st_GenerationID = g,
      st_SpecDigest = ''sha256:'' @ g, st_CommitState = commit, st_BootState = boot, st_HealthState = health,
      st_UpdatedAt = 10, st_StatusTransitions = [], st_CommittedAt = None, st_CommittedByOperation = []\<rparr>"

definition spec_a :: GenerationSpec where "spec_a = demo_spec ''a'' ''slot-a'' 10"
definition spec_b :: GenerationSpec where "spec_b = demo_spec ''b'' ''slot-b'' 20"
definition good_a :: GenerationStatus where "good_a = demo_status ''a'' ''committed'' ''good'' ''healthy''"
definition trial_b :: GenerationStatus where "trial_b = demo_status ''b'' ''committed'' ''pending'' ''unknown''"

definition split_dir :: "GenerationSpec \<Rightarrow> GenerationStatus \<Rightarrow> gen_dir" where
  "split_dir spec st = empty_gen\<lparr>gd_spec := File spec, gd_status := File st\<rparr>"

text \<open>The selection while \<open>b\<close> is on trial.\<close>

definition trial_selection :: BootSelectionRecord where
  "trial_selection =
     \<lparr>bs_OneShot = False, bs_APIVersion = APIVersion, bs_Kind = BootSelectionKind,
      bs_DefaultGenerationID = ''a'', bs_TargetBootGenerationID = ''b'', bs_TrialGenerationID = ''b'',
      bs_PreviousKnownGoodGenerationID = ''a'', bs_BootedGenerationID = [], bs_ActiveGenerationID = ''a'',
      bs_Generation0FallbackID = ''a'', bs_FailedBootGenerationID = [],
      bs_DefaultBootEntry = ''loader/entries/katl-a.conf'', bs_TargetBootEntry = ''loader/entries/katl-b.conf'',
      bs_TrialBootEntry = ''loader/entries/katl-b.conf'', bs_PreviousKnownGoodBootEntry = ''loader/entries/katl-a.conf'',
      bs_BootedBootEntry = [], bs_BootCountedTrialPath = [], bs_PendingTransactionID = ''op-1'',
      bs_PendingHealthValidation = True, bs_PersistentDefaultPromotion = DefaultPromotionPending,
      bs_RecoveryRequired = False, bs_UpdatedAt = 30\<rparr>"

definition demo_paths :: "string list" where
  "demo_paths =
     [''/efi/loader/entries'', ''/efi/loader/entries/katl-a.conf'', ''/efi/loader/entries/katl-b.conf'',
      ''/efi/loader/entries/katl-c.conf'', ''/efi/EFI/Linux/katl.efi'',
      ''/var/lib/katl/generations/a/confext/node.raw'', ''/var/lib/katl/generations/b/confext/node.raw'',
      ''/var/lib/katl/generations/c/confext/node.raw'']"

definition empty_node :: node where
  "empty_node = \<lparr>nd_gens = [], nd_records_dir = False, nd_tombstones = [], nd_selection = NoFile, nd_arm = NoFile,
     nd_handoffs = [], nd_paths = demo_paths, nd_efi = \<lparr>efi_default = [], efi_oneshot = []\<rparr>, nd_faults = []\<rparr>"

definition trial_node :: node where
  "trial_node = empty_node\<lparr>nd_gens := [(''a'', split_dir spec_a good_a), (''b'', split_dir spec_b trial_b)],
     nd_records_dir := True, nd_selection := File trial_selection,
     nd_arm := File \<lparr>ba_TrialGeneration = ''b'', ba_FallbackGeneration = ''a''\<rparr>,
     nd_efi := \<lparr>efi_default = ''loader/entries/katl-a.conf'', efi_oneshot = ''loader/entries/katl-b.conf''\<rparr>\<rparr>"

definition set_default :: BootDefaultSetter where
  "set_default root entry e = (None, e\<lparr>efi_default := entry\<rparr>)"

definition set_oneshot :: BootDefaultSetter where
  "set_oneshot root entry e = (None, e\<lparr>efi_oneshot := entry\<rparr>)"

definition health_request :: "string \<Rightarrow> BootHealthRequest" where
  "health_request outcome =
     \<lparr>hq_Root = ''/'', hq_GenerationID = ''b'', hq_CommandLine = ''root=PARTUUID=slot-b katl.generation=b'',
      hq_Result = outcome, hq_Reason = [], hq_Now = 50, hq_RequestReboot = True, hq_ForceFailure = False,
      hq_SetBootDefault = Some set_default\<rparr>"

text \<open>The node at rest: \<open>a\<close> runs, \<open>b\<close> is installed on the other slot, \<open>c\<close> is an older generation of the slot of \<open>a\<close>.\<close>

definition spec_c :: GenerationSpec where "spec_c = demo_spec ''c'' ''slot-a'' 5"
definition good_c :: GenerationStatus where "good_c = demo_status ''c'' ''superseded'' ''good'' ''healthy''"

definition idle_selection :: BootSelectionRecord where
  "idle_selection = trial_selection\<lparr>bs_TargetBootGenerationID := [], bs_TrialGenerationID := [],
     bs_PreviousKnownGoodGenerationID := [], bs_PreviousKnownGoodBootEntry := [], bs_BootedGenerationID := ''a'',
     bs_TargetBootEntry := [], bs_TrialBootEntry := [], bs_PendingTransactionID := [],
     bs_PendingHealthValidation := False, bs_PersistentDefaultPromotion := DefaultPromotionDone\<rparr>"

definition idle_node :: node where
  "idle_node = trial_node\<lparr>nd_gens := [(''a'', split_dir spec_a good_a), (''b'', split_dir spec_b trial_b),
       (''c'', split_dir spec_c good_c)],
     nd_selection := File idle_selection, nd_arm := NoFile\<rparr>"

definition demo_policy :: Retention where
  "demo_policy = \<lparr>rt_KeepLast = Some 1, rt_MaxAge = ''1d''\<rparr>"

definition no_durations :: "string \<Rightarrow> int res" where
  "no_durations s = fail ''time: invalid duration'' []"

definition select_request :: "string \<Rightarrow> SelectRequest" where
  "select_request g = \<lparr>sq_Root = ''/'', sq_GenerationID = g, sq_OneShot = False, sq_Now = 60,
     sq_SetDefault = Some set_default, sq_SetOneshot = Some set_oneshot\<rparr>"

definition demo_listing :: "ManagedGeneration list" where
  "demo_listing =
     [(managed (spec_b, trial_b)),
      (managed (spec_a, good_a))\<lparr>mg_ProtectedBy := [''active'', ''booted'', ''default'', ''slot rollback'']\<rparr>,
      (managed (spec_c, good_c))]"

section \<open>Modules, releases and handoffs\<close>

definition demo_target :: Target where
  "demo_target = \<lparr>tg_Release = ''6.1'', tg_RuntimeSHA256 = demo_sha\<rparr>"

definition demo_module :: "string \<Rightarrow> string \<Rightarrow> Module" where
  "demo_module name path = \<lparr>mo_Name = name, mo_Path = ''usr/lib/modules/6.1/'' @ path, mo_SHA256 = demo_sha,
     mo_Replaces = [], mo_Required = True\<rparr>"

text \<open>Two bundles; the module they share is spelled with a dash in the one and an underscore in the other.\<close>

definition contract_1 :: Contract where
  "contract_1 = \<lparr>kc_Target = demo_target, kc_Modules = [demo_module ''zfs'' ''zfs.ko'', demo_module ''a-b'' ''a_b.ko.xz'']\<rparr>"

definition contract_2 :: Contract where
  "contract_2 = \<lparr>kc_Target = demo_target, kc_Modules = [demo_module ''a_b'' ''a_b.ko.xz'', demo_module ''spl'' ''spl.ko.zst'']\<rparr>"

definition module_names :: "Module list \<Rightarrow> string" where
  "module_names ms = concat (map mo_Name ms)"

definition demo_release :: ReleaseTarget where
  "demo_release = \<lparr>rt_Version = ''v1'', rt_Architecture = ''amd64'', rt_Flavour = Standard,
     rt_RuntimeInterface = ''katl-1'', rt_Kernel = demo_target\<rparr>"

definition demo_repository :: string where "demo_repository = ''ghcr.io/katl/zfs''"

definition demo_reference :: string where "demo_reference = demo_repository @ ''@sha256:'' @ demo_sha"

definition demo_parser :: oci_parser where
  "demo_parser v =
     (if v = demo_repository then Some \<lparr>on_Name = v, on_Tag = None, on_Digest = None\<rparr>
      else if v = demo_reference
      then Some \<lparr>on_Name = demo_repository, on_Tag = None,
                 on_Digest = Some \<lparr>dg_Algorithm = ''sha256'', dg_String = ''sha256:'' @ demo_sha\<rparr>\<rparr>
      else None)"

definition demo_manifest :: Manifest where
  "demo_manifest = \<lparr>mf_Target = demo_release, mf_Extensions = [(demo_repository, demo_reference)]\<rparr>"

definition demo_handoff :: UpgradeHandoff where
  "demo_handoff = \<lparr>uh_Version = 1, uh_OperationID = ''op-1'', uh_SourceGenerationID = ''a'',
     uh_CandidateGenerationID = ''b'', uh_ImageSHA256 = demo_sha, uh_ImageSizeBytes = 7, uh_ConfigurationSHA256 = demo_sha,
     uh_RootSlot = ''root-b'', uh_RootPartitionUUID = ''u'', uh_UKIPath = ''/efi/EFI/katl/b.efi'',
     uh_LoaderEntryPath = ''loader/entries/b.conf'', uh_KubernetesBootstrapped = True, uh_CreatedAt = 20\<rparr>"

text \<open>A node whose trial generation was stored in the single-file form of earlier releases.\<close>

definition legacy_node :: node where
  "legacy_node = trial_node\<lparr>nd_gens := [(''a'', split_dir spec_a good_a),
     (''b'', empty_gen\<lparr>gd_metadata := File (RecordFromSplit spec_b trial_b)\<rparr>)]\<rparr>"

definition legacy_status :: GenerationStatus where
  "legacy_status = StatusFromRecord demo_env (RecordFromSplit spec_b trial_b) ''sha256:b''"

text \<open>A trial without a recorded known-good generation: only the default names the running slot.\<close>

definition bare_selection :: BootSelectionRecord where
  "bare_selection = trial_selection\<lparr>bs_PreviousKnownGoodGenerationID := [], bs_PreviousKnownGoodBootEntry := []\<rparr>"

definition demo_apply :: ConfigApplyStatusRequest where
  "demo_apply = \<lparr>cq_GenerationID = '' b'', cq_PreviousGeneration = ''a'', cq_RequestedApplyMode = ApplyModeAuto,
     cq_AcceptedApplyMode = ApplyModeLive, cq_ChangedDomains = [''network'', '' time ''], cq_HealthState = [],
     cq_Kubeadm = \<lparr>ka_Required = False, ka_PreviousConfigName = [], ka_SelectedConfigName = [], ka_Reason = []\<rparr>, cq_UpdatedAt = 5\<rparr>"

section \<open>Runs\<close>

text \<open>The outcomes of the operations on these nodes, evaluated.\<close>

lemma demo_valid:
  "ValidateGenerationStatus demo_env spec_a good_a = None" "ValidateGenerationStatus demo_env spec_b trial_b = None"
  by (code_simp, code_simp)

lemma idle_selection_read: "ReadBootSelection ''/'' idle_node = Inr idle_selection"
  by code_simp

lemma idle_listing: "inspect demo_env ''/'' idle_selection idle_node = Inr demo_listing"
  by code_simp

lemma success_run:
  "fst (RecordBootHealth demo_env (health_request ''success'') trial_node) =
     Inr \<lparr>hr_GenerationID = ''b'', hr_Result = ''success'', hr_Promoted = True, hr_Failed = False,
          hr_RebootRequested = False, hr_RecoveryRequired = False, hr_DefaultGeneration = ''b'',
          hr_BootDefaultEntry = ''loader/entries/katl-b.conf'', hr_BootDefaultSet = True\<rparr>"
  by code_simp

lemma failure_run:
  "fst (RecordBootHealth demo_env (health_request ''failure'') trial_node) =
     Inr \<lparr>hr_GenerationID = ''b'', hr_Result = ''failure'', hr_Promoted = False, hr_Failed = True,
          hr_RebootRequested = True, hr_RecoveryRequired = False, hr_DefaultGeneration = ''a'',
          hr_BootDefaultEntry = ''loader/entries/katl-a.conf'', hr_BootDefaultSet = False\<rparr>"
  by code_simp

lemma prune_run: "fst (Prune no_durations demo_env ''/'' demo_policy (10 ^ 16) idle_node) = Inr ([''c''], None)"
  by code_simp

lemma select_run: "fst (Select demo_env (select_request ''c'') idle_node) = Inr ()"
  by code_simp

lemma invalidate_run: "fst (InvalidateSlot demo_env ''/'' ''SLOT-b'' 70 None None idle_node) = Inr ()"
  by code_simp

lemma mutation_run: "fst (ValidateMutationBase demo_env ''/'' ''a'' idle_node) = Inr ()"
  by code_simp

lemma status_run:
  "fst (WriteGenerationStatus demo_env ''/'' spec_b (failed_status 50 [] trial_b) trial_node) = Inr ()"
  by code_simp

lemma trial_read: "ReadGeneration demo_env ''/'' ''b'' trial_node = Inr (spec_b, trial_b)"
  by code_simp

lemma plan_run: "\<not> isl (PlanActivation demo_env (RecordFromSplit spec_b trial_b))"
  by code_simp

lemma no_legacy_trial: "no_legacy trial_node"
  by (simp add: no_legacy_def trial_node_def gen_at_def split_dir_def empty_gen_def)

lemma store_ok_empty: "store_ok env empty_node"
  by (simp add: store_ok_def selection_ok_def gens_ok_def empty_node_def gen_at_def)

lemma initialize_run: "fst (Initialize demo_env ''/'' spec_a empty_node) = Inr ()"
  by code_simp

lemma index_run: "\<not> isl (IndexInputs module_names [contract_1, contract_2])"
  by code_simp

lemma resolve_run: "Resolve demo_parser demo_manifest demo_release demo_repository = Inr demo_reference"
  by code_simp

lemma handoff_run: "fst (WriteUpgradeHandoff ''/'' demo_handoff trial_node) = Inr ()"
  by code_simp

lemma legacy_read: "ReadGeneration demo_env ''/'' ''b'' legacy_node = Inr (spec_b, legacy_status)"
  by code_simp

lemma legacy_write: "fst (WriteGenerationStatus demo_env ''/'' spec_b (failed_status 50 [] legacy_status) legacy_node) = Inr ()"
  by code_simp

lemma bare_rollback: "validRollbackTarget demo_env ''/'' ''a'' trial_node"
  by code_simp

lemma apply_run: "\<not> isl (NewConfigApplyStatus (\<lambda>s. s) 9 demo_apply)"
  by code_simp

end
