(* ===== verification/OperationRecord.thy ===== *)
theory OperationRecord
  imports ConfigApply Go_Path
begin

text \<open>
  The record of a node operation (\<^verbatim>\<open>internal/installer/operation/store.go\<close>): its request bodies, the evidence it
  collects, and the validation every stored record passes. The keys of storage authority are those of
  \<^verbatim>\<open>internal/installer/disk/authority.go\<close>.

  A nil slice and an empty one are the same list, except for \<open>SupportedFieldDelta\<close>, where the code distinguishes
  them. Where the code ranges over a literal map, which of several errors it returns is not determined; the
  model returns the first in the order of the literal.
\<close>

section \<open>Request bodies\<close>

record BootstrapRequest =
  br_ExternalWorker :: bool
  br_ResumeOperationID :: string
  br_InventoryNodeName :: string
  br_SystemRole :: string
  br_KubernetesPayloadVersion :: string
  br_KubernetesBundleSource :: string
  br_KubernetesBundleRef :: string
  br_KubernetesBundleManifestDigest :: string
  br_KubernetesSysextPayloadDigest :: string
  br_BootstrapProfileRef :: string
  br_ControlPlaneEndpoint :: string
  br_StableEndpoint :: string
  br_CandidateGenerationID :: string
  br_KubeadmInputDigest :: string
  br_JoinMaterialRef :: string
  br_JoinMaterialDigest :: string
  br_PreviousJoinMaterialDigest :: string
  br_JoinMaterialExpiresAt :: string
  br_TemporaryJoinConfigPath :: string
  br_ExistingClusterJoin :: bool
  br_KubernetesIdentityCluster :: string
  br_KubernetesIdentityFingerprint :: string
  br_KubernetesIdentityDigest :: string
  br_APIProxyConfig :: string

record ConfigApplyRequest =
  ca_ApplyMode :: string
  ca_NodeName :: string
  ca_CandidateGenerationID :: string
  ca_ConfigYAML :: string
  ca_ConfigYAMLPath :: string
  ca_ConfigYAMLSHA256 :: string
  ca_DestructiveStorageAcknowledgements :: "string list"
  ca_VolumeRebinds :: "string list"

record KubeadmControlPlaneConfig =
  kp_ExternalWorker :: bool
  kp_Component :: string
  kp_RolloutID :: string
  kp_NodePosition :: nat
  kp_NodeCount :: nat
  kp_CoordinatorNode :: string
  kp_NodeName :: string
  kp_CoordinatorUpload :: bool
  kp_NodeLocalKubelet :: bool
  kp_DesiredGenerationID :: string
  kp_ConfigName :: string
  kp_ConfigPath :: string
  kp_DesiredConfigSHA256 :: string
  kp_ExpectedLiveConfigSHA256 :: string
  kp_KubernetesPayloadVersion :: string
  kp_KubernetesPayloadSHA256 :: string
  kp_SupportedFieldDelta :: "string list option"
  kp_SnapshotRef :: string
  kp_SnapshotDigest :: string
  kp_SnapshotRevision :: string
  kp_CapturedMemberListDigest :: string
  kp_SourceEtcdVersion :: string
  kp_SnapshotCreatedAt :: string
  kp_SnapshotStorageLocation :: string
  kp_SnapshotOperatorIdentity :: string
  kp_ConfigUploadRan :: bool
  kp_BeforeManifestSHA256 :: "(string \<times> string) list"
  kp_AfterManifestSHA256 :: "(string \<times> string) list"
  kp_BeforeKubeletConfigSHA256 :: string
  kp_AfterKubeletConfigSHA256 :: string
  kp_ReadinessRequirement :: string
  kp_OriginalNodeUnschedulable :: bool

record KubernetesSysextUpdate =
  ku_ExternalWorker :: bool
  ku_APIServerVersion :: string
  ku_PreparedOperationID :: string
  ku_PreviewOnly :: bool
  ku_TargetPayloadVersion :: string
  ku_TargetSysextPath :: string
  ku_TargetSysextSHA256 :: string
  ku_TargetSysextSize :: nat
  ku_TargetActivationPath :: string
  ku_CandidateGenerationID :: string
  ku_UpgradeRole :: string
  ku_SourcePayloadVersion :: string
  ku_SnapshotRef :: string
  ku_SnapshotDigest :: string
  ku_SnapshotRevision :: string
  ku_SnapshotCreatedAt :: string
  ku_CapturedMemberListDigest :: string
  ku_SourceEtcdVersion :: string
  ku_SnapshotStorageLocation :: string
  ku_SnapshotOperatorIdentity :: string
  ku_KubernetesBundleSource :: string
  ku_KubernetesBundleRef :: string
  ku_BundleManifestDigest :: string

record EtcdSnapshot =
  ez_Path :: string
  ez_SHA256 :: string
  ez_Revision :: nat
  ez_Hash :: nat
  ez_TotalKeys :: nat
  ez_CreatedAt :: string

record EtcdMemberObservation =
  em_DowngradeEnabled :: bool
  em_DowngradeTarget :: string
  em_ID :: string
  em_Name :: string
  em_Endpoint :: string
  em_PeerURLs :: "string list"
  em_Learner :: bool
  em_Healthy :: bool
  em_Version :: string
  em_ClusterVersion :: string
  em_StorageVersion :: string
  em_RaftTerm :: nat
  em_AppliedIndex :: nat
  em_Revision :: int
  em_Error :: string

record EtcdObservation =
  eo_LocalImage :: string
  eo_LocalContainerID :: string
  eo_ObservedAt :: string
  eo_ClusterID :: string
  eo_LocalMemberID :: string
  eo_LeaderID :: string
  eo_BarrierIndex :: nat
  eo_Members :: "EtcdMemberObservation list"

record EtcdUpgradeEvidence =
  ee_SourceImage :: string
  ee_TargetImage :: string
  ee_ImageChanges :: bool
  ee_Snapshot :: "EtcdSnapshot option"
  ee_Before :: "EtcdObservation option"
  ee_PreRestart :: "EtcdObservation option"
  ee_After :: "EtcdObservation option"
  ee_Failure :: string

record KubeadmUpgradeEvidence =
  ke_Etcd :: "EtcdUpgradeEvidence option"
  ke_TargetKubeadmAccessMode :: string
  ke_TargetKubeadmArtifactPath :: string
  ke_TargetKubeadmArtifactDigest :: string
  ke_TargetKubeadmObservedVersion :: string
  ke_KubeletActivationGate :: string
  ke_KubeletGateState :: string
  ke_KubeletGateTokenPath :: string
  ke_KubeletGateEnforcementUnit :: string
  ke_SourceKubeletPolicy :: string
  ke_GlobalTargetActiveBeforeKubeadm :: bool
  ke_AlternateAPIEndpoint :: string

record DestructiveReset =
  dr_InventoryNodeName :: string
  dr_ResetScope :: string
  dr_TargetGenerationID :: string
  dr_DiscardClusterIdentity :: bool
  dr_WipeSurfaces :: "string list"

record HostUpgrade =
  hu_ConfigYAML :: string
  hu_ImageURL :: string
  hu_ImageLocalRef :: string
  hu_ImageSHA256 :: string
  hu_ImageSizeBytes :: nat
  hu_CandidateGenerationID :: string

record EtcdMemberRemove =
  mr_TargetNodeName :: string
  mr_TargetMemberID :: string
  mr_TargetPeerURL :: string
  mr_ExpectedClusterID :: string
  mr_ExpectedMemberCount :: nat

section \<open>The record\<close>

record ExecutorPlan =
  ep_Phase :: string
  ep_MarkerID :: string
  ep_Timeout :: string
  ep_MutationScopes :: "string list"
  ep_Argv :: "string list"

record InvocationRecord =
  iv_InvocationID :: string
  iv_SystemdInvocationID :: string
  iv_UnitName :: string
  iv_BootID :: string
  iv_AgentStartID :: string
  iv_ExecutorAttemptID :: string
  iv_ChildProcess :: "string list"
  iv_PID :: int
  iv_ExitStatus :: int
  iv_StartedAt :: time
  iv_CompletedAt :: "time option"
  iv_Result :: string

record PreExecMutationMarker =
  pm_MarkerID :: string
  pm_InvocationID :: string
  pm_Phase :: string
  pm_Tool :: string
  pm_ArgvDigest :: string
  pm_ExpectedMutationScopes :: "string list"
  pm_MarkedAt :: time

record OpDiagnosticArtifact =
  oa_ArtifactID :: string
  oa_Path :: string
  oa_SHA256 :: string
  oa_Redacted :: bool
  oa_CreatedAt :: time

record OperationRecord =
  or_APIVersion :: string
  or_Kind :: string
  or_SchemaVersion :: int
  or_OperationID :: string
  or_OperationKind :: string
  or_Scope :: string
  or_ParentOperationID :: string
  or_ClientRequestID :: string
  or_Actor :: string
  or_ExpectedMachineID :: string
  or_ExpectedCurrentGenerationID :: string
  or_ExpectedClusterIntentDigest :: string
  or_RequestDigest :: string
  or_RecordRevision :: int
  or_LatestJournalSeq :: int
  or_PhasePlan :: "string list"
  or_PreviousGenerationID :: string
  or_CandidateGenerationID :: string
  or_ConfigApplyPhase :: string
  or_ChangedDomains :: "string list"
  or_BootstrapRequest :: "BootstrapRequest option"
  or_ConfigApplyRequest :: "ConfigApplyRequest option"
  or_KubeadmControlPlaneConfig :: "KubeadmControlPlaneConfig option"
  or_KubernetesSysextUpdate :: "KubernetesSysextUpdate option"
  or_KubeadmUpgradeEvidence :: "KubeadmUpgradeEvidence option"
  or_DestructiveResetRequest :: "DestructiveReset option"
  or_HostUpgradeRequest :: "HostUpgrade option"
  or_EtcdMemberRemoveRequest :: "EtcdMemberRemove option"
  or_ActivationMode :: string
  or_ActivationState :: string
  or_GenerationCommitState :: string
  or_PostKubeadmHealthState :: string
  or_BootHealthPending :: bool
  or_Phase :: string
  or_PhaseIndex :: int
  or_CompletedPhases :: "string list"
  or_Terminal :: bool
  or_ResourceLocks :: "string list"
  or_ExecutorPlan :: "ExecutorPlan option"
  or_Invocations :: "InvocationRecord list"
  or_ExternalMutationStarted :: bool
  or_PreExecMutationMarkers :: "PreExecMutationMarker list"
  or_MutationScopes :: "string list"
  or_MutatingToolRan :: bool
  or_MutatingToolInvocations :: "string list"
  or_DiagnosticArtifacts :: "OpDiagnosticArtifact list"
  or_HostRollback :: string
  or_PostMutationRollbackAllowed :: bool
  or_RecoveryRequired :: bool
  or_RetryHint :: string
  or_Interruption :: string
  or_Resume :: string
  or_NextAction :: string
  or_Result :: string
  or_CreatedAt :: time
  or_UpdatedAt :: time
  or_CompletedAt :: "time option"
  or_FailureReason :: string

section \<open>Journal, snapshot and report\<close>

record JournalEvent =
  je_APIVersion :: string
  je_Kind :: string
  je_Sequence :: int
  je_EventID :: string
  je_EventType :: string
  je_Record :: OperationRecord
  je_CreatedAt :: time

record OpSnapshot =
  sn_APIVersion :: string
  sn_Kind :: string
  sn_OperationID :: string
  sn_LatestSeq :: int
  sn_JournalDigest :: string
  sn_Record :: OperationRecord
  sn_UpdatedAt :: time

record ReconciledOperation =
  ro_OperationID :: string
  ro_OperationKind :: string
  ro_Scope :: string
  ro_StaleClass :: string
  ro_RecoveryRequired :: bool
  ro_NextAction :: string
  ro_Result :: string

record ReconcileReport =
  rp_APIVersion :: string
  rp_Kind :: string
  rp_Boot :: bool
  rp_Operations :: "ReconciledOperation list"
  rp_UpdatedAt :: time

end
