(* ===== verification/OperationChecks.thy ===== *)
theory OperationChecks
  imports OperationRecord
begin

text \<open>
  The checks of operation records and of their transitions, the classification of stale operations and the
  completion of an operation (\<^verbatim>\<open>internal/installer/operation/store.go\<close>, \<^verbatim>\<open>completion.go\<close>,
  \<^verbatim>\<open>internal/installer/disk/authority.go\<close>). The URL parser of \<^verbatim>\<open>net/url\<close>, the RFC 3339 parser of \<^verbatim>\<open>time\<close>, the digests
  and the clock are the fields of \<open>op_env\<close>.
\<close>

section \<open>Environment and names\<close>

record url =
  ul_Scheme :: string
  ul_User :: "string option"
  ul_Host :: string
  ul_Path :: string
  ul_RawQuery :: string
  ul_Fragment :: string

record op_env =
  oe_now :: time
  oe_url :: "string \<Rightarrow> url option"
  oe_rfc3339 :: "string \<Rightarrow> bool"
  oe_sha256 :: "string \<Rightarrow> string"
  oe_journal_digest :: "JournalEvent list \<Rightarrow> string"

definition OpRecordKind :: string where "OpRecordKind = ''OperationRecord''"
definition SchemaVersion :: int where "SchemaVersion = 1"

definition ResultFailedNeedsRepair :: string where "ResultFailedNeedsRepair = ''failed-needs-repair''"
definition ResultSucceeded :: string where "ResultSucceeded = ''succeeded''"

definition ActivationStateActivating :: string where "ActivationStateActivating = ''activating''"
definition ActivationStateActiveLive :: string where "ActivationStateActiveLive = ''active-live''"
definition GenerationCommitCommitted :: string where "GenerationCommitCommitted = ''committed''"

definition ResumeHostBookkeeping :: string where
  "ResumeHostBookkeeping = ''finish-host-bookkeeping:record-operation-complete''"
definition HostBookkeepingCompletionPhase :: string where "HostBookkeepingCompletionPhase = ''record-operation-complete''"
definition HostBookkeepingOperationKind :: string where "HostBookkeepingOperationKind = ''host-bookkeeping''"
definition HostBookkeepingGenerationScope :: string where "HostBookkeepingGenerationScope = ''host-generation''"

definition StaleTerminal :: string where "StaleTerminal = ''terminal''"
definition StalePreMutation :: string where "StalePreMutation = ''stale-pre-mutation''"
definition StaleHostOnly :: string where "StaleHostOnly = ''stale-host-only''"
definition StalePostMutation :: string where "StalePostMutation = ''stale-post-mutation''"
definition StaleAmbiguous :: string where "StaleAmbiguous = ''stale-ambiguous''"
definition StaleNotStale :: string where "StaleNotStale = ''not-stale''"

lemmas stale_names =
  StaleTerminal_def StalePreMutation_def StaleHostOnly_def StalePostMutation_def StaleAmbiguous_def StaleNotStale_def

section \<open>Strings and digests\<close>

definition opCleanSegment :: "string \<Rightarrow> string \<Rightarrow> string res" where
  "opCleanSegment name value0 =
     (let value = TrimSpace value0
      in if value = [] then fail ''%s is required'' [name]
         else if CHR ''/'' \<in> set value \<or> CHR 0x5C \<in> set value \<or> value = ''.'' \<or> value = ''..'' \<or> Contains value ''..''
         then fail ''%s must be a clean path segment'' [name]
         else Inr value)"

definition cleanEventID :: "string \<Rightarrow> string \<Rightarrow> string" where
  "cleanEventID value0 fallback =
     (let trimmed = TrimSpace value0; value = (if trimmed = [] then fallback else trimmed)
      in ReplaceByte (CHR ''_'') (CHR ''-'') (ReplaceByte (CHR '' '') (CHR ''-'') value))"

definition validateSHA256Hex :: "string \<Rightarrow> string \<Rightarrow> error" where
  "validateSHA256Hex name value =
     first_error
       [reject (length value \<noteq> 64) ''%s SHA-256 must be %d lowercase hex characters'' [name],
        reject (value \<noteq> ToLower value) ''%s SHA-256 must be lowercase hex'' [name],
        reject (\<not> hexDecodes value) ''%s SHA-256 is invalid: %w'' [name]]"

definition validateSHA256Digest :: "string \<Rightarrow> string \<Rightarrow> error" where
  "validateSHA256Digest name value0 =
     (let value = TrimSpace value0
      in first_error
           [reject (\<not> HasPrefix value ''sha256:'') ''%s must start with sha256:'' [name],
            validateSHA256Hex name (TrimPrefix value ''sha256:'')])"

definition validateOptionalEnum :: "string \<Rightarrow> string \<Rightarrow> string list \<Rightarrow> error" where
  "validateOptionalEnum name value0 allowed =
     (let value = TrimSpace value0
      in if value = [] then None
         else reject (value \<notin> set allowed) ''unsupported operation %s %q'' [name, value])"

definition validateArtifactPath :: "string \<Rightarrow> error" where
  "validateArtifactPath path0 =
     (let path = TrimSpace path0; cleaned = Clean path
      in first_error
           [reject (IsAbs path) ''diagnostic artifact path must be relative'' [],
            reject (cleaned \<noteq> path \<or> \<not> HasPrefix cleaned ''attachments/'' \<or> Contains cleaned ''..'')
              ''diagnostic artifact path must be under attachments'' []])"

definition validAuthoritySegment :: "string \<Rightarrow> bool" where
  "validAuthoritySegment value \<longleftrightarrow>
     value \<noteq> [] \<and> hd value \<noteq> CHR ''-'' \<and> last value \<noteq> CHR ''-'' \<and>
     list_all (\<lambda>c. CHR ''a'' \<le> c \<and> c \<le> CHR ''z'' \<or> CHR ''0'' \<le> c \<and> c \<le> CHR ''9'' \<or> c = CHR ''-'') value"

fun authority_keys_from :: "string \<Rightarrow> string list \<Rightarrow> string list \<Rightarrow> error" where
  "authority_keys_from kind seen [] = None"
| "authority_keys_from kind seen (raw # rest) =
     (let value = TrimSpace raw; parts = split_slash value
      in first_error
           [reject (length parts \<noteq> 2 \<or> \<not> list_all validAuthoritySegment parts)
              ''%s %d must be NODE/VOLUME using lowercase DNS-label names'' [kind],
            reject (value \<in> set seen) ''%s %q is duplicated'' [kind, value],
            authority_keys_from kind (value # seen) rest])"

definition validateVolumeAuthorityKeys :: "string \<Rightarrow> string list \<Rightarrow> error" where
  "validateVolumeAuthorityKeys kind values = authority_keys_from kind [] values"

definition ValidateDestructiveVolumeAcknowledgementKeys :: "string list \<Rightarrow> error" where
  "ValidateDestructiveVolumeAcknowledgementKeys values =
     validateVolumeAuthorityKeys ''destructive storage acknowledgement'' values"

definition ValidateVolumeRebindKeys :: "string list \<Rightarrow> error" where
  "ValidateVolumeRebindKeys values = validateVolumeAuthorityKeys ''volume rebind'' values"

text \<open>\<^verbatim>\<open>strconv.ParseUint(value, 16, 64)\<close> succeeds.\<close>

definition hex_value :: "string \<Rightarrow> nat" where
  "hex_value s =
     foldl (\<lambda>n c. 16 * n + (let d = (of_char c :: nat) in if d < 58 then d - 48 else if d < 71 then d - 55 else d - 87)) 0 s"

definition ParsesHex64 :: "string \<Rightarrow> bool" where
  "ParsesHex64 s \<longleftrightarrow> s \<noteq> [] \<and> list_all hexDigit s \<and> hex_value s < 2 ^ 64"

section \<open>Requests\<close>

definition given :: "string \<Rightarrow> bool" where
  "given value \<longleftrightarrow> TrimSpace value \<noteq> []"

definition when_given :: "string \<Rightarrow> error \<Rightarrow> error" where
  "when_given value e = (if given value then e else None)"

definition validateBootstrapRequest :: "BootstrapRequest \<Rightarrow> error" where
  "validateBootstrapRequest r =
     (let identity = filter given [br_KubernetesIdentityCluster r, br_KubernetesIdentityFingerprint r, br_KubernetesIdentityDigest r]
      in first_error
       [reject (br_ExternalWorker r \<and> br_SystemRole r \<noteq> ''worker'') ''external bootstrap requires worker systemRole'' [],
        reject (\<not> given (br_InventoryNodeName r)) ''bootstrapRequest inventoryNodeName is required'' [],
        reject (TrimSpace (br_SystemRole r) \<notin> {''control-plane'', ''worker''})
          ''bootstrapRequest systemRole must be control-plane or worker'' [],
        reject (\<not> given (br_KubernetesPayloadVersion r)) ''bootstrapRequest kubernetesPayloadVersion is required'' [],
        reject (given (br_KubernetesBundleSource r) \<noteq> given (br_KubernetesBundleRef r))
          ''bootstrapRequest kubernetesBundleSource and kubernetesBundleRef must be set together'' [],
        when_given (br_KubernetesBundleManifestDigest r)
          (validateSHA256Digest ''bootstrapRequest kubernetesBundleManifestDigest'' (br_KubernetesBundleManifestDigest r)),
        when_given (br_KubernetesSysextPayloadDigest r)
          (validateSHA256Digest ''bootstrapRequest kubernetesSysextPayloadDigest'' (br_KubernetesSysextPayloadDigest r)),
        reject (\<not> given (br_BootstrapProfileRef r)) ''bootstrapRequest bootstrapProfileRef is required'' [],
        reject (length identity \<noteq> 0 \<and> length identity \<noteq> 3)
          ''bootstrapRequest Kubernetes identity cluster, fingerprint, and digest must be set together'' [],
        if length identity = 3 then
          first_error
            [reject (br_SystemRole r \<noteq> ''control-plane'')
               ''bootstrapRequest Kubernetes identity is only valid for a control-plane node'' [],
             validateSHA256Digest ''bootstrapRequest kubernetesIdentityFingerprint'' (br_KubernetesIdentityFingerprint r),
             validateSHA256Digest ''bootstrapRequest kubernetesIdentityDigest'' (br_KubernetesIdentityDigest r)]
        else None])"

definition validateConfigApplyRequest :: "ConfigApplyRequest \<Rightarrow> error" where
  "validateConfigApplyRequest r =
     (let inline = given (ca_ConfigYAML r); persisted = (given (ca_ConfigYAMLPath r) \<or> given (ca_ConfigYAMLSHA256 r));
          path = TrimSpace (ca_ConfigYAMLPath r)
      in first_error
       [reject (TrimSpace (ca_ApplyMode r) \<notin> {''auto'', ''live'', ''next-boot''})
          ''configApplyRequest applyMode must be auto, live, or next-boot'' [],
        when_given (ca_CandidateGenerationID r)
          (error_of (opCleanSegment ''configApplyRequest candidateGenerationID'' (ca_CandidateGenerationID r))),
        reject (inline = persisted)
          ''configApplyRequest must contain exactly one of configYAML or persisted configYAML metadata'' [],
        if persisted then
          first_error
            [reject (Clean path \<noteq> path \<or> Dir (Clean path) \<noteq> ''/var/lib/katl/artifacts/config-apply'')
               ''configApplyRequest configYAMLPath must be under /var/lib/katl/artifacts/config-apply'' [],
             validateSHA256Hex ''configApplyRequest configYAMLSHA256'' (ca_ConfigYAMLSHA256 r)]
        else None,
        wrap_error ''configApplyRequest: %w'' []
          (ValidateDestructiveVolumeAcknowledgementKeys (ca_DestructiveStorageAcknowledgements r)),
        wrap_error ''configApplyRequest: %w'' [] (ValidateVolumeRebindKeys (ca_VolumeRebinds r))])"

definition require_given :: "string \<Rightarrow> string \<times> string \<Rightarrow> error" where
  "require_given f = (\<lambda>(name, value). reject (\<not> given value) f [name])"

definition check_digest :: "string \<Rightarrow> string \<times> string \<Rightarrow> error" where
  "check_digest label = (\<lambda>(name, value). validateSHA256Hex (label @ name) value)"

definition check_given_digest :: "string \<Rightarrow> string \<times> string \<Rightarrow> error" where
  "check_given_digest label = (\<lambda>(name, value). when_given value (validateSHA256Hex (label @ name) value))"

definition validateKubeadmControlPlaneConfig :: "op_env \<Rightarrow> KubeadmControlPlaneConfig \<Rightarrow> error" where
  "validateKubeadmControlPlaneConfig oe r =
     first_error
       [reject (kp_Component r \<notin> {''control-plane'', ''kubelet'', ''kube-proxy''})
          ''kubeadmControlPlaneConfig component must be control-plane, kubelet, or kube-proxy'' [],
        reject (kp_ReadinessRequirement r \<notin> {'''', ''ready'', ''cni-uninitialized''})
          ''kubeadmControlPlaneConfig readiness requirement is invalid'' [],
        reject (kp_ExternalWorker r \<and> (kp_Component r \<noteq> ''kubelet'' \<or> kp_CoordinatorUpload r \<or> kp_CoordinatorNode r \<noteq> []))
          ''external worker configuration must remain local to kubelet'' [],
        each_error (require_given ''kubeadmControlPlaneConfig %s is required'')
          ([(''rolloutID'', kp_RolloutID r), (''nodeName'', kp_NodeName r), (''desiredGenerationID'', kp_DesiredGenerationID r),
            (''configName'', kp_ConfigName r), (''configPath'', kp_ConfigPath r),
            (''kubernetesPayloadVersion'', kp_KubernetesPayloadVersion r)] @
           (if kp_ExternalWorker r then [] else [(''coordinatorNode'', kp_CoordinatorNode r)])),
        reject (kp_NodeCount r < 1 \<or> kp_NodePosition r < 1 \<or> kp_NodePosition r > kp_NodeCount r)
          ''kubeadmControlPlaneConfig node position must identify one node in the rollout'' [],
        reject (Base (kp_ConfigName r) \<noteq> kp_ConfigName r \<or>
                kp_ConfigPath r \<noteq> ''/etc/katl/kubeadm/'' @ kp_ConfigName r @ ''/config.yaml'')
          ''kubeadmControlPlaneConfig config path is invalid'' [],
        each_error (check_digest ''kubeadmControlPlaneConfig '')
          [(''desired config'', kp_DesiredConfigSHA256 r), (''kubernetes payload'', kp_KubernetesPayloadSHA256 r)],
        each_error (check_given_digest ''kubeadmControlPlaneConfig '')
          [(''expected live config'', kp_ExpectedLiveConfigSHA256 r), (''snapshot'', kp_SnapshotDigest r),
           (''captured member list'', kp_CapturedMemberListDigest r)],
        reject (given (kp_SnapshotCreatedAt r) \<and> \<not> oe_rfc3339 oe (kp_SnapshotCreatedAt r))
          ''kubeadmControlPlaneConfig snapshotCreatedAt must be RFC3339: %w'' [],
        each_error (check_digest ''kubeadmControlPlaneConfig before manifest '') (kp_BeforeManifestSHA256 r),
        each_error (check_digest ''kubeadmControlPlaneConfig after manifest '') (kp_AfterManifestSHA256 r),
        each_error (check_given_digest ''kubeadmControlPlaneConfig '')
          [(''before kubelet config'', kp_BeforeKubeletConfigSHA256 r), (''after kubelet config'', kp_AfterKubeletConfigSHA256 r)]]"

definition https_url :: "op_env \<Rightarrow> string \<Rightarrow> bool" where
  "https_url oe value =
     (case oe_url oe value of None \<Rightarrow> False | Some u \<Rightarrow> ul_Scheme u = ''https'' \<and> ul_Host u \<noteq> [])"

definition upgrade_snapshot_check :: "op_env \<Rightarrow> KubernetesSysextUpdate \<Rightarrow> error" where
  "upgrade_snapshot_check oe r =
     (if given (ku_SnapshotRef r) \<or> given (ku_SnapshotDigest r) \<or> given (ku_SnapshotStorageLocation r)
      then first_error
        [reject (\<not> given (ku_SnapshotRef r) \<or> \<not> given (ku_SnapshotDigest r))
           ''kubernetesSysextUpdate snapshot ref and digest must be provided together'' [],
         validateSHA256Hex ''kubernetesSysextUpdate snapshot'' (ku_SnapshotDigest r),
         if ku_UpgradeRole r \<noteq> ''worker'' then
           first_error
             [each_error (require_given ''kubernetesSysextUpdate %s is required with snapshot evidence'')
                [(''snapshotCreatedAt'', ku_SnapshotCreatedAt r), (''capturedMemberListDigest'', ku_CapturedMemberListDigest r),
                 (''snapshotStorageLocation'', ku_SnapshotStorageLocation r),
                 (''snapshotOperatorIdentity'', ku_SnapshotOperatorIdentity r)],
              validateSHA256Hex ''kubernetesSysextUpdate member list'' (ku_CapturedMemberListDigest r),
              reject (\<not> oe_rfc3339 oe (ku_SnapshotCreatedAt r)) ''kubernetesSysextUpdate snapshotCreatedAt must be RFC3339: %w'' []]
         else None]
      else None)"

definition validateKubernetesSysextUpdate :: "op_env \<Rightarrow> KubernetesSysextUpdate \<Rightarrow> error" where
  "validateKubernetesSysextUpdate oe r =
     (let hasBundleSource = given (ku_KubernetesBundleSource r); hasTargetPath = given (ku_TargetSysextPath r);
          hasTargetDigest = given (ku_TargetSysextSHA256 r)
      in first_error
       [reject (ku_ExternalWorker r \<and> (ku_UpgradeRole r \<noteq> ''worker'' \<or> ku_APIServerVersion r = []))
          ''external Kubernetes upgrade requires a worker role and observed API server version'' [],
        reject (\<not> given (ku_TargetPayloadVersion r)) ''kubernetesSysextUpdate targetPayloadVersion is required'' [],
        reject (hasBundleSource \<noteq> given (ku_KubernetesBundleRef r))
          ''kubernetesSysextUpdate bundle source and ref must be provided together'' [],
        reject (hasBundleSource \<and> \<not> https_url oe (ku_KubernetesBundleSource r))
          ''kubernetesSysextUpdate bundle source must be an HTTPS URL'' [],
        reject (hasTargetPath \<noteq> hasTargetDigest \<or> \<not> hasBundleSource \<and> \<not> hasTargetPath)
          ''kubernetesSysextUpdate requires a bundle reference or a target sysext path and digest'' [],
        if hasTargetDigest
        then validateSHA256Hex ''kubernetesSysextUpdate targetSysext'' (TrimSpace (ku_TargetSysextSHA256 r)) else None,
        when_given (ku_BundleManifestDigest r)
          (validateSHA256Digest ''kubernetesSysextUpdate bundle manifest'' (ku_BundleManifestDigest r)),
        when_given (ku_UpgradeRole r)
          (first_error
             [error_of (opCleanSegment ''kubernetesSysextUpdate candidateGenerationID'' (ku_CandidateGenerationID r)),
              reject (ku_UpgradeRole r \<notin> {''apply'', ''control-plane'', ''worker''})
                ''kubernetesSysextUpdate upgradeRole must be apply, control-plane, or worker'' [],
              reject (\<not> given (ku_SourcePayloadVersion r)) ''kubernetesSysextUpdate %s is required'' [''sourcePayloadVersion''],
              upgrade_snapshot_check oe r])])"

definition validateKubeadmUpgradeEvidence :: "KubeadmUpgradeEvidence option \<Rightarrow> error" where
  "validateKubeadmUpgradeEvidence ev =
     (case ev of
        None \<Rightarrow> Some (Errorf ''executable kubeadm-upgrade operation requires kubeadmUpgradeEvidence'' [])
      | Some e \<Rightarrow> first_error
          [reject (ke_TargetKubeadmAccessMode e \<noteq> ''operation-private-sysext'')
             ''kubeadmUpgradeEvidence targetKubeadmAccessMode must be operation-private-sysext'' [],
           reject (ke_KubeletActivationGate e \<noteq> ''operation-released-target-kubelet'')
             ''kubeadmUpgradeEvidence kubeletActivationGate must be operation-released-target-kubelet'' [],
           reject (ke_SourceKubeletPolicy e \<noteq> ''keep-running'')
             ''kubeadmUpgradeEvidence sourceKubeletPolicy must be keep-running'' [],
           reject (ke_GlobalTargetActiveBeforeKubeadm e)
             ''kubeadmUpgradeEvidence cannot globally activate target sysext before kubeadm'' []])"

definition ValidateDestructiveReset :: "DestructiveReset \<Rightarrow> error" where
  "ValidateDestructiveReset r =
     first_error
       [reject (\<not> given (dr_InventoryNodeName r)) ''destructiveResetRequest inventoryNodeName is required'' [],
        reject (TrimSpace (dr_ResetScope r) \<notin> {''cluster'', ''node''})
          ''destructiveResetRequest resetScope must be cluster or node'' [],
        when_given (dr_TargetGenerationID r)
          (error_of (opCleanSegment ''destructiveResetRequest targetGenerationID'' (dr_TargetGenerationID r))),
        reject (\<not> dr_DiscardClusterIdentity r) ''destructiveResetRequest discardClusterIdentity must be true'' [],
        each_error (\<lambda>surface. reject (\<not> given surface) ''destructiveResetRequest wipeSurfaces[%d] is empty'' []) (dr_WipeSurfaces r)]"

definition ValidateHostUpgrade :: "op_env \<Rightarrow> HostUpgrade \<Rightarrow> error" where
  "ValidateHostUpgrade oe r =
     (let ref = Clean (hu_ImageLocalRef r)
      in first_error
       [reject (given (hu_ImageURL r) = given (hu_ImageLocalRef r))
          ''hostUpgradeRequest requires exactly one imageURL or imageLocalRef'' [],
        reject (given (hu_ImageURL r) \<and>
                (case oe_url oe (hu_ImageURL r) of
                   None \<Rightarrow> True
                 | Some u \<Rightarrow> ul_Scheme u \<noteq> ''https'' \<or> ul_Host u = [] \<or> ul_User u \<noteq> None \<or> ul_RawQuery u \<noteq> [] \<or> ul_Fragment u \<noteq> []))
          ''hostUpgradeRequest imageURL must be an HTTPS URL without credentials, query, or fragment'' [],
        reject (given (hu_ImageLocalRef r) \<and>
                (IsAbs (hu_ImageLocalRef r) \<or> ref \<noteq> hu_ImageLocalRef r \<or> ref = ''.'' \<or> ref = ''..'' \<or> HasPrefix ref ''../''))
          ''hostUpgradeRequest imageLocalRef must be a clean relative path'' [],
        when_given (hu_ImageSHA256 r) (validateSHA256Hex ''hostUpgradeRequest image'' (TrimSpace (hu_ImageSHA256 r))),
        error_of (opCleanSegment ''hostUpgradeRequest candidateGenerationID'' (hu_CandidateGenerationID r))])"

definition etcd_id_check :: "string \<times> string \<Rightarrow> error" where
  "etcd_id_check = (\<lambda>(name, value).
     first_error
       [reject (\<not> given value) ''etcdMemberRemoveRequest %s is required'' [name],
        reject (\<not> ParsesHex64 (TrimSpace value)) ''etcdMemberRemoveRequest %s must be a hexadecimal etcd ID'' [name]])"

definition ValidateEtcdMemberRemove :: "op_env \<Rightarrow> EtcdMemberRemove \<Rightarrow> error" where
  "ValidateEtcdMemberRemove oe r =
     first_error
       [reject (\<not> given (mr_TargetNodeName r)) ''etcdMemberRemoveRequest targetNodeName is required'' [],
        each_error etcd_id_check [(''targetMemberID'', mr_TargetMemberID r), (''expectedClusterID'', mr_ExpectedClusterID r)],
        reject (case oe_url oe (TrimSpace (mr_TargetPeerURL r)) of
                  None \<Rightarrow> True
                | Some u \<Rightarrow> ul_Scheme u \<noteq> ''https'' \<or> ul_Host u = [] \<or> ul_Path u \<noteq> [] \<or> ul_RawQuery u \<noteq> [] \<or> ul_Fragment u \<noteq> [])
          ''etcdMemberRemoveRequest targetPeerURL must be an HTTPS origin'' [],
        reject (mr_ExpectedMemberCount r < 2) ''etcdMemberRemoveRequest expectedMemberCount must be at least 2'' []]"

section \<open>Records\<close>

definition on_body :: "'a option \<Rightarrow> ('a \<Rightarrow> error) \<Rightarrow> error" where
  "on_body body f = (case body of None \<Rightarrow> None | Some r \<Rightarrow> f r)"

definition present :: "'a option \<Rightarrow> nat" where
  "present body = (case body of None \<Rightarrow> 0 | Some _ \<Rightarrow> 1)"

definition body_kinds :: "string \<Rightarrow> 'a option \<Rightarrow> string list \<Rightarrow> string \<Rightarrow> string list \<Rightarrow> string \<Rightarrow> error" where
  "body_kinds kind body allowed excluded required missing =
     first_error
       [reject (body \<noteq> None \<and> kind \<notin> set allowed) excluded [kind],
        reject (kind \<in> set required \<and> body = None) missing []]"

definition validateRequestBodyConsistency :: "OperationRecord \<Rightarrow> error" where
  "validateRequestBodyConsistency r =
     (let kind = or_OperationKind r
      in first_error
       [reject (present (or_BootstrapRequest r) + present (or_ConfigApplyRequest r) + present (or_KubernetesSysextUpdate r) +
                present (or_KubeadmControlPlaneConfig r) + present (or_DestructiveResetRequest r) +
                present (or_HostUpgradeRequest r) + present (or_EtcdMemberRemoveRequest r) > 1)
          ''operation record has multiple request bodies'' [],
        body_kinds kind (or_KubernetesSysextUpdate r)
          [''kubeadm-upgrade'', ''kubeadm-upgrade-prepare''] ''operation kind %q cannot include kubernetesSysextUpdate''
          [''kubeadm-upgrade''] ''kubeadm-upgrade operation requires kubernetesSysextUpdate'',
        body_kinds kind (or_KubeadmControlPlaneConfig r)
          [''kubeadm-control-plane-config''] ''operation kind %q cannot include kubeadmControlPlaneConfig''
          [''kubeadm-control-plane-config''] ''kubeadm-control-plane-config operation requires kubeadmControlPlaneConfig'',
        body_kinds kind (or_DestructiveResetRequest r)
          [''destructive-reset''] ''operation kind %q cannot include destructiveResetRequest''
          [''destructive-reset''] ''destructive-reset operation requires destructiveResetRequest'',
        body_kinds kind (or_HostUpgradeRequest r)
          [''host-upgrade'', ''host-upgrade-handoff''] ''operation kind %q cannot include hostUpgradeRequest''
          [''host-upgrade'', ''host-upgrade-handoff''] ''host-upgrade operation requires hostUpgradeRequest'',
        body_kinds kind (or_EtcdMemberRemoveRequest r)
          [''etcd-member-remove''] ''operation kind %q cannot include etcdMemberRemoveRequest''
          [''etcd-member-remove''] ''etcd-member-remove operation requires etcdMemberRemoveRequest''])"

definition join_material_check :: "BootstrapRequest \<Rightarrow> error" where
  "join_material_check b =
     first_error
       [when_given (br_JoinMaterialDigest b) (validateSHA256Hex ''bootstrapRequest joinMaterialDigest'' (br_JoinMaterialDigest b)),
        if br_PreviousJoinMaterialDigest b \<noteq> [] then
          first_error
            [reject (\<not> br_ExternalWorker b \<or> br_ResumeOperationID b = [])
               ''previousJoinMaterialDigest requires an external worker continuation'' [],
             validateSHA256Hex ''bootstrapRequest previousJoinMaterialDigest'' (br_PreviousJoinMaterialDigest b)]
        else None]"

definition executor_plan_check :: "ExecutorPlan \<Rightarrow> error" where
  "executor_plan_check p =
     first_error
       [reject (\<not> given (ep_Phase p)) ''operation executorPlan phase is required'' [],
        reject (case ep_Argv p of [] \<Rightarrow> True | a # _ \<Rightarrow> \<not> given a) ''operation executorPlan argv is required'' []]"

definition marker_check :: "PreExecMutationMarker \<Rightarrow> error" where
  "marker_check m =
     reject (\<not> given (pm_MarkerID m) \<or> \<not> given (pm_Tool m) \<or> \<not> given (pm_ArgvDigest m) \<or> pm_MarkedAt m = 0)
       ''pre-exec mutation marker is incomplete'' []"

definition artifact_check :: "OpDiagnosticArtifact \<Rightarrow> error" where
  "artifact_check a =
     first_error
       [reject (\<not> given (oa_ArtifactID a) \<or> \<not> given (oa_Path a) \<or> \<not> given (oa_SHA256 a) \<or> \<not> oa_Redacted a)
          ''diagnostic artifact must be redacted and complete'' [],
        validateArtifactPath (oa_Path a),
        validateSHA256Hex ''diagnostic artifact'' (oa_SHA256 a)]"

definition request_bodies_check :: "op_env \<Rightarrow> OperationRecord \<Rightarrow> error" where
  "request_bodies_check oe r =
     first_error
       [on_body (or_BootstrapRequest r) (\<lambda>b. first_error [validateBootstrapRequest b, join_material_check b]),
        on_body (or_ConfigApplyRequest r) validateConfigApplyRequest,
        on_body (or_KubernetesSysextUpdate r)
          (\<lambda>u. first_error [validateKubernetesSysextUpdate oe u,
                           when_given (ku_UpgradeRole u) (validateKubeadmUpgradeEvidence (or_KubeadmUpgradeEvidence r))]),
        on_body (or_KubeadmControlPlaneConfig r) (validateKubeadmControlPlaneConfig oe),
        on_body (or_DestructiveResetRequest r) ValidateDestructiveReset,
        on_body (or_HostUpgradeRequest r) (ValidateHostUpgrade oe),
        on_body (or_EtcdMemberRemoveRequest r) (ValidateEtcdMemberRemove oe),
        validateRequestBodyConsistency r]"

definition opValidateRecord :: "op_env \<Rightarrow> OperationRecord \<Rightarrow> error" where
  "opValidateRecord oe r =
     first_error
       [reject (or_APIVersion r \<noteq> APIVersion) ''operation record apiVersion must be %q'' [APIVersion],
        reject (or_Kind r \<noteq> OpRecordKind) ''operation record kind must be %q'' [OpRecordKind],
        reject (or_SchemaVersion r \<noteq> SchemaVersion) ''operation record schemaVersion must be %d'' [],
        error_of (opCleanSegment ''operation id'' (or_OperationID r)),
        reject (\<not> given (or_OperationKind r)) ''operation kind is required'' [],
        reject (\<not> given (or_Scope r)) ''operation scope is required'' [],
        reject (\<not> given (or_RequestDigest r)) ''operation requestDigest is required'' [],
        reject (or_RecordRevision r < 1) ''operation recordRevision must be positive'' [],
        reject (or_LatestJournalSeq r < 1) ''operation latestJournalSeq must be positive'' [],
        reject (or_PhaseIndex r < 0) ''operation phaseIndex must not be negative'' [],
        reject (or_Terminal r \<and> \<not> given (or_Result r)) ''terminal operation result is required'' [],
        reject (or_Terminal r \<and> or_CompletedAt r = None) ''terminal operation completedAt is required'' [],
        reject (or_CreatedAt r = 0 \<or> or_UpdatedAt r = 0) ''operation createdAt and updatedAt are required'' [],
        request_bodies_check oe r,
        validateOptionalEnum ''activationMode'' (or_ActivationMode r) [''live'', ''next-boot''],
        validateOptionalEnum ''activationState'' (or_ActivationState r)
          [''pending'', ActivationStateActivating, ActivationStateActiveLive, ''failed'', ''rolled-back''],
        validateOptionalEnum ''generationCommitState'' (or_GenerationCommitState r)
          [''candidate'', GenerationCommitCommitted, ''abandoned''],
        validateOptionalEnum ''postKubeadmHealthState'' (or_PostKubeadmHealthState r)
          [''not-run'', ''running'', ''passed'', ''failed''],
        on_body (or_ExecutorPlan r) executor_plan_check,
        each_error marker_check (or_PreExecMutationMarkers r),
        each_error artifact_check (or_DiagnosticArtifacts r)]"

section \<open>Transitions\<close>

definition resolvedDigestTransitionAllowed :: "string \<Rightarrow> string \<Rightarrow> bool" where
  "resolvedDigestTransitionAllowed previous next \<longleftrightarrow>
     TrimSpace previous = TrimSpace next \<or> TrimSpace previous = [] \<and> TrimSpace next \<noteq> []"

definition both_or_none :: "('a \<Rightarrow> 'a \<Rightarrow> bool) \<Rightarrow> 'a option \<Rightarrow> 'a option \<Rightarrow> bool" where
  "both_or_none f previous next =
     (case previous of None \<Rightarrow> next = None | Some p \<Rightarrow> (case next of None \<Rightarrow> False | Some n \<Rightarrow> f p n))"

definition size_resolved :: "nat \<Rightarrow> nat \<Rightarrow> bool" where
  "size_resolved previous next \<longleftrightarrow> previous = next \<or> previous = 0 \<and> next > 0"

definition host_upgrade_fixed :: "HostUpgrade \<Rightarrow> HostUpgrade" where
  "host_upgrade_fixed v = v\<lparr>hu_ImageSHA256 := [], hu_ImageSizeBytes := 0\<rparr>"

definition host_upgrade_step :: "HostUpgrade \<Rightarrow> HostUpgrade \<Rightarrow> bool" where
  "host_upgrade_step previous next \<longleftrightarrow>
     host_upgrade_fixed previous = host_upgrade_fixed next \<and>
     resolvedDigestTransitionAllowed (hu_ImageSHA256 previous) (hu_ImageSHA256 next) \<and>
     size_resolved (hu_ImageSizeBytes previous) (hu_ImageSizeBytes next)"

definition hostUpgradeTransitionAllowed :: "HostUpgrade option \<Rightarrow> HostUpgrade option \<Rightarrow> bool" where
  "hostUpgradeTransitionAllowed previous next = both_or_none host_upgrade_step previous next"

definition bootstrap_fixed :: "BootstrapRequest \<Rightarrow> BootstrapRequest" where
  "bootstrap_fixed v = v\<lparr>br_KubernetesBundleManifestDigest := [], br_KubernetesSysextPayloadDigest := []\<rparr>"

definition bootstrap_step :: "BootstrapRequest \<Rightarrow> BootstrapRequest \<Rightarrow> bool" where
  "bootstrap_step previous next \<longleftrightarrow>
     bootstrap_fixed previous = bootstrap_fixed next \<and>
     resolvedDigestTransitionAllowed (br_KubernetesBundleManifestDigest previous) (br_KubernetesBundleManifestDigest next) \<and>
     resolvedDigestTransitionAllowed (br_KubernetesSysextPayloadDigest previous) (br_KubernetesSysextPayloadDigest next)"

definition bootstrapRequestTransitionAllowed :: "BootstrapRequest option \<Rightarrow> BootstrapRequest option \<Rightarrow> bool" where
  "bootstrapRequestTransitionAllowed previous next = both_or_none bootstrap_step previous next"

definition sysext_fixed :: "KubernetesSysextUpdate \<Rightarrow> KubernetesSysextUpdate" where
  "sysext_fixed v = v\<lparr>ku_TargetSysextPath := [], ku_TargetSysextSHA256 := [], ku_TargetSysextSize := 0,
     ku_BundleManifestDigest := [], ku_SnapshotRef := [], ku_SnapshotDigest := [], ku_SnapshotRevision := [],
     ku_SnapshotCreatedAt := [], ku_CapturedMemberListDigest := [], ku_SourceEtcdVersion := [],
     ku_SnapshotStorageLocation := [], ku_SnapshotOperatorIdentity := []\<rparr>"

definition sysext_resolved :: "KubernetesSysextUpdate \<Rightarrow> string list" where
  "sysext_resolved v = [ku_TargetSysextPath v, ku_TargetSysextSHA256 v, ku_BundleManifestDigest v, ku_SnapshotRef v,
     ku_SnapshotDigest v, ku_SnapshotRevision v, ku_SnapshotCreatedAt v, ku_CapturedMemberListDigest v,
     ku_SourceEtcdVersion v, ku_SnapshotStorageLocation v, ku_SnapshotOperatorIdentity v]"

definition sysext_step :: "KubernetesSysextUpdate \<Rightarrow> KubernetesSysextUpdate \<Rightarrow> bool" where
  "sysext_step previous next \<longleftrightarrow>
     sysext_fixed previous = sysext_fixed next \<and>
     list_all2 resolvedDigestTransitionAllowed (sysext_resolved previous) (sysext_resolved next) \<and>
     size_resolved (ku_TargetSysextSize previous) (ku_TargetSysextSize next)"

definition kubernetesSysextUpdateTransitionAllowed ::
  "KubernetesSysextUpdate option \<Rightarrow> KubernetesSysextUpdate option \<Rightarrow> bool" where
  "kubernetesSysextUpdateTransitionAllowed previous next = both_or_none sysext_step previous next"

definition control_plane_fixed :: "KubeadmControlPlaneConfig \<Rightarrow> KubeadmControlPlaneConfig" where
  "control_plane_fixed v = v\<lparr>kp_ConfigUploadRan := False, kp_BeforeManifestSHA256 := [], kp_AfterManifestSHA256 := [],
     kp_BeforeKubeletConfigSHA256 := [], kp_AfterKubeletConfigSHA256 := [], kp_ReadinessRequirement := [],
     kp_OriginalNodeUnschedulable := False, kp_ExpectedLiveConfigSHA256 := [], kp_SupportedFieldDelta := None\<rparr>"

definition control_plane_step :: "KubeadmControlPlaneConfig \<Rightarrow> KubeadmControlPlaneConfig \<Rightarrow> bool" where
  "control_plane_step previous next \<longleftrightarrow>
     control_plane_fixed previous = control_plane_fixed next \<and>
     resolvedDigestTransitionAllowed (kp_ExpectedLiveConfigSHA256 previous) (kp_ExpectedLiveConfigSHA256 next) \<and>
     (kp_ReadinessRequirement previous = kp_ReadinessRequirement next \<or> kp_ReadinessRequirement previous = [] \<or>
      kp_ReadinessRequirement next = ''ready'') \<and>
     (kp_SupportedFieldDelta previous = None \<or> kp_SupportedFieldDelta previous = kp_SupportedFieldDelta next)"

definition kubeadmControlPlaneConfigTransitionAllowed ::
  "KubeadmControlPlaneConfig option \<Rightarrow> KubeadmControlPlaneConfig option \<Rightarrow> bool" where
  "kubeadmControlPlaneConfigTransitionAllowed previous next = both_or_none control_plane_step previous next"

text \<open>The readiness requirement is relaxed only before external mutation; the pointers are not nil here.\<close>

definition late_readiness :: "OperationRecord \<Rightarrow> OperationRecord \<Rightarrow> bool" where
  "late_readiness previous next =
     (case (or_KubeadmControlPlaneConfig previous, or_KubeadmControlPlaneConfig next) of
        (Some p, Some n) \<Rightarrow> or_ExternalMutationStarted next \<and> kp_ReadinessRequirement p = [] \<and>
                            kp_ReadinessRequirement n = ''cni-uninitialized''
      | _ \<Rightarrow> False)"

definition evidence_kept :: "KubeadmUpgradeEvidence option \<Rightarrow> KubeadmUpgradeEvidence option \<Rightarrow> bool" where
  "evidence_kept previous next =
     (case previous of
        None \<Rightarrow> True
      | Some p \<Rightarrow> (case next of
          None \<Rightarrow> False
        | Some n \<Rightarrow> ke_TargetKubeadmAccessMode n = ke_TargetKubeadmAccessMode p \<and>
                    ke_KubeletActivationGate n = ke_KubeletActivationGate p \<and>
                    ke_SourceKubeletPolicy n = ke_SourceKubeletPolicy p \<and>
                    (ke_GlobalTargetActiveBeforeKubeadm p \<longrightarrow> ke_GlobalTargetActiveBeforeKubeadm n)))"

definition opHasPrefix :: "'a list \<Rightarrow> 'a list \<Rightarrow> bool" where
  "opHasPrefix values pre \<longleftrightarrow> \<not> length values < length pre \<and> take (length pre) values = pre"

text \<open>Addition of Go's 64-bit \<open>int\<close>.\<close>

definition inc64 :: "int \<Rightarrow> int" where
  "inc64 n = (if n = 2 ^ 63 - 1 then - (2 ^ 63) else n + 1)"

definition ValidateTransition :: "OperationRecord \<Rightarrow> OperationRecord \<Rightarrow> error" where
  "ValidateTransition previous next =
     first_error
       [reject (or_OperationID previous \<noteq> or_OperationID next) ''operation transition cannot change operationID'' [],
        reject (or_Terminal previous) ''terminal operation records are immutable'' [],
        reject (or_RecordRevision next \<noteq> or_RecordRevision previous \<and> or_RecordRevision next \<noteq> inc64 (or_RecordRevision previous))
          ''operation recordRevision must advance by one'' [],
        reject (or_LatestJournalSeq next \<noteq> or_LatestJournalSeq previous \<and> or_LatestJournalSeq next \<noteq> inc64 (or_LatestJournalSeq previous))
          ''operation latestJournalSeq must advance by one'' [],
        reject (or_ExpectedMachineID next \<noteq> or_ExpectedMachineID previous) ''operation expectedMachineID is immutable'' [],
        reject (or_ExpectedCurrentGenerationID next \<noteq> or_ExpectedCurrentGenerationID previous)
          ''operation expectedCurrentGenerationID is immutable'' [],
        reject (or_ExpectedClusterIntentDigest next \<noteq> or_ExpectedClusterIntentDigest previous)
          ''operation expectedClusterIntentDigest is immutable'' [],
        reject (or_PhaseIndex next < or_PhaseIndex previous) ''operation phaseIndex must not decrease'' [],
        reject (\<not> opHasPrefix (or_CompletedPhases next) (or_CompletedPhases previous))
          ''operation completedPhases must be append-only'' [],
        reject (or_ExternalMutationStarted previous \<and> \<not> or_ExternalMutationStarted next)
          ''operation externalMutationStarted cannot be cleared'' [],
        reject (\<not> opHasPrefix (or_PreExecMutationMarkers next) (or_PreExecMutationMarkers previous))
          ''operation pre-exec mutation markers must be append-only'' [],
        reject (\<not> opHasPrefix (or_MutationScopes next) (or_MutationScopes previous))
          ''operation mutationScopes must be append-only'' [],
        reject (or_MutatingToolRan previous \<and> \<not> or_MutatingToolRan next) ''operation mutatingToolRan cannot be cleared'' [],
        reject (\<not> opHasPrefix (or_MutatingToolInvocations next) (or_MutatingToolInvocations previous))
          ''operation mutatingToolInvocations must be append-only'' [],
        reject (\<not> opHasPrefix (or_DiagnosticArtifacts next) (or_DiagnosticArtifacts previous))
          ''operation diagnosticArtifacts must be append-only'' [],
        reject (\<not> bootstrapRequestTransitionAllowed (or_BootstrapRequest previous) (or_BootstrapRequest next))
          ''operation bootstrapRequest is immutable'' [],
        reject (or_ConfigApplyRequest next \<noteq> or_ConfigApplyRequest previous) ''operation configApplyRequest is immutable'' [],
        reject (\<not> kubernetesSysextUpdateTransitionAllowed (or_KubernetesSysextUpdate previous) (or_KubernetesSysextUpdate next))
          ''operation kubernetesSysextUpdate is immutable'' [],
        reject (\<not> kubeadmControlPlaneConfigTransitionAllowed (or_KubeadmControlPlaneConfig previous) (or_KubeadmControlPlaneConfig next))
          ''operation kubeadmControlPlaneConfig request fields are immutable'' [],
        reject (late_readiness previous next)
          ''operation pre-CNI readiness requirement must be recorded before external mutation'' [],
        reject (\<not> evidence_kept (or_KubeadmUpgradeEvidence previous) (or_KubeadmUpgradeEvidence next))
          ''operation kubeadmUpgradeEvidence safety policy is immutable'' [],
        reject (or_DestructiveResetRequest next \<noteq> or_DestructiveResetRequest previous)
          ''operation destructiveResetRequest is immutable'' [],
        reject (\<not> hostUpgradeTransitionAllowed (or_HostUpgradeRequest previous) (or_HostUpgradeRequest next))
          ''operation hostUpgradeRequest is immutable'' [],
        reject (or_EtcdMemberRemoveRequest next \<noteq> or_EtcdMemberRemoveRequest previous)
          ''operation etcdMemberRemoveRequest is immutable'' []]"

section \<open>Stale operations\<close>

definition mutatingPhase :: "string \<Rightarrow> bool" where
  "mutatingPhase phase0 =
     (let phase = ToLower (TrimSpace phase0)
      in Contains phase ''kubeadm'' \<or> Contains phase ''kubectl'' \<or> Contains phase ''etcd-running'')"

definition mutatingOperationKind :: "string \<Rightarrow> bool" where
  "mutatingOperationKind kind0 =
     (let kind = ToLower (TrimSpace kind0)
      in Contains kind ''bootstrap'' \<or> Contains kind ''join'' \<or> Contains kind ''kubeadm'' \<or> Contains kind ''etcd'' \<or>
         Contains kind ''destructive-reset'')"

definition mutation_evidence :: "OperationRecord \<Rightarrow> bool" where
  "mutation_evidence r \<longleftrightarrow>
     or_ExternalMutationStarted r \<or> or_MutatingToolRan r \<or> or_PreExecMutationMarkers r \<noteq> [] \<or> or_MutationScopes r \<noteq> []"

definition ClassifyStale :: "OperationRecord \<Rightarrow> string" where
  "ClassifyStale r =
     (if or_Terminal r then StaleTerminal
      else if mutation_evidence r then StalePostMutation
      else if mutatingPhase (or_Phase r) then StalePostMutation
      else if or_Scope r \<in> {''host-generation'', ''install-state''} \<and> (or_PhaseIndex r > 0 \<or> or_CompletedPhases r \<noteq> [])
      then StaleHostOnly
      else if mutatingOperationKind (or_OperationKind r) then StaleAmbiguous
      else if or_PhaseIndex r = 0 \<and> or_CompletedPhases r = [] then StalePreMutation
      else StaleAmbiguous)"

definition live_candidate :: "string \<Rightarrow> (InvocationRecord \<Rightarrow> bool) \<Rightarrow> InvocationRecord \<Rightarrow> bool" where
  "live_candidate bootID live i \<longleftrightarrow>
     TrimSpace bootID \<noteq> [] \<and> iv_CompletedAt i = None \<and> iv_BootID i = bootID \<and>
     (given (iv_AgentStartID i) \<and> iv_PID i > 0 \<or> given (iv_SystemdInvocationID i)) \<and> live i"

definition hasLiveInvocation :: "OperationRecord \<Rightarrow> string \<Rightarrow> (InvocationRecord \<Rightarrow> bool) option \<Rightarrow> bool" where
  "hasLiveInvocation r bootID live0 =
     (case live0 of None \<Rightarrow> False | Some live \<Rightarrow> list_ex (live_candidate bootID live) (or_Invocations r))"

definition canCompleteHostBookkeeping :: "OperationRecord \<Rightarrow> bool" where
  "canCompleteHostBookkeeping r \<longleftrightarrow>
     or_Resume r = ResumeHostBookkeeping \<and> or_OperationKind r = HostBookkeepingOperationKind \<and>
     or_Scope r = HostBookkeepingGenerationScope \<and> or_Phase r = HostBookkeepingCompletionPhase \<and>
     \<not> or_ExternalMutationStarted r \<and> \<not> or_MutatingToolRan r \<and> or_MutatingToolInvocations r = [] \<and>
     or_PreExecMutationMarkers r = [] \<and> or_MutationScopes r = []"

section \<open>New and completed records\<close>

definition normalizeNewRecord :: "OperationRecord \<Rightarrow> time \<Rightarrow> OperationRecord" where
  "normalizeNewRecord r now =
     (let created = (if or_CreatedAt r = 0 then now else or_CreatedAt r)
      in r\<lparr>or_APIVersion := APIVersion, or_Kind := OpRecordKind, or_SchemaVersion := SchemaVersion,
           or_OperationID := TrimSpace (or_OperationID r), or_OperationKind := TrimSpace (or_OperationKind r),
           or_Scope := TrimSpace (or_Scope r), or_RequestDigest := TrimSpace (or_RequestDigest r),
           or_CreatedAt := created, or_UpdatedAt := (if or_UpdatedAt r = 0 then created else or_UpdatedAt r)\<rparr>)"

definition completeGeneration :: "time \<Rightarrow> OperationRecord \<Rightarrow> OperationRecord" where
  "completeGeneration now r =
     r\<lparr>or_GenerationCommitState := GenerationCommitCommitted, or_PhaseIndex := int (length (or_CompletedPhases r)),
       or_Terminal := True, or_Result := ResultSucceeded, or_CompletedAt := Some now, or_UpdatedAt := now,
       or_RecoveryRequired := False, or_FailureReason := []\<rparr>"

definition CompleteLiveGeneration :: "time \<Rightarrow> OperationRecord \<Rightarrow> OperationRecord" where
  "CompleteLiveGeneration now r =
     completeGeneration now (r\<lparr>or_ActivationState := ActivationStateActiveLive, or_BootHealthPending := False\<rparr>)"

definition CompleteBootTrial :: "time \<Rightarrow> OperationRecord \<Rightarrow> OperationRecord" where
  "CompleteBootTrial now r = completeGeneration now (r\<lparr>or_BootHealthPending := True\<rparr>)"

definition op_Fail :: "time \<Rightarrow> string \<Rightarrow> string \<Rightarrow> OperationRecord \<Rightarrow> OperationRecord" where
  "op_Fail now reason nextAction r =
     (let recovery = (or_RecoveryRequired r \<or> or_ExternalMutationStarted r \<or> or_PreExecMutationMarkers r \<noteq> [] \<or>
                      or_ActivationState r = ActivationStateActiveLive \<or> or_ActivationState r = ActivationStateActivating)
      in r\<lparr>or_RecoveryRequired := recovery, or_Result := (if recovery then ResultFailedNeedsRepair else ''failed''),
           or_FailureReason := reason, or_NextAction := nextAction, or_Terminal := True,
           or_CompletedAt := Some now, or_UpdatedAt := now\<rparr>)"

fun appendMissingStrings :: "string list \<Rightarrow> string list \<Rightarrow> string list" where
  "appendMissingStrings values [] = values"
| "appendMissingStrings values (raw # rest) =
     (let value = TrimSpace raw
      in if value = [] \<or> value \<in> set values then appendMissingStrings values rest
         else appendMissingStrings (values @ [value]) rest)"

end
