(* ===== verification/OperationStore.thy ===== *)
theory OperationStore
  imports OperationChecks Go_IO
begin

text \<open>
  The durable store of node operations (\<^verbatim>\<open>internal/installer/operation/store.go\<close>): one directory per operation with
  an append-only journal of events, each holding the complete record, and a snapshot of the latest record
  that can be rebuilt from the journal.

  A store is the tree below its root. An operation directory is kept under its name; a journal that was
  never created is \<open>None\<close>. Temporary files are hidden names that every reader skips, and are left out. The
  operation lock excludes other processes, so an operation runs without interference; the directory modes are
  left out. System calls may fail as in \<^verbatim>\<open>Go_IO\<close>.
\<close>

section \<open>State\<close>

record op_dir =
  od_journal :: "(string \<times> JournalEvent json_file) list option"
  od_record :: "OpSnapshot json_file"
  od_attachments :: "(string \<times> string) list"
  od_identity :: bool

record op_store =
  os_root :: bool
  os_dirs :: "(string \<times> op_dir) list"
  os_faults :: "fault list"

definition opcall :: "(op_store \<Rightarrow> op_store) \<Rightarrow> (op_store, unit) io" where
  "opcall f = fault_call os_faults (\<lambda>fs s. s\<lparr>os_faults := fs\<rparr>) f"

definition new_op_dir :: op_dir where
  "new_op_dir = \<lparr>od_journal = None, od_record = NoFile, od_attachments = [], od_identity = False\<rparr>"

definition op_at :: "op_store \<Rightarrow> string \<Rightarrow> op_dir option" where
  "op_at s g = map_of (os_dirs s) g"

definition upd_op :: "string \<Rightarrow> (op_dir \<Rightarrow> op_dir) \<Rightarrow> op_store \<Rightarrow> op_store" where
  "upd_op g f s =
     (case op_at s g of None \<Rightarrow> s | Some d \<Rightarrow> s\<lparr>os_dirs := AList.update g (f d) (os_dirs s)\<rparr>)"

definition make_op_dir :: "string \<Rightarrow> op_store \<Rightarrow> op_store" where
  "make_op_dir g s =
     (case op_at s g of None \<Rightarrow> s\<lparr>os_dirs := AList.update g new_op_dir (os_dirs s)\<rparr> | Some d \<Rightarrow> s)"

definition journal_at :: "op_store \<Rightarrow> string \<Rightarrow> (string \<times> JournalEvent json_file) list option" where
  "journal_at s g = (case op_at s g of None \<Rightarrow> None | Some d \<Rightarrow> od_journal d)"

definition record_at :: "op_store \<Rightarrow> string \<Rightarrow> OpSnapshot json_file" where
  "record_at s g = (case op_at s g of None \<Rightarrow> NoFile | Some d \<Rightarrow> od_record d)"

definition withOperationLock :: "string \<Rightarrow> bool \<Rightarrow> (op_store, 'a) io \<Rightarrow> (op_store, 'a) io" where
  "withOperationLock g create action =
     io_then
       (if create then io_then (opcall (\<lambda>s. s\<lparr>os_root := True\<rparr>)) (opcall (make_op_dir g))
        else io_bind (io_get (\<lambda>s. op_at s g)) (\<lambda>d.
          case d of None \<Rightarrow> io_err OsNotExist | Some _ \<Rightarrow> opcall (\<lambda>s. s)))
       (io_then (io_wrap ''open operation lock: %w'' [] (opcall (\<lambda>s. s))) action)"

definition operationDir :: "string \<Rightarrow> string res" where
  "operationDir operationID = opCleanSegment ''operation id'' operationID"

section \<open>Journal\<close>

definition EventKind :: string where "EventKind = ''OperationJournalEvent''"

definition ValidateEvent :: "op_env \<Rightarrow> JournalEvent \<Rightarrow> error" where
  "ValidateEvent oe e =
     first_error
       [reject (je_APIVersion e \<noteq> APIVersion) ''operation journal event apiVersion must be %q'' [APIVersion],
        reject (je_Kind e \<noteq> EventKind) ''operation journal event kind must be %q'' [EventKind],
        reject (je_Sequence e < 1) ''operation journal event sequence must be positive'' [],
        error_of (opCleanSegment ''event id'' (je_EventID e)),
        reject (\<not> given (je_EventType e)) ''operation journal event type is required'' [],
        opValidateRecord oe (je_Record e),
        reject (or_LatestJournalSeq (je_Record e) \<noteq> je_Sequence e)
          ''operation journal event sequence does not match record latestJournalSeq'' [],
        reject (je_CreatedAt e = 0) ''operation journal event createdAt is required'' []]"

text \<open>\<^verbatim>\<open>%020d\<close> of a positive 64-bit integer: its digits, padded with zeros to twenty.\<close>

fun pad_digits :: "nat \<Rightarrow> nat \<Rightarrow> string" where
  "pad_digits 0 n = []"
| "pad_digits (Suc w) n = pad_digits w (n div 10) @ [char_of (48 + n mod 10)]"

definition event_name :: "JournalEvent \<Rightarrow> string" where
  "event_name e = pad_digits 20 (nat (je_Sequence e)) @ ''.'' @ je_EventID e @ ''.json''"

definition journalSeq :: "string \<Rightarrow> int option" where
  "journalSeq name =
     (if CHR ''.'' \<notin> set name then None
      else case ParseInt64 (takeWhile (\<lambda>c. c \<noteq> CHR ''.'') name) of
             Inl _ \<Rightarrow> None
           | Inr seq \<Rightarrow> if seq < 1 then None else Some seq)"

definition visible_json :: "string \<Rightarrow> bool" where
  "visible_json name \<longleftrightarrow> HasSuffix name ''.json'' \<and> \<not> HasPrefix name ''.''"

text \<open>The event a file of the journal counts for; files that do not decode, validate or match their name are skipped.\<close>

definition journal_event :: "op_env \<Rightarrow> (string \<times> JournalEvent json_file) list \<Rightarrow> string \<Rightarrow> JournalEvent option" where
  "journal_event oe files name =
     (case journalSeq name of
        None \<Rightarrow> None
      | Some seq \<Rightarrow>
          (case map_of files name of
             Some (File e) \<Rightarrow> if je_Sequence e = seq \<and> ValidateEvent oe e = None then Some e else None
           | _ \<Rightarrow> None))"

definition continues :: "JournalEvent list \<Rightarrow> JournalEvent \<Rightarrow> bool" where
  "continues events e \<longleftrightarrow>
     (if events \<noteq> []
      then je_Sequence e = inc64 (je_Sequence (last events)) \<and> ValidateTransition (je_Record (last events)) (je_Record e) = None
      else je_Sequence e = 1)"

fun read_events ::
  "op_env \<Rightarrow> (string \<times> JournalEvent json_file) list \<Rightarrow> string list \<Rightarrow> int list \<Rightarrow> JournalEvent list \<Rightarrow> JournalEvent list res" where
  "read_events oe files [] seen events = Inr events"
| "read_events oe files (name # rest) seen events =
     (case journal_event oe files name of
        None \<Rightarrow> read_events oe files rest seen events
      | Some e \<Rightarrow>
          if je_Sequence e \<in> set seen then fail ''duplicate valid journal sequence %d in %s and %s'' [name]
          else if continues events e then read_events oe files rest (je_Sequence e # seen) (events @ [e])
          else Inr events)"

definition readJournal :: "op_env \<Rightarrow> (string \<times> JournalEvent json_file) list option \<Rightarrow> JournalEvent list res" where
  "readJournal oe journal =
     (case journal of
        None \<Rightarrow> Inl (Wrap ''read operation journal: %w'' [] OsNotExist)
      | Some files \<Rightarrow> read_events oe files (sort (filter visible_json (map fst files))) [] [])"

definition hasExistingJournal :: "(string \<times> JournalEvent json_file) list option \<Rightarrow> bool" where
  "hasExistingJournal journal =
     (case journal of None \<Rightarrow> False | Some files \<Rightarrow> list_ex visible_json (map fst files))"

section \<open>Snapshot\<close>

definition snapshot_of :: "op_env \<Rightarrow> JournalEvent list \<Rightarrow> OpSnapshot" where
  "snapshot_of oe events =
     (let latest = last events; r = je_Record latest
      in \<lparr>sn_APIVersion = APIVersion, sn_Kind = ''OperationRecordSnapshot'', sn_OperationID = or_OperationID r,
          sn_LatestSeq = je_Sequence latest, sn_JournalDigest = oe_journal_digest oe events, sn_Record = r,
          sn_UpdatedAt = oe_now oe\<rparr>)"

definition writeSnapshot :: "op_env \<Rightarrow> string \<Rightarrow> JournalEvent list \<Rightarrow> (op_store, unit) io" where
  "writeSnapshot oe g events =
     io_then (io_reject (events = []) ''operation snapshot requires journal events'' [])
       (io_wrap ''write operation snapshot: %w'' []
          (opcall (upd_op g (\<lambda>d. d\<lparr>od_record := File (snapshot_of oe events)\<rparr>))))"

definition readSnapshot :: "op_env \<Rightarrow> OpSnapshot json_file \<Rightarrow> JournalEvent list \<Rightarrow> OpSnapshot res" where
  "readSnapshot oe file events =
     (case file of
        NoFile \<Rightarrow> Inl OsNotExist
      | BadFile \<Rightarrow> fail ''decode operation snapshot'' []
      | File sn \<Rightarrow>
          if events = [] then fail ''snapshot validation requires journal events'' []
          else
            let latest = last events in
            res_need
              (first_error
                 [reject (sn_APIVersion sn \<noteq> APIVersion \<or> sn_OperationID sn \<noteq> or_OperationID (je_Record latest) \<or>
                          sn_LatestSeq sn \<noteq> je_Sequence latest \<or> sn_JournalDigest sn \<noteq> oe_journal_digest oe events)
                    ''operation snapshot is stale or digest-invalid'' [],
                  reject (or_LatestJournalSeq (sn_Record sn) \<noteq> or_LatestJournalSeq (je_Record latest) \<or>
                          or_RecordRevision (sn_Record sn) \<noteq> or_RecordRevision (je_Record latest))
                    ''operation snapshot record is stale'' [],
                  reject (sn_Record sn \<noteq> je_Record latest) ''operation snapshot record differs from journal'' [],
                  opValidateRecord oe (sn_Record sn)])
              (Inr sn))"

section \<open>Writing an event\<close>

definition make_journal :: "op_dir \<Rightarrow> op_dir" where
  "make_journal d = d\<lparr>od_journal := Some (case od_journal d of None \<Rightarrow> [] | Some files \<Rightarrow> files)\<rparr>"

definition add_event_file :: "JournalEvent \<Rightarrow> op_dir \<Rightarrow> op_dir" where
  "add_event_file e d =
     d\<lparr>od_journal := Some ((case od_journal d of None \<Rightarrow> [] | Some files \<Rightarrow> files) @ [(event_name e, File e)])\<rparr>"

text \<open>\<open>writeFileNoReplace\<close> of a journal event: the link of the finished file fails when the name exists.\<close>

definition write_event :: "string \<Rightarrow> JournalEvent \<Rightarrow> (op_store, unit) io" where
  "write_event g e =
     io_then (opcall (upd_op g make_journal))
     (io_bind (io_get (\<lambda>s. journal_at s g)) (\<lambda>journal.
       case journal of
         None \<Rightarrow> io_err OsNotExist
       | Some files \<Rightarrow>
           if event_name e \<in> fst ` set files then io_fail ''%s already exists'' [event_name e]
           else opcall (upd_op g (add_event_file e))))"

definition writeEventAndSnapshot :: "op_env \<Rightarrow> string \<Rightarrow> JournalEvent \<Rightarrow> (op_store, unit) io" where
  "writeEventAndSnapshot oe g e =
     io_then (io_need (ValidateEvent oe e))
     (io_then (io_wrap ''write operation journal event: %w'' [] (write_event g e))
     (io_bind (io_get (\<lambda>s. readJournal oe (journal_at s g))) (\<lambda>r.
      io_bind (io_lift r) (writeSnapshot oe g))))"

section \<open>Operations of the store\<close>

definition accepted_event :: "string \<Rightarrow> OperationRecord \<Rightarrow> time \<Rightarrow> JournalEvent" where
  "accepted_event eventID r now =
     \<lparr>je_APIVersion = APIVersion, je_Kind = EventKind, je_Sequence = 1, je_EventID = cleanEventID eventID ''accepted'',
      je_EventType = ''accepted'', je_Record = r, je_CreatedAt = now\<rparr>"

definition create_locked :: "op_env \<Rightarrow> string \<Rightarrow> OperationRecord \<Rightarrow> string \<Rightarrow> time \<Rightarrow> (op_store, OperationRecord) io" where
  "create_locked oe g r eventID now =
     io_bind (io_get (\<lambda>s. (journal_at s g, record_at s g))) (\<lambda>(journal, rec).
     io_then (io_reject (hasExistingJournal journal) ''operation %q already has a journal'' [or_OperationID r])
     (io_then (io_reject (rec \<noteq> NoFile) ''operation %q already exists'' [or_OperationID r])
     (io_then (writeEventAndSnapshot oe g (accepted_event eventID r now)) (io_ok r))))"

definition Store_Create :: "op_env \<Rightarrow> OperationRecord \<Rightarrow> string \<Rightarrow> time \<Rightarrow> (op_store, OperationRecord) io" where
  "Store_Create oe record0 eventID now0 =
     (let now = (if now0 = 0 then oe_now oe else now0);
          r = (normalizeNewRecord record0 now)\<lparr>or_RecordRevision := 1, or_LatestJournalSeq := 1\<rparr>
      in io_then (io_need (opValidateRecord oe r))
         (io_bind (io_lift (operationDir (or_OperationID r))) (\<lambda>g.
            withOperationLock g True (create_locked oe g r eventID now))))"

definition Store_Read :: "op_env \<Rightarrow> string \<Rightarrow> (op_store, OperationRecord) io" where
  "Store_Read oe operationID =
     io_bind (io_lift (operationDir operationID)) (\<lambda>g.
     io_bind (io_get (\<lambda>s. readJournal oe (journal_at s g))) (\<lambda>r.
     io_bind (io_lift r) (\<lambda>events.
       if events = [] then io_fail ''operation %q has no valid journal events'' [operationID]
       else io_bind (io_get (\<lambda>s. record_at s g)) (\<lambda>file.
         case readSnapshot oe file events of
           Inr sn \<Rightarrow> io_ok (sn_Record sn)
         | Inl _ \<Rightarrow> io_then (writeSnapshot oe g events) (io_ok (je_Record (last events)))))))"

definition stamp_next :: "op_env \<Rightarrow> OperationRecord \<Rightarrow> OperationRecord \<Rightarrow> OperationRecord" where
  "stamp_next oe previous next =
     next\<lparr>or_RecordRevision := inc64 (or_RecordRevision previous), or_LatestJournalSeq := inc64 (or_LatestJournalSeq previous),
          or_UpdatedAt := (if or_UpdatedAt next = 0 \<or> \<not> or_UpdatedAt next > or_UpdatedAt previous then oe_now oe
                           else or_UpdatedAt next)\<rparr>"

definition update_event :: "string \<Rightarrow> string \<Rightarrow> OperationRecord \<Rightarrow> JournalEvent" where
  "update_event eventID eventType next =
     \<lparr>je_APIVersion = APIVersion, je_Kind = EventKind, je_Sequence = or_LatestJournalSeq next,
      je_EventID = cleanEventID eventID eventType, je_EventType = TrimSpace eventType, je_Record = next,
      je_CreatedAt = or_UpdatedAt next\<rparr>"

definition update_commit ::
  "op_env \<Rightarrow> string \<Rightarrow> string \<Rightarrow> string \<Rightarrow> OperationRecord \<Rightarrow> OperationRecord \<Rightarrow> (op_store, OperationRecord) io" where
  "update_commit oe g eventID eventType previous next0 =
     io_then (io_need (ValidateTransition previous next0))
     (let next = stamp_next oe previous next0 in
      io_then (io_need (opValidateRecord oe next))
      (io_then (writeEventAndSnapshot oe g (update_event eventID eventType next)) (io_ok next)))"

definition Store_Update ::
  "op_env \<Rightarrow> string \<Rightarrow> string \<Rightarrow> string \<Rightarrow> (OperationRecord \<Rightarrow> OperationRecord res) \<Rightarrow> (op_store, OperationRecord) io" where
  "Store_Update oe operationID eventID eventType mutate =
     io_bind (io_lift (operationDir operationID)) (\<lambda>g.
       withOperationLock g False
         (io_bind (Store_Read oe operationID) (\<lambda>previous.
          io_bind (io_lift (mutate previous)) (update_commit oe g eventID eventType previous))))"

definition add_marker :: "op_env \<Rightarrow> PreExecMutationMarker \<Rightarrow> OperationRecord \<Rightarrow> OperationRecord res" where
  "add_marker oe marker0 r =
     (let marker = marker0\<lparr>pm_Phase := (if \<not> given (pm_Phase marker0) then or_Phase r else pm_Phase marker0),
                           pm_MarkedAt := (if pm_MarkedAt marker0 = 0 then oe_now oe else pm_MarkedAt marker0)\<rparr>
      in res_need
           (first_error
              [reject (\<not> given (pm_MarkerID marker0)) ''mutation marker id is required'' [],
               reject (\<not> given (pm_Tool marker0)) ''mutation marker tool is required'' [],
               reject (\<not> given (pm_ArgvDigest marker0)) ''mutation marker argv digest is required'' []])
           (Inr (r\<lparr>or_ExternalMutationStarted := True, or_PreExecMutationMarkers := or_PreExecMutationMarkers r @ [marker],
                   or_MutationScopes := appendMissingStrings (or_MutationScopes r) (pm_ExpectedMutationScopes marker)\<rparr>)))"

definition Store_AddPreExecMutationMarker ::
  "op_env \<Rightarrow> string \<Rightarrow> PreExecMutationMarker \<Rightarrow> (op_store, OperationRecord) io" where
  "Store_AddPreExecMutationMarker oe operationID marker =
     Store_Update oe operationID (pm_MarkerID marker) ''pre-exec-mutation'' (add_marker oe marker)"

definition add_artifact :: "OpDiagnosticArtifact \<Rightarrow> OperationRecord \<Rightarrow> OperationRecord res" where
  "add_artifact artifact r =
     (if oa_ArtifactID artifact \<in> oa_ArtifactID ` set (or_DiagnosticArtifacts r)
      then fail ''diagnostic artifact %q already exists'' [oa_ArtifactID artifact]
      else Inr (r\<lparr>or_DiagnosticArtifacts := or_DiagnosticArtifacts r @ [artifact]\<rparr>))"

definition write_attachment :: "string \<Rightarrow> string \<Rightarrow> string \<Rightarrow> (op_store, unit) io" where
  "write_attachment g name content =
     io_then (opcall (\<lambda>s. s))
     (io_bind (io_get (\<lambda>s. case op_at s g of None \<Rightarrow> [] | Some d \<Rightarrow> od_attachments d)) (\<lambda>files.
       if name \<in> fst ` set files then io_fail ''%s already exists'' [name]
       else opcall (upd_op g (\<lambda>d. d\<lparr>od_attachments := od_attachments d @ [(name, content)]\<rparr>))))"

definition remove_attachment :: "string \<Rightarrow> string \<Rightarrow> (op_store, unit) io" where
  "remove_attachment g name =
     opcall (upd_op g (\<lambda>d. d\<lparr>od_attachments := filter (\<lambda>p. fst p \<noteq> name) (od_attachments d)\<rparr>))"

definition new_artifact :: "op_env \<Rightarrow> string \<Rightarrow> string \<Rightarrow> time \<Rightarrow> OpDiagnosticArtifact" where
  "new_artifact oe artifactID content now =
     \<lparr>oa_ArtifactID = artifactID, oa_Path = PathJoin [''attachments'', artifactID @ ''.log''],
      oa_SHA256 = oe_sha256 oe content, oa_Redacted = True, oa_CreatedAt = now\<rparr>"

definition Store_AddDiagnosticArtifact ::
  "op_env \<Rightarrow> string \<Rightarrow> string \<Rightarrow> string \<Rightarrow> time \<Rightarrow> (op_store, OperationRecord) io" where
  "Store_AddDiagnosticArtifact oe operationID artifactID0 content now0 =
     (let now = (if now0 = 0 then oe_now oe else now0) in
      io_then (io_reject (\<not> given artifactID0) ''diagnostic artifact id is required'' [])
      (io_bind (io_lift (opCleanSegment ''diagnostic artifact id'' artifactID0)) (\<lambda>artifactID.
       io_bind (Store_Read oe operationID) (\<lambda>current.
       io_then (io_reject (or_Terminal current) ''terminal operation records are immutable'' [])
       (io_then (io_reject (artifactID \<in> oa_ArtifactID ` set (or_DiagnosticArtifacts current))
                   ''diagnostic artifact %q already exists'' [artifactID])
       (io_bind (io_lift (operationDir operationID)) (\<lambda>g.
        io_then (io_wrap ''write diagnostic artifact: %w'' [] (write_attachment g (artifactID @ ''.log'') content))
        (io_bind (io_catch (Store_Update oe operationID artifactID ''diagnostic-artifact''
                              (add_artifact (new_artifact oe artifactID content now)))) (\<lambda>r.
         case r of
           Inr updated \<Rightarrow> io_ok updated
         | Inl e \<Rightarrow> io_bind (io_catch (remove_attachment g (artifactID @ ''.log''))) (\<lambda>_. io_err e))))))))))"

definition Store_EventsAfter :: "op_env \<Rightarrow> string \<Rightarrow> int \<Rightarrow> op_store \<Rightarrow> JournalEvent list res" where
  "Store_EventsAfter oe operationID afterSeq s =
     res_bind (operationDir operationID) (\<lambda>g.
     res_bind (readJournal oe (journal_at s g)) (\<lambda>events.
       Inr (filter (\<lambda>e. je_Sequence e > afterSeq) events)))"

section \<open>The store as a whole\<close>

definition operation_id_of :: "string \<Rightarrow> string res" where
  "operation_id_of name =
     (case opCleanSegment ''operation id'' name of
        Inl e \<Rightarrow> Inl (Wrap ''invalid operation directory %q: %w'' [name] e)
      | Inr v \<Rightarrow> Inr v)"

definition Store_OperationIDs :: "op_store \<Rightarrow> string list res" where
  "Store_OperationIDs s =
     (if \<not> os_root s then Inr []
      else res_bind (res_map operation_id_of (sort (map fst (os_dirs s)))) (\<lambda>ids. Inr (sort ids)))"

definition Store_List :: "op_env \<Rightarrow> (op_store, OperationRecord list) io" where
  "Store_List oe =
     io_bind (io_get (\<lambda>s. if os_root s then sort (map fst (os_dirs s)) else [])) (\<lambda>names.
     io_bind (io_map (\<lambda>name. io_wrap ''read operation %q: %w'' [name] (Store_Read oe name)) names) (\<lambda>records.
       io_ok (sort_key (\<lambda>r. - or_UpdatedAt r) (sort_key or_OperationID records))))"

definition reconciled :: "time \<Rightarrow> string \<Rightarrow> OperationRecord \<Rightarrow> OperationRecord" where
  "reconciled now class r0 =
     (let r = r0\<lparr>or_Interruption := class, or_UpdatedAt := now\<rparr>
      in if class = StalePostMutation \<or> class = StaleAmbiguous
         then r\<lparr>or_RecoveryRequired := True, or_Result := ResultFailedNeedsRepair,
                or_NextAction := ''explicit repair or retry required''\<rparr>
         else if class = StaleHostOnly
         then (if canCompleteHostBookkeeping r
               then r\<lparr>or_Terminal := True, or_CompletedAt := Some now, or_Result := ResultSucceeded,
                      or_NextAction := ''idempotent host bookkeeping finalizer completed''\<rparr>
               else r\<lparr>or_NextAction := ''classified host-only; no automatic resume marker present''\<rparr>)
         else if class = StalePreMutation then r\<lparr>or_NextAction := ''resubmit operation request''\<rparr>
         else r\<lparr>or_RecoveryRequired := True, or_Result := ResultFailedNeedsRepair,
                or_NextAction := ''manual inspection required''\<rparr>)"

definition reconcileStaleRecord :: "op_env \<Rightarrow> OperationRecord \<Rightarrow> string \<Rightarrow> time \<Rightarrow> (op_store, OperationRecord) io" where
  "reconcileStaleRecord oe r class now =
     Store_Update oe (or_OperationID r) (''boot-reconcile-'' @ class) ''boot-reconcile'' (\<lambda>next. Inr (reconciled now class next))"

definition reconciled_entry :: "string \<Rightarrow> OperationRecord \<Rightarrow> ReconciledOperation" where
  "reconciled_entry class r =
     \<lparr>ro_OperationID = or_OperationID r, ro_OperationKind = or_OperationKind r, ro_Scope = or_Scope r, ro_StaleClass = class,
      ro_RecoveryRequired = or_RecoveryRequired r, ro_NextAction = or_NextAction r, ro_Result = or_Result r\<rparr>"

definition reconcile_one ::
  "op_env \<Rightarrow> time \<Rightarrow> string \<Rightarrow> (InvocationRecord \<Rightarrow> bool) option \<Rightarrow> string \<Rightarrow> (op_store, ReconciledOperation) io" where
  "reconcile_one oe now bootID live ident =
     io_wrap ''reconcile operation %s: %w'' [ident]
       (io_bind (Store_Read oe ident) (\<lambda>r.
          if ClassifyStale r = StaleTerminal \<or> hasLiveInvocation r bootID live
          then io_ok (reconciled_entry StaleNotStale r)
          else io_bind (reconcileStaleRecord oe r (ClassifyStale r) now) (\<lambda>r'.
                 io_ok (reconciled_entry (ClassifyStale r) r'))))"

definition Store_ReconcileBoot ::
  "op_env \<Rightarrow> time \<Rightarrow> string \<Rightarrow> (InvocationRecord \<Rightarrow> bool) option \<Rightarrow> (op_store, ReconcileReport) io" where
  "Store_ReconcileBoot oe now0 bootID0 live =
     (let now = (if now0 = 0 then oe_now oe else now0); bootID = TrimSpace bootID0 in
      io_bind (io_get Store_OperationIDs) (\<lambda>r.
      io_bind (io_lift r) (\<lambda>ids.
      io_bind (io_map (reconcile_one oe now bootID live) ids) (\<lambda>entries.
        io_ok \<lparr>rp_APIVersion = APIVersion, rp_Kind = ''OperationReconcileReport'', rp_Boot = True,
               rp_Operations = entries, rp_UpdatedAt = now\<rparr>))))"

end
