(* ===== verification/OperationFacts.thy ===== *)
theory OperationFacts
  imports OperationStore
begin

text \<open>
  What the operation store guarantees. The journal of an operation is a chain of validated transitions whatever
  files lie in its directory; a file name orders events by their sequence number; an update appends one event
  or nothing; reading does not depend on the snapshot.
\<close>

section \<open>Names of journal files\<close>

lemma length_pad_digits [simp]: "length (pad_digits w n) = w"
  by (induction w arbitrary: n) auto

lemma digit_char:
  assumes "d < 10"
  shows "CHR ''0'' \<le> char_of (48 + d)" "char_of (48 + d) \<le> CHR ''9''" "of_char (char_of (48 + d) :: char) = (48 + d :: nat)"
proof -
  have "of_char (char_of (48 + d) :: char) = (48 + d :: nat)" using assms by simp
  then show "CHR ''0'' \<le> char_of (48 + d)" "char_of (48 + d) \<le> CHR ''9''" "of_char (char_of (48 + d) :: char) = (48 + d :: nat)"
    using assms by (simp_all add: less_eq_char_def)
qed

lemma pad_digits_digits: "list_all (\<lambda>c. CHR ''0'' \<le> c \<and> c \<le> CHR ''9'') (pad_digits w n)"
proof (induction w arbitrary: n)
  case (Suc w)
  then show ?case using digit_char [of "n mod 10"] by simp
qed simp

lemma pad_digits_value:
  "n < 10 ^ w \<Longrightarrow> foldl (\<lambda>n c. 10 * n + (of_char c - 48)) (0 :: int) (pad_digits w n) = int n"
proof (induction w arbitrary: n)
  case (Suc w)
  have "n div 10 < 10 ^ w" using Suc.prems by (simp add: less_mult_imp_div_less mult.commute)
  moreover have "(of_char (char_of (48 + n mod 10) :: char) :: int) = int (48 + n mod 10)"
    using digit_char(3) [of "n mod 10"] by (metis mod_less_divisor of_nat_of_char zero_less_numeral)
  moreover have "10 * int (n div 10) + int (n mod 10) = int n" by presburger
  ultimately show ?case using Suc.IH [of "n div 10"] by simp
qed simp

lemma ParseInt64_pad:
  assumes "int n \<le> 2 ^ 63 - 1"
  shows "ParseInt64 (pad_digits 20 n) = Inr (int n)"
proof -
  let ?p = "pad_digits 20 n"
  have n: "n < 10 ^ 20" using assms by simp
  obtain c cs where p: "?p = c # cs" by (metis length_pad_digits list.exhaust list.size(3) zero_neq_numeral)
  have "CHR ''0'' \<le> c" "c \<le> CHR ''9''" using pad_digits_digits [of 20 n] unfolding p by simp_all
  then have "c \<noteq> CHR ''-''" "c \<noteq> CHR ''+''" by (auto simp: less_eq_char_def)
  moreover have "parse_digits ?p = Some (int n)"
    using pad_digits_value [OF n] pad_digits_digits [of 20 n] p by (simp add: parse_digits_def)
  ultimately show ?thesis using assms unfolding ParseInt64_def p by simp
qed

lemma pad_digits_less:
  "m < n \<Longrightarrow> n < 10 ^ w \<Longrightarrow> (pad_digits w m, pad_digits w n) \<in> lexord {(u, v). u < v}"
proof (induction w arbitrary: m n)
  case (Suc w)
  have nd: "n div 10 < 10 ^ w" using Suc.prems by (simp add: less_mult_imp_div_less mult.commute)
  show ?case
  proof (cases "m div 10 = n div 10")
    case True
    then have "m mod 10 < n mod 10" using Suc.prems(1) by (metis add_less_cancel_left mult_div_mod_eq)
    then have "char_of (48 + m mod 10) < (char_of (48 + n mod 10) :: char)"
      using digit_char(3) [of "m mod 10"] digit_char(3) [of "n mod 10"] by (simp add: less_char_def)
    with True show ?thesis by (simp add: lexord_append_leftI)
  next
    case False
    then have "m div 10 < n div 10" using Suc.prems(1) by (simp add: div_le_mono le_neq_implies_less)
    from Suc.IH [OF this nd] show ?thesis by (simp add: lexord_sufI)
  qed
qed simp

definition int_seq :: "JournalEvent \<Rightarrow> bool" where
  "int_seq e \<longleftrightarrow> 1 \<le> je_Sequence e \<and> je_Sequence e \<le> 2 ^ 63 - 1"

lemma event_name_less:
  assumes "int_seq e" "int_seq f" "je_Sequence e < je_Sequence f"
  shows "event_name e < event_name f"
proof -
  have "nat (je_Sequence e) < nat (je_Sequence f)" "nat (je_Sequence f) < 10 ^ 20"
    using assms by (auto simp: int_seq_def nat_less_iff)
  from pad_digits_less [OF this] show ?thesis
    unfolding event_name_def list_less_def by (simp add: lexord_sufI)
qed

lemma pad_digits_no_dot: "CHR ''.'' \<notin> set (pad_digits w n)"
  using pad_digits_digits [of w n] by (auto simp: list_all_iff less_eq_char_def)

lemma journalSeq_event_name:
  assumes "int_seq e"
  shows "journalSeq (event_name e) = Some (je_Sequence e)"
proof -
  have "takeWhile (\<lambda>c. c \<noteq> CHR ''.'') (event_name e) = pad_digits 20 (nat (je_Sequence e))"
    unfolding event_name_def using pad_digits_no_dot by (subst takeWhile_append2) auto
  moreover have "CHR ''.'' \<in> set (event_name e)" by (simp add: event_name_def)
  moreover have "int (nat (je_Sequence e)) = je_Sequence e" using assms by (simp add: int_seq_def)
  ultimately show ?thesis
    using ParseInt64_pad [of "nat (je_Sequence e)"] assms by (simp add: journalSeq_def int_seq_def)
qed

lemma visible_event_name: "visible_json (event_name e)"
proof -
  obtain c cs where p: "pad_digits 20 (nat (je_Sequence e)) = c # cs"
    by (metis length_pad_digits list.exhaust list.size(3) zero_neq_numeral)
  with pad_digits_no_dot [of 20 "nat (je_Sequence e)"] have "c \<noteq> CHR ''.''" by auto
  then have "\<not> HasPrefix (event_name e) ''.''" by (auto simp: event_name_def p HasPrefix_iff)
  moreover have "HasSuffix (event_name e) ''.json''"
    unfolding event_name_def HasSuffix_iff
    by (rule exI [of _ "pad_digits 20 (nat (je_Sequence e)) @ ''.'' @ je_EventID e"]) simp
  ultimately show ?thesis by (simp add: visible_json_def)
qed

section \<open>Chains of events\<close>

text \<open>The histories the journal of an operation may hold: from the first event on, each valid and a step of the last.\<close>

inductive chain :: "op_env \<Rightarrow> JournalEvent list \<Rightarrow> bool" for oe where
  chain_Nil: "chain oe []"
| chain_snoc: "chain oe es \<Longrightarrow> ValidateEvent oe e = None \<Longrightarrow> continues es e \<Longrightarrow> chain oe (es @ [e])"

inductive_simps chain_snoc_iff: "chain oe (es @ [e])"

lemma ValidateEvent_seq:
  "ValidateEvent oe e = None \<Longrightarrow> 1 \<le> je_Sequence e \<and> or_LatestJournalSeq (je_Record e) = je_Sequence e"
  by (auto simp: ValidateEvent_def)

text \<open>The sequence numbers of a chain count its events, and stay within 64 bits.\<close>

lemma chain_sequences: "chain oe es \<Longrightarrow> map je_Sequence es = map int [1..<Suc (length es)] \<and> int (length es) \<le> 2 ^ 63 - 1"
proof (induction rule: chain.induct)
  case (chain_snoc es e)
  show ?case
  proof (cases "es = []")
    case True
    with chain_snoc show ?thesis by (simp add: continues_def)
  next
    case False
    then have "je_Sequence (last es) = last (map je_Sequence es)" by (simp add: last_map)
    also have "\<dots> = last (map int [1..<Suc (length es)])" using chain_snoc.IH by (simp only:)
    also have "\<dots> = int (length es)" using False by (cases es) auto
    finally have l: "je_Sequence (last es) = int (length es)" .
    have "1 \<le> je_Sequence e" using ValidateEvent_seq [OF chain_snoc.hyps(2)] by simp
    moreover have "je_Sequence e = inc64 (int (length es))" using chain_snoc.hyps(3) False l by (simp add: continues_def)
    ultimately have "int (length es) \<noteq> 2 ^ 63 - 1" "je_Sequence e = int (length es) + 1"
      by (auto simp: inc64_def split: if_splits)
    with chain_snoc.IH show ?thesis by auto
  qed
qed simp

lemma chain_nth_seq:
  assumes "chain oe es" "i < length es"
  shows "je_Sequence (es ! i) = int i + 1"
proof -
  have "je_Sequence (es ! i) = map je_Sequence es ! i" using assms(2) by simp
  also have "\<dots> = map int [1..<Suc (length es)] ! i" using chain_sequences [OF assms(1)] by (simp only:)
  also have "\<dots> = int i + 1" using assms(2) by (subst nth_map) (auto simp: nth_upt simp del: upt_Suc)
  finally show ?thesis .
qed

lemma chain_last_seq:
  assumes "chain oe es" "es \<noteq> []"
  shows "je_Sequence (last es) = int (length es)"
proof -
  have "length es - 1 < length es" using assms(2) by simp
  from chain_nth_seq [OF assms(1) this] show ?thesis using assms(2) by (simp add: last_conv_nth of_nat_diff Suc_leI)
qed

lemma chain_int_seq: "chain oe es \<Longrightarrow> e \<in> set es \<Longrightarrow> int_seq e"
  using chain_sequences [of oe es] by (fastforce simp: in_set_conv_nth chain_nth_seq int_seq_def)

lemma chain_member_valid: "chain oe es \<Longrightarrow> e \<in> set es \<Longrightarrow> ValidateEvent oe e = None"
  by (induction rule: chain.induct) auto

lemma chain_append: "chain oe (es @ fs) \<Longrightarrow> chain oe es"
  by (induction fs rule: rev_induct) (auto simp: chain_snoc_iff simp flip: append_assoc)

lemma chain_prefix: "prefix es fs \<Longrightarrow> chain oe fs \<Longrightarrow> chain oe es"
  by (auto simp: prefix_def chain_append)

lemma chain_sorted_names: "chain oe es \<Longrightarrow> sorted_wrt (<) (map event_name es)"
  unfolding sorted_wrt_iff_nth_less
  by (auto intro!: event_name_less simp: chain_int_seq chain_nth_seq)

section \<open>Reading a journal\<close>

lemma journal_event_valid: "journal_event oe files name = Some e \<Longrightarrow> ValidateEvent oe e = None"
  by (auto simp: journal_event_def split: option.splits json_file.splits if_splits)

text \<open>Whatever files a journal directory holds, what is read from it is a chain.\<close>

lemma read_events_chain:
  "read_events oe files names seen events = Inr es \<Longrightarrow> chain oe events \<Longrightarrow> chain oe es"
  by (induction oe files names seen events rule: read_events.induct)
     (auto split: option.splits if_splits intro: chain.intros dest: journal_event_valid)

lemma readJournal_chain: "readJournal oe journal = Inr es \<Longrightarrow> chain oe es"
  by (auto simp: readJournal_def intro: read_events_chain chain.intros split: option.splits)

text \<open>A journal that holds the files of a chain reads back as that chain.\<close>

definition journal_files :: "JournalEvent list \<Rightarrow> (string \<times> JournalEvent json_file) list" where
  "journal_files es = map (\<lambda>e. (event_name e, File e)) es"

lemma chain_distinct_names: "chain oe es \<Longrightarrow> distinct (map event_name es)"
  using chain_sorted_names strict_sorted_iff by blast

lemma map_of_journal_files:
  assumes "distinct (map event_name es)" "e \<in> set es"
  shows "map_of (journal_files es) (event_name e) = Some (File e)"
  using assms by (auto simp: journal_files_def comp_def intro!: map_of_is_SomeI)

lemma journal_event_of_chain:
  assumes "chain oe es" "e \<in> set es"
  shows "journal_event oe (journal_files es) (event_name e) = Some e"
  using assms journalSeq_event_name [OF chain_int_seq [OF assms]] chain_member_valid [OF assms]
    map_of_journal_files [OF chain_distinct_names [OF assms(1)] assms(2)]
  by (simp add: journal_event_def)

lemma read_events_complete:
  "chain oe (events @ fs) \<Longrightarrow> set fs \<subseteq> set es \<Longrightarrow> chain oe es \<Longrightarrow> set seen \<subseteq> je_Sequence ` set events \<Longrightarrow>
   read_events oe (journal_files es) (map event_name fs) seen events = Inr (events @ fs)"
proof (induction fs arbitrary: events seen)
  case (Cons f fs)
  have c: "chain oe (events @ [f])" using chain_append [of oe "events @ [f]" fs] Cons.prems(1) by simp
  then have cont: "continues events f" by (simp add: chain_snoc_iff)
  have "je_Sequence f = int (length events) + 1" using chain_nth_seq [OF c, of "length events"] by simp
  moreover have "\<forall>e \<in> set events. je_Sequence e \<le> int (length events)"
    using chain_nth_seq [OF chain_append [OF c]] by (auto simp: in_set_conv_nth)
  ultimately have new: "je_Sequence f \<notin> set seen" using Cons.prems(4) by fastforce
  have "read_events oe (journal_files es) (map event_name fs) (je_Sequence f # seen) (events @ [f]) = Inr ((events @ [f]) @ fs)"
    by (rule Cons.IH) (use Cons.prems in auto)
  with new cont journal_event_of_chain [OF Cons.prems(3), of f] Cons.prems(2) show ?case by simp
qed simp

lemma readJournal_files:
  assumes "chain oe es"
  shows "readJournal oe (Some (journal_files es)) = Inr es"
proof -
  have "map fst (journal_files es) = map event_name es" by (simp add: journal_files_def)
  moreover have "filter visible_json (map event_name es) = map event_name es"
    by (simp add: filter_id_conv visible_event_name)
  moreover have "sort (map event_name es) = map event_name es"
    using chain_sorted_names [OF assms] by (simp add: sorted_sort_id strict_sorted_imp_sorted)
  ultimately show ?thesis using read_events_complete [of oe "[]" es es "[]"] assms by (simp add: readJournal_def)
qed

section \<open>Effects\<close>

interpretation opdisk: fault_disk os_faults "\<lambda>fs s. s\<lparr>os_faults := fs\<rparr>"
  by unfold_locales simp

lemma opcall_cases:
  assumes "opcall f s = (r, t)"
  obtains (ok) fs where "r = Inr ()" "t = f (s\<lparr>os_faults := fs\<rparr>)"
    | (before) fs m where "r = Inl (OsError m)" "t = s\<lparr>os_faults := fs\<rparr>"
    | (after) fs m where "r = Inl (OsError m)" "t = f (s\<lparr>os_faults := fs\<rparr>)"
  by (rule opdisk.call_cases [OF assms [unfolded opcall_def]]) (erule (1) that)+

lemma opcall_frame:
  assumes "\<And>s fs. R s (s\<lparr>os_faults := fs\<rparr>)" "\<And>s fs. R s (f (s\<lparr>os_faults := fs\<rparr>))"
  shows "io_rel R (opcall f)"
  unfolding opcall_def using assms by (rule opdisk.call_frame)

lemma opcall_success: "os_faults s = [] \<Longrightarrow> opcall f s = (Inr (), f s)"
  unfolding opcall_def by (rule opdisk.call_success)

lemma op_at_simps [simp]:
  "op_at (s\<lparr>os_faults := fs\<rparr>) g = op_at s g" "op_at (s\<lparr>os_root := b\<rparr>) g = op_at s g"
  by (simp_all add: op_at_def)

lemma op_at_upd: "op_at (upd_op g f s) h = (if h = g then map_option f (op_at s g) else op_at s h)"
  by (auto simp: upd_op_def op_at_def update_conv split: option.splits)

lemma op_at_make: "op_at (make_op_dir g s) h = (if h = g \<and> op_at s g = None then Some new_op_dir else op_at s h)"
  by (auto simp: make_op_dir_def op_at_def update_conv split: option.splits)

definition events_of :: "(string \<times> JournalEvent json_file) list option \<Rightarrow> JournalEvent list" where
  "events_of journal =
     (case journal of None \<Rightarrow> []
      | Some files \<Rightarrow> List.map_filter (\<lambda>p. case snd p of File e \<Rightarrow> Some e | _ \<Rightarrow> None) files)"

definition op_events :: "op_store \<Rightarrow> string \<Rightarrow> JournalEvent list" where
  "op_events s g = events_of (journal_at s g)"

lemma events_of_simps [simp]:
  "events_of None = []" "events_of (Some []) = []" "events_of (Some (files @ [(n, File e)])) = events_of (Some files) @ [e]"
  by (simp_all add: events_of_def map_filter_simps map_filter_def)

lemma events_of_journal_files [simp]: "events_of (Some (journal_files es)) = es"
  by (simp add: events_of_def journal_files_def map_filter_def comp_def)

text \<open>Steps that leave every journal as it is, up to creating directories.\<close>

definition calm_dir :: "string \<Rightarrow> op_dir option \<Rightarrow> op_dir option \<Rightarrow> bool" where
  "calm_dir g d d' \<longleftrightarrow>
     (case d of
        None \<Rightarrow> d' = None \<or> operationDir g = Inr g \<and> (\<exists>x. d' = Some x \<and> od_journal x \<in> {None, Some []})
      | Some x \<Rightarrow> (\<exists>x'. d' = Some x' \<and> (od_journal x' = od_journal x \<or> od_journal x = None \<and> od_journal x' = Some [])))"

definition calm :: "op_store \<Rightarrow> op_store \<Rightarrow> bool" where
  "calm s t \<longleftrightarrow>
     (\<forall>g. calm_dir g (op_at s g) (op_at t g)) \<and> (distinct (map fst (os_dirs s)) \<longrightarrow> distinct (map fst (os_dirs t)))"

lemma calm_dir_refl [simp]: "calm_dir g d d"
  by (auto simp: calm_dir_def split: option.splits)

lemma calm_dir_trans: "calm_dir g d d' \<Longrightarrow> calm_dir g d' d'' \<Longrightarrow> calm_dir g d d''"
  by (auto simp: calm_dir_def split: option.splits)

interpretation calm: io_frame calm
  by unfold_locales (auto simp: calm_def intro: calm_dir_trans)

lemma distinct_dirs:
  "distinct (map fst (os_dirs s)) \<Longrightarrow> distinct (map fst (os_dirs (upd_op g f s)))"
  "distinct (map fst (os_dirs s)) \<Longrightarrow> distinct (map fst (os_dirs (make_op_dir g s)))"
  by (auto simp: upd_op_def make_op_dir_def distinct_update split: option.splits)

lemma calm_faults [simp]: "calm s (s\<lparr>os_faults := fs\<rparr>)" "calm s (s\<lparr>os_root := b\<rparr>)"
  by (simp_all add: calm_def)

lemma calm_upd:
  assumes "\<And>d. od_journal (f d) = od_journal d \<or> od_journal d = None \<and> od_journal (f d) = Some []"
  shows "calm s (upd_op g f s)"
  using assms by (auto simp: calm_def op_at_upd calm_dir_def distinct_dirs split: option.splits)

lemma calm_make: "operationDir g = Inr g \<Longrightarrow> calm s (make_op_dir g s)"
  by (auto simp: calm_def op_at_make calm_dir_def new_op_dir_def distinct_dirs split: option.splits)

lemma calm_opcall: "(\<And>s. calm s (f s)) \<Longrightarrow> io_rel calm (opcall f)"
  by (rule opcall_frame) (simp, rule calm.frame_trans [OF calm_faults(1)])

lemma calm_opcall_upd:
  "(\<And>d. od_journal (f d) = od_journal d \<or> od_journal d = None \<and> od_journal (f d) = Some []) \<Longrightarrow> io_rel calm (opcall (upd_op g f))"
  by (intro calm_opcall calm_upd)

lemma calm_noop: "io_rel calm (opcall (\<lambda>s. s))" "io_rel calm (opcall (\<lambda>s. s\<lparr>os_root := True\<rparr>))"
  by (rule calm_opcall; simp add: calm.frame_refl)+

lemma calm_journal:
  assumes "calm s t"
  shows "journal_at t g = journal_at s g \<or> journal_at s g = None \<and> journal_at t g = Some []" "op_events t g = op_events s g"
proof -
  have "calm_dir g (op_at s g) (op_at t g)" using assms by (simp add: calm_def)
  then show j: "journal_at t g = journal_at s g \<or> journal_at s g = None \<and> journal_at t g = Some []"
    by (auto simp: calm_dir_def journal_at_def split: option.splits)
  then show "op_events t g = op_events s g" by (auto simp: op_events_def)
qed

lemma readJournal_empty [simp]: "readJournal oe (Some []) = Inr []"
  by (simp add: readJournal_def)

lemma calm_readJournal:
  "calm s t \<Longrightarrow> readJournal oe (journal_at t g) = Inr es \<Longrightarrow> es \<noteq> [] \<Longrightarrow> readJournal oe (journal_at s g) = Inr es"
  using calm_journal(1) [of s t g] by auto

lemma calm_writeSnapshot: "io_rel calm (writeSnapshot oe g events)"
  unfolding writeSnapshot_def by (intro calm.rel_rules calm_opcall_upd) simp

lemma calm_Read: "io_rel calm (Store_Read oe operationID)"
  unfolding Store_Read_def by (intro calm.rel_rules calm_writeSnapshot)

lemma calm_attachment: "io_rel calm (write_attachment g name content)" "io_rel calm (remove_attachment g name)"
  unfolding write_attachment_def remove_attachment_def by (intro calm.rel_rules calm_noop calm_opcall_upd; simp)+

lemma operationDir_clean: "operationDir raw = Inr g \<Longrightarrow> operationDir g = Inr g"
  by (auto simp: operationDir_def opCleanSegment_def Let_def split: if_splits)

section \<open>Appending an event\<close>

text \<open>The only change of a journal: one event is added at its end.\<close>

definition appended :: "string \<Rightarrow> JournalEvent \<Rightarrow> op_store \<Rightarrow> op_store \<Rightarrow> bool" where
  "appended g e s t \<longleftrightarrow>
     (\<exists>u. calm s u \<and> journal_at u g \<noteq> None \<and> calm (upd_op g (add_event_file e) u) t)"

lemma appended_calm: "calm s s' \<Longrightarrow> appended g e s' t' \<Longrightarrow> calm t' t \<Longrightarrow> appended g e s t"
  unfolding appended_def by (meson calm.frame_trans)

lemma journal_at_add:
  "journal_at (upd_op g (add_event_file e) u) h =
     (if h = g \<and> op_at u g \<noteq> None
      then Some ((case journal_at u g of None \<Rightarrow> [] | Some files \<Rightarrow> files) @ [(event_name e, File e)])
      else journal_at u h)"
  by (auto simp: journal_at_def op_at_upd add_event_file_def split: option.splits)

lemma appended_events:
  assumes "appended g e s t"
  shows "op_events t h = (if h = g then op_events s g @ [e] else op_events s h)"
proof -
  from assms obtain u where u: "calm s u" "journal_at u g \<noteq> None" "calm (upd_op g (add_event_file e) u) t"
    by (auto simp: appended_def)
  then have "op_at u g \<noteq> None" by (auto simp: journal_at_def split: option.splits)
  then have "op_events (upd_op g (add_event_file e) u) h = (if h = g then op_events u g @ [e] else op_events u h)"
    using u(2) by (auto simp: op_events_def journal_at_add)
  then show ?thesis using calm_journal(2) [OF u(1)] calm_journal(2) [OF u(3)] by simp
qed

lemma appended_journal:
  assumes "appended g e s t"
  shows "journal_at t g = Some ((case journal_at s g of None \<Rightarrow> [] | Some files \<Rightarrow> files) @ [(event_name e, File e)])"
proof -
  from assms obtain u where u: "calm s u" "journal_at u g \<noteq> None" "calm (upd_op g (add_event_file e) u) t"
    by (auto simp: appended_def)
  then have "op_at u g \<noteq> None" by (auto simp: journal_at_def split: option.splits)
  then show ?thesis using u(2) calm_journal(1) [OF u(1), of g] calm_journal(1) [OF u(3), of g]
    by (auto simp: journal_at_add)
qed

lemma calm_make_journal: "io_rel calm (opcall (upd_op g make_journal))"
  by (rule calm_opcall_upd) (auto simp: make_journal_def split: option.splits)

lemma write_event_effect:
  assumes "write_event g e s = (r, t)"
  shows "(\<exists>x. r = Inl x) \<and> calm s t \<or> appended g e s t"
proof -
  obtain r1 s1 where m: "opcall (upd_op g make_journal) s = (r1, s1)" by fastforce
  have c1: "calm s s1" using io_relD [OF calm_make_journal m] .
  show ?thesis
  proof (cases r1)
    case (Inl x)
    with assms m c1 show ?thesis by (auto simp: write_event_def io_then_def io_bind_def)
  next
    case (Inr u)
    show ?thesis
    proof (cases "journal_at s1 g")
      case None
      with assms m Inr c1 show ?thesis by (auto simp: write_event_def io_then_def io_bind_def io_get_def io_err_def)
    next
      case (Some files)
      show ?thesis
      proof (cases "event_name e \<in> fst ` set files")
        case True
        with assms m Inr c1 Some show ?thesis
          by (auto simp: write_event_def io_then_def io_bind_def io_get_def io_err_def io_fail_def)
      next
        case False
        with assms m Inr Some have "opcall (upd_op g (add_event_file e)) s1 = (r, t)"
          by (auto simp: write_event_def io_then_def io_bind_def io_get_def)
        then show ?thesis
        proof (cases rule: opcall_cases)
          case (before fs m)
          with c1 show ?thesis using calm.frame_trans [OF c1 calm_faults(1)] by blast
        qed (use c1 Some calm.frame_trans [OF c1 calm_faults(1)] in
              \<open>auto simp: appended_def journal_at_def intro!: exI [of _ "s1\<lparr>os_faults := fs\<rparr>" for fs] calm.frame_refl\<close>)
      qed
    qed
  qed
qed

text \<open>Writing an event reports success only when the event is in the journal and the snapshot was written.\<close>

lemma writeEventAndSnapshot_effect:
  assumes "writeEventAndSnapshot oe g e s = (r, t)"
  shows "(\<exists>x. r = Inl x) \<and> calm s t \<or> ValidateEvent oe e = None \<and> appended g e s t"
proof (cases "ValidateEvent oe e")
  case (Some x)
  with assms show ?thesis by (auto simp: writeEventAndSnapshot_def io_then_def io_bind_def io_need_def calm.frame_refl)
next
  case None
  obtain r1 s1 where w: "write_event g e s = (r1, s1)" by fastforce
  let ?rest = "io_bind (io_get (\<lambda>s. readJournal oe (journal_at s g))) (\<lambda>r. io_bind (io_lift r) (writeSnapshot oe g))"
  have c: "io_rel calm ?rest" by (intro calm.rel_rules calm_writeSnapshot)
  show ?thesis
  proof (cases r1)
    case (Inl x)
    with assms None w write_event_effect [OF w] show ?thesis
      by (auto simp: writeEventAndSnapshot_def io_then_def io_bind_def io_need_def io_wrap_def)
  next
    case (Inr u)
    with assms None w have "?rest s1 = (r, t)"
      by (auto simp: writeEventAndSnapshot_def io_then_def io_bind_def io_need_def io_wrap_def)
    from io_relD [OF c this] have "calm s1 t" .
    with write_event_effect [OF w] Inr None show ?thesis
      using appended_calm [OF calm.frame_refl] by auto
  qed
qed

section \<open>Reading and updating\<close>

lemma io_bind_lift: "io_bind (io_lift (Inr x)) f = f x"
  by (simp add: fun_eq_iff io_bind_def io_lift_def)

text \<open>A read returns the record of the last event, whatever the snapshot file holds.\<close>

lemma readSnapshot_latest: "readSnapshot oe file events = Inr sn \<Longrightarrow> sn_Record sn = je_Record (last events)"
  by (auto simp: readSnapshot_def Let_def split: json_file.splits if_splits)

lemma Read_latest:
  assumes "Store_Read oe operationID s = (Inr r, t)"
  shows "\<exists>g events. operationDir operationID = Inr g \<and> readJournal oe (journal_at s g) = Inr events \<and> events \<noteq> [] \<and>
    r = je_Record (last events)"
  using assms unfolding Store_Read_def
  by (auto simp: io_run dest: readSnapshot_latest split: if_splits sum.splits)

lemma Read_deterministic:
  assumes "Store_Read oe operationID s = (Inr r, t)" "operationDir operationID = Inr g"
    "readJournal oe (journal_at s g) = Inr events"
  shows "events \<noteq> [] \<and> r = je_Record (last events)"
  using Read_latest [OF assms(1)] assms(2,3) by auto

lemma calm_lock_existing:
  assumes "withOperationLock g False action s = (r, t)"
  shows "(\<exists>x. r = Inl x) \<and> calm s t \<or> (\<exists>u. calm s u \<and> action u = (r, t))"
proof -
  let ?chmod = "io_bind (io_get (\<lambda>s. op_at s g)) (\<lambda>d. case d of None \<Rightarrow> io_err OsNotExist | Some _ \<Rightarrow> opcall (\<lambda>s. s))"
  let ?open = "io_wrap ''open operation lock: %w'' [] (opcall (\<lambda>s. s))"
  have c: "io_rel calm (io_then ?chmod ?open)" by (intro calm.rel_rules calm_noop)
  have eq: "withOperationLock g False action = io_then (io_then ?chmod ?open) action"
    by (auto simp: withOperationLock_def io_then_def io_bind_def fun_eq_iff split: prod.splits sum.splits)
  obtain r1 u where l: "io_then ?chmod ?open s = (r1, u)" by fastforce
  from io_relD [OF c l] have "calm s u" .
  with assms l show ?thesis unfolding eq by (cases r1) (auto simp: io_then_def [of _ action] io_bind_def)
qed

lemma calm_lock_create:
  assumes "withOperationLock g True action s = (r, t)" "operationDir g = Inr g"
  shows "(\<exists>x. r = Inl x) \<and> calm s t \<or> (\<exists>u. calm s u \<and> action u = (r, t))"
proof -
  let ?mk = "io_then (opcall (\<lambda>s. s\<lparr>os_root := True\<rparr>)) (opcall (make_op_dir g))"
  let ?open = "io_wrap ''open operation lock: %w'' [] (opcall (\<lambda>s. s))"
  have c: "io_rel calm (io_then ?mk ?open)"
    by (intro calm.rel_rules calm_noop calm_opcall calm_make assms(2))
  have eq: "withOperationLock g True action = io_then (io_then ?mk ?open) action"
    by (auto simp: withOperationLock_def io_then_def io_bind_def fun_eq_iff split: prod.splits sum.splits)
  obtain r1 u where l: "io_then ?mk ?open s = (r1, u)" by fastforce
  from io_relD [OF c l] have "calm s u" .
  with assms(1) l show ?thesis unfolding eq by (cases r1) (auto simp: io_then_def [of _ action] io_bind_def)
qed

text \<open>What an update may do: nothing but fail, or append one event that carries a checked transition of the latest record.\<close>

definition update_step ::
  "op_env \<Rightarrow> string \<Rightarrow> string \<Rightarrow> (OperationRecord \<Rightarrow> OperationRecord res) \<Rightarrow> string \<Rightarrow> OperationRecord \<Rightarrow> op_store \<Rightarrow> op_store \<Rightarrow> bool" where
  "update_step oe eventID eventType mutate g next s t \<longleftrightarrow>
     (\<exists>events next0. readJournal oe (journal_at s g) = Inr events \<and> events \<noteq> [] \<and>
        mutate (je_Record (last events)) = Inr next0 \<and> ValidateTransition (je_Record (last events)) next0 = None \<and>
        next = stamp_next oe (je_Record (last events)) next0 \<and>
        ValidateEvent oe (update_event eventID eventType next) = None \<and>
        appended g (update_event eventID eventType next) s t)"

lemma update_commit_effect:
  assumes "update_commit oe g eventID eventType previous next0 s = (r, t)"
  shows "(\<exists>x. r = Inl x) \<and> calm s t \<or>
    ValidateTransition previous next0 = None \<and>
    ValidateEvent oe (update_event eventID eventType (stamp_next oe previous next0)) = None \<and>
    appended g (update_event eventID eventType (stamp_next oe previous next0)) s t \<and>
    ((\<exists>x. r = Inl x) \<or> r = Inr (stamp_next oe previous next0))"
proof -
  let ?next = "stamp_next oe previous next0"
  obtain r1 u where w: "writeEventAndSnapshot oe g (update_event eventID eventType ?next) s = (r1, u)" by fastforce
  show ?thesis
  proof (cases "ValidateTransition previous next0 = None \<and> opValidateRecord oe ?next = None")
    case True
    with assms w have "r = (case r1 of Inl x \<Rightarrow> Inl x | Inr _ \<Rightarrow> Inr ?next)" "t = u"
      by (auto simp: update_commit_def Let_def io_then_def io_bind_def io_need_def io_ok_def split: sum.splits)
    with True writeEventAndSnapshot_effect [OF w] show ?thesis by (auto split: sum.splits)
  next
    case False
    with assms show ?thesis
      by (auto simp: update_commit_def Let_def io_then_def io_bind_def io_need_def calm.frame_refl split: option.splits)
  qed
qed

lemma Update_effect:
  assumes "Store_Update oe operationID eventID eventType mutate s = (r, t)"
  shows "(\<exists>x. r = Inl x) \<and> calm s t \<or>
    (\<exists>g next. operationDir operationID = Inr g \<and> update_step oe eventID eventType mutate g next s t \<and>
              ((\<exists>x. r = Inl x) \<or> r = Inr next))"
proof (cases "operationDir operationID")
  case (Inl x)
  with assms show ?thesis by (auto simp: Store_Update_def io_bind_def io_lift_def calm.frame_refl)
next
  case (Inr g)
  let ?body = "io_bind (Store_Read oe operationID) (\<lambda>previous.
      io_bind (io_lift (mutate previous)) (update_commit oe g eventID eventType previous))"
  from assms Inr have "withOperationLock g False ?body s = (r, t)"
    by (simp add: Store_Update_def io_bind_lift)
  from calm_lock_existing [OF this] show ?thesis
  proof (elim disjE exE conjE)
    fix u assume u: "calm s u" "?body u = (r, t)"
    obtain r1 v where rd: "Store_Read oe operationID u = (r1, v)" by fastforce
    have v: "calm s v" using calm.frame_trans [OF u(1) io_relD [OF calm_Read rd]] .
    show ?thesis
    proof (cases r1)
      case (Inl x)
      with u rd v show ?thesis by (auto simp: io_bind_def)
    next
      case prev: (Inr previous)
      show ?thesis
      proof (cases "mutate previous")
        case (Inl x)
        with u rd prev have "r = Inl x" "t = v" by (auto simp: io_bind_def io_lift_def)
        with v show ?thesis by blast
      next
        case next0: (Inr next0)
        with u rd prev have w: "update_commit oe g eventID eventType previous next0 v = (r, t)"
          by (auto simp: io_bind_def io_lift_def)
        from Read_latest [OF rd [unfolded prev]] Inr obtain events where
          ev: "readJournal oe (journal_at u g) = Inr events" "events \<noteq> []" "previous = je_Record (last events)" by auto
        have ev': "readJournal oe (journal_at s g) = Inr events" using calm_readJournal [OF u(1) ev(1,2)] .
        let ?next = "stamp_next oe previous next0"
        show ?thesis
        proof (rule disjE [OF update_commit_effect [OF w]])
          assume "(\<exists>x. r = Inl x) \<and> calm v t"
          with v show ?thesis using calm.frame_trans by blast
        next
          assume wrote: "ValidateTransition previous next0 = None \<and> ValidateEvent oe (update_event eventID eventType ?next) = None \<and>
            appended g (update_event eventID eventType ?next) v t \<and> ((\<exists>x. r = Inl x) \<or> r = Inr ?next)"
          then have "appended g (update_event eventID eventType ?next) v t" by simp
          from appended_calm [OF v this calm.frame_refl]
          have "update_step oe eventID eventType mutate g ?next s t"
            unfolding update_step_def using wrote ev ev' next0 by auto
          with wrote Inr show ?thesis by auto
        qed
      qed
    qed
  qed blast
qed

end
