(* ===== verification/OperationRuns.thy ===== *)
theory OperationRuns
  imports OperationFacts
begin

text \<open>
  Histories of the operation store. \<open>op_step\<close> has one rule per operation, with any outcome of its system calls.
  The invariant \<open>ops_ok\<close> says that every journal holds exactly the files of a chain of events of its own operation;
  the preorder \<open>op_grows\<close> that no event is ever changed, dropped or put before another.
\<close>

section \<open>The invariant\<close>

definition dir_ok :: "op_env \<Rightarrow> string \<Rightarrow> op_dir \<Rightarrow> bool" where
  "dir_ok oe g d \<longleftrightarrow>
     operationDir g = Inr g \<and>
     (\<forall>files. od_journal d = Some files \<longrightarrow>
        files = journal_files (events_of (Some files)) \<and> chain oe (events_of (Some files)) \<and>
        (\<forall>e \<in> set (events_of (Some files)). or_OperationID (je_Record e) = g))"

definition ops_ok :: "op_env \<Rightarrow> op_store \<Rightarrow> bool" where
  "ops_ok oe s \<longleftrightarrow> distinct (map fst (os_dirs s)) \<and> (\<forall>g d. op_at s g = Some d \<longrightarrow> dir_ok oe g d)"

lemma dir_ok_empty: "operationDir g = Inr g \<Longrightarrow> od_journal d \<in> {None, Some []} \<Longrightarrow> dir_ok oe g d"
  by (auto simp: dir_ok_def journal_files_def intro: chain_Nil)

lemma dir_ok_journal: "dir_ok oe g d \<Longrightarrow> od_journal d' = od_journal d \<Longrightarrow> dir_ok oe g d'"
  by (simp add: dir_ok_def)

lemma ops_ok_calm:
  assumes "ops_ok oe s" "calm s t"
  shows "ops_ok oe t"
  unfolding ops_ok_def
proof (intro conjI allI impI)
  fix g d' assume d': "op_at t g = Some d'"
  have c: "calm_dir g (op_at s g) (op_at t g)" using assms(2) by (simp add: calm_def)
  show "dir_ok oe g d'"
  proof (cases "op_at s g")
    case None
    with c d' show ?thesis by (auto simp: calm_dir_def intro: dir_ok_empty)
  next
    case (Some d)
    with assms(1) have ok: "dir_ok oe g d" by (simp add: ops_ok_def)
    then have "operationDir g = Inr g" by (simp add: dir_ok_def)
    with c d' Some show ?thesis by (auto simp: calm_dir_def intro: dir_ok_empty dir_ok_journal [OF ok])
  qed
qed (use assms in \<open>simp add: calm_def ops_ok_def\<close>)

lemma ops_ok_dir: "ops_ok oe s \<Longrightarrow> op_at s g \<noteq> None \<Longrightarrow> operationDir g = Inr g"
  by (auto simp: ops_ok_def dir_ok_def)

lemma ops_ok_journal:
  assumes "ops_ok oe s" "journal_at s g = Some files"
  shows "files = journal_files (op_events s g)" "readJournal oe (Some files) = Inr (op_events s g)"
proof -
  from assms obtain d where d: "op_at s g = Some d" "od_journal d = Some files"
    by (auto simp: journal_at_def split: option.splits)
  with assms have "files = journal_files (op_events s g) \<and> chain oe (op_events s g)"
    by (auto simp: ops_ok_def dir_ok_def op_events_def)
  then show "files = journal_files (op_events s g)" "readJournal oe (Some files) = Inr (op_events s g)"
    using readJournal_files by metis+
qed

lemma ops_ok_chain: "ops_ok oe s \<Longrightarrow> chain oe (op_events s g)"
  using readJournal_chain [OF ops_ok_journal(2)] chain_Nil
  by (cases "journal_at s g") (simp add: op_events_def, blast)

lemma ops_ok_events:
  assumes "ops_ok oe s" "readJournal oe (journal_at s g) = Inr es"
  shows "es = op_events s g"
  using assms by (cases "journal_at s g") (auto simp: readJournal_def dest: ops_ok_journal(2))

lemma ops_ok_owner:
  assumes "ops_ok oe s" "e \<in> set (op_events s g)"
  shows "or_OperationID (je_Record e) = g"
proof -
  from assms(2) obtain d files where d: "op_at s g = Some d" "od_journal d = Some files"
    by (cases "op_at s g"; cases "journal_at s g") (auto simp: op_events_def journal_at_def)
  then have "op_events s g = events_of (Some files)" by (simp add: op_events_def journal_at_def)
  with assms d show ?thesis by (simp add: ops_ok_def dir_ok_def)
qed

section \<open>Appending keeps it\<close>

lemma dir_ok_add:
  assumes "dir_ok oe g d" "od_journal d = Some files" "ValidateEvent oe e = None" "continues (events_of (Some files)) e"
    "or_OperationID (je_Record e) = g"
  shows "dir_ok oe g (add_event_file e d)"
proof -
  let ?es = "events_of (Some files)"
  have ok: "files = journal_files ?es" "chain oe ?es" "operationDir g = Inr g"
    "\<forall>e \<in> set ?es. or_OperationID (je_Record e) = g" using assms by (auto simp: dir_ok_def)
  have "files @ [(event_name e, File e)] = journal_files (?es @ [e])"
    using ok(1) by (metis (no_types, lifting) journal_files_def list.simps(8,9) map_append)
  moreover have "chain oe (?es @ [e])" using ok(2) assms(3,4) by (rule chain_snoc)
  ultimately show ?thesis using assms(2,5) ok(3,4) by (auto simp: dir_ok_def add_event_file_def)
qed

lemma ops_ok_appended:
  assumes "ops_ok oe s" "appended g e s t" "ValidateEvent oe e = None" "continues (op_events s g) e"
    "or_OperationID (je_Record e) = g"
  shows "ops_ok oe t"
proof -
  from assms(2) obtain u where u: "calm s u" "journal_at u g \<noteq> None" "calm (upd_op g (add_event_file e) u) t"
    by (auto simp: appended_def)
  have ok: "ops_ok oe u" using assms(1) u(1) by (rule ops_ok_calm)
  from u(2) obtain d files where d: "op_at u g = Some d" "od_journal d = Some files"
    by (auto simp: journal_at_def split: option.splits)
  then have "op_events u g = events_of (Some files)" by (simp add: op_events_def journal_at_def)
  then have "events_of (Some files) = op_events s g" using calm_journal(2) [OF u(1)] by simp
  then have "dir_ok oe g (add_event_file e d)"
    using dir_ok_add [OF _ d(2) assms(3) _ assms(5)] ok d(1) assms(4) by (simp add: ops_ok_def)
  then have "ops_ok oe (upd_op g (add_event_file e) u)"
    using ok d(1) by (auto simp: ops_ok_def op_at_upd distinct_dirs split: if_splits)
  then show ?thesis using u(3) by (rule ops_ok_calm)
qed

lemma late_readiness_stamp [simp]: "late_readiness previous (stamp_next oe previous next) = late_readiness previous next"
  by (auto simp: late_readiness_def stamp_next_def split: option.splits)

lemma stamp_next_transition:
  "ValidateTransition previous next = None \<Longrightarrow> ValidateTransition previous (stamp_next oe previous next) = None"
  unfolding ValidateTransition_def by (simp, simp add: stamp_next_def)

lemma transition_id: "ValidateTransition previous next = None \<Longrightarrow> or_OperationID next = or_OperationID previous"
  by (simp add: ValidateTransition_def)

lemma stamp_next_fields [simp]:
  "or_OperationID (stamp_next oe previous next) = or_OperationID next"
  "or_LatestJournalSeq (stamp_next oe previous next) = inc64 (or_LatestJournalSeq previous)"
  "or_RecordRevision (stamp_next oe previous next) = inc64 (or_RecordRevision previous)"
  by (simp_all add: stamp_next_def)

lemma update_event_fields [simp]:
  "je_Sequence (update_event eventID eventType next) = or_LatestJournalSeq next"
  "je_Record (update_event eventID eventType next) = next"
  by (simp_all add: update_event_def)

lemma update_continues:
  assumes "chain oe es" "es \<noteq> []" "ValidateTransition (je_Record (last es)) next0 = None"
    "next = stamp_next oe (je_Record (last es)) next0"
  shows "continues es (update_event eventID eventType next)"
proof -
  have "ValidateEvent oe (last es) = None" using chain_member_valid [OF assms(1)] assms(2) by simp
  then have "or_LatestJournalSeq (je_Record (last es)) = je_Sequence (last es)" using ValidateEvent_seq by blast
  with assms stamp_next_transition [OF assms(3)] show ?thesis by (simp add: continues_def)
qed

lemma ops_ok_update_step:
  assumes "ops_ok oe s" "update_step oe eventID eventType mutate g next s t"
  shows "ops_ok oe t"
proof -
  let ?e = "update_event eventID eventType next"
  from assms(2) obtain es next0 where u: "readJournal oe (journal_at s g) = Inr es" "es \<noteq> []"
    "ValidateTransition (je_Record (last es)) next0 = None" "next = stamp_next oe (je_Record (last es)) next0"
    "ValidateEvent oe ?e = None" "appended g ?e s t" by (auto simp: update_step_def)
  have es: "es = op_events s g" using ops_ok_events [OF assms(1) u(1)] .
  have "continues (op_events s g) ?e"
    using update_continues [OF ops_ok_chain [OF assms(1)]] u(2-4) unfolding es by blast
  moreover have "or_OperationID (je_Record ?e) = g"
    using ops_ok_owner [OF assms(1), of "last es" g] u(2-4) es transition_id [OF u(3)] by simp
  ultimately show ?thesis by (rule ops_ok_appended [OF assms(1) u(6,5)])
qed

section \<open>Creating\<close>

lemma visible_journal: "hasExistingJournal (Some (journal_files es)) \<longleftrightarrow> es \<noteq> []"
  by (cases es) (auto simp: hasExistingJournal_def journal_files_def visible_event_name)

lemma ops_ok_no_journal:
  assumes "ops_ok oe s" "\<not> hasExistingJournal (journal_at s g)"
  shows "op_events s g = []"
proof (cases "journal_at s g")
  case (Some files)
  with assms(2) have "\<not> hasExistingJournal (Some (journal_files (op_events s g)))"
    using ops_ok_journal(1) [OF assms(1) Some] by simp
  then show ?thesis by (simp add: visible_journal)
qed (simp add: op_events_def)

lemma calm_no_journal: "calm s u \<Longrightarrow> hasExistingJournal (journal_at u g) = hasExistingJournal (journal_at s g)"
  using calm_journal(1) [of s u g] by (auto simp: hasExistingJournal_def)

definition new_record :: "OperationRecord \<Rightarrow> time \<Rightarrow> OperationRecord" where
  "new_record record0 now = (normalizeNewRecord record0 now)\<lparr>or_RecordRevision := 1, or_LatestJournalSeq := 1\<rparr>"

lemma new_record_dir: "operationDir (or_OperationID (new_record record0 now)) = Inr g \<Longrightarrow> or_OperationID (new_record record0 now) = g"
  by (auto simp: operationDir_def opCleanSegment_def new_record_def normalizeNewRecord_def Let_def split: if_splits)

lemma Create_effect:
  assumes "Store_Create oe record0 eventID now0 s = (r, t)"
  defines "now \<equiv> (if now0 = 0 then oe_now oe else now0)"
  shows "(\<exists>x. r = Inl x) \<and> calm s t \<or>
    (\<exists>g. operationDir (or_OperationID (new_record record0 now)) = Inr g \<and> \<not> hasExistingJournal (journal_at s g) \<and>
         ValidateEvent oe (accepted_event eventID (new_record record0 now) now) = None \<and>
         appended g (accepted_event eventID (new_record record0 now) now) s t \<and>
         ((\<exists>x. r = Inl x) \<or> r = Inr (new_record record0 now)))"
proof -
  let ?r = "new_record record0 now" let ?e = "accepted_event eventID ?r now"
  have eq: "Store_Create oe record0 eventID now0 =
    io_then (io_need (opValidateRecord oe ?r)) (io_bind (io_lift (operationDir (or_OperationID ?r)))
      (\<lambda>g. withOperationLock g True (create_locked oe g ?r eventID now)))"
    by (simp add: Store_Create_def new_record_def now_def Let_def)
  show ?thesis
  proof (cases "opValidateRecord oe ?r")
    case (Some x)
    with assms(1) show ?thesis unfolding eq by (auto simp: io_then_def io_bind_def io_need_def calm.frame_refl)
  next
    case None
    show ?thesis
    proof (cases "operationDir (or_OperationID ?r)")
      case (Inl x)
      with assms(1) None show ?thesis unfolding eq
        by (auto simp: io_then_def io_bind_def io_need_def io_lift_def calm.frame_refl)
    next
      case (Inr g)
      with assms(1) None have "withOperationLock g True (create_locked oe g ?r eventID now) s = (r, t)"
        unfolding eq by (auto simp: io_then_def io_bind_def io_need_def io_lift_def)
      from calm_lock_create [OF this operationDir_clean [OF Inr]] show ?thesis
      proof (elim disjE exE conjE)
        fix u assume u: "calm s u" "create_locked oe g ?r eventID now u = (r, t)"
        obtain r1 v where w: "writeEventAndSnapshot oe g ?e u = (r1, v)" by fastforce
        show ?thesis
        proof (cases "hasExistingJournal (journal_at u g) \<or> record_at u g \<noteq> NoFile")
          case True
          with u have "(\<exists>x. r = Inl x) \<and> t = u"
            by (auto simp: create_locked_def io_bind_def io_then_def io_get_def io_reject_code split: if_splits)
          with u(1) show ?thesis by blast
        next
          case False
          with u w have "r = (case r1 of Inl x \<Rightarrow> Inl x | Inr _ \<Rightarrow> Inr ?r)" "t = v"
            by (auto simp: create_locked_def io_bind_def io_then_def io_get_def io_reject_code io_ok_def
                split: sum.splits)
          with writeEventAndSnapshot_effect [OF w] Inr False calm_no_journal [OF u(1)] show ?thesis
            by (auto intro: calm.frame_trans [OF u(1)] appended_calm [OF u(1) _ calm.frame_refl] split: sum.splits)
        qed
      qed blast
    qed
  qed
qed

lemma ops_ok_Create:
  assumes "ops_ok oe s" "Store_Create oe record0 eventID now0 s = (r, t)"
  shows "ops_ok oe t"
proof (rule disjE [OF Create_effect [OF assms(2)]])
  let ?now = "if now0 = 0 then oe_now oe else now0"
  let ?e = "accepted_event eventID (new_record record0 ?now) ?now"
  assume "\<exists>g. operationDir (or_OperationID (new_record record0 ?now)) = Inr g \<and> \<not> hasExistingJournal (journal_at s g) \<and>
         ValidateEvent oe ?e = None \<and> appended g ?e s t \<and> ((\<exists>x. r = Inl x) \<or> r = Inr (new_record record0 ?now))"
  then obtain g where g: "operationDir (or_OperationID (new_record record0 ?now)) = Inr g"
    "\<not> hasExistingJournal (journal_at s g)" "ValidateEvent oe ?e = None" "appended g ?e s t" by blast
  have "op_events s g = []" using assms(1) g(2) by (rule ops_ok_no_journal)
  moreover have "or_OperationID (new_record record0 ?now) = g" using new_record_dir [OF g(1)] .
  ultimately show ?thesis using ops_ok_appended [OF assms(1) g(4,3)] by (simp add: continues_def accepted_event_def)
qed (use ops_ok_calm [OF assms(1)] in blast)

section \<open>What stays of an operation\<close>

text \<open>The part of a record a later record of the same operation keeps: identity and request, and evidence that only grows.\<close>

definition op_le :: "OperationRecord \<Rightarrow> OperationRecord \<Rightarrow> bool" where
  "op_le a b \<longleftrightarrow>
     or_OperationID b = or_OperationID a \<and> or_ExpectedMachineID b = or_ExpectedMachineID a \<and>
     or_ExpectedCurrentGenerationID b = or_ExpectedCurrentGenerationID a \<and>
     or_ExpectedClusterIntentDigest b = or_ExpectedClusterIntentDigest a \<and>
     or_ConfigApplyRequest b = or_ConfigApplyRequest a \<and> or_DestructiveResetRequest b = or_DestructiveResetRequest a \<and>
     or_EtcdMemberRemoveRequest b = or_EtcdMemberRemoveRequest a \<and>
     map_option bootstrap_fixed (or_BootstrapRequest b) = map_option bootstrap_fixed (or_BootstrapRequest a) \<and>
     map_option host_upgrade_fixed (or_HostUpgradeRequest b) = map_option host_upgrade_fixed (or_HostUpgradeRequest a) \<and>
     or_RecordRevision a \<le> or_RecordRevision b \<and> or_LatestJournalSeq a \<le> or_LatestJournalSeq b \<and>
     or_PhaseIndex a \<le> or_PhaseIndex b \<and> prefix (or_CompletedPhases a) (or_CompletedPhases b) \<and>
     (or_ExternalMutationStarted a \<longrightarrow> or_ExternalMutationStarted b) \<and> (or_MutatingToolRan a \<longrightarrow> or_MutatingToolRan b) \<and>
     prefix (or_PreExecMutationMarkers a) (or_PreExecMutationMarkers b) \<and>
     prefix (or_MutationScopes a) (or_MutationScopes b) \<and>
     prefix (or_MutatingToolInvocations a) (or_MutatingToolInvocations b) \<and>
     prefix (or_DiagnosticArtifacts a) (or_DiagnosticArtifacts b)"

lemma op_le_refl [simp]: "op_le a a"
  by (simp add: op_le_def)

lemma op_le_trans: "op_le a b \<Longrightarrow> op_le b c \<Longrightarrow> op_le a c"
  unfolding op_le_def by (elim conjE) (intro conjI; (simp | (erule (1) order_trans)))

lemma opHasPrefix_iff: "opHasPrefix xs ys \<longleftrightarrow> prefix ys xs"
  by (auto simp: opHasPrefix_def prefix_def) (metis append_take_drop_id)

lemma both_or_none_map:
  "both_or_none f a b \<Longrightarrow> (\<And>x y. f x y \<Longrightarrow> h x = h y) \<Longrightarrow> map_option h b = map_option h a"
  by (auto simp: both_or_none_def split: option.splits)

lemma inc64_mono: "b = a \<or> b = inc64 a \<Longrightarrow> 1 \<le> b \<Longrightarrow> a \<le> b"
  by (auto simp: inc64_def split: if_splits)

lemma opValidateRecord_counters:
  "opValidateRecord oe r = None \<Longrightarrow> 1 \<le> or_RecordRevision r \<and> 1 \<le> or_LatestJournalSeq r"
  by (simp add: opValidateRecord_def)

lemma transition_le:
  assumes "ValidateTransition a b = None" "opValidateRecord oe b = None"
  shows "op_le a b"
proof -
  note v = assms(1) [unfolded ValidateTransition_def, simplified]
  have "map_option bootstrap_fixed (or_BootstrapRequest b) = map_option bootstrap_fixed (or_BootstrapRequest a)"
    by (rule both_or_none_map [of bootstrap_step])
       (use v in \<open>simp_all add: bootstrapRequestTransitionAllowed_def bootstrap_step_def\<close>)
  moreover have "map_option host_upgrade_fixed (or_HostUpgradeRequest b) = map_option host_upgrade_fixed (or_HostUpgradeRequest a)"
    by (rule both_or_none_map [of host_upgrade_step])
       (use v in \<open>simp_all add: hostUpgradeTransitionAllowed_def host_upgrade_step_def\<close>)
  moreover have "or_RecordRevision a \<le> or_RecordRevision b" "or_LatestJournalSeq a \<le> or_LatestJournalSeq b"
    using v opValidateRecord_counters [OF assms(2)] by (auto intro!: inc64_mono)
  ultimately show ?thesis using v unfolding op_le_def by (simp add: opHasPrefix_iff)
qed

lemma ValidateEvent_record: "ValidateEvent oe e = None \<Longrightarrow> opValidateRecord oe (je_Record e) = None"
  by (simp add: ValidateEvent_def)

lemma chain_extension:
  "chain oe (es @ fs) \<Longrightarrow> es \<noteq> [] \<Longrightarrow>
   op_le (je_Record (last es)) (je_Record (last (es @ fs))) \<and> (or_Terminal (je_Record (last es)) \<longrightarrow> fs = [])"
proof (induction fs rule: rev_induct)
  case (snoc f fs)
  then have c: "chain oe (es @ fs)" "ValidateEvent oe f = None" "continues (es @ fs) f"
    by (simp_all add: chain_snoc_iff flip: append_assoc)
  then have t: "ValidateTransition (je_Record (last (es @ fs))) (je_Record f) = None"
    using snoc.prems(2) by (simp add: continues_def)
  note ih = snoc.IH [OF c(1) snoc.prems(2)]
  have "op_le (je_Record (last es)) (je_Record f)"
    using op_le_trans [OF conjunct1 [OF ih] transition_le [OF t ValidateEvent_record [OF c(2)]]] .
  moreover have "\<not> or_Terminal (je_Record (last (es @ fs)))" using t by (simp add: ValidateTransition_def)
  then have "\<not> or_Terminal (je_Record (last es))" using conjunct2 [OF ih] by (cases "fs = []") simp_all
  ultimately show ?case by simp
qed simp

section \<open>Every operation\<close>

definition op_grows :: "op_store \<Rightarrow> op_store \<Rightarrow> bool" where
  "op_grows s t \<longleftrightarrow> (\<forall>g. prefix (op_events s g) (op_events t g))"

definition advances :: "op_env \<Rightarrow> op_store \<Rightarrow> op_store \<Rightarrow> bool" where
  "advances oe s t \<longleftrightarrow> op_grows s t \<and> (ops_ok oe s \<longrightarrow> ops_ok oe t)"

interpretation advance: io_frame "advances oe"
  by unfold_locales (auto simp: advances_def op_grows_def intro: prefix_order.trans)

lemma calm_advances: "calm s t \<Longrightarrow> advances oe s t"
  by (auto simp: advances_def op_grows_def calm_journal(2) intro: ops_ok_calm)

lemma advances_of_calm: "io_rel calm m \<Longrightarrow> io_rel (advances oe) m"
  by (simp add: io_rel_def calm_advances)

lemma appended_grows: "appended g e s t \<Longrightarrow> op_grows s t"
  by (auto simp: op_grows_def appended_events)

lemma advances_Update: "io_rel (advances oe) (Store_Update oe operationID eventID eventType mutate)"
proof (rule io_relI)
  fix s
  obtain r t where u: "Store_Update oe operationID eventID eventType mutate s = (r, t)" by fastforce
  have "advances oe s t"
  proof (rule disjE [OF Update_effect [OF u]])
    assume "\<exists>g next. operationDir operationID = Inr g \<and> update_step oe eventID eventType mutate g next s t \<and>
              ((\<exists>x. r = Inl x) \<or> r = Inr next)"
    then obtain g "next" where st: "update_step oe eventID eventType mutate g next s t" by blast
    then have "op_grows s t" by (auto simp: update_step_def dest: appended_grows)
    with st show ?thesis unfolding advances_def using ops_ok_update_step by blast
  qed (use calm_advances in blast)
  with u show "advances oe s (snd (Store_Update oe operationID eventID eventType mutate s))" by simp
qed

lemma advances_Create: "io_rel (advances oe) (Store_Create oe record0 eventID now0)"
proof (rule io_relI)
  fix s
  obtain r t where u: "Store_Create oe record0 eventID now0 s = (r, t)" by fastforce
  from Create_effect [OF u] have "op_grows s t"
    using calm_advances [unfolded advances_def] appended_grows by blast
  with u show "advances oe s (snd (Store_Create oe record0 eventID now0 s))"
    by (auto simp: advances_def intro: ops_ok_Create)
qed

lemma advances_marker: "io_rel (advances oe) (Store_AddPreExecMutationMarker oe operationID marker)"
  unfolding Store_AddPreExecMutationMarker_def by (rule advances_Update)

lemmas advances_calm_ops = calm_Read [THEN advances_of_calm] calm_attachment [THEN advances_of_calm]

lemma advances_artifact: "io_rel (advances oe) (Store_AddDiagnosticArtifact oe operationID artifactID content now)"
  unfolding Store_AddDiagnosticArtifact_def Let_def
  by (intro advance.rel_rules advances_Update advances_calm_ops)

lemma advances_List: "io_rel (advances oe) (Store_List oe)"
  unfolding Store_List_def by (intro advance.rel_rules advances_calm_ops)

lemma advances_reconcile_one: "io_rel (advances oe) (reconcile_one oe now bootID live ident)"
  unfolding reconcile_one_def reconcileStaleRecord_def by (intro advance.rel_rules advances_calm_ops advances_Update)

lemma advances_ReconcileBoot: "io_rel (advances oe) (Store_ReconcileBoot oe now bootID live)"
  unfolding Store_ReconcileBoot_def Let_def by (intro advance.rel_rules advances_reconcile_one)

inductive op_step :: "op_env \<Rightarrow> op_store \<Rightarrow> op_store \<Rightarrow> bool" for oe where
  op_faults: "op_step oe s (s\<lparr>os_faults := fs\<rparr>)"
| op_create: "Store_Create oe record0 eventID now s = (r, t) \<Longrightarrow> op_step oe s t"
| op_read: "Store_Read oe operationID s = (r, t) \<Longrightarrow> op_step oe s t"
| op_update: "Store_Update oe operationID eventID eventType mutate s = (r, t) \<Longrightarrow> op_step oe s t"
| op_marker: "Store_AddPreExecMutationMarker oe operationID marker s = (r, t) \<Longrightarrow> op_step oe s t"
| op_artifact: "Store_AddDiagnosticArtifact oe operationID artifactID content now s = (r, t) \<Longrightarrow> op_step oe s t"
| op_list: "Store_List oe s = (rs, t) \<Longrightarrow> op_step oe s t"
| op_reconcile: "Store_ReconcileBoot oe now bootID live s = (report, t) \<Longrightarrow> op_step oe s t"

inductive_cases op_stepE: "op_step oe s t"

lemmas advances_ops = advances_Create advances_Update advances_marker advances_artifact advances_List
  advances_ReconcileBoot advances_calm_ops

lemma op_step_advances: "op_step oe s t \<Longrightarrow> advances oe s t"
  by (erule op_stepE; (simp add: calm_advances | (erule io_relD [rotated], rule advances_ops)))

interpretation journal: step_system "advances oe" "op_step oe" "ops_ok oe"
  by unfold_locales (use op_step_advances in \<open>auto simp: advances_def\<close>)

lemma Read_events:
  assumes "ops_ok oe s" "Store_Read oe operationID s = (Inr r, t)"
  obtains g where "operationDir operationID = Inr g" "op_events s g \<noteq> []" "r = je_Record (last (op_events s g))"
  using Read_latest [OF assms(2)] ops_ok_events [OF assms(1)] by blast

lemma operation_history:
  assumes "(op_step oe)\<^sup>*\<^sup>* s t" "ops_ok oe s" "op_events s g \<noteq> []"
  shows "\<exists>fs. op_events t g = op_events s g @ fs \<and> chain oe (op_events s g @ fs) \<and>
    op_le (je_Record (last (op_events s g))) (je_Record (last (op_events t g))) \<and>
    (or_Terminal (je_Record (last (op_events s g))) \<longrightarrow> fs = [])"
proof -
  from journal.run_rel [OF assms(1)] obtain fs where fs: "op_events t g = op_events s g @ fs"
    by (auto simp: advances_def op_grows_def prefix_def)
  have "chain oe (op_events s g @ fs)" using ops_ok_chain [OF journal.run_inv [OF assms(1,2)]] fs by metis
  from this chain_extension [OF this assms(3)] fs show ?thesis by auto
qed

end
