(* ===== verification/OperationReconcile.thy ===== *)
theory OperationReconcile
  imports OperationRuns
begin

text \<open>
  What a caller of the operation store gets: an acknowledged record reads back, calls succeed on a disk without
  faults, and the reconciliation at boot appends one event to every operation that was left running, never
  completing one that may have changed something outside of the node's own records.
\<close>

section \<open>Reading back\<close>

lemma journal_at_record [simp]:
  "journal_at (upd_op g (\<lambda>d. d\<lparr>od_record := x\<rparr>) s) h = journal_at s h"
  by (auto simp: journal_at_def op_at_upd split: option.splits)

lemma journal_at_faults [simp]: "journal_at (s\<lparr>os_faults := fs\<rparr>) g = journal_at s g"
  by (simp add: journal_at_def)

lemma readJournal_dir: "readJournal oe (journal_at s g) = Inr es \<Longrightarrow> op_at s g \<noteq> None"
  by (cases "op_at s g") (auto simp: readJournal_def journal_at_def)

lemma record_at_upd: "op_at s g \<noteq> None \<Longrightarrow> record_at (upd_op g (\<lambda>d. d\<lparr>od_record := x\<rparr>) s) g = x"
  by (auto simp: record_at_def op_at_upd)

text \<open>A snapshot that was written for a journal is accepted for it.\<close>

definition fresh :: "op_env \<Rightarrow> op_store \<Rightarrow> string \<Rightarrow> bool" where
  "fresh oe s g \<longleftrightarrow>
     (\<exists>es. readJournal oe (journal_at s g) = Inr es \<and> es \<noteq> [] \<and> record_at s g = File (snapshot_of oe es))"

lemma writeSnapshot_fresh:
  assumes "writeSnapshot oe g es s = (Inr u, t)" "readJournal oe (journal_at s g) = Inr es"
  shows "fresh oe t g"
proof -
  let ?f = "upd_op g (\<lambda>d. d\<lparr>od_record := File (snapshot_of oe es)\<rparr>)"
  from assms(1) have ne: "es \<noteq> []" and c: "opcall ?f s = (Inr u, t)" by (auto simp: writeSnapshot_def io_run)
  from c obtain fs where t: "t = ?f (s\<lparr>os_faults := fs\<rparr>)" by (cases rule: opcall_cases) auto
  have "op_at (s\<lparr>os_faults := fs\<rparr>) g \<noteq> None" using readJournal_dir [OF assms(2)] by simp
  from record_at_upd [OF this] show ?thesis unfolding fresh_def t using assms(2) ne by simp
qed

lemma writeEventAndSnapshot_fresh: "writeEventAndSnapshot oe g e s = (Inr u, t) \<Longrightarrow> fresh oe t g"
  unfolding writeEventAndSnapshot_def by (auto simp: io_run intro: writeSnapshot_fresh)

lemma snapshot_accepted:
  assumes "chain oe es" "es \<noteq> []"
  shows "readSnapshot oe (File (snapshot_of oe es)) es = Inr (snapshot_of oe es)"
proof -
  have "opValidateRecord oe (je_Record (last es)) = None"
    using ValidateEvent_record [OF chain_member_valid [OF assms(1)]] assms(2) by simp
  with assms(2) show ?thesis by (simp add: readSnapshot_def snapshot_of_def Let_def res_need_def reject_def)
qed

lemma fresh_Read:
  assumes "fresh oe s g" "ops_ok oe s" "operationDir operationID = Inr g"
  shows "Store_Read oe operationID s = (Inr (je_Record (last (op_events s g))), s)"
proof -
  from assms(1) obtain es where es: "readJournal oe (journal_at s g) = Inr es" "es \<noteq> []"
    "record_at s g = File (snapshot_of oe es)" by (auto simp: fresh_def)
  have "es = op_events s g" using ops_ok_events [OF assms(2) es(1)] .
  with es snapshot_accepted [OF readJournal_chain [OF es(1)] es(2)] assms(3) show ?thesis
    by (simp add: Store_Read_def io_bind_def io_lift_def io_get_def io_ok_def snapshot_of_def Let_def)
qed

lemma Update_writes:
  assumes "Store_Update oe operationID eventID eventType mutate s = (Inr r, t)" "operationDir operationID = Inr g"
  shows "\<exists>e v u. writeEventAndSnapshot oe g e v = (Inr u, t)"
  using assms unfolding Store_Update_def withOperationLock_def update_commit_def Let_def
  by (auto simp: io_run)

lemma Create_writes:
  assumes "Store_Create oe record0 eventID now s = (Inr r, t)"
  shows "\<exists>e v u. writeEventAndSnapshot oe (or_OperationID r) e v = (Inr u, t)"
proof -
  let ?now = "if now = 0 then oe_now oe else now"
  from assms obtain g e v u where w: "operationDir (or_OperationID (new_record record0 ?now)) = Inr g"
    "writeEventAndSnapshot oe g e v = (Inr u, t)" "r = new_record record0 ?now"
    unfolding Store_Create_def withOperationLock_def create_locked_def Let_def new_record_def by (auto simp: io_run)
  with new_record_dir [OF w(1)] show ?thesis by blast
qed

text \<open>An acknowledged update extends the history by its record, and the next read returns it.\<close>

lemma Update_acknowledged:
  assumes "ops_ok oe s" "Store_Update oe operationID eventID eventType mutate s = (Inr r, t)"
  obtains g next0 where "operationDir operationID = Inr g" "op_events s g \<noteq> []"
    "mutate (je_Record (last (op_events s g))) = Inr next0" "r = stamp_next oe (je_Record (last (op_events s g))) next0"
    "op_events t = (op_events s)(g := op_events s g @ [update_event eventID eventType r])"
    "Store_Read oe operationID t = (Inr r, t)"
proof -
  from Update_effect [OF assms(2)] obtain g where g: "operationDir operationID = Inr g"
    "update_step oe eventID eventType mutate g r s t" by blast
  from g(2) obtain es next0 where u: "readJournal oe (journal_at s g) = Inr es" "es \<noteq> []"
    "mutate (je_Record (last es)) = Inr next0" "r = stamp_next oe (je_Record (last es)) next0"
    "appended g (update_event eventID eventType r) s t" by (auto simp: update_step_def)
  have es: "es = op_events s g" using ops_ok_events [OF assms(1) u(1)] .
  have t: "op_events t = (op_events s)(g := op_events s g @ [update_event eventID eventType r])"
    using appended_events [OF u(5)] by auto
  have "fresh oe t g" using Update_writes [OF assms(2) g(1)] writeEventAndSnapshot_fresh by blast
  from fresh_Read [OF this ops_ok_update_step [OF assms(1) g(2)] g(1)] t
  have "Store_Read oe operationID t = (Inr r, t)" by simp
  with that g(1) u t es show thesis by blast
qed

lemma Create_acknowledged:
  assumes "ops_ok oe s" "Store_Create oe record0 eventID now s = (Inr r, t)"
  shows "op_events s (or_OperationID r) = []"
    "\<exists>e. je_Record e = r \<and> op_events t = (op_events s)(or_OperationID r := [e])"
    "Store_Read oe (or_OperationID r) t = (Inr r, t)"
proof -
  let ?now = "if now = 0 then oe_now oe else now"
  from Create_effect [OF assms(2)] obtain g where
    g: "operationDir (or_OperationID r) = Inr g" "\<not> hasExistingJournal (journal_at s g)"
      "appended g (accepted_event eventID r ?now) s t" and r: "r = new_record record0 ?now" by blast
  have gr: "g = or_OperationID r" using new_record_dir [OF g(1) [unfolded r]] r by simp
  show no: "op_events s (or_OperationID r) = []" using ops_ok_no_journal [OF assms(1) g(2)] gr by simp
  have t: "op_events t = (op_events s)(or_OperationID r := [accepted_event eventID r ?now])"
    using appended_events [OF g(3)] gr no by auto
  then show "\<exists>e. je_Record e = r \<and> op_events t = (op_events s)(or_OperationID r := [e])"
    by (intro exI [of _ "accepted_event eventID r ?now"]) (simp add: accepted_event_def)
  have "fresh oe t (or_OperationID r)" using Create_writes [OF assms(2)] writeEventAndSnapshot_fresh by blast
  from fresh_Read [OF this ops_ok_Create [OF assms] g(1) [unfolded gr]] t
  show "Store_Read oe (or_OperationID r) t = (Inr r, t)" by (simp add: accepted_event_def)
qed

section \<open>Reconciliation at boot\<close>

definition left_running :: "string \<Rightarrow> (InvocationRecord \<Rightarrow> bool) option \<Rightarrow> OperationRecord \<Rightarrow> bool" where
  "left_running bootID live a \<longleftrightarrow> \<not> or_Terminal a \<and> \<not> hasLiveInvocation a bootID live"

definition boot_record :: "op_env \<Rightarrow> time \<Rightarrow> OperationRecord \<Rightarrow> OperationRecord" where
  "boot_record oe now a = stamp_next oe a (reconciled now (ClassifyStale a) a)"

definition boot_event :: "op_env \<Rightarrow> time \<Rightarrow> OperationRecord \<Rightarrow> JournalEvent" where
  "boot_event oe now a = update_event (''boot-reconcile-'' @ ClassifyStale a) ''boot-reconcile'' (boot_record oe now a)"

definition boot_events ::
  "op_env \<Rightarrow> time \<Rightarrow> string \<Rightarrow> (InvocationRecord \<Rightarrow> bool) option \<Rightarrow> JournalEvent list \<Rightarrow> JournalEvent list" where
  "boot_events oe now bootID live es =
     (let a = je_Record (last es) in if left_running bootID live a then es @ [boot_event oe now a] else es)"

definition boot_entry ::
  "op_env \<Rightarrow> time \<Rightarrow> string \<Rightarrow> (InvocationRecord \<Rightarrow> bool) option \<Rightarrow> JournalEvent list \<Rightarrow> ReconciledOperation" where
  "boot_entry oe now bootID live es =
     (let a = je_Record (last es)
      in if left_running bootID live a then reconciled_entry (ClassifyStale a) (boot_record oe now a)
         else reconciled_entry StaleNotStale a)"

lemma ClassifyStale_terminal: "ClassifyStale a = StaleTerminal \<longleftrightarrow> or_Terminal a"
  by (simp add: ClassifyStale_def stale_names)

lemma reconcile_one_effect:
  assumes "ops_ok oe s" "reconcile_one oe now bootID live g s = (Inr entry, t)" "operationDir g = Inr g"
  shows "op_events s g \<noteq> [] \<and> ops_ok oe t \<and> op_events t = (op_events s)(g := boot_events oe now bootID live (op_events s g)) \<and>
    entry = boot_entry oe now bootID live (op_events s g)"
proof -
  from assms(2) obtain a v where rd: "Store_Read oe g s = (Inr a, v)"
    and rest: "(if ClassifyStale a = StaleTerminal \<or> hasLiveInvocation a bootID live
          then io_ok (reconciled_entry StaleNotStale a)
          else io_bind (reconcileStaleRecord oe a (ClassifyStale a) now) (\<lambda>r'.
                 io_ok (reconciled_entry (ClassifyStale a) r'))) v = (Inr entry, t)"
    by (auto simp: reconcile_one_def io_run)
  from Read_events [OF assms(1) rd] assms(3) have a: "op_events s g \<noteq> []" "a = je_Record (last (op_events s g))" by auto
  have c: "calm s v" using io_relD [OF calm_Read rd] .
  have okv: "ops_ok oe v" using ops_ok_calm [OF assms(1) c] .
  have ev: "op_events v = op_events s" using calm_journal(2) [OF c] by auto
  have keep: "advances oe s t" using io_relD [OF advances_reconcile_one assms(2)] .
  show ?thesis
  proof (cases "left_running bootID live a")
    case False
    with rest have "t = v" "entry = reconciled_entry StaleNotStale a"
      by (auto simp: left_running_def ClassifyStale_terminal io_run)
    with False a ev okv show ?thesis by (auto simp: boot_events_def boot_entry_def Let_def)
  next
    case True
    with rest obtain b where b: "reconcileStaleRecord oe a (ClassifyStale a) now v = (Inr b, t)"
      "entry = reconciled_entry (ClassifyStale a) b" by (auto simp: left_running_def ClassifyStale_terminal io_run)
    have id: "or_OperationID a = g" using ops_ok_owner [OF assms(1)] a by simp
    from Update_acknowledged [OF okv b(1) [unfolded reconcileStaleRecord_def id]] assms(3) a ev
    have "b = boot_record oe now a" "op_events t = (op_events s)(g := op_events s g @ [boot_event oe now a])"
      by (auto simp: boot_record_def boot_event_def)
    with True a b(2) keep assms(1) show ?thesis by (simp add: boot_events_def boot_entry_def Let_def advances_def)
  qed
qed

lemma reconcile_all_effect:
  "ops_ok oe s \<Longrightarrow> io_map (reconcile_one oe now bootID live) ids s = (Inr entries, t) \<Longrightarrow> distinct ids \<Longrightarrow>
   (\<forall>g \<in> set ids. operationDir g = Inr g) \<Longrightarrow>
   ops_ok oe t \<and> entries = map (\<lambda>g. boot_entry oe now bootID live (op_events s g)) ids \<and>
   (\<forall>g \<in> set ids. op_events s g \<noteq> [] \<and> op_events t g = boot_events oe now bootID live (op_events s g)) \<and>
   (\<forall>g. g \<notin> set ids \<longrightarrow> op_events t g = op_events s g)"
proof (induction ids arbitrary: s entries)
  case (Cons g ids)
  from Cons.prems(2) obtain e u es where one: "reconcile_one oe now bootID live g s = (Inr e, u)"
    and rest: "io_map (reconcile_one oe now bootID live) ids u = (Inr es, t)" and entries: "entries = e # es"
    by (auto simp: io_run)
  from reconcile_one_effect [OF Cons.prems(1) one] Cons.prems(4)
  have eff: "op_events s g \<noteq> []" "ops_ok oe u" "op_events u = (op_events s)(g := boot_events oe now bootID live (op_events s g))"
    "e = boot_entry oe now bootID live (op_events s g)" by auto
  have "map (\<lambda>h. boot_entry oe now bootID live (op_events u h)) ids = map (\<lambda>h. boot_entry oe now bootID live (op_events s h)) ids"
    using Cons.prems(3) eff(3) by (intro map_cong) auto
  with Cons.IH [OF eff(2) rest] Cons.prems(3,4) eff entries show ?case by auto
qed (auto simp: io_run)

lemma res_map_ok: "(\<And>x. x \<in> set xs \<Longrightarrow> f x = Inr x) \<Longrightarrow> res_map f xs = Inr xs"
  by (induction xs) (auto simp: res_bind_def)

lemma operation_ids:
  assumes "ops_ok oe s"
  shows "Store_OperationIDs s = Inr (if os_root s then sort (map fst (os_dirs s)) else [])"
proof -
  have "operation_id_of g = Inr g" if "g \<in> fst ` set (os_dirs s)" for g
  proof -
    from that have "op_at s g \<noteq> None" by (auto simp: op_at_def map_of_eq_None_iff)
    from ops_ok_dir [OF assms this] show ?thesis by (simp add: operation_id_of_def operationDir_def)
  qed
  then have "res_map operation_id_of (sort (map fst (os_dirs s))) = Inr (sort (map fst (os_dirs s)))"
    by (intro res_map_ok) auto
  then show ?thesis by (simp add: Store_OperationIDs_def res_bind_def sorted_sort_id)
qed

definition listed :: "op_store \<Rightarrow> string list" where
  "listed s = (if os_root s then sort (map fst (os_dirs s)) else [])"

lemma listed_ok:
  assumes "ops_ok oe s"
  shows "distinct (listed s)" "\<And>g. g \<in> set (listed s) \<Longrightarrow> operationDir g = Inr g"
  using assms ops_ok_dir [OF assms] by (auto simp: listed_def ops_ok_def op_at_def map_of_eq_None_iff)

lemma ReconcileBoot_effect:
  assumes "ops_ok oe s" "Store_ReconcileBoot oe now0 bootID live s = (Inr report, t)"
  defines "now \<equiv> (if now0 = 0 then oe_now oe else now0)"
  shows "ops_ok oe t" "rp_Operations report = map (\<lambda>g. boot_entry oe now (TrimSpace bootID) live (op_events s g)) (listed s)"
    "g \<in> set (listed s) \<Longrightarrow> op_events s g \<noteq> [] \<and> op_events t g = boot_events oe now (TrimSpace bootID) live (op_events s g)"
    "g \<notin> set (listed s) \<Longrightarrow> op_events t g = op_events s g"
proof -
  from assms(2) obtain entries where
    "io_map (reconcile_one oe now (TrimSpace bootID) live) (listed s) s = (Inr entries, t)" "rp_Operations report = entries"
    by (auto simp: Store_ReconcileBoot_def Let_def io_run operation_ids [OF assms(1)] now_def listed_def)
  then show "ops_ok oe t" "rp_Operations report = map (\<lambda>g. boot_entry oe now (TrimSpace bootID) live (op_events s g)) (listed s)"
    "g \<in> set (listed s) \<Longrightarrow> op_events s g \<noteq> [] \<and> op_events t g = boot_events oe now (TrimSpace bootID) live (op_events s g)"
    "g \<notin> set (listed s) \<Longrightarrow> op_events t g = op_events s g"
    using reconcile_all_effect [OF assms(1) _ listed_ok(1) [OF assms(1)]] listed_ok(2) [OF assms(1)] by auto
qed

text \<open>What the new record says, by the state the operation was left in.\<close>

lemma stamp_next_kept [simp]:
  "or_Terminal (stamp_next oe a b) = or_Terminal b" "or_Interruption (stamp_next oe a b) = or_Interruption b"
  "or_RecoveryRequired (stamp_next oe a b) = or_RecoveryRequired b" "or_Result (stamp_next oe a b) = or_Result b"
  by (simp_all add: stamp_next_def)

lemma boot_record_interruption: "or_Interruption (boot_record oe now a) = ClassifyStale a"
  by (simp add: boot_record_def reconciled_def Let_def)

lemma boot_record_mutated:
  assumes "\<not> or_Terminal a" "mutation_evidence a \<or> mutatingPhase (or_Phase a)"
  shows "or_RecoveryRequired (boot_record oe now a) \<and> \<not> or_Terminal (boot_record oe now a) \<and>
    or_Result (boot_record oe now a) = ResultFailedNeedsRepair"
proof -
  have "ClassifyStale a = StalePostMutation" using assms by (auto simp: ClassifyStale_def)
  with assms(1) show ?thesis by (simp add: boot_record_def reconciled_def Let_def)
qed

lemma boot_record_completed:
  assumes "\<not> or_Terminal a" "or_Terminal (boot_record oe now a)"
  shows "canCompleteHostBookkeeping a \<and> \<not> mutation_evidence a \<and> ClassifyStale a = StaleHostOnly"
proof -
  from assms have "canCompleteHostBookkeeping a \<and> ClassifyStale a = StaleHostOnly"
    by (simp add: boot_record_def reconciled_def Let_def canCompleteHostBookkeeping_def split: if_splits)
  then show ?thesis by (auto simp: canCompleteHostBookkeeping_def mutation_evidence_def)
qed

section \<open>Calls succeed on a disk without faults\<close>

lemma faults_upd [simp]: "os_faults (upd_op g f s) = os_faults s" "os_faults (make_op_dir g s) = os_faults s"
  by (simp_all add: upd_op_def make_op_dir_def split: option.splits)

lemma writeSnapshot_succeeds:
  assumes "os_faults s = []" "es \<noteq> []"
  shows "\<exists>t. writeSnapshot oe g es s = (Inr (), t) \<and> os_faults t = []"
  using assms by (simp add: writeSnapshot_def io_then_def io_bind_def io_reject_code io_wrap_def opcall_success)

lemma Read_succeeds:
  assumes "ops_ok oe s" "os_faults s = []" "operationDir operationID = Inr g" "op_events s g \<noteq> []"
  shows "\<exists>t. Store_Read oe operationID s = (Inr (je_Record (last (op_events s g))), t) \<and> os_faults t = []"
proof -
  obtain files where "journal_at s g = Some files" using assms(4) by (cases "journal_at s g") (auto simp: op_events_def)
  then have j: "readJournal oe (journal_at s g) = Inr (op_events s g)" using ops_ok_journal(2) [OF assms(1)] by simp
  show ?thesis
  proof (cases "readSnapshot oe (record_at s g) (op_events s g)")
    case (Inl x)
    obtain t where "writeSnapshot oe g (op_events s g) s = (Inr (), t)" "os_faults t = []"
      using writeSnapshot_succeeds [OF assms(2,4)] by blast
    with Inl j assms(3,4) show ?thesis
      by (simp add: Store_Read_def io_bind_def io_lift_def io_get_def io_ok_def io_then_def)
  next
    case (Inr sn)
    with j assms readSnapshot_latest [OF Inr] show ?thesis
      by (simp add: Store_Read_def io_bind_def io_lift_def io_get_def io_ok_def)
  qed
qed

lemma writeEventAndSnapshot_succeeds:
  assumes "ops_ok oe s" "os_faults s = []" "op_events s g \<noteq> []" "ValidateEvent oe e = None" "continues (op_events s g) e"
  shows "\<exists>t. writeEventAndSnapshot oe g e s = (Inr (), t) \<and> os_faults t = []"
proof -
  let ?es = "op_events s g" let ?m = "upd_op g make_journal s" let ?u = "upd_op g (add_event_file e) ?m"
  obtain files where jf: "journal_at s g = Some files" using assms(3) by (cases "journal_at s g") (auto simp: op_events_def)
  then obtain d where d: "op_at s g = Some d" "od_journal d = Some files" by (auto simp: journal_at_def split: option.splits)
  have files: "files = journal_files ?es" using ops_ok_journal(1) [OF assms(1) jf] .
  have c: "chain oe (?es @ [e])" using ops_ok_chain [OF assms(1)] assms(4,5) by (rule chain_snoc)
  then have new: "event_name e \<notin> fst ` set files"
    using chain_distinct_names [OF c] by (subst files) (auto simp: journal_files_def)
  have jm: "journal_at ?m g = Some files" using d by (simp add: journal_at_def op_at_upd make_journal_def)
  then have w: "write_event g e s = (Inr (), ?u)"
    using new assms(2) by (simp add: write_event_def io_then_def io_bind_def io_get_def opcall_success)
  have "journal_at ?u g = Some (journal_files (?es @ [e]))"
    using jm files d by (simp add: journal_at_add op_at_upd) (simp add: journal_files_def)
  then have j: "readJournal oe (journal_at ?u g) = Inr (?es @ [e])" using readJournal_files [OF c] by simp
  obtain t where "writeSnapshot oe g (?es @ [e]) ?u = (Inr (), t)" "os_faults t = []"
    using writeSnapshot_succeeds [of ?u "?es @ [e]" oe g] assms(2) by auto
  with w j assms(4) show ?thesis
    by (simp add: writeEventAndSnapshot_def io_then_def io_bind_def io_need_def io_wrap_def io_get_def io_lift_def)
qed

lemma Update_succeeds:
  assumes "ops_ok oe s" "os_faults s = []" "operationDir operationID = Inr g" "op_events s g \<noteq> []"
    and "mutate (je_Record (last (op_events s g))) = Inr next0"
    and "ValidateTransition (je_Record (last (op_events s g))) next0 = None"
    and "ValidateEvent oe (update_event eventID eventType (stamp_next oe (je_Record (last (op_events s g))) next0)) = None"
  shows "\<exists>r t. Store_Update oe operationID eventID eventType mutate s = (Inr r, t) \<and> os_faults t = []"
proof -
  let ?a = "je_Record (last (op_events s g))" let ?n = "stamp_next oe ?a next0" let ?e = "update_event eventID eventType ?n"
  obtain v where rd: "Store_Read oe operationID s = (Inr ?a, v)" "os_faults v = []"
    using Read_succeeds [OF assms(1-4)] by blast
  have c: "calm s v" using io_relD [OF calm_Read rd(1)] .
  have ev: "op_events v g = op_events s g" and okv: "ops_ok oe v"
    using calm_journal(2) [OF c] ops_ok_calm [OF assms(1) c] by auto
  have "continues (op_events s g) ?e"
    using update_continues [OF ops_ok_chain [OF assms(1)] assms(4,6) refl] .
  then obtain t where w: "writeEventAndSnapshot oe g ?e v = (Inr (), t)" "os_faults t = []"
    using writeEventAndSnapshot_succeeds [OF okv rd(2), of g ?e] ev assms(4,7) by auto
  have "opValidateRecord oe ?n = None" using ValidateEvent_record [OF assms(7)] by simp
  with w assms(6) have commit: "update_commit oe g eventID eventType ?a next0 v = (Inr ?n, t)"
    by (simp add: update_commit_def Let_def io_then_def io_bind_def io_need_def io_ok_def)
  obtain d where "op_at s g = Some d" using assms(4) by (cases "op_at s g") (auto simp: op_events_def journal_at_def)
  with rd commit w(2) assms(2,3,5) show ?thesis
    by (simp add: Store_Update_def withOperationLock_def io_then_def io_bind_def io_get_def io_lift_def io_wrap_def opcall_success)
qed

section \<open>The reconciliation succeeds\<close>

lemma steps_refl [simp]:
  "host_upgrade_step v v" "bootstrap_step w w" "sysext_step x x" "control_plane_step y y"
  by (simp_all add: host_upgrade_step_def bootstrap_step_def sysext_step_def control_plane_step_def
      resolvedDigestTransitionAllowed_def size_resolved_def list_all2_refl)

lemma both_or_none_refl: "(\<And>x. f x x) \<Longrightarrow> both_or_none f a a"
  by (simp add: both_or_none_def split: option.splits)

lemma opHasPrefix_refl [simp]: "opHasPrefix xs xs"
  by (simp add: opHasPrefix_def)

lemma evidence_kept_refl [simp]: "evidence_kept a a"
  by (simp add: evidence_kept_def split: option.splits)

text \<open>An update that leaves what the transition check looks at unchanged is accepted.\<close>

definition same_request :: "OperationRecord \<Rightarrow> OperationRecord \<Rightarrow> bool" where
  "same_request a b \<longleftrightarrow>
     b = a\<lparr>or_Interruption := or_Interruption b, or_UpdatedAt := or_UpdatedAt b, or_RecoveryRequired := or_RecoveryRequired b,
           or_Result := or_Result b, or_NextAction := or_NextAction b, or_Terminal := or_Terminal b,
           or_CompletedAt := or_CompletedAt b\<rparr>"

lemma same_request_transition:
  assumes "same_request a b" "\<not> or_Terminal a"
  shows "ValidateTransition a b = None"
proof -
  obtain b' where b: "b = b'" "b' = a\<lparr>or_Interruption := or_Interruption b, or_UpdatedAt := or_UpdatedAt b,
      or_RecoveryRequired := or_RecoveryRequired b, or_Result := or_Result b, or_NextAction := or_NextAction b,
      or_Terminal := or_Terminal b, or_CompletedAt := or_CompletedAt b\<rparr>" using assms(1) by (simp add: same_request_def)
  have "\<not> late_readiness a b'" unfolding b(2) by (simp add: late_readiness_def split: option.splits)
  then have "ValidateTransition a b' = None" using assms(2) unfolding ValidateTransition_def
    by (simp add: b(2) bootstrapRequestTransitionAllowed_def both_or_none_refl
        kubernetesSysextUpdateTransitionAllowed_def kubeadmControlPlaneConfigTransitionAllowed_def hostUpgradeTransitionAllowed_def)
  then show ?thesis by (simp only: b(1))
qed

lemma same_request_if: "same_request a x \<Longrightarrow> same_request a y \<Longrightarrow> same_request a (if c then x else y)"
  by simp

lemma reconciled_same: "same_request a (reconciled now class a)"
  unfolding reconciled_def Let_def by (intro same_request_if; simp add: same_request_def)

lemma request_bodies_frame:
  "request_bodies_check oe (a\<lparr>or_Interruption := i, or_UpdatedAt := u, or_RecoveryRequired := rr, or_Result := rs,
     or_NextAction := n, or_Terminal := tm, or_CompletedAt := ca, or_RecordRevision := rv, or_LatestJournalSeq := js\<rparr>) =
   request_bodies_check oe a"
  by (simp add: request_bodies_check_def validateRequestBodyConsistency_def)

lemma opValidateRecord_frame:
  assumes "opValidateRecord oe a = None" "u \<noteq> 0" "1 \<le> rv" "1 \<le> js" "tm \<longrightarrow> given rs \<and> ca \<noteq> None"
  shows "opValidateRecord oe (a\<lparr>or_Interruption := i, or_UpdatedAt := u, or_RecoveryRequired := rr, or_Result := rs,
     or_NextAction := n, or_Terminal := tm, or_CompletedAt := ca, or_RecordRevision := rv, or_LatestJournalSeq := js\<rparr>) = None"
  using assms unfolding opValidateRecord_def by (simp add: request_bodies_frame)

definition next_time :: "op_env \<Rightarrow> OperationRecord \<Rightarrow> OperationRecord \<Rightarrow> time" where
  "next_time oe a b =
     (if or_UpdatedAt b = 0 \<or> \<not> or_UpdatedAt b > or_UpdatedAt a then oe_now oe else or_UpdatedAt b)"

lemma same_request_stamp:
  assumes "same_request a b"
  shows "stamp_next oe a b = a\<lparr>or_Interruption := or_Interruption b, or_UpdatedAt := next_time oe a b,
    or_RecoveryRequired := or_RecoveryRequired b, or_Result := or_Result b, or_NextAction := or_NextAction b,
    or_Terminal := or_Terminal b, or_CompletedAt := or_CompletedAt b,
    or_RecordRevision := inc64 (or_RecordRevision a), or_LatestJournalSeq := inc64 (or_LatestJournalSeq a)\<rparr>"
proof -
  have "stamp_next oe a b = b\<lparr>or_RecordRevision := inc64 (or_RecordRevision a), or_LatestJournalSeq := inc64 (or_LatestJournalSeq a),
      or_UpdatedAt := next_time oe a b\<rparr>" by (simp add: stamp_next_def next_time_def)
  also have "\<dots> = (a\<lparr>or_Interruption := or_Interruption b, or_UpdatedAt := or_UpdatedAt b, or_RecoveryRequired := or_RecoveryRequired b,
           or_Result := or_Result b, or_NextAction := or_NextAction b, or_Terminal := or_Terminal b,
           or_CompletedAt := or_CompletedAt b\<rparr>)\<lparr>or_RecordRevision := inc64 (or_RecordRevision a),
           or_LatestJournalSeq := inc64 (or_LatestJournalSeq a), or_UpdatedAt := next_time oe a b\<rparr>"
    by (subst (1) assms [unfolded same_request_def]) (rule refl)
  also have "\<dots> = a\<lparr>or_Interruption := or_Interruption b, or_UpdatedAt := next_time oe a b,
    or_RecoveryRequired := or_RecoveryRequired b, or_Result := or_Result b, or_NextAction := or_NextAction b,
    or_Terminal := or_Terminal b, or_CompletedAt := or_CompletedAt b,
    or_RecordRevision := inc64 (or_RecordRevision a), or_LatestJournalSeq := inc64 (or_LatestJournalSeq a)\<rparr>" by simp
  finally show ?thesis .
qed

lemma inc64_room: "1 \<le> n \<Longrightarrow> n < 2 ^ 63 - 1 \<Longrightarrow> 1 \<le> inc64 n"
  by (simp add: inc64_def)

definition room :: "OperationRecord \<Rightarrow> bool" where
  "room a \<longleftrightarrow> or_RecordRevision a < 2 ^ 63 - 1 \<and> or_LatestJournalSeq a < 2 ^ 63 - 1"

lemma boot_record_valid:
  assumes "opValidateRecord oe a = None" "\<not> or_Terminal a" "room a" "oe_now oe \<noteq> 0"
  shows "opValidateRecord oe (boot_record oe now a) = None"
proof -
  let ?b = "reconciled now (ClassifyStale a) a"
  have "or_Terminal ?b \<longrightarrow> given (or_Result ?b) \<and> or_CompletedAt ?b \<noteq> None"
    using assms(2) by (simp add: reconciled_def Let_def given_def ResultSucceeded_def) code_simp
  then show ?thesis
    unfolding boot_record_def same_request_stamp [OF reconciled_same]
    using assms opValidateRecord_counters [OF assms(1)]
    by (intro opValidateRecord_frame) (simp_all add: inc64_room room_def next_time_def)
qed

lemma stale_classes:
  "ClassifyStale a \<in> {StaleTerminal, StalePostMutation, StaleHostOnly, StaleAmbiguous, StalePreMutation}"
  by (simp add: ClassifyStale_def)

lemma boot_event_ids:
  "\<forall>c \<in> {StaleTerminal, StalePostMutation, StaleHostOnly, StaleAmbiguous, StalePreMutation}.
     error_of (opCleanSegment ''event id'' (cleanEventID (''boot-reconcile-'' @ c) ''boot-reconcile'')) = None"
  by code_simp

lemma boot_event_type: "given (TrimSpace ''boot-reconcile'')"
  by code_simp

lemma boot_event_valid:
  assumes "opValidateRecord oe a = None" "\<not> or_Terminal a" "room a" "oe_now oe \<noteq> 0"
  shows "ValidateEvent oe (boot_event oe now a) = None"
proof -
  have id: "error_of (opCleanSegment ''event id'' (cleanEventID (''boot-reconcile-'' @ ClassifyStale a) ''boot-reconcile'')) = None"
    using boot_event_ids stale_classes by blast
  have "1 \<le> or_LatestJournalSeq (boot_record oe now a)"
    using opValidateRecord_counters [OF boot_record_valid [OF assms]] by blast
  moreover have "or_UpdatedAt (boot_record oe now a) \<noteq> 0"
    using boot_record_valid [OF assms, of now] by (simp add: opValidateRecord_def)
  ultimately show ?thesis
    using boot_record_valid [OF assms, of now] id boot_event_type
    by (simp add: ValidateEvent_def boot_event_def update_event_def)
qed

lemma reconcile_one_succeeds:
  assumes "ops_ok oe s" "os_faults s = []" "operationDir g = Inr g" "op_events s g \<noteq> []"
    "room (je_Record (last (op_events s g)))" "oe_now oe \<noteq> 0"
  shows "\<exists>entry t. reconcile_one oe now bootID live g s = (Inr entry, t) \<and> os_faults t = []"
proof -
  let ?a = "je_Record (last (op_events s g))"
  obtain v where rd: "Store_Read oe g s = (Inr ?a, v)" "os_faults v = []" using Read_succeeds [OF assms(1-4)] by blast
  show ?thesis
  proof (cases "left_running bootID live ?a")
    case False
    with rd show ?thesis
      by (auto simp: reconcile_one_def io_wrap_def io_bind_def io_ok_def left_running_def ClassifyStale_terminal)
  next
    case True
    have c: "calm s v" using io_relD [OF calm_Read rd(1)] .
    have ev: "op_events v g = op_events s g" and okv: "ops_ok oe v"
      using calm_journal(2) [OF c] ops_ok_calm [OF assms(1) c] by auto
    have nt: "\<not> or_Terminal ?a" using True by (simp add: left_running_def)
    have "opValidateRecord oe ?a = None"
      using ValidateEvent_record [OF chain_member_valid [OF ops_ok_chain [OF assms(1)] last_in_set [OF assms(4)]]] .
    note valid = boot_event_valid [OF this nt assms(5,6), of now, unfolded boot_event_def boot_record_def]
    have id: "or_OperationID ?a = g" using ops_ok_owner [OF assms(1)] assms(4) by simp
    obtain r t where "reconcileStaleRecord oe ?a (ClassifyStale ?a) now v = (Inr r, t)" "os_faults t = []"
      using Update_succeeds [OF okv rd(2) assms(3), of "\<lambda>next. Inr (reconciled now (ClassifyStale ?a) next)"
          "reconciled now (ClassifyStale ?a) ?a" "''boot-reconcile-'' @ ClassifyStale ?a" "''boot-reconcile''"]
        ev assms(4) same_request_transition [OF reconciled_same nt] valid
      unfolding reconcileStaleRecord_def id by auto
    with rd True show ?thesis
      by (auto simp: reconcile_one_def io_wrap_def io_bind_def io_ok_def left_running_def ClassifyStale_terminal)
  qed
qed

lemma reconcile_all_succeeds:
  "ops_ok oe s \<Longrightarrow> os_faults s = [] \<Longrightarrow> oe_now oe \<noteq> 0 \<Longrightarrow> distinct ids \<Longrightarrow>
   (\<forall>g \<in> set ids. operationDir g = Inr g \<and> op_events s g \<noteq> [] \<and> room (je_Record (last (op_events s g)))) \<Longrightarrow>
   \<exists>entries t. io_map (reconcile_one oe now bootID live) ids s = (Inr entries, t)"
proof (induction ids arbitrary: s)
  case (Cons g ids)
  obtain entry u where one: "reconcile_one oe now bootID live g s = (Inr entry, u)" "os_faults u = []"
    using reconcile_one_succeeds [OF Cons.prems(1,2)] Cons.prems(3,5) by fastforce
  from reconcile_one_effect [OF Cons.prems(1) one(1)] Cons.prems(5)
  have u: "ops_ok oe u" "op_events u = (op_events s)(g := boot_events oe now bootID live (op_events s g))" by auto
  have "\<forall>h \<in> set ids. operationDir h = Inr h \<and> op_events u h \<noteq> [] \<and> room (je_Record (last (op_events u h)))"
    using Cons.prems(4,5) u(2) by auto
  from Cons.IH [OF u(1) one(2) Cons.prems(3) _ this] Cons.prems(4) one(1) show ?case
    by (auto simp: io_bind_def io_ok_def)
qed (simp add: io_ok_def)

lemma ReconcileBoot_succeeds:
  assumes "ops_ok oe s" "os_faults s = []" "oe_now oe \<noteq> 0"
    "\<forall>g. op_at s g \<noteq> None \<longrightarrow> op_events s g \<noteq> [] \<and> room (je_Record (last (op_events s g)))"
  shows "\<exists>report t. Store_ReconcileBoot oe now bootID live s = (Inr report, t)"
proof -
  let ?now = "if now = 0 then oe_now oe else now"
  have "\<forall>g \<in> set (listed s). operationDir g = Inr g \<and> op_events s g \<noteq> [] \<and> room (je_Record (last (op_events s g)))"
    using assms(4) listed_ok(2) [OF assms(1)] by (auto simp: listed_def op_at_def map_of_eq_None_iff split: if_splits)
  from reconcile_all_succeeds [OF assms(1-3) listed_ok(1) [OF assms(1)] this]
  obtain entries t where "io_map (reconcile_one oe ?now (TrimSpace bootID) live) (listed s) s = (Inr entries, t)" by blast
  then show ?thesis
    using operation_ids [OF assms(1)]
    by (simp add: Store_ReconcileBoot_def Let_def io_bind_def io_get_def io_lift_def io_ok_def listed_def)
qed

section \<open>Interrupted creation\<close>

text \<open>A directory without events, as a creation that was interrupted leaves it, blocks the store as a whole.\<close>

lemma eventless_blocks:
  assumes "ops_ok oe s" "os_root s" "op_at s g \<noteq> None" "op_events s g = []"
  shows "\<exists>e t. Store_ReconcileBoot oe now bootID live s = (Inl e, t)" "\<exists>e t. Store_List oe s = (Inl e, t)"
proof -
  have g: "g \<in> set (listed s)" using assms(2,3) by (auto simp: listed_def op_at_def map_of_eq_None_iff)
  show "\<exists>e t. Store_ReconcileBoot oe now bootID live s = (Inl e, t)"
  proof (cases "Store_ReconcileBoot oe now bootID live s")
    case (Pair r t)
    with ReconcileBoot_effect(3) [OF assms(1) _ g] assms(4) show ?thesis by (cases r) auto
  qed
  have "\<exists>e t. io_map (\<lambda>name. io_wrap ''read operation %q: %w'' [name] (Store_Read oe name)) ns s = (Inl e, t)"
    if "g \<in> set ns" "ops_ok oe s" "op_events s g = []" for ns s
    using that
  proof (induction ns arbitrary: s)
    case (Cons n ns)
    obtain r u where rd: "Store_Read oe n s = (r, u)" by fastforce
    show ?case
    proof (cases r)
      case (Inl x)
      with rd show ?thesis by (simp add: io_bind_def io_wrap_def)
    next
      case (Inr a)
      have "operationDir g = Inr g" using ops_ok_dir [OF assms(1,3)] .
      then have "n \<noteq> g" using Read_events [OF Cons.prems(2) rd [unfolded Inr]] Cons.prems(3) by fastforce
      moreover have c: "calm s u" using io_relD [OF calm_Read rd] .
      ultimately obtain e t where
        "io_map (\<lambda>name. io_wrap ''read operation %q: %w'' [name] (Store_Read oe name)) ns u = (Inl e, t)"
        using Cons.IH [of u] Cons.prems ops_ok_calm [OF Cons.prems(2) c] calm_journal(2) [OF c] by fastforce
      with rd Inr show ?thesis by (simp add: io_bind_def io_wrap_def)
    qed
  qed simp
  from this [OF _ assms(1,4), of "listed s"] g show "\<exists>e t. Store_List oe s = (Inl e, t)"
    using assms(2) by (auto simp: Store_List_def io_bind_def io_get_def listed_def split: prod.splits)
qed

section \<open>Statements about callers\<close>

text \<open>What a read has to return: the record of the last event the journal holds. The snapshot does not occur in it.\<close>

definition journal_record :: "op_env \<Rightarrow> string \<Rightarrow> op_store \<Rightarrow> OperationRecord res" where
  "journal_record oe operationID s =
     res_bind (operationDir operationID) (\<lambda>g.
     res_bind (readJournal oe (journal_at s g)) (\<lambda>es.
       if es = [] then fail ''operation %q has no valid journal events'' [operationID] else Inr (je_Record (last es))))"

lemma Read_journal_record:
  assumes "os_faults s = []"
  shows "fst (Store_Read oe operationID s) = journal_record oe operationID s"
proof (cases "operationDir operationID")
  case (Inr g)
  show ?thesis
  proof (cases "readJournal oe (journal_at s g)")
    case es: (Inr es)
    show ?thesis
    proof (cases "readSnapshot oe (record_at s g) es")
      case (Inl x)
      with writeSnapshot_succeeds [OF assms, of es oe g] Inr es show ?thesis
        by (auto simp: Store_Read_def journal_record_def res_bind_def io_bind_def io_lift_def io_get_def io_ok_def
            io_then_def io_fail_def io_err_def fail_def)
    next
      case sn: (Inr sn)
      with Inr es readSnapshot_latest [OF sn] show ?thesis
        by (auto simp: Store_Read_def journal_record_def res_bind_def io_bind_def io_lift_def io_get_def io_ok_def
            io_fail_def io_err_def fail_def)
    qed
  qed (use Inr in \<open>simp add: Store_Read_def journal_record_def res_bind_def io_bind_def io_lift_def io_get_def\<close>)
qed (simp add: Store_Read_def journal_record_def res_bind_def io_bind_def io_lift_def)

lemma Update_atomic:
  assumes "ops_ok oe s" "Store_Update oe operationID eventID eventType mutate s = (r, t)" "operationDir operationID = Inr g"
  shows "isl r \<and> op_events t = op_events s \<or>
    (\<exists>e. op_events t = (op_events s)(g := op_events s g @ [e]) \<and> ValidateEvent oe e = None \<and> continues (op_events s g) e \<and>
         (\<forall>n. r = Inr n \<longrightarrow> je_Record e = n \<and> Store_Read oe operationID t = (Inr n, t)))"
proof (rule disjE [OF Update_effect [OF assms(2)]])
  assume "(\<exists>x. r = Inl x) \<and> calm s t"
  then show ?thesis using calm_journal(2) [of s t] by auto
next
  assume "\<exists>g next. operationDir operationID = Inr g \<and> update_step oe eventID eventType mutate g next s t \<and>
              ((\<exists>x. r = Inl x) \<or> r = Inr next)"
  with assms(3) obtain "next" where st: "update_step oe eventID eventType mutate g next s t" "(\<exists>x. r = Inl x) \<or> r = Inr next"
    by auto
  let ?e = "update_event eventID eventType next"
  from st(1) obtain es next0 where u: "readJournal oe (journal_at s g) = Inr es" "es \<noteq> []"
    "ValidateTransition (je_Record (last es)) next0 = None" "next = stamp_next oe (je_Record (last es)) next0"
    "ValidateEvent oe ?e = None" "appended g ?e s t" by (auto simp: update_step_def)
  have es: "es = op_events s g" using ops_ok_events [OF assms(1) u(1)] .
  have "continues (op_events s g) ?e"
    using update_continues [OF ops_ok_chain [OF assms(1)]] u(2-4) unfolding es by blast
  moreover have "op_events t = (op_events s)(g := op_events s g @ [?e])" using appended_events [OF u(6)] by auto
  moreover have "Store_Read oe operationID t = (Inr n, t)" if "r = Inr n" for n
    using Update_acknowledged [OF assms(1) assms(2) [unfolded that]] by blast
  ultimately show ?thesis using u(5) st(2) by (intro disjI2 exI [of _ ?e]) auto
qed

lemma ReconcileBoot_outcome:
  assumes "ops_ok oe s" "Store_ReconcileBoot oe now bootID live s = (Inr report, t)" "g \<in> set (listed s)"
  defines "a \<equiv> je_Record (last (op_events s g))" and "b \<equiv> je_Record (last (op_events t g))"
  shows "(if left_running (TrimSpace bootID) live a
          then (\<exists>e. op_events t g = op_events s g @ [e]) \<and> or_Interruption b = ClassifyStale a \<and>
               (mutation_evidence a \<longrightarrow> or_RecoveryRequired b \<and> \<not> or_Terminal b \<and> or_Result b = ResultFailedNeedsRepair) \<and>
               (or_Terminal b \<longrightarrow> canCompleteHostBookkeeping a)
          else op_events t g = op_events s g)"
proof (cases "left_running (TrimSpace bootID) live a")
  case True
  let ?now = "if now = 0 then oe_now oe else now"
  from ReconcileBoot_effect(3) [OF assms(1,2,3)] True
  have t: "op_events t g = op_events s g @ [boot_event oe ?now a]" by (simp add: boot_events_def a_def Let_def)
  then have b: "b = boot_record oe ?now a" by (simp add: b_def boot_event_def)
  have nt: "\<not> or_Terminal a" using True by (simp add: left_running_def)
  show ?thesis
    using True t boot_record_interruption boot_record_mutated [OF nt] boot_record_completed [OF nt] unfolding b by auto
next
  case False
  with ReconcileBoot_effect(3) [OF assms(1,2,3)] show ?thesis by (simp add: boot_events_def a_def Let_def)
qed

end
