(* ===== verification/OperationFixtures.thy ===== *)
theory OperationFixtures
  imports OperationReconcile
begin

text \<open>
  A concrete operation store for the properties of the operation store: a record, an environment and evaluated runs.
\<close>

definition demo_op_env :: op_env where
  "demo_op_env = \<lparr>oe_now = 50, oe_url = (\<lambda>_. None), oe_rfc3339 = (\<lambda>_. True), oe_sha256 = (\<lambda>_. []),
     oe_journal_digest = (\<lambda>es. concat (map je_EventID es))\<rparr>"

definition demo_operation :: OperationRecord where
  "demo_operation = \<lparr>
    or_APIVersion = [], or_Kind = [], or_SchemaVersion = 0, or_OperationID = ''op1'',
    or_OperationKind = ''host-upgrade-check'', or_Scope = ''host-generation'', or_ParentOperationID = [],
    or_ClientRequestID = [], or_Actor = [], or_ExpectedMachineID = [], or_ExpectedCurrentGenerationID = [],
    or_ExpectedClusterIntentDigest = [], or_RequestDigest = ''d'', or_RecordRevision = 0,
    or_LatestJournalSeq = 0, or_PhasePlan = [], or_PreviousGenerationID = [], or_CandidateGenerationID = [],
    or_ConfigApplyPhase = [], or_ChangedDomains = [], or_BootstrapRequest = None,
    or_ConfigApplyRequest = None, or_KubeadmControlPlaneConfig = None, or_KubernetesSysextUpdate = None,
    or_KubeadmUpgradeEvidence = None, or_DestructiveResetRequest = None, or_HostUpgradeRequest = None,
    or_EtcdMemberRemoveRequest = None, or_ActivationMode = [], or_ActivationState = [],
    or_GenerationCommitState = [], or_PostKubeadmHealthState = [], or_BootHealthPending = False,
    or_Phase = [], or_PhaseIndex = 0, or_CompletedPhases = [], or_Terminal = False, or_ResourceLocks = [],
    or_ExecutorPlan = None, or_Invocations = [], or_ExternalMutationStarted = False,
    or_PreExecMutationMarkers = [], or_MutationScopes = [], or_MutatingToolRan = False,
    or_MutatingToolInvocations = [], or_DiagnosticArtifacts = [], or_HostRollback = [],
    or_PostMutationRollbackAllowed = False, or_RecoveryRequired = False, or_RetryHint = [],
    or_Interruption = [], or_Resume = [], or_NextAction = [], or_Result = [], or_CreatedAt = 0,
    or_UpdatedAt = 0, or_CompletedAt = None, or_FailureReason = []\<rparr>"

definition empty_ops :: op_store where
  "empty_ops = \<lparr>os_root = False, os_dirs = [], os_faults = []\<rparr>"

definition demo_marker :: PreExecMutationMarker where
  "demo_marker = \<lparr>pm_MarkerID = ''m1'', pm_InvocationID = [], pm_Phase = [], pm_Tool = ''kubeadm'', pm_ArgvDigest = ''a1'',
     pm_ExpectedMutationScopes = [''etcd''], pm_MarkedAt = 20\<rparr>"

definition created_ops :: op_store where
  "created_ops = snd (Store_Create demo_op_env demo_operation ''start'' 10 empty_ops)"

definition marked_ops :: op_store where
  "marked_ops = snd (Store_AddPreExecMutationMarker demo_op_env ''op1'' demo_marker created_ops)"

definition booted_ops :: op_store where
  "booted_ops = snd (Store_ReconcileBoot demo_op_env 60 ''boot2'' None marked_ops)"

definition torn_ops :: op_store where
  "torn_ops = snd (Store_Create demo_op_env demo_operation ''start'' 10 (empty_ops\<lparr>os_faults := [IoOk, IoOk, IoFailBefore ''EIO'']\<rparr>))"

lemma create_run: "fst (Store_Create demo_op_env demo_operation ''start'' 10 empty_ops) = Inr (new_record demo_operation 10)"
  by code_simp

lemma marker_run: "isl (fst (Store_AddPreExecMutationMarker demo_op_env ''op1'' demo_marker created_ops)) = False"
  by code_simp

lemma boot_run: "isl (fst (Store_ReconcileBoot demo_op_env 60 ''boot2'' None marked_ops)) = False"
  by code_simp

lemma torn_run: "os_root torn_ops \<and> op_at torn_ops ''op1'' \<noteq> None \<and> op_events torn_ops ''op1'' = []"
  by code_simp

lemma run_success: "isl (fst p) = False \<Longrightarrow> \<exists>r. p = (Inr r, snd p)"
  by (cases p; cases "fst p") auto

lemma empty_ops_ok: "ops_ok oe empty_ops"
  by (simp add: ops_ok_def empty_ops_def op_at_def)

lemma created_pair:
  "Store_Create demo_op_env demo_operation ''start'' 10 empty_ops = (Inr (new_record demo_operation 10), created_ops)"
  unfolding created_ops_def by (rule run_outcome [OF create_run])

lemma created_id [simp]: "or_OperationID (new_record demo_operation 10) = ''op1''"
  by code_simp

lemma marked_pair:
  obtains r where "Store_AddPreExecMutationMarker demo_op_env ''op1'' demo_marker created_ops = (Inr r, marked_ops)"
  using run_success [OF marker_run] unfolding marked_ops_def by blast

lemma booted_pair:
  obtains r where "Store_ReconcileBoot demo_op_env 60 ''boot2'' None marked_ops = (Inr r, booted_ops)"
  using run_success [OF boot_run] unfolding booted_ops_def by blast

lemma created_ops_ok: "ops_ok demo_op_env created_ops"
  by (rule ops_ok_Create [OF empty_ops_ok created_pair])

lemma marked_ops_ok: "ops_ok demo_op_env marked_ops"
proof -
  obtain r where "Store_AddPreExecMutationMarker demo_op_env ''op1'' demo_marker created_ops = (Inr r, marked_ops)"
    by (rule marked_pair)
  from io_relD [OF advances_marker this] show ?thesis using created_ops_ok by (simp add: advances_def)
qed

lemma op1_dir: "operationDir ''op1'' = Inr ''op1''"
  by code_simp

lemma marked_state: "os_faults marked_ops = [] \<and> map fst (os_dirs marked_ops) = [''op1''] \<and> op_events marked_ops ''op1'' \<noteq> [] \<and>
    listed marked_ops = [''op1'']"
  by code_simp

lemma marked_record:
  "room (je_Record (last (op_events marked_ops ''op1''))) \<and> mutation_evidence (je_Record (last (op_events marked_ops ''op1''))) \<and>
   left_running (TrimSpace ''boot2'') None (je_Record (last (op_events marked_ops ''op1'')))"
  by code_simp

end
