(* ===== verification/AgentState.thy ===== *)
theory AgentState
  imports Lifecycle OperationReconcile
begin

text \<open>
  The node agent (\<^verbatim>\<open>internal/katlc/agent\<close>) works on two durable stores: the generations of the node and the
  operations. \<open>agent\<close> is the pair of them, and \<open>on_node\<close> and \<open>on_ops\<close> run an operation of one store on it. The locale
  \<open>agent_frame\<close> combines a frame condition of each store.

  \<open>agent_env\<close> holds what the agent takes from its surroundings: the parameters of the two stores, the root it runs
  on, the clock, the identifier of the current boot, whether a process answers a signal, the contents of files that
  are not records, the text of an error, new operation identifiers, the boot entry setters (absent when they are not
  configured) and the outcome of mounting the boot partition.
\<close>

section \<open>State and environment\<close>

record agent =
  ag_node :: node
  ag_ops :: op_store

record agent_env =
  ae_env :: env
  ae_op :: op_env
  ae_root :: string
  ae_now :: time
  ae_boot_id :: string
  ae_signal :: "int \<Rightarrow> bool"
  ae_read :: "string \<Rightarrow> string res"
  ae_text :: "err \<Rightarrow> string"
  ae_operation_id :: "string \<Rightarrow> time \<Rightarrow> string res"
  ae_format :: "time \<Rightarrow> string"
  ae_SetBootDefault :: "BootDefaultSetter option"
  ae_SetBootOneshot :: "BootDefaultSetter option"
  ae_MountBootRoot :: "error option"

definition on_node :: "(node, 'a) io \<Rightarrow> (agent, 'a) io" where
  "on_node m = (\<lambda>s. case m (ag_node s) of (r, n) \<Rightarrow> (r, s\<lparr>ag_node := n\<rparr>))"

definition on_ops :: "(op_store, 'a) io \<Rightarrow> (agent, 'a) io" where
  "on_ops m = (\<lambda>s. case m (ag_ops s) of (r, q) \<Rightarrow> (r, s\<lparr>ag_ops := q\<rparr>))"

lemma on_node_run: "on_node m s = (r, t) \<longleftrightarrow> (\<exists>n. m (ag_node s) = (r, n) \<and> t = s\<lparr>ag_node := n\<rparr>)"
  by (auto simp: on_node_def split: prod.splits)

lemma on_ops_run: "on_ops m s = (r, t) \<longleftrightarrow> (\<exists>q. m (ag_ops s) = (r, q) \<and> t = s\<lparr>ag_ops := q\<rparr>)"
  by (auto simp: on_ops_def split: prod.splits)

section \<open>Frames of the pair\<close>

definition agent_rel :: "(node \<Rightarrow> node \<Rightarrow> bool) \<Rightarrow> (op_store \<Rightarrow> op_store \<Rightarrow> bool) \<Rightarrow> agent \<Rightarrow> agent \<Rightarrow> bool" where
  "agent_rel RN RO s t \<longleftrightarrow> RN (ag_node s) (ag_node t) \<and> RO (ag_ops s) (ag_ops t)"

locale agent_frame = nodes: io_frame RN + ops: io_frame RO
  for RN :: "node \<Rightarrow> node \<Rightarrow> bool" and RO :: "op_store \<Rightarrow> op_store \<Rightarrow> bool"
begin

lemma on_node_rel: "io_rel RN m \<Longrightarrow> io_rel (agent_rel RN RO) (on_node m)"
  by (auto simp: io_rel_def agent_rel_def on_node_def ops.frame_refl split: prod.splits) (metis snd_conv)

lemma on_ops_rel: "io_rel RO m \<Longrightarrow> io_rel (agent_rel RN RO) (on_ops m)"
  by (auto simp: io_rel_def agent_rel_def on_ops_def nodes.frame_refl split: prod.splits) (metis snd_conv)

end

sublocale agent_frame \<subseteq> pair: io_frame "agent_rel RN RO"
  by unfold_locales (auto simp: agent_rel_def nodes.frame_refl ops.frame_refl intro: nodes.frame_trans ops.frame_trans)

end
