(* ===== verification/AgentExecutor.thy ===== *)
theory AgentExecutor
  imports AgentState
begin

text \<open>
  The steps of the agent's executor on the generations of the node (\<^verbatim>\<open>executor.go\<close>, \<^verbatim>\<open>generation_apply.go\<close>,
  \<^verbatim>\<open>generation_apply_recovery.go\<close>): writing the loader entry of a candidate, promoting a candidate that was activated
  live, arming the trial boot of a candidate and abandoning one. A file is known to the node by its path below the
  root; its content is not kept.
\<close>

section \<open>Paths\<close>

fun strip_common :: "'a list \<Rightarrow> 'a list \<Rightarrow> 'a list \<times> 'a list" where
  "strip_common (x # xs) (y # ys) = (if x = y then strip_common xs ys else (x # xs, y # ys))"
| "strip_common xs ys = (xs, ys)"

definition Rel :: "string \<Rightarrow> string \<Rightarrow> string res" where
  "Rel base target =
     (if Clean base = Clean target then Inr ''.''
      else if IsAbs base \<noteq> IsAbs target then fail ''Rel: can't make %s relative to %s'' [target, base]
      else let (up, down) = strip_common (comps base) (comps target)
           in if up \<noteq> [] \<and> hd up = ''..'' then fail ''Rel: can't make %s relative to %s'' [target, base]
              else Inr (Join (replicate (length up) ''..'' @ down) ''/''))"

definition runtimeRoot :: "string \<Rightarrow> string" where
  "runtimeRoot raw = (let root = TrimSpace raw in if root = [] then ''/'' else Clean root)"

definition bootRelativePath :: "string \<Rightarrow> string \<Rightarrow> string res" where
  "bootRelativePath bootRoot entry =
     (case Rel bootRoot entry of
        Inl e \<Rightarrow> Inl (Wrap ''make loader entry path boot-relative: %w'' [] e)
      | Inr rel \<Rightarrow> res_need (reject (HasPrefix rel ''..'' \<or> IsAbs rel) ''loader entry %s is outside boot root %s'' [entry, bootRoot])
                     (Inr rel))"

section \<open>The loader entry of a candidate\<close>

fun machine_id_from :: "agent_env \<Rightarrow> string list \<Rightarrow> string res" where
  "machine_id_from ae [] = fail ''machine identity is not initialized'' []"
| "machine_id_from ae (path # paths) =
     (case ae_read ae path of
        Inr data \<Rightarrow> if TrimSpace data \<noteq> [] then Inr (TrimSpace data) else machine_id_from ae paths
      | Inl e \<Rightarrow> if isErrNotExist e then machine_id_from ae paths else Inl e)"

definition runtimeMachineID :: "agent_env \<Rightarrow> string res" where
  "runtimeMachineID ae =
     machine_id_from ae
       [PathJoin [runtimeRoot (ae_root ae), ''var/lib/katl/identity/machine-id''],
        PathJoin [runtimeRoot (ae_root ae), ''etc/machine-id'']]"

fun isEROFS :: "err \<Rightarrow> bool" where
  "isEROFS (Errorf f as) = False"
| "isEROFS (Wrap f as e) = isEROFS e"
| "isEROFS OsNotExist = False"
| "isEROFS (OsError m) = (m = ''EROFS'')"
| "isEROFS (Joined es) = list_ex isEROFS es"

definition add_paths :: "string list \<Rightarrow> node \<Rightarrow> node" where
  "add_paths ps s = s\<lparr>nd_paths := nd_paths s @ filter (\<lambda>p. p \<notin> set (nd_paths s)) ps\<rparr>"

definition WriteEntry :: "agent_env \<Rightarrow> string \<Rightarrow> LoaderRequest \<Rightarrow> (node, string) io" where
  "WriteEntry ae bootRoot request =
     io_bind (io_lift (RenderEntry (ae_format ae) request)) (\<lambda>entry.
     io_then (io_wrap ''create loader entry directory: %w'' [] (syscall (add_paths [''/efi/loader'', LoaderEntriesDir])))
     (io_then (io_wrap ''write loader entry: %w'' [] (syscall (add_paths [PathJoin [LoaderEntriesDir, le_Name entry]])))
       (io_ok (PathJoin [bootRoot, ''loader'', ''entries'', le_Name entry]))))"

text \<open>A read-only boot partition is mounted for writing and the entry is written again.\<close>

definition write_entry_mounting :: "agent_env \<Rightarrow> string \<Rightarrow> LoaderRequest \<Rightarrow> (node, string) io" where
  "write_entry_mounting ae bootRoot request =
     io_bind (io_catch (WriteEntry ae bootRoot request)) (\<lambda>r.
     case r of
       Inr path \<Rightarrow> io_ok path
     | Inl e \<Rightarrow>
         if isEROFS e then
           (case ae_MountBootRoot ae of
              None \<Rightarrow> io_err (Wrap ''write candidate loader entry: %w'' [] e)
            | Some (Some m) \<Rightarrow> io_err (Wrap ''write candidate loader entry: %w; mount boot root: %v'' [ae_text ae m] e)
            | Some None \<Rightarrow> io_wrap ''write candidate loader entry: %w'' [] (WriteEntry ae bootRoot request))
         else io_err (Wrap ''write candidate loader entry: %w'' [] e))"

definition writeCandidateLoaderEntry ::
  "agent_env \<Rightarrow> string \<Rightarrow> (node, GenerationSpec \<times> GenerationStatus \<times> string) io" where
  "writeCandidateLoaderEntry ae candidate =
     io_bind (io_wrap ''read candidate generation: %w'' []
                (io_bind (io_get (ReadGeneration (ae_env ae) (ae_root ae) candidate)) io_lift)) (\<lambda>(spec, status).
     io_then (io_reject (st_CommitState status \<noteq> CommitStateCandidate)
                ''candidate generation %s commitState is %s, want candidate'' [candidate, st_CommitState status])
     (let entry = TrimSpace (bt_LoaderEntryPath (gs_Boot spec)); bootRoot = PathJoin [runtimeRoot (ae_root ae), ''efi''] in
      io_then (io_reject (entry = []) ''candidate generation %s loader entry path is required'' [candidate])
      (io_bind (io_lift (runtimeMachineID ae)) (\<lambda>machineID.
       io_bind (write_entry_mounting ae bootRoot
                  \<lparr>lr_Record = RecordFromSplit spec status, lr_MachineID = machineID, lr_Title = []\<rparr>) (\<lambda>path.
       io_bind (io_lift (bootRelativePath bootRoot path)) (\<lambda>relative.
       io_then (io_reject (relative \<noteq> entry)
                  ''candidate loader entry %s does not match generation metadata %s'' [relative, entry])
         (io_ok (spec, status, entry))))))))"

section \<open>Promotion and trial\<close>

definition configured :: "string \<Rightarrow> BootDefaultSetter option \<Rightarrow> BootDefaultSetter" where
  "configured message setter =
     (case setter of None \<Rightarrow> (\<lambda>root entry e. (Some (Errorf message []), e)) | Some f \<Rightarrow> f)"

text \<open>A continued bootstrap keeps the operation that committed the candidate as its owner.\<close>

definition promotion_id :: "OperationRecord \<Rightarrow> GenerationStatus \<Rightarrow> string" where
  "promotion_id r state =
     (case or_BootstrapRequest r of
        Some q \<Rightarrow> if st_CommitState state = CommitStateCommitted \<and> br_ResumeOperationID q \<noteq> []
                  then st_CommittedByOperation state else or_OperationID r
      | None \<Rightarrow> or_OperationID r)"

definition agent_promoteLiveGeneration :: "agent_env \<Rightarrow> OperationRecord \<Rightarrow> time \<Rightarrow> string \<Rightarrow> (node, unit) io" where
  "agent_promoteLiveGeneration ae r now reason =
     io_bind (io_bind (io_get (ReadGeneration (ae_env ae) (ae_root ae) (or_CandidateGenerationID r))) io_lift) (\<lambda>(_, state).
     io_then (io_when (st_CommitState state = CommitStateCandidate)
                (io_bind (writeCandidateLoaderEntry ae (or_CandidateGenerationID r)) (\<lambda>_. io_ok ())))
     (PromoteLiveGeneration (ae_env ae)
        \<lparr>lp_Root = ae_root ae, lp_GenerationID = or_CandidateGenerationID r, lp_OperationID = promotion_id r state,
         lp_Reason = reason, lp_Now = now,
         lp_SetBootDefault = Some (configured ''boot default updater is not configured'' (ae_SetBootDefault ae)),
         lp_SetBootOneshot = Some (configured ''boot one-shot updater is not configured'' (ae_SetBootOneshot ae))\<rparr>))"

definition armed_selection ::
  "BootSelectionRecord \<Rightarrow> string \<Rightarrow> string \<Rightarrow> string \<Rightarrow> time \<Rightarrow> BootSelectionRecord" where
  "armed_selection b candidate entry operationID now =
     b\<lparr>bs_OneShot := False, bs_TargetBootGenerationID := candidate, bs_TrialGenerationID := candidate,
       bs_PreviousKnownGoodGenerationID := bs_DefaultGenerationID b,
       bs_Generation0FallbackID :=
         (if TrimSpace (bs_Generation0FallbackID b) = [] then bs_DefaultGenerationID b
          else TrimSpace (bs_Generation0FallbackID b)),
       bs_TargetBootEntry := entry, bs_TrialBootEntry := entry, bs_PreviousKnownGoodBootEntry := bs_DefaultBootEntry b,
       bs_PendingTransactionID := operationID, bs_PendingHealthValidation := True,
       bs_PersistentDefaultPromotion := DefaultPromotionPending, bs_UpdatedAt := now\<rparr>"

definition trial_status :: "time \<Rightarrow> string \<Rightarrow> string \<Rightarrow> GenerationStatus \<Rightarrow> GenerationStatus" where
  "trial_status now operationID reason status =
     (let st = status\<lparr>st_CommitState := CommitStateCommitted, st_BootState := BootStateTrying,
                      st_HealthState := HealthStateUnknown, st_UpdatedAt := now, st_CommittedAt := Some now,
                      st_CommittedByOperation := operationID\<rparr>
      in st\<lparr>st_StatusTransitions := st_StatusTransitions st @ [transition_of now operationID reason st]\<rparr>)"

text \<open>After a failed step the previous boot selection is written back; the firmware is left as it is. An error that wraps two
  others is the join of both.\<close>

definition restore_selection :: "string \<Rightarrow> BootSelectionRecord \<Rightarrow> string \<Rightarrow> err \<Rightarrow> (node, 'a) io" where
  "restore_selection root previous what e =
     io_bind (io_catch (WriteBootSelection root previous)) (\<lambda>r.
     case r of
       Inl x \<Rightarrow> io_err (Joined [Wrap (what @ '': %w'') [] e, Wrap ''restore boot selection: %w'' [] x])
     | Inr _ \<Rightarrow> io_err (Wrap (what @ '': %w'') [] e))"

definition commitTrialGeneration :: "agent_env \<Rightarrow> OperationRecord \<Rightarrow> time \<Rightarrow> string \<Rightarrow> (node, unit) io" where
  "commitTrialGeneration ae r now reason =
     (let candidate = TrimSpace (or_CandidateGenerationID r); root = ae_root ae in
      io_then (io_reject (candidate = []) ''candidate generation id is required'' [])
      (io_bind (writeCandidateLoaderEntry ae candidate) (\<lambda>(spec, status, entry).
       io_bind (io_wrap ''read boot selection: %w'' [] (io_bind (io_get (ReadBootSelection root)) io_lift)) (\<lambda>previous.
       io_then (io_wrap ''arm boot health validation: %w'' []
                  (WriteBootSelection root (armed_selection previous candidate entry (or_OperationID r) now)))
       (io_bind (io_catch (case ae_SetBootOneshot ae of None \<Rightarrow> io_ok () | Some f \<Rightarrow> call_setter f root entry)) (\<lambda>r1.
        case r1 of
          Inl e \<Rightarrow> restore_selection root previous ''arm boot health validation'' e
        | Inr _ \<Rightarrow>
            io_bind (io_catch (WriteGenerationStatus (ae_env ae) root spec (trial_status now (or_OperationID r) reason status))) (\<lambda>r2.
            case r2 of
              Inl e \<Rightarrow> restore_selection root previous ''commit candidate generation'' e
            | Inr _ \<Rightarrow> io_ok ())))))))"

section \<open>Abandoning a candidate\<close>

definition abandoned_status :: "time \<Rightarrow> string \<Rightarrow> string \<Rightarrow> GenerationStatus \<Rightarrow> GenerationStatus" where
  "abandoned_status now operationID reason status =
     (let st = status\<lparr>st_CommitState := CommitStateAbandoned, st_BootState := BootStateFailed, st_UpdatedAt := now\<rparr>
      in st\<lparr>st_StatusTransitions := st_StatusTransitions st @ [transition_of now operationID reason st]\<rparr>)"

definition abandonCandidateGeneration ::
  "agent_env \<Rightarrow> string \<Rightarrow> string \<Rightarrow> string \<Rightarrow> time \<Rightarrow> (node, unit) io" where
  "abandonCandidateGeneration ae candidate operationID reason now =
     (if candidate = [] then io_ok ()
      else io_bind (io_get (ReadGeneration (ae_env ae) (ae_root ae) candidate)) (\<lambda>gr.
        case gr of
          Inl e \<Rightarrow> if isErrNotExist e then io_ok () else io_err e
        | Inr (spec, status) \<Rightarrow>
            if st_CommitState status = CommitStateAbandoned then io_ok ()
            else if st_CommitState status \<noteq> CommitStateCandidate
            then io_fail ''generation %s cannot be abandoned from commit state %s'' [candidate, st_CommitState status]
            else WriteGenerationStatus (ae_env ae) (ae_root ae) spec (abandoned_status now operationID reason status)))"

end
