(* ===== verification/AgentAdmission.thy ===== *)
theory AgentAdmission
  imports AgentState
begin

text \<open>
  Admission of operations by the agent (\<^verbatim>\<open>server.go\<close>, \<^verbatim>\<open>destructive_reset.go\<close>, \<^verbatim>\<open>etcd_member.go\<close>): an accepted
  operation names the resource locks of its kind, and a request is refused while an unfinished operation holds
  one of them. A request that repeats the identifier of an earlier one returns that operation. The requests modelled
  are the destructive reset and the removal of an etcd member, whose records hold nothing but the request; the mutex
  \<open>submitMu\<close> admits one request at a time. The two marks of a failed start belong here.
\<close>

section \<open>Kinds, scopes and locks\<close>

definition OperationKindDestructiveReset :: string where "OperationKindDestructiveReset = ''destructive-reset''"
definition OperationKindEtcdMemberRemove :: string where "OperationKindEtcdMemberRemove = ''etcd-member-remove''"

definition kubeadm_kinds :: "string list" where
  "kubeadm_kinds = [''bootstrap-init'', ''bootstrap-join-control-plane'', ''bootstrap-join-worker'', ''kubeadm-upgrade'',
     ''kubeadm-upgrade-prepare'', ''kubeadm-control-plane-config'']"

definition resourceLocks :: "string \<Rightarrow> string list" where
  "resourceLocks kind =
     (if kind \<in> set kubeadm_kinds then [''generation-state.lock'', ''kubeadm-state.lock'']
      else if kind = ''generation-apply'' \<or> kind = ''generation-stage'' then [''generation-state.lock'', ''config-apply.lock'']
      else if kind = OperationKindDestructiveReset
      then [''generation-state.lock'', ''kubeadm-state.lock'', ''destructive-reset.lock'']
      else if kind = ''host-upgrade'' \<or> kind = ''host-upgrade-v2'' \<or> kind = ''host-upgrade-handoff''
      then [''generation-state.lock'', ''sysupdate.lock'']
      else if kind = OperationKindEtcdMemberRemove then [''generation-state.lock'', ''etcd-state.lock'']
      else [])"

definition operationScope :: "string \<Rightarrow> string" where
  "operationScope kind =
     (if kind \<in> set kubeadm_kinds then ''kubeadm-state''
      else if kind = ''generation-apply'' \<or> kind = ''generation-stage'' then ''host-generation''
      else if kind = OperationKindDestructiveReset then ''destructive-reset''
      else if kind = ''host-upgrade'' \<or> kind = ''host-upgrade-v2'' \<or> kind = ''host-upgrade-handoff'' then ''host-generation''
      else if kind = OperationKindEtcdMemberRemove then ''etcd-state''
      else ''host-generation'')"

section \<open>Looking at the operations\<close>

text \<open>The identifiers of all operations, for a loop over them.\<close>

definition with_ids :: "(string list \<Rightarrow> (op_store, 'a) io) \<Rightarrow> (op_store, 'a) io" where
  "with_ids f = io_bind (io_get Store_OperationIDs) (\<lambda>r. io_bind (io_lift r) f)"

fun find_request :: "op_env \<Rightarrow> string \<Rightarrow> string list \<Rightarrow> (op_store, OperationRecord option) io" where
  "find_request oe cid [] = io_ok None"
| "find_request oe cid (ident # ids) =
     io_bind (Store_Read oe ident) (\<lambda>r.
       if or_ClientRequestID r = cid then io_ok (Some r) else find_request oe cid ids)"

definition findClientRequest :: "op_env \<Rightarrow> string \<Rightarrow> (op_store, OperationRecord option) io" where
  "findClientRequest oe raw =
     (let cid = TrimSpace raw in if cid = [] then io_ok None else with_ids (find_request oe cid))"

fun find_conflict :: "op_env \<Rightarrow> string list \<Rightarrow> string list \<Rightarrow> (op_store, string) io" where
  "find_conflict oe locks [] = io_ok []"
| "find_conflict oe locks (ident # ids) =
     io_bind (Store_Read oe ident) (\<lambda>r.
       if \<not> or_Terminal r \<and> list_ex (\<lambda>held. held \<in> set locks) (or_ResourceLocks r)
       then io_ok (or_OperationID r) else find_conflict oe locks ids)"

definition conflictingOperation :: "op_env \<Rightarrow> string list \<Rightarrow> (op_store, string) io" where
  "conflictingOperation oe locks = (if locks = [] then io_ok [] else with_ids (find_conflict oe locks))"

definition activeOperationIDs :: "op_env \<Rightarrow> (op_store, string list) io" where
  "activeOperationIDs oe =
     with_ids (\<lambda>ids. io_bind (io_map (Store_Read oe) ids) (\<lambda>records.
       io_ok (sort (map or_OperationID (filter (\<lambda>r. \<not> or_Terminal r \<and> or_ResourceLocks r \<noteq> []) records)))))"

section \<open>Accepting a request\<close>

text \<open>The zero value of an operation record, from which a composite literal starts.\<close>

definition zero_operation :: OperationRecord where
  "zero_operation = \<lparr>or_APIVersion = [], or_Kind = [], or_SchemaVersion = 0, or_OperationID = [], or_OperationKind = [],
    or_Scope = [], or_ParentOperationID = [], or_ClientRequestID = [], or_Actor = [], or_ExpectedMachineID = [],
    or_ExpectedCurrentGenerationID = [], or_ExpectedClusterIntentDigest = [], or_RequestDigest = [],
    or_RecordRevision = 0, or_LatestJournalSeq = 0, or_PhasePlan = [], or_PreviousGenerationID = [],
    or_CandidateGenerationID = [], or_ConfigApplyPhase = [], or_ChangedDomains = [], or_BootstrapRequest = None,
    or_ConfigApplyRequest = None, or_KubeadmControlPlaneConfig = None, or_KubernetesSysextUpdate = None,
    or_KubeadmUpgradeEvidence = None, or_DestructiveResetRequest = None, or_HostUpgradeRequest = None,
    or_EtcdMemberRemoveRequest = None, or_ActivationMode = [], or_ActivationState = [],
    or_GenerationCommitState = [], or_PostKubeadmHealthState = [], or_BootHealthPending = False, or_Phase = [],
    or_PhaseIndex = 0, or_CompletedPhases = [], or_Terminal = False, or_ResourceLocks = [],
    or_ExecutorPlan = None, or_Invocations = [], or_ExternalMutationStarted = False,
    or_PreExecMutationMarkers = [], or_MutationScopes = [], or_MutatingToolRan = False,
    or_MutatingToolInvocations = [], or_DiagnosticArtifacts = [], or_HostRollback = [],
    or_PostMutationRollbackAllowed = False, or_RecoveryRequired = False, or_RetryHint = [], or_Interruption = [],
    or_Resume = [], or_NextAction = [], or_Result = [], or_CreatedAt = 0, or_UpdatedAt = 0, or_CompletedAt = None,
    or_FailureReason = []\<rparr>"

datatype request_body = ResetBody DestructiveReset | EtcdBody EtcdMemberRemove

record SubmitOperationRequest =
  sq_ClientRequestId :: string
  sq_OperationKind :: string
  sq_Actor :: string
  sq_ExpectedMachineId :: string
  sq_ExpectedCurrentGenerationId :: string
  sq_ExpectedClusterIntentDigest :: string
  sq_DryRun :: bool
  sq_Body :: request_body

datatype submission = Existing OperationRecord | DryRun | Created OperationRecord

definition destructiveResetFromProto :: "DestructiveReset \<Rightarrow> DestructiveReset" where
  "destructiveResetFromProto q =
     \<lparr>dr_InventoryNodeName = TrimSpace (dr_InventoryNodeName q), dr_ResetScope = TrimSpace (dr_ResetScope q),
      dr_TargetGenerationID = TrimSpace (dr_TargetGenerationID q), dr_DiscardClusterIdentity = dr_DiscardClusterIdentity q,
      dr_WipeSurfaces = filter (\<lambda>x. x \<noteq> []) (map TrimSpace (dr_WipeSurfaces q))\<rparr>"

definition etcdMemberRemoveFromProto :: "EtcdMemberRemove \<Rightarrow> EtcdMemberRemove" where
  "etcdMemberRemoveFromProto q =
     \<lparr>mr_TargetNodeName = TrimSpace (mr_TargetNodeName q), mr_TargetMemberID = ToLower (TrimSpace (mr_TargetMemberID q)),
      mr_TargetPeerURL = TrimSpace (mr_TargetPeerURL q), mr_ExpectedClusterID = ToLower (TrimSpace (mr_ExpectedClusterID q)),
      mr_ExpectedMemberCount = mr_ExpectedMemberCount q\<rparr>"

definition validateDestructiveResetRequest :: "string \<Rightarrow> DestructiveReset \<Rightarrow> error" where
  "validateDestructiveResetRequest kind q =
     first_error
       [reject (kind \<noteq> OperationKindDestructiveReset) ''operationKind %q does not accept destructiveReset'' [kind],
        ValidateDestructiveReset (destructiveResetFromProto q)]"

definition validateEtcdMemberRemoveRequest :: "op_env \<Rightarrow> string \<Rightarrow> EtcdMemberRemove \<Rightarrow> error" where
  "validateEtcdMemberRemoveRequest oe kind q =
     first_error
       [reject (kind \<noteq> OperationKindEtcdMemberRemove) ''operationKind must be %q'' [OperationKindEtcdMemberRemove],
        ValidateEtcdMemberRemove oe (etcdMemberRemoveFromProto q)]"

definition create_record :: "op_env \<Rightarrow> OperationRecord \<Rightarrow> time \<Rightarrow> (op_store, submission) io" where
  "create_record oe r now =
     io_wrap ''create operation record: %v'' [] (io_bind (Store_Create oe r ''accepted'' now) (\<lambda>created. io_ok (Created created)))"

definition acceptDestructiveResetOperation ::
  "op_env \<Rightarrow> SubmitOperationRequest \<Rightarrow> DestructiveReset \<Rightarrow> string \<Rightarrow> string \<Rightarrow> string list \<Rightarrow> time \<Rightarrow> (op_store, submission) io" where
  "acceptDestructiveResetOperation oe q body digest ident locks now =
     create_record oe
       (zero_operation\<lparr>or_OperationID := ident, or_OperationKind := sq_OperationKind q, or_Scope := operationScope (sq_OperationKind q),
          or_ClientRequestID := sq_ClientRequestId q, or_Actor := sq_Actor q, or_ExpectedMachineID := sq_ExpectedMachineId q,
          or_ExpectedCurrentGenerationID := sq_ExpectedCurrentGenerationId q,
          or_ExpectedClusterIntentDigest := sq_ExpectedClusterIntentDigest q, or_RequestDigest := digest,
          or_Phase := ''accepted'',
          or_PhasePlan := [''accepted'', ''preflight-destructive-reset'', ''destructive-reset'', ''schedule-poweroff'',
                           HostBookkeepingCompletionPhase],
          or_DestructiveResetRequest := Some (destructiveResetFromProto body), or_ResourceLocks := locks,
          or_NextAction := ''queued for katlc agent executor''\<rparr>) now"

definition acceptEtcdMemberRemoveOperation ::
  "op_env \<Rightarrow> SubmitOperationRequest \<Rightarrow> EtcdMemberRemove \<Rightarrow> string \<Rightarrow> string \<Rightarrow> string list \<Rightarrow> time \<Rightarrow> (op_store, submission) io" where
  "acceptEtcdMemberRemoveOperation oe q body digest ident locks now =
     create_record oe
       (zero_operation\<lparr>or_OperationID := ident, or_OperationKind := sq_OperationKind q, or_Scope := operationScope (sq_OperationKind q),
          or_ClientRequestID := sq_ClientRequestId q, or_Actor := sq_Actor q, or_ExpectedMachineID := sq_ExpectedMachineId q,
          or_RequestDigest := digest, or_Phase := ''accepted'',
          or_PhasePlan := [''accepted'', ''preflight-etcd-member-remove'', ''remove-etcd-member'', ''verify-etcd-member-remove'',
                           HostBookkeepingCompletionPhase],
          or_EtcdMemberRemoveRequest := Some (etcdMemberRemoveFromProto body), or_ResourceLocks := locks,
          or_NextAction := ''queued for katlc agent executor''\<rparr>) now"

definition accept_body :: "agent_env \<Rightarrow> SubmitOperationRequest \<Rightarrow> string \<Rightarrow> string \<Rightarrow> (op_store, submission) io" where
  "accept_body ae q digest ident =
     (case sq_Body q of
        ResetBody body \<Rightarrow>
          acceptDestructiveResetOperation (ae_op ae) q body digest ident (resourceLocks (sq_OperationKind q)) (ae_now ae)
      | EtcdBody body \<Rightarrow>
          acceptEtcdMemberRemoveOperation (ae_op ae) q body digest ident (resourceLocks (sq_OperationKind q)) (ae_now ae))"

text \<open>
  \<open>acceptOperation\<close> for these requests. The request digest is computed by the caller; the branches for other
  bodies are not taken.
\<close>

definition acceptOperation :: "agent_env \<Rightarrow> SubmitOperationRequest \<Rightarrow> string \<Rightarrow> (op_store, submission) io" where
  "acceptOperation ae q digest =
     (let oe = ae_op ae; locks = resourceLocks (sq_OperationKind q); now = ae_now ae in
      io_bind (io_wrap ''read idempotency state: %v'' [] (findClientRequest oe (sq_ClientRequestId q))) (\<lambda>existing.
      case existing of
        Some r \<Rightarrow>
          if or_RequestDigest r \<noteq> digest then io_fail ''clientRequestID already used with a different requestDigest'' []
          else io_ok (Existing r)
      | None \<Rightarrow>
          io_bind (io_wrap ''check operation locks: %v'' [] (conflictingOperation oe locks)) (\<lambda>conflict.
          if conflict \<noteq> [] then io_fail ''operation locks conflict with active operation %s'' [conflict]
          else if sq_DryRun q then io_ok DryRun
          else io_bind (io_wrap ''generate operation id: %v'' [] (io_lift (ae_operation_id ae (sq_OperationKind q) now))) (\<lambda>ident.
            accept_body ae q digest ident))))"

section \<open>Failing to start\<close>

text \<open>The staged identity lies in the directory of its operation; it may be absent.\<close>

definition RemoveStaged :: "string \<Rightarrow> (op_store, unit) io" where
  "RemoveStaged operationID =
     io_bind (io_get (\<lambda>s. case op_at s operationID of None \<Rightarrow> False | Some d \<Rightarrow> od_identity d)) (\<lambda>present.
     io_when present
       (io_then (io_wrap ''remove staged Kubernetes identity: %w'' [] (opcall (upd_op operationID (\<lambda>d. d\<lparr>od_identity := False\<rparr>))))
         (io_wrap ''sync Kubernetes identity staging directory: %w'' [] (opcall (\<lambda>s. s)))))"

definition removeOperationKubernetesIdentity :: "string \<Rightarrow> (op_store, unit) io" where
  "removeOperationKubernetesIdentity operationID =
     io_wrap ''clean up staged Kubernetes identity: %w'' [] (RemoveStaged operationID)"

definition remove_identity_hint :: string where
  "remove_identity_hint = ''; remove the operation-scoped Kubernetes identity from node storage''"

text \<open>The record of an operation that never got to run, with the error that stopped it.\<close>

definition not_dispatched :: "time \<Rightarrow> string \<Rightarrow> string \<Rightarrow> string \<Rightarrow> OperationRecord \<Rightarrow> OperationRecord" where
  "not_dispatched now phase nextAction reason r =
     r\<lparr>or_Phase := phase, or_Result := ResultFailedNeedsRepair, or_RecoveryRequired := True, or_NextAction := nextAction,
       or_FailureReason := reason, or_Terminal := True, or_UpdatedAt := now, or_CompletedAt := Some now\<rparr>"

definition join_errors :: "err \<Rightarrow> unit res \<Rightarrow> err" where
  "join_errors e r = (case r of Inl x \<Rightarrow> Joined [e, x] | Inr _ \<Rightarrow> e)"

text \<open>The updated record is returned beside the error of the cleanup.\<close>

definition updated_or :: "unit res \<Rightarrow> 'a res \<Rightarrow> (op_store, 'a) io" where
  "updated_or cleanup r =
     (case errorsJoin [error_of cleanup, error_of r] of
        Some e \<Rightarrow> io_err e
      | None \<Rightarrow> io_lift r)"

definition markDispatchFailed :: "agent_env \<Rightarrow> string \<Rightarrow> err \<Rightarrow> (op_store, OperationRecord) io" where
  "markDispatchFailed ae operationID e =
     io_bind (io_catch (removeOperationKubernetesIdentity operationID)) (\<lambda>cleanup.
     let nextAction = ''agent executor dispatch failed'' @ (if isl cleanup then remove_identity_hint else []) in
     io_bind (io_catch (Store_Update (ae_op ae) operationID ''dispatch-failed'' ''dispatch-failed''
                (\<lambda>r. Inr (not_dispatched (ae_now ae) ''dispatch-failed'' nextAction
                            (en_redact (ae_env ae) (ae_text ae (join_errors e cleanup))) r)))) (updated_or cleanup))"

definition materialization_hint :: "string \<Rightarrow> string" where
  "materialization_hint kind =
     (if kind = ''bootstrap-init'' then ''correct the Kubernetes identity or node PKI state and resubmit bootstrap''
      else if kind = ''bootstrap-join-control-plane''
      then ''submit a new control-plane join operation with valid join material''
      else ''submit a new worker join operation with valid join material'')"

definition markMaterializationFailed :: "agent_env \<Rightarrow> string \<Rightarrow> err \<Rightarrow> (op_store, OperationRecord) io" where
  "markMaterializationFailed ae operationID e =
     io_bind (io_catch (removeOperationKubernetesIdentity operationID)) (\<lambda>cleanup.
     io_bind (io_catch (Store_Update (ae_op ae) operationID ''join-material-failed'' ''join-material-failed''
                (\<lambda>r. Inr (not_dispatched (ae_now ae) ''prepare-bootstrap-runtime''
                            (materialization_hint (or_OperationKind r) @ (if isl cleanup then remove_identity_hint else []))
                            (en_redact (ae_env ae) (ae_text ae (join_errors e cleanup))) r)))) (updated_or cleanup))"

end
