(* ===== verification/AgentAdmissionFacts.thy ===== *)
theory AgentAdmissionFacts
  imports AgentAdmission
begin

text \<open>
  What admission guarantees. Unfinished operations never hold a common resource lock, and two operations never share
  a request identifier: both are invariants of the operation store that every admitted request keeps, whatever system
  call fails, and that every update keeps which leaves the admission fields of the record alone.
\<close>

section \<open>The last record of an operation\<close>

definition last_record :: "op_store \<Rightarrow> string \<Rightarrow> OperationRecord" where
  "last_record s g = je_Record (last (op_events s g))"

definition recorded :: "op_store \<Rightarrow> string \<Rightarrow> bool" where
  "recorded s g \<longleftrightarrow> op_events s g \<noteq> []"

definition unfinished :: "op_store \<Rightarrow> string \<Rightarrow> bool" where
  "unfinished s g \<longleftrightarrow> recorded s g \<and> \<not> or_Terminal (last_record s g)"

lemma calm_last:
  assumes "calm s t"
  shows "last_record t = last_record s" "recorded t = recorded s" "unfinished t = unfinished s" "op_events t = op_events s"
  using calm_journal(2) [OF assms] by (auto simp: fun_eq_iff last_record_def recorded_def unfinished_def)

lemma appended_last:
  assumes "appended g e s t"
  shows "last_record t = (last_record s)(g := je_Record e)" "recorded t = (recorded s)(g := True)"
    "unfinished t = (unfinished s)(g := (\<not> or_Terminal (je_Record e)))"
  using appended_events [OF assms] by (auto simp: fun_eq_iff last_record_def recorded_def unfinished_def)

lemma recorded_dir: "recorded s g \<Longrightarrow> op_at s g \<noteq> None"
  by (auto simp: recorded_def op_events_def journal_at_def events_of_def split: option.splits)

lemma recorded_owner: "ops_ok oe s \<Longrightarrow> recorded s g \<Longrightarrow> or_OperationID (last_record s g) = g \<and> operationDir g = Inr g"
proof -
  assume ok: "ops_ok oe s" and "recorded s g"
  then have ne: "op_events s g \<noteq> []" by (simp add: recorded_def)
  have "op_at s g \<noteq> None" using \<open>recorded s g\<close> by (rule recorded_dir)
  with ops_ok_owner [OF ok, of "last (op_events s g)" g] ops_ok_dir [OF ok] ne show ?thesis by (simp add: last_record_def)
qed

lemma clean_nonempty: "operationDir g = Inr g \<Longrightarrow> g \<noteq> []"
  by (auto simp: operationDir_def opCleanSegment_def Let_def split: if_splits)

section \<open>The directory of operations exists before an operation does\<close>

definition rooted :: "op_store \<Rightarrow> bool" where
  "rooted s \<longleftrightarrow> os_root s \<or> os_dirs s = []"

lemma rooted_upd [simp]: "rooted (upd_op g f s) = rooted s" "os_root (upd_op g f s) = os_root s"
  by (auto simp: rooted_def upd_op_def op_at_def split: option.splits)

lemma rooted_faults [simp]: "rooted (s\<lparr>os_faults := fs\<rparr>) = rooted s" "rooted (s\<lparr>os_root := True\<rparr>)"
  by (simp_all add: rooted_def)

lemma rooted_opcall: "(\<And>s. rooted s \<Longrightarrow> rooted (f s)) \<Longrightarrow> io_rel (keeps rooted) (opcall f)"
  by (rule opcall_frame) (simp_all add: keeps_def)

lemma rooted_simple:
  "io_rel (keeps rooted) (opcall (upd_op g f))" "io_rel (keeps rooted) (opcall (\<lambda>s. s))"
  "io_rel (keeps rooted) (opcall (\<lambda>s. s\<lparr>os_root := True\<rparr>))"
  by (rule rooted_opcall; simp)+

lemma root_make [simp]: "os_root (make_op_dir g s) = os_root s"
  by (simp add: make_op_dir_def split: option.splits)

lemma rooted_create: "io_rel (keeps rooted) (io_then (opcall (\<lambda>s. s\<lparr>os_root := True\<rparr>)) (opcall (make_op_dir g)))"
proof (rule io_relI)
  fix s
  let ?m = "opcall (\<lambda>s. s\<lparr>os_root := True\<rparr>)"
  obtain r u where m: "?m s = (r, u)" by fastforce
  show "keeps rooted s (snd (io_then ?m (opcall (make_op_dir g)) s))"
  proof (cases r)
    case (Inl x)
    with m io_relD [OF rooted_simple(3) m] show ?thesis by (simp add: io_then_def io_bind_def)
  next
    case (Inr y)
    with m have "os_root u" by (cases rule: opcall_cases) auto
    obtain r' v where n: "opcall (make_op_dir g) u = (r', v)" by fastforce
    then have "rooted v"
      by (cases rule: opcall_cases) (use \<open>os_root u\<close> in \<open>auto simp: rooted_def\<close>)
    with m n Inr show ?thesis by (simp add: io_then_def io_bind_def keeps_def)
  qed
qed

lemma rooted_lock: "io_rel (keeps rooted) action \<Longrightarrow> io_rel (keeps rooted) (withOperationLock g create action)"
  unfolding withOperationLock_def by (intro keeps.rel_rules rooted_create rooted_simple) assumption

lemma rooted_snapshot: "io_rel (keeps rooted) (writeSnapshot oe g es)"
  unfolding writeSnapshot_def by (intro keeps.rel_rules rooted_simple)

lemma rooted_event: "io_rel (keeps rooted) (writeEventAndSnapshot oe g e)"
  unfolding writeEventAndSnapshot_def write_event_def by (intro keeps.rel_rules rooted_simple rooted_snapshot)

lemma rooted_Read: "io_rel (keeps rooted) (Store_Read oe ident)"
  unfolding Store_Read_def by (intro keeps.rel_rules rooted_snapshot)

lemma rooted_Update: "io_rel (keeps rooted) (Store_Update oe ident eventID eventType mutate)"
  unfolding Store_Update_def update_commit_def Let_def
  by (intro keeps.rel_rules rooted_lock rooted_Read rooted_event)

lemma rooted_Create: "io_rel (keeps rooted) (Store_Create oe record0 eventID now)"
  unfolding Store_Create_def create_locked_def Let_def by (intro keeps.rel_rules rooted_lock rooted_event)

lemma recorded_listed:
  assumes "rooted s" "recorded s g"
  shows "g \<in> set (listed s)"
proof -
  from assms(2) have "op_at s g \<noteq> None" by (rule recorded_dir)
  then have "g \<in> fst ` set (os_dirs s)" by (simp add: op_at_def map_of_eq_None_iff)
  with assms(1) show ?thesis by (auto simp: listed_def rooted_def)
qed

section \<open>Searching the operations\<close>

lemma calm_find: "io_rel calm (find_request oe cid ids)" "io_rel calm (find_conflict oe locks ids)"
  by (induction ids) (auto intro!: calm.rel_rules calm_Read)

lemma with_ids_run:
  "ops_ok oe s \<Longrightarrow> with_ids f s = f (listed s) s"
  by (simp add: with_ids_def io_bind_def io_get_def io_lift_def operation_ids listed_def)

lemma calm_with_ids: "(\<And>ids. io_rel calm (f ids)) \<Longrightarrow> io_rel calm (with_ids f)"
  unfolding with_ids_def by (intro calm.rel_rules)

lemma calm_findClientRequest: "io_rel calm (findClientRequest oe cid)"
  unfolding findClientRequest_def Let_def by (intro calm.rel_rules calm_with_ids calm_find)

lemma calm_conflictingOperation: "io_rel calm (conflictingOperation oe locks)"
  unfolding conflictingOperation_def by (intro calm.rel_rules calm_with_ids calm_find)

lemma Read_last:
  assumes "ops_ok oe s" "operationDir g = Inr g" "Store_Read oe g s = (Inr r, t)"
  shows "recorded s g" "r = last_record s g" "calm s t" "ops_ok oe t"
proof -
  show "calm s t" using io_relD [OF calm_Read assms(3)] .
  from ops_ok_calm [OF assms(1) this] show "ops_ok oe t" .
  from Read_events [OF assms(1,3)] assms(2) show "recorded s g" "r = last_record s g"
    by (auto simp: recorded_def last_record_def)
qed

lemma find_request_found:
  assumes "find_request oe cid ids s = (Inr res, t)" "ops_ok oe s" "\<forall>g \<in> set ids. operationDir g = Inr g"
  shows "case res of
      None \<Rightarrow> \<forall>g \<in> set ids. recorded s g \<and> or_ClientRequestID (last_record s g) \<noteq> cid
    | Some r \<Rightarrow> \<exists>g \<in> set ids. recorded s g \<and> r = last_record s g \<and> or_ClientRequestID r = cid"
  using assms
proof (induction ids arbitrary: s)
  case (Cons g ids)
  from Cons.prems(1) obtain r u where u: "Store_Read oe g s = (Inr r, u)"
    "(if or_ClientRequestID r = cid then io_ok (Some r) else find_request oe cid ids) u = (Inr res, t)"
    by (auto simp: io_run)
  note rd = Read_last [OF Cons.prems(2) _ u(1)]
  show ?case
  proof (cases "or_ClientRequestID r = cid")
    case True
    with u Cons.prems(3) rd show ?thesis by (auto simp: io_run)
  next
    case False
    with u(2) have "find_request oe cid ids u = (Inr res, t)" by simp
    from Cons.IH [OF this] Cons.prems(3) rd False calm_last [OF rd(3)] show ?thesis
      by (auto split: option.splits)
  qed
qed (simp add: io_run)

lemma find_conflict_found:
  assumes "find_conflict oe locks ids s = (Inr c, t)" "ops_ok oe s" "\<forall>g \<in> set ids. operationDir g = Inr g"
  shows "if c = [] then \<forall>g \<in> set ids. recorded s g \<and>
      (unfinished s g \<longrightarrow> set (or_ResourceLocks (last_record s g)) \<inter> set locks = {})
    else c \<in> set ids \<and> unfinished s c \<and> set (or_ResourceLocks (last_record s c)) \<inter> set locks \<noteq> {}"
  using assms
proof (induction ids arbitrary: s)
  case (Cons g ids)
  let ?hit = "\<lambda>r. \<not> or_Terminal r \<and> list_ex (\<lambda>held. held \<in> set locks) (or_ResourceLocks r)"
  from Cons.prems(1) obtain r u where u: "Store_Read oe g s = (Inr r, u)"
    "(if ?hit r then io_ok (or_OperationID r) else find_conflict oe locks ids) u = (Inr c, t)"
    by (auto simp: io_run)
  have g: "operationDir g = Inr g" using Cons.prems(3) by simp
  note rd = Read_last [OF Cons.prems(2) g u(1)]
  have own: "or_OperationID r = g" "g \<noteq> []" using recorded_owner [OF Cons.prems(2) rd(1)] rd(2) clean_nonempty [OF g] by auto
  show ?case
  proof (cases "?hit r")
    case True
    with u(2) own have "c = g" by (simp add: io_run)
    with own True rd(1,2) show ?thesis by (auto simp: unfinished_def list_ex_iff)
  next
    case False
    with u(2) have "find_conflict oe locks ids u = (Inr c, t)" by simp
    from Cons.IH [OF this rd(4)] Cons.prems(3)
    have "if c = [] then \<forall>g \<in> set ids. recorded s g \<and>
      (unfinished s g \<longrightarrow> set (or_ResourceLocks (last_record s g)) \<inter> set locks = {})
      else c \<in> set ids \<and> unfinished s c \<and> set (or_ResourceLocks (last_record s c)) \<inter> set locks \<noteq> {}"
      by (simp add: calm_last [OF rd(3)] split: if_splits)
    with False rd(1,2) show ?thesis by (auto simp: unfinished_def list_ex_iff split: if_splits)
  qed
qed (simp add: io_run)

section \<open>The invariants\<close>

definition exclusive :: "op_store \<Rightarrow> bool" where
  "exclusive s \<longleftrightarrow>
     (\<forall>g h. unfinished s g \<and> unfinished s h \<and> g \<noteq> h \<longrightarrow>
        set (or_ResourceLocks (last_record s g)) \<inter> set (or_ResourceLocks (last_record s h)) = {})"

definition request_id :: "string \<Rightarrow> bool" where
  "request_id x \<longleftrightarrow> x \<noteq> [] \<and> TrimSpace x = x"

definition unique_requests :: "op_store \<Rightarrow> bool" where
  "unique_requests s \<longleftrightarrow>
     (\<forall>g h. recorded s g \<and> recorded s h \<and> request_id (or_ClientRequestID (last_record s g)) \<and>
        or_ClientRequestID (last_record s h) = or_ClientRequestID (last_record s g) \<longrightarrow> h = g)"

definition admitted :: "op_env \<Rightarrow> op_store \<Rightarrow> bool" where
  "admitted oe s \<longleftrightarrow> ops_ok oe s \<and> rooted s \<and> exclusive s \<and> unique_requests s"

definition same_admission :: "OperationRecord \<Rightarrow> OperationRecord \<Rightarrow> bool" where
  "same_admission a b \<longleftrightarrow>
     or_ResourceLocks b = or_ResourceLocks a \<and> or_ClientRequestID b = or_ClientRequestID a \<and>
     or_RequestDigest b = or_RequestDigest a"

definition admits :: "op_env \<Rightarrow> op_store \<Rightarrow> op_store \<Rightarrow> bool" where
  "admits oe s t \<longleftrightarrow> op_grows s t \<and>
     (admitted oe s \<longrightarrow> admitted oe t \<and> (\<forall>g. recorded s g \<longrightarrow> same_admission (last_record s g) (last_record t g)))"

lemma recorded_grows: "op_grows s t \<Longrightarrow> recorded s g \<Longrightarrow> recorded t g"
  unfolding op_grows_def recorded_def by (metis prefix_bot.extremum_uniqueI)

lemma op_grows_trans: "op_grows s t \<Longrightarrow> op_grows t u \<Longrightarrow> op_grows s u"
  by (simp add: op_grows_def) (meson prefix_order.trans)

lemma same_admission_trans: "same_admission a b \<Longrightarrow> same_admission b c \<Longrightarrow> same_admission a c"
  by (simp add: same_admission_def)

lemma admitsD:
  assumes "admits oe s t" "admitted oe s"
  shows "admitted oe t" "recorded s g \<Longrightarrow> same_admission (last_record s g) (last_record t g)"
  using assms by (simp_all add: admits_def)

interpretation admit: io_frame "admits oe"
proof
  fix s t u
  assume st: "admits oe s t" and tu: "admits oe t u"
  then have g: "op_grows s t" "op_grows s u" using op_grows_trans by (auto simp: admits_def)
  have "same_admission (last_record s g) (last_record u g)" if "admitted oe s" "recorded s g" for g
    by (rule same_admission_trans [OF admitsD(2) [OF st that] admitsD(2) [OF tu admitsD(1) [OF st that(1)]]])
       (rule recorded_grows [OF g(1) that(2)])
  moreover have "admitted oe s \<Longrightarrow> admitted oe u" using admitsD(1) [OF st] admitsD(1) [OF tu] by simp
  ultimately show "admits oe s u" using g(2) by (simp add: admits_def)
qed (simp add: admits_def op_grows_def same_admission_def)

lemma calm_admits: "calm s t \<Longrightarrow> (rooted s \<Longrightarrow> rooted t) \<Longrightarrow> admits oe s t"
  using ops_ok_calm [of oe s t]
  by (simp add: admits_def admitted_def exclusive_def unique_requests_def calm_last op_grows_def same_admission_def)

lemma admits_of_calm: "io_rel calm m \<Longrightarrow> io_rel (keeps rooted) m \<Longrightarrow> io_rel (admits oe) m"
  by (simp add: io_rel_def keeps_def calm_admits)

lemma appended_admits:
  assumes "appended g e s t" "rooted s \<Longrightarrow> rooted t" "ops_ok oe s \<Longrightarrow> ops_ok oe t"
    "recorded s g \<Longrightarrow> same_admission (last_record s g) (je_Record e) \<and> \<not> or_Terminal (last_record s g)"
    "admitted oe s \<Longrightarrow> \<not> recorded s g \<Longrightarrow>
       (\<forall>h. unfinished s h \<longrightarrow> set (or_ResourceLocks (last_record s h)) \<inter> set (or_ResourceLocks (je_Record e)) = {}) \<and>
       (request_id (or_ClientRequestID (je_Record e)) \<longrightarrow>
          (\<forall>h. recorded s h \<longrightarrow> or_ClientRequestID (last_record s h) \<noteq> or_ClientRequestID (je_Record e)))"
  shows "admits oe s t"
proof -
  note new = appended_last [OF assms(1)]
  have "exclusive t \<and> unique_requests t" if "admitted oe s"
  proof (cases "recorded s g")
    case True
    from assms(4) [OF True] have kept: "or_ResourceLocks (je_Record e) = or_ResourceLocks (last_record s g)"
      "or_ClientRequestID (je_Record e) = or_ClientRequestID (last_record s g)" and live: "unfinished s g"
      using True by (auto simp: same_admission_def unfinished_def)
    have eqs: "\<And>h. or_ResourceLocks (last_record t h) = or_ResourceLocks (last_record s h)"
      "\<And>h. or_ClientRequestID (last_record t h) = or_ClientRequestID (last_record s h)" "\<And>h. recorded t h = recorded s h"
      using True by (simp_all add: new kept)
    have old: "exclusive s" "unique_requests s" and "\<And>h. unfinished t h \<Longrightarrow> unfinished s h"
      using that live by (auto simp: admitted_def new split: if_splits)
    then have "exclusive t" unfolding exclusive_def eqs by blast
    moreover have "unique_requests t" using old(2) unfolding unique_requests_def eqs .
    ultimately show ?thesis ..
  next
    case False
    note fresh = assms(5) [OF that False]
    have old: "exclusive s" "unique_requests s" using that by (simp_all add: admitted_def)
    have "exclusive t"
      unfolding exclusive_def new using old(1) conjunct1 [OF fresh] by (auto simp: exclusive_def Int_commute)
    moreover have "unique_requests t"
      unfolding unique_requests_def
    proof (intro allI impI)
      fix a b
      assume ab: "recorded t a \<and> recorded t b \<and> request_id (or_ClientRequestID (last_record t a)) \<and>
        or_ClientRequestID (last_record t b) = or_ClientRequestID (last_record t a)"
      show "b = a"
      proof (cases "a = g \<or> b = g")
        case True
        with ab conjunct2 [OF fresh] show ?thesis by (cases "a = g"; cases "b = g") (auto simp: new)
      next
        case neither: False
        with ab old(2) show ?thesis by (simp add: new unique_requests_def)
      qed
    qed
    ultimately show ?thesis ..
  qed
  with assms(2-4) appended_grows [OF assms(1)] show ?thesis
    by (auto simp: admits_def admitted_def new same_admission_def)
qed

lemma admits_Update:
  assumes "\<And>a b. mutate a = Inr b \<Longrightarrow> same_admission a b"
  shows "io_rel (admits oe) (Store_Update oe ident eventID eventType mutate)"
proof (rule io_relI)
  fix s
  obtain r t where u: "Store_Update oe ident eventID eventType mutate s = (r, t)" by fastforce
  have root: "rooted s \<Longrightarrow> rooted t" using io_relD [OF rooted_Update u] by (simp add: keeps_def)
  have "admits oe s t"
  proof (rule disjE [OF Update_effect [OF u]])
    assume "\<exists>g next. operationDir ident = Inr g \<and> update_step oe eventID eventType mutate g next s t \<and>
              ((\<exists>x. r = Inl x) \<or> r = Inr next)"
    then obtain g "next" where st: "update_step oe eventID eventType mutate g next s t" by blast
    then obtain es next0 where e: "readJournal oe (journal_at s g) = Inr es" "es \<noteq> []" "mutate (je_Record (last es)) = Inr next0"
      "ValidateTransition (je_Record (last es)) next0 = None" "next = stamp_next oe (je_Record (last es)) next0"
      "appended g (update_event eventID eventType next) s t" by (auto simp: update_step_def)
    show ?thesis
    proof (cases "ops_ok oe s")
      case True
      have es: "es = op_events s g" using ops_ok_events [OF True e(1)] .
      have "\<not> or_Terminal (last_record s g)" using e(4) es by (simp add: ValidateTransition_def last_record_def)
      with e(2,3,5) assms es have "recorded s g" "same_admission (last_record s g) next \<and> \<not> or_Terminal (last_record s g)"
        by (auto simp: recorded_def last_record_def same_admission_def stamp_next_def)
      then show ?thesis by (intro appended_admits [OF e(6) root]) (use ops_ok_update_step [OF _ st] in auto)
    qed (use appended_grows [OF e(6)] in \<open>simp add: admits_def admitted_def\<close>)
  qed (use calm_admits root in blast)
  with u show "admits oe s (snd (Store_Update oe ident eventID eventType mutate s))" by simp
qed

lemma admits_Create:
  assumes "Store_Create oe record0 eventID now s = (r, t)"
    "\<And>h. unfinished s h \<Longrightarrow> set (or_ResourceLocks (last_record s h)) \<inter> set (or_ResourceLocks record0) = {}"
    "\<And>h. request_id (or_ClientRequestID record0) \<Longrightarrow> recorded s h \<Longrightarrow>
       or_ClientRequestID (last_record s h) \<noteq> or_ClientRequestID record0"
  shows "admits oe s t"
proof -
  let ?now = "if now = 0 then oe_now oe else now"
  let ?e = "accepted_event eventID (new_record record0 ?now) ?now"
  have root: "rooted s \<Longrightarrow> rooted t" using io_relD [OF rooted_Create assms(1)] by (simp add: keeps_def)
  have kept: "or_ResourceLocks (je_Record ?e) = or_ResourceLocks record0"
    "or_ClientRequestID (je_Record ?e) = or_ClientRequestID record0"
    by (simp_all add: accepted_event_def new_record_def normalizeNewRecord_def Let_def)
  from Create_effect [OF assms(1)] consider "calm s t" |
    g where "\<not> hasExistingJournal (journal_at s g)" "appended g ?e s t" by blast
  then show ?thesis
  proof cases
    case 2
    show ?thesis
    proof (cases "ops_ok oe s")
      case True
      then have "\<not> recorded s g" using ops_ok_no_journal [OF _ 2(1)] by (simp add: recorded_def)
      then show ?thesis
        by (intro appended_admits [OF 2(2) root]) (use ops_ok_Create [OF _ assms(1)] kept assms(2,3) in auto)
    qed (use appended_grows [OF 2(2)] in \<open>simp add: admits_def admitted_def\<close>)
  qed (use calm_admits root in blast)
qed

section \<open>Admission keeps them\<close>

lemma rooted_find: "io_rel (keeps rooted) (find_request oe cid ids)" "io_rel (keeps rooted) (find_conflict oe locks ids)"
  by (induction ids) (auto intro!: keeps.rel_rules rooted_Read)

lemma admits_findClientRequest: "io_rel (admits oe) (findClientRequest oe cid)"
  by (rule admits_of_calm [OF calm_findClientRequest])
     (unfold findClientRequest_def Let_def with_ids_def, intro keeps.rel_rules rooted_find)

lemma admits_conflictingOperation: "io_rel (admits oe) (conflictingOperation oe locks)"
  by (rule admits_of_calm [OF calm_conflictingOperation])
     (unfold conflictingOperation_def with_ids_def, intro keeps.rel_rules rooted_find)

lemma admitted_ids:
  assumes "admitted oe s"
  shows "ops_ok oe s" "\<forall>g \<in> set (listed s). operationDir g = Inr g" "recorded s g \<Longrightarrow> g \<in> set (listed s)"
  using assms listed_ok(2) recorded_listed by (auto simp: admitted_def)

lemma findClientRequest_outcome:
  assumes "findClientRequest oe raw s = (Inr res, t)" "admitted oe s" "TrimSpace raw \<noteq> []"
  shows "case res of
      None \<Rightarrow> \<forall>g. recorded s g \<longrightarrow> or_ClientRequestID (last_record s g) \<noteq> TrimSpace raw
    | Some r \<Rightarrow> \<exists>g. recorded s g \<and> r = last_record s g \<and> or_ClientRequestID r = TrimSpace raw"
proof -
  from assms have "find_request oe (TrimSpace raw) (listed s) s = (Inr res, t)"
    by (simp add: findClientRequest_def Let_def with_ids_run [OF admitted_ids(1) [OF assms(2)]])
  from find_request_found [OF this admitted_ids(1,2) [OF assms(2)]] admitted_ids(3) [OF assms(2)] show ?thesis
    by (auto split: option.splits)
qed

lemma conflictingOperation_outcome:
  assumes "conflictingOperation oe locks s = (Inr c, t)" "admitted oe s"
  shows "if c = [] then \<forall>g. unfinished s g \<longrightarrow> set (or_ResourceLocks (last_record s g)) \<inter> set locks = {}
    else unfinished s c \<and> set (or_ResourceLocks (last_record s c)) \<inter> set locks \<noteq> {}"
proof (cases "locks = []")
  case False
  with assms have "find_conflict oe locks (listed s) s = (Inr c, t)"
    by (simp add: conflictingOperation_def with_ids_run [OF admitted_ids(1) [OF assms(2)]])
  from find_conflict_found [OF this admitted_ids(1,2) [OF assms(2)]] admitted_ids(3) [OF assms(2)] show ?thesis
    by (auto simp: unfinished_def split: if_splits)
qed (use assms in \<open>simp add: conflictingOperation_def io_run\<close>)

text \<open>The record each kind of request is created with.\<close>

definition submitted_record :: "SubmitOperationRequest \<Rightarrow> OperationRecord \<Rightarrow> bool" where
  "submitted_record q r \<longleftrightarrow>
     or_ResourceLocks r = resourceLocks (sq_OperationKind q) \<and> or_ClientRequestID r = sq_ClientRequestId q \<and> \<not> or_Terminal r \<and>
     or_ExecutorPlan r = None \<and> or_Scope r = operationScope (sq_OperationKind q)"

lemma accept_body_record:
  obtains r0 where "submitted_record q r0" "or_RequestDigest r0 = digest" "accept_body ae q digest ident = create_record (ae_op ae) r0 (ae_now ae)"
proof (cases "sq_Body q")
  case (ResetBody body)
  show thesis
    by (rule that) (simp_all add: submitted_record_def ResetBody accept_body_def acceptDestructiveResetOperation_def zero_operation_def)
next
  case (EtcdBody body)
  show thesis
    by (rule that) (simp_all add: submitted_record_def EtcdBody accept_body_def acceptEtcdMemberRemoveOperation_def zero_operation_def)
qed

lemma acceptOperation_run:
  assumes "acceptOperation ae q digest s = (r, t)"
  obtains (lookup) x where "findClientRequest (ae_op ae) (sq_ClientRequestId q) s = (Inl x, t)" "isl r"
    | (repeat) old where "findClientRequest (ae_op ae) (sq_ClientRequestId q) s = (Inr (Some old), t)"
        "r = (if or_RequestDigest old \<noteq> digest
              then Inl (Errorf ''clientRequestID already used with a different requestDigest'' []) else Inr (Existing old))"
    | (check) x u where "findClientRequest (ae_op ae) (sq_ClientRequestId q) s = (Inr None, u)"
        "conflictingOperation (ae_op ae) (resourceLocks (sq_OperationKind q)) u = (Inl x, t)" "isl r"
    | (conflict) c u where "findClientRequest (ae_op ae) (sq_ClientRequestId q) s = (Inr None, u)"
        "conflictingOperation (ae_op ae) (resourceLocks (sq_OperationKind q)) u = (Inr c, t)" "c \<noteq> []"
        "r = Inl (Errorf ''operation locks conflict with active operation %s'' [c])"
    | (idle) u where "findClientRequest (ae_op ae) (sq_ClientRequestId q) s = (Inr None, u)"
        "conflictingOperation (ae_op ae) (resourceLocks (sq_OperationKind q)) u = (Inr [], t)" "isl r \<or> r = Inr DryRun"
    | (create) u v ident where "findClientRequest (ae_op ae) (sq_ClientRequestId q) s = (Inr None, u)"
        "conflictingOperation (ae_op ae) (resourceLocks (sq_OperationKind q)) u = (Inr [], v)" "\<not> sq_DryRun q"
        "accept_body ae q digest ident v = (r, t)"
proof -
  obtain f u where f: "findClientRequest (ae_op ae) (sq_ClientRequestId q) s = (f, u)" by fastforce
  obtain c v where c: "conflictingOperation (ae_op ae) (resourceLocks (sq_OperationKind q)) u = (c, v)" by fastforce
  note run = assms [unfolded acceptOperation_def Let_def io_bind_def io_wrap_def]
  show thesis
  proof (cases f)
    case (Inl x)
    with run f show thesis by (intro lookup [of x]) auto
  next
    case (Inr res)
    show thesis
    proof (cases res)
      case (Some old)
      with run f Inr show thesis
        by (intro repeat [of old]) (auto simp: io_fail_def io_err_def io_ok_def split: if_splits)
    next
      case None
      show thesis
      proof (cases c)
        case (Inl x)
        with run f Inr None c show thesis by (intro check [of u x]) auto
      next
        case c': (Inr w)
        with run f Inr None c have rest:
          "(if w \<noteq> [] then io_fail ''operation locks conflict with active operation %s'' [w]
            else if sq_DryRun q then io_ok DryRun
            else io_bind (io_wrap ''generate operation id: %v'' [] (io_lift (ae_operation_id ae (sq_OperationKind q) (ae_now ae))))
                   (accept_body ae q digest)) v = (r, t)"
          by (simp add: io_bind_def io_wrap_def split: if_splits)
        show thesis
        proof (cases "w = [] \<and> \<not> sq_DryRun q")
          case True
          with rest f Inr None c c' show thesis
            by (cases "ae_operation_id ae (sq_OperationKind q) (ae_now ae)")
               (auto simp: io_bind_def io_wrap_def io_lift_def intro: idle create)
        next
          case False
          with rest f Inr None c c' show thesis
            by (auto simp: io_fail_def io_err_def io_ok_def split: if_splits intro: conflict idle)
        qed
      qed
    qed
  qed
qed

lemma create_record_run:
  assumes "create_record oe r0 now s = (r, t)"
  obtains r' where "Store_Create oe r0 ''accepted'' now s = (r', t)"
    "r = (case r' of Inl x \<Rightarrow> Inl (Wrap ''create operation record: %v'' [] x) | Inr c \<Rightarrow> Inr (Created c))"
proof -
  obtain r' u where c: "Store_Create oe r0 ''accepted'' now s = (r', u)" by fastforce
  with assms show thesis
    by (intro that [of r']; cases r') (auto simp: create_record_def io_wrap_def io_bind_def io_ok_def)
qed

lemma admits_accept_body:
  assumes "accept_body ae q digest ident s = (r, t)"
    "\<And>h. unfinished s h \<Longrightarrow> set (or_ResourceLocks (last_record s h)) \<inter> set (resourceLocks (sq_OperationKind q)) = {}"
    "\<And>h. request_id (sq_ClientRequestId q) \<Longrightarrow> recorded s h \<Longrightarrow>
       or_ClientRequestID (last_record s h) \<noteq> sq_ClientRequestId q"
  shows "admits (ae_op ae) s t"
proof -
  obtain r0 where r0: "submitted_record q r0" "accept_body ae q digest ident = create_record (ae_op ae) r0 (ae_now ae)"
    by (rule accept_body_record)
  with assms(1) obtain r' where "Store_Create (ae_op ae) r0 ''accepted'' (ae_now ae) s = (r', t)"
    by (auto elim: create_record_run)
  then show ?thesis by (rule admits_Create) (use r0(1) assms(2,3) in \<open>simp_all add: submitted_record_def\<close>)
qed

lemma advances_accept_body: "io_rel (advances (ae_op ae)) (accept_body ae q digest ident)"
proof -
  obtain r0 where "accept_body ae q digest ident = create_record (ae_op ae) r0 (ae_now ae)" by (rule accept_body_record)
  then show ?thesis by (simp add: create_record_def) (intro advance.rel_rules advances_Create)
qed

lemma findClientRequest_none:
  assumes "findClientRequest oe raw s = (Inr None, t)" "admitted oe s" "request_id raw" "recorded s g"
  shows "or_ClientRequestID (last_record s g) \<noteq> raw"
  using findClientRequest_outcome [OF assms(1,2)] assms(3,4) by (auto simp: request_id_def)

lemma admits_acceptOperation: "io_rel (admits (ae_op ae)) (acceptOperation ae q digest)"
proof (rule io_relI)
  fix s
  obtain r t where run: "acceptOperation ae q digest s = (r, t)" by fastforce
  note find = io_relD [OF admits_findClientRequest] and check = io_relD [OF admits_conflictingOperation]
  from run have "admits (ae_op ae) s t"
  proof (cases rule: acceptOperation_run)
    case (create u v ident)
    have sv: "admits (ae_op ae) s v" using admit.frame_trans [OF find [OF create(1)] check [OF create(2)]] .
    show ?thesis
    proof (cases "admitted (ae_op ae) s")
      case True
      have u: "admitted (ae_op ae) u" using admitsD(1) [OF find [OF create(1)] True] .
      have uv: "calm s u" "calm u v"
        using io_relD [OF calm_findClientRequest create(1)] io_relD [OF calm_conflictingOperation create(2)] .
      have "admits (ae_op ae) v t"
        by (rule admits_accept_body [OF create(4)])
           (use conflictingOperation_outcome [OF create(2) u] findClientRequest_none [OF create(1) True] in
             \<open>simp_all add: calm_last [OF uv(1)] calm_last [OF uv(2)]\<close>)
      with sv show ?thesis by (rule admit.frame_trans)
    next
      case False
      have "op_grows v t" using io_relD [OF advances_accept_body create(4)] by (simp add: advances_def)
      with sv False show ?thesis using op_grows_trans by (auto simp: admits_def)
    qed
  qed (auto intro: find check admit.frame_trans)
  with run show "admits (ae_op ae) s (snd (acceptOperation ae q digest s))" by simp
qed

section \<open>Repeating a request\<close>

text \<open>
  A request whose identifier an operation already has never creates another: it returns that operation, or the
  error that the identifier was used for a different request.
\<close>

lemma acceptOperation_repeat:
  assumes "admitted (ae_op ae) s" "recorded s g" "or_ClientRequestID (last_record s g) = sq_ClientRequestId q"
    "request_id (sq_ClientRequestId q)" "acceptOperation ae q digest s = (r, t)"
  shows "calm s t" "r = Inr sub \<Longrightarrow> sub = Existing (last_record s g) \<and> or_RequestDigest (last_record s g) = digest"
proof -
  have raw: "TrimSpace (sq_ClientRequestId q) = sq_ClientRequestId q" "sq_ClientRequestId q \<noteq> []"
    using assms(4) by (simp_all add: request_id_def)
  have no: "\<nexists>u. findClientRequest (ae_op ae) (sq_ClientRequestId q) s = (Inr None, u)"
    using findClientRequest_none [OF _ assms(1,4,2)] assms(3) by blast
  from assms(5) have "calm s t \<and> (r = Inr sub \<longrightarrow> sub = Existing (last_record s g) \<and> or_RequestDigest (last_record s g) = digest)"
  proof (cases rule: acceptOperation_run)
    case (lookup x)
    then show ?thesis using io_relD [OF calm_findClientRequest lookup(1)] by auto
  next
    case (repeat old)
    from findClientRequest_outcome [OF repeat(1) assms(1)] raw obtain h where
      h: "recorded s h" "old = last_record s h" "or_ClientRequestID old = sq_ClientRequestId q" by auto
    have "h = g" using assms(1-4) h unfolding admitted_def unique_requests_def by metis
    with h repeat io_relD [OF calm_findClientRequest repeat(1)] show ?thesis by auto
  qed (use no in blast)+
  then show "calm s t" "r = Inr sub \<Longrightarrow> sub = Existing (last_record s g) \<and> or_RequestDigest (last_record s g) = digest"
    by blast+
qed

text \<open>A request that needs a lock of an unfinished operation never creates one.\<close>

lemma acceptOperation_refused:
  assumes "admitted (ae_op ae) s" "unfinished s g"
    "set (or_ResourceLocks (last_record s g)) \<inter> set (resourceLocks (sq_OperationKind q)) \<noteq> {}"
    "acceptOperation ae q digest s = (r, t)"
  shows "calm s t" "r = Inr sub \<Longrightarrow> \<exists>old. sub = Existing old"
proof -
  have no: "c \<noteq> []" if "findClientRequest (ae_op ae) (sq_ClientRequestId q) s = (Inr None, u)"
    "conflictingOperation (ae_op ae) (resourceLocks (sq_OperationKind q)) u = (Inr c, v)" for c u v
  proof -
    have u: "admitted (ae_op ae) u" "calm s u"
      using admitsD(1) [OF io_relD [OF admits_findClientRequest that(1)] assms(1)] io_relD [OF calm_findClientRequest that(1)] .
    show ?thesis
    proof
      assume "c = []"
      with conflictingOperation_outcome [OF that(2) u(1)] have
        "unfinished s g \<longrightarrow> set (or_ResourceLocks (last_record s g)) \<inter> set (resourceLocks (sq_OperationKind q)) = {}"
        unfolding calm_last [OF u(2)] by simp
      with assms(2,3) show False by simp
    qed
  qed
  have f: "calm s u" if "findClientRequest (ae_op ae) (sq_ClientRequestId q) s = (x, u)" for x u
    using io_relD [OF calm_findClientRequest that] .
  have c: "calm u v" if "conflictingOperation (ae_op ae) (resourceLocks (sq_OperationKind q)) u = (x, v)" for x u v
    using io_relD [OF calm_conflictingOperation that] .
  from assms(4) have "calm s t \<and> (r = Inr sub \<longrightarrow> (\<exists>old. sub = Existing old))"
  proof (cases rule: acceptOperation_run)
    case (repeat old)
    then show ?thesis using f [OF repeat(1)] by (auto split: if_splits)
  next
    case (lookup x)
    then show ?thesis using f [OF lookup(1)] by auto
  next
    case (check x u)
    then show ?thesis using calm.frame_trans [OF f [OF check(1)] c [OF check(2)]] by auto
  next
    case (conflict w u)
    then show ?thesis using calm.frame_trans [OF f [OF conflict(1)] c [OF conflict(2)]] by auto
  qed (use no in blast)+
  then show "calm s t" "r = Inr sub \<Longrightarrow> \<exists>old. sub = Existing old" by blast+
qed

text \<open>The record of an accepted request.\<close>

lemma acceptOperation_created:
  assumes "admitted (ae_op ae) s" "acceptOperation ae q digest s = (Inr (Created c), t)"
  obtains r0 where "submitted_record q r0" "or_RequestDigest r0 = digest"
    "c = new_record r0 (if ae_now ae = 0 then oe_now (ae_op ae) else ae_now ae)"
    "recorded t (or_OperationID c)" "last_record t (or_OperationID c) = c" "\<not> recorded s (or_OperationID c)"
    "admitted (ae_op ae) t"
proof -
  have t: "admitted (ae_op ae) t" using admitsD(1) [OF io_relD [OF admits_acceptOperation assms(2)] assms(1)] .
  from assms(2) show thesis
  proof (cases rule: acceptOperation_run)
    case (create u v ident)
    obtain r0 where r0: "submitted_record q r0" "or_RequestDigest r0 = digest"
      "accept_body ae q digest ident = create_record (ae_op ae) r0 (ae_now ae)" by (rule accept_body_record)
    from create(4) r0(3) have cr: "create_record (ae_op ae) r0 (ae_now ae) v = (Inr (Created c), t)" by simp
    then obtain r' where r': "Store_Create (ae_op ae) r0 ''accepted'' (ae_now ae) v = (r', t)"
      "Inr (Created c) = (case r' of Inl x \<Rightarrow> Inl (Wrap ''create operation record: %v'' [] x) | Inr c \<Rightarrow> Inr (Created c))"
      by (rule create_record_run)
    then have st: "Store_Create (ae_op ae) r0 ''accepted'' (ae_now ae) v = (Inr c, t)" by (cases r') auto
    have calm: "calm s v"
      using calm.frame_trans [OF io_relD [OF calm_findClientRequest create(1)] io_relD [OF calm_conflictingOperation create(2)]] .
    have ok: "ops_ok (ae_op ae) v" using ops_ok_calm [OF _ calm] assms(1) by (simp add: admitted_def)
    from Create_effect [OF st] have c: "c = new_record r0 (if ae_now ae = 0 then oe_now (ae_op ae) else ae_now ae)" by auto
    from Create_acknowledged(2) [OF ok st] have "recorded t (or_OperationID c)" "last_record t (or_OperationID c) = c"
      by (auto simp: recorded_def last_record_def)
    moreover have "\<not> recorded s (or_OperationID c)"
      using Create_acknowledged(1) [OF ok st] calm_last(4) [OF calm] by (simp add: recorded_def)
    ultimately show thesis using that [OF r0(1,2) c] t by simp
  qed (auto split: if_splits)
qed

lemma submitted_new_record:
  assumes "submitted_record q r0"
  shows "or_ResourceLocks (new_record r0 now) = resourceLocks (sq_OperationKind q)" "\<not> or_Terminal (new_record r0 now)"
    "or_ClientRequestID (new_record r0 now) = sq_ClientRequestId q" "or_ExecutorPlan (new_record r0 now) = None"
    "or_Scope (new_record r0 now) = TrimSpace (operationScope (sq_OperationKind q))"
    "or_RequestDigest (new_record r0 now) = TrimSpace (or_RequestDigest r0)"
  using assms by (simp_all add: submitted_record_def new_record_def normalizeNewRecord_def Let_def)

lemma generation_lock: "resourceLocks kind \<noteq> [] \<longleftrightarrow> ''generation-state.lock'' \<in> set (resourceLocks kind)"
  by (auto simp: resourceLocks_def)

end
