(* ===== verification/AgentRecovery.thy ===== *)
theory AgentRecovery
  imports AgentExecutor AgentAdmissionFacts
begin

text \<open>
  What the agent does before it serves requests (\<^verbatim>\<open>service.go\<close>, \<^verbatim>\<open>promotion_recovery.go\<close>, \<^verbatim>\<open>executor.go\<close>,
  \<^verbatim>\<open>generation_apply_recovery.go\<close>): it finishes promotions whose health receipt is durable, audits the operations the
  last agent left behind, and discards renders that never reached the node. The recoveries work on both stores.
\<close>

section \<open>Record updates\<close>

definition ActivationStatePending :: string where "ActivationStatePending = ''pending''"
definition ActivationStateRolledBack :: string where "ActivationStateRolledBack = ''rolled-back''"
definition ActivationStateFailed :: string where "ActivationStateFailed = ''failed''"
definition GenerationCommitAbandoned :: string where "GenerationCommitAbandoned = ''abandoned''"
definition PostKubeadmHealthPassed :: string where "PostKubeadmHealthPassed = ''passed''"

fun appendMissing :: "string list \<Rightarrow> string list \<Rightarrow> string list" where
  "appendMissing values [] = values"
| "appendMissing values (addition # additions) =
     (if TrimSpace addition = [] \<or> addition \<in> set values then appendMissing values additions
      else appendMissing (values @ [addition]) additions)"

definition liveConfigApplyInvocationID :: "string \<Rightarrow> string" where
  "liveConfigApplyInvocationID operationID = ''config-apply-live-'' @ operationID"

fun completeConfigApplyInvocation :: "InvocationRecord list \<Rightarrow> string \<Rightarrow> time \<Rightarrow> string \<Rightarrow> InvocationRecord list" where
  "completeConfigApplyInvocation [] ident completedAt result = []"
| "completeConfigApplyInvocation (v # vs) ident completedAt result =
     (if iv_InvocationID v = ident \<and> iv_CompletedAt v = None
      then v\<lparr>iv_CompletedAt := Some completedAt, iv_Result := result,
             iv_ExitStatus := (if result = ResultSucceeded then 0 else 1)\<rparr> # vs
      else v # completeConfigApplyInvocation vs ident completedAt result)"

definition configApplyActivationState :: "ConfigApplyStatus \<Rightarrow> bool \<Rightarrow> string" where
  "configApplyActivationState status failed =
     (if cs_Phase status = ConfigApplyPhaseActive then ActivationStateActiveLive
      else if cs_Phase status = ConfigApplyPhaseRolledBack then ActivationStateRolledBack
      else if cs_Phase status = ConfigApplyPhaseActivating \<or> cs_Phase status = ConfigApplyPhaseRollingBack
      then ActivationStateActivating
      else if failed then ActivationStateFailed
      else if cs_AcceptedApplyMode status = ApplyModeNextBoot then ActivationStatePending
      else ActivationStateActiveLive)"

definition config_applied :: "GenerationSpec \<Rightarrow> ConfigApplyStatus \<Rightarrow> time \<Rightarrow> OperationRecord \<Rightarrow> OperationRecord" where
  "config_applied spec status completedAt r0 =
     (let r1 = r0\<lparr>or_Phase := HostBookkeepingCompletionPhase,
                  or_CompletedPhases := appendMissing (or_CompletedPhases r0) [''render-generation'', HostBookkeepingCompletionPhase],
                  or_PreviousGenerationID := gs_PreviousGenerationID spec, or_CandidateGenerationID := gs_GenerationID spec,
                  or_ConfigApplyPhase := cs_Phase status, or_ChangedDomains := cs_ChangedDomains status,
                  or_ActivationState := configApplyActivationState status False,
                  or_Invocations := completeConfigApplyInvocation (or_Invocations r0)
                    (liveConfigApplyInvocationID (or_OperationID r0)) completedAt ResultSucceeded\<rparr>;
          r2 = (if cs_AcceptedApplyMode status = ApplyModeNextBoot then CompleteBootTrial completedAt r1
                else CompleteLiveGeneration completedAt r1)
      in r2\<lparr>or_NextAction :=
              (if or_BootHealthPending r2 then ''reboot into committed config apply generation for boot health validation''
               else ''live configuration is active and is the persistent boot default'')\<rparr>)"

definition completeConfigApply ::
  "agent_env \<Rightarrow> string \<Rightarrow> GenerationSpec \<Rightarrow> ConfigApplyStatus \<Rightarrow> time \<Rightarrow> (op_store, unit) io" where
  "completeConfigApply ae operationID spec status completedAt =
     io_bind (Store_Update (ae_op ae) operationID ''operation-complete'' ''operation-complete''
                (\<lambda>r. Inr (config_applied spec status completedAt r))) (\<lambda>_. io_ok ())"

text \<open>Dereferencing absent upgrade evidence panics.\<close>

definition healthy_upgrade :: "time \<Rightarrow> OperationRecord \<Rightarrow> OperationRecord res" where
  "healthy_upgrade now r =
     (case or_KubeadmUpgradeEvidence r of
        None \<Rightarrow> fail ''nil pointer dereference'' []
      | Some evidence \<Rightarrow>
          Inr (CompleteLiveGeneration now
            (r\<lparr>or_Phase := ''healthy'',
               or_CompletedPhases := appendMissing (or_CompletedPhases r)
                 [''kubelet-stop-running'', ''sysext-refresh-running'', ''kubelet-restart-running'', ''health-check-running'', ''healthy''],
               or_KubeadmUpgradeEvidence := Some (evidence\<lparr>ke_KubeletGateState := ''target-observed''\<rparr>),
               or_PostKubeadmHealthState := PostKubeadmHealthPassed,
               or_NextAction := ''continue the serialized online rollout; the active generation is the persistent boot default''\<rparr>)))"

definition recordHealthyKubeadmUpgrade :: "agent_env \<Rightarrow> string \<Rightarrow> time \<Rightarrow> (op_store, unit) io" where
  "recordHealthyKubeadmUpgrade ae operationID now =
     io_bind (Store_Update (ae_op ae) operationID ''kubeadm-upgrade-healthy'' ''healthy'' (healthy_upgrade now)) (\<lambda>_. io_ok ())"

definition failed_phase :: "agent_env \<Rightarrow> string \<Rightarrow> string \<Rightarrow> err \<Rightarrow> bool \<Rightarrow> OperationRecord \<Rightarrow> OperationRecord" where
  "failed_phase ae phase nextAction cause uncleaned r =
     op_Fail (ae_now ae) (en_redact (ae_env ae) (ae_text ae cause)) nextAction
       (r\<lparr>or_Phase := phase, or_RecoveryRequired := (uncleaned \<or> or_RecoveryRequired r)\<rparr>)"

definition failRecordPhase ::
  "agent_env \<Rightarrow> string \<Rightarrow> string \<Rightarrow> string \<Rightarrow> string \<Rightarrow> string \<Rightarrow> err \<Rightarrow> (op_store, OperationRecord) io" where
  "failRecordPhase ae operationID eventID eventType phase nextAction cause =
     io_bind (io_catch (removeOperationKubernetesIdentity operationID)) (\<lambda>cleanup.
     io_bind (io_catch (Store_Update (ae_op ae) operationID eventID eventType
                (\<lambda>r. Inr (failed_phase ae phase (nextAction @ (if isl cleanup then remove_identity_hint else []))
                            (join_errors cause cleanup) (isl cleanup) r)))) (updated_or cleanup))"

definition failRecord :: "agent_env \<Rightarrow> string \<Rightarrow> string \<Rightarrow> string \<Rightarrow> string \<Rightarrow> err \<Rightarrow> (op_store, OperationRecord) io" where
  "failRecord ae operationID eventID eventType nextAction cause =
     failRecordPhase ae operationID eventID eventType ''dispatch-failed'' nextAction cause"

text \<open>An error that no step recorded is recorded at the end, unless the operation is finished; its own error is dropped.\<close>

definition recordUnhandledExecutionFailure :: "agent_env \<Rightarrow> string \<Rightarrow> err \<Rightarrow> (op_store, unit) io" where
  "recordUnhandledExecutionFailure ae operationID cause =
     io_bind (io_catch (Store_Read (ae_op ae) operationID)) (\<lambda>r.
     case r of
       Inl _ \<Rightarrow> io_ok ()
     | Inr current \<Rightarrow>
         if or_Terminal current then io_ok ()
         else io_bind (io_catch (failRecordPhase ae operationID ''executor-unhandled-failure'' ''executor-unhandled-failure''
                ''executor-unhandled-failure'' ''inspect the recorded executor failure, correct it, and submit a new operation'' cause))
                (\<lambda>_. io_ok ()))"

section \<open>The audit at startup\<close>

definition bootstrapJoinOperation :: "string \<Rightarrow> bool" where
  "bootstrapJoinOperation kind \<longleftrightarrow> kind = ''bootstrap-join-worker'' \<or> kind = ''bootstrap-join-control-plane''"

definition bootstrapInvocationComplete :: "OperationRecord \<Rightarrow> bool" where
  "bootstrapInvocationComplete r \<longleftrightarrow>
     or_BootstrapRequest r \<noteq> None \<and>
     (case or_ExecutorPlan r of
        None \<Rightarrow> False
      | Some plan \<Rightarrow>
          (or_Phase r = ''configure-local-api-access'' \<or> or_Phase r = ''post-kubeadm-health'') \<and>
          ep_Phase plan \<in> set (or_CompletedPhases r) \<and>
          (or_OperationKind r = ''bootstrap-init'' \<or> bootstrapJoinOperation (or_OperationKind r)))"

definition bootstrapContinuationEligible :: "OperationRecord \<Rightarrow> bool" where
  "bootstrapContinuationEligible r \<longleftrightarrow>
     or_Terminal r \<and> or_Result r = ResultFailedNeedsRepair \<and> bootstrapInvocationComplete r"

definition liveAgentInvocation :: "agent_env \<Rightarrow> InvocationRecord \<Rightarrow> bool" where
  "liveAgentInvocation ae v \<longleftrightarrow> \<not> iv_PID v \<le> 0 \<and> iv_CompletedAt v = None \<and> ae_signal ae (iv_PID v)"

definition finish_interrupted :: "agent_env \<Rightarrow> time \<Rightarrow> ReconciledOperation \<Rightarrow> (op_store, unit) io" where
  "finish_interrupted ae now entry =
     (if ro_StaleClass entry \<noteq> StalePostMutation \<and> ro_StaleClass entry \<noteq> StaleAmbiguous then io_ok ()
      else io_bind (Store_Read (ae_op ae) (ro_OperationID entry)) (\<lambda>r.
        io_when (\<not> or_Terminal r \<and> bootstrapInvocationComplete r)
          (io_bind (Store_Update (ae_op ae) (or_OperationID r) ''bootstrap-wait-interrupted'' ''bootstrap-wait-interrupted''
             (\<lambda>next. Inr (op_Fail now ''bootstrap health wait interrupted''
                ''retry the unchanged bootstrap or node join command to validate its recorded startup and continue'' next)))
             (\<lambda>_. io_ok ()))))"

definition accepted_not_started :: "OperationRecord \<Rightarrow> bool" where
  "accepted_not_started r \<longleftrightarrow>
     \<not> or_Terminal r \<and> or_ExecutorPlan r \<noteq> None \<and> \<not> or_ExternalMutationStarted r \<and> \<not> or_MutatingToolRan r \<and>
     or_PreExecMutationMarkers r = [] \<and> or_Invocations r = []"

definition stopped_reason :: string where "stopped_reason = ''agent stopped before executor start''"

definition stopped_hint :: string where
  "stopped_hint = ''resubmit operation request; previous accepted attempt did not start''"

definition not_started :: "agent_env \<Rightarrow> time \<Rightarrow> unit res \<Rightarrow> OperationRecord \<Rightarrow> OperationRecord" where
  "not_started ae now cleanup r =
     r\<lparr>or_Phase := ''startup-audit-not-started'', or_Terminal := True, or_CompletedAt := Some now, or_RecoveryRequired := True,
       or_Result := ResultFailedNeedsRepair,
       or_NextAction := stopped_hint @ (if isl cleanup then remove_identity_hint else []),
       or_FailureReason := en_redact (ae_env ae)
         (case cleanup of Inr _ \<Rightarrow> stopped_reason | Inl e \<Rightarrow> ae_text ae (Joined [Errorf stopped_reason [], e])),
       or_UpdatedAt := now\<rparr>"

text \<open>The loop goes on after a failed cleanup and returns the joined cleanup errors at the end.\<close>

fun fail_not_started :: "agent_env \<Rightarrow> time \<Rightarrow> error \<Rightarrow> string list \<Rightarrow> (op_store, unit) io" where
  "fail_not_started ae now cleanupErrors [] = io_need cleanupErrors"
| "fail_not_started ae now cleanupErrors (ident # ids) =
     io_bind (Store_Read (ae_op ae) ident) (\<lambda>r.
     if \<not> accepted_not_started r then fail_not_started ae now cleanupErrors ids
     else io_bind (io_catch (removeOperationKubernetesIdentity (or_OperationID r))) (\<lambda>cleanup.
       let errors = (if isl cleanup then errorsJoin [cleanupErrors, error_of cleanup] else cleanupErrors) in
       io_bind (io_catch (Store_Update (ae_op ae) (or_OperationID r) ''startup-audit-not-started'' ''startup-audit-not-started''
                  (\<lambda>next. Inr (not_started ae now cleanup next)))) (\<lambda>u.
       case u of
         Inl e \<Rightarrow> io_need (errorsJoin [errors, Some e])
       | Inr _ \<Rightarrow> fail_not_started ae now errors ids)))"

definition failAcceptedButNotStarted :: "agent_env \<Rightarrow> time \<Rightarrow> (op_store, unit) io" where
  "failAcceptedButNotStarted ae now = with_ids (fail_not_started ae now None)"

definition AuditStartup :: "agent_env \<Rightarrow> time \<Rightarrow> (op_store, ReconcileReport) io" where
  "AuditStartup ae now0 =
     (let now = (if now0 = 0 then oe_now (ae_op ae) else now0) in
      io_bind (Store_ReconcileBoot (ae_op ae) now (ae_boot_id ae) (Some (liveAgentInvocation ae))) (\<lambda>report.
      io_then (io_each (finish_interrupted ae now) (rp_Operations report))
      (io_then (failAcceptedButNotStarted ae now) (io_ok report))))"

section \<open>Resuming a promotion\<close>

definition readCurrentKernelCommandLine :: "agent_env \<Rightarrow> string list res" where
  "readCurrentKernelCommandLine ae =
     res_bind (ae_read ae (PathJoin [runtimeRoot (ae_root ae), ''proc/cmdline''])) (\<lambda>data. Inr (Fields data))"

definition promotion_candidate :: "OperationRecord \<Rightarrow> bool" where
  "promotion_candidate r \<longleftrightarrow>
     \<not> or_Terminal r \<and> or_CandidateGenerationID r \<noteq> [] \<and>
     (or_ConfigApplyRequest r \<noteq> None \<or> or_KubernetesSysextUpdate r \<noteq> None \<and> or_KubeadmUpgradeEvidence r \<noteq> None)"

definition owned_promotion :: "string \<Rightarrow> GenerationStatus \<Rightarrow> bool" where
  "owned_promotion ident status \<longleftrightarrow>
     st_CommitState status = CommitStateCommitted \<and> IsKnownGood status \<and> st_CommittedByOperation status = ident"

definition same_boot :: "agent_env \<Rightarrow> OperationRecord \<Rightarrow> bool" where
  "same_boot ae r \<longleftrightarrow>
     or_Invocations r \<noteq> [] \<and> ae_boot_id ae \<noteq> [] \<and> iv_BootID (last (or_Invocations r)) = ae_boot_id ae"

text \<open>After a reboot the running kernel and the boot selection must both name the candidate.\<close>

definition booted_candidate :: "agent_env \<Rightarrow> GenerationSpec \<Rightarrow> node \<Rightarrow> bool" where
  "booted_candidate ae spec s \<longleftrightarrow>
     (case readCurrentKernelCommandLine ae of
        Inl _ \<Rightarrow> False
      | Inr line \<Rightarrow>
          SelectedGenerationFromCommandLine (Join line '' '') = Inr (gs_GenerationID spec) \<and>
          (case ReadBootSelection (ae_root ae) s of
             Inl _ \<Rightarrow> False
           | Inr b \<Rightarrow> bs_BootedGenerationID b = gs_GenerationID spec \<and> \<not> bs_PendingHealthValidation b))"

definition recoverable_promotion :: "agent_env \<Rightarrow> string \<Rightarrow> OperationRecord \<Rightarrow> node \<Rightarrow> GenerationSpec option" where
  "recoverable_promotion ae ident r s =
     (if \<not> promotion_candidate r then None
      else case ReadGeneration (ae_env ae) (ae_root ae) (or_CandidateGenerationID r) s of
        Inl _ \<Rightarrow> None
      | Inr (spec, status) \<Rightarrow>
          if owned_promotion ident status \<and> (same_boot ae r \<or> booted_candidate ae spec s) then Some spec else None)"

definition live_apply :: "agent_env \<Rightarrow> OperationRecord \<Rightarrow> GenerationSpec \<Rightarrow> (node, string \<times> ConfigApplyStatus) io" where
  "live_apply ae r spec =
     io_bind (io_lift (ConfigApplyStatusPath (ae_root ae) (gs_GenerationID spec))) (\<lambda>_.
     io_bind (io_lift (generation_key (ae_root ae) (gs_GenerationID spec))) (\<lambda>g.
     io_bind (io_bind (io_get (ReadConfigApplyStatus g)) io_lift) (\<lambda>apply.
     io_then (io_reject (cs_AcceptedApplyMode apply \<noteq> ApplyModeLive \<or> cs_Phase apply \<noteq> ConfigApplyPhaseActive)
                ''promotion %s has no completed live apply evidence'' [or_OperationID r])
       (io_ok (g, apply)))))"

definition recoverLivePromotion :: "agent_env \<Rightarrow> OperationRecord \<Rightarrow> GenerationSpec \<Rightarrow> (agent, unit) io" where
  "recoverLivePromotion ae r spec =
     io_bind (case or_ConfigApplyRequest r of
                None \<Rightarrow> io_ok None
              | Some _ \<Rightarrow> io_bind (on_node (live_apply ae r spec)) (\<lambda>p. io_ok (Some p))) (\<lambda>applied.
     io_then (io_wrap ''resume live promotion %s: %w'' [or_OperationID r]
                (on_node (agent_promoteLiveGeneration ae r (ae_now ae) ''resume validated live promotion'')))
     (case applied of
        None \<Rightarrow> on_ops (recordHealthyKubeadmUpgrade ae (or_OperationID r) (ae_now ae))
      | Some (g, apply0) \<Rightarrow>
          let apply = apply0\<lparr>cs_HealthState := HealthStateHealthy, cs_UpdatedAt := ae_now ae\<rparr> in
          io_then (on_node (WriteConfigApplyStatus g apply))
            (on_ops (completeConfigApply ae (or_OperationID r) spec apply (ae_now ae)))))"

definition promotion_failed :: "agent_env \<Rightarrow> err \<Rightarrow> OperationRecord \<Rightarrow> OperationRecord" where
  "promotion_failed ae e r =
     op_Fail (ae_now ae) (ae_text ae e) ''inspect generation and boot selection; live promotion recovery could not finish''
       (r\<lparr>or_RecoveryRequired := True\<rparr>)"

definition recover_promotion :: "agent_env \<Rightarrow> string \<Rightarrow> (agent, unit) io" where
  "recover_promotion ae ident =
     io_bind (on_ops (Store_Read (ae_op ae) ident)) (\<lambda>r.
     io_bind (on_node (io_get (recoverable_promotion ae ident r))) (\<lambda>found.
     case found of
       None \<Rightarrow> io_ok ()
     | Some spec \<Rightarrow>
         io_bind (io_catch (recoverLivePromotion ae r spec)) (\<lambda>outcome.
         case outcome of
           Inr _ \<Rightarrow> io_ok ()
         | Inl e \<Rightarrow>
             io_bind (on_ops (Store_Update (ae_op ae) ident ''promotion-recovery-failed'' ''promotion-recovery-failed''
                        (\<lambda>next. Inr (promotion_failed ae e next)))) (\<lambda>_. io_ok ()))))"

definition recoverLivePromotions :: "agent_env \<Rightarrow> (agent, unit) io" where
  "recoverLivePromotions ae =
     io_bind (on_ops (with_ids io_ok)) (io_each (recover_promotion ae))"

section \<open>Discarding an interrupted render\<close>

text \<open>The lock file lies in the directory of the operations, which has to exist.\<close>

definition AcquireMutationLock :: "(op_store, unit) io" where
  "AcquireMutationLock =
     io_then (io_wrap ''open node mutation lock: %w'' []
                (io_bind (io_get os_root) (\<lambda>root. if root then opcall (\<lambda>s. s) else io_err OsNotExist)))
       (io_wrap ''another node mutation is executing; wait for it before retrying: %w'' [] (opcall (\<lambda>s. s)))"

definition interruptedConfigRender :: "OperationRecord \<Rightarrow> bool" where
  "interruptedConfigRender r \<longleftrightarrow>
     or_ConfigApplyRequest r \<noteq> None \<and> \<not> or_Terminal r \<and> or_Interruption r \<noteq> [] \<and>
     (or_Phase r = ''accepted'' \<or> or_Phase r = ''render-generation'') \<and>
     or_CandidateGenerationID r \<noteq> [] \<and> or_CandidateGenerationID r \<noteq> or_ExpectedCurrentGenerationID r \<and>
     \<not> or_ExternalMutationStarted r \<and> \<not> or_MutatingToolRan r \<and>
     or_PreExecMutationMarkers r = [] \<and> or_MutationScopes r = [] \<and>
     or_GenerationCommitState r \<noteq> GenerationCommitCommitted \<and>
     or_ActivationState r \<noteq> ActivationStateActiveLive \<and> or_ActivationState r \<noteq> ActivationStateActivating"

definition bootSelectionReferences :: "BootSelectionRecord \<Rightarrow> string \<Rightarrow> bool" where
  "bootSelectionReferences b candidate \<longleftrightarrow>
     bs_DefaultGenerationID b = candidate \<or> bs_ActiveGenerationID b = candidate \<or> bs_BootedGenerationID b = candidate \<or>
     bs_TargetBootGenerationID b = candidate \<or> bs_TrialGenerationID b = candidate \<or>
     bs_PreviousKnownGoodGenerationID b = candidate \<or> bs_Generation0FallbackID b = candidate \<or>
     bs_FailedBootGenerationID b = candidate"

text \<open>\<open>os.RemoveAll\<close> of a generation directory: the files one by one, then the directory with the extension files
  in it, also when it holds no record. It may stop in between.\<close>

definition drop_gen :: "string \<Rightarrow> node \<Rightarrow> node" where
  "drop_gen g s =
     s\<lparr>nd_gens := AList.delete g (nd_gens s),
       nd_paths := filter (\<lambda>p. p \<noteq> gen_path g \<and> \<not> HasPrefix p (owned_prefix g)) (nd_paths s)\<rparr>"

definition remove_all :: "string \<Rightarrow> (node, unit) io" where
  "remove_all g =
     io_bind (io_get (\<lambda>s. g \<in> fst ` set (nd_gens s))) (\<lambda>present.
     io_bind (io_get (\<lambda>s. list_ex (\<lambda>p. p = gen_path g \<or> HasPrefix p (owned_prefix g)) (nd_paths s))) (\<lambda>other.
     io_then (io_when present
       (io_then (syscall (upd_gen g (\<lambda>d. d\<lparr>gd_config := NoFile\<rparr>)))
       (io_then (syscall (upd_gen g (\<lambda>d. d\<lparr>gd_metadata := NoFile\<rparr>)))
         (syscall (upd_gen g (\<lambda>d. d\<lparr>gd_spec := NoFile\<rparr>))))))
       (io_when (present \<or> other) (syscall (drop_gen g)))))"

text \<open>\<open>False\<close> when the candidate is left to explicit recovery, \<open>True\<close> when it is gone.\<close>

definition discard_unselected :: "agent_env \<Rightarrow> string \<Rightarrow> string \<Rightarrow> (node, bool) io" where
  "discard_unselected ae candidate g =
     io_bind (io_get (\<lambda>s. gd_status (gen_at s g))) (\<lambda>file.
     if file \<noteq> NoFile then
       io_bind (io_get (ReadGeneration (ae_env ae) (ae_root ae) candidate)) (\<lambda>gr.
       case gr of
         Inl _ \<Rightarrow> io_ok False
       | Inr (spec, status) \<Rightarrow>
           if st_CommitState status \<noteq> CommitStateCandidate then io_ok False
           else io_then (io_wrap ''remove interrupted candidate %s: %w'' [candidate]
                           (Remove (ae_env ae) (ae_root ae) candidate))
                  (io_then sync_dir (io_ok True)))
     else io_then (io_wrap ''remove interrupted candidate %s: %w'' [candidate] (remove_all g))
            (io_then sync_dir (io_ok True)))"

definition discard_candidate :: "agent_env \<Rightarrow> string \<Rightarrow> (node, bool) io" where
  "discard_candidate ae candidate =
     io_bind (io_get (ReadBootSelection (ae_root ae))) (\<lambda>sr.
     io_bind (io_lift sr) (\<lambda>b.
     if bootSelectionReferences b candidate then io_ok False
     else io_bind (io_lift (GenerationDir (ae_root ae) candidate)) (\<lambda>_.
       io_bind (io_lift (generation_key (ae_root ae) candidate)) (discard_unselected ae candidate))))"

definition render_recovered :: "time \<Rightarrow> OperationRecord \<Rightarrow> OperationRecord" where
  "render_recovered now r =
     op_Fail now ''agent stopped before configuration generation was committed''
       ''source generation is unchanged; submit a new configuration apply''
       (r\<lparr>or_RecoveryRequired := False, or_GenerationCommitState := GenerationCommitAbandoned\<rparr>)"

definition recover_render :: "agent_env \<Rightarrow> time \<Rightarrow> string \<Rightarrow> (agent, unit) io" where
  "recover_render ae now ident =
     io_bind (on_ops (Store_Read (ae_op ae) ident)) (\<lambda>r.
     if \<not> interruptedConfigRender r then io_ok ()
     else io_bind (on_node (discard_candidate ae (or_CandidateGenerationID r))) (\<lambda>gone.
       if \<not> gone then io_ok ()
       else io_bind (on_ops (Store_Update (ae_op ae) ident ''config-apply-interrupted-render-recovered'' ''config-apply-recovery''
                       (\<lambda>current. Inr (render_recovered now current)))) (\<lambda>_. io_ok ())))"

definition recoverInterruptedConfigApplies :: "agent_env \<Rightarrow> time \<Rightarrow> (agent, unit) io" where
  "recoverInterruptedConfigApplies ae now =
     io_then (on_ops AcquireMutationLock)
       (io_bind (on_ops (with_ids io_ok)) (io_each (recover_render ae now)))"

section \<open>Startup\<close>

text \<open>The steps of \<open>Serve\<close> before requests are served; an error of the last one is only logged.\<close>

definition startup :: "agent_env \<Rightarrow> (agent, unit) io" where
  "startup ae =
     io_then (recoverLivePromotions ae)
     (io_bind (on_ops (AuditStartup ae (ae_now ae))) (\<lambda>_.
      io_bind (io_catch (recoverInterruptedConfigApplies ae (ae_now ae))) (\<lambda>_. io_ok ())))"

end
