(* ===== verification/AgentRuns.thy ===== *)
theory AgentRuns
  imports AgentRecovery
begin

text \<open>
  The agent as a transition system over both stores. Every step keeps the records of the generations valid, the
  journals of the operations well formed, the resource locks of unfinished operations disjoint and request identifiers
  unique. The recoveries at startup are steps like any other.
\<close>

section \<open>Frames of the generation store\<close>

lemma gen_at_paths [simp]: "gen_at (add_paths ps s) g = gen_at s g" "nd_selection (add_paths ps s) = nd_selection s"
  by (simp_all add: add_paths_def gen_at_def)

lemma ok_read: "io_rel (keeps I) (io_bind (io_get f) io_lift)"
  by (intro keeps.rel_rules)

lemma ok_WriteEntry: "io_rel (keeps (store_ok env)) (WriteEntry ae bootRoot request)"
  unfolding WriteEntry_def by (intro keeps.rel_rules ok_syscall_other) simp_all

lemma ok_write_entry_mounting: "io_rel (keeps (store_ok env)) (write_entry_mounting ae bootRoot request)"
  unfolding write_entry_mounting_def by (intro keeps.rel_rules ok_WriteEntry)

lemma ok_writeCandidateLoaderEntry: "io_rel (keeps (store_ok env)) (writeCandidateLoaderEntry ae candidate)"
  unfolding writeCandidateLoaderEntry_def Let_def by (intro keeps.rel_rules ok_read ok_write_entry_mounting)

lemma ok_agent_promote: "io_rel (keeps (store_ok (ae_env ae))) (agent_promoteLiveGeneration ae r now reason)"
  unfolding agent_promoteLiveGeneration_def
  by (intro keeps.rel_rules ok_read ok_writeCandidateLoaderEntry ok_PromoteLive)

lemma ok_restore_selection: "io_rel (keeps (store_ok env)) (restore_selection root previous what e)"
  unfolding restore_selection_def by (intro keeps.rel_rules ok_WriteBootSelection)

lemma ok_commitTrial: "io_rel (keeps (store_ok (ae_env ae))) (commitTrialGeneration ae r now reason)"
  unfolding commitTrialGeneration_def Let_def
  by (intro keeps.rel_rules ok_read ok_writeCandidateLoaderEntry ok_WriteBootSelection ok_setter ok_restore_selection
      ok_WriteGenerationStatus)

lemma ok_abandon: "io_rel (keeps (store_ok (ae_env ae))) (abandonCandidateGeneration ae candidate operationID reason now)"
  unfolding abandonCandidateGeneration_def by (intro keeps.rel_rules ok_WriteGenerationStatus)

lemma ok_live_apply: "io_rel (keeps I) (live_apply ae r spec)"
  unfolding live_apply_def by (intro keeps.rel_rules ok_read)

lemma gen_at_drop: "gen_at (drop_gen g s) h = (if h = g then empty_gen else gen_at s h)"
  by (simp add: drop_gen_def gen_at_def delete_conv)

lemma ok_drop: "io_rel (keeps (store_ok env)) (syscall (drop_gen g))"
  by (rule syscall_rel) (simp_all add: keeps_def store_ok_def selection_ok_def gens_ok_def gen_at_drop drop_gen_def [THEN arg_cong, of nd_selection])

lemma ok_remove_all: "io_rel (keeps (store_ok env)) (remove_all g)"
  unfolding remove_all_def by (intro keeps.rel_rules ok_syscall_gen ok_drop) (simp_all add: gen_ok_def)

lemma ok_sync: "io_rel (keeps (store_ok env)) sync_dir"
  unfolding sync_dir_def by (rule ok_syscall_other) simp_all

lemma ok_discard: "io_rel (keeps (store_ok (ae_env ae))) (discard_candidate ae candidate)"
  unfolding discard_candidate_def discard_unselected_def by (intro keeps.rel_rules ok_read ok_Remove ok_remove_all ok_sync)

section \<open>Frames of the operation store\<close>

lemma admits_call: "io_rel (admits oe) (opcall (upd_op g (\<lambda>d. d\<lparr>od_identity := b\<rparr>)))" "io_rel (admits oe) (opcall (\<lambda>s. s))"
  by (rule admits_of_calm; (rule calm_opcall_upd calm_noop rooted_simple; simp?))+

lemma admits_Read: "io_rel (admits oe) (Store_Read oe' ident)"
  by (rule admits_of_calm [OF calm_Read rooted_Read])

lemma admits_ids: "(\<And>ids. io_rel (admits oe) (f ids)) \<Longrightarrow> io_rel (admits oe) (with_ids f)"
  unfolding with_ids_def by (intro admit.rel_rules)

lemma admits_RemoveStaged: "io_rel (admits oe) (removeOperationKubernetesIdentity ident)"
  unfolding removeOperationKubernetesIdentity_def RemoveStaged_def by (intro admit.rel_rules admits_call)

lemma admits_updated_or: "io_rel (admits oe) (updated_or cleanup r)"
  unfolding updated_or_def by (intro admit.rel_rules)

lemma op_Fail_admission:
  "or_ResourceLocks (op_Fail now reason hint b) = or_ResourceLocks b"
  "or_ClientRequestID (op_Fail now reason hint b) = or_ClientRequestID b"
  "or_RequestDigest (op_Fail now reason hint b) = or_RequestDigest b"
  by (simp_all add: op_Fail_def Let_def)

lemmas admission_simps = same_admission_def op_Fail_admission not_dispatched_def failed_phase_def
  not_started_def promotion_failed_def render_recovered_def

lemma admits_marks:
  "io_rel (admits (ae_op ae)) (markDispatchFailed ae ident e)"
  "io_rel (admits (ae_op ae)) (markMaterializationFailed ae ident e)"
  "io_rel (admits (ae_op ae)) (failRecordPhase ae ident eventID eventType phase nextAction e)"
  unfolding markDispatchFailed_def markMaterializationFailed_def failRecordPhase_def Let_def
  by (intro admit.rel_rules admits_RemoveStaged admits_Update admits_updated_or; auto simp: admission_simps)+

lemma admits_unhandled: "io_rel (admits (ae_op ae)) (recordUnhandledExecutionFailure ae ident e)"
  unfolding recordUnhandledExecutionFailure_def by (intro admit.rel_rules admits_Read admits_marks)

lemma admits_complete:
  "io_rel (admits (ae_op ae)) (completeConfigApply ae ident spec status now)"
  "io_rel (admits (ae_op ae)) (recordHealthyKubeadmUpgrade ae ident now)"
  unfolding completeConfigApply_def recordHealthyKubeadmUpgrade_def
  by (intro admit.rel_rules admits_Update;
      auto simp: same_admission_def config_applied_def healthy_upgrade_def CompleteBootTrial_def CompleteLiveGeneration_def
        completeGeneration_def fail_def Let_def split: option.splits)+

lemma reconciled_admission: "same_admission a (reconciled now class a)"
  by (simp add: same_admission_def reconciled_def Let_def)

lemma admits_ReconcileBoot: "io_rel (admits oe) (Store_ReconcileBoot oe now bootID live)"
  unfolding Store_ReconcileBoot_def reconcile_one_def reconcileStaleRecord_def Let_def
  by (intro admit.rel_rules admits_Read admits_Update) (auto simp: reconciled_admission)

lemma admits_finish: "io_rel (admits (ae_op ae)) (finish_interrupted ae now entry)"
  unfolding finish_interrupted_def by (intro admit.rel_rules admits_Read admits_Update) (auto simp: admission_simps)

lemma admits_not_started: "io_rel (admits (ae_op ae)) (fail_not_started ae now errors ids)"
  by (induction ids arbitrary: errors)
     (auto intro!: admit.rel_rules admits_Read admits_RemoveStaged admits_Update simp: admission_simps Let_def)

lemma admits_AuditStartup: "io_rel (admits (ae_op ae)) (AuditStartup ae now)"
  unfolding AuditStartup_def failAcceptedButNotStarted_def Let_def
  by (intro admit.rel_rules admits_ReconcileBoot admits_finish admits_ids admits_not_started)

lemma admits_lock: "io_rel (admits oe) AcquireMutationLock"
  unfolding AcquireMutationLock_def by (intro admit.rel_rules admits_call)

lemma admits_marker: "io_rel (admits oe) (Store_AddPreExecMutationMarker oe ident marker)"
  unfolding Store_AddPreExecMutationMarker_def
  by (rule admits_Update) (auto simp: add_marker_def Let_def res_need_def same_admission_def split: option.splits)

lemma rooted_attachment: "io_rel (keeps rooted) (write_attachment g name content)" "io_rel (keeps rooted) (remove_attachment g name)"
  unfolding write_attachment_def remove_attachment_def by (intro keeps.rel_rules rooted_simple)+

lemma admits_artifact: "io_rel (admits oe) (Store_AddDiagnosticArtifact oe ident artifactID content now)"
  unfolding Store_AddDiagnosticArtifact_def Let_def
  by (intro admit.rel_rules admits_Read admits_Update admits_of_calm [OF calm_attachment(1) rooted_attachment(1)]
        admits_of_calm [OF calm_attachment(2) rooted_attachment(2)])
     (auto simp: add_artifact_def same_admission_def fail_def split: if_splits)

section \<open>Both stores\<close>

interpretation both: agent_frame "keeps (store_ok env)" "admits oe"
  by unfold_locales

definition agent_keeps :: "agent_env \<Rightarrow> agent \<Rightarrow> agent \<Rightarrow> bool" where
  "agent_keeps ae = agent_rel (keeps (store_ok (ae_env ae))) (admits (ae_op ae))"

lemmas agent_rules = both.pair.rel_rules both.on_node_rel both.on_ops_rel

lemma keeps_recoverLivePromotion: "io_rel (agent_keeps ae) (recoverLivePromotion ae r spec)"
  unfolding recoverLivePromotion_def Let_def agent_keeps_def
  by (intro agent_rules ok_live_apply ok_agent_promote ok_WriteConfigApplyStatus admits_complete)

lemma keeps_recover_promotion: "io_rel (agent_keeps ae) (recover_promotion ae ident)"
  unfolding recover_promotion_def
  using keeps_recoverLivePromotion [of ae] unfolding agent_keeps_def
  by (intro agent_rules keeps.rel_pure admits_Read admits_Update) (auto simp: admission_simps)

lemma keeps_recoverLivePromotions: "io_rel (agent_keeps ae) (recoverLivePromotions ae)"
  unfolding recoverLivePromotions_def using keeps_recover_promotion [of ae] unfolding agent_keeps_def
  by (intro agent_rules admits_ids admit.rel_pure) auto

lemma keeps_recover_render: "io_rel (agent_keeps ae) (recover_render ae now ident)"
  unfolding recover_render_def agent_keeps_def
  by (intro agent_rules ok_discard admits_Read admits_Update) (auto simp: admission_simps)

lemma keeps_recoverInterrupted: "io_rel (agent_keeps ae) (recoverInterruptedConfigApplies ae now)"
  unfolding recoverInterruptedConfigApplies_def using keeps_recover_render [of ae now] unfolding agent_keeps_def
  by (intro agent_rules admits_lock admits_ids admit.rel_pure) auto

lemma keeps_startup: "io_rel (agent_keeps ae) (startup ae)"
  unfolding startup_def
  using keeps_recoverLivePromotions [of ae] keeps_recoverInterrupted [of ae] unfolding agent_keeps_def
  by (intro agent_rules admits_AuditStartup) auto

section \<open>Histories of an agent\<close>

text \<open>
  The executor updates records while an operation runs. What it writes is not modelled: \<open>ops_update\<close> allows every function that keeps the
  locks, the request identifier and the request digest of a record, fields that no update of the agent assigns. A step on one store is a step of the agent, as is a change of the
  fault schedules.
\<close>

inductive ops_step :: "agent_env \<Rightarrow> op_store \<Rightarrow> op_store \<Rightarrow> bool" for ae where
  ops_faults: "ops_step ae s (s\<lparr>os_faults := fs\<rparr>)"
| ops_submit: "acceptOperation ae q digest s = (r, t) \<Longrightarrow> ops_step ae s t"
| ops_dispatch: "markDispatchFailed ae ident e s = (u, t) \<Longrightarrow> ops_step ae s t"
| ops_materialize: "markMaterializationFailed ae ident e s = (u, t) \<Longrightarrow> ops_step ae s t"
| ops_update: "(\<And>a b. mutate a = Inr b \<Longrightarrow> same_admission a b) \<Longrightarrow>
    Store_Update (ae_op ae) ident eventID eventType mutate s = (u, t) \<Longrightarrow> ops_step ae s t"
| ops_marker: "Store_AddPreExecMutationMarker (ae_op ae) ident marker s = (u, t) \<Longrightarrow> ops_step ae s t"
| ops_artifact: "Store_AddDiagnosticArtifact (ae_op ae) ident artifactID content now s = (u, t) \<Longrightarrow> ops_step ae s t"
| ops_fail: "failRecordPhase ae ident eventID eventType phase hint e s = (u, t) \<Longrightarrow> ops_step ae s t"
| ops_unhandled: "recordUnhandledExecutionFailure ae ident e s = (v, t) \<Longrightarrow> ops_step ae s t"

inductive agent_step :: "env \<Rightarrow> op_env \<Rightarrow> agent \<Rightarrow> agent \<Rightarrow> bool" for env oe where
  agent_node: "node_step env (ag_node s) n \<Longrightarrow> agent_step env oe s (s\<lparr>ag_node := n\<rparr>)"
| agent_ops: "ae_op ae = oe \<Longrightarrow> ops_step ae (ag_ops s) q \<Longrightarrow> agent_step env oe s (s\<lparr>ag_ops := q\<rparr>)"
| agent_promote: "ae_env ae = env \<Longrightarrow> agent_promoteLiveGeneration ae r now reason (ag_node s) = (v, n) \<Longrightarrow>
    agent_step env oe s (s\<lparr>ag_node := n\<rparr>)"
| agent_trial: "ae_env ae = env \<Longrightarrow> commitTrialGeneration ae r now reason (ag_node s) = (v, n) \<Longrightarrow>
    agent_step env oe s (s\<lparr>ag_node := n\<rparr>)"
| agent_abandon: "ae_env ae = env \<Longrightarrow> abandonCandidateGeneration ae g ident reason now (ag_node s) = (v, n) \<Longrightarrow>
    agent_step env oe s (s\<lparr>ag_node := n\<rparr>)"
| agent_startup: "ae_env ae = env \<Longrightarrow> ae_op ae = oe \<Longrightarrow> startup ae s = (v, t) \<Longrightarrow> agent_step env oe s t"

inductive_cases ops_stepE: "ops_step ae s t"
inductive_cases agent_stepE: "agent_step env oe s t"

lemma ops_step_admits: "ops_step ae s t \<Longrightarrow> admits (ae_op ae) s t"
proof (erule ops_stepE)
  fix ident eventID eventType mutate u
  assume "\<And>a b. mutate a = Inr b \<Longrightarrow> same_admission a b"
    and u: "Store_Update (ae_op ae) ident eventID eventType mutate s = (u, t)"
  then have "io_rel (admits (ae_op ae)) (Store_Update (ae_op ae) ident eventID eventType mutate)" by (intro admits_Update)
  then show ?thesis using u by (rule io_relD)
next
  fix fs assume "t = s\<lparr>os_faults := fs\<rparr>"
  then show ?thesis by (simp add: calm_admits)
qed (erule io_relD [rotated], rule admits_acceptOperation admits_marks admits_marker admits_artifact admits_unhandled)+

definition agent_ok :: "env \<Rightarrow> op_env \<Rightarrow> agent \<Rightarrow> bool" where
  "agent_ok env oe s \<longleftrightarrow> store_ok env (ag_node s) \<and> admitted oe (ag_ops s)"

lemma agent_rel_node: "keeps (store_ok env) (ag_node s) n \<Longrightarrow> agent_rel (keeps (store_ok env)) (admits oe) s (s\<lparr>ag_node := n\<rparr>)"
  by (simp add: agent_rel_def admit.frame_refl)

lemma agent_rel_call:
  "io_rel (keeps (store_ok env)) m \<Longrightarrow> m (ag_node s) = (v, n) \<Longrightarrow>
   agent_rel (keeps (store_ok env)) (admits oe) s (s\<lparr>ag_node := n\<rparr>)"
  by (rule agent_rel_node) (rule io_relD)

lemma agent_step_rel: "agent_step env oe s t \<Longrightarrow> agent_rel (keeps (store_ok env)) (admits oe) s t"
proof (erule agent_stepE)
  fix n assume "t = s\<lparr>ag_node := n\<rparr>" "node_step env (ag_node s) n"
  then show ?thesis using node_step_ok agent_rel_node by (auto simp: keeps_def)
next
  fix ae q assume "t = s\<lparr>ag_ops := q\<rparr>" "ae_op ae = oe" "ops_step ae (ag_ops s) q"
  then show ?thesis using ops_step_admits by (auto simp: agent_rel_def keeps_def)
next
  fix ae v assume "ae_env ae = env" "ae_op ae = oe" "startup ae s = (v, t)"
  then show ?thesis using io_relD [OF keeps_startup] by (auto simp: agent_keeps_def)
qed (hypsubst, erule agent_rel_call [rotated], rule ok_agent_promote ok_commitTrial ok_abandon)+

lemma agent_rel_ok: "agent_rel (keeps (store_ok env)) (admits oe) s t \<Longrightarrow> agent_ok env oe s \<Longrightarrow> agent_ok env oe t"
  using admitsD(1) by (auto simp: agent_rel_def agent_ok_def keeps_def)

interpretation histories: step_system "agent_rel (keeps (store_ok env)) (admits oe)" "agent_step env oe" "agent_ok env oe"
  by unfold_locales (auto intro: agent_step_rel agent_rel_ok both.pair.frame_refl both.pair.frame_trans)

end
