(* ===== verification/AgentRecoveryFacts.thy ===== *)
theory AgentRecoveryFacts
  imports AgentRuns
begin

text \<open>
  What the recoveries at startup do to each operation and to the generations: the outcome of the audit record by
  record, which operations it leaves unfinished, and that a discarded render was never selected for boot.
\<close>

section \<open>Loops over operations\<close>

text \<open>A step that turns the last record of one operation into another and leaves the other operations alone.\<close>

definition changes_op :: "op_env \<Rightarrow> string \<Rightarrow> (OperationRecord \<Rightarrow> OperationRecord) \<Rightarrow> op_store \<Rightarrow> op_store \<Rightarrow> bool" where
  "changes_op oe g f s t \<longleftrightarrow>
     ops_ok oe t \<and> recorded t g \<and> last_record t g = f (last_record s g) \<and> (\<forall>h. h \<noteq> g \<longrightarrow> op_events t h = op_events s h)"

lemma changes_calm: "ops_ok oe s \<Longrightarrow> calm s t \<Longrightarrow> recorded s g \<Longrightarrow> f (last_record s g) = last_record s g \<Longrightarrow> changes_op oe g f s t"
  using ops_ok_calm by (auto simp: changes_op_def calm_last)

lemma changes_after_calm: "calm s u \<Longrightarrow> changes_op oe g f u t \<Longrightarrow> changes_op oe g f s t"
  by (simp add: changes_op_def calm_last)

lemma events_last: "op_events t h = op_events s h \<Longrightarrow> last_record t h = last_record s h \<and> recorded t h = recorded s h"
  by (simp add: last_record_def recorded_def)

lemma Update_changes:
  assumes "ops_ok oe s" "operationDir g = Inr g" "Store_Update oe g eventID eventType (\<lambda>a. Inr (f a)) s = (Inr r, t)"
  shows "changes_op oe g (\<lambda>a. stamp_next oe a (f a)) s t"
proof -
  have "ops_ok oe t" using io_relD [OF advances_Update assms(3)] assms(1) by (simp add: advances_def)
  moreover from Update_acknowledged [OF assms(1,3)] assms(2) have
    "r = stamp_next oe (last_record s g) (f (last_record s g))"
    "op_events t = (op_events s)(g := op_events s g @ [update_event eventID eventType r])"
    by (auto simp: last_record_def)
  ultimately show ?thesis by (auto simp: changes_op_def recorded_def last_record_def)
qed

lemma each_changes:
  assumes "io_each m xs s = (Inr u, t)" "ops_ok oe s" "distinct (map key xs)" "\<forall>x \<in> set xs. recorded s (key x)"
    "\<And>x s t v. x \<in> set xs \<Longrightarrow> ops_ok oe s \<Longrightarrow> recorded s (key x) \<Longrightarrow> m x s = (Inr v, t) \<Longrightarrow> changes_op oe (key x) (f x) s t"
  shows "ops_ok oe t \<and> (\<forall>x \<in> set xs. recorded t (key x) \<and> last_record t (key x) = f x (last_record s (key x))) \<and>
    (\<forall>h. h \<notin> key ` set xs \<longrightarrow> op_events t h = op_events s h)"
  using assms
proof (induction xs arbitrary: s)
  case (Cons x xs)
  from Cons.prems(1) obtain v w where x: "m x s = (Inr v, w)" and rest: "io_each m xs w = (Inr u, t)"
    by (auto simp: io_run)
  have ch: "changes_op oe (key x) (f x) s w" using Cons.prems(2,4) x by (intro Cons.prems(5)) auto
  have other: "op_events w h = op_events s h" if "h \<noteq> key x" for h using ch that by (simp add: changes_op_def)
  have keys: "key y \<noteq> key x" if "y \<in> set xs" for y using Cons.prems(3) that by (auto simp: image_iff)
  have kept: "last_record w (key y) = last_record s (key y)" "recorded w (key y)" if "y \<in> set xs" for y
    using events_last [OF other [OF keys [OF that]]] Cons.prems(4) that by simp_all
  have w: "ops_ok oe w" "distinct (map key xs)" "\<forall>y \<in> set xs. recorded w (key y)"
    using ch Cons.prems(3) kept(2) by (simp_all add: changes_op_def)
  have ih: "ops_ok oe t \<and> (\<forall>y \<in> set xs. recorded t (key y) \<and> last_record t (key y) = f y (last_record w (key y))) \<and>
    (\<forall>h. h \<notin> key ` set xs \<longrightarrow> op_events t h = op_events w h)"
    by (rule Cons.IH [OF rest w]) (rule Cons.prems(5); simp)
  have "op_events t (key x) = op_events w (key x)" using ih Cons.prems(3) by simp
  then have "recorded t (key x) \<and> last_record t (key x) = f x (last_record s (key x))"
    using events_last [of t "key x" w] ch by (simp add: changes_op_def)
  with ih kept(1) other show ?case by simp
qed (simp add: io_run)

section \<open>The audit, record by record\<close>

definition finished_record :: "agent_env \<Rightarrow> time \<Rightarrow> string \<Rightarrow> OperationRecord \<Rightarrow> OperationRecord" where
  "finished_record ae now class a =
     (if (class = StalePostMutation \<or> class = StaleAmbiguous) \<and> \<not> or_Terminal a \<and> bootstrapInvocationComplete a
      then stamp_next (ae_op ae) a (op_Fail now ''bootstrap health wait interrupted''
        ''retry the unchanged bootstrap or node join command to validate its recorded startup and continue'' a)
      else a)"

definition unstarted_record :: "agent_env \<Rightarrow> time \<Rightarrow> OperationRecord \<Rightarrow> OperationRecord" where
  "unstarted_record ae now a =
     (if accepted_not_started a then stamp_next (ae_op ae) a (not_started ae now (Inr ()) a) else a)"

definition audit_running :: "agent_env \<Rightarrow> OperationRecord \<Rightarrow> bool" where
  "audit_running ae a \<longleftrightarrow> left_running (TrimSpace (ae_boot_id ae)) (Some (liveAgentInvocation ae)) a"

definition audited_record :: "agent_env \<Rightarrow> time \<Rightarrow> OperationRecord \<Rightarrow> OperationRecord" where
  "audited_record ae now a =
     unstarted_record ae now
       (if audit_running ae a
        then finished_record ae now (ClassifyStale a) (boot_record (ae_op ae) now a) else a)"

lemma finish_changes:
  assumes "ops_ok (ae_op ae) s" "recorded s (ro_OperationID entry)" "finish_interrupted ae now entry s = (Inr u, t)"
  shows "changes_op (ae_op ae) (ro_OperationID entry) (finished_record ae now (ro_StaleClass entry)) s t"
proof (cases "ro_StaleClass entry = StalePostMutation \<or> ro_StaleClass entry = StaleAmbiguous")
  case False
  with assms show ?thesis by (auto simp: finish_interrupted_def io_run finished_record_def intro!: changes_calm calm.frame_refl)
next
  case True
  let ?g = "ro_OperationID entry"
  have dir: "operationDir ?g = Inr ?g" using recorded_owner [OF assms(1,2)] by simp
  from True assms(3) obtain r v where rd: "Store_Read (ae_op ae) ?g s = (Inr r, v)"
    and rest: "io_when (\<not> or_Terminal r \<and> bootstrapInvocationComplete r)
          (io_bind (Store_Update (ae_op ae) (or_OperationID r) ''bootstrap-wait-interrupted'' ''bootstrap-wait-interrupted''
             (\<lambda>next. Inr (op_Fail now ''bootstrap health wait interrupted''
                ''retry the unchanged bootstrap or node join command to validate its recorded startup and continue'' next)))
             (\<lambda>_. io_ok ())) v = (Inr u, t)"
    by (auto simp: finish_interrupted_def io_bind_Inr split: if_splits)
  note last = Read_last [OF assms(1) dir rd]
  have own: "or_OperationID r = ?g" using recorded_owner [OF assms(1,2)] last(2) by simp
  show ?thesis
  proof (cases "\<not> or_Terminal r \<and> bootstrapInvocationComplete r")
    case complete: True
    with rest own obtain b where "Store_Update (ae_op ae) ?g ''bootstrap-wait-interrupted'' ''bootstrap-wait-interrupted''
             (\<lambda>next. Inr (op_Fail now ''bootstrap health wait interrupted''
                ''retry the unchanged bootstrap or node join command to validate its recorded startup and continue'' next)) v = (Inr b, t)"
      by (auto simp: io_when_Inr io_bind_Inr io_ok_run)
    from changes_after_calm [OF last(3) Update_changes [OF last(4) dir this]] complete True last(2) show ?thesis
      by (simp add: changes_op_def finished_record_def)
  next
    case False
    with rest have "t = v" by (auto simp: io_when_Inr)
    with last False assms(1,2) show ?thesis
      by (intro changes_calm) (auto simp: finished_record_def)
  qed
qed

lemma RemoveStaged_calm: "io_rel calm (removeOperationKubernetesIdentity ident)"
  unfolding removeOperationKubernetesIdentity_def RemoveStaged_def
  by (intro calm.rel_rules calm_opcall_upd calm_noop) simp

lemma errorsJoin_None: "errorsJoin es = None \<longleftrightarrow> (\<forall>e \<in> set es. e = None)"
  by (induction es) (auto simp: errorsJoin_def List.map_filter_def split: list.splits option.splits)

definition unstarted_update :: "agent_env \<Rightarrow> time \<Rightarrow> string \<Rightarrow> unit res \<Rightarrow> (op_store, OperationRecord) io" where
  "unstarted_update ae now g cleanup =
     Store_Update (ae_op ae) g ''startup-audit-not-started'' ''startup-audit-not-started'' (\<lambda>next. Inr (not_started ae now cleanup next))"

lemma fail_not_started_step:
  assumes "fail_not_started ae now errors (g # ids) s = (Inr u, t)"
  obtains (skip) r v where "Store_Read (ae_op ae) g s = (Inr r, v)" "\<not> accepted_not_started r"
      "fail_not_started ae now errors ids v = (Inr u, t)"
    | (update) r v c x b w where "Store_Read (ae_op ae) g s = (Inr r, v)" "accepted_not_started r"
      "removeOperationKubernetesIdentity (or_OperationID r) v = (c, x)"
      "unstarted_update ae now (or_OperationID r) c x = (Inr b, w)"
      "fail_not_started ae now (if isl c then errorsJoin [errors, error_of c] else errors) ids w = (Inr u, t)"
proof -
  from assms obtain r v where rd: "Store_Read (ae_op ae) g s = (Inr r, v)" by (auto simp: io_run)
  show thesis
  proof (cases "accepted_not_started r")
    case False
    with assms rd show thesis by (intro skip [of r v]) (auto simp: io_bind_def)
  next
    case True
    obtain c x where c: "removeOperationKubernetesIdentity (or_OperationID r) v = (c, x)" by fastforce
    obtain b w where b: "unstarted_update ae now (or_OperationID r) c x = (b, w)" by fastforce
    from assms rd True c b show thesis
      by (cases b) (auto simp: io_bind_def io_catch_def Let_def unstarted_update_def io_need_Inr errorsJoin_None intro: update)
  qed
qed

lemma fail_not_started_errors: "fail_not_started ae now errors ids s = (Inr u, t) \<Longrightarrow> errors = None"
proof (induction ids arbitrary: errors s)
  case (Cons g ids)
  from Cons.prems show ?case
  proof (cases rule: fail_not_started_step)
    case (update r v c x b w)
    from Cons.IH [OF update(5)] show ?thesis by (auto simp: errorsJoin_None split: if_splits)
  qed (rule Cons.IH)
qed (simp add: io_run)

lemma unstarted_changes:
  assumes "fail_not_started ae now None ids s = (Inr u, t)" "ops_ok (ae_op ae) s" "distinct ids"
    "\<forall>g \<in> set ids. operationDir g = Inr g"
  shows "ops_ok (ae_op ae) t \<and> (\<forall>g \<in> set ids. recorded s g \<and> recorded t g \<and> last_record t g = unstarted_record ae now (last_record s g)) \<and>
    (\<forall>h. h \<notin> set ids \<longrightarrow> op_events t h = op_events s h)"
  using assms
proof (induction ids arbitrary: s)
  case (Cons g ids)
  have dir: "operationDir g = Inr g" using Cons.prems(4) by simp
  from Cons.prems(1) obtain w where ch: "changes_op (ae_op ae) g (unstarted_record ae now) s w" and rest: "fail_not_started ae now None ids w = (Inr u, t)"
  proof (cases rule: fail_not_started_step)
    case (skip r v)
    note last = Read_last [OF Cons.prems(2) dir skip(1)]
    with skip Cons.prems(2) show thesis by (intro that [of v] changes_calm) (auto simp: unstarted_record_def)
  next
    case (update r v c x b w)
    note last = Read_last [OF Cons.prems(2) dir update(1)]
    have own: "or_OperationID r = g" using recorded_owner [OF Cons.prems(2) last(1)] last(2) by simp
    have ok: "c = Inr ()" using fail_not_started_errors [OF update(5)]
      by (cases c) (auto simp: errorsJoin_None error_of_def)
    have vx: "calm v x" using io_relD [OF RemoveStaged_calm update(3)] .
    from update(4) have "changes_op (ae_op ae) g (\<lambda>a. stamp_next (ae_op ae) a (not_started ae now (Inr ()) a)) x w"
      unfolding own ok unstarted_update_def by (rule Update_changes [OF ops_ok_calm [OF last(4) vx] dir])
    from changes_after_calm [OF last(3) changes_after_calm [OF vx this]]
    have "changes_op (ae_op ae) g (unstarted_record ae now) s w"
      using update(2) last(2) by (simp add: changes_op_def unstarted_record_def)
    moreover have "fail_not_started ae now None ids w = (Inr u, t)" using update(5) ok by simp
    ultimately show thesis by (rule that)
  qed
  have other: "op_events w h = op_events s h" if "h \<noteq> g" for h using ch that by (simp add: changes_op_def)
  have keys: "h \<noteq> g" if "h \<in> set ids" for h using Cons.prems(3) that by auto
  have "ops_ok (ae_op ae) w" "distinct ids" "\<forall>g \<in> set ids. operationDir g = Inr g" using ch Cons.prems(3,4) by (auto simp: changes_op_def)
  note ih = Cons.IH [OF rest this]
  have "op_events t g = op_events w g" using ih Cons.prems(3) by simp
  moreover have "recorded s g" using Cons.prems(1)
    by (cases rule: fail_not_started_step) (use Read_last(1) [OF Cons.prems(2) dir] in blast)+
  ultimately have "recorded s g \<and> recorded t g \<and> last_record t g = unstarted_record ae now (last_record s g)"
    using events_last [of t g w] ch by (simp add: changes_op_def)
  moreover have "last_record w h = last_record s h \<and> recorded w h = recorded s h" if "h \<in> set ids" for h
    using events_last [OF other [OF keys [OF that]]] .
  ultimately show ?case using ih other by simp
qed (simp add: io_run)

lemma boot_entry_key:
  assumes "ops_ok oe s" "recorded s g"
  shows "ro_OperationID (boot_entry oe now bootID live (op_events s g)) = g"
proof -
  have "or_OperationID (last_record s g) = g" using recorded_owner [OF assms] by simp
  then show ?thesis
    by (simp add: boot_entry_def reconciled_entry_def boot_record_def last_record_def Let_def reconciled_def)
qed

lemma boot_events_last:
  "es \<noteq> [] \<Longrightarrow> je_Record (last (boot_events oe now bootID live es)) =
     (if left_running bootID live (je_Record (last es)) then boot_record oe now (je_Record (last es)) else je_Record (last es))"
  by (simp add: boot_events_def Let_def boot_event_def)

lemma finished_not_stale [simp]: "finished_record ae now StaleNotStale a = a"
  by (simp add: finished_record_def stale_names)

lemma AuditStartup_outcome:
  assumes "admitted (ae_op ae) s" "AuditStartup ae now0 s = (Inr report, t)" "recorded s g"
  shows "recorded t g \<and> last_record t g = audited_record ae (if now0 = 0 then oe_now (ae_op ae) else now0) (last_record s g)"
proof -
  let ?oe = "ae_op ae" and ?boot = "TrimSpace (ae_boot_id ae)" and ?live = "Some (liveAgentInvocation ae)"
  define now where "now = (if now0 = 0 then oe_now (ae_op ae) else now0)"
  from assms(2) obtain u v where rb: "Store_ReconcileBoot ?oe now (ae_boot_id ae) ?live s = (Inr report, u)"
    and ea: "io_each (finish_interrupted ae now) (rp_Operations report) u = (Inr (), v)"
    and fa: "failAcceptedButNotStarted ae now v = (Inr (), t)"
    by (auto simp: AuditStartup_def Let_def io_run now_def)
  have now: "(if now = 0 then oe_now ?oe else now) = now" by (simp add: now_def)
  note ok = admitted_ids [OF assms(1)]
  note re = ReconcileBoot_effect [OF ok(1) rb, unfolded now]
  let ?entry = "\<lambda>h. boot_entry ?oe now ?boot ?live (op_events s h)"
  have listed: "recorded s h" if "h \<in> set (listed s)" for h using re(3) [OF that] by (simp add: recorded_def)
  have key: "ro_OperationID (?entry h) = h" if "h \<in> set (listed s)" for h using boot_entry_key [OF ok(1) listed [OF that]] .
  have u: "recorded u h \<and> last_record u h = (if audit_running ae (last_record s h) then boot_record ?oe now (last_record s h) else last_record s h)"
    if "h \<in> set (listed s)" for h
    using re(3) [OF that] boot_events_last by (auto simp: recorded_def last_record_def audit_running_def boot_events_def Let_def)
  have v: "ops_ok ?oe v \<and> (\<forall>x \<in> set (rp_Operations report). recorded v (ro_OperationID x) \<and>
      last_record v (ro_OperationID x) = finished_record ae now (ro_StaleClass x) (last_record u (ro_OperationID x)))"
    using each_changes [OF ea re(1), where key = ro_OperationID and f = "\<lambda>x. finished_record ae now (ro_StaleClass x)"]
      finish_changes u key listed_ok(1) [OF ok(1)]
    by (simp add: re(2) distinct_map comp_def inj_on_def cong: map_cong)
  have g: "g \<in> set (listed s)" using ok(3) assms(3) by simp
  then have vg: "recorded v g" "last_record v g = finished_record ae now (ro_StaleClass (?entry g)) (last_record u g)"
    using v key by (auto simp: re(2))
  have adm: "admitted ?oe v"
  proof -
    have "admits ?oe s u" using io_relD [OF admits_ReconcileBoot rb] .
    moreover
    have "io_rel (admits ?oe) (io_each (finish_interrupted ae now) (rp_Operations report))"
      by (intro admit.rel_each admits_finish)
    then have "admits ?oe u v" using ea by (rule io_relD)
    ultimately show ?thesis using admitsD(1) assms(1) by blast
  qed
  note okv = admitted_ids [OF adm]
  from fa okv(1) have "fail_not_started ae now None (listed v) v = (Inr (), t)"
    by (simp add: failAcceptedButNotStarted_def with_ids_run)
  from unstarted_changes [OF this okv(1) listed_ok(1) [OF okv(1)] okv(2)] okv(3) [OF vg(1)]
  have "recorded t g" "last_record t g = unstarted_record ae now (last_record v g)" by auto
  moreover have "ro_StaleClass (?entry g) = (if audit_running ae (last_record s g) then ClassifyStale (last_record s g) else StaleNotStale)"
    by (simp add: boot_entry_def Let_def audit_running_def last_record_def reconciled_entry_def)
  ultimately show ?thesis using vg(2) u [OF g] by (simp add: audited_record_def now_def)
qed

section \<open>The audit in the fields of a record\<close>

text \<open>An invocation of this boot that has not completed and whose process answers a signal.\<close>

definition still_runs :: "agent_env \<Rightarrow> OperationRecord \<Rightarrow> bool" where
  "still_runs ae a \<longleftrightarrow>
     (\<exists>i \<in> set (or_Invocations a). TrimSpace (ae_boot_id ae) \<noteq> [] \<and> iv_BootID i = TrimSpace (ae_boot_id ae) \<and>
        iv_CompletedAt i = None \<and> (TrimSpace (iv_AgentStartID i) \<noteq> [] \<or> TrimSpace (iv_SystemdInvocationID i) \<noteq> []) \<and>
        0 < iv_PID i \<and> ae_signal ae (iv_PID i))"

text \<open>A bootstrap whose command had run and that was waiting for the health of the node.\<close>

definition waiting_bootstrap :: "OperationRecord \<Rightarrow> bool" where
  "waiting_bootstrap a \<longleftrightarrow>
     or_BootstrapRequest a \<noteq> None \<and> (\<exists>plan. or_ExecutorPlan a = Some plan \<and> ep_Phase plan \<in> set (or_CompletedPhases a)) \<and>
     or_Phase a \<in> {''configure-local-api-access'', ''post-kubeadm-health''} \<and>
     or_OperationKind a \<in> {''bootstrap-init'', ''bootstrap-join-worker'', ''bootstrap-join-control-plane''}"

lemma audit_running_iff: "audit_running ae a \<longleftrightarrow> \<not> or_Terminal a \<and> \<not> still_runs ae a"
  by (auto simp: audit_running_def left_running_def hasLiveInvocation_def still_runs_def live_candidate_def liveAgentInvocation_def
      given_def list_ex_iff)

lemma waiting_bootstrap_iff: "bootstrapInvocationComplete a = waiting_bootstrap a"
  by (auto simp: bootstrapInvocationComplete_def waiting_bootstrap_def bootstrapJoinOperation_def split: option.splits)

lemma boot_record_kept [simp]:
  "or_ExecutorPlan (boot_record oe now a) = or_ExecutorPlan a"
  "or_ExternalMutationStarted (boot_record oe now a) = or_ExternalMutationStarted a"
  "or_MutatingToolRan (boot_record oe now a) = or_MutatingToolRan a"
  "or_PreExecMutationMarkers (boot_record oe now a) = or_PreExecMutationMarkers a"
  "or_Invocations (boot_record oe now a) = or_Invocations a"
  "or_CompletedPhases (boot_record oe now a) = or_CompletedPhases a"
  "or_Interruption (boot_record oe now a) = ClassifyStale a"
  by (simp_all add: boot_record_def reconciled_def stamp_next_def Let_def)

lemma boot_record_waiting [simp]: "waiting_bootstrap (boot_record oe now a) = waiting_bootstrap a"
  by (simp add: waiting_bootstrap_def boot_record_def reconciled_def stamp_next_def Let_def)

lemma boot_record_repair:
  assumes "ClassifyStale a = StalePostMutation \<or> ClassifyStale a = StaleAmbiguous"
  shows "or_Terminal (boot_record oe now a) = or_Terminal a" "or_RecoveryRequired (boot_record oe now a)"
    "or_Result (boot_record oe now a) = ''failed-needs-repair''"
  using assms by (auto simp: boot_record_def reconciled_def stamp_next_def Let_def ResultFailedNeedsRepair_def)

lemma boot_record_finished:
  assumes "\<not> or_Terminal a" "or_Terminal (boot_record oe now a)"
  shows "ClassifyStale a = StaleHostOnly \<and> canCompleteHostBookkeeping a \<and> or_Result (boot_record oe now a) = ''succeeded''"
  using assms by (auto simp: boot_record_def reconciled_def stamp_next_def Let_def canCompleteHostBookkeeping_def ResultSucceeded_def split: if_splits)

lemma op_Fail_repair:
  "or_RecoveryRequired a \<Longrightarrow> or_RecoveryRequired (op_Fail now reason hint a) \<and> or_Result (op_Fail now reason hint a) = ''failed-needs-repair''"
  by (simp add: op_Fail_def Let_def ResultFailedNeedsRepair_def)

lemma audited_kept_running: "or_Terminal a \<or> still_runs ae a \<Longrightarrow> audited_record ae now a = a"
  by (auto simp: audited_record_def audit_running_iff unstarted_record_def accepted_not_started_def still_runs_def)

lemma finished_unstarted:
  "or_CompletedPhases a = [] \<Longrightarrow> finished_record ae now k a = a"
  by (simp add: finished_record_def waiting_bootstrap_iff waiting_bootstrap_def)

lemma audited_unstarted:
  assumes "\<not> or_Terminal a" "or_ExecutorPlan a \<noteq> None" "\<not> or_ExternalMutationStarted a" "\<not> or_MutatingToolRan a"
    "or_PreExecMutationMarkers a = []" "or_Invocations a = []" "or_PhaseIndex a = 0" "or_CompletedPhases a = []"
    and b: "b = audited_record ae now a"
  shows "or_Terminal b \<and> or_CompletedAt b = Some now \<and> or_Phase b = ''startup-audit-not-started'' \<and>
    or_Result b = ''failed-needs-repair'' \<and> or_RecoveryRequired b \<and>
    or_FailureReason b = en_redact (ae_env ae) ''agent stopped before executor start'' \<and>
    or_NextAction b = ''resubmit operation request; previous accepted attempt did not start''"
proof -
  let ?x = "boot_record (ae_op ae) now a"
  have "ClassifyStale a \<noteq> StaleHostOnly" using assms(7,8) by (simp add: ClassifyStale_def stale_names)
  then have "\<not> or_Terminal ?x" using boot_record_finished [of a "ae_op ae" now] assms(1) by blast
  then have "accepted_not_started ?x" using assms(2-6) by (simp add: accepted_not_started_def)
  moreover have "audit_running ae a" using assms(1,6) by (simp add: audit_running_iff still_runs_def)
  ultimately have "b = stamp_next (ae_op ae) ?x (not_started ae now (Inr ()) ?x)"
    using assms(8) unfolding b by (simp add: audited_record_def finished_unstarted unstarted_record_def)
  then show ?thesis by (simp add: stamp_next_def not_started_def ResultFailedNeedsRepair_def stopped_reason_def stopped_hint_def)
qed

lemma unstarted_repair:
  "or_RecoveryRequired a \<and> or_Result a = ''failed-needs-repair'' \<Longrightarrow>
   or_RecoveryRequired (unstarted_record ae now a) \<and> or_Result (unstarted_record ae now a) = ''failed-needs-repair''"
  by (simp add: unstarted_record_def stamp_next_def not_started_def ResultFailedNeedsRepair_def)

lemma finished_repair:
  "or_RecoveryRequired a \<and> or_Result a = ''failed-needs-repair'' \<Longrightarrow>
   or_RecoveryRequired (finished_record ae now k a) \<and> or_Result (finished_record ae now k a) = ''failed-needs-repair''"
  by (simp add: finished_record_def stamp_next_def op_Fail_repair)

lemma finished_interruption [simp]: "or_Interruption (unstarted_record ae now a) = or_Interruption a"
  "or_Interruption (finished_record ae now k a) = or_Interruption a"
  by (simp_all add: unstarted_record_def finished_record_def stamp_next_def not_started_def op_Fail_def Let_def)

lemma audited_mutated:
  assumes "\<not> or_Terminal a" "\<not> still_runs ae a"
    "or_ExternalMutationStarted a \<or> or_MutatingToolRan a \<or> or_PreExecMutationMarkers a \<noteq> [] \<or> or_MutationScopes a \<noteq> []"
    and b: "b = audited_record ae now a"
  shows "or_RecoveryRequired b \<and> or_Result b = ''failed-needs-repair'' \<and> or_Interruption b = ''stale-post-mutation'' \<and>
    (waiting_bootstrap a \<longrightarrow> or_Terminal b \<and> or_FailureReason b = ''bootstrap health wait interrupted'')"
proof -
  let ?x = "boot_record (ae_op ae) now a"
  have c: "ClassifyStale a = StalePostMutation" using assms(1,3) by (auto simp: ClassifyStale_def mutation_evidence_def)
  note x = boot_record_repair [OF disjI1 [OF c], of "ae_op ae" now]
  have r: "b = unstarted_record ae now (finished_record ae now StalePostMutation ?x)"
    using assms(1,2) unfolding b by (simp add: audited_record_def audit_running_iff c)
  have "or_Terminal b \<and> or_FailureReason b = ''bootstrap health wait interrupted''" if "waiting_bootstrap a"
    using that x(1) assms(1) unfolding r
    by (simp add: finished_record_def waiting_bootstrap_iff unstarted_record_def accepted_not_started_def stamp_next_def op_Fail_def Let_def)
  moreover have "or_RecoveryRequired b \<and> or_Result b = ''failed-needs-repair''"
    unfolding r by (intro unstarted_repair finished_repair) (use x in simp)
  ultimately show ?thesis using c unfolding r by (simp add: StalePostMutation_def)
qed

lemma audited_finished:
  assumes "\<not> or_Terminal a" and b: "b = audited_record ae now a" "or_Terminal b"
  shows "\<not> still_runs ae a \<and>
    (or_Result b = ''succeeded'' \<and> or_Resume a = ResumeHostBookkeeping \<and> or_OperationKind a = ''host-bookkeeping'' \<and>
       or_Scope a = ''host-generation'' \<and> or_Phase a = ''record-operation-complete'' \<and> \<not> or_ExternalMutationStarted a \<and>
       \<not> or_MutatingToolRan a \<and> or_MutatingToolInvocations a = [] \<and> or_PreExecMutationMarkers a = [] \<and> or_MutationScopes a = [] \<or>
     or_Result b = ''failed-needs-repair'' \<and> or_RecoveryRequired b \<and> or_ExecutorPlan a \<noteq> None \<and>
       (\<not> or_ExternalMutationStarted a \<and> \<not> or_MutatingToolRan a \<and> or_PreExecMutationMarkers a = [] \<and> or_Invocations a = [] \<or>
        waiting_bootstrap a))"
proof -
  let ?x = "boot_record (ae_op ae) now a"
  let ?y = "finished_record ae now (ClassifyStale a) ?x"
  have live: "\<not> still_runs ae a" using audited_kept_running [of a ae now] assms by auto
  have r: "b = unstarted_record ae now ?y" using assms(1) live unfolding b(1) by (simp add: audited_record_def audit_running_iff)
  consider (host) "or_Terminal ?x" | (wait) "\<not> or_Terminal ?x" "?y \<noteq> ?x" | (start) "\<not> or_Terminal ?x" "?y = ?x" by blast
  then show ?thesis
  proof cases
    case host
    then have "b = ?x" unfolding r by (simp add: finished_record_def unstarted_record_def accepted_not_started_def)
    with boot_record_finished [OF assms(1) host] live show ?thesis
      by (simp add: canCompleteHostBookkeeping_def HostBookkeepingCompletionPhase_def HostBookkeepingOperationKind_def HostBookkeepingGenerationScope_def)
  next
    case wait
    then have k: "ClassifyStale a = StalePostMutation \<or> ClassifyStale a = StaleAmbiguous" "waiting_bootstrap a"
      by (auto simp: finished_record_def waiting_bootstrap_iff split: if_splits)
    have "or_RecoveryRequired b \<and> or_Result b = ''failed-needs-repair''"
      unfolding r by (intro unstarted_repair finished_repair) (use boot_record_repair [OF k(1)] in simp)
    with k(2) live show ?thesis by (auto simp: waiting_bootstrap_def)
  next
    case start
    with b(2) r have "accepted_not_started ?x" by (auto simp: unstarted_record_def split: if_splits)
    with start r live show ?thesis
      by (simp add: unstarted_record_def accepted_not_started_def stamp_next_def not_started_def ResultFailedNeedsRepair_def)
  qed
qed

lemma audited_evidence:
  "or_Invocations (audited_record ae now a) = or_Invocations a" "or_CompletedPhases (audited_record ae now a) = or_CompletedPhases a"
  "or_ExecutorPlan (audited_record ae now a) = or_ExecutorPlan a"
  by (simp_all add: audited_record_def unstarted_record_def finished_record_def stamp_next_def not_started_def op_Fail_def Let_def)

section \<open>Requests that stay unfinished\<close>

text \<open>An operation without an executor plan that does no host bookkeeping is never finished by the audit.\<close>

lemma reconciled_kept: "or_ExecutorPlan (reconciled now class a) = or_ExecutorPlan a"
  by (simp add: reconciled_def Let_def)

lemma audited_unfinished:
  assumes "\<not> or_Terminal a" "or_ExecutorPlan a = None" "or_Scope a \<notin> {''host-generation'', ''install-state''}"
  shows "\<not> or_Terminal (audited_record ae now a)"
proof -
  have "ClassifyStale a \<noteq> StaleHostOnly" using assms(3) by (auto simp: ClassifyStale_def stale_names)
  then have b: "\<not> or_Terminal (boot_record (ae_op ae) now a)" "or_ExecutorPlan (boot_record (ae_op ae) now a) = None"
    using assms(1,2) by (auto simp: boot_record_def reconciled_def stamp_next_def Let_def)
  have "unstarted_record ae now x = x" if "or_ExecutorPlan x = None" for x
    using that by (simp add: unstarted_record_def accepted_not_started_def)
  moreover have "finished_record ae now k x = x" if "or_ExecutorPlan x = None" for x k
    using that by (simp add: finished_record_def bootstrapInvocationComplete_def)
  ultimately show ?thesis using assms(1,2) b by (simp add: audited_record_def)
qed

text \<open>
  A request that was accepted but got no executor plan is not finished by an audit: it stays as it is through any number of
  restarts, with its locks.
\<close>

definition audited :: "op_env \<Rightarrow> op_store \<Rightarrow> op_store \<Rightarrow> bool" where
  "audited oe s t \<longleftrightarrow> (\<exists>ae now report. ae_op ae = oe \<and> AuditStartup ae now s = (Inr report, t))"

definition stuck :: "op_store \<Rightarrow> string \<Rightarrow> bool" where
  "stuck s g \<longleftrightarrow> unfinished s g \<and> or_ExecutorPlan (last_record s g) = None \<and>
     or_Scope (last_record s g) \<notin> {''host-generation'', ''install-state''}"

lemma audited_kept:
  assumes "or_ExecutorPlan a = None"
  shows "or_ExecutorPlan (audited_record ae now a) = None \<and> or_Scope (audited_record ae now a) = or_Scope a"
proof -
  have b: "or_ExecutorPlan (boot_record (ae_op ae) now a) = None" "or_Scope (boot_record (ae_op ae) now a) = or_Scope a"
    using assms by (auto simp: boot_record_def reconciled_def stamp_next_def Let_def)
  show ?thesis
    using assms b
    by (simp add: audited_record_def unstarted_record_def finished_record_def accepted_not_started_def bootstrapInvocationComplete_def)
qed

lemma audited_stuck:
  assumes "audited oe s t" "admitted oe s" "stuck s g"
  shows "admitted oe t" "stuck t g" "or_ResourceLocks (last_record t g) = or_ResourceLocks (last_record s g)"
proof -
  from assms(1) obtain ae now report where oe: "ae_op ae = oe" and run: "AuditStartup ae now s = (Inr report, t)"
    by (auto simp: audited_def)
  have adm: "admits oe s t" using io_relD [OF admits_AuditStartup run] oe by simp
  from assms(3) have rec: "recorded s g" "\<not> or_Terminal (last_record s g)" "or_ExecutorPlan (last_record s g) = None"
    "or_Scope (last_record s g) \<notin> {''host-generation'', ''install-state''}"
    by (simp_all add: stuck_def unfinished_def)
  show "admitted oe t" using admitsD(1) [OF adm assms(2)] .
  show "or_ResourceLocks (last_record t g) = or_ResourceLocks (last_record s g)"
    using admitsD(2) [OF adm assms(2) rec(1)] by (simp add: same_admission_def)
  have out: "recorded t g" "last_record t g = audited_record ae (if now = 0 then oe_now (ae_op ae) else now) (last_record s g)"
    using AuditStartup_outcome [OF _ run rec(1)] assms(2) oe by simp_all
  show "stuck t g"
    unfolding stuck_def unfinished_def out(2)
    using out(1) audited_unfinished [OF rec(2-4)] audited_kept [OF rec(3)] rec(4) by simp
qed

lemma audits_stuck:
  assumes "(audited oe)\<^sup>*\<^sup>* s t" "admitted oe s" "stuck s g"
  shows "admitted oe t \<and> stuck t g \<and> or_ResourceLocks (last_record t g) = or_ResourceLocks (last_record s g)"
  using assms
proof (induction rule: rtranclp_induct)
  case (step t u)
  then have "admitted oe t" "stuck t g" "or_ResourceLocks (last_record t g) = or_ResourceLocks (last_record s g)" by simp_all
  with audited_stuck [OF step(2) this(1,2)] show ?case by simp
qed simp

lemma created_stuck:
  assumes "admitted (ae_op ae) s" "acceptOperation ae q digest s = (Inr (Created c), t)"
    "sq_OperationKind q \<in> {OperationKindDestructiveReset, OperationKindEtcdMemberRemove}"
  shows "admitted (ae_op ae) t" "stuck t (or_OperationID c)" "or_ResourceLocks (last_record t (or_OperationID c)) = resourceLocks (sq_OperationKind q)"
    "''generation-state.lock'' \<in> set (or_ResourceLocks (last_record t (or_OperationID c)))"
proof -
  from acceptOperation_created [OF assms(1,2)] obtain r0 where r: "submitted_record q r0"
    "c = new_record r0 (if ae_now ae = 0 then oe_now (ae_op ae) else ae_now ae)"
    "recorded t (or_OperationID c)" "last_record t (or_OperationID c) = c" "admitted (ae_op ae) t" .
  note new = submitted_new_record [OF r(1), of "if ae_now ae = 0 then oe_now (ae_op ae) else ae_now ae", folded r(2)]
  show "admitted (ae_op ae) t" by (rule r(5))
  show "or_ResourceLocks (last_record t (or_OperationID c)) = resourceLocks (sq_OperationKind q)" using r(4) new(1) by simp
  then show "''generation-state.lock'' \<in> set (or_ResourceLocks (last_record t (or_OperationID c)))"
    using assms(3) generation_lock [of "sq_OperationKind q"]
    by (auto simp: resourceLocks_def kubeadm_kinds_def OperationKindDestructiveReset_def OperationKindEtcdMemberRemove_def)
  have "TrimSpace ''destructive-reset'' = ''destructive-reset''" "TrimSpace ''etcd-state'' = ''etcd-state''" by code_simp+
  then have "or_Scope c \<notin> {''host-generation'', ''install-state''}"
    using assms(3) new(5)
    by (auto simp: operationScope_def kubeadm_kinds_def OperationKindDestructiveReset_def OperationKindEtcdMemberRemove_def)
  then show "stuck t (or_OperationID c)" unfolding stuck_def unfinished_def r(4) using r(3) new(2,4) by simp
qed

section \<open>What discarding a render leaves alone\<close>

text \<open>The boot selection stays, and so does every generation that one of its fields names.\<close>

definition spares_boot :: "BootSelectionRecord \<Rightarrow> node \<Rightarrow> node \<Rightarrow> bool" where
  "spares_boot b s t \<longleftrightarrow>
     nd_selection t = nd_selection s \<and> (\<forall>h. bootSelectionReferences b h \<longrightarrow> gen_at t h = gen_at s h)"

interpretation boot_spared: io_frame "spares_boot b"
  by unfold_locales (auto simp: spares_boot_def)

lemma bind_get: "io_bind (io_get f) k s = k (f s) s"
  by (simp add: io_bind_def io_get_def)

lemma bind_lift: "io_bind (io_lift (Inr x)) k s = k x s"
  by (simp add: io_bind_def io_lift_def)

lemma same_selection_remove: "io_rel same_selection (remove_generation root spec)"
  unfolding remove_generation_def rename_gen_def purge_tombstone_def
  by (intro same_selection.rel_rules same_selection_removeEntries same_selection_syscall) (simp_all add: hide_gen_def)

lemma remove_listed_selection:
  assumes "\<not> bootSelectionReferences b g"
  shows "io_rel same_selection (remove_listed root g b items)"
proof -
  have "io_rel same_selection (clearRemovedPointers root b g)"
    using assms by (simp add: clearRemovedPointers_def bootSelectionReferences_def same_selection.rel_pure)
  then show ?thesis unfolding remove_listed_def
    by (intro same_selection.rel_rules same_selection_remove) (auto simp: find_Some_iff)
qed

lemma Remove_selection:
  assumes "Remove env root g s = (r, t)" "ReadBootSelection root s = Inr b" "\<not> bootSelectionReferences b g"
  shows "nd_selection t = nd_selection s"
proof (cases "cleanSegment ''generation id'' g")
  case (Inl e)
  with assms(1) show ?thesis by (simp add: Remove_def io_bind_def io_lift_def)
next
  case (Inr v)
  with assms(1) have "withBootLock
       (io_bind (io_get (ReadBootSelection root)) (\<lambda>sr.
        io_bind (io_lift sr) (\<lambda>b.
        io_then (io_reject (bs_PendingHealthValidation b \<or> bs_RecoveryRequired b)
                   ''finish the pending boot or recover boot health before removing generations'' [])
        (io_bind (io_get (inspect env root b)) (\<lambda>ir.
         io_bind (io_lift ir) (remove_listed root g b)))))) s = (r, t)"
    by (simp add: Remove_def io_bind_def io_lift_def)
  then show ?thesis
  proof (cases rule: withBootLock_cases)
    case (ran fs)
    let ?u = "s\<lparr>nd_faults := fs\<rparr>"
    have "io_rel same_selection (io_then (io_reject (bs_PendingHealthValidation b \<or> bs_RecoveryRequired b)
                   ''finish the pending boot or recover boot health before removing generations'' [])
        (io_bind (io_get (inspect env root b)) (\<lambda>ir. io_bind (io_lift ir) (remove_listed root g b))))"
      by (intro same_selection.rel_rules remove_listed_selection assms(3))
    moreover from ran assms(2) have "io_then (io_reject (bs_PendingHealthValidation b \<or> bs_RecoveryRequired b)
                   ''finish the pending boot or recover boot health before removing generations'' [])
        (io_bind (io_get (inspect env root b)) (\<lambda>ir. io_bind (io_lift ir) (remove_listed root g b))) ?u = (r, t)"
      by (simp only: bind_get bind_lift ReadBootSelection_faults)
    ultimately have "same_selection ?u t" by (rule io_relD)
    then show ?thesis by (simp add: same_selection_def)
  qed (simp add: only_faults_fields)
qed

lemma Remove_spares_boot:
  assumes "Remove env root g s = (r, t)" "ReadBootSelection root s = Inr b" "\<not> bootSelectionReferences b g"
  shows "spares_boot b s t"
proof -
  have "gen_at t h = gen_at s h" if "h \<noteq> g" for h
  proof (cases "inspect env root b s")
    case (Inl e)
    with Remove_unlisted [OF assms(1,2)] show ?thesis by (simp add: only_faults_fields)
  next
    case (Inr items)
    with Remove_spares [OF assms(1,2)] that show ?thesis by (auto simp: spares_def)
  qed
  moreover have "h \<noteq> g" if "bootSelectionReferences b h" for h using assms(3) that by blast
  ultimately show ?thesis using Remove_selection [OF assms] by (simp add: spares_boot_def)
qed

lemma remove_all_spares:
  assumes "\<not> bootSelectionReferences b g"
  shows "io_rel (spares_boot b) (remove_all g)"
proof -
  have upd: "io_rel (spares_boot b) (syscall (upd_gen g f))" for f
    using assms by (intro syscall_rel) (auto simp: spares_boot_def gen_at_upd upd_gen_def [THEN arg_cong, of nd_selection])
  have drop: "io_rel (spares_boot b) (syscall (drop_gen g))"
    using assms by (intro syscall_rel) (auto simp: spares_boot_def gen_at_drop drop_gen_def [THEN arg_cong, of nd_selection])
  show ?thesis unfolding remove_all_def by (intro boot_spared.rel_rules upd drop)
qed

lemma sync_spares: "io_rel (spares_boot b) sync_dir"
  unfolding sync_dir_def by (rule syscall_rel) (simp_all add: spares_boot_def)

lemma boot_spared_then:
  assumes "io_then (io_wrap f as m) n s = (r, t)" "\<And>r' u. m s = (r', u) \<Longrightarrow> spares_boot b s u" "io_rel (spares_boot b) n"
  shows "spares_boot b s t"
proof -
  obtain r' u where m: "m s = (r', u)" by fastforce
  have "t = u \<or> n u = (r, t)" using assms(1) m by (cases r') (auto simp: io_then_def io_bind_def io_wrap_def)
  then show ?thesis using assms(2) [OF m] io_relD [OF assms(3)] boot_spared.frame_trans by blast
qed

lemma discard_unselected_spares:
  assumes "discard_unselected ae c c s = (r, t)" "ReadBootSelection (ae_root ae) s = Inr b" "\<not> bootSelectionReferences b c"
  shows "spares_boot b s t"
proof -
  have sync: "io_rel (spares_boot b) (io_then sync_dir (io_ok True))" by (intro boot_spared.rel_rules sync_spares)
  note run = assms(1) [unfolded discard_unselected_def bind_get]
  show ?thesis
  proof (cases "gd_status (gen_at s c) = NoFile")
    case True
    with run have "io_then (io_wrap ''remove interrupted candidate %s: %w'' [c] (remove_all c)) (io_then sync_dir (io_ok True)) s = (r, t)"
      by simp
    then show ?thesis by (rule boot_spared_then) (use io_relD [OF remove_all_spares [OF assms(3)]] sync in auto)
  next
    case False
    show ?thesis
    proof (cases "\<exists>spec status. ReadGeneration (ae_env ae) (ae_root ae) c s = Inr (spec, status) \<and> st_CommitState status = CommitStateCandidate")
      case True
      with run False have "io_then (io_wrap ''remove interrupted candidate %s: %w'' [c] (Remove (ae_env ae) (ae_root ae) c))
          (io_then sync_dir (io_ok True)) s = (r, t)" by (auto simp: bind_get)
      then show ?thesis by (rule boot_spared_then) (use Remove_spares_boot [OF _ assms(2,3)] sync in auto)
    next
      case no: False
      with run False have "t = s"
        by (cases "ReadGeneration (ae_env ae) (ae_root ae) c s") (auto simp: bind_get io_ok_def split: prod.splits if_splits)
      then show ?thesis by (simp add: boot_spared.frame_refl)
    qed
  qed
qed

lemma generation_key_trimmed: "generation_key root c = Inr g \<Longrightarrow> TrimSpace c = c \<Longrightarrow> g = c"
  by (auto simp: generation_key_def res_bind_def cleanSegment_def cleanToken_def fail_def Let_def split: sum.splits if_splits)

lemma discard_spares:
  assumes "discard_candidate ae c s = (r, t)" "ReadBootSelection (ae_root ae) s = Inr b" "TrimSpace c = c"
  shows "spares_boot b s t"
proof -
  note run = assms(1) [unfolded discard_candidate_def bind_get assms(2) bind_lift]
  consider "t = s" | "\<not> bootSelectionReferences b c" "discard_unselected ae c c s = (r, t)"
    using run generation_key_trimmed [OF _ assms(3)]
    by (cases "GenerationDir (ae_root ae) c"; cases "generation_key (ae_root ae) c")
       (auto simp: io_bind_def io_lift_def io_ok_def split: if_splits)
  then show ?thesis
    by cases (simp_all add: boot_spared.frame_refl discard_unselected_spares [OF _ assms(2)])
qed

text \<open>Candidates of the recorded operations are written without surrounding blanks, which no update here changes.\<close>

definition clean_candidates :: "op_env \<Rightarrow> op_store \<Rightarrow> bool" where
  "clean_candidates oe s \<longleftrightarrow>
     ops_ok oe s \<and>
     (\<forall>g. recorded s g \<longrightarrow> TrimSpace (or_CandidateGenerationID (last_record s g)) = or_CandidateGenerationID (last_record s g))"

lemma Update_last:
  assumes "Store_Update oe ident eventID eventType mutate s = (r, t)" "ops_ok oe s"
  obtains (calm) "calm s t"
    | (stored) g "next" where "recorded s g" "mutate (last_record s g) = Inr next" "recorded t = recorded s"
      "last_record t = (last_record s)(g := stamp_next oe (last_record s g) next)"
proof (rule disjE [OF Update_effect [OF assms(1)]])
  assume "\<exists>g next. operationDir ident = Inr g \<and> update_step oe eventID eventType mutate g next s t \<and> ((\<exists>x. r = Inl x) \<or> r = Inr next)"
  then obtain g "next" where "update_step oe eventID eventType mutate g next s t" by blast
  then obtain es next0 where e: "readJournal oe (journal_at s g) = Inr es" "es \<noteq> []" "mutate (je_Record (last es)) = Inr next0"
    "next = stamp_next oe (je_Record (last es)) next0" "appended g (update_event eventID eventType next) s t"
    by (auto simp: update_step_def)
  have es: "es = op_events s g" using ops_ok_events [OF assms(2) e(1)] .
  have "recorded s g" using e(2) es by (simp add: recorded_def)
  moreover have "recorded t = recorded s" using appended_last(2) [OF e(5)] calculation by (auto simp: fun_eq_iff)
  ultimately show thesis using stored [of g next0] e(3,4) es appended_last(1) [OF e(5)] by (simp add: last_record_def)
qed (use calm in blast)

lemma clean_render:
  assumes "Store_Update oe ident eventID eventType (\<lambda>a. Inr (render_recovered now a)) s = (r, t)" "clean_candidates oe s"
  shows "clean_candidates oe t"
proof -
  have ok: "ops_ok oe s" "ops_ok oe t"
    using assms(2) io_relD [OF advances_Update assms(1)] by (auto simp: clean_candidates_def advances_def)
  have c: "or_CandidateGenerationID (stamp_next oe a (render_recovered now a)) = or_CandidateGenerationID a" for a
    by (simp add: stamp_next_def render_recovered_def op_Fail_def Let_def)
  from assms(1) ok(1) show ?thesis
  proof (cases rule: Update_last)
    case calm
    with assms(2) ok(2) show ?thesis by (simp add: clean_candidates_def calm_last)
  next
    case (stored g "next")
    with assms(2) ok(2) c show ?thesis by (auto simp: clean_candidates_def)
  qed
qed

definition render_frame :: "agent_env \<Rightarrow> BootSelectionRecord \<Rightarrow> agent \<Rightarrow> agent \<Rightarrow> bool" where
  "render_frame ae b s t \<longleftrightarrow>
     (clean_candidates (ae_op ae) (ag_ops s) \<and> ReadBootSelection (ae_root ae) (ag_node s) = Inr b \<longrightarrow>
      clean_candidates (ae_op ae) (ag_ops t) \<and> ReadBootSelection (ae_root ae) (ag_node t) = Inr b \<and>
      spares_boot b (ag_node s) (ag_node t))"

interpretation render: io_frame "render_frame ae b"
  by unfold_locales (auto simp: render_frame_def intro: boot_spared.frame_refl boot_spared.frame_trans)

lemma render_ops:
  assumes "\<And>r q. m (ag_ops s) = (r, q) \<Longrightarrow> clean_candidates (ae_op ae) (ag_ops s) \<Longrightarrow> clean_candidates (ae_op ae) q"
    "on_ops m s = (v, t)"
  shows "render_frame ae b s t"
  using assms by (auto simp: on_ops_run render_frame_def boot_spared.frame_refl)

lemma clean_calm: "calm s t \<Longrightarrow> clean_candidates oe s \<Longrightarrow> clean_candidates oe t"
  using ops_ok_calm by (auto simp: clean_candidates_def calm_last)

lemma render_calm: "io_rel calm m \<Longrightarrow> io_rel (render_frame ae b) (on_ops m)"
proof (rule io_relI)
  fix s assume c: "io_rel calm m"
  obtain v t where m: "on_ops m s = (v, t)" by fastforce
  have "render_frame ae b s t" by (rule render_ops [OF _ m]) (rule clean_calm [OF io_relD [OF c]])
  with m show "render_frame ae b s (snd (on_ops m s))" by simp
qed

lemma render_one: "io_rel (render_frame ae b) (recover_render ae now ident)"
proof (rule io_relI)
  fix s
  obtain v t where run: "recover_render ae now ident s = (v, t)" by fastforce
  obtain rr u where rd: "on_ops (Store_Read (ae_op ae) ident) s = (rr, u)" by fastforce
  have su: "render_frame ae b s u" using io_relD [OF render_calm [OF calm_Read] rd] .
  have "render_frame ae b u t" if clean: "clean_candidates (ae_op ae) (ag_ops s)" and sel: "ReadBootSelection (ae_root ae) (ag_node s) = Inr b"
  proof (cases "\<exists>x. rr = Inr x \<and> interruptedConfigRender x")
    case False
    with run rd have "t = u" by (cases rr) (auto simp: recover_render_def io_bind_def io_ok_def)
    then show ?thesis by (simp add: render.frame_refl)
  next
    case True
    then obtain x where x: "rr = Inr x" "interruptedConfigRender x" by blast
    from rd x obtain q where q: "Store_Read (ae_op ae) ident (ag_ops s) = (Inr x, q)" "u = s\<lparr>ag_ops := q\<rparr>" by (auto simp: on_ops_run)
    from Read_events [OF _ q(1)] clean obtain g where "recorded (ag_ops s) g" "x = last_record (ag_ops s) g"
      by (auto simp: clean_candidates_def recorded_def last_record_def)
    with clean have trim: "TrimSpace (or_CandidateGenerationID x) = or_CandidateGenerationID x" by (simp add: clean_candidates_def)
    obtain dr n where d: "discard_candidate ae (or_CandidateGenerationID x) (ag_node s) = (dr, n)" by fastforce
    let ?w = "u\<lparr>ag_node := n\<rparr>"
    have sp: "spares_boot b (ag_node s) n" using discard_spares [OF d sel trim] .
    then have "ReadBootSelection (ae_root ae) n = Inr b" using sel by (simp add: ReadBootSelection_def spares_boot_def)
    then have uw: "render_frame ae b u ?w" using sp q(2) by (simp add: render_frame_def)
    let ?up = "Store_Update (ae_op ae) ident ''config-apply-interrupted-render-recovered'' ''config-apply-recovery''
                 (\<lambda>current. Inr (render_recovered now current))"
    obtain ur p where up: "on_ops ?up ?w = (ur, p)" by fastforce
    have wp: "render_frame ae b ?w p" using clean_render by (intro render_ops [OF _ up])
    have "t = ?w \<or> t = p"
      using run rd x d up q(2)
      by (cases dr; cases ur) (auto simp: recover_render_def io_bind_def io_ok_def on_node_def split: if_splits)
    then show ?thesis using uw render.frame_trans [OF uw wp] by blast
  qed
  with su have "render_frame ae b s t" by (auto simp: render_frame_def intro: boot_spared.frame_trans)
  with run show "render_frame ae b s (snd (recover_render ae now ident s))" by simp
qed

lemma calm_ids: "io_rel calm (with_ids io_ok)"
  by (intro calm_with_ids calm.rel_pure)

lemma calm_mutation_lock: "io_rel calm AcquireMutationLock"
  unfolding AcquireMutationLock_def by (intro calm.rel_rules calm_noop)

lemma recoverInterrupted_spares:
  assumes "recoverInterruptedConfigApplies ae now s = (r, t)" "clean_candidates (ae_op ae) (ag_ops s)"
    "ReadBootSelection (ae_root ae) (ag_node s) = Inr b"
  shows "spares_boot b (ag_node s) (ag_node t)"
proof -
  have "io_rel (render_frame ae b) (recoverInterruptedConfigApplies ae now)"
    unfolding recoverInterruptedConfigApplies_def
    by (intro render.rel_rules render_calm calm_ids calm_mutation_lock render_one)
  from io_relD [OF this assms(1)] assms(2,3) show ?thesis by (simp add: render_frame_def)
qed

end
