(* ===== verification/AgentExecutorFacts.thy ===== *)
theory AgentExecutorFacts
  imports AgentRecoveryFacts
begin

text \<open>
  The outcome of arming a trial boot, and what a failure in the middle of it leaves behind.
\<close>

section \<open>The loader entry\<close>

text \<open>Writing a loader entry changes the files of the boot partition only.\<close>

definition boot_files_only :: "node \<Rightarrow> node \<Rightarrow> bool" where
  "boot_files_only s t \<longleftrightarrow> nd_gens t = nd_gens s \<and> nd_selection t = nd_selection s \<and> nd_efi t = nd_efi s \<and> nd_arm t = nd_arm s"

interpretation boot_files: io_frame boot_files_only
  by unfold_locales (auto simp: boot_files_only_def)

lemma boot_files_syscall: "io_rel boot_files_only (syscall (add_paths ps))"
  by (rule syscall_rel) (simp_all add: boot_files_only_def add_paths_def)

lemma boot_files_WriteEntry: "io_rel boot_files_only (WriteEntry ae bootRoot request)"
  unfolding WriteEntry_def by (intro boot_files.rel_rules boot_files_syscall)

lemma boot_files_candidate: "io_rel boot_files_only (writeCandidateLoaderEntry ae candidate)"
  unfolding writeCandidateLoaderEntry_def write_entry_mounting_def Let_def
  by (intro boot_files.rel_rules boot_files_WriteEntry)

lemma boot_files_gen: "boot_files_only s t \<Longrightarrow> gen_at t g = gen_at s g"
  by (simp add: boot_files_only_def gen_at_def)

lemma boot_files_reads:
  assumes "boot_files_only s t"
  shows "ReadGeneration env root g t = ReadGeneration env root g s" "ReadBootSelection root t = ReadBootSelection root s"
proof -
  show "ReadGeneration env root g t = ReadGeneration env root g s"
    by (rule ReadGeneration_same) (use assms in \<open>simp add: same_gens_def boot_files_only_def gen_at_def\<close>)
  show "ReadBootSelection root t = ReadBootSelection root s" using assms by (simp add: ReadBootSelection_def boot_files_only_def)
qed

lemma writeCandidate_result:
  assumes "writeCandidateLoaderEntry ae candidate s = (Inr (spec, status, entry), t)"
  shows "ReadGeneration (ae_env ae) (ae_root ae) candidate s = Inr (spec, status)" "st_CommitState status = CommitStateCandidate"
    "entry = TrimSpace (bt_LoaderEntryPath (gs_Boot spec))" "entry \<noteq> []" "boot_files_only s t"
  using assms io_relD [OF boot_files_candidate assms]
  by (auto simp: writeCandidateLoaderEntry_def io_run Let_def split: prod.splits)

section \<open>Arming a trial\<close>

definition set_oneshot_of :: "agent_env \<Rightarrow> string \<Rightarrow> (node, unit) io" where
  "set_oneshot_of ae entry = (case ae_SetBootOneshot ae of None \<Rightarrow> io_ok () | Some f \<Rightarrow> call_setter f (ae_root ae) entry)"

definition oneshot_efi :: "agent_env \<Rightarrow> string \<Rightarrow> efi \<Rightarrow> efi" where
  "oneshot_efi ae entry e = (case ae_SetBootOneshot ae of None \<Rightarrow> e | Some f \<Rightarrow> snd (f (ae_root ae) entry e))"

lemma set_oneshot_run: "set_oneshot_of ae entry s = (x, t) \<Longrightarrow> t = s\<lparr>nd_efi := oneshot_efi ae entry (nd_efi s)\<rparr>"
  by (auto simp: set_oneshot_of_def oneshot_efi_def io_ok_def call_setter_def split: option.splits prod.splits)

lemma restore_selection_fails: "fst (restore_selection root previous what e s) = Inr u \<Longrightarrow> False"
  by (auto simp: restore_selection_def io_bind_def io_catch_def io_err_def split: prod.splits sum.splits)

text \<open>The steps of a trial commit up to the status, in one place for both outcomes.\<close>

lemma commitTrial_steps:
  assumes "commitTrialGeneration ae r now reason s = (x, t)"
    "writeCandidateLoaderEntry ae (TrimSpace (or_CandidateGenerationID r)) s = (Inr (spec, status, entry), u)"
    "ReadBootSelection (ae_root ae) s = Inr b"
    "WriteBootSelection (ae_root ae) (armed_selection b (TrimSpace (or_CandidateGenerationID r)) entry (or_OperationID r) now) u = (Inr a, v)"
    "set_oneshot_of ae entry v = (Inr o1, w)"
    "WriteGenerationStatus (ae_env ae) (ae_root ae) spec (trial_status now (or_OperationID r) reason status) w = (y, z)"
    "TrimSpace (or_CandidateGenerationID r) \<noteq> []"
  shows "(x, t) = (case y of Inr _ \<Rightarrow> (Inr (), z) | Inl e \<Rightarrow> restore_selection (ae_root ae) b ''commit candidate generation'' e z)"
proof -
  have "ReadBootSelection (ae_root ae) u = Inr b"
    using boot_files_reads(2) [OF writeCandidate_result(5) [OF assms(2)]] assms(3) by simp
  with assms show ?thesis
    by (cases y)
       (auto simp: commitTrialGeneration_def Let_def io_then_def io_bind_def io_reject_code io_wrap_def io_get_def io_lift_def
         io_catch_def io_ok_def set_oneshot_of_def [symmetric])
qed

lemma commitTrial_success:
  assumes "commitTrialGeneration ae r now reason s = (Inr k, t)"
    "gd_spec (gen_at s (TrimSpace (or_CandidateGenerationID r))) \<noteq> NoFile"
  defines "c \<equiv> TrimSpace (or_CandidateGenerationID r)"
  obtains spec status b where "ReadGeneration (ae_env ae) (ae_root ae) c s = Inr (spec, status)"
    "st_CommitState status = CommitStateCandidate" "ReadBootSelection (ae_root ae) s = Inr b"
    "nd_selection t = File (armed_selection b c (TrimSpace (bt_LoaderEntryPath (gs_Boot spec))) (or_OperationID r) now)"
    "nd_efi t = oneshot_efi ae (TrimSpace (bt_LoaderEntryPath (gs_Boot spec))) (nd_efi s)"
    "ReadGeneration (ae_env ae) (ae_root ae) c t = Inr (spec, trial_status now (or_OperationID r) reason status)"
proof -
  from assms(1) obtain spec status entry u b a v where
    w: "writeCandidateLoaderEntry ae c s = (Inr (spec, status, entry), u)" "ReadBootSelection (ae_root ae) u = Inr b"
      "WriteBootSelection (ae_root ae) (armed_selection b c entry (or_OperationID r) now) u = (Inr a, v)" "c \<noteq> []"
    by (auto simp: commitTrialGeneration_def Let_def io_run c_def)
  note cand = writeCandidate_result [OF w(1)]
  have b: "ReadBootSelection (ae_root ae) s = Inr b" using boot_files_reads(2) [OF cand(5)] w(2) by simp
  obtain o1 w1 where o1: "set_oneshot_of ae entry v = (o1, w1)" by fastforce
  have "\<exists>k. o1 = Inr k"
  proof (rule ccontr)
    assume "\<nexists>k. o1 = Inr k"
    then obtain e where e: "o1 = Inl e" by (cases o1) auto
    with assms(1) w o1 have "fst (restore_selection (ae_root ae) b ''arm boot health validation'' e w1) = Inr k"
      by (simp add: commitTrialGeneration_def Let_def io_then_def io_bind_def io_reject_code io_wrap_def io_get_def io_lift_def
         io_catch_def c_def flip: set_oneshot_of_def)
    then show False by (rule restore_selection_fails)
  qed
  then obtain k1 where k1: "o1 = Inr k1" ..
  obtain y z where y: "WriteGenerationStatus (ae_env ae) (ae_root ae) spec (trial_status now (or_OperationID r) reason status) w1 = (y, z)"
    by fastforce
  note steps = commitTrial_steps [OF assms(1) w(1) [unfolded c_def] b w(3) [unfolded c_def] o1 [unfolded k1] y w(4) [unfolded c_def]]
  have "\<exists>k. y = Inr k"
  proof (cases y)
    case (Inl e)
    with steps have "restore_selection (ae_root ae) b ''commit candidate generation'' e z = (Inr k, t)" by simp
    then show ?thesis using restore_selection_fails [of "ae_root ae" b "''commit candidate generation''" e z k] by simp
  qed simp
  moreover with steps have "t = z" by auto
  ultimately obtain k2 where y2: "WriteGenerationStatus (ae_env ae) (ae_root ae) spec (trial_status now (or_OperationID r) reason status) w1 = (Inr k2, t)"
    using y by auto
  from WriteBootSelection_Inr [OF w(3)] obtain fs where v: "v = u\<lparr>nd_faults := fs, nd_selection := File (armed_selection b c entry (or_OperationID r) now)\<rparr>"
    by blast
  have w1: "w1 = v\<lparr>nd_efi := oneshot_efi ae entry (nd_efi v)\<rparr>" using set_oneshot_run [OF o1] .
  have gens: "gen_at w1 g = gen_at s g" for g using boot_files_gen [OF cand(5)] by (simp add: v w1 gen_at_def)
  have "ReadGeneration (ae_env ae) (ae_root ae) c w1 = Inr (spec, status)"
    using ReadGeneration_same [of s w1] cand(1) gens by (simp add: same_gens_def)
  then have "ReadGeneration (ae_env ae) (ae_root ae) c t = Inr (spec, trial_status now (or_OperationID r) reason status)"
    by (rule WriteGenerationStatus_reads_back [OF _ _ y2]) (use assms(2) gens in \<open>simp add: c_def\<close>)
  moreover have "nd_selection t = nd_selection w1" "nd_efi t = nd_efi w1" using WriteGenerationStatus_frame [OF y2] by auto
  ultimately show thesis using that [OF cand(1,2) b] cand(3,5) by (simp add: v w1 boot_files_only_def)
qed

text \<open>
  A failed status update writes the earlier selection back and leaves the one-shot entry of the firmware in place. The
  error of that step tells it from the others.
\<close>

lemma commitTrial_status_error:
  assumes "writeCandidateLoaderEntry ae (TrimSpace (or_CandidateGenerationID r)) s = (Inr (spec, status, entry), u)"
    "commitTrialGeneration ae r now reason s = (Inl (Wrap ''commit candidate generation: %w'' [] e), t)"
  obtains b where "ReadBootSelection (ae_root ae) s = Inr b" "nd_selection t = File b" "nd_efi t = oneshot_efi ae entry (nd_efi s)"
proof -
  let ?c = "TrimSpace (or_CandidateGenerationID r)" and ?root = "ae_root ae"
  note cand = writeCandidate_result [OF assms(1)]
  have c: "?c \<noteq> []" using assms(2) by (auto simp: commitTrialGeneration_def Let_def io_then_def io_bind_def io_reject_code)
  obtain b where bu: "ReadBootSelection ?root u = Inr b"
    using assms c
    by (cases "ReadBootSelection ?root u")
       (auto simp: commitTrialGeneration_def Let_def io_then_def io_bind_def io_reject_code io_wrap_def io_get_def io_lift_def)
  have b: "ReadBootSelection ?root s = Inr b" using boot_files_reads(2) [OF cand(5)] bu by simp
  obtain a v where wa: "WriteBootSelection ?root (armed_selection b ?c entry (or_OperationID r) now) u = (a, v)" by fastforce
  obtain k where a: "a = Inr k"
    using assms c bu wa
    by (cases a) (auto simp: commitTrialGeneration_def Let_def io_then_def io_bind_def io_reject_code io_wrap_def io_get_def io_lift_def)
  obtain o1 w where o1: "set_oneshot_of ae entry v = (o1, w)" by fastforce
  obtain k1 where k1: "o1 = Inr k1"
    using assms c bu wa a o1
    by (cases o1) (auto simp: commitTrialGeneration_def Let_def io_then_def io_bind_def io_reject_code io_wrap_def io_get_def
        io_lift_def io_catch_def restore_selection_def io_err_def set_oneshot_of_def [symmetric] split: prod.splits sum.splits)
  obtain y z where y: "WriteGenerationStatus (ae_env ae) ?root spec (trial_status now (or_OperationID r) reason status) w = (y, z)" by fastforce
  note steps = commitTrial_steps [OF assms(2,1) b wa [unfolded a] o1 [unfolded k1] y c]
  then obtain e' where e': "y = Inl e'" by (cases y) auto
  obtain r3 t3 where w3: "WriteBootSelection ?root b z = (r3, t3)" by fastforce
  from steps e' w3 have "isl r3 = False" "t = t3"
    by (cases r3; simp add: restore_selection_def io_bind_def io_catch_def io_err_def)+
  then obtain k3 where w4: "WriteBootSelection ?root b z = (Inr k3, t)" using w3 by (cases r3) auto
  from WriteBootSelection_Inr [OF w4] have "nd_selection t = File b" "nd_efi t = nd_efi z" by auto
  moreover have "nd_efi z = nd_efi w" using WriteGenerationStatus_frame(2) [OF y] .
  moreover have "nd_efi w = oneshot_efi ae entry (nd_efi v)" using set_oneshot_run [OF o1] by simp
  moreover have "nd_efi v = nd_efi u" using WriteBootSelection_Inr [OF wa [unfolded a]] by auto
  ultimately show thesis using that [OF b] cand(5) by (simp add: boot_files_only_def)
qed

end
