(* ===== verification/AgentContinuation.thy ===== *)
theory AgentContinuation
  imports AgentAdmissionFacts AgentRecovery
begin

text \<open>
  Continuing a bootstrap (\<^verbatim>\<open>bootstrap_continuation.go\<close>): a continuation names the operation it resumes, which may be a
  continuation itself. The receipts are followed back to the operation that ran the bootstrap; the loop stops at an
  operation it has seen before, so it returns on every store. Nothing else may have changed the node since.
\<close>

section \<open>Following the receipts\<close>

definition resume_of :: "OperationRecord \<Rightarrow> string option" where
  "resume_of r =
     (case or_BootstrapRequest r of
        None \<Rightarrow> None
      | Some q \<Rightarrow> if br_ResumeOperationID q = [] then None else Some (br_ResumeOperationID q))"

definition same_generations :: "OperationRecord \<Rightarrow> OperationRecord \<Rightarrow> bool" where
  "same_generations a b \<longleftrightarrow>
     or_CandidateGenerationID a = or_CandidateGenerationID b \<and>
     or_ExpectedCurrentGenerationID a = or_ExpectedCurrentGenerationID b"

text \<open>The loop; \<open>None\<close> would be a loop that does not end.\<close>

partial_function (option) follow_receipts ::
  "op_env \<Rightarrow> OperationRecord \<Rightarrow> string list \<Rightarrow> OperationRecord \<Rightarrow> op_store \<Rightarrow>
   ((OperationRecord \<times> string list) res \<times> op_store) option" where
  "follow_receipts oe previous seen original s =
     (case resume_of original of
        None \<Rightarrow> Some (Inr (original, or_OperationID original # seen), s)
      | Some ident \<Rightarrow>
          if \<not> same_generations original previous
          then Some (fail ''bootstrap continuation history changes candidate or source generation'' [], s)
          else if or_OperationID original \<in> set seen
          then Some (fail ''bootstrap continuation history contains a cycle'' [], s)
          else case Store_Read oe ident s of
            (Inl e, t) \<Rightarrow> Some (Inl (Wrap ''read original bootstrap receipt: %w'' [] e), t)
          | (Inr r, t) \<Rightarrow> follow_receipts oe previous (or_OperationID original # seen) r t)"

definition receipts :: "op_env \<Rightarrow> OperationRecord \<Rightarrow> op_store \<Rightarrow> ((OperationRecord \<times> string list) res \<times> op_store) option" where
  "receipts oe previous s = follow_receipts oe previous [] previous s"

text \<open>The checks on the operation that ran the bootstrap.\<close>

definition original_receipt :: "string \<Rightarrow> string \<Rightarrow> bool \<Rightarrow> OperationRecord \<Rightarrow> OperationRecord \<Rightarrow> error" where
  "original_receipt bootID inputDigest externalWorker previous original =
     first_error
       [reject (\<not> same_generations original previous)
          ''original bootstrap receipt belongs to a different candidate or source generation'' [],
        reject (case or_BootstrapRequest original of
                  None \<Rightarrow> True
                | Some q \<Rightarrow> br_KubeadmInputDigest q \<noteq> [] \<and> br_KubeadmInputDigest q \<noteq> inputDigest)
          ''original bootstrap receipt belongs to a different input snapshot'' [],
        reject (or_ExecutorPlan original = None \<or> or_OperationKind original \<noteq> or_OperationKind previous)
          ''original bootstrap receipt is invalid'' [],
        reject (case or_ExecutorPlan original of
                  None \<Rightarrow> True
                | Some plan \<Rightarrow> \<not> list_ex (\<lambda>v. iv_InvocationID v = ep_MarkerID plan \<and> iv_Result v = ''exit-0'' \<and>
                    iv_CompletedAt v \<noteq> None \<and> (iv_BootID v = bootID \<or> externalWorker)) (or_Invocations original))
          ''successful bootstrap execution is not recorded for the current boot or durable external enrollment; preserve node state for repair'' []]"

definition changed_since :: "op_env \<Rightarrow> OperationRecord \<Rightarrow> string list \<Rightarrow> (op_store, unit) io" where
  "changed_since oe original seen =
     with_ids (io_each (\<lambda>ident.
       io_bind (Store_Read oe ident) (\<lambda>other.
         io_reject (or_OperationID other \<notin> set seen \<and> \<not> or_CreatedAt other < or_CreatedAt original \<and>
                    or_ExternalMutationStarted other)
           ''operation %s changed node state after the failed bootstrap; inspect it before repair'' [or_OperationID other])))"

section \<open>The loop ends\<close>

definition recorded_ids :: "op_store \<Rightarrow> string set" where
  "recorded_ids s = {g. recorded s g}"

lemma finite_recorded: "finite (recorded_ids s)"
proof (rule finite_subset)
  show "recorded_ids s \<subseteq> fst ` set (os_dirs s)"
  proof
    fix g assume "g \<in> recorded_ids s"
    then have "op_at s g \<noteq> None" using recorded_dir by (simp add: recorded_ids_def)
    then show "g \<in> fst ` set (os_dirs s)" by (simp add: op_at_def map_of_eq_None_iff)
  qed
qed simp

definition found_receipt :: "op_store \<Rightarrow> OperationRecord \<Rightarrow> (OperationRecord \<times> string list) res \<Rightarrow> bool" where
  "found_receipt s start x \<longleftrightarrow>
     (\<forall>r ids. x = Inr (r, ids) \<longrightarrow>
        resume_of r = None \<and> or_OperationID r \<in> set ids \<and> (r = start \<or> (\<exists>g. recorded s g \<and> r = last_record s g)))"

lemma follow_receipts_returns:
  assumes "finite U" "ops_ok oe s" "recorded_ids s \<subseteq> U" "or_OperationID original \<in> U"
  shows "\<exists>x t. follow_receipts oe previous seen original s = Some (x, t) \<and> calm s t \<and> found_receipt s original x"
  using assms(2-4)
proof (induction "card (U - set seen)" arbitrary: seen original s rule: less_induct)
  case less
  show ?case
  proof (cases "\<exists>ident. resume_of original = Some ident \<and> same_generations original previous \<and> or_OperationID original \<notin> set seen")
    case False
    then show ?thesis
      by (subst follow_receipts.simps) (auto simp: calm.frame_refl found_receipt_def fail_def split: option.splits)
  next
    case True
    then obtain ident where ident: "resume_of original = Some ident" "same_generations original previous"
      "or_OperationID original \<notin> set seen" by blast
    obtain r t where rd: "Store_Read oe ident s = (r, t)" by fastforce
    have c: "calm s t" using io_relD [OF calm_Read rd] .
    show ?thesis
    proof (cases r)
      case (Inl e)
      with ident rd c show ?thesis by (subst follow_receipts.simps) (simp add: found_receipt_def)
    next
      case (Inr a)
      from Read_events [OF less.prems(1) rd [unfolded Inr]] obtain g where g: "recorded s g" "a = last_record s g"
        by (auto simp: recorded_def last_record_def)
      have "or_OperationID a \<in> U" using recorded_owner [OF less.prems(1) g(1)] g less.prems(2) by (auto simp: recorded_ids_def)
      moreover have "recorded_ids t \<subseteq> U" using less.prems(2) calm_last(2) [OF c] by (simp add: recorded_ids_def)
      moreover have "card (U - set (or_OperationID original # seen)) < card (U - set seen)"
        using assms(1) ident(3) less.prems(3) by (intro psubset_card_mono) auto
      ultimately obtain x v where "follow_receipts oe previous (or_OperationID original # seen) a t = Some (x, v)" "calm t v"
        "found_receipt t a x"
        using less.hyps [of "or_OperationID original # seen" t a] ops_ok_calm [OF less.prems(1) c] by blast
      moreover from this(3) have "found_receipt s original x" using g by (auto simp: found_receipt_def calm_last [OF c])
      ultimately show ?thesis using ident rd Inr calm.frame_trans [OF c] by (subst follow_receipts.simps) auto
    qed
  qed
qed

lemma receipts_return:
  assumes "ops_ok oe s"
  shows "\<exists>x t. receipts oe previous s = Some (x, t) \<and> calm s t \<and> found_receipt s previous x"
  unfolding receipts_def
  by (rule follow_receipts_returns [of "insert (or_OperationID previous) (recorded_ids s)"])
     (use assms finite_recorded in auto)

end
