(* ===== verification/AgentFixtures.thy ===== *)
theory AgentFixtures
  imports Fixtures OperationFixtures AgentExecutorFacts AgentContinuation
begin

text \<open>
  A concrete agent for the properties of the agent: a submitted reset, a repeat of it, the audit after a restart, a
  render that was interrupted and a trial commit with and without a failing disk.
\<close>

definition demo_agent_env :: agent_env where
  "demo_agent_env = \<lparr>ae_env = demo_env, ae_op = demo_op_env, ae_root = ''/'', ae_now = 70, ae_boot_id = ''boot1'',
     ae_signal = (\<lambda>_. False), ae_read = (\<lambda>_. Inr (replicate 32 CHR ''a'')), ae_text = (\<lambda>_. ''error''),
     ae_operation_id = (\<lambda>kind now. Inr (if now = 70 then ''reset1'' else ''reset2'')), ae_format = (\<lambda>_. ''t''),
     ae_SetBootDefault = Some set_default, ae_SetBootOneshot = Some set_oneshot, ae_MountBootRoot = None\<rparr>"

definition later_env :: agent_env where
  "later_env = demo_agent_env\<lparr>ae_now := 90, ae_boot_id := ''boot2''\<rparr>"

definition reset_request :: "string \<Rightarrow> SubmitOperationRequest" where
  "reset_request cid = \<lparr>sq_ClientRequestId = cid, sq_OperationKind = OperationKindDestructiveReset, sq_Actor = ''admin'',
     sq_ExpectedMachineId = ''m'', sq_ExpectedCurrentGenerationId = ''a'', sq_ExpectedClusterIntentDigest = [],
     sq_DryRun = False,
     sq_Body = ResetBody \<lparr>dr_InventoryNodeName = ''n1'', dr_ResetScope = ''node'', dr_TargetGenerationID = [],
       dr_DiscardClusterIdentity = True, dr_WipeSurfaces = []\<rparr>\<rparr>"

definition reset_ops :: op_store where
  "reset_ops = snd (acceptOperation demo_agent_env (reset_request ''r1'') ''d'' empty_ops)"

definition audited_ops :: op_store where
  "audited_ops = snd (AuditStartup later_env 90 reset_ops)"

text \<open>A configuration apply that the agent was rendering into the generation \<open>n\<close> when it stopped.\<close>

definition apply_operation :: OperationRecord where
  "apply_operation = demo_operation\<lparr>or_OperationID := ''apply1'', or_OperationKind := ''generation-apply'',
     or_Phase := ''render-generation'', or_Interruption := StaleHostOnly, or_CandidateGenerationID := ''n'', or_ExpectedCurrentGenerationID := ''a'',
     or_ConfigApplyRequest := Some \<lparr>ca_ApplyMode = ''live'', ca_NodeName = ''n1'', ca_CandidateGenerationID = ''n'',
       ca_ConfigYAML = ''kind'', ca_ConfigYAMLPath = [], ca_ConfigYAMLSHA256 = [],
       ca_DestructiveStorageAcknowledgements = [], ca_VolumeRebinds = []\<rparr>,
     or_ResourceLocks := resourceLocks ''generation-apply''\<rparr>"

definition apply_ops :: op_store where
  "apply_ops = snd (Store_Create demo_op_env apply_operation ''accepted'' 70 empty_ops)"

definition render_node :: node where
  "render_node = idle_node\<lparr>nd_gens := (''n'', empty_gen\<lparr>gd_spec := File (demo_spec ''n'' ''slot-b'' 40)\<rparr>) # nd_gens idle_node\<rparr>"

definition render_agent :: agent where
  "render_agent = \<lparr>ag_node = render_node, ag_ops = apply_ops\<rparr>"

text \<open>A candidate for a trial boot.\<close>

definition candidate_b :: GenerationStatus where
  "candidate_b = demo_status ''b'' ''candidate'' ''pending'' ''unknown''"

definition candidate_node :: node where
  "candidate_node = idle_node\<lparr>nd_gens := [(''a'', split_dir spec_a good_a), (''b'', split_dir spec_b candidate_b)]\<rparr>"

definition trial_operation :: OperationRecord where
  "trial_operation = demo_operation\<lparr>or_CandidateGenerationID := ''b''\<rparr>"

text \<open>A bootstrap that names itself as the one it resumes: the receipts form a cycle.\<close>

definition bootstrap_body :: "string \<Rightarrow> BootstrapRequest" where
  "bootstrap_body resume = \<lparr>br_ExternalWorker = False, br_ResumeOperationID = resume, br_InventoryNodeName = ''n1'',
     br_SystemRole = ''worker'', br_KubernetesPayloadVersion = ''v1'', br_KubernetesBundleSource = [], br_KubernetesBundleRef = [],
     br_KubernetesBundleManifestDigest = [], br_KubernetesSysextPayloadDigest = [], br_BootstrapProfileRef = ''p'',
     br_ControlPlaneEndpoint = [], br_StableEndpoint = [], br_CandidateGenerationID = [], br_KubeadmInputDigest = [],
     br_JoinMaterialRef = [], br_JoinMaterialDigest = [], br_PreviousJoinMaterialDigest = [], br_JoinMaterialExpiresAt = [],
     br_TemporaryJoinConfigPath = [], br_ExistingClusterJoin = False, br_KubernetesIdentityCluster = [],
     br_KubernetesIdentityFingerprint = [], br_KubernetesIdentityDigest = [], br_APIProxyConfig = []\<rparr>"

definition cyclic_operation :: OperationRecord where
  "cyclic_operation = demo_operation\<lparr>or_OperationKind := ''bootstrap-join-worker'', or_BootstrapRequest := Some (bootstrap_body ''op1'')\<rparr>"

definition cyclic_ops :: op_store where
  "cyclic_ops = snd (Store_Create demo_op_env cyclic_operation ''start'' 10 empty_ops)"

section \<open>Runs\<close>

lemma reset_run: "isl (fst (acceptOperation demo_agent_env (reset_request ''r1'') ''d'' empty_ops)) = False \<and> listed reset_ops = [''reset1'']"
  by code_simp

lemma audit_run: "isl (fst (AuditStartup later_env 90 reset_ops)) = False"
  by code_simp

lemma apply_create: "fst (Store_Create demo_op_env apply_operation ''accepted'' 70 empty_ops) = Inr (new_record apply_operation 70)"
  by code_simp

lemma render_run:
  "(case recoverInterruptedConfigApplies later_env 95 render_agent of
      (r, t) \<Rightarrow> (r, map fst (nd_gens (ag_node t)), or_Result (last_record (ag_ops t) ''apply1''))) =
   (Inr (), [''a'', ''b'', ''c''], ''failed'')"
  by code_simp

lemma trial_run: "fst (commitTrialGeneration demo_agent_env trial_operation 75 ''trial'' candidate_node) = Inr ()"
  by code_simp

lemma cyclic_run: "fst (Store_Create demo_op_env cyclic_operation ''start'' 10 empty_ops) = Inr (new_record cyclic_operation 10)"
  by code_simp

definition failing_node :: node where
  "failing_node = candidate_node\<lparr>nd_faults := [IoOk, IoOk, IoOk, IoFailBefore ''EIO'']\<rparr>"

lemma failing_trial_run:
  "(case commitTrialGeneration demo_agent_env trial_operation 75 ''trial'' failing_node of
      (r, t) \<Rightarrow> (isl r, nd_selection t, efi_oneshot (nd_efi t))) =
   (True, File idle_selection, ''loader/entries/katl-b.conf'')"
  by code_simp

text \<open>A padded request identifier is stored as it is and looked up without its blanks.\<close>

definition padded_ops :: op_store where
  "padded_ops = snd (markDispatchFailed demo_agent_env ''reset1'' OsNotExist
     (snd (acceptOperation demo_agent_env (reset_request '' r1'') ''d'' empty_ops)))"

lemma padded_request_twice:
  "(case acceptOperation later_env (reset_request '' r1'') ''d'' padded_ops of (r, t) \<Rightarrow> (isl r, listed t)) =
   (False, [''reset1'', ''reset2''])"
  by code_simp

lemma empty_ops_admitted: "admitted oe empty_ops"
proof -
  have "\<not> recorded empty_ops g" for g
    by (simp add: recorded_def empty_ops_def op_events_def journal_at_def op_at_def events_of_def)
  then show ?thesis
    using empty_ops_ok by (simp add: admitted_def rooted_def exclusive_def unique_requests_def unfinished_def empty_ops_def)
qed

lemma reset_pair:
  obtains c where "acceptOperation demo_agent_env (reset_request ''r1'') ''d'' empty_ops = (Inr (Created c), reset_ops)"
    "or_OperationID c = ''reset1''"
proof -
  let ?r = "fst (acceptOperation demo_agent_env (reset_request ''r1'') ''d'' empty_ops)"
  have "(case ?r of Inr (Created c) \<Rightarrow> or_OperationID c | _ \<Rightarrow> []) = ''reset1''" by code_simp
  then obtain c where "?r = Inr (Created c)" "or_OperationID c = ''reset1''" by (auto split: sum.splits submission.splits)
  then show thesis using that run_outcome [of "acceptOperation demo_agent_env (reset_request ''r1'') ''d'' empty_ops"]
    unfolding reset_ops_def by blast
qed

lemma reset_admitted: "admitted demo_op_env reset_ops"
proof -
  obtain c where "acceptOperation demo_agent_env (reset_request ''r1'') ''d'' empty_ops = (Inr (Created c), reset_ops)" by (rule reset_pair)
  from admitsD(1) [OF io_relD [OF admits_acceptOperation this] empty_ops_admitted] show ?thesis by (simp add: demo_agent_env_def)
qed

lemma audited_pair: obtains report where "AuditStartup later_env 90 reset_ops = (Inr report, audited_ops)"
  using run_success [OF audit_run] unfolding audited_ops_def by blast

text \<open>An operation without locks beside the reset.\<close>

definition shared_ops :: op_store where
  "shared_ops = snd (Store_Create demo_op_env demo_operation ''start'' 75 reset_ops)"

lemma shared_state: "recorded shared_ops ''reset1'' \<and> recorded shared_ops ''op1'' \<and> \<not> or_Terminal (last_record shared_ops ''reset1'') \<and>
    \<not> or_Terminal (last_record shared_ops ''op1'') \<and> or_ResourceLocks (last_record shared_ops ''reset1'') \<noteq> []"
  unfolding recorded_def by code_simp

lemma shared_admitted: "admitted demo_op_env shared_ops"
proof -
  have "admits demo_op_env reset_ops shared_ops"
    by (rule admits_Create [of _ demo_operation "''start''" 75]) (auto simp: shared_ops_def demo_operation_def request_id_def intro: prod.collapse [symmetric])
  then show ?thesis using reset_admitted by (rule admitsD(1))
qed

text \<open>An operation with an executor plan that was not started, and its audit.\<close>

definition planned_operation :: OperationRecord where
  "planned_operation = demo_operation\<lparr>or_ExecutorPlan := Some \<lparr>ep_Phase = ''kubeadm-upgrade'', ep_MarkerID = ''m1'', ep_Timeout = ''1m'',
     ep_MutationScopes = [''etcd''], ep_Argv = [''kubeadm'']\<rparr>\<rparr>"

definition planned_ops :: op_store where
  "planned_ops = snd (Store_Create demo_op_env planned_operation ''start'' 75 empty_ops)"

definition stopped_ops :: op_store where
  "stopped_ops = snd (AuditStartup later_env 90 planned_ops)"

lemma stopped_run: "isl (fst (AuditStartup later_env 90 planned_ops)) = False"
  by code_simp

lemma stopped_pair: obtains report where "AuditStartup later_env 90 planned_ops = (Inr report, stopped_ops)"
  using run_success [OF stopped_run] unfolding stopped_ops_def by blast

lemma planned_admitted: "admitted demo_op_env planned_ops"
proof -
  have "admits demo_op_env empty_ops planned_ops"
    by (rule admits_Create [of _ planned_operation "''start''" 75])
      (auto simp: planned_ops_def planned_operation_def demo_operation_def request_id_def intro: prod.collapse [symmetric])
  then show ?thesis using empty_ops_admitted by (rule admitsD(1))
qed

lemma planned_create: "fst (Store_Create demo_op_env planned_operation ''start'' 75 empty_ops) = Inr (new_record planned_operation 75)"
  by code_simp

lemma planned_record: "recorded planned_ops ''op1'' \<and> last_record planned_ops ''op1'' = new_record planned_operation 75"
proof -
  have pair: "Store_Create demo_op_env planned_operation ''start'' 75 empty_ops = (Inr (new_record planned_operation 75), planned_ops)"
    unfolding planned_ops_def by (rule run_outcome [OF planned_create])
  have id: "or_OperationID (new_record planned_operation 75) = ''op1''" by code_simp
  from Create_acknowledged(2) [OF empty_ops_ok pair] id show ?thesis by (auto simp: recorded_def last_record_def)
qed

lemma apply_ops_clean: "clean_candidates demo_op_env apply_ops"
proof -
  have pair: "Store_Create demo_op_env apply_operation ''accepted'' 70 empty_ops = (Inr (new_record apply_operation 70), apply_ops)"
    unfolding apply_ops_def by (rule run_outcome [OF apply_create])
  let ?r = "new_record apply_operation 70"
  have id: "or_OperationID ?r = ''apply1''" "TrimSpace (or_CandidateGenerationID ?r) = or_CandidateGenerationID ?r" by code_simp+
  from Create_acknowledged(2) [OF empty_ops_ok pair] id obtain e where e: "je_Record e = ?r"
    "op_events apply_ops = (op_events empty_ops)(''apply1'' := [e])" by auto
  have "op_events empty_ops g = []" for g by (simp add: empty_ops_def op_events_def journal_at_def op_at_def events_of_def)
  with e id(2) ops_ok_Create [OF empty_ops_ok pair] show ?thesis
    by (auto simp: clean_candidates_def recorded_def last_record_def)
qed

lemma cyclic_ok: "ops_ok demo_op_env cyclic_ops"
  unfolding cyclic_ops_def by (rule ops_ok_Create [OF empty_ops_ok run_outcome [OF cyclic_run]])

definition restarted :: agent where
  "restarted = snd (startup later_env \<lparr>ag_node = empty_node, ag_ops = reset_ops\<rparr>)"

lemma restart_run: "isl (fst (acceptOperation later_env (reset_request ''r1'') ''d'' (ag_ops restarted))) = False"
  by code_simp

lemma restarted_step: "agent_step demo_env demo_op_env \<lparr>ag_node = empty_node, ag_ops = reset_ops\<rparr> restarted"
proof -
  have "ae_env later_env = demo_env" "ae_op later_env = demo_op_env" by (simp_all add: later_env_def demo_agent_env_def)
  then show ?thesis unfolding restarted_def by (rule agent_step.agent_startup) (rule prod.collapse [symmetric])
qed

lemma failing_trial_error:
  "fst (commitTrialGeneration demo_agent_env trial_operation 75 ''trial'' failing_node) =
   Inl (Wrap ''commit candidate generation: %w'' [] (OsError ''EIO''))"
  by code_simp

lemma failing_entry_run:
  "fst (writeCandidateLoaderEntry demo_agent_env ''b'' failing_node) = Inr (spec_b, candidate_b, ''loader/entries/katl-b.conf'')"
  by code_simp

end
