(* ===== verification/ConfigPlan.thy ===== *)
theory ConfigPlan
  imports Metadata ConfigApply
begin

text \<open>
  Planning a configuration apply (\<^verbatim>\<open>internal/installer/configapply/matrix.go\<close> and \<^verbatim>\<open>planner.go\<close>): the policy of each
  configuration domain, the decision whether a set of changes is applied live or at the next boot, and the generation
  record and apply status of the accepted change. A function that returns a value beside an error is a pair; the table
  of policies is an association list.
\<close>

section \<open>Domains and policies\<close>

definition DomainGenerationRetention :: string where "DomainGenerationRetention = ''generation-retention''"
definition DomainNodeIdentity :: string where "DomainNodeIdentity = ''node-identity''"
definition DomainResolved :: string where "DomainResolved = ''resolved''"
definition DomainModulesLoad :: string where "DomainModulesLoad = ''modules-load''"
definition DomainTmpfiles :: string where "DomainTmpfiles = ''tmpfiles''"
definition DomainMountUnits :: string where "DomainMountUnits = ''mount-units''"
definition DomainVolumes :: string where "DomainVolumes = ''volumes''"
definition DomainKubeadmConfig :: string where "DomainKubeadmConfig = ''kubeadm-config''"
definition DomainBootstrapNodeMetadata :: string where "DomainBootstrapNodeMetadata = ''bootstrap-node-metadata''"
definition DomainSSHOperatorAccess :: string where "DomainSSHOperatorAccess = ''ssh-operator-access''"
definition DomainSystemRole :: string where "DomainSystemRole = ''system-role''"
definition DomainSelectedKubeadmConfig :: string where "DomainSelectedKubeadmConfig = ''selected-kubeadm-config''"
definition DomainSelectedKubernetesSysext :: string where "DomainSelectedKubernetesSysext = ''selected-kubernetes-sysext''"
definition DomainKubeletNodeIdentity :: string where "DomainKubeletNodeIdentity = ''kubelet-node-identity''"
definition DomainHostAccountPolicy :: string where "DomainHostAccountPolicy = ''host-account-policy''"
definition DomainEtcKubernetes :: string where "DomainEtcKubernetes = ''etc-kubernetes''"
definition DomainArbitraryEtc :: string where "DomainArbitraryEtc = ''arbitrary-etc''"
definition DomainRootSelection :: string where "DomainRootSelection = ''root-selection''"
definition DomainSysextSelection :: string where "DomainSysextSelection = ''sysext-selection''"
definition DomainControlPlaneEndpointBootstrap :: string where
  "DomainControlPlaneEndpointBootstrap = ''control-plane-endpoint-bootstrap''"
definition DomainControlPlaneEndpointIdentity :: string where
  "DomainControlPlaneEndpointIdentity = ''control-plane-endpoint-identity''"
definition DomainControlPlaneEndpointVIP :: string where "DomainControlPlaneEndpointVIP = ''control-plane-endpoint-vip''"
definition DomainHostConfiguration :: string where "DomainHostConfiguration = ''host-configuration''"
definition DomainSystemExtensions :: string where "DomainSystemExtensions = ''system-extensions''"
definition DomainKernelCommandLine :: string where "DomainKernelCommandLine = ''kernel-command-line''"
definition DomainAPIProxy :: string where "DomainAPIProxy = ''api-proxy''"

definition ClassificationOnlineApplicable :: string where "ClassificationOnlineApplicable = ''online-applicable''"
definition ClassificationStagedOnly :: string where "ClassificationStagedOnly = ''staged-only''"
definition ClassificationOperationOnly :: string where "ClassificationOperationOnly = ''operation-only''"
definition ClassificationRejected :: string where "ClassificationRejected = ''rejected''"

definition DecisionAccepted :: string where "DecisionAccepted = ''accepted''"
definition DecisionStagedRequired :: string where "DecisionStagedRequired = ''staged-required''"
definition DecisionActionRequired :: string where "DecisionActionRequired = ''action-required''"
definition DecisionRejected :: string where "DecisionRejected = ''rejected''"

record EndpointVIPImpact =
  ei_MayInterruptEndpoint :: bool

record Change =
  ch_Domain :: string
  ch_LivePreflightOK :: bool
  ch_EndpointVIPImpact :: "EndpointVIPImpact option"
  ch_Sets :: "string list"
  ch_Paths :: "string list"
  ch_Effects :: "ConfigApplyEffect list"
  ch_Message :: string
  ch_Warnings :: "string list"

record Diagnostic =
  di_Domain :: string
  di_Classification :: string
  di_Decision :: string
  di_RequiredOperation :: string
  di_Message :: string
  di_EndpointVIP :: "EndpointVIPImpact option"
  di_Sets :: "string list"
  di_Paths :: "string list"

record Decision =
  dc_RequestedMode :: string
  dc_AcceptedMode :: string
  dc_ChangedDomains :: "string list"
  dc_Diagnostics :: "Diagnostic list"
  dc_Warnings :: "string list"

record domainPolicy =
  dp_Classification :: string
  dp_LivePreflight :: bool
  dp_NextBootAllowed :: bool
  dp_LiveRejectionReason :: string
  dp_RequiredOperation :: string

definition no_policy :: domainPolicy where
  "no_policy = \<lparr>dp_Classification = [], dp_LivePreflight = False, dp_NextBootAllowed = False,
     dp_LiveRejectionReason = [], dp_RequiredOperation = []\<rparr>"

definition staged_policy :: domainPolicy where
  "staged_policy = no_policy\<lparr>dp_Classification := ClassificationStagedOnly, dp_NextBootAllowed := True\<rparr>"

definition online_policy :: domainPolicy where
  "online_policy = no_policy\<lparr>dp_Classification := ClassificationOnlineApplicable, dp_NextBootAllowed := True\<rparr>"

definition operation_policy :: "string \<Rightarrow> string \<Rightarrow> domainPolicy" where
  "operation_policy reason operation =
     no_policy\<lparr>dp_Classification := ClassificationOperationOnly, dp_LiveRejectionReason := reason,
       dp_RequiredOperation := operation\<rparr>"

definition rejected_policy :: "string \<Rightarrow> domainPolicy" where
  "rejected_policy reason =
     no_policy\<lparr>dp_Classification := ClassificationRejected, dp_LiveRejectionReason := reason\<rparr>"

definition domainPolicies :: "(string \<times> domainPolicy) list" where
  "domainPolicies =
     [(DomainResolved, staged_policy),
      (DomainGenerationRetention, online_policy),
      (DomainHostConfiguration, online_policy\<lparr>dp_LivePreflight := True\<rparr>),
      (DomainSystemExtensions, staged_policy),
      (DomainKernelCommandLine, staged_policy),
      (DomainAPIProxy, online_policy),
      (DomainTmpfiles, staged_policy),
      (DomainBootstrapNodeMetadata, online_policy),
      (DomainNodeIdentity, staged_policy),
      (DomainModulesLoad, staged_policy),
      (DomainMountUnits, staged_policy),
      (DomainVolumes, no_policy\<lparr>dp_Classification := ClassificationOnlineApplicable, dp_LiveRejectionReason :=
         ''volume changes require live target discovery and preparation; use live or auto apply''\<rparr>),
      (DomainSSHOperatorAccess, staged_policy),
      (DomainKubeadmConfig, online_policy\<lparr>dp_RequiredOperation := ''kubeadm-aware operation''\<rparr>),
      (DomainSystemRole, operation_policy ''systemRole changes require wipe-reinstall or an explicit lifecycle operation''
         ''wipe-reinstall''),
      (DomainSelectedKubeadmConfig, online_policy\<lparr>dp_RequiredOperation := ''kubeadm-aware operation''\<rparr>),
      (DomainSelectedKubernetesSysext,
         operation_policy ''selected Kubernetes sysext changes require an explicit update action'' ''kubernetes-upgrade''),
      (DomainKubeletNodeIdentity,
         operation_policy ''kubelet node identity changes are not live-applicable'' ''kubeadm-aware operation''),
      (DomainHostAccountPolicy, rejected_policy ''host account policy is not user-owned configuration''),
      (DomainEtcKubernetes, rejected_policy ''/etc/kubernetes is kubeadm-owned mutable state''),
      (DomainArbitraryEtc, rejected_policy ''arbitrary /etc paths are not supported configuration domains''),
      (DomainRootSelection, operation_policy ''root selection changes require an explicit update action'' ''host-upgrade''),
      (DomainSysextSelection, operation_policy ''sysext selection changes require an explicit update action'' ''host-upgrade''),
      (DomainControlPlaneEndpointBootstrap, staged_policy),
      (DomainControlPlaneEndpointIdentity,
         operation_policy ''initialized control-plane endpoint host, port, VIP, and ownership cannot change without a dedicated endpoint migration''
           ''control-plane-endpoint-migration (not yet supported)''),
      (DomainControlPlaneEndpointVIP, online_policy)]"

definition DomainClassification :: "string \<Rightarrow> string" where
  "DomainClassification domain =
     (case map_of domainPolicies (TrimSpace domain) of
        None \<Rightarrow> ClassificationRejected
      | Some policy \<Rightarrow> dp_Classification policy)"

section \<open>The decision on one change\<close>

definition normalizeRequestedMode :: "string \<Rightarrow> string res" where
  "normalizeRequestedMode raw =
     (let mode = TrimSpace raw
      in if mode = [] then Inr ApplyModeAuto
         else if TrimSpace mode \<in> {ApplyModeAuto, ApplyModeLive, ApplyModeNextBoot} then Inr mode
         else fail ''apply mode = %q, want %q, %q, or %q'' [mode])"

definition requiredOperationMessage :: "domainPolicy \<Rightarrow> string" where
  "requiredOperationMessage policy =
     (if TrimSpace (dp_RequiredOperation policy) \<noteq> [] then ''domain requires '' @ dp_RequiredOperation policy
      else dp_LiveRejectionReason policy)"

definition endpointVIPImpactMessage :: "EndpointVIPImpact \<Rightarrow> string" where
  "endpointVIPImpactMessage impact =
     (if ei_MayInterruptEndpoint impact
      then ''this node temporarily releases its API VIP while endpoint configuration activates'' else [])"

text \<open>The literals of a diagnostic name its domain, classification and decision, some also operation and message.\<close>

definition diagnostic :: "string \<Rightarrow> domainPolicy \<Rightarrow> string \<Rightarrow> Diagnostic" where
  "diagnostic domain policy decision =
     \<lparr>di_Domain = domain, di_Classification = dp_Classification policy, di_Decision = decision, di_RequiredOperation = [],
      di_Message = [], di_EndpointVIP = None, di_Sets = [], di_Paths = []\<rparr>"

definition operation_diagnostic :: "string \<Rightarrow> domainPolicy \<Rightarrow> string \<Rightarrow> Diagnostic" where
  "operation_diagnostic domain policy decision =
     (diagnostic domain policy decision)\<lparr>di_RequiredOperation := dp_RequiredOperation policy,
        di_Message := requiredOperationMessage policy\<rparr>"

definition diagnosticForChange :: "string \<Rightarrow> Change \<Rightarrow> domainPolicy \<Rightarrow> Diagnostic" where
  "diagnosticForChange requestedMode change policy =
     (let domain = TrimSpace (ch_Domain change); classification = dp_Classification policy in
      if requestedMode = ApplyModeNextBoot then
        if classification = ClassificationOperationOnly then
          operation_diagnostic domain policy (if dp_NextBootAllowed policy then DecisionActionRequired else DecisionRejected)
        else if dp_NextBootAllowed policy then diagnostic domain policy DecisionAccepted
        else (diagnostic domain policy DecisionRejected)\<lparr>di_Message := dp_LiveRejectionReason policy\<rparr>
      else if classification = ClassificationOnlineApplicable then
        if \<not> dp_LivePreflight policy \<or> ch_LivePreflightOK change then diagnostic domain policy DecisionAccepted
        else (diagnostic domain policy DecisionStagedRequired)\<lparr>di_Message :=
               (if TrimSpace (ch_Message change) = [] then ''live preflight is required before this domain can apply online''
                else TrimSpace (ch_Message change))\<rparr>
      else if classification = ClassificationStagedOnly then
        (diagnostic domain policy DecisionStagedRequired)\<lparr>di_Message :=
           ''domain is staged-only for normal runtime configuration apply''\<rparr>
      else if classification = ClassificationOperationOnly then
        operation_diagnostic domain policy
          (if requestedMode = ApplyModeAuto \<and> dp_NextBootAllowed policy then DecisionActionRequired else DecisionRejected)
      else (diagnostic domain policy DecisionRejected)\<lparr>di_Message := dp_LiveRejectionReason policy\<rparr>)"

section \<open>The plan\<close>

definition empty_decision :: Decision where
  "empty_decision = \<lparr>dc_RequestedMode = [], dc_AcceptedMode = [], dc_ChangedDomains = [], dc_Diagnostics = [], dc_Warnings = []\<rparr>"

definition unknown_domain :: "string \<Rightarrow> Diagnostic" where
  "unknown_domain domain =
     \<lparr>di_Domain = domain, di_Classification = ClassificationRejected, di_Decision = DecisionRejected, di_RequiredOperation = [],
      di_Message = ''unknown configuration domain is not supported'', di_EndpointVIP = None, di_Sets = [], di_Paths = []\<rparr>"

text \<open>The variables of the loop: the decision so far and the two flags.\<close>

record planning =
  pl_Decision :: Decision
  pl_NeedsNextBoot :: bool
  pl_Rejected :: bool

definition add_domain :: "string \<Rightarrow> planning \<Rightarrow> planning" where
  "add_domain domain p =
     p\<lparr>pl_Decision := (pl_Decision p)\<lparr>dc_ChangedDomains :=
         (if domain \<in> set (dc_ChangedDomains (pl_Decision p)) then dc_ChangedDomains (pl_Decision p)
          else dc_ChangedDomains (pl_Decision p) @ [domain])\<rparr>\<rparr>"

definition add_diagnostic :: "Diagnostic \<Rightarrow> planning \<Rightarrow> planning" where
  "add_diagnostic d p =
     p\<lparr>pl_Decision := (pl_Decision p)\<lparr>dc_Diagnostics := dc_Diagnostics (pl_Decision p) @ [d]\<rparr>\<rparr>"

definition change_diagnostic :: "string \<Rightarrow> Change \<Rightarrow> domainPolicy \<Rightarrow> Diagnostic" where
  "change_diagnostic requestedMode change policy =
     (let d = (diagnosticForChange requestedMode change policy)\<lparr>di_Sets := ch_Sets change, di_Paths := ch_Paths change\<rparr>
      in if ch_Message change \<noteq> [] \<and> di_Message d = [] then d\<lparr>di_Message := ch_Message change\<rparr> else d)"

definition plan_change :: "string \<Rightarrow> Change \<Rightarrow> planning \<Rightarrow> planning" where
  "plan_change requestedMode change p0 =
     (let domain = TrimSpace (ch_Domain change); p = add_domain domain p0 in
      case map_of domainPolicies domain of
        None \<Rightarrow> (add_diagnostic (unknown_domain domain) p)\<lparr>pl_Rejected := True\<rparr>
      | Some policy \<Rightarrow>
          let d = change_diagnostic requestedMode change policy in
          if di_Decision d = DecisionAccepted then
            case ch_EndpointVIPImpact change of
              Some impact \<Rightarrow>
                add_diagnostic (d\<lparr>di_EndpointVIP := Some impact, di_Message := endpointVIPImpactMessage impact\<rparr>) p
            | None \<Rightarrow>
                if ch_Message change \<noteq> [] \<or> ch_Sets change \<noteq> [] \<or> ch_Paths change \<noteq> [] then add_diagnostic d p else p
          else if di_Decision d = DecisionActionRequired then (add_diagnostic d p)\<lparr>pl_NeedsNextBoot := True\<rparr>
          else if di_Decision d = DecisionStagedRequired then
            let q = p\<lparr>pl_NeedsNextBoot := True\<rparr>
            in if requestedMode \<noteq> ApplyModeAuto then (add_diagnostic d q)\<lparr>pl_Rejected := True\<rparr> else q
          else (add_diagnostic d p)\<lparr>pl_Rejected := True\<rparr>)"

fun plan_changes :: "string \<Rightarrow> Change list \<Rightarrow> planning \<Rightarrow> planning res" where
  "plan_changes requestedMode [] p = Inr p"
| "plan_changes requestedMode (change # changes) p =
     (if TrimSpace (ch_Domain change) = [] then fail ''config apply domain is required'' []
      else plan_changes requestedMode changes (plan_change requestedMode change p))"

fun add_missing :: "string list \<Rightarrow> string list \<Rightarrow> string list" where
  "add_missing acc [] = acc"
| "add_missing acc (w # ws) = add_missing (if w \<in> set acc then acc else acc @ [w]) ws"

text \<open>The decision of a rejected request is returned beside the error; on the other errors it is empty.\<close>

definition Plan :: "string \<Rightarrow> Change list \<Rightarrow> Decision \<times> error" where
  "Plan raw changes =
     (case normalizeRequestedMode raw of
        Inl e \<Rightarrow> (empty_decision, Some e)
      | Inr mode \<Rightarrow>
          if changes = [] then (empty_decision, Some (Errorf ''config apply changes are required'' []))
          else case plan_changes mode changes
                 \<lparr>pl_Decision = empty_decision\<lparr>dc_RequestedMode := mode\<rparr>, pl_NeedsNextBoot = False, pl_Rejected = False\<rparr> of
            Inl e \<Rightarrow> (empty_decision, Some e)
          | Inr p \<Rightarrow>
              if pl_Rejected p
              then (pl_Decision p, Some (Errorf ''config apply %s request rejected for %d domain(s)'' [mode]))
              else if mode = ApplyModeNextBoot \<or> pl_NeedsNextBoot p
              then ((pl_Decision p)\<lparr>dc_AcceptedMode := ApplyModeNextBoot\<rparr>, None)
              else ((pl_Decision p)\<lparr>dc_AcceptedMode := ApplyModeLive,
                       dc_Warnings := add_missing [] (concat (map ch_Warnings changes))\<rparr>, None))"

section \<open>The change of a node's configuration\<close>

definition NodeConfigurationChangeKind :: string where "NodeConfigurationChangeKind = ''NodeConfigurationChange''"

record NodeConfigurationChange =
  nc_APIVersion :: string
  nc_Kind :: string
  nc_GenerationID :: string
  nc_SourceDigest :: string
  nc_Mode :: string
  nc_Changes :: "Change list"
  nc_Sysexts :: "ExtensionRef list"
  nc_BundledConfexts :: "ExtensionRef list"
  nc_GeneratedConfext :: GeneratedConfext
  nc_Kubeadm :: KubeadmActionRequired
  nc_RequestedAt :: time
  nc_KernelCommandLine :: "string list option"
  nc_ConfiguredKernelCommandLine :: "string list"
  nc_ConfiguredKernelCommandLineSet :: bool
  nc_VolumeBindings :: "VolumeBinding list"
  nc_VolumeBindingsSet :: bool

fun kubernetesSysext :: "ExtensionRef list \<Rightarrow> ExtensionRef option" where
  "kubernetesSysext [] = None"
| "kubernetesSysext (ref # refs) = (if er_Name ref = ''kubernetes'' then Some ref else kubernetesSysext refs)"

definition selectedKubernetesSysextChange :: "ExtensionRef list \<Rightarrow> ExtensionRef list \<Rightarrow> Diagnostic option" where
  "selectedKubernetesSysextChange current candidate =
     (let rejected = Some
            \<lparr>di_Domain = DomainSelectedKubernetesSysext, di_Classification = ClassificationOperationOnly,
             di_Decision = DecisionRejected, di_RequiredOperation = ''kubernetes-upgrade'',
             di_Message = ''selected Kubernetes sysext changes require target kubeadm access mode and kubelet activation gate'',
             di_EndpointVIP = None, di_Sets = [], di_Paths = []\<rparr>
      in case (kubernetesSysext current, kubernetesSysext candidate) of
           (None, None) \<Rightarrow> None
         | (Some a, Some b) \<Rightarrow>
             if EqualFold (er_SHA256 a) (er_SHA256 b) \<and> er_PayloadVersion a = er_PayloadVersion b then None else rejected
         | _ \<Rightarrow> rejected)"

fun changed_domains_from :: "string list \<Rightarrow> Change list \<Rightarrow> string list" where
  "changed_domains_from acc [] = acc"
| "changed_domains_from acc (change # changes) =
     (let name = TrimSpace (ch_Domain change)
      in changed_domains_from (if name = [] \<or> name \<in> set acc then acc else acc @ [name]) changes)"

definition changedDomainsWith :: "Change list \<Rightarrow> string \<Rightarrow> string list" where
  "changedDomainsWith changes domain =
     (let names = changed_domains_from [] changes in if domain \<in> set names then names else names @ [domain])"

definition liveAction :: "string \<Rightarrow> string" where
  "liveAction domain =
     (if domain = DomainResolved then ''systemd-resolved-reload''
      else if domain = DomainTmpfiles then ''systemd-tmpfiles''
      else if domain = DomainBootstrapNodeMetadata then ''node-metadata-refresh''
      else if domain = DomainHostConfiguration then ''native-host-configuration-apply''
      else if domain = DomainVolumes then ''volume-prepare-and-activate''
      else ''none'')"

definition bare_action :: "string \<Rightarrow> Change option \<Rightarrow> ConfigApplyDomainAction" where
  "bare_action domain change =
     (case change of
        None \<Rightarrow> \<lparr>da_Domain = domain, da_Action = [], da_Status = [], da_Sets = [], da_Paths = [], da_Effects = [], da_Diagnostic = []\<rparr>
      | Some c \<Rightarrow> \<lparr>da_Domain = domain, da_Action = [], da_Status = [], da_Sets = ch_Sets c, da_Paths = ch_Paths c,
                   da_Effects = ch_Effects c, da_Diagnostic = ch_Message c\<rparr>)"

definition domain_action :: "string \<Rightarrow> (string \<times> Change) list \<Rightarrow> string \<Rightarrow> ConfigApplyDomainAction" where
  "domain_action acceptedMode details domain =
     (let action = bare_action domain (map_of details domain) in
      if domain = DomainKubeadmConfig \<or> domain = DomainSelectedKubeadmConfig then
        action\<lparr>da_Action := ''kubeadm-operation-required'', da_Diagnostic :=
          ''desired kubeadm input activated; live state and any required kubelet restart belong to the kubeadm component operation'',
          da_Status := ''skipped''\<rparr>
      else if acceptedMode = ApplyModeNextBoot \<and> domain = DomainHostConfiguration then
        action\<lparr>da_Action := ''native-host-configuration-boot-apply'', da_Status := ''planned''\<rparr>
      else if acceptedMode = ApplyModeNextBoot then
        action\<lparr>da_Action := ''stage-next-boot'', da_Diagnostic :=
          (if da_Diagnostic action = [] then ''domain staged into next boot generation'' else da_Diagnostic action),
          da_Status := ''skipped''\<rparr>
      else action\<lparr>da_Action := liveAction domain, da_Status := ''planned''\<rparr>)"

text \<open>The details are keyed by the domain as it was given; of two changes of a domain the last one counts.\<close>

definition domainActions :: "string \<Rightarrow> string list \<Rightarrow> Change list \<Rightarrow> ConfigApplyDomainAction list" where
  "domainActions acceptedMode domains changes =
     map (domain_action acceptedMode (rev (map (\<lambda>c. (ch_Domain c, c)) changes))) domains"

definition config_request :: "Record \<Rightarrow> NodeConfigurationChange \<Rightarrow> Decision \<Rightarrow> RuntimeConfigRequest" where
  "config_request current request decision =
     \<lparr>rc_GenerationID = nc_GenerationID request, rc_Previous = current, rc_SourceDigest = nc_SourceDigest request,
      rc_Sysexts = nc_Sysexts request, rc_BundledConfexts = nc_BundledConfexts request,
      rc_GeneratedConfext = nc_GeneratedConfext request, rc_ChangedDomains = dc_ChangedDomains decision,
      rc_RequestedApplyMode = dc_RequestedMode decision, rc_AcceptedApplyMode = dc_AcceptedMode decision,
      rc_Kubeadm = nc_Kubeadm request, rc_CreatedAt = nc_RequestedAt request,
      rc_KernelCommandLine = nc_KernelCommandLine request,
      rc_ConfiguredKernelCommandLine = nc_ConfiguredKernelCommandLine request,
      rc_ConfiguredKernelCommandLineSet = nc_ConfiguredKernelCommandLineSet request,
      rc_VolumeBindings = nc_VolumeBindings request, rc_VolumeBindingsSet = nc_VolumeBindingsSet request\<rparr>"

definition status_request :: "Record \<Rightarrow> NodeConfigurationChange \<Rightarrow> Decision \<Rightarrow> Record \<Rightarrow> ConfigApplyStatusRequest" where
  "status_request current request decision record =
     \<lparr>cq_GenerationID = re_GenerationID record, cq_PreviousGeneration = re_GenerationID current,
      cq_RequestedApplyMode = dc_RequestedMode decision, cq_AcceptedApplyMode = dc_AcceptedMode decision,
      cq_ChangedDomains = dc_ChangedDomains decision, cq_HealthState = re_HealthState record,
      cq_Kubeadm = nc_Kubeadm request, cq_UpdatedAt = nc_RequestedAt request\<rparr>"

text \<open>The result is a decision with, unless there was an error, the record and the status; on an error those are zero.\<close>

definition PlanChange ::
  "oci_parser \<Rightarrow> (string \<Rightarrow> string) \<Rightarrow> time \<Rightarrow> Record \<Rightarrow> NodeConfigurationChange \<Rightarrow>
   Decision \<times> (Record \<times> ConfigApplyStatus) res" where
  "PlanChange ParseNamed redact now current request =
     (case res_need
         (first_error
            [reject (TrimSpace (nc_APIVersion request) \<noteq> APIVersion)
               ''node configuration change apiVersion = %q, want %q'' [nc_APIVersion request],
             reject (TrimSpace (nc_Kind request) \<noteq> NodeConfigurationChangeKind)
               ''node configuration change kind = %q, want %q'' [nc_Kind request],
             reject (TrimSpace (nc_GenerationID request) = []) ''generation id is required'' [],
             reject (TrimSpace (nc_SourceDigest request) = []) ''configuration source digest is required'' []])
         (normalizeRequestedMode (nc_Mode request)) of
        Inl e \<Rightarrow> (empty_decision, Inl e)
      | Inr mode \<Rightarrow>
          case selectedKubernetesSysextChange (re_Sysexts current) (nc_Sysexts request) of
            Some d \<Rightarrow>
              (empty_decision\<lparr>dc_RequestedMode := mode, dc_ChangedDomains :=
                 changedDomainsWith (nc_Changes request) DomainSelectedKubernetesSysext, dc_Diagnostics := [d]\<rparr>,
               fail ''normal runtime configuration cannot change the selected Kubernetes sysext before target kubeadm access and kubelet activation gate are implemented'' [])
          | None \<Rightarrow>
              case Plan mode (nc_Changes request) of
                (decision, Some e) \<Rightarrow> (decision, Inl e)
              | (decision, None) \<Rightarrow>
                  (decision,
                   res_bind (NewRuntimeConfigRecord ParseNamed redact now (config_request current request decision)) (\<lambda>record.
                   res_bind (NewConfigApplyStatus redact now (status_request current request decision record)) (\<lambda>status0.
                   let status = status0\<lparr>cs_DomainActions :=
                         domainActions (dc_AcceptedMode decision) (dc_ChangedDomains decision) (nc_Changes request)\<rparr>
                   in res_need (ValidateConfigApplyStatus status) (Inr (record, status))))))"

end
