(* ===== verification/ConfigPlanFacts.thy ===== *)
theory ConfigPlanFacts
  imports ConfigPlan
begin

text \<open>
  What a plan decides. \<open>admissible\<close> says, per requested mode, which changes a plan accepts and \<open>applies_live\<close> which of
  them can be applied without a reboot; \<open>Plan_accepts\<close> and \<open>Plan_result\<close> say that \<open>Plan\<close> implements them.
\<close>

section \<open>The table of policies\<close>

definition policy_of :: "Change \<Rightarrow> domainPolicy option" where
  "policy_of change = map_of domainPolicies (TrimSpace (ch_Domain change))"

definition stageable :: "domainPolicy \<Rightarrow> bool" where
  "stageable policy \<longleftrightarrow> dp_Classification policy \<in> {ClassificationOnlineApplicable, ClassificationStagedOnly}"

lemma domainPolicies_shape:
  "list_all (\<lambda>(d, p). (stageable p \<or> dp_Classification p \<in> {ClassificationOperationOnly, ClassificationRejected} \<and> \<not> dp_NextBootAllowed p) \<and>
     (dp_Classification p = ClassificationStagedOnly \<longrightarrow> dp_NextBootAllowed p)) domainPolicies"
  by code_simp

lemma policy_shape:
  assumes "policy_of change = Some policy"
  shows "stageable policy \<or> dp_Classification policy \<in> {ClassificationOperationOnly, ClassificationRejected} \<and> \<not> dp_NextBootAllowed policy"
    "dp_Classification policy = ClassificationStagedOnly \<Longrightarrow> dp_NextBootAllowed policy"
  using domainPolicies_shape map_of_SomeD [OF assms [unfolded policy_of_def]] by (auto simp: list_all_iff)

lemma classification_names:
  "distinct [ClassificationOnlineApplicable, ClassificationStagedOnly, ClassificationOperationOnly, ClassificationRejected]"
  by code_simp

lemma decision_names: "distinct [DecisionAccepted, DecisionStagedRequired, DecisionActionRequired, DecisionRejected]"
  by code_simp

lemma mode_names: "distinct [ApplyModeAuto, ApplyModeLive, ApplyModeNextBoot]"
  by code_simp

lemma decision_names_rev: "distinct [DecisionRejected, DecisionActionRequired, DecisionStagedRequired, DecisionAccepted]"
  using decision_names by auto

lemmas plan_names = classification_names [simplified] decision_names [simplified] mode_names [simplified]

section \<open>The verdict on a change\<close>

definition applies_live :: "Change \<Rightarrow> bool" where
  "applies_live change \<longleftrightarrow>
     (\<exists>policy. policy_of change = Some policy \<and> dp_Classification policy = ClassificationOnlineApplicable \<and>
        (dp_LivePreflight policy \<longrightarrow> ch_LivePreflightOK change))"

definition admissible :: "string \<Rightarrow> Change \<Rightarrow> bool" where
  "admissible mode change \<longleftrightarrow>
     (\<exists>policy. policy_of change = Some policy \<and> stageable policy \<and>
        (mode = ApplyModeLive \<longrightarrow> applies_live change) \<and> (mode = ApplyModeNextBoot \<longrightarrow> dp_NextBootAllowed policy))"

lemma diagnostic_decision [simp]:
  "di_Decision (diagnostic d policy x) = x" "di_Decision (operation_diagnostic d policy x) = x"
  by (simp_all add: diagnostic_def operation_diagnostic_def)

lemma change_diagnostic_decision [simp]:
  "di_Decision (change_diagnostic mode change policy) = di_Decision (diagnosticForChange mode change policy)"
  by (simp add: change_diagnostic_def Let_def)

definition verdict :: "string \<Rightarrow> Change \<Rightarrow> domainPolicy \<Rightarrow> string" where
  "verdict mode change policy = di_Decision (diagnosticForChange mode change policy)"

lemma verdict_cases:
  assumes "policy_of change = Some policy" "mode \<in> {ApplyModeAuto, ApplyModeLive, ApplyModeNextBoot}"
  shows "verdict mode change policy =
    (if \<not> admissible mode change \<and> \<not> (mode = ApplyModeLive \<and> stageable policy) then DecisionRejected
     else if mode = ApplyModeNextBoot \<or> applies_live change then DecisionAccepted else DecisionStagedRequired)"
  using policy_shape [OF assms(1)] assms plan_names
  by (auto simp: verdict_def diagnosticForChange_def admissible_def applies_live_def stageable_def Let_def)

section \<open>The loop\<close>

lemma add_simps [simp]:
  "pl_Rejected (add_domain d p) = pl_Rejected p" "pl_NeedsNextBoot (add_domain d p) = pl_NeedsNextBoot p"
  "pl_Rejected (add_diagnostic x p) = pl_Rejected p" "pl_NeedsNextBoot (add_diagnostic x p) = pl_NeedsNextBoot p"
  "dc_ChangedDomains (pl_Decision (add_diagnostic x p)) = dc_ChangedDomains (pl_Decision p)"
  "dc_RequestedMode (pl_Decision (add_diagnostic x p)) = dc_RequestedMode (pl_Decision p)"
  "dc_RequestedMode (pl_Decision (add_domain d p)) = dc_RequestedMode (pl_Decision p)"
  by (simp_all add: add_domain_def add_diagnostic_def)

lemma add_domain_domains:
  "set (dc_ChangedDomains (pl_Decision (add_domain d p))) = insert d (set (dc_ChangedDomains (pl_Decision p)))"
  "distinct (dc_ChangedDomains (pl_Decision (add_domain d p))) = distinct (dc_ChangedDomains (pl_Decision p))"
  by (auto simp: add_domain_def)

lemma plan_change_domains:
  "dc_RequestedMode (pl_Decision (plan_change mode c p)) = dc_RequestedMode (pl_Decision p)"
  "set (dc_ChangedDomains (pl_Decision (plan_change mode c p))) = insert (TrimSpace (ch_Domain c)) (set (dc_ChangedDomains (pl_Decision p)))"
  "distinct (dc_ChangedDomains (pl_Decision (plan_change mode c p))) = distinct (dc_ChangedDomains (pl_Decision p))"
  by (auto simp: plan_change_def Let_def add_domain_domains split: option.splits)

lemma plan_change_verdict:
  assumes "mode \<in> {ApplyModeAuto, ApplyModeLive, ApplyModeNextBoot}"
  shows "(pl_Rejected (plan_change mode c p) \<longleftrightarrow> pl_Rejected p \<or> \<not> admissible mode c) \<and>
    (\<not> pl_Rejected (plan_change mode c p) \<longrightarrow>
       (pl_NeedsNextBoot (plan_change mode c p) \<longleftrightarrow> pl_NeedsNextBoot p \<or> mode \<noteq> ApplyModeNextBoot \<and> \<not> applies_live c))"
proof (cases "policy_of c")
  case None
  then show ?thesis by (auto simp: plan_change_def Let_def policy_of_def admissible_def)
next
  case (Some policy)
  let ?v = "verdict mode c policy"
  have v: "di_Decision (diagnosticForChange mode c policy) = ?v" by (simp add: verdict_def)
  have at: "map_of domainPolicies (TrimSpace (ch_Domain c)) = Some policy" using Some by (simp add: policy_of_def)
  from verdict_cases [OF Some assms] consider "?v = DecisionAccepted" | "?v = DecisionStagedRequired" | "?v = DecisionRejected"
    by (auto split: if_splits)
  then have run: "(pl_Rejected (plan_change mode c p) \<longleftrightarrow>
      pl_Rejected p \<or> ?v = DecisionStagedRequired \<and> mode \<noteq> ApplyModeAuto \<or> ?v = DecisionRejected) \<and>
    (pl_NeedsNextBoot (plan_change mode c p) \<longleftrightarrow> pl_NeedsNextBoot p \<or> ?v = DecisionStagedRequired)"
    using decision_names decision_names_rev
    by cases (simp_all add: plan_change_def Let_def at v split: option.splits)
  have live: "applies_live c \<Longrightarrow> stageable policy" using Some by (auto simp: applies_live_def stageable_def)
  show ?thesis
    unfolding run [THEN conjunct1] run [THEN conjunct2] verdict_cases [OF Some assms]
    using plan_names assms live Some by (auto simp: admissible_def split: if_splits)
qed

lemmas plan_change_flags = plan_change_verdict [THEN conjunct1] plan_change_verdict [THEN conjunct2, rule_format]

lemma plan_changes_run:
  assumes "plan_changes mode cs p = Inr q" "mode \<in> {ApplyModeAuto, ApplyModeLive, ApplyModeNextBoot}"
  shows "dc_RequestedMode (pl_Decision q) = dc_RequestedMode (pl_Decision p)"
    "set (dc_ChangedDomains (pl_Decision q)) = set (dc_ChangedDomains (pl_Decision p)) \<union> (\<lambda>c. TrimSpace (ch_Domain c)) ` set cs"
    "distinct (dc_ChangedDomains (pl_Decision q)) = distinct (dc_ChangedDomains (pl_Decision p))"
    "pl_Rejected q \<longleftrightarrow> pl_Rejected p \<or> (\<exists>c \<in> set cs. \<not> admissible mode c)"
    "\<not> pl_Rejected q \<Longrightarrow> pl_NeedsNextBoot q \<longleftrightarrow> pl_NeedsNextBoot p \<or> mode \<noteq> ApplyModeNextBoot \<and> (\<exists>c \<in> set cs. \<not> applies_live c)"
    "\<forall>c \<in> set cs. TrimSpace (ch_Domain c) \<noteq> []"
  using assms(1)
proof (induction cs arbitrary: p)
  case (Cons c cs)
  { case 1 then show ?case using Cons.IH(1) by (auto simp: plan_change_domains split: if_splits) }
  { case 2 then show ?case using Cons.IH(2) by (auto simp: plan_change_domains split: if_splits) }
  { case 3 then show ?case using Cons.IH(3) by (auto simp: plan_change_domains split: if_splits) }
  { case 4 then show ?case using Cons.IH(4) plan_change_flags(1) [OF assms(2)] by (auto split: if_splits) }
  { case 5
    then have next_step: "plan_changes mode cs (plan_change mode c p) = Inr q" by (simp split: if_splits)
    with 5(1) Cons.IH(4) have "\<not> pl_Rejected (plan_change mode c p)" by blast
    from Cons.IH(5) [OF 5(1) next_step] plan_change_flags(2) [OF assms(2) this] show ?case by auto }
  { case 6 then show ?case using Cons.IH(6) by (auto split: if_splits) }
qed auto

lemma plan_changes_total: "\<forall>c \<in> set cs. TrimSpace (ch_Domain c) \<noteq> [] \<Longrightarrow> \<exists>q. plan_changes mode cs p = Inr q"
  by (induction cs arbitrary: p) auto

section \<open>The plan\<close>

lemma normalizeRequestedMode_Inr:
  assumes "normalizeRequestedMode raw = Inr mode"
  shows "mode \<in> {ApplyModeAuto, ApplyModeLive, ApplyModeNextBoot}" "normalizeRequestedMode mode = Inr mode"
proof -
  have trim: "TrimSpace ApplyModeAuto = ApplyModeAuto" "TrimSpace ApplyModeLive = ApplyModeLive"
    "TrimSpace ApplyModeNextBoot = ApplyModeNextBoot" "ApplyModeAuto \<noteq> []" "ApplyModeLive \<noteq> []" "ApplyModeNextBoot \<noteq> []"
    by code_simp+
  from assms trim show m: "mode \<in> {ApplyModeAuto, ApplyModeLive, ApplyModeNextBoot}"
    by (auto simp: normalizeRequestedMode_def Let_def split: if_splits)
  with trim show "normalizeRequestedMode mode = Inr mode" by (auto simp: normalizeRequestedMode_def Let_def)
qed

lemma admissible_domain: "admissible mode c \<Longrightarrow> TrimSpace (ch_Domain c) \<noteq> []"
proof
  assume "admissible mode c" "TrimSpace (ch_Domain c) = []"
  then obtain policy where "map_of domainPolicies [] = Some policy" by (auto simp: admissible_def policy_of_def)
  moreover have "map_of domainPolicies [] = None" by code_simp
  ultimately show False by simp
qed

lemma Plan_accepts:
  "snd (Plan raw cs) = None \<longleftrightarrow>
   (\<exists>mode. normalizeRequestedMode raw = Inr mode \<and> cs \<noteq> [] \<and> (\<forall>c \<in> set cs. admissible mode c))"
proof (cases "normalizeRequestedMode raw")
  case (Inr mode)
  note mode = normalizeRequestedMode_Inr(1) [OF Inr]
  let ?p = "\<lparr>pl_Decision = empty_decision\<lparr>dc_RequestedMode := mode\<rparr>, pl_NeedsNextBoot = False, pl_Rejected = False\<rparr>"
  show ?thesis
  proof (cases "plan_changes mode cs ?p")
    case (Inl e)
    then have "\<not> (\<forall>c \<in> set cs. admissible mode c)" using plan_changes_total [of cs mode ?p] admissible_domain by fastforce
    with Inl Inr show ?thesis by (auto simp: Plan_def)
  next
    case (Inr q)
    with \<open>normalizeRequestedMode raw = Inr mode\<close> plan_changes_run(4) [OF Inr mode] show ?thesis by (auto simp: Plan_def)
  qed
qed (simp add: Plan_def)

lemma Plan_result:
  assumes "Plan raw cs = (d, None)"
  shows "normalizeRequestedMode raw = Inr (dc_RequestedMode d)" "distinct (dc_ChangedDomains d)"
    "set (dc_ChangedDomains d) = (\<lambda>c. TrimSpace (ch_Domain c)) ` set cs"
    "dc_AcceptedMode d =
       (if dc_RequestedMode d \<noteq> ApplyModeNextBoot \<and> (\<forall>c \<in> set cs. applies_live c) then ApplyModeLive else ApplyModeNextBoot)"
proof -
  from assms obtain mode where m: "normalizeRequestedMode raw = Inr mode" "cs \<noteq> []" using Plan_accepts [of raw cs] by auto
  note mode = normalizeRequestedMode_Inr(1) [OF m(1)]
  let ?p = "\<lparr>pl_Decision = empty_decision\<lparr>dc_RequestedMode := mode\<rparr>, pl_NeedsNextBoot = False, pl_Rejected = False\<rparr>"
  from assms m obtain q where q: "plan_changes mode cs ?p = Inr q" "\<not> pl_Rejected q"
    by (auto simp: Plan_def split: sum.splits if_splits)
  note run = plan_changes_run [OF q(1) mode]
  have d: "dc_RequestedMode d = mode" "dc_ChangedDomains d = dc_ChangedDomains (pl_Decision q)"
    "dc_AcceptedMode d = (if mode = ApplyModeNextBoot \<or> pl_NeedsNextBoot q then ApplyModeNextBoot else ApplyModeLive)"
    using assms m q run(1) by (auto simp: Plan_def empty_decision_def split: if_splits)
  show "normalizeRequestedMode raw = Inr (dc_RequestedMode d)" using m(1) d(1) by simp
  show "distinct (dc_ChangedDomains d)" using run(3) d(2) by (simp add: empty_decision_def)
  show "set (dc_ChangedDomains d) = (\<lambda>c. TrimSpace (ch_Domain c)) ` set cs" using run(2) d(2) by (simp add: empty_decision_def)
  show "dc_AcceptedMode d =
       (if dc_RequestedMode d \<noteq> ApplyModeNextBoot \<and> (\<forall>c \<in> set cs. applies_live c) then ApplyModeLive else ApplyModeNextBoot)"
    using d run(5) [OF q(2)] by auto
qed

section \<open>The change\<close>

lemma sysextChange_None:
  assumes "selectedKubernetesSysextChange a b = None"
  shows "kubernetesSysext a = None \<and> kubernetesSysext b = None \<or>
    (\<exists>x y. kubernetesSysext a = Some x \<and> kubernetesSysext b = Some y \<and>
       EqualFold (er_SHA256 x) (er_SHA256 y) \<and> er_PayloadVersion x = er_PayloadVersion y)"
  using assms by (auto simp: selectedKubernetesSysextChange_def Let_def split: option.splits if_splits)

lemma Plan_normalized: "normalizeRequestedMode raw = Inr mode \<Longrightarrow> Plan mode cs = Plan raw cs"
  using normalizeRequestedMode_Inr(2) by (simp add: Plan_def)

lemma PlanChange_success:
  assumes "PlanChange ParseNamed redact now current request = (d, Inr (record, status))"
  shows "Plan (nc_Mode request) (nc_Changes request) = (d, None)"
    "selectedKubernetesSysextChange (re_Sysexts current) (nc_Sysexts request) = None"
    "NewRuntimeConfigRecord ParseNamed redact now (config_request current request d) = Inr record"
    "ValidateConfigApplyStatus status = None"
    "\<exists>s. NewConfigApplyStatus redact now (status_request current request d record) = Inr s \<and>
       status = s\<lparr>cs_DomainActions := domainActions (dc_AcceptedMode d) (dc_ChangedDomains d) (nc_Changes request)\<rparr>"
  using assms by (auto simp: PlanChange_def Let_def Plan_normalized split: sum.splits option.splits prod.splits)

lemma domain_action_fields:
  "da_Domain (domain_action mode details domain) = domain"
  "da_Status (domain_action mode details domain) = ''planned'' \<longleftrightarrow>
     domain \<notin> {DomainKubeadmConfig, DomainSelectedKubeadmConfig} \<and> (mode = ApplyModeNextBoot \<longrightarrow> domain = DomainHostConfiguration)"
  by (auto simp: domain_action_def bare_action_def Let_def split: option.splits)

lemma domainActions_domains: "map da_Domain (domainActions mode domains changes) = domains"
  by (simp add: domainActions_def domain_action_fields o_def)

lemma domainActions_planned:
  "a \<in> set (domainActions mode domains changes) \<Longrightarrow> da_Status a = ''planned'' \<longleftrightarrow>
     da_Domain a \<notin> {DomainKubeadmConfig, DomainSelectedKubeadmConfig} \<and> (mode = ApplyModeNextBoot \<longrightarrow> da_Domain a = DomainHostConfiguration)"
  by (auto simp: domainActions_def domain_action_fields)

text \<open>The record of a planned change: what it takes from the current one and what the decision puts into it.\<close>

lemma PlanChange_modes:
  assumes "PlanChange ParseNamed redact now current request = (d, Inr (rec, status))"
  shows "dc_AcceptedMode d \<in> {ApplyModeLive, ApplyModeNextBoot}" "TrimSpace (dc_AcceptedMode d) = dc_AcceptedMode d"
    "TrimSpace (dc_AcceptedMode d) \<noteq> []"
proof -
  have trim: "TrimSpace ApplyModeLive = ApplyModeLive" "TrimSpace ApplyModeNextBoot = ApplyModeNextBoot" "ApplyModeLive \<noteq> []"
    "ApplyModeNextBoot \<noteq> []" by code_simp+
  show "dc_AcceptedMode d \<in> {ApplyModeLive, ApplyModeNextBoot}" using Plan_result(4) [OF PlanChange_success(1) [OF assms]] by simp
  with trim show "TrimSpace (dc_AcceptedMode d) = dc_AcceptedMode d" "TrimSpace (dc_AcceptedMode d) \<noteq> []" by auto
qed

lemma PlanChange_record:
  assumes "PlanChange ParseNamed redact now current request = (d, Inr (rec, status))"
  shows "ValidateRecord ParseNamed rec = None" "re_Root rec = re_Root current" "re_RuntimeVersion rec = re_RuntimeVersion current"
    "bt_UKIPath (re_Boot rec) = bt_UKIPath (re_Boot current)"
    "bt_LoaderEntryPath (re_Boot rec) = PathJoin [''loader/entries'', ''katl-'' @ re_GenerationID rec @ ''.conf'']"
    "re_BootState rec = ''pending''" "re_HealthState rec = ''unknown''"
    "re_PreviousGenerationID rec = TrimSpace (re_GenerationID current)" "re_GenerationID rec \<noteq> re_GenerationID current"
    "re_GenerationID rec = TrimSpace (nc_GenerationID request)"
    "re_Sysexts rec = nc_Sysexts request" "list_all (\<lambda>e. ToLower (er_SHA256 e) = er_SHA256 e) (re_Sysexts rec)"
    "\<exists>ca. re_ConfigApply rec = Some ca \<and> ca_AcceptedApplyMode ca = dc_AcceptedMode d"
  using PlanChange_success(3) [OF assms] PlanChange_modes [OF assms]
  by (auto simp: NewRuntimeConfigRecord_def config_request_def Let_def cleanExts_def cleanExtsNamed_Inr cleanSegment_Inr list_all_iff good_ext_def validateSHA256_None
      split: if_splits)

lemma PlanChange_status:
  assumes "PlanChange ParseNamed redact now current request = (d, Inr (rec, status))"
  shows "cs_AcceptedApplyMode status = dc_AcceptedMode d" "cs_GenerationID status = re_GenerationID rec"
    "cs_PreviousGeneration status = TrimSpace (re_GenerationID current)"
    "cs_Phase status = ConfigApplyPhasePlanned"
    "cs_DomainActions status = domainActions (dc_AcceptedMode d) (dc_ChangedDomains d) (nc_Changes request)"
proof -
  from PlanChange_success(5) [OF assms] obtain s where
    s: "NewConfigApplyStatus redact now (status_request current request d rec) = Inr s"
      "status = s\<lparr>cs_DomainActions := domainActions (dc_AcceptedMode d) (dc_ChangedDomains d) (nc_Changes request)\<rparr>" by blast
  have "cs_AcceptedApplyMode s = dc_AcceptedMode d" "cs_PreviousGeneration s = TrimSpace (re_GenerationID current)"
    using s(1) PlanChange_modes [OF assms] by (auto simp: NewConfigApplyStatus_def status_request_def Let_def split: if_splits)
  with s NewConfigApplyStatus_Inr(2,3) [OF s(1)]
  show "cs_AcceptedApplyMode status = dc_AcceptedMode d" "cs_GenerationID status = re_GenerationID rec"
    "cs_PreviousGeneration status = TrimSpace (re_GenerationID current)" "cs_Phase status = ConfigApplyPhasePlanned"
    "cs_DomainActions status = domainActions (dc_AcceptedMode d) (dc_ChangedDomains d) (nc_Changes request)"
    using PlanChange_record(10) [OF assms] by (simp_all add: status_request_def)
qed

lemma kubernetesSysext_member: "kubernetesSysext refs = Some x \<Longrightarrow> x \<in> set refs \<and> er_Name x = ''kubernetes''"
  by (induction refs) (auto split: if_splits)

lemma PlanChange_kubernetes:
  assumes "PlanChange ParseNamed redact now current request = (d, Inr (rec, status))"
  shows "(kubernetesSysext (re_Sysexts current) = None \<and> kubernetesSysext (re_Sysexts rec) = None) \<or>
    (\<exists>x y. kubernetesSysext (re_Sysexts current) = Some x \<and> kubernetesSysext (re_Sysexts rec) = Some y \<and>
       er_PayloadVersion y = er_PayloadVersion x \<and> er_SHA256 y = ToLower (er_SHA256 x))"
  using sysextChange_None [OF PlanChange_success(2) [OF assms]] PlanChange_record(11,12) [OF assms] kubernetesSysext_member
  by (fastforce simp: EqualFold_def list_all_iff)

end
