(* ===== verification/ConfigPlanFixtures.thy ===== *)
theory ConfigPlanFixtures
  imports ConfigPlanFacts Fixtures
begin

text \<open>
  A configuration change on the node of \<open>Fixtures\<close>: the host name changes, which may be applied live.
\<close>

definition fx_change :: Change where
  "fx_change = \<lparr>ch_Domain = DomainHostConfiguration, ch_LivePreflightOK = True, ch_EndpointVIPImpact = None, ch_Sets = [''sysctl''],
     ch_Paths = [], ch_Effects = [], ch_Message = [], ch_Warnings = []\<rparr>"

lemma fx_change_live: "applies_live fx_change"
proof -
  have "map_of domainPolicies (TrimSpace (ch_Domain fx_change)) = Some (the (map_of domainPolicies DomainHostConfiguration))" by code_simp
  moreover have "dp_Classification (the (map_of domainPolicies DomainHostConfiguration)) = ClassificationOnlineApplicable" by code_simp
  moreover have "ch_LivePreflightOK fx_change" by (simp add: fx_change_def)
  ultimately show ?thesis by (simp add: applies_live_def policy_of_def)
qed

definition fx_node_change :: NodeConfigurationChange where
  "fx_node_change =
     \<lparr>nc_APIVersion = APIVersion, nc_Kind = NodeConfigurationChangeKind, nc_GenerationID = ''d'', nc_SourceDigest = demo_sha,
      nc_Mode = ''auto'', nc_Changes = [fx_change], nc_Sysexts = [], nc_BundledConfexts = [], nc_GeneratedConfext = demo_confext ''d'',
      nc_Kubeadm = \<lparr>ka_Required = False, ka_PreviousConfigName = [], ka_SelectedConfigName = [], ka_Reason = []\<rparr>,
      nc_RequestedAt = 60, nc_KernelCommandLine = None, nc_ConfiguredKernelCommandLine = [], nc_ConfiguredKernelCommandLineSet = False,
      nc_VolumeBindings = [], nc_VolumeBindingsSet = False\<rparr>"

lemma fx_change_run:
  "case PlanChange (\<lambda>_. None) (\<lambda>s. s) 50 (RecordFromSplit spec_a good_a) fx_node_change of
     (d, Inr _) \<Rightarrow> True | (d, Inl _) \<Rightarrow> False"
  by code_simp

lemma fx_change_planned:
  obtains d rec status where "PlanChange (\<lambda>_. None) (\<lambda>s. s) 50 (RecordFromSplit spec_a good_a) fx_node_change = (d, Inr (rec, status))"
  using fx_change_run by (auto split: prod.splits sum.splits)

lemma fx_plan_accepted: "\<exists>d. Plan ''auto'' [fx_change] = (d, None) \<and> dc_RequestedMode d = ApplyModeAuto"
proof -
  obtain d rec status where "PlanChange (\<lambda>_. None) (\<lambda>s. s) 50 (RecordFromSplit spec_a good_a) fx_node_change = (d, Inr (rec, status))"
    by (rule fx_change_planned)
  from PlanChange_success(1) [OF this] have p: "Plan ''auto'' [fx_change] = (d, None)" by (simp add: fx_node_change_def)
  moreover have "normalizeRequestedMode ''auto'' = Inr ApplyModeAuto" by code_simp
  ultimately show ?thesis using Plan_result(1) [OF p] by simp
qed

end
