(* ===== verification/Discovery.thy ===== *)
theory Discovery
  imports Go_IO Go_Path "HOL-Library.Word"
begin

text \<open>
  Hardware discovery of the installer (\<^verbatim>\<open>internal/installer/discovery/discovery.go\<close> and \<^verbatim>\<open>command.go\<close>): the facts on
  block devices, mounts and network links, how they are built from the decoded output of \<^verbatim>\<open>lsblk\<close>, \<^verbatim>\<open>findmnt\<close> and
  \<^verbatim>\<open>ip\<close>, and the selection of a disk or partition by one stable identity with its safety checks. Sizes are 64-bit
  words, whose arithmetic wraps as Go's \<^verbatim>\<open>uint64\<close> does. The decoded documents are inputs: \<open>None\<close> is output that does
  not decode.
\<close>

type_synonym uint64 = "64 word"

section \<open>Numbers, separators and sorting\<close>

definition digit_char :: "nat \<Rightarrow> char" where
  "digit_char d = char_of (48 + d)"

fun decimal :: "nat \<Rightarrow> string" where
  "decimal n = (if n < 10 then [digit_char n] else decimal (n div 10) @ [digit_char (n mod 10)])"

declare decimal.simps [simp del]

definition show_uint64 :: "uint64 \<Rightarrow> string" where
  "show_uint64 w = decimal (unat w)"

text \<open>\<open>strings.Split\<close> with a separator of one byte.\<close>

fun split_byte :: "char \<Rightarrow> string \<Rightarrow> string list" where
  "split_byte b [] = [[]]"
| "split_byte b (c # cs) =
     (if c = b then [] # split_byte b cs
      else (case split_byte b cs of [] \<Rightarrow> [[c]] | w # ws \<Rightarrow> (c # w) # ws))"

section \<open>Facts\<close>

definition DeviceDisk :: string where "DeviceDisk = ''disk''"
definition DevicePartition :: string where "DevicePartition = ''part''"

datatype BlockDevice = BlockDevice
  (bd_Name: string) (bd_Path: string) (bd_Type: string) (bd_ByID: "string list") (bd_WWN: string) (bd_Serial: string)
  (bd_Model: string) (bd_GPTLabel: string) (bd_PartitionUUID: string) (bd_FilesystemUUID: string) (bd_SizeBytes: uint64)
  (bd_ReadOnly: bool) (bd_FilesystemSignature: string) (bd_PartitionSignature: string) (bd_Mountpoints: "string list")
  (bd_Partitions: "BlockDevice list")

record NICFact =
  nf_Name :: string
  nf_MACAddress :: string
  nf_Driver :: string
  nf_OperState :: string

record MountFact =
  mf_Source :: string
  mf_Target :: string
  mf_Filesystem :: string
  mf_Options :: "string list"

record HardwareFacts =
  hf_BlockDevices :: "BlockDevice list"
  hf_NICs :: "NICFact list"
  hf_SystemUUID :: string
  hf_DMIProductUUID :: string
  hf_Mounts :: "MountFact list"

record TargetDiskSelector =
  td_ByID :: string
  td_WWN :: string
  td_Serial :: string
  td_MinSizeMiB :: uint64

record SignatureReport =
  sg_DevicePath :: string
  sg_Kind :: string
  sg_Value :: string

record TargetDiskMatch =
  tm_Device :: BlockDevice
  tm_Signatures :: "SignatureReport list"

record PartitionSelector =
  ps_ByID :: string
  ps_PartUUID :: string
  ps_FilesystemUUID :: string
  ps_PartLabel :: string

record PartitionMatch =
  pm_Device :: BlockDevice
  pm_ParentDisk :: BlockDevice
  pm_Signatures :: "SignatureReport list"

definition ErrMissingTargetDiskSelector :: err where
  "ErrMissingTargetDiskSelector = Errorf ''target disk selector is required'' []"

definition ErrUnsafeTargetDisk :: err where
  "ErrUnsafeTargetDisk = Errorf ''unsafe target disk match'' []"

definition unsafe_disk :: "bool \<Rightarrow> string \<Rightarrow> string list \<Rightarrow> error" where
  "unsafe_disk c f as = (if c then Some (Wrap f as ErrUnsafeTargetDisk) else None)"

section \<open>Selectors\<close>

text \<open>The number of identities a selector names; the \<^verbatim>\<open>by-id\<close> identity must be a clean path.\<close>

definition named_identities :: "string list \<Rightarrow> nat" where
  "named_identities ids = length (filter (\<lambda>i. TrimSpace i \<noteq> []) ids)"

definition bad_by_id :: "string \<Rightarrow> bool" where
  "bad_by_id i \<longleftrightarrow> TrimSpace i \<noteq> [] \<and> (\<not> HasPrefix i ''/dev/disk/by-id/'' \<or> Clean i \<noteq> i)"

definition TargetDiskSelector_validate :: "TargetDiskSelector \<Rightarrow> error" where
  "TargetDiskSelector_validate s =
     (if bad_by_id (td_ByID s)
      then Some (Wrap ''%w: by-id selector must be an absolute /dev/disk/by-id path'' [] ErrMissingTargetDiskSelector)
      else let hasSelector = named_identities [td_ByID s, td_WWN s, td_Serial s]
           in if hasSelector = 0 then Some ErrMissingTargetDiskSelector
              else reject (hasSelector > 1) ''target disk selector must use exactly one stable identity'' [])"

definition TargetDiskSelector_matches :: "TargetDiskSelector \<Rightarrow> BlockDevice \<Rightarrow> bool" where
  "TargetDiskSelector_matches s device =
     (if td_ByID s \<noteq> [] then td_ByID s \<in> set (bd_ByID device) \<or> bd_Path device = td_ByID s
      else if td_WWN s \<noteq> [] then bd_WWN device = td_WWN s
      else if td_Serial s \<noteq> [] then bd_Serial device = td_Serial s
      else False)"

definition PartitionSelector_validate :: "PartitionSelector \<Rightarrow> error" where
  "PartitionSelector_validate s =
     (let hasSelector = named_identities [ps_ByID s, ps_PartUUID s, ps_FilesystemUUID s, ps_PartLabel s]
      in first_error
           [reject (bad_by_id (ps_ByID s)) ''partition by-id selector must be an absolute /dev/disk/by-id path'' [],
            reject (hasSelector = 0) ''partition selector is required'' [],
            reject (hasSelector > 1) ''partition selector must use exactly one stable identity'' []])"

definition PartitionSelector_matches :: "PartitionSelector \<Rightarrow> BlockDevice \<Rightarrow> bool" where
  "PartitionSelector_matches s device =
     (if bd_Type device \<noteq> DevicePartition then False
      else if ps_ByID s \<noteq> [] then ps_ByID s \<in> set (bd_ByID device) \<or> bd_Path device = ps_ByID s
      else if ps_PartUUID s \<noteq> [] then bd_PartitionUUID device = ps_PartUUID s
      else if ps_FilesystemUUID s \<noteq> [] then bd_FilesystemUUID device = ps_FilesystemUUID s
      else if ps_PartLabel s \<noteq> [] then bd_GPTLabel device = ps_PartLabel s
      else False)"

section \<open>Safety checks and signatures\<close>

definition partitionHasMounts :: "HardwareFacts \<Rightarrow> BlockDevice \<Rightarrow> bool" where
  "partitionHasMounts facts device =
     (bd_Mountpoints device \<noteq> [] \<or>
      (let sources = [bd_Path device]
             @ (if bd_PartitionUUID device \<noteq> [] then [''PARTUUID='' @ bd_PartitionUUID device] else [])
             @ (if bd_FilesystemUUID device \<noteq> [] then [''UUID='' @ bd_FilesystemUUID device] else [])
             @ bd_ByID device
       in list_ex (\<lambda>mount. mf_Source mount \<in> set sources) (hf_Mounts facts)))"

definition diskHasMounts :: "HardwareFacts \<Rightarrow> BlockDevice \<Rightarrow> bool" where
  "diskHasMounts facts device =
     (list_ex (\<lambda>partition. bd_Mountpoints partition \<noteq> []) (bd_Partitions device) \<or> bd_Mountpoints device \<noteq> [] \<or>
      list_ex (\<lambda>mount. mf_Source mount \<in> set (bd_Path device # map bd_Path (bd_Partitions device))) (hf_Mounts facts))"

definition validateTargetDiskSafety :: "HardwareFacts \<Rightarrow> BlockDevice \<Rightarrow> TargetDiskSelector \<Rightarrow> error" where
  "validateTargetDiskSafety facts device selector = first_error
     [unsafe_disk (bd_Type device \<noteq> DeviceDisk) ''%w: %s is %s, not a whole disk'' [bd_Path device, bd_Type device],
      unsafe_disk (bd_ReadOnly device) ''%w: %s is read-only'' [bd_Path device],
      unsafe_disk (td_MinSizeMiB selector > 0 \<and> bd_SizeBytes device < td_MinSizeMiB selector * 1024 * 1024)
        ''%w: %s is smaller than %d MiB'' [bd_Path device, show_uint64 (td_MinSizeMiB selector)],
      unsafe_disk (diskHasMounts facts device) ''%w: %s or one of its partitions is mounted'' [bd_Path device]]"

definition validatePartitionSafety :: "HardwareFacts \<Rightarrow> BlockDevice \<Rightarrow> error" where
  "validatePartitionSafety facts device = first_error
     [unsafe_disk (bd_Type device \<noteq> DevicePartition) ''%w: %s is %s, not a partition'' [bd_Path device, bd_Type device],
      unsafe_disk (bd_ReadOnly device) ''%w: %s is read-only'' [bd_Path device],
      unsafe_disk (partitionHasMounts facts device) ''%w: partition %s is mounted'' [bd_Path device]]"

definition signature :: "string \<Rightarrow> string \<Rightarrow> string \<Rightarrow> SignatureReport list" where
  "signature devicePath kind value =
     (if value = [] then [] else [\<lparr>sg_DevicePath = devicePath, sg_Kind = kind, sg_Value = value\<rparr>])"

definition collectSignatures :: "BlockDevice \<Rightarrow> SignatureReport list" where
  "collectSignatures device =
     signature (bd_Path device) ''filesystem'' (bd_FilesystemSignature device)
     @ signature (bd_Path device) ''partition-table'' (bd_PartitionSignature device)
     @ concat (map (\<lambda>partition.
          signature (bd_Path partition) ''filesystem'' (bd_FilesystemSignature partition)
          @ signature (bd_Path partition) ''partition-type'' (bd_PartitionSignature partition)) (bd_Partitions device))"

section \<open>Matching\<close>

definition MatchDiskIdentity :: "HardwareFacts \<Rightarrow> TargetDiskSelector \<Rightarrow> BlockDevice res" where
  "MatchDiskIdentity facts selector =
     res_need (TargetDiskSelector_validate selector)
       (case filter (TargetDiskSelector_matches selector) (hf_BlockDevices facts) of
          [] \<Rightarrow> fail ''target disk selector matched no disks'' []
        | [device] \<Rightarrow>
            if bd_Type device \<noteq> DeviceDisk
            then Inl (Wrap ''%w: %s is %s, not a whole disk'' [bd_Path device, bd_Type device] ErrUnsafeTargetDisk)
            else Inr device
        | ds \<Rightarrow> fail ''target disk selector matched %d disks'' [decimal (length ds)])"

definition MatchTargetDisk :: "HardwareFacts \<Rightarrow> TargetDiskSelector \<Rightarrow> TargetDiskMatch res" where
  "MatchTargetDisk facts selector =
     res_bind (MatchDiskIdentity facts selector) (\<lambda>device.
       res_need (validateTargetDiskSafety facts device selector)
         (Inr \<lparr>tm_Device = device, tm_Signatures = collectSignatures device\<rparr>))"

definition partition_matches :: "HardwareFacts \<Rightarrow> PartitionSelector \<Rightarrow> PartitionMatch list" where
  "partition_matches facts selector =
     concat (map (\<lambda>disk. map (\<lambda>partition. \<lparr>pm_Device = partition, pm_ParentDisk = disk,
                                  pm_Signatures = collectSignatures partition\<rparr>)
                     (filter (PartitionSelector_matches selector) (bd_Partitions disk))) (hf_BlockDevices facts))"

definition MatchPartition :: "HardwareFacts \<Rightarrow> PartitionSelector \<Rightarrow> PartitionMatch res" where
  "MatchPartition facts selector =
     res_need (PartitionSelector_validate selector)
       (case partition_matches facts selector of
          [] \<Rightarrow> fail ''partition selector matched no partitions'' []
        | [m] \<Rightarrow> res_need (validatePartitionSafety facts (pm_Device m)) (Inr m)
        | ms \<Rightarrow> fail ''partition selector matched %d partitions'' [decimal (length ms)])"

section \<open>Discovery from command output\<close>

datatype lsblkDevice = lsblkDevice
  (lb_Name: string) (lb_Path: string) (lb_Type: string) (lb_Size: uint64) (lb_ReadOnly: bool) (lb_Model: "string option")
  (lb_Serial: "string option") (lb_WWN: "string option") (lb_FSType: "string option") (lb_UUID: "string option")
  (lb_PTType: "string option") (lb_PartType: "string option") (lb_PartUUID: "string option")
  (lb_PartLabel: "string option") (lb_Mountpoints: "string list") (lb_Children: "lsblkDevice list")

datatype findmntFilesystem = findmntFilesystem
  (fm_Source: string) (fm_Target: string) (fm_FSType: string) (fm_Options: string) (fm_Children: "findmntFilesystem list")

record ipLink =
  il_IfName :: string
  il_Address :: string
  il_LinkType :: string
  il_OperState :: string

definition stringValue :: "string option \<Rightarrow> string" where
  "stringValue v = (case v of None \<Rightarrow> [] | Some s \<Rightarrow> s)"

definition compactStrings :: "string list \<Rightarrow> string list" where
  "compactStrings values = filter (\<lambda>v. v \<noteq> []) values"

definition splitOptions :: "string \<Rightarrow> string list" where
  "splitOptions options = (if options = [] then [] else compactStrings (split_byte (CHR '','') options))"

fun convertLSBLKDevice :: "lsblkDevice \<Rightarrow> BlockDevice" where
  "convertLSBLKDevice (lsblkDevice name path type sz ro model serial wwn fstype uuid pttype parttype partuuid partlabel
       mountpoints children) =
     (let devicePath = (if path = [] \<and> name \<noteq> [] then ''/dev/'' @ name else path);
          partitionSignature = (if type = DevicePartition \<and> stringValue parttype \<noteq> [] then stringValue parttype
                                else stringValue pttype)
      in BlockDevice name devicePath type [] (stringValue wwn) (stringValue serial) (stringValue model)
           (stringValue partlabel) (stringValue partuuid) (stringValue uuid) sz ro (stringValue fstype)
           partitionSignature (compactStrings mountpoints) (map convertLSBLKDevice children))"

fun attach_aliases :: "(string \<Rightarrow> string list) \<Rightarrow> BlockDevice \<Rightarrow> BlockDevice" where
  "attach_aliases aliases (BlockDevice name path type byid wwn serial model gptlabel partuuid fsuuid sz ro fssig partsig
       mountpoints partitions) =
     BlockDevice name path type (if aliases path \<noteq> [] then sort (byid @ aliases path) else byid) wwn serial model
       gptlabel partuuid fsuuid sz ro fssig partsig mountpoints (map (attach_aliases aliases) partitions)"

definition attachByIDAliases :: "BlockDevice list \<Rightarrow> (string \<Rightarrow> string list) \<Rightarrow> BlockDevice list" where
  "attachByIDAliases devices aliases = map (attach_aliases aliases) devices"

text \<open>A directory entry: its name, whether it is a symbolic link, and what \<open>os.Readlink\<close> returns for it.\<close>

record by_id_entry =
  be_Name :: string
  be_Symlink :: bool
  be_Target :: "string res"

definition alias_target :: "string \<Rightarrow> string \<Rightarrow> string" where
  "alias_target dir target = Clean (if IsAbs target then target else PathJoin [dir, target])"

definition read_alias :: "string \<Rightarrow> by_id_entry \<Rightarrow> (string \<times> string) list res" where
  "read_alias dir entry =
     (if \<not> be_Symlink entry then Inr []
      else let alias = PathJoin [dir, be_Name entry]
           in case be_Target entry of
                Inl e \<Rightarrow> Inl (Wrap ''read disk by-id alias %s: %w'' [alias] e)
              | Inr target \<Rightarrow> Inr [(alias_target dir target, alias)])"

text \<open>\<open>readByIDAliases\<close>: the sorted aliases of each target; a missing directory has none.\<close>

definition readByIDAliases :: "string \<Rightarrow> by_id_entry list res \<Rightarrow> (string \<Rightarrow> string list) res" where
  "readByIDAliases dir entries =
     (case entries of
        Inl e \<Rightarrow> if osIsNotExist e then Inr (\<lambda>_. []) else Inl (Wrap ''read disk by-id aliases: %w'' [] e)
      | Inr es \<Rightarrow> res_bind (res_map (read_alias dir) es) (\<lambda>pairs.
          Inr (\<lambda>target. sort (map snd (filter (\<lambda>p. fst p = target) (concat pairs))))))"

definition no_facts :: HardwareFacts where
  "no_facts = \<lparr>hf_BlockDevices = [], hf_NICs = [], hf_SystemUUID = [], hf_DMIProductUUID = [], hf_Mounts = []\<rparr>"

definition parseLSBLK :: "lsblkDevice list option \<Rightarrow> HardwareFacts res" where
  "parseLSBLK data =
     (case data of
        None \<Rightarrow> fail ''decode lsblk json'' []
      | Some raw \<Rightarrow> Inr (no_facts\<lparr>hf_BlockDevices := map convertLSBLKDevice raw\<rparr>))"

fun appendFindmntFilesystem :: "findmntFilesystem \<Rightarrow> MountFact list" where
  "appendFindmntFilesystem (findmntFilesystem source target fstype options children) =
     \<lparr>mf_Source = source, mf_Target = target, mf_Filesystem = fstype, mf_Options = splitOptions options\<rparr>
     # concat (map appendFindmntFilesystem children)"

definition parseFindmnt :: "findmntFilesystem list option \<Rightarrow> MountFact list res" where
  "parseFindmnt data =
     (case data of
        None \<Rightarrow> fail ''decode findmnt json'' []
      | Some raw \<Rightarrow> Inr (concat (map appendFindmntFilesystem raw)))"

definition parseIPLinks :: "ipLink list option \<Rightarrow> NICFact list res" where
  "parseIPLinks data =
     (case data of
        None \<Rightarrow> fail ''decode ip link json'' []
      | Some raw \<Rightarrow> Inr (map (\<lambda>link. \<lparr>nf_Name = il_IfName link, nf_MACAddress = il_Address link, nf_Driver = [],
                                 nf_OperState = ToLower (il_OperState link)\<rparr>)
                        (filter (\<lambda>link. il_LinkType link = ''ether'') raw)))"

text \<open>What the machine answers to a discovery: the output of each command and the \<^verbatim>\<open>by-id\<close> directory.\<close>

record discovery_answers =
  da_lsblk :: "lsblkDevice list option res"
  da_by_id :: "string \<Rightarrow> by_id_entry list res"
  da_findmnt :: "findmntFilesystem list option res"
  da_ip :: "ipLink list option res"

definition command_output :: "string \<Rightarrow> 'a res \<Rightarrow> 'a res" where
  "command_output what r = (case r of Inl e \<Rightarrow> Inl (Wrap (what @ '' discovery: %w'') [] e) | Inr x \<Rightarrow> Inr x)"

definition CommandDiscoverySource_Discover :: "bool \<Rightarrow> string \<Rightarrow> discovery_answers \<Rightarrow> HardwareFacts res" where
  "CommandDiscoverySource_Discover runner ByIDDir answers =
     (if \<not> runner then fail ''discovery command runner is required'' []
      else res_bind (command_output ''lsblk'' (da_lsblk answers)) (\<lambda>lsblk.
        res_bind (parseLSBLK lsblk) (\<lambda>facts.
        let dir = (if ByIDDir \<noteq> [] then ByIDDir else ''/dev/disk/by-id'')
        in res_bind (readByIDAliases dir (da_by_id answers dir)) (\<lambda>aliases.
        res_bind (command_output ''findmnt'' (da_findmnt answers)) (\<lambda>findmnt.
        res_bind (parseFindmnt findmnt) (\<lambda>mounts.
        res_bind (command_output ''ip link'' (da_ip answers)) (\<lambda>ipLinks.
        res_bind (parseIPLinks ipLinks) (\<lambda>nics.
          Inr (facts\<lparr>hf_BlockDevices := attachByIDAliases (hf_BlockDevices facts) aliases, hf_Mounts := mounts,
                 hf_NICs := nics\<rparr>)))))))))"

end
