(* ===== verification/DiskLayout.thy ===== *)
theory DiskLayout
  imports Discovery
begin

unbundle bit_operations_syntax

text \<open>
  The disk layout of an installation (\<^verbatim>\<open>internal/installer/disk/layout.go\<close>): the partitions of the target disk, the data
  volumes on other disks, the binding of prepared volumes to their identities, and the boot target.
  \<open>sha256\<close> is an argument that gives the digest of a string as its bytes.
\<close>

section \<open>Requests and plans\<close>

definition DefaultESPSizeMiB :: uint64 where "DefaultESPSizeMiB = 512"
definition MinimumRootMiB :: uint64 where "MinimumRootMiB = 1024"
definition VolumeMountRoot :: string where "VolumeMountRoot = ''/var/mnt''"

definition GPTLabelESP :: string where "GPTLabelESP = ''KATL_ESP''"
definition GPTLabelXBOOTLDR :: string where "GPTLabelXBOOTLDR = ''KATL_XBOOTLDR''"
definition GPTLabelRootA :: string where "GPTLabelRootA = ''KATL_ROOT_A''"
definition GPTLabelRootB :: string where "GPTLabelRootB = ''KATL_ROOT_B''"
definition GPTLabelState :: string where "GPTLabelState = ''KATL_STATE''"
definition GPTLabelEtcd :: string where "GPTLabelEtcd = ''KATL_ETCD''"

definition RootSlotA :: string where "RootSlotA = ''root-a''"
definition RootSlotB :: string where "RootSlotB = ''root-b''"

record StatePartitionRequest =
  sr_Filesystem :: string
  sr_MinSizeMiB :: uint64

record FixedPartitionRequest =
  fr_Filesystem :: string
  fr_SizeMiB :: uint64

record VolumeRequest =
  vr_Name :: string
  vr_Disk :: "TargetDiskSelector option"
  vr_Partition :: "PartitionSelector option"
  vr_Filesystem :: string
  vr_Wipe :: bool

record DiskLayoutRequest =
  lr_TargetDisk :: TargetDiskSelector
  lr_ESPSizeMiB :: uint64
  lr_XBOOTLDRSizeMiB :: uint64
  lr_RootA :: uint64
  lr_RootB :: uint64
  lr_State :: StatePartitionRequest
  lr_Etcd :: "FixedPartitionRequest option"
  lr_Volumes :: "VolumeRequest list"
  lr_InitialRootSlot :: string
  lr_RuntimeRootSizeMiB :: uint64

record PartitionPlan =
  pp_Name :: string
  pp_GPTLabel :: string
  pp_Type :: string
  pp_Filesystem :: string
  pp_MountPath :: string
  pp_SizeMiB :: uint64
  pp_Remaining :: bool

record VolumePlan =
  vp_Name :: string
  vp_TargetKind :: string
  vp_DevicePath :: string
  vp_MountSource :: string
  vp_Filesystem :: string
  vp_MountPath :: string
  vp_Wipe :: bool
  vp_Repartition :: bool
  vp_TypeUUID :: string
  vp_Signatures :: "SignatureReport list"

record DiskVolumeBinding =
  db_Name :: string
  db_PartitionUUID :: string
  db_FilesystemUUID :: string

record BootTargetMetadata =
  bt_RootSlot :: string
  bt_RootPartitionLabel :: string
  bt_RootParameter :: string
  bt_PartitionUUIDToken :: string

record DiskLayoutPlan =
  lp_TargetDiskPath :: string
  lp_Partitions :: "PartitionPlan list"
  lp_VolumeMounts :: "VolumePlan list"
  lp_Boot :: BootTargetMetadata
  lp_Signatures :: "SignatureReport list"

section \<open>The target disk\<close>

definition validateRootSlot :: "string \<Rightarrow> uint64 \<Rightarrow> uint64 \<Rightarrow> error" where
  "validateRootSlot name slot runtimeRootSizeMiB = first_error
     [reject (slot < MinimumRootMiB) ''%s size must be at least %d MiB'' [name, show_uint64 MinimumRootMiB],
      reject (runtimeRootSizeMiB > 0 \<and> slot < runtimeRootSizeMiB)
        ''%s size %d MiB is smaller than runtime root artifact %d MiB''
        [name, show_uint64 slot, show_uint64 runtimeRootSizeMiB]]"

definition default_layout :: "DiskLayoutRequest \<Rightarrow> DiskLayoutRequest" where
  "default_layout request = request
     \<lparr>lr_ESPSizeMiB := (if lr_ESPSizeMiB request = 0 then DefaultESPSizeMiB else lr_ESPSizeMiB request),
      lr_State := (lr_State request)
        \<lparr>sr_Filesystem := (if sr_Filesystem (lr_State request) = [] then ''ext4'' else sr_Filesystem (lr_State request))\<rparr>,
      lr_InitialRootSlot := (if lr_InitialRootSlot request = [] then RootSlotA else lr_InitialRootSlot request)\<rparr>"

definition normalizeLayoutRequest :: "DiskLayoutRequest \<Rightarrow> DiskLayoutRequest res" where
  "normalizeLayoutRequest request =
     res_need (first_error
       [validateRootSlot ''root-a'' (lr_RootA request) (lr_RuntimeRootSizeMiB request),
        validateRootSlot ''root-b'' (lr_RootB request) (lr_RuntimeRootSizeMiB request),
        reject (sr_MinSizeMiB (lr_State request) = 0) ''state partition minimum size is required'' [],
        reject (case lr_Etcd request of None \<Rightarrow> False | Some e \<Rightarrow> fr_SizeMiB e = 0)
          ''etcd partition size is required when enabled'' []])
       (Inr (default_layout request))"

definition partition_plan :: "string \<Rightarrow> string \<Rightarrow> string \<Rightarrow> string \<Rightarrow> string \<Rightarrow> uint64 \<Rightarrow> PartitionPlan" where
  "partition_plan name label type filesystem mountPath mib =
     \<lparr>pp_Name = name, pp_GPTLabel = label, pp_Type = type, pp_Filesystem = filesystem, pp_MountPath = mountPath,
      pp_SizeMiB = mib, pp_Remaining = False\<rparr>"

definition fixed_mib :: "DiskLayoutRequest \<Rightarrow> uint64" where
  "fixed_mib request =
     lr_ESPSizeMiB request + lr_XBOOTLDRSizeMiB request + lr_RootA request + lr_RootB request
     + (case lr_Etcd request of None \<Rightarrow> 0 | Some e \<Rightarrow> fr_SizeMiB e)"

definition planTargetPartitions :: "BlockDevice \<Rightarrow> DiskLayoutRequest \<Rightarrow> PartitionPlan list res" where
  "planTargetPartitions target request =
     (let targetMiB = bd_SizeBytes target div 1024 div 1024; fixedMiB = fixed_mib request;
          required = fixedMiB + sr_MinSizeMiB (lr_State request)
      in if targetMiB < required
         then fail ''target disk %s is too small: %d MiB available, %d MiB required''
                [bd_Path target, show_uint64 targetMiB, show_uint64 required]
         else Inr
           ([partition_plan ''esp'' GPTLabelESP ''esp'' ''vfat'' ''/efi'' (lr_ESPSizeMiB request)]
            @ (if lr_XBOOTLDRSizeMiB request > 0
               then [partition_plan ''xbootldr'' GPTLabelXBOOTLDR ''xbootldr'' ''vfat'' ''/boot'' (lr_XBOOTLDRSizeMiB request)]
               else [])
            @ [partition_plan ''root-a'' GPTLabelRootA ''root-x86-64'' ''squashfs'' ''/'' (lr_RootA request),
               partition_plan ''root-b'' GPTLabelRootB ''root-x86-64'' ''squashfs'' [] (lr_RootB request)]
            @ (case lr_Etcd request of None \<Rightarrow> []
               | Some e \<Rightarrow> [partition_plan ''etcd'' GPTLabelEtcd ''linux-generic'' (fr_Filesystem e) ''/var/lib/etcd'' (fr_SizeMiB e)])
            @ [(partition_plan ''state'' GPTLabelState ''var'' (sr_Filesystem (lr_State request)) ''/var''
                  (targetMiB - fixedMiB))\<lparr>pp_Remaining := True\<rparr>]))"

definition bootTarget :: "string \<Rightarrow> string \<Rightarrow> BootTargetMetadata" where
  "bootTarget slot label =
     (let token = ''${'' @ label @ ''_PARTUUID}''
      in \<lparr>bt_RootSlot = slot, bt_RootPartitionLabel = label, bt_RootParameter = ''root=PARTUUID='' @ token,
          bt_PartitionUUIDToken = token\<rparr>)"

definition planBootTarget :: "string \<Rightarrow> BootTargetMetadata res" where
  "planBootTarget slot =
     (if slot = RootSlotA then Inr (bootTarget RootSlotA GPTLabelRootA)
      else if slot = RootSlotB then Inr (bootTarget RootSlotB GPTLabelRootB)
      else fail ''unsupported initial root slot %q'' [slot])"

section \<open>Volumes\<close>

definition extraDiskFilesystemCapabilities :: "(string \<times> string) list" where
  "extraDiskFilesystemCapabilities = [(''ext4'', ''e2fsprogs''), (''xfs'', ''xfsprogs''), (''btrfs'', ''btrfs-progs'')]"

definition IsSupportedVolumeFilesystem :: "string \<Rightarrow> bool" where
  "IsSupportedVolumeFilesystem filesystem = list_ex (\<lambda>c. fst c = filesystem) extraDiskFilesystemCapabilities"

definition VerifyInstallerFilesystemPackages :: "(string \<Rightarrow> string) \<Rightarrow> error" where
  "VerifyInstallerFilesystemPackages packages =
     each_error (\<lambda>(filesystem, package). reject (packages package = [])
       ''installer %s extra-disk formatting capability is missing: expected package %s'' [filesystem, package])
       extraDiskFilesystemCapabilities"

definition mount_name_char :: "nat \<Rightarrow> nat \<Rightarrow> char \<Rightarrow> bool" where
  "mount_name_char len i value \<longleftrightarrow>
     CHR ''a'' \<le> value \<and> value \<le> CHR ''z'' \<or> CHR ''0'' \<le> value \<and> value \<le> CHR ''9'' \<or>
     value = CHR ''-'' \<and> i > 0 \<and> i < len - 1"

text \<open>The loop ranges over runes; a byte of a longer encoding is no letter, digit or dash, so a byte loop decides the same.\<close>

definition validateMountName :: "string \<Rightarrow> string \<Rightarrow> error" where
  "validateMountName kind name = first_error
     [reject (name = []) ''%s name is required'' [kind],
      reject (\<not> list_all (\<lambda>(i, c). mount_name_char (length name) i c) (enumerate 0 name))
        ''%s name %q must use lowercase letters, digits, and internal dashes'' [kind, name]]"

definition volumePartitionLabel :: "string \<Rightarrow> string" where
  "volumePartitionLabel name = ''u-'' @ name"

definition hex_digit :: "nat \<Rightarrow> char" where
  "hex_digit d = (if d < 10 then char_of (48 + d) else char_of (87 + d))"

definition EncodeToString :: "string \<Rightarrow> string" where
  "EncodeToString bytes = concat (map (\<lambda>c. [hex_digit (of_char c div 16), hex_digit (of_char c mod 16)]) bytes)"

definition mask_byte :: "int \<Rightarrow> int \<Rightarrow> char \<Rightarrow> char" where
  "mask_byte keep put c = char_of ((of_char c AND keep) OR put)"

definition volumePartitionTypeUUID :: "(string \<Rightarrow> string) \<Rightarrow> string \<Rightarrow> string" where
  "volumePartitionTypeUUID sha256 name =
     (let raw0 = sha256 (''katl-volume-type:'' @ name);
          raw6 = raw0[6 := mask_byte 0x0f 0x50 (raw0 ! 6)];
          total = raw6[8 := mask_byte 0x3f 0x80 (raw6 ! 8)];
          raw = EncodeToString (take 16 total)
      in take 8 raw @ ''-'' @ take 4 (drop 8 raw) @ ''-'' @ take 4 (drop 12 raw) @ ''-'' @ take 4 (drop 16 raw)
         @ ''-'' @ take 12 (drop 20 raw))"

definition volumeIdentityMountSource :: "BlockDevice \<Rightarrow> string" where
  "volumeIdentityMountSource device =
     (if TrimSpace (bd_PartitionUUID device) \<noteq> [] then ''PARTUUID='' @ TrimSpace (bd_PartitionUUID device)
      else if TrimSpace (bd_FilesystemUUID device) \<noteq> [] then ''UUID='' @ TrimSpace (bd_FilesystemUUID device)
      else [])"

definition volumePartitionOnDisk :: "BlockDevice \<Rightarrow> string \<Rightarrow> BlockDevice res" where
  "volumePartitionOnDisk disk label =
     (case filter (\<lambda>p. bd_GPTLabel p = label) (bd_Partitions disk) of
        [] \<Rightarrow> fail ''partition label %s was not found; set wipe to true to initialize this disk'' [label]
      | [p] \<Rightarrow> Inr p
      | ps \<Rightarrow> fail ''partition label %s matched %d partitions'' [label, decimal (length ps)])"

definition collectVolumeSignatures :: "BlockDevice \<Rightarrow> SignatureReport list" where
  "collectVolumeSignatures p =
     signature (bd_Path p) ''filesystem'' (bd_FilesystemSignature p)
     @ signature (bd_Path p) ''partition-type'' (bd_PartitionSignature p)"

definition validateReusableVolume :: "VolumePlan \<Rightarrow> string \<Rightarrow> error" where
  "validateReusableVolume plan existingFilesystem =
     (if vp_Wipe plan then None
      else first_error
        [reject (existingFilesystem = []) ''volume %q has no reusable filesystem; set wipe to true to format it as %s''
           [vp_Name plan, vp_Filesystem plan],
         reject (existingFilesystem \<noteq> vp_Filesystem plan)
           ''volume %q has filesystem %s, not requested %s; set wipe to true to reformat it''
           [vp_Name plan, existingFilesystem, vp_Filesystem plan]])"

definition isKatlPartitionLabel :: "string \<Rightarrow> bool" where
  "isKatlPartitionLabel label \<longleftrightarrow>
     label \<in> set [GPTLabelESP, GPTLabelXBOOTLDR, GPTLabelRootA, GPTLabelRootB, GPTLabelState, GPTLabelEtcd]"

definition volume_plan :: "VolumeRequest \<Rightarrow> string \<Rightarrow> string \<Rightarrow> string \<Rightarrow> SignatureReport list \<Rightarrow> VolumePlan" where
  "volume_plan request kind devicePath mountSource signatures =
     \<lparr>vp_Name = vr_Name request, vp_TargetKind = kind, vp_DevicePath = devicePath, vp_MountSource = mountSource,
      vp_Filesystem = vr_Filesystem request, vp_MountPath = VolumeMountRoot @ ''/'' @ vr_Name request, vp_Wipe = False,
      vp_Repartition = False, vp_TypeUUID = [], vp_Signatures = signatures\<rparr>"

definition wrap_res :: "string \<Rightarrow> string list \<Rightarrow> 'a res \<Rightarrow> 'a res" where
  "wrap_res f as r = (case r of Inl e \<Rightarrow> Inl (Wrap f as e) | Inr x \<Rightarrow> Inr x)"

definition plan_disk_volume ::
  "(string \<Rightarrow> string) \<Rightarrow> HardwareFacts \<Rightarrow> BlockDevice \<Rightarrow> VolumeRequest \<Rightarrow> TargetDiskSelector \<Rightarrow> VolumePlan res" where
  "plan_disk_volume sha256 facts target request selector =
     res_bind (wrap_res ''volume %q disk: %w'' [vr_Name request] (MatchTargetDisk facts selector)) (\<lambda>m.
       if bd_Path (tm_Device m) = bd_Path target
       then fail ''volume %q resolves to target root disk %s'' [vr_Name request, bd_Path target]
       else let label = volumePartitionLabel (vr_Name request)
         in if vr_Wipe request
            then Inr ((volume_plan request ''disk'' (bd_Path (tm_Device m)) (''/dev/disk/by-partlabel/'' @ label)
                         (tm_Signatures m))
                      \<lparr>vp_Wipe := True, vp_Repartition := True,
                       vp_TypeUUID := volumePartitionTypeUUID sha256 (vr_Name request)\<rparr>)
            else res_bind (wrap_res ''volume %q disk: %w'' [vr_Name request] (volumePartitionOnDisk (tm_Device m) label)) (\<lambda>p.
              let plan = volume_plan request ''disk'' (bd_Path p) (volumeIdentityMountSource p) (collectVolumeSignatures p)
              in res_need (validateReusableVolume plan (bd_FilesystemSignature p)) (Inr plan)))"

definition plan_partition_volume ::
  "HardwareFacts \<Rightarrow> BlockDevice \<Rightarrow> VolumeRequest \<Rightarrow> PartitionSelector \<Rightarrow> VolumePlan res" where
  "plan_partition_volume facts target request selector =
     res_bind (wrap_res ''volume %q partition: %w'' [vr_Name request] (MatchPartition facts selector)) (\<lambda>m.
       let device = pm_Device m;
           plan = (volume_plan request ''partition'' (bd_Path device) (volumeIdentityMountSource device) (pm_Signatures m))
                  \<lparr>vp_Wipe := vr_Wipe request\<rparr>
       in res_need (first_error
            [reject (bd_Path (pm_ParentDisk m) = bd_Path target) ''volume %q partition is on target root disk %s''
               [vr_Name request, bd_Path target],
             reject (isKatlPartitionLabel (bd_GPTLabel device)) ''volume %q resolves to Katl-managed partition %s''
               [vr_Name request, bd_GPTLabel device],
             validateReusableVolume plan (bd_FilesystemSignature device)]) (Inr plan))"

definition plan_volume ::
  "(string \<Rightarrow> string) \<Rightarrow> HardwareFacts \<Rightarrow> BlockDevice \<Rightarrow> string list \<Rightarrow> VolumeRequest \<Rightarrow> VolumePlan res" where
  "plan_volume sha256 facts target seenNames request =
     res_need (first_error
       [validateMountName ''volume'' (vr_Name request),
        reject (vr_Name request \<in> set seenNames) ''volume name %q is duplicated'' [vr_Name request],
        reject ((vr_Disk request = None) = (vr_Partition request = None))
          ''volume %q must select exactly one of disk or partition'' [vr_Name request],
        reject (\<not> IsSupportedVolumeFilesystem (vr_Filesystem request)) ''volume %q filesystem %q is unsupported''
          [vr_Name request, vr_Filesystem request]])
     (res_bind
        (case vr_Disk request of
           Some selector \<Rightarrow> plan_disk_volume sha256 facts target request selector
         | None \<Rightarrow>
             (case vr_Partition request of
                Some selector \<Rightarrow> plan_partition_volume facts target request selector
              | None \<Rightarrow> fail ''volume %q must select exactly one of disk or partition'' [vr_Name request]))
        (\<lambda>plan. res_need (reject (\<not> vp_Repartition plan \<and> TrimSpace (vp_MountSource plan) = [])
             ''volume %q partition has no discoverable PARTUUID or filesystem UUID'' [vr_Name request]) (Inr plan)))"

fun plan_volumes_from ::
  "(string \<Rightarrow> string) \<Rightarrow> HardwareFacts \<Rightarrow> BlockDevice \<Rightarrow> string list \<Rightarrow> VolumeRequest list \<Rightarrow> VolumePlan list res" where
  "plan_volumes_from sha256 facts target seenNames [] = Inr []"
| "plan_volumes_from sha256 facts target seenNames (request # requests) =
     res_bind (plan_volume sha256 facts target seenNames request) (\<lambda>plan.
       res_bind (plan_volumes_from sha256 facts target (vr_Name request # seenNames) requests) (\<lambda>plans. Inr (plan # plans)))"

definition PlanVolumes ::
  "(string \<Rightarrow> string) \<Rightarrow> HardwareFacts \<Rightarrow> BlockDevice \<Rightarrow> VolumeRequest list \<Rightarrow> VolumePlan list res" where
  "PlanVolumes sha256 facts target requests = plan_volumes_from sha256 facts target [] requests"

definition PlanDiskLayout :: "(string \<Rightarrow> string) \<Rightarrow> HardwareFacts \<Rightarrow> DiskLayoutRequest \<Rightarrow> DiskLayoutPlan res" where
  "PlanDiskLayout sha256 facts request =
     res_bind (normalizeLayoutRequest request) (\<lambda>normalized.
     res_bind (wrap_res ''match target disk: %w'' [] (MatchTargetDisk facts (lr_TargetDisk normalized))) (\<lambda>target.
     res_bind (planTargetPartitions (tm_Device target) normalized) (\<lambda>partitions.
     res_bind (PlanVolumes sha256 facts (tm_Device target) (lr_Volumes normalized)) (\<lambda>volumeMounts.
     res_bind (planBootTarget (lr_InitialRootSlot normalized)) (\<lambda>boot.
       Inr \<lparr>lp_TargetDiskPath = bd_Path (tm_Device target), lp_Partitions = partitions, lp_VolumeMounts = volumeMounts,
            lp_Boot = boot, lp_Signatures = tm_Signatures target\<rparr>)))))"

section \<open>Binding prepared volumes\<close>

definition VolumeBindingMountSource :: "DiskVolumeBinding \<Rightarrow> string res" where
  "VolumeBindingMountSource binding =
     (if TrimSpace (db_PartitionUUID binding) \<noteq> [] then Inr (''PARTUUID='' @ TrimSpace (db_PartitionUUID binding))
      else if TrimSpace (db_FilesystemUUID binding) \<noteq> [] then Inr (''UUID='' @ TrimSpace (db_FilesystemUUID binding))
      else fail ''volume %q has no discovered partition or filesystem UUID'' [db_Name binding])"

definition all_partitions :: "HardwareFacts \<Rightarrow> BlockDevice list" where
  "all_partitions facts = concat (map bd_Partitions (hf_BlockDevices facts))"

text \<open>The identity is checked inside the loop: without any partition an empty identity is not reported as such.\<close>

definition MatchVolumeBinding :: "HardwareFacts \<Rightarrow> DiskVolumeBinding \<Rightarrow> BlockDevice res" where
  "MatchVolumeBinding facts binding =
     (let partuuid = TrimSpace (db_PartitionUUID binding); fsuuid = TrimSpace (db_FilesystemUUID binding)
      in if partuuid = [] \<and> fsuuid = [] \<and> all_partitions facts \<noteq> []
         then fail ''bound identity for volume %q is empty'' [db_Name binding]
         else case filter (\<lambda>p. if partuuid \<noteq> [] then bd_PartitionUUID p = partuuid else bd_FilesystemUUID p = fsuuid)
                     (all_partitions facts) of
                [] \<Rightarrow> fail ''bound identity for volume %q matched no partitions'' [db_Name binding]
              | [p] \<Rightarrow> Inr p
              | ps \<Rightarrow> fail ''bound identity for volume %q matched %d partitions'' [db_Name binding, decimal (length ps)])"

definition volumePlanPartition :: "HardwareFacts \<Rightarrow> VolumePlan \<Rightarrow> BlockDevice res" where
  "volumePlanPartition facts plan =
     (if \<not> vp_Repartition plan
      then case find (\<lambda>p. bd_Path p = vp_DevicePath plan) (all_partitions facts) of
             Some p \<Rightarrow> Inr p
           | None \<Rightarrow> fail ''selected partition %s was not found after preparation'' [vp_DevicePath plan]
      else let label = volumePartitionLabel (vp_Name plan)
        in case concat (map (\<lambda>d. filter (\<lambda>p. bd_GPTLabel p = label) (bd_Partitions d))
                  (filter (\<lambda>d. bd_Path d = vp_DevicePath plan) (hf_BlockDevices facts))) of
             [] \<Rightarrow> fail ''discovered partition label %s matched no partitions on selected disk'' [label]
           | [p] \<Rightarrow> Inr p
           | ps \<Rightarrow> fail ''discovered partition label %s matched %d partitions on selected disk'' [label, decimal (length ps)])"

definition bind_volume :: "HardwareFacts \<Rightarrow> VolumePlan \<Rightarrow> (VolumePlan \<times> DiskVolumeBinding) res" where
  "bind_volume facts plan =
     res_bind (wrap_res ''volume %q: %w'' [vp_Name plan] (volumePlanPartition facts plan)) (\<lambda>device.
       let binding = \<lparr>db_Name = vp_Name plan, db_PartitionUUID = TrimSpace (bd_PartitionUUID device),
                      db_FilesystemUUID = TrimSpace (bd_FilesystemUUID device)\<rparr>
       in res_bind (VolumeBindingMountSource binding) (\<lambda>source.
            Inr (plan\<lparr>vp_DevicePath := bd_Path device, vp_MountSource := source\<rparr>, binding)))"

definition BindVolumePlans :: "HardwareFacts \<Rightarrow> VolumePlan list \<Rightarrow> (VolumePlan list \<times> DiskVolumeBinding list) res" where
  "BindVolumePlans facts plans =
     res_bind (res_map (bind_volume facts) plans) (\<lambda>bound. Inr (map fst bound, map snd bound))"

definition persistentDevicePath :: "BlockDevice \<Rightarrow> TargetDiskSelector \<Rightarrow> string res" where
  "persistentDevicePath device selector =
     (if td_ByID selector \<noteq> [] then Inr (td_ByID selector)
      else case sort (bd_ByID device) of
             [] \<Rightarrow> fail ''selected disk %s has no durable /dev/disk/by-id path for boot-time mounting'' [bd_Path device]
           | a # as \<Rightarrow> Inr a)"

end
