(* ===== verification/DiskLayoutFacts.thy ===== *)
theory DiskLayoutFacts
  imports DiskLayout
begin

text \<open>
  Correctness of disk selection and layout planning: what a match guarantees about the selected device, that the planned
  partitions fill the target disk exactly, and that planned volumes stay away from it.
\<close>

section \<open>Selection\<close>

lemma unsafe_disk_None [simp]: "unsafe_disk c f as = None \<longleftrightarrow> \<not> c"
  by (simp add: unsafe_disk_def)

lemma wrap_res_Inr [simp]: "wrap_res f as r = Inr x \<longleftrightarrow> r = Inr x"
  by (cases r) (simp_all add: wrap_res_def)

lemma MatchDiskIdentity_Inr:
  "MatchDiskIdentity facts selector = Inr device \<longleftrightarrow>
     TargetDiskSelector_validate selector = None \<and>
     filter (TargetDiskSelector_matches selector) (hf_BlockDevices facts) = [device] \<and> bd_Type device = DeviceDisk"
  by (auto simp: MatchDiskIdentity_def split: list.splits if_splits)

text \<open>A disk that may be wiped: whole, writable, large enough, and neither it nor a partition of it is mounted.\<close>

definition wipeable_disk :: "HardwareFacts \<Rightarrow> TargetDiskSelector \<Rightarrow> BlockDevice \<Rightarrow> bool" where
  "wipeable_disk facts selector device \<longleftrightarrow>
     bd_Type device = DeviceDisk \<and> \<not> bd_ReadOnly device \<and> \<not> diskHasMounts facts device \<and>
     (td_MinSizeMiB selector > 0 \<longrightarrow> td_MinSizeMiB selector * 1024 * 1024 \<le> bd_SizeBytes device)"

lemma MatchTargetDisk_Inr:
  "MatchTargetDisk facts selector = Inr m \<longleftrightarrow>
     MatchDiskIdentity facts selector = Inr (tm_Device m) \<and> wipeable_disk facts selector (tm_Device m) \<and>
     tm_Signatures m = collectSignatures (tm_Device m)"
  by (cases m) (auto simp: MatchTargetDisk_def validateTargetDiskSafety_def wipeable_disk_def not_less)

lemma MatchDiskIdentity_unique:
  assumes "MatchDiskIdentity facts selector = Inr device"
  shows "device \<in> set (hf_BlockDevices facts)" "TargetDiskSelector_matches selector device"
    "d \<in> set (hf_BlockDevices facts) \<Longrightarrow> TargetDiskSelector_matches selector d \<Longrightarrow> d = device"
proof -
  have f: "filter (TargetDiskSelector_matches selector) (hf_BlockDevices facts) = [device]"
    using assms by (simp add: MatchDiskIdentity_Inr)
  then have s: "set (filter (TargetDiskSelector_matches selector) (hf_BlockDevices facts)) = {device}"
    by simp
  then show "device \<in> set (hf_BlockDevices facts)" "TargetDiskSelector_matches selector device"
    by auto
  show "d = device" if "d \<in> set (hf_BlockDevices facts)" "TargetDiskSelector_matches selector d"
    using s that by auto
qed

lemma MatchPartition_Inr:
  "MatchPartition facts selector = Inr m \<longleftrightarrow>
     PartitionSelector_validate selector = None \<and> partition_matches facts selector = [m] \<and>
     validatePartitionSafety facts (pm_Device m) = None"
  by (auto simp: MatchPartition_def split: list.splits)

lemma MatchPartition_device:
  assumes "MatchPartition facts selector = Inr m"
  shows "pm_ParentDisk m \<in> set (hf_BlockDevices facts)" "pm_Device m \<in> set (bd_Partitions (pm_ParentDisk m))"
    "bd_Type (pm_Device m) = DevicePartition" "\<not> bd_ReadOnly (pm_Device m)" "\<not> partitionHasMounts facts (pm_Device m)"
proof -
  have "m \<in> set (partition_matches facts selector)" and v: "validatePartitionSafety facts (pm_Device m) = None"
    using assms by (simp_all add: MatchPartition_Inr)
  then show "pm_ParentDisk m \<in> set (hf_BlockDevices facts)" "pm_Device m \<in> set (bd_Partitions (pm_ParentDisk m))"
    by (auto simp: partition_matches_def)
  show "bd_Type (pm_Device m) = DevicePartition" "\<not> bd_ReadOnly (pm_Device m)" "\<not> partitionHasMounts facts (pm_Device m)"
    using v by (simp_all add: validatePartitionSafety_def)
qed

lemma unmounted_disk:
  assumes "\<not> diskHasMounts facts device" and "mount \<in> set (hf_Mounts facts)"
  shows "mf_Source mount \<noteq> bd_Path device" "p \<in> set (bd_Partitions device) \<Longrightarrow> mf_Source mount \<noteq> bd_Path p"
  using assms by (auto simp: diskHasMounts_def list_ex_iff)

section \<open>The partitions of the target disk\<close>

definition requested_mib :: "DiskLayoutRequest \<Rightarrow> nat" where
  "requested_mib request =
     unat (lr_ESPSizeMiB request) + unat (lr_XBOOTLDRSizeMiB request) + unat (lr_RootA request) + unat (lr_RootB request)
     + (case lr_Etcd request of None \<Rightarrow> 0 | Some e \<Rightarrow> unat (fr_SizeMiB e))"

text \<open>The sizes of the request add up within 64 bits.\<close>

definition sizes_fit :: "DiskLayoutRequest \<Rightarrow> bool" where
  "sizes_fit request \<longleftrightarrow> requested_mib request + unat (sr_MinSizeMiB (lr_State request)) < 2 ^ 64"

lemma unat_add_small: "unat (a :: uint64) + unat b < 2 ^ 64 \<Longrightarrow> unat (a + b) = unat a + unat b"
  by (subst unat_add_lem [symmetric]) simp

lemma unat_fixed_mib: "sizes_fit request \<Longrightarrow> unat (fixed_mib request) = requested_mib request"
  by (cases "lr_Etcd request") (simp_all add: sizes_fit_def requested_mib_def fixed_mib_def unat_add_small)

lemma unat_mib: "unat ((w :: uint64) div 1024 div 1024) = unat w div (1024 * 1024)"
  by (simp add: unat_div div_mult2_eq)

lemma unat_sub_le: "(b :: uint64) \<le> a \<Longrightarrow> unat (a - b) = unat a - unat b"
  by (rule unat_sub)

definition layout_labels :: "DiskLayoutRequest \<Rightarrow> string list" where
  "layout_labels request =
     [GPTLabelESP] @ (if lr_XBOOTLDRSizeMiB request > 0 then [GPTLabelXBOOTLDR] else []) @ [GPTLabelRootA, GPTLabelRootB]
     @ (case lr_Etcd request of None \<Rightarrow> [] | Some e \<Rightarrow> [GPTLabelEtcd]) @ [GPTLabelState]"

lemma planTargetPartitions_Inr:
  assumes "planTargetPartitions target request = Inr ps"
  shows "fixed_mib request + sr_MinSizeMiB (lr_State request) \<le> bd_SizeBytes target div 1024 div 1024"
    "map pp_GPTLabel ps = layout_labels request"
    "pp_SizeMiB (last ps) = bd_SizeBytes target div 1024 div 1024 - fixed_mib request"
    "pp_GPTLabel (last ps) = GPTLabelState" "\<forall>p \<in> set ps. pp_Remaining p \<longleftrightarrow> p = last ps"
    "sum_list (map (unat \<circ> pp_SizeMiB) ps) = requested_mib request + unat (pp_SizeMiB (last ps))"
  using assms
  by (auto simp: planTargetPartitions_def layout_labels_def partition_plan_def requested_mib_def Let_def not_less
      split: if_splits option.splits)

lemma layout_labels_distinct: "distinct (layout_labels request)"
  by (auto simp: layout_labels_def GPTLabelESP_def GPTLabelXBOOTLDR_def GPTLabelRootA_def GPTLabelRootB_def
      GPTLabelEtcd_def GPTLabelState_def split: option.splits)

lemma planned_partitions_fill_disk:
  assumes plan: "planTargetPartitions target request = Inr ps" and fit: "sizes_fit request"
  shows "sum_list (map (unat \<circ> pp_SizeMiB) ps) = unat (bd_SizeBytes target) div (1024 * 1024)"
    "sr_MinSizeMiB (lr_State request) \<le> pp_SizeMiB (last ps)"
proof -
  note p = planTargetPartitions_Inr [OF plan]
  let ?t = "bd_SizeBytes target div 1024 div 1024"
  have "unat (fixed_mib request + sr_MinSizeMiB (lr_State request))
      = requested_mib request + unat (sr_MinSizeMiB (lr_State request))"
    using fit by (subst unat_add_small) (simp_all add: unat_fixed_mib sizes_fit_def)
  with p(1) have le: "requested_mib request + unat (sr_MinSizeMiB (lr_State request)) \<le> unat ?t"
    by (metis word_le_nat_alt)
  then have "fixed_mib request \<le> ?t"
    using unat_fixed_mib [OF fit] by (simp add: word_le_nat_alt)
  then have s: "unat (pp_SizeMiB (last ps)) = unat ?t - requested_mib request"
    by (simp only: p(3) unat_sub_le unat_fixed_mib [OF fit])
  show "sum_list (map (unat \<circ> pp_SizeMiB) ps) = unat (bd_SizeBytes target) div (1024 * 1024)"
    using le by (simp only: p(6) s unat_mib)
  show "sr_MinSizeMiB (lr_State request) \<le> pp_SizeMiB (last ps)"
    using le by (simp only: word_le_nat_alt s)
qed

lemma normalizeLayoutRequest_Inr:
  assumes "normalizeLayoutRequest request = Inr n"
  shows "n = default_layout request" "MinimumRootMiB \<le> lr_RootA request" "MinimumRootMiB \<le> lr_RootB request"
    "lr_RuntimeRootSizeMiB request \<le> lr_RootA request" "lr_RuntimeRootSizeMiB request \<le> lr_RootB request"
    "sr_MinSizeMiB (lr_State request) > 0"
proof -
  show "n = default_layout request"
    using assms by (simp add: normalizeLayoutRequest_def)
  have slot: "MinimumRootMiB \<le> slot \<and> r \<le> slot" if "validateRootSlot nm slot r = None" for nm slot r
    using that by (auto simp: validateRootSlot_def not_less)
  have "validateRootSlot ''root-a'' (lr_RootA request) (lr_RuntimeRootSizeMiB request) = None"
    "validateRootSlot ''root-b'' (lr_RootB request) (lr_RuntimeRootSizeMiB request) = None"
    using assms by (simp_all add: normalizeLayoutRequest_def)
  from this [THEN slot]
  show "MinimumRootMiB \<le> lr_RootA request" "MinimumRootMiB \<le> lr_RootB request"
    "lr_RuntimeRootSizeMiB request \<le> lr_RootA request" "lr_RuntimeRootSizeMiB request \<le> lr_RootB request"
    by blast+
  show "sr_MinSizeMiB (lr_State request) > 0"
    using assms by (simp add: normalizeLayoutRequest_def word_gt_0)
qed


section \<open>Volumes\<close>

text \<open>
  What the plan of a volume may touch: a whole disk other than the target, a labelled partition of such a disk whose
  filesystem is reused, or a selected partition of such a disk that is not one of Katl's own.
\<close>

definition off_target_disk :: "HardwareFacts \<Rightarrow> BlockDevice \<Rightarrow> BlockDevice \<Rightarrow> bool" where
  "off_target_disk facts target disk \<longleftrightarrow> disk \<in> set (hf_BlockDevices facts) \<and> bd_Path disk \<noteq> bd_Path target"

definition whole_disk_volume :: "HardwareFacts \<Rightarrow> BlockDevice \<Rightarrow> VolumePlan \<Rightarrow> bool" where
  "whole_disk_volume facts target plan \<longleftrightarrow>
     (\<exists>disk. off_target_disk facts target disk \<and> vp_DevicePath plan = bd_Path disk \<and> bd_Type disk = DeviceDisk \<and>
        \<not> bd_ReadOnly disk \<and> \<not> diskHasMounts facts disk)"

definition reused_volume :: "HardwareFacts \<Rightarrow> BlockDevice \<Rightarrow> VolumePlan \<Rightarrow> bool" where
  "reused_volume facts target plan \<longleftrightarrow>
     (\<exists>disk p. off_target_disk facts target disk \<and> p \<in> set (bd_Partitions disk) \<and> vp_DevicePath plan = bd_Path p \<and>
        bd_GPTLabel p = volumePartitionLabel (vp_Name plan) \<and> bd_FilesystemSignature p = vp_Filesystem plan)"

definition partition_volume :: "HardwareFacts \<Rightarrow> BlockDevice \<Rightarrow> VolumePlan \<Rightarrow> bool" where
  "partition_volume facts target plan \<longleftrightarrow>
     (\<exists>disk p. off_target_disk facts target disk \<and> p \<in> set (bd_Partitions disk) \<and> vp_DevicePath plan = bd_Path p \<and>
        bd_Type p = DevicePartition \<and> \<not> bd_ReadOnly p \<and> \<not> partitionHasMounts facts p \<and>
        \<not> isKatlPartitionLabel (bd_GPTLabel p) \<and>
        (vp_Wipe plan \<or> bd_FilesystemSignature p = vp_Filesystem plan))"

definition volume_contained :: "HardwareFacts \<Rightarrow> BlockDevice \<Rightarrow> VolumeRequest \<Rightarrow> VolumePlan \<Rightarrow> bool" where
  "volume_contained facts target request plan \<longleftrightarrow>
     vp_Name plan = vr_Name request \<and> vp_Filesystem plan = vr_Filesystem request \<and> vp_Wipe plan = vr_Wipe request \<and>
     vp_MountPath plan = VolumeMountRoot @ ''/'' @ vr_Name request \<and>
     vp_Repartition plan = (vr_Disk request \<noteq> None \<and> vr_Wipe request) \<and>
     (if vr_Disk request = None then partition_volume facts target plan
      else if vr_Wipe request then whole_disk_volume facts target plan
      else reused_volume facts target plan)"

lemma volumePartitionOnDisk_Inr:
  "volumePartitionOnDisk disk label = Inr p \<Longrightarrow> p \<in> set (bd_Partitions disk) \<and> bd_GPTLabel p = label"
proof -
  assume "volumePartitionOnDisk disk label = Inr p"
  then have "filter (\<lambda>p. bd_GPTLabel p = label) (bd_Partitions disk) = [p]"
    by (auto simp: volumePartitionOnDisk_def split: list.splits)
  then have "p \<in> set (filter (\<lambda>p. bd_GPTLabel p = label) (bd_Partitions disk))" by simp
  then show ?thesis by simp
qed

lemma validateReusableVolume_None:
  "validateReusableVolume plan fs = None \<longleftrightarrow> vp_Wipe plan \<or> fs \<noteq> [] \<and> fs = vp_Filesystem plan"
  by (auto simp: validateReusableVolume_def)

lemma plan_disk_volume_contained:
  assumes plan: "plan_disk_volume sha256 facts target request selector = Inr plan" and sel: "vr_Disk request = Some selector"
  shows "volume_contained facts target request plan"
proof -
  obtain m where m: "MatchTargetDisk facts selector = Inr m" "bd_Path (tm_Device m) \<noteq> bd_Path target"
    using plan by (auto simp: plan_disk_volume_def split: if_splits)
  then have d: "off_target_disk facts target (tm_Device m)" "wipeable_disk facts selector (tm_Device m)"
    using MatchDiskIdentity_unique(1) by (auto simp: off_target_disk_def MatchTargetDisk_Inr)
  show ?thesis
  proof (cases "vr_Wipe request")
    case True
    then show ?thesis
      using plan m d sel
      by (auto simp: plan_disk_volume_def volume_contained_def whole_disk_volume_def volume_plan_def wipeable_disk_def)
  next
    case False
    with plan m obtain p where p: "volumePartitionOnDisk (tm_Device m) (volumePartitionLabel (vr_Name request)) = Inr p"
      "plan = volume_plan request ''disk'' (bd_Path p) (volumeIdentityMountSource p) (collectVolumeSignatures p)"
      "validateReusableVolume plan (bd_FilesystemSignature p) = None"
      by (auto simp: plan_disk_volume_def Let_def)
    with volumePartitionOnDisk_Inr [OF p(1)] d False sel show ?thesis
      by (auto simp: volume_contained_def reused_volume_def volume_plan_def validateReusableVolume_None)
  qed
qed

lemma plan_partition_volume_contained:
  assumes plan: "plan_partition_volume facts target request selector = Inr plan" and sel: "vr_Disk request = None"
  shows "volume_contained facts target request plan"
proof -
  obtain m where m: "MatchPartition facts selector = Inr m" "bd_Path (pm_ParentDisk m) \<noteq> bd_Path target"
    and l: "\<not> isKatlPartitionLabel (bd_GPTLabel (pm_Device m))"
    and p: "plan = (volume_plan request ''partition'' (bd_Path (pm_Device m)) (volumeIdentityMountSource (pm_Device m))
                 (pm_Signatures m))\<lparr>vp_Wipe := vr_Wipe request\<rparr>"
    and v: "validateReusableVolume plan (bd_FilesystemSignature (pm_Device m)) = None"
    using plan by (auto simp: plan_partition_volume_def Let_def)
  have "partition_volume facts target plan"
    unfolding partition_volume_def off_target_disk_def
    using MatchPartition_device [OF m(1)] m(2) l v by (auto simp: p volume_plan_def validateReusableVolume_None)
  then show ?thesis
    using sel by (simp add: volume_contained_def p volume_plan_def)
qed

lemma plan_volume_contained:
  assumes "plan_volume sha256 facts target seen request = Inr plan"
  shows "volume_contained facts target request plan" "vr_Name request \<notin> set seen"
    "validateMountName ''volume'' (vr_Name request) = None" "vp_Repartition plan \<or> TrimSpace (vp_MountSource plan) \<noteq> []"
  using assms plan_disk_volume_contained plan_partition_volume_contained
  by (auto simp: plan_volume_def split: option.splits)

lemma plan_volumes_from_contained:
  assumes "plan_volumes_from sha256 facts target seen requests = Inr plans"
  shows "list_all2 (volume_contained facts target) requests plans \<and> distinct (map vr_Name requests) \<and>
     set (map vr_Name requests) \<inter> set seen = {}"
  using assms
proof (induction sha256 facts target seen requests arbitrary: plans rule: plan_volumes_from.induct)
  case (1 sha256 facts target seen)
  then show ?case by simp
next
  case (2 sha256 facts target seen request requests)
  from "2.prems" obtain plan rest where p: "plan_volume sha256 facts target seen request = Inr plan"
    "plan_volumes_from sha256 facts target (vr_Name request # seen) requests = Inr rest" "plans = plan # rest"
    by auto
  with "2.IH" [OF p(2)] plan_volume_contained [OF p(1)] show ?case by auto
qed

lemma PlanVolumes_contained:
  assumes "PlanVolumes sha256 facts target requests = Inr plans"
  shows "list_all2 (volume_contained facts target) requests plans" "distinct (map vp_Name plans)"
    "distinct (map vp_MountPath plans)"
proof -
  note c = plan_volumes_from_contained [OF assms [unfolded PlanVolumes_def]]
  then show a: "list_all2 (volume_contained facts target) requests plans" by blast
  have "map vp_Name plans = map vr_Name requests \<and>
      map vp_MountPath plans = map (\<lambda>r. VolumeMountRoot @ ''/'' @ vr_Name r) requests"
    using a by (induction rule: list_all2_induct) (simp_all add: volume_contained_def)
  moreover have "distinct (map (\<lambda>r. VolumeMountRoot @ ''/'' @ vr_Name r) requests)"
    using c by (auto simp: distinct_map inj_on_def)
  ultimately show "distinct (map vp_Name plans)" "distinct (map vp_MountPath plans)"
    using c by auto
qed

text \<open>Nothing compares the devices of two volumes: a second name for the same disk is accepted with it.\<close>

lemma plan_volume_renamed:
  assumes "plan_volume sha256 facts target [] request = Inr plan" and "vr_Disk request \<noteq> None" "vr_Wipe request"
    and "validateMountName ''volume'' name = None" "name \<noteq> vr_Name request"
  shows "\<exists>other. plan_volume sha256 facts target [vr_Name request] (request\<lparr>vr_Name := name\<rparr>) = Inr other \<and>
    vp_DevicePath other = vp_DevicePath plan \<and> vp_Repartition other"
proof -
  obtain selector where s: "vr_Disk request = Some selector" using assms(2) by blast
  then obtain m where "MatchTargetDisk facts selector = Inr m" "bd_Path (tm_Device m) \<noteq> bd_Path target"
    "vp_DevicePath plan = bd_Path (tm_Device m)" "vr_Partition request \<noteq> None \<longleftrightarrow> False"
    "IsSupportedVolumeFilesystem (vr_Filesystem request)"
    using assms(1,3) by (auto simp: plan_volume_def plan_disk_volume_def volume_plan_def split: if_splits)
  then show ?thesis
    using s assms by (simp add: plan_volume_def plan_disk_volume_def volume_plan_def wrap_res_def)
qed

section \<open>The whole plan\<close>

lemma PlanDiskLayout_Inr:
  assumes "PlanDiskLayout sha256 facts request = Inr plan"
  obtains target where "MatchTargetDisk facts (lr_TargetDisk request) = Inr target"
    "normalizeLayoutRequest request = Inr (default_layout request)"
    "lp_TargetDiskPath plan = bd_Path (tm_Device target)"
    "planTargetPartitions (tm_Device target) (default_layout request) = Inr (lp_Partitions plan)"
    "PlanVolumes sha256 facts (tm_Device target) (lr_Volumes request) = Inr (lp_VolumeMounts plan)"
    "planBootTarget (lr_InitialRootSlot (default_layout request)) = Inr (lp_Boot plan)"
proof -
  obtain n target ps vs boot where n: "normalizeLayoutRequest request = Inr n"
    and r: "MatchTargetDisk facts (lr_TargetDisk n) = Inr target"
      "planTargetPartitions (tm_Device target) n = Inr ps" "PlanVolumes sha256 facts (tm_Device target) (lr_Volumes n) = Inr vs"
      "planBootTarget (lr_InitialRootSlot n) = Inr boot"
    and p: "plan = \<lparr>lp_TargetDiskPath = bd_Path (tm_Device target), lp_Partitions = ps, lp_VolumeMounts = vs, lp_Boot = boot,
       lp_Signatures = tm_Signatures target\<rparr>"
    using assms by (auto simp: PlanDiskLayout_def)
  have "n = default_layout request" by (rule normalizeLayoutRequest_Inr(1) [OF n])
  with n r p show thesis by (intro that [of target]) (simp_all add: default_layout_def)
qed

lemma planned_boot_slot:
  assumes "planBootTarget slot = Inr boot"
  shows "bt_RootSlot boot = slot \<and> (slot = RootSlotA \<and> bt_RootPartitionLabel boot = GPTLabelRootA \<or>
     slot = RootSlotB \<and> bt_RootPartitionLabel boot = GPTLabelRootB)"
  using assms by (auto simp: planBootTarget_def bootTarget_def Let_def split: if_splits)

end
