(* ===== verification/RootSlotWrite.thy ===== *)
theory RootSlotWrite
  imports DiskLayoutFacts ConfigApply
begin

text \<open>
  Writing a runtime image to a root slot (\<^verbatim>\<open>internal/installer/disk/root_slot.go\<close>, \<^verbatim>\<open>root_slot_device.go\<close>,
  \<^verbatim>\<open>root_slot_writer.go\<close>, \<^verbatim>\<open>root_slot_state.go\<close>): the plan that never targets the running slot, the chunked copy with
  its digests before and after, and the persisted state that makes a repeated run safe.

  A device is its contents together with the effect of a write, which is an argument of the model: a device may store
  something else than it was given. Every device access consumes an entry of a schedule that says whether it fails and
  after how many bytes.
\<close>

section \<open>The plan\<close>

definition ArtifactRuntimeRoot :: string where "ArtifactRuntimeRoot = ''runtime-root''"

record ArtifactVerification =
  av_Name :: string
  av_Kind :: string
  av_SHA256 :: string
  av_SizeBytes :: int

record RootSlotWriteRequest =
  rw_RuntimeArtifact :: ArtifactVerification
  rw_CurrentSlot :: string

record RootSlotTarget =
  rt_Name :: string
  rt_GPTLabel :: string
  rt_Filesystem :: string
  rt_SizeMiB :: uint64

record RootSlotWritePlan =
  wp_Slot :: string
  wp_ActiveSlotGuard :: string
  wp_TargetPartition :: RootSlotTarget
  wp_ArtifactDigest :: string
  wp_ExpectedSizeBytes :: int
  wp_DestructiveSteps :: "string list"
  wp_ValidationSteps :: "string list"

definition selectWriteSlot :: "string \<Rightarrow> string \<Rightarrow> string res" where
  "selectWriteSlot initial current =
     (if current = [] then (if initial = [] then fail ''initial root slot is required'' [] else Inr initial)
      else if current = RootSlotA then Inr RootSlotB
      else if current = RootSlotB then Inr RootSlotA
      else fail ''unsupported current root slot %q'' [current])"

definition rootSlotPartition :: "string \<Rightarrow> (string \<times> string) res" where
  "rootSlotPartition slot =
     (if slot = RootSlotA then Inr (''root-a'', GPTLabelRootA)
      else if slot = RootSlotB then Inr (''root-b'', GPTLabelRootB)
      else fail ''unsupported root slot %q'' [slot])"

definition findRootSlot :: "DiskLayoutPlan \<Rightarrow> string \<Rightarrow> RootSlotTarget res" where
  "findRootSlot layout slot =
     res_bind (rootSlotPartition slot) (\<lambda>(name, label).
       case find (\<lambda>p. pp_Name p = name) (lp_Partitions layout) of
         None \<Rightarrow> fail ''%s partition not found'' [name]
       | Some p \<Rightarrow>
           if pp_GPTLabel p \<noteq> label then fail ''%s label = %q, want %q'' [name, pp_GPTLabel p, label]
           else Inr \<lparr>rt_Name = pp_Name p, rt_GPTLabel = pp_GPTLabel p, rt_Filesystem = pp_Filesystem p,
                     rt_SizeMiB = pp_SizeMiB p\<rparr>)"

definition PlanRootSlotWrite :: "DiskLayoutPlan \<Rightarrow> RootSlotWriteRequest \<Rightarrow> RootSlotWritePlan res" where
  "PlanRootSlotWrite layout request =
     (let art = rw_RuntimeArtifact request in
      res_need (first_error
        [reject (av_Kind art \<noteq> ArtifactRuntimeRoot) ''runtime artifact kind = %q, want %q'' [av_Kind art, ArtifactRuntimeRoot],
         reject (TrimSpace (av_SHA256 art) = []) ''runtime artifact digest is required'' [],
         reject (av_SizeBytes art \<le> 0) ''runtime artifact size must be positive'' []])
      (res_bind (selectWriteSlot (bt_RootSlot (lp_Boot layout)) (rw_CurrentSlot request)) (\<lambda>slot.
       res_bind (findRootSlot layout slot) (\<lambda>target.
       res_need (first_error
         [reject (rt_Filesystem target \<noteq> ''squashfs'') ''%s filesystem = %q, want squashfs''
            [rt_Name target, rt_Filesystem target],
          reject ((of_int (av_SizeBytes art) :: uint64) > rt_SizeMiB target * 1024 * 1024)
            ''runtime artifact size %d bytes exceeds %s size %d MiB''
            [decimal (nat (av_SizeBytes art)), rt_Name target, show_uint64 (rt_SizeMiB target)]])
       (Inr \<lparr>wp_Slot = slot, wp_ActiveSlotGuard = rw_CurrentSlot request, wp_TargetPartition = target,
             wp_ArtifactDigest = ToLower (av_SHA256 art), wp_ExpectedSizeBytes = av_SizeBytes art,
             wp_DestructiveSteps = [''write runtime artifact to '' @ rt_GPTLabel target, ''flush '' @ rt_GPTLabel target],
             wp_ValidationSteps =
               [''verify runtime artifact digest before write'',
                ''verify '' @ rt_GPTLabel target @ '' first artifact-size bytes after write'',
                ''verify '' @ rt_GPTLabel target @ '' mounts read-only as squashfs'']\<rparr>)))))"

definition RootSlotDevicePath :: "RootSlotTarget \<Rightarrow> string \<Rightarrow> string res" where
  "RootSlotDevicePath target partLabelRoot =
     (let label = TrimSpace (rt_GPTLabel target) in
      res_need (first_error
        [reject (label = []) ''root slot GPT label is required'' [],
         reject (IsAbs label \<or> Clean label \<noteq> label \<or> Contains label ''/'')
           ''root slot GPT label %q must be a single path segment'' [rt_GPTLabel target]])
      (Inr (PathJoin [if partLabelRoot = [] then ''/dev/disk/by-partlabel'' else partLabelRoot, label])))"

section \<open>Devices\<close>

datatype dev_fault = DevOk | DevFail nat string

record slot_device =
  sv_contents :: string
  sv_faults :: "dev_fault list"

type_synonym device_write = "nat \<Rightarrow> string \<Rightarrow> string \<Rightarrow> string"

text \<open>A device that stores what it is given.\<close>

definition splice :: device_write where
  "splice off data old = take off old @ data @ drop (off + length data) old"

definition dev_fault :: "(slot_device, dev_fault) io" where
  "dev_fault = (\<lambda>s. case sv_faults s of [] \<Rightarrow> (Inr DevOk, s) | f # fs \<Rightarrow> (Inr f, s\<lparr>sv_faults := fs\<rparr>))"

definition EOF :: err where "EOF = Errorf ''EOF'' []"

definition ReadAt :: "string \<Rightarrow> nat \<Rightarrow> nat \<Rightarrow> (slot_device, string \<times> error) io" where
  "ReadAt bytes off n =
     io_bind dev_fault (\<lambda>f.
       io_ok (let data = take n (drop off bytes) in
              case f of
                DevOk \<Rightarrow> (data, if length data < n then Some EOF else None)
              | DevFail k m \<Rightarrow> (take k data, Some (OsError m))))"

definition WriteAt :: "device_write \<Rightarrow> string \<Rightarrow> nat \<Rightarrow> (slot_device, nat \<times> error) io" where
  "WriteAt put data off =
     io_bind dev_fault (\<lambda>f.
     io_bind (io_get (\<lambda>s. length (sv_contents s) - off)) (\<lambda>room.
       let (n, err) = (case f of
                         DevOk \<Rightarrow> if length data \<le> room then (length data, None)
                                  else (room, Some (OsError ''no space left on device''))
                       | DevFail k m \<Rightarrow> (min k (min (length data) room), Some (OsError m)))
       in io_then (io_upd (\<lambda>s. s\<lparr>sv_contents := put off (take n data) (sv_contents s)\<rparr>)) (io_ok (n, err))))"

definition Sync :: "(slot_device, unit) io" where
  "Sync = io_bind dev_fault (\<lambda>f. case f of DevOk \<Rightarrow> io_ok () | DevFail k m \<Rightarrow> io_err (OsError m))"

section \<open>The writer\<close>

definition rootWriteChunk :: int where "rootWriteChunk = 1024 * 1024"

record RootSlotInstallRequest =
  rq_Plan :: RootSlotWritePlan
  rq_Artifact :: "string option"
  rq_Target :: bool

record RootSlotInstallResult =
  rr_Slot :: string
  rr_GPTLabel :: string
  rr_BytesWritten :: int
  rr_SHA256 :: string

text \<open>\<open>io.Copy\<close> of a section of a reader into a hash: a failing read aborts it, a short reader ends it early.\<close>

definition hashRange :: "(string \<Rightarrow> string) \<Rightarrow> string \<Rightarrow> int \<Rightarrow> (slot_device, string) io" where
  "hashRange sha256 bytes n =
     io_bind dev_fault (\<lambda>f.
       case f of
         DevFail k m \<Rightarrow> io_err (OsError m)
       | DevOk \<Rightarrow>
           let data = take (nat n) bytes
           in if int (length data) \<noteq> n then io_fail ''read %d bytes, want %d'' [decimal (length data), decimal (nat n)]
              else io_ok (EncodeToString (sha256 data)))"

function writeRange :: "device_write \<Rightarrow> string \<Rightarrow> int \<Rightarrow> int \<Rightarrow> (slot_device, int) io" where
  "writeRange put artifact n offset =
     (if offset < n then
        let want = min rootWriteChunk (n - offset) in
        io_bind (ReadAt artifact (nat offset) (nat want)) (\<lambda>(chunk, err).
          if err \<noteq> None \<and> err \<noteq> Some EOF then io_err (Wrap ''read artifact at %d: %w'' [decimal (nat offset)] (the err))
          else if int (length chunk) \<noteq> want
          then io_fail ''read artifact at %d: got %d bytes want %d''
                 [decimal (nat offset), decimal (length chunk), decimal (nat want)]
          else io_bind (WriteAt put chunk (nat offset)) (\<lambda>(written, err).
            if err \<noteq> None then io_err (Wrap ''write root slot at %d: %w'' [decimal (nat offset)] (the err))
            else if int written \<noteq> want
            then io_fail ''short root slot write at %d: wrote %d bytes want %d''
                   [decimal (nat offset), decimal written, decimal (nat want)]
            else writeRange put artifact n (offset + want)))
      else io_ok offset)"
  by pat_completeness auto
termination
  by (relation "measure (\<lambda>(put, artifact, n, offset). nat (n - offset))") (auto simp: rootWriteChunk_def)

declare writeRange.simps [simp del]

definition WriteRootSlot ::
  "(string \<Rightarrow> string) \<Rightarrow> device_write \<Rightarrow> RootSlotInstallRequest \<Rightarrow> (slot_device, RootSlotInstallResult) io" where
  "WriteRootSlot sha256 put request =
     (case rq_Artifact request of
        None \<Rightarrow> io_fail ''runtime artifact reader is required'' []
      | Some artifact \<Rightarrow>
     io_then (io_reject (\<not> rq_Target request) ''root slot target is required'' [])
     (let n = wp_ExpectedSizeBytes (rq_Plan request); want = ToLower (TrimSpace (wp_ArtifactDigest (rq_Plan request))) in
     io_then (io_reject (n \<le> 0) ''expected artifact size must be positive'' [])
     (io_then (io_reject (want = []) ''artifact digest is required'' [])
     (io_bind (io_wrap ''hash runtime artifact: %w'' [] (hashRange sha256 artifact n)) (\<lambda>got.
      io_then (io_reject (got \<noteq> want) ''runtime artifact digest mismatch: got %s want %s'' [got, want])
     (io_bind (writeRange put artifact n 0) (\<lambda>written.
      io_then (io_wrap ''flush root slot: %w'' [] Sync)
     (io_bind (io_get sv_contents) (\<lambda>contents.
      io_bind (io_wrap ''verify root slot: %w'' [] (hashRange sha256 contents n)) (\<lambda>verified.
      io_then (io_reject (verified \<noteq> want) ''root slot digest mismatch: got %s want %s'' [verified, want])
        (io_ok \<lparr>rr_Slot = wp_Slot (rq_Plan request), rr_GPTLabel = rt_GPTLabel (wp_TargetPartition (rq_Plan request)),
                rr_BytesWritten = written, rr_SHA256 = verified\<rparr>)))))))))))"

section \<open>The persisted state\<close>

record RootSlotState =
  ro_PlannedSlot :: string
  ro_ArtifactDigest :: string
  ro_ActiveSlotGuard :: string
  ro_WriteStarted :: bool
  ro_WriteComplete :: bool
  ro_ValidationComplete :: bool
  ro_UpdatedAt :: time

definition ErrSlotRetryRequired :: err where
  "ErrSlotRetryRequired = Errorf ''partial root slot write requires explicit retry'' []"

definition ErrSlotStateConflict :: err where
  "ErrSlotStateConflict = Errorf ''root slot state conflicts with requested write'' []"

text \<open>The store interface: saving and loading the state of one slot write.\<close>

record 's SlotStore =
  ss_SaveSlotState :: "RootSlotState \<Rightarrow> ('s, unit) io"
  ss_LoadSlotState :: "('s, RootSlotState) io"

definition slotState :: "RootSlotWritePlan \<Rightarrow> RootSlotState" where
  "slotState plan =
     \<lparr>ro_PlannedSlot = wp_Slot plan, ro_ArtifactDigest = ToLower (TrimSpace (wp_ArtifactDigest plan)),
      ro_ActiveSlotGuard = wp_ActiveSlotGuard plan, ro_WriteStarted = False, ro_WriteComplete = False,
      ro_ValidationComplete = False, ro_UpdatedAt = 0\<rparr>"

definition sameSlotState :: "RootSlotState \<Rightarrow> RootSlotState \<Rightarrow> bool" where
  "sameSlotState got want \<longleftrightarrow>
     ro_PlannedSlot got = ro_PlannedSlot want \<and>
     EqualFold (TrimSpace (ro_ArtifactDigest got)) (TrimSpace (ro_ArtifactDigest want)) \<and>
     ro_ActiveSlotGuard got = ro_ActiveSlotGuard want"

definition skipped_result :: "RootSlotWritePlan \<Rightarrow> RootSlotInstallResult" where
  "skipped_result plan =
     \<lparr>rr_Slot = wp_Slot plan, rr_GPTLabel = rt_GPTLabel (wp_TargetPartition plan),
      rr_BytesWritten = wp_ExpectedSizeBytes plan, rr_SHA256 = ToLower (TrimSpace (wp_ArtifactDigest plan))\<rparr>"

definition install_recorded ::
  "'s SlotStore \<Rightarrow> RootSlotInstallRequest \<Rightarrow> (RootSlotInstallRequest \<Rightarrow> ('s, RootSlotInstallResult) io) \<Rightarrow>
     ('s, RootSlotInstallResult) io" where
  "install_recorded store request install =
     (let want = (slotState (rq_Plan request))\<lparr>ro_WriteStarted := True\<rparr> in
      io_then (ss_SaveSlotState store want)
     (io_bind (install request) (\<lambda>result.
      io_then (ss_SaveSlotState store (want\<lparr>ro_WriteComplete := True\<rparr>))
     (io_then (ss_SaveSlotState store (want\<lparr>ro_WriteComplete := True, ro_ValidationComplete := True\<rparr>))
        (io_ok result)))))"

definition runRootSlot ::
  "'s SlotStore option \<Rightarrow> RootSlotInstallRequest \<Rightarrow> bool \<Rightarrow> (RootSlotInstallRequest \<Rightarrow> ('s, RootSlotInstallResult) io) \<Rightarrow>
     ('s, RootSlotInstallResult) io" where
  "runRootSlot store_option request retry install =
     (case store_option of
        None \<Rightarrow> install request
      | Some store \<Rightarrow>
          io_bind (io_catch (ss_LoadSlotState store)) (\<lambda>loaded.
            case loaded of
              Inl e \<Rightarrow> if isErrNotExist e then install_recorded store request install
                       else io_err (Wrap ''load root slot state: %w'' [] e)
            | Inr current \<Rightarrow>
                if \<not> sameSlotState current (slotState (rq_Plan request)) then io_err ErrSlotStateConflict
                else if ro_ValidationComplete current then io_ok (skipped_result (rq_Plan request))
                else if ro_WriteStarted current \<and> \<not> retry then io_err ErrSlotRetryRequired
                else install_recorded store request install))"

text \<open>
  The file store: \<open>os.WriteFile\<close> truncates \<^verbatim>\<open>root-slot.json\<close> and then fills it, so that a failure in between leaves a
  file that does not decode. The first call of a save is the check that the context is not cancelled. A read finds the file as it
  is; one that is cancelled ends the run before anything changes and is left out. \<open>now\<close> is the clock of the store.
\<close>

record slot_host =
  sh_device :: slot_device
  sh_file :: "RootSlotState json_file"
  sh_faults :: "fault list"

definition sh_call :: "(slot_host \<Rightarrow> slot_host) \<Rightarrow> (slot_host, unit) io" where
  "sh_call = fault_call sh_faults (\<lambda>fs s. s\<lparr>sh_faults := fs\<rparr>)"

definition on_device :: "(slot_device, 'a) io \<Rightarrow> (slot_host, 'a) io" where
  "on_device m = (\<lambda>s. case m (sh_device s) of (r, d) \<Rightarrow> (r, s\<lparr>sh_device := d\<rparr>))"

definition SaveSlotState :: "time \<Rightarrow> RootSlotState \<Rightarrow> (slot_host, unit) io" where
  "SaveSlotState now state =
     io_then (sh_call (\<lambda>s. s))
      (io_then (io_wrap ''create root slot state directory: %w'' [] (sh_call (\<lambda>s. s)))
       (io_wrap ''write root slot state: %w'' []
          (io_then (sh_call (\<lambda>s. s\<lparr>sh_file := BadFile\<rparr>))
                   (sh_call (\<lambda>s. s\<lparr>sh_file := File (state\<lparr>ro_UpdatedAt := now\<rparr>)\<rparr>)))))"

definition LoadSlotState :: "(slot_host, RootSlotState) io" where
  "LoadSlotState =
     io_bind (io_get sh_file) (\<lambda>f.
       case f of
         NoFile \<Rightarrow> io_err OsNotExist
       | BadFile \<Rightarrow> io_fail ''decode root slot state'' []
       | File state \<Rightarrow> io_ok state)"

definition file_slot_store :: "time \<Rightarrow> slot_host SlotStore" where
  "file_slot_store now = \<lparr>ss_SaveSlotState = SaveSlotState now, ss_LoadSlotState = LoadSlotState\<rparr>"

definition run_file_slot ::
  "(string \<Rightarrow> string) \<Rightarrow> device_write \<Rightarrow> time \<Rightarrow> RootSlotInstallRequest \<Rightarrow> bool \<Rightarrow> (slot_host, RootSlotInstallResult) io" where
  "run_file_slot sha256 put now request retry =
     runRootSlot (Some (file_slot_store now)) request retry (\<lambda>r. on_device (WriteRootSlot sha256 put r))"

end
