(* ===== verification/DiskExecutor.thy ===== *)
theory DiskExecutor
  imports RootSlotWrite
begin

text \<open>
  Executing a disk layout (\<^verbatim>\<open>internal/installer/disk/executor.go\<close> and \<^verbatim>\<open>boot.go\<close>): the operations of a plan, their
  groups, the executor that runs them through the injected interfaces of the source, the boot loader installation and the
  check of the resulting layout. The interfaces (command runner, slot store, temporary files, hooks) are records of
  functions over an arbitrary state, as the struct fields of the source are.
\<close>

section \<open>Operations of a plan\<close>

record DiskOperation =
  op_Name :: string
  op_Command :: string
  op_Args :: "string list"
  op_Definitions :: "string list"
  op_Env :: "string list"
  op_Destructive :: bool

definition operation :: "string \<Rightarrow> string \<Rightarrow> string list \<Rightarrow> DiskOperation" where
  "operation name command args =
     \<lparr>op_Name = name, op_Command = command, op_Args = args, op_Definitions = [], op_Env = [], op_Destructive = False\<rparr>"

definition destructive :: "DiskOperation \<Rightarrow> DiskOperation" where
  "destructive p = p\<lparr>op_Destructive := True\<rparr>"

definition repartArgs :: "string \<Rightarrow> string list" where
  "repartArgs device = [''--dry-run=no'', ''--empty=force'', ''--discard=no'', ''--definitions={definitions}'', device]"

definition newline :: string where "newline = [CHR 0x0A]"

definition partitionTypeGUID :: "string \<Rightarrow> string" where
  "partitionTypeGUID kind =
     (if kind = ''esp'' then ''c12a7328-f81f-11d2-ba4b-00a0c93ec93b''
      else if kind = ''xbootldr'' then ''bc13c2ff-59e6-4262-a352-b275fd6f7172''
      else if kind = ''root-x86-64'' then ''4f68bce3-e8cd-4db1-96e7-fbcaf984b709''
      else if kind = ''var'' then ''4d21b016-b534-45c2-a9fb-5c16e091fd2d''
      else ''0fc63daf-8483-4772-8e79-3d69d8477de4'')"

definition partLabelDevice :: "string \<Rightarrow> string" where
  "partLabelDevice label = ''/dev/disk/by-partlabel/'' @ label"

definition volumeDefinition :: "VolumePlan \<Rightarrow> string" where
  "volumeDefinition volume =
     Join [''[Partition]'', ''Type='' @ vp_TypeUUID volume, ''Label='' @ volumePartitionLabel (vp_Name volume),
           ''Format='' @ vp_Filesystem volume, []] newline"

definition system_definition :: "PartitionPlan \<Rightarrow> string" where
  "system_definition p =
     Join ([''[Partition]'', ''Type='' @ partitionTypeGUID (pp_Type p), ''Label='' @ pp_GPTLabel p]
           @ (if pp_Remaining p then []
              else let mib = show_uint64 (pp_SizeMiB p) @ ''M'' in [''SizeMinBytes='' @ mib, ''SizeMaxBytes='' @ mib])
           @ (if pp_Name p \<noteq> ''root-a'' \<and> pp_Name p \<noteq> ''root-b'' then [''Format='' @ pp_Filesystem p] else [])) newline
     @ newline"

definition systemDefinitions :: "DiskLayoutPlan \<Rightarrow> string list" where
  "systemDefinitions plan = map system_definition (lp_Partitions plan)"

definition mkfs_args :: "string \<Rightarrow> string list" where
  "mkfs_args filesystem =
     (if filesystem = ''xfs'' then [''-K'']
      else if filesystem = ''ext4'' then [''-E'', ''nodiscard'']
      else if filesystem = ''btrfs'' then [''--nodiscard''] else [])"

definition volumeOperations :: "VolumePlan \<Rightarrow> DiskOperation list" where
  "volumeOperations volume =
     (if vp_Repartition volume then
        [destructive ((operation (''repart-volume-'' @ vp_Name volume) ''systemd-repart'' (repartArgs (vp_DevicePath volume)))
           \<lparr>op_Definitions := [volumeDefinition volume]\<rparr>),
         operation (''settle-volume-'' @ vp_Name volume) ''udevadm'' [''settle'']]
      else if \<not> vp_Wipe volume then []
      else
        [destructive (operation (''format-wipe-volume-'' @ vp_Name volume) ''wipefs'' [''--all'', vp_DevicePath volume]),
         destructive (operation (''format-volume-'' @ vp_Name volume) (''mkfs.'' @ vp_Filesystem volume)
           (mkfs_args (vp_Filesystem volume) @ [vp_DevicePath volume]))])"

definition findPartitionByName :: "PartitionPlan list \<Rightarrow> string \<Rightarrow> PartitionPlan option" where
  "findPartitionByName partitions name = find (\<lambda>p. pp_Name p = name) partitions"

definition partition_operations :: "DiskLayoutPlan \<Rightarrow> string \<Rightarrow> PartitionPlan \<Rightarrow> DiskOperation list" where
  "partition_operations plan pre p =
     (if (pp_Name p = ''root-a'' \<or> pp_Name p = ''root-b'') \<and> pp_Name p = bt_RootSlot (lp_Boot plan)
      then [destructive (operation (''write-'' @ pp_Name p) ''katlos-write-root-slot'' [pp_GPTLabel p])] else [])
     @ (if pp_MountPath p \<noteq> [] \<and> pp_Name p \<noteq> ''root-a''
        then [operation (''create-mountpoint-'' @ pp_Name p) ''mkdir'' [''-p'', pre @ pp_MountPath p],
              operation (''mount-'' @ pp_Name p) ''mount'' [''LABEL='' @ pp_GPTLabel p, pre @ pp_MountPath p]]
        else [])"

definition volume_mount_operations :: "string \<Rightarrow> VolumePlan \<Rightarrow> DiskOperation list" where
  "volume_mount_operations pre volume =
     volumeOperations volume
     @ [operation (''create-mountpoint-volume-'' @ vp_Name volume) ''mkdir'' [''-p'', pre @ vp_MountPath volume],
        operation (''mount-volume-'' @ vp_Name volume) ''mount'' [vp_MountSource volume, pre @ vp_MountPath volume]]"

definition target_prefix :: "string \<Rightarrow> string" where
  "target_prefix pre = (if pre = [] then ''/mnt/target'' else pre)"

definition target_operations :: "DiskLayoutPlan \<Rightarrow> DiskOperation list" where
  "target_operations plan =
     (let disk = lp_TargetDiskPath plan in
      [destructive (operation ''wipe-target-signatures'' ''wipefs'' [''--all'', disk]),
       destructive ((operation ''create-gpt'' ''systemd-repart'' (repartArgs disk))
         \<lparr>op_Definitions := systemDefinitions plan, op_Env := [''SYSTEMD_REPART_MKFS_OPTIONS_EXT4=-O verity'']\<rparr>),
       operation ''reread-partitions'' ''partprobe'' [disk],
       operation ''settle-partitions'' ''udevadm'' [''settle'']])"

definition boot_loader_operation :: DiskOperation where
  "boot_loader_operation = destructive (operation ''install-systemd-boot'' ''bootctl'' [''install''])"

definition BuildDiskOperations :: "DiskLayoutPlan \<Rightarrow> string \<Rightarrow> DiskOperation list" where
  "BuildDiskOperations plan targetMountPrefix =
     (let pre = target_prefix targetMountPrefix in
      target_operations plan
      @ concat (map (partition_operations plan pre) (lp_Partitions plan))
      @ (if findPartitionByName (lp_Partitions plan) ''esp'' \<noteq> None then [boot_loader_operation] else [])
      @ concat (map (volume_mount_operations pre) (lp_VolumeMounts plan)))"

section \<open>Groups\<close>

definition PrepareOperations :: string where "PrepareOperations = ''prepare''"
definition PartitionOperations :: string where "PartitionOperations = ''partition''"
definition FormatOperations :: string where "FormatOperations = ''format''"
definition MountOperations :: string where "MountOperations = ''mount''"

definition operationInGroup :: "DiskOperation \<Rightarrow> string \<Rightarrow> bool" where
  "operationInGroup p grp =
     (let name = op_Name p in
      if grp = PrepareOperations then name = ''wipe-target-signatures''
      else if grp = PartitionOperations
      then name = ''create-gpt'' \<or> name = ''reread-partitions'' \<or> name = ''settle-partitions'' \<or>
           HasPrefix name ''repart-volume-'' \<or> HasPrefix name ''settle-volume-''
      else if grp = FormatOperations then HasPrefix name ''format-''
      else if grp = MountOperations
      then HasPrefix name ''create-mountpoint-'' \<or> HasPrefix name ''mount-'' \<or> name = ''install-systemd-boot''
      else False)"

definition filterOperations :: "DiskOperation list \<Rightarrow> string \<Rightarrow> DiskOperation list" where
  "filterOperations operations grp = filter (\<lambda>p. operationInGroup p grp) operations"

definition hasDestructiveOperations :: "DiskOperation list \<Rightarrow> bool" where
  "hasDestructiveOperations operations = list_ex op_Destructive operations"

definition isRootWrite :: "DiskOperation \<Rightarrow> bool" where
  "isRootWrite p \<longleftrightarrow> op_Name p = ''write-root-a'' \<or> op_Name p = ''write-root-b''"

definition validateRootWrite :: "DiskOperation \<Rightarrow> RootSlotWritePlan \<Rightarrow> error" where
  "validateRootWrite p plan =
     reject (op_Args p \<noteq> [rt_GPTLabel (wp_TargetPartition plan)]) ''%s target label does not match root slot plan'' [op_Name p]"

section \<open>Interfaces\<close>

record 's CommandRunner =
  cr_Run :: "string \<Rightarrow> string list \<Rightarrow> ('s, unit) io"
  cr_Output :: "(string \<Rightarrow> string list \<Rightarrow> ('s, string) io) option"

text \<open>\<open>os.MkdirTemp\<close>, \<open>os.WriteFile\<close> and \<open>os.RemoveAll\<close> on the directory of repart definitions.\<close>

record 's TempFiles =
  tf_MkdirTemp :: "('s, string) io"
  tf_WriteFile :: "string \<Rightarrow> string \<Rightarrow> ('s, unit) io"
  tf_RemoveAll :: "string \<Rightarrow> ('s, unit) io"

record BootRef =
  br_Label :: string
  br_MountPath :: string
  br_PartitionUUID :: string

record BootResult =
  bo_ESP :: BootRef
  bo_XBOOTLDR :: "BootRef option"
  bo_RootPartitionUUID :: string
  bo_PartitionUUIDsByLabel :: "(string \<times> string) list"

record 's DiskExecutor =
  ex_Commands :: "'s CommandRunner option"
  ex_InstallRootSlot :: "(RootSlotInstallRequest \<Rightarrow> ('s, RootSlotInstallResult) io) option"
  ex_InstallBoot :: "(DiskLayoutPlan \<Rightarrow> string \<Rightarrow> ('s, BootResult) io) option"
  ex_RootSlotState :: "'s SlotStore option"
  ex_RecordStateMounted :: "('s, unit) io option"
  ex_BeforeOperation :: "(DiskOperation \<Rightarrow> ('s, unit) io) option"

record DiskExecutionRequest =
  xr_Plan :: DiskLayoutPlan
  xr_RootSlotInstall :: "RootSlotInstallRequest option"
  xr_RetryRootSlot :: bool
  xr_AllowDestructive :: bool
  xr_DryRun :: bool
  xr_TargetMountPrefix :: string

record DiskExecutionResult =
  xs_Operations :: "DiskOperation list"
  xs_DryRun :: bool
  xs_Boot :: "BootResult option"

section \<open>The boot loader\<close>

definition targetPath :: "string \<Rightarrow> string \<Rightarrow> string" where
  "targetPath pre mountPath = PathJoin [pre, TrimPrefix mountPath ''/'']"

definition checkBootPlan :: "DiskLayoutPlan \<Rightarrow> error" where
  "checkBootPlan plan =
     (case findPartitionByName (lp_Partitions plan) ''esp'' of
        None \<Rightarrow> Some (Errorf ''ESP partition is required'' [])
      | Some esp \<Rightarrow> first_error
          [reject (pp_Filesystem esp \<noteq> ''vfat'') ''ESP filesystem %q is unsupported'' [pp_Filesystem esp],
           (case findPartitionByName (lp_Partitions plan) ''xbootldr'' of
              None \<Rightarrow> None
            | Some x \<Rightarrow> reject (pp_Filesystem x \<noteq> ''vfat'') ''XBOOTLDR filesystem %q is unsupported'' [pp_Filesystem x])])"

definition ReadPartUUID :: "(string \<Rightarrow> string list \<Rightarrow> ('s, string) io) \<Rightarrow> string \<Rightarrow> ('s, string) io" where
  "ReadPartUUID output label =
     io_bind (io_wrap ''read %s PARTUUID: %w'' [label]
        (output ''blkid'' [''-t'', ''PARTLABEL='' @ label, ''-s'', ''PARTUUID'', ''-o'', ''value''])) (\<lambda>out.
       if TrimSpace out = [] then io_fail ''read %s PARTUUID: empty blkid output'' [label] else io_ok (TrimSpace out))"

text \<open>The partitions are read in the order of the source: the ESP, the extended boot partition if any, the root.\<close>

definition InstallBoot ::
  "(string \<Rightarrow> string list \<Rightarrow> ('s, unit) io) \<Rightarrow> (string \<Rightarrow> string list \<Rightarrow> ('s, string) io) \<Rightarrow> DiskLayoutPlan \<Rightarrow> string \<Rightarrow>
     ('s, BootResult) io" where
  "InstallBoot run output plan targetMountPrefix =
     io_then (io_need (checkBootPlan plan))
     (case findPartitionByName (lp_Partitions plan) ''esp'' of
        None \<Rightarrow> io_fail ''ESP partition is required'' []
      | Some esp \<Rightarrow>
     (let pre = target_prefix targetMountPrefix; espMount = targetPath pre (pp_MountPath esp);
          xbootldr = map_option (\<lambda>x. (pp_GPTLabel x, targetPath pre (pp_MountPath x)))
                       (findPartitionByName (lp_Partitions plan) ''xbootldr'');
          rootLabel = bt_RootPartitionLabel (lp_Boot plan)
      in io_then (io_wrap ''install systemd-boot: %w'' []
           (run ''bootctl'' ([''--esp-path='' @ espMount]
              @ (case xbootldr of None \<Rightarrow> [] | Some (l, m) \<Rightarrow> [''--boot-path='' @ m]) @ [''install''])))
        (io_bind (ReadPartUUID output (pp_GPTLabel esp)) (\<lambda>espUUID.
         io_bind (case xbootldr of
                    None \<Rightarrow> io_ok None
                  | Some (l, m) \<Rightarrow> io_bind (ReadPartUUID output l) (\<lambda>u. io_ok (Some (l, m, u)))) (\<lambda>xb.
         io_bind (ReadPartUUID output rootLabel) (\<lambda>rootUUID.
           io_ok \<lparr>bo_ESP = \<lparr>br_Label = pp_GPTLabel esp, br_MountPath = espMount, br_PartitionUUID = espUUID\<rparr>,
                  bo_XBOOTLDR = map_option (\<lambda>(l, m, u). \<lparr>br_Label = l, br_MountPath = m, br_PartitionUUID = u\<rparr>) xb,
                  bo_RootPartitionUUID = rootUUID,
                  bo_PartitionUUIDsByLabel =
                    AList.update rootLabel rootUUID
                      ((case xb of None \<Rightarrow> (\<lambda>m. m) | Some (l, m, u) \<Rightarrow> AList.update l u)
                        [(pp_GPTLabel esp, espUUID)])\<rparr>))))))"

section \<open>Running operations\<close>

function replace_all :: "string \<Rightarrow> string \<Rightarrow> string \<Rightarrow> string" where
  "replace_all old new [] = []"
| "replace_all old new (c # cs) =
     (case strip_prefix old (c # cs) of
        Some r \<Rightarrow> if old = [] then c # replace_all old new cs else new @ replace_all old new r
      | None \<Rightarrow> c # replace_all old new cs)"
  by pat_completeness auto
termination
proof (relation "measure (\<lambda>(old, new, s). length s)")
  fix old c cs and r :: string
  assume "strip_prefix old (c # cs) = Some r" "old \<noteq> []"
  then have "length (c # cs) = length old + length r" by (metis strip_prefix_Some length_append)
  with \<open>old \<noteq> []\<close> show "((old, new, r), (old, new, c # cs)) \<in> measure (\<lambda>(old, new, s). length s)" for new :: string
    by (cases old) auto
qed auto

definition two_digits :: "nat \<Rightarrow> string" where
  "two_digits n = (if n < 10 then ''0'' @ decimal n else decimal n)"

definition io_finally :: "('s, 'a) io \<Rightarrow> ('s, unit) io \<Rightarrow> ('s, 'a) io" where
  "io_finally m cleanup = io_bind (io_catch m) (\<lambda>r. io_bind (io_catch cleanup) (\<lambda>_. io_lift r))"

definition runRepartOperation :: "'s TempFiles \<Rightarrow> 's CommandRunner \<Rightarrow> DiskOperation \<Rightarrow> ('s, unit) io" where
  "runRepartOperation temp commands p =
     io_bind (io_wrap ''create repart definition directory: %w'' [] (tf_MkdirTemp temp)) (\<lambda>dir.
       io_finally
         (io_then
           (io_each (\<lambda>(i, body).
               io_wrap ''write repart definition: %w'' []
                 (tf_WriteFile temp (PathJoin [dir, two_digits i @ ''-katl.conf'']) body))
              (enumerate 0 (op_Definitions p)))
           (let args = map (replace_all ''{definitions}'' dir) (op_Args p)
            in if op_Env p \<noteq> [] then cr_Run commands ''env'' (op_Env p @ [op_Command p] @ args)
               else cr_Run commands (op_Command p) args))
         (tf_RemoveAll temp dir))"

definition ErrDestructiveInstallNotAllowed :: err where
  "ErrDestructiveInstallNotAllowed = Errorf ''destructive install is not allowed'' []"

definition root_write_operation ::
  "(RootSlotInstallRequest \<Rightarrow> ('s, RootSlotInstallResult) io) \<Rightarrow> 's DiskExecutor \<Rightarrow> DiskExecutionRequest \<Rightarrow> DiskOperation \<Rightarrow>
     ('s, unit) io" where
  "root_write_operation default_write e request p =
     (case xr_RootSlotInstall request of
        None \<Rightarrow> io_fail ''%s: root slot install request is required'' [op_Name p]
      | Some r \<Rightarrow>
          io_then (io_need (validateRootWrite p (rq_Plan r)))
            (io_bind (io_wrap ''%s: %w'' [op_Name p]
               (runRootSlot (ex_RootSlotState e) r (xr_RetryRootSlot request)
                  (case ex_InstallRootSlot e of Some f \<Rightarrow> f | None \<Rightarrow> default_write))) (\<lambda>_. io_ok ())))"

definition boot_operation ::
  "'s DiskExecutor \<Rightarrow> 's CommandRunner \<Rightarrow> DiskExecutionRequest \<Rightarrow> DiskOperation \<Rightarrow> ('s, BootResult) io" where
  "boot_operation e commands request p =
     (case ex_InstallBoot e of
        Some f \<Rightarrow> io_wrap ''%s: %w'' [op_Name p] (f (xr_Plan request) (xr_TargetMountPrefix request))
      | None \<Rightarrow>
          (case cr_Output commands of
             None \<Rightarrow> io_fail ''%s: boot command runner must support output'' [op_Name p]
           | Some output \<Rightarrow>
               io_wrap ''%s: %w'' [op_Name p]
                 (InstallBoot (cr_Run commands) output (xr_Plan request) (xr_TargetMountPrefix request))))"

definition command_operation :: "'s TempFiles \<Rightarrow> 's DiskExecutor \<Rightarrow> 's CommandRunner \<Rightarrow> DiskOperation \<Rightarrow> ('s, unit) io" where
  "command_operation temp e commands p =
     io_then (io_wrap ''%s: %w'' [op_Name p]
       (if op_Definitions p \<noteq> [] then runRepartOperation temp commands p else cr_Run commands (op_Command p) (op_Args p)))
     (case ex_RecordStateMounted e of
        Some f \<Rightarrow> io_when (op_Name p = ''mount-state'') (io_wrap ''record state checkpoint: %w'' [] f)
      | None \<Rightarrow> io_ok ())"

text \<open>One turn of the loop returns the boot result of the run so far.\<close>

definition run_operation ::
  "'s TempFiles \<Rightarrow> (RootSlotInstallRequest \<Rightarrow> ('s, RootSlotInstallResult) io) \<Rightarrow> 's DiskExecutor \<Rightarrow> 's CommandRunner \<Rightarrow>
     DiskExecutionRequest \<Rightarrow> BootResult option \<Rightarrow> DiskOperation \<Rightarrow> ('s, BootResult option) io" where
  "run_operation temp default_write e commands request boot p =
     io_then (case ex_BeforeOperation e of Some f \<Rightarrow> f p | None \<Rightarrow> io_ok ())
       (if isRootWrite p then io_then (root_write_operation default_write e request p) (io_ok boot)
        else if op_Name p = ''install-systemd-boot''
        then io_bind (boot_operation e commands request p) (\<lambda>b. io_ok (Some b))
        else io_then (command_operation temp e commands p) (io_ok boot))"

fun run_operations ::
  "'s TempFiles \<Rightarrow> (RootSlotInstallRequest \<Rightarrow> ('s, RootSlotInstallResult) io) \<Rightarrow> 's DiskExecutor \<Rightarrow> 's CommandRunner \<Rightarrow>
     DiskExecutionRequest \<Rightarrow> BootResult option \<Rightarrow> DiskOperation list \<Rightarrow> ('s, BootResult option) io" where
  "run_operations temp default_write e commands request boot [] = io_ok boot"
| "run_operations temp default_write e commands request boot (p # ps) =
     io_bind (run_operation temp default_write e commands request boot p)
       (\<lambda>b. run_operations temp default_write e commands request b ps)"

definition executeOperations ::
  "'s TempFiles \<Rightarrow> (RootSlotInstallRequest \<Rightarrow> ('s, RootSlotInstallResult) io) \<Rightarrow> 's DiskExecutor \<Rightarrow> DiskExecutionRequest \<Rightarrow>
     DiskOperation list \<Rightarrow> ('s, DiskExecutionResult) io" where
  "executeOperations temp default_write e request operations =
     (let result = \<lparr>xs_Operations = operations, xs_DryRun = xr_DryRun request, xs_Boot = None\<rparr> in
      if hasDestructiveOperations operations \<and> \<not> xr_AllowDestructive request then io_err ErrDestructiveInstallNotAllowed
      else if xr_DryRun request then io_ok result
      else case ex_Commands e of
             None \<Rightarrow> io_fail ''command runner is required'' []
           | Some commands \<Rightarrow>
               io_bind (run_operations temp default_write e commands request None operations)
                 (\<lambda>boot. io_ok (result\<lparr>xs_Boot := boot\<rparr>)))"

definition Execute ::
  "'s TempFiles \<Rightarrow> (RootSlotInstallRequest \<Rightarrow> ('s, RootSlotInstallResult) io) \<Rightarrow> 's DiskExecutor \<Rightarrow> DiskExecutionRequest \<Rightarrow>
     ('s, DiskExecutionResult) io" where
  "Execute temp default_write e request =
     io_then (io_need (checkBootPlan (xr_Plan request)))
       (executeOperations temp default_write e request
          (BuildDiskOperations (xr_Plan request) (xr_TargetMountPrefix request)))"

definition ExecuteGroup ::
  "'s TempFiles \<Rightarrow> (RootSlotInstallRequest \<Rightarrow> ('s, RootSlotInstallResult) io) \<Rightarrow> 's DiskExecutor \<Rightarrow> DiskExecutionRequest \<Rightarrow>
     string \<Rightarrow> ('s, DiskExecutionResult) io" where
  "ExecuteGroup temp default_write e request grp =
     io_then (io_need (checkBootPlan (xr_Plan request)))
       (executeOperations temp default_write e request
          (filterOperations (BuildDiskOperations (xr_Plan request) (xr_TargetMountPrefix request)) grp))"

text \<open>The request of \<open>PrepareVolume\<close> has the zero plan, which the operations of a volume do not read.\<close>

definition zero_plan :: DiskLayoutPlan where
  "zero_plan = \<lparr>lp_TargetDiskPath = [], lp_Partitions = [], lp_VolumeMounts = [],
     lp_Boot = \<lparr>bt_RootSlot = [], bt_RootPartitionLabel = [], bt_RootParameter = [], bt_PartitionUUIDToken = []\<rparr>, lp_Signatures = []\<rparr>"

definition PrepareVolume ::
  "'s TempFiles \<Rightarrow> (RootSlotInstallRequest \<Rightarrow> ('s, RootSlotInstallResult) io) \<Rightarrow> 's CommandRunner option \<Rightarrow> VolumePlan \<Rightarrow>
     ('s, unit) io" where
  "PrepareVolume temp default_write commands plan =
     io_then (executeOperations temp default_write
       \<lparr>ex_Commands = commands, ex_InstallRootSlot = None, ex_InstallBoot = None, ex_RootSlotState = None,
        ex_RecordStateMounted = None, ex_BeforeOperation = None\<rparr>
       \<lparr>xr_Plan = zero_plan, xr_RootSlotInstall = None, xr_RetryRootSlot = False, xr_AllowDestructive = True, xr_DryRun = False,
        xr_TargetMountPrefix = []\<rparr>
       (volumeOperations plan)) (io_ok ())"

section \<open>The applied layout\<close>

definition findDevice :: "BlockDevice list \<Rightarrow> string \<Rightarrow> BlockDevice option" where
  "findDevice devices devicePath = find (\<lambda>d. bd_Path d = devicePath) devices"

definition mountExists :: "MountFact list \<Rightarrow> string \<Rightarrow> bool" where
  "mountExists mounts target = list_ex (\<lambda>m. mf_Target m = target) mounts"

definition ValidateAppliedLayoutAt :: "HardwareFacts \<Rightarrow> DiskLayoutPlan \<Rightarrow> string \<Rightarrow> error" where
  "ValidateAppliedLayoutAt facts plan targetMountPrefix =
     (let pre = (if targetMountPrefix = [] then ''/'' else targetMountPrefix);
          at = (\<lambda>path. targetPath pre path)
      in case findDevice (hf_BlockDevices facts) (lp_TargetDiskPath plan) of
           None \<Rightarrow> Some (Errorf ''target disk %s not found'' [lp_TargetDiskPath plan])
         | Some target \<Rightarrow>
             (let labels = map bd_GPTLabel (bd_Partitions target) in
              first_error
                [each_error (\<lambda>p. reject (pp_GPTLabel p \<notin> set labels) ''partition label %s not found'' [pp_GPTLabel p])
                   (lp_Partitions plan),
                 reject (bt_RootPartitionLabel (lp_Boot plan) \<notin> set labels) ''boot root label %s not found''
                   [bt_RootPartitionLabel (lp_Boot plan)],
                 reject (\<not> mountExists (hf_Mounts facts) (at ''/var'')) ''state partition is not mounted at %s'' [at ''/var''],
                 reject (\<not> mountExists (hf_Mounts facts) (at ''/efi'')) ''ESP partition is not mounted at %s'' [at ''/efi''],
                 reject (findPartitionByName (lp_Partitions plan) ''xbootldr'' \<noteq> None \<and>
                         \<not> mountExists (hf_Mounts facts) (at ''/boot''))
                   ''XBOOTLDR partition is not mounted at %s'' [at ''/boot''],
                 each_error (\<lambda>v. reject (\<not> mountExists (hf_Mounts facts) (at (vp_MountPath v)))
                     ''volume %q is not mounted at %s'' [vp_Name v, at (vp_MountPath v)]) (lp_VolumeMounts plan)]))"

definition ValidateAppliedLayout :: "HardwareFacts \<Rightarrow> DiskLayoutPlan \<Rightarrow> error" where
  "ValidateAppliedLayout facts plan = ValidateAppliedLayoutAt facts plan []"

end
