(* ===== verification/InstallManifest.thy ===== *)
theory InstallManifest
  imports DiskLayoutFacts
begin

text \<open>
  The install section of the manifest (\<^verbatim>\<open>internal/installer/manifest/manifest.go\<close>): the selectors and volumes an operator
  writes, their validation, and the layout request built from them and the root disk profile. A nil dereference of the
  source is an error of the model, so that its absence can be stated.
\<close>

section \<open>Data\<close>

record DiskSelector =
  ds_ByID :: string
  ds_WWN :: string
  ds_Serial :: string
  ds_MinSizeMiB :: uint64

record ManifestPartitionSelector =
  mp_ByID :: string
  mp_PartUUID :: string
  mp_FilesystemUUID :: string

record VolumeSelector =
  vs_Disk :: "DiskSelector option"
  vs_Partition :: "ManifestPartitionSelector option"

record Volume =
  vo_Name :: string
  vo_Selector :: VolumeSelector
  vo_Filesystem :: string
  vo_Wipe :: bool

record InstallConfig =
  ic_WipeTarget :: bool
  ic_TargetDisk :: DiskSelector
  ic_Volumes :: "Volume list"

record RootDiskProfile =
  rp_ESPSizeMiB :: uint64
  rp_XBOOTLDRSizeMiB :: uint64
  rp_RootSlotSizeMiB :: uint64
  rp_StateFilesystem :: string
  rp_StateMinSizeMiB :: uint64
  rp_InitialRootSlot :: string

section \<open>Validation\<close>

definition isLowercaseLetterOrDigit :: "char \<Rightarrow> bool" where
  "isLowercaseLetterOrDigit r \<longleftrightarrow> CHR ''a'' \<le> r \<and> r \<le> CHR ''z'' \<or> CHR ''0'' \<le> r \<and> r \<le> CHR ''9''"

definition validateNameRef :: "string \<Rightarrow> string \<Rightarrow> error" where
  "validateNameRef field value =
     (if value = [] then None
      else first_error
        [reject (TrimSpace value \<noteq> value) ''%s %q must not contain leading or trailing whitespace'' [field, value],
         reject (value \<noteq> Base value \<or> value = ''.'' \<or> value = ''..'') ''%s %q must be a single path segment'' [field, value],
         reject (length value > 63) ''%s %q must be 63 characters or fewer'' [field, value],
         reject (\<not> isLowercaseLetterOrDigit (hd value) \<or> \<not> isLowercaseLetterOrDigit (last value))
           ''%s %q must start and end with a lowercase letter or digit'' [field, value],
         reject (\<not> list_all (\<lambda>r. isLowercaseLetterOrDigit r \<or> r = CHR ''-'') value)
           ''%s %q must contain only lowercase letters, digits, and dashes'' [field, value]])"

definition validateDiskSelector :: "string \<Rightarrow> DiskSelector \<Rightarrow> error" where
  "validateDiskSelector field selector =
     reject (named_identities [ds_ByID selector, ds_WWN selector, ds_Serial selector] \<noteq> 1)
       ''%s must set exactly one of byID, wwn, or serial'' [field]"

definition validatePartitionSelector :: "string \<Rightarrow> ManifestPartitionSelector \<Rightarrow> error" where
  "validatePartitionSelector field selector = first_error
     [reject (named_identities [mp_ByID selector, mp_PartUUID selector, mp_FilesystemUUID selector] > 1)
        ''%s must use exactly one stable identity'' [field],
      reject (mp_ByID selector \<noteq> [] \<and>
              (\<not> HasPrefix (mp_ByID selector) ''/dev/disk/by-id/'' \<or> Clean (mp_ByID selector) \<noteq> mp_ByID selector))
        ''%s.byID must be an absolute /dev/disk/by-id path'' [field]]"

definition validate_selector :: "string \<Rightarrow> VolumeSelector \<Rightarrow> error" where
  "validate_selector field selector =
     (case (vs_Disk selector, vs_Partition selector) of
        (Some d, None) \<Rightarrow> validateDiskSelector (field @ ''.selector.disk'') d
      | (None, Some p) \<Rightarrow> validatePartitionSelector (field @ ''.selector.partition'') p
      | _ \<Rightarrow> Some (Errorf ''%s.selector must set exactly one of disk or partition'' [field]))"

fun validate_volumes_from :: "nat \<Rightarrow> string list \<Rightarrow> Volume list \<Rightarrow> error" where
  "validate_volumes_from i volumeNames [] = None"
| "validate_volumes_from i volumeNames (volume # volumes) =
     (let field = ''install.volumes['' @ decimal i @ '']'' in
      case first_error
        [reject (vo_Name volume = []) ''%s.name is required'' [field],
         validateNameRef (field @ ''.name'') (vo_Name volume),
         reject (vo_Name volume \<in> set volumeNames) ''%s.name %q is duplicated'' [field, vo_Name volume],
         validate_selector field (vo_Selector volume),
         reject (vo_Filesystem volume = []) ''%s.filesystem is required'' [field],
         reject (\<not> IsSupportedVolumeFilesystem (vo_Filesystem volume)) ''%s.filesystem %q is unsupported''
           [field, vo_Filesystem volume]] of
        Some e \<Rightarrow> Some e
      | None \<Rightarrow> validate_volumes_from (i + 1) (vo_Name volume # volumeNames) volumes)"

definition ValidateVolumes :: "Volume list \<Rightarrow> error" where
  "ValidateVolumes volumes = validate_volumes_from 0 [] volumes"

section \<open>The layout request\<close>

definition DefaultRootDiskProfile :: RootDiskProfile where
  "DefaultRootDiskProfile = \<lparr>rp_ESPSizeMiB = DefaultESPSizeMiB, rp_XBOOTLDRSizeMiB = 0, rp_RootSlotSizeMiB = 8192,
     rp_StateFilesystem = ''ext4'', rp_StateMinSizeMiB = 8192, rp_InitialRootSlot = RootSlotA\<rparr>"

definition diskSelector :: "DiskSelector \<Rightarrow> TargetDiskSelector" where
  "diskSelector selector = \<lparr>td_ByID = ds_ByID selector, td_WWN = ds_WWN selector, td_Serial = ds_Serial selector,
     td_MinSizeMiB = ds_MinSizeMiB selector\<rparr>"

definition partitionSelector :: "string \<Rightarrow> ManifestPartitionSelector \<Rightarrow> PartitionSelector" where
  "partitionSelector name selector =
     \<lparr>ps_ByID = mp_ByID selector, ps_PartUUID = mp_PartUUID selector, ps_FilesystemUUID = mp_FilesystemUUID selector,
      ps_PartLabel = (if mp_ByID selector = [] \<and> mp_PartUUID selector = [] \<and> mp_FilesystemUUID selector = []
                      then ''u-'' @ name else [])\<rparr>"

definition volume_request :: "Volume \<Rightarrow> VolumeRequest res" where
  "volume_request volume =
     (let request = \<lparr>vr_Name = vo_Name volume, vr_Disk = None, vr_Partition = None, vr_Filesystem = vo_Filesystem volume,
                     vr_Wipe = vo_Wipe volume\<rparr>
      in case vs_Disk (vo_Selector volume) of
           Some d \<Rightarrow> Inr (request\<lparr>vr_Disk := Some (diskSelector d)\<rparr>)
         | None \<Rightarrow>
             (case vs_Partition (vo_Selector volume) of
                Some p \<Rightarrow> Inr (request\<lparr>vr_Partition := Some (partitionSelector (vo_Name volume) p)\<rparr>)
              | None \<Rightarrow> fail ''panic: nil pointer dereference'' []))"

definition BuildVolumeRequests :: "Volume list \<Rightarrow> VolumeRequest list res" where
  "BuildVolumeRequests volumes = res_map volume_request volumes"

definition or_default :: "'a :: zero \<Rightarrow> 'a \<Rightarrow> 'a" where
  "or_default d x = (if x = 0 then d else x)"

definition BuildDiskLayoutRequest :: "InstallConfig \<Rightarrow> RootDiskProfile \<Rightarrow> uint64 \<Rightarrow> DiskLayoutRequest res" where
  "BuildDiskLayoutRequest install profile runtimeRootSizeMiB =
     res_bind (BuildVolumeRequests (ic_Volumes install)) (\<lambda>volumes.
       let slot = or_default 8192 (rp_RootSlotSizeMiB profile)
       in Inr \<lparr>lr_TargetDisk = diskSelector (ic_TargetDisk install),
               lr_ESPSizeMiB = or_default DefaultESPSizeMiB (rp_ESPSizeMiB profile),
               lr_XBOOTLDRSizeMiB = rp_XBOOTLDRSizeMiB profile, lr_RootA = slot, lr_RootB = slot,
               lr_State = \<lparr>sr_Filesystem = (if rp_StateFilesystem profile = [] then ''ext4'' else rp_StateFilesystem profile),
                           sr_MinSizeMiB = or_default 8192 (rp_StateMinSizeMiB profile)\<rparr>,
               lr_Etcd = None, lr_Volumes = volumes,
               lr_InitialRootSlot = (if rp_InitialRootSlot profile = [] then RootSlotA else rp_InitialRootSlot profile),
               lr_RuntimeRootSizeMiB = runtimeRootSizeMiB\<rparr>)"

section \<open>Validated volumes\<close>

lemma validate_volumes_from_None:
  assumes "validate_volumes_from i seen volumes = None"
  shows "distinct (map vo_Name volumes) \<and> set (map vo_Name volumes) \<inter> set seen = {} \<and>
     (\<forall>v \<in> set volumes. vo_Name v \<noteq> [] \<and> IsSupportedVolumeFilesystem (vo_Filesystem v) \<and>
        (\<exists>f. validateNameRef f (vo_Name v) = None) \<and> (\<exists>f. validate_selector f (vo_Selector v) = None))"
  using assms
proof (induction i seen volumes rule: validate_volumes_from.induct)
  case (1 i seen)
  then show ?case by simp
next
  case (2 i seen volume volumes)
  from "2.prems" have n: "vo_Name volume \<noteq> []" "vo_Name volume \<notin> set seen"
      "IsSupportedVolumeFilesystem (vo_Filesystem volume)" "\<exists>f. validateNameRef f (vo_Name volume) = None"
      "\<exists>f. validate_selector f (vo_Selector volume) = None"
      and "validate_volumes_from (i + 1) (vo_Name volume # seen) volumes = None"
    by (auto simp: Let_def split: option.splits)
  with "2.IH" [OF refl] "2.prems" n show ?case by (auto simp: Let_def split: option.splits)
qed

lemma validate_selector_None:
  assumes "validate_selector field selector = None"
  shows "(vs_Disk selector = None) \<noteq> (vs_Partition selector = None)"
  using assms by (auto simp: validate_selector_def split: option.splits)

lemma volume_request_total:
  assumes "validate_selector field (vo_Selector volume) = None"
  shows "\<exists>r. volume_request volume = Inr r \<and> (vr_Disk r = None) \<noteq> (vr_Partition r = None) \<and> vr_Name r = vo_Name volume"
  using validate_selector_None [OF assms]
  by (auto simp: volume_request_def Let_def split: option.splits)

lemma res_map_total: "(\<And>x. x \<in> set xs \<Longrightarrow> \<exists>y. f x = Inr y) \<Longrightarrow> \<exists>ys. res_map f xs = Inr ys"
  by (induction xs) auto

lemma BuildVolumeRequests_total: "ValidateVolumes volumes = None \<Longrightarrow> \<exists>requests. BuildVolumeRequests volumes = Inr requests"
  unfolding ValidateVolumes_def BuildVolumeRequests_def
  using validate_volumes_from_None volume_request_total by (meson res_map_total)

text \<open>A validated name passes the check of the layout planner.\<close>

lemma validateNameRef_mount_name:
  assumes "validateNameRef field name = None" and "name \<noteq> []"
  shows "validateMountName kind name = None"
proof -
  have all: "list_all (\<lambda>r. isLowercaseLetterOrDigit r \<or> r = CHR ''-'') name"
    and ends: "isLowercaseLetterOrDigit (hd name)" "isLowercaseLetterOrDigit (last name)"
    using assms by (auto simp: validateNameRef_def)
  have "mount_name_char (length name) i (name ! i)" if i: "i < length name" for i
  proof -
    have "isLowercaseLetterOrDigit (name ! i) \<or> name ! i = CHR ''-''"
      using all i by (simp add: list_all_length)
    moreover have "\<not> isLowercaseLetterOrDigit (CHR ''-'')"
      by (simp add: isLowercaseLetterOrDigit_def less_eq_char_def)
    ultimately show ?thesis
      using ends assms(2) i
      by (cases "i = 0"; cases "i = length name - 1")
         (auto simp: mount_name_char_def isLowercaseLetterOrDigit_def hd_conv_nth last_conv_nth)
  qed
  then show ?thesis
    using assms(2) by (auto simp: validateMountName_def list_all_iff in_set_enumerate_eq)
qed

lemma built_request_fits:
  assumes "BuildDiskLayoutRequest install DefaultRootDiskProfile r = Inr request"
  shows "sizes_fit (default_layout request)" "lr_Etcd request = None"
  using assms
  by (auto simp: BuildDiskLayoutRequest_def DefaultRootDiskProfile_def or_default_def sizes_fit_def requested_mib_def
      default_layout_def DefaultESPSizeMiB_def Let_def)

end
