(* ===== verification/RootSlotFacts.thy ===== *)
theory RootSlotFacts
  imports RootSlotWrite
begin

text \<open>
  Correctness of the root slot writer: the planned slot is not the running one and holds the artifact, a successful write
  leaves exactly the artifact at the start of the slot, an artifact with another digest is never written, and the persisted
  state keeps a repeated run from writing again.
\<close>

section \<open>The plan\<close>

lemma selectWriteSlot_Inr:
  assumes "selectWriteSlot initial current = Inr slot"
  shows "slot \<noteq> current" "current = [] \<Longrightarrow> slot = initial"
  using assms by (auto simp: selectWriteSlot_def RootSlotA_def RootSlotB_def split: if_splits)

lemma findRootSlot_Inr:
  assumes "findRootSlot layout slot = Inr target"
  shows "\<exists>p \<in> set (lp_Partitions layout). pp_Name p = slot \<and> rt_GPTLabel target = pp_GPTLabel p \<and>
      rt_SizeMiB target = pp_SizeMiB p \<and> rt_Filesystem target = pp_Filesystem p"
    "slot = RootSlotA \<and> rt_GPTLabel target = GPTLabelRootA \<or> slot = RootSlotB \<and> rt_GPTLabel target = GPTLabelRootB"
  using assms
  by (auto simp: findRootSlot_def rootSlotPartition_def RootSlotA_def RootSlotB_def find_Some_iff
      split: if_splits option.splits)

lemma of_int_uint64: "0 \<le> n \<Longrightarrow> n < 2 ^ 64 \<Longrightarrow> unat (of_int n :: uint64) = nat n"
  by (simp add: unat_eq_nat_uint uint_word_of_int take_bit_int_eq_self)

lemma mib_bytes: "unat (m :: uint64) < 2 ^ 44 \<Longrightarrow> unat (m * 1024 * 1024) = unat m * (1024 * 1024)"
  by (simp add: unat_word_ariths mod_less)

lemma PlanRootSlotWrite_Inr:
  assumes "PlanRootSlotWrite layout request = Inr plan"
  shows "selectWriteSlot (bt_RootSlot (lp_Boot layout)) (rw_CurrentSlot request) = Inr (wp_Slot plan)"
    "findRootSlot layout (wp_Slot plan) = Inr (wp_TargetPartition plan)"
    "wp_ActiveSlotGuard plan = rw_CurrentSlot request" "wp_ExpectedSizeBytes plan = av_SizeBytes (rw_RuntimeArtifact request)"
    "wp_ExpectedSizeBytes plan > 0" "rt_Filesystem (wp_TargetPartition plan) = ''squashfs''"
    "(of_int (wp_ExpectedSizeBytes plan) :: uint64) \<le> rt_SizeMiB (wp_TargetPartition plan) * 1024 * 1024"
    "wp_ArtifactDigest plan = ToLower (av_SHA256 (rw_RuntimeArtifact request))"
  using assms by (auto simp: PlanRootSlotWrite_def Let_def not_less)

lemma planned_artifact_fits:
  assumes plan: "PlanRootSlotWrite layout request = Inr plan"
    and size: "av_SizeBytes (rw_RuntimeArtifact request) < 2 ^ 63" and mib: "unat (rt_SizeMiB (wp_TargetPartition plan)) < 2 ^ 44"
  shows "nat (wp_ExpectedSizeBytes plan) \<le> unat (rt_SizeMiB (wp_TargetPartition plan)) * (1024 * 1024)"
proof -
  note p = PlanRootSlotWrite_Inr [OF plan]
  have "unat (of_int (wp_ExpectedSizeBytes plan) :: uint64) = nat (wp_ExpectedSizeBytes plan)"
    using p(4,5) size by (intro of_int_uint64) auto
  with p(7) show ?thesis by (simp only: word_le_nat_alt mib_bytes [OF mib])
qed

lemma member_le_sum_list: "x \<in> set xs \<Longrightarrow> (f x :: nat) \<le> sum_list (map f xs)"
  by (induction xs) auto

text \<open>On a planned layout the sizes are far from overflowing, so the slot holds the artifact.\<close>

lemma slot_of_planned_layout:
  assumes layout: "PlanDiskLayout sha256 facts request = Inr layout" and fit: "sizes_fit (default_layout request)"
    and plan: "PlanRootSlotWrite layout rw = Inr plan" and size: "av_SizeBytes (rw_RuntimeArtifact rw) < 2 ^ 63"
  shows "nat (wp_ExpectedSizeBytes plan) \<le> unat (rt_SizeMiB (wp_TargetPartition plan)) * (1024 * 1024)"
proof -
  obtain target :: TargetDiskMatch where t: "planTargetPartitions (tm_Device target) (default_layout request) = Inr (lp_Partitions layout)"
    using layout by (rule PlanDiskLayout_Inr)
  obtain p where p: "p \<in> set (lp_Partitions layout)" "rt_SizeMiB (wp_TargetPartition plan) = pp_SizeMiB p"
    using findRootSlot_Inr(1) [OF PlanRootSlotWrite_Inr(2) [OF plan]] by blast
  have "unat (pp_SizeMiB p) \<le> unat (bd_SizeBytes (tm_Device target)) div (1024 * 1024)"
    using member_le_sum_list [OF p(1), of "unat \<circ> pp_SizeMiB"] planned_partitions_fill_disk(1) [OF t fit] by simp
  moreover have "unat (bd_SizeBytes (tm_Device target)) < 2 ^ 64" using unsigned_less [of "bd_SizeBytes (tm_Device target)"] by simp
  ultimately have "unat (rt_SizeMiB (wp_TargetPartition plan)) < 2 ^ 44" by (simp add: p(2))
  then show ?thesis by (rule planned_artifact_fits [OF plan size])
qed

section \<open>Device accesses\<close>

lemma dev_fault_bindE:
  assumes "io_bind dev_fault k s = (r, t)"
  obtains f u where "k f u = (r, t)" "sv_contents u = sv_contents s"
  using assms by (cases "sv_faults s") (auto simp: io_bind_def dev_fault_def intro: that)

definition same_contents :: "slot_device \<Rightarrow> slot_device \<Rightarrow> bool" where
  "same_contents s t \<longleftrightarrow> sv_contents t = sv_contents s"

interpretation contents: io_frame same_contents
  by unfold_locales (auto simp: same_contents_def)

lemma dev_fault_contents: "io_rel same_contents dev_fault"
  by (auto simp: io_rel_def same_contents_def dev_fault_def split: list.splits)

lemma hashRange_contents: "io_rel same_contents (hashRange sha256 bytes n)"
  unfolding hashRange_def
  by (intro contents.rel_bind dev_fault_contents) (auto simp: contents.rel_pure Let_def split: dev_fault.splits)

lemma Sync_contents: "io_rel same_contents Sync"
  unfolding Sync_def
  by (intro contents.rel_bind dev_fault_contents) (auto simp: contents.rel_pure split: dev_fault.splits)

lemma ReadAt_contents: "io_rel same_contents (ReadAt bytes off n)"
  unfolding ReadAt_def by (intro contents.rel_bind dev_fault_contents contents.rel_pure)

lemma ReadAt_length:
  assumes "ReadAt bytes off n s = (Inr (data, err), t)" and "length data = n"
  shows "data = take n (drop off bytes)"
proof -
  obtain f u where "io_ok (let data = take n (drop off bytes) in
              case f of
                DevOk \<Rightarrow> (data, if length data < n then Some EOF else None)
              | DevFail k m \<Rightarrow> (take k data, Some (OsError m))) u = (Inr (data, err), t)"
    using assms(1) unfolding ReadAt_def by (elim dev_fault_bindE)
  with assms(2) show ?thesis by (cases f) (auto simp: io_run Let_def)
qed

lemma hashRange_Inr:
  assumes "hashRange sha256 bytes n s = (Inr h, t)"
  shows "n \<le> int (length bytes)" "h = EncodeToString (sha256 (take (nat n) bytes))"
proof -
  from assms have "n \<le> int (length bytes) \<and> h = EncodeToString (sha256 (take (nat n) bytes))"
    unfolding hashRange_def
    by (elim dev_fault_bindE) (auto simp: io_run Let_def min_def split: dev_fault.splits if_splits)
  then show "n \<le> int (length bytes)" "h = EncodeToString (sha256 (take (nat n) bytes))" by auto
qed

lemma WriteAt_Inr:
  assumes "WriteAt put data off s = (Inr (n, None), t)"
  shows "n = length data" "off + n \<le> length (sv_contents s) \<or> n = 0" "sv_contents t = put off data (sv_contents s)"
proof -
  from assms have "n = length data \<and> (off + n \<le> length (sv_contents s) \<or> n = 0) \<and>
      sv_contents t = put off data (sv_contents s)"
    unfolding WriteAt_def
    by (elim dev_fault_bindE) (auto simp: io_run Let_def length_0_conv [symmetric] simp del: length_0_conv
          split: dev_fault.splits if_splits prod.splits)
  then show "n = length data" "off + n \<le> length (sv_contents s) \<or> n = 0" "sv_contents t = put off data (sv_contents s)"
    by auto
qed

section \<open>The copy\<close>

definition overlay :: "nat \<Rightarrow> nat \<Rightarrow> string \<Rightarrow> string \<Rightarrow> string" where
  "overlay off n artifact old = take off old @ take (n - off) (drop off artifact) @ drop n old"

lemma overlay_step:
  assumes "off + w \<le> n" "off + w \<le> length old" "length (take w (drop off artifact)) = w"
  shows "overlay (off + w) n artifact (splice off (take w (drop off artifact)) old) = overlay off n artifact old"
proof -
  let ?c = "take w (drop off artifact)" and ?new = "splice off (take w (drop off artifact)) old"
  have "take (off + w) ?new = take off old @ ?c" "drop n ?new = drop n old"
    using assms by (simp_all add: splice_def min_def)
  moreover have "take (n - off) (drop off artifact) = ?c @ take (n - (off + w)) (drop (off + w) artifact)"
    using assms(1) take_add [of w "n - (off + w)" "drop off artifact"] by (simp add: add.commute)
  ultimately show ?thesis by (simp add: overlay_def)
qed

lemma splice_length: "off + length data \<le> length old \<Longrightarrow> length (splice off data old) = length old"
  by (simp add: splice_def)

lemma writeRange_Inr:
  assumes "writeRange splice artifact n offset s = (Inr r, t)" and "0 \<le> offset" "offset \<le> n"
  shows "r = n \<and> sv_contents t = overlay (nat offset) (nat n) artifact (sv_contents s) \<and>
    (offset = n \<or> nat n \<le> length artifact \<and> nat n \<le> length (sv_contents s))"
  using assms
proof (induction "nat (n - offset)" arbitrary: offset s rule: less_induct)
  case (less offset)
  show ?case
  proof (cases "offset < n")
    case False
    with less.prems show ?thesis by (simp add: writeRange.simps [of splice artifact n offset] io_run overlay_def)
  next
    case True
    define w where "w = min rootWriteChunk (n - offset)"
    have w: "0 < w" "offset + w \<le> n" using True by (auto simp: w_def rootWriteChunk_def)
    from less.prems(1) True obtain data err u written v
      where rd: "ReadAt artifact (nat offset) (nat w) s = (Inr (data, err), u)" and len: "int (length data) = w"
        and wr: "WriteAt splice data (nat offset) u = (Inr (written, None), v)"
        and rest: "writeRange splice artifact n (offset + w) v = (Inr r, t)"
      by (subst (asm) writeRange.simps) (auto simp: Let_def w_def [symmetric] io_run split: prod.splits if_splits)
    have c: "sv_contents u = sv_contents s"
      using io_relD [OF ReadAt_contents rd] by (simp add: same_contents_def)
    have d: "data = take (nat w) (drop (nat offset) artifact)"
      using ReadAt_length [OF rd] len w by simp
    have room: "nat offset + nat w \<le> length (sv_contents s)" and v: "sv_contents v = splice (nat offset) data (sv_contents s)"
      using WriteAt_Inr [OF wr] len w c by auto
    have lv: "length (sv_contents v) = length (sv_contents s)"
      using room len by (simp add: v splice_length)
    have la: "nat offset + nat w \<le> length artifact"
      using d len w by auto
    have ih: "r = n \<and> sv_contents t = overlay (nat (offset + w)) (nat n) artifact (sv_contents v) \<and>
        (offset + w = n \<or> nat n \<le> length artifact \<and> nat n \<le> length (sv_contents v))"
      using w less.prems(2) by (intro less.hyps [OF _ rest]) auto
    have sum: "nat (offset + w) = nat offset + nat w" using w less.prems(2) by simp
    have "overlay (nat offset + nat w) (nat n) artifact (splice (nat offset) data (sv_contents s))
        = overlay (nat offset) (nat n) artifact (sv_contents s)"
      unfolding d by (rule overlay_step) (use w less.prems(2) room la d len in auto)
    with ih la room lv sum show ?thesis by (auto simp: v)
  qed
qed

lemma healthy_calls:
  assumes "sv_faults s = []"
  shows "hashRange sha256 bytes n s = (if int (length (take (nat n) bytes)) = n
      then (Inr (EncodeToString (sha256 (take (nat n) bytes))), s)
      else (Inl (Errorf ''read %d bytes, want %d'' [decimal (length (take (nat n) bytes)), decimal (nat n)]), s))"
    "Sync s = (Inr (), s)"
    "off + k \<le> length bytes \<Longrightarrow> ReadAt bytes off k s = (Inr (take k (drop off bytes), None), s)"
    "off + length data \<le> length (sv_contents s) \<Longrightarrow>
       WriteAt put data off s = (Inr (length data, None), s\<lparr>sv_contents := put off data (sv_contents s)\<rparr>)"
  using assms
  by (auto simp: hashRange_def Sync_def ReadAt_def WriteAt_def io_bind_def io_then_def dev_fault_def io_ok_def io_fail_def
      io_err_def io_get_def io_upd_def Let_def)

lemma writeRange_healthy:
  assumes "sv_faults s = []" "0 \<le> offset" "offset \<le> n" "nat n \<le> length artifact" "nat n \<le> length (sv_contents s)"
  shows "\<exists>t. writeRange splice artifact n offset s = (Inr n, t) \<and> sv_faults t = []"
  using assms
proof (induction "nat (n - offset)" arbitrary: offset s rule: less_induct)
  case (less offset)
  show ?case
  proof (cases "offset < n")
    case False
    with less.prems have "offset = n" by simp
    then show ?thesis using less.prems by (simp add: writeRange.simps [of splice artifact n n] io_ok_def)
  next
    case True
    define w where "w = min rootWriteChunk (n - offset)"
    have w: "0 < w" "offset + w \<le> n" using True by (auto simp: w_def rootWriteChunk_def)
    let ?data = "take (nat w) (drop (nat offset) artifact)"
    let ?u = "s\<lparr>sv_contents := splice (nat offset) ?data (sv_contents s)\<rparr>"
    have fit: "nat offset + nat w \<le> nat n" using w less.prems(2) by linarith
    have len: "length ?data = nat w" using fit less.prems(4) by simp
    have "ReadAt artifact (nat offset) (nat w) s = (Inr (?data, None), s)"
      using healthy_calls(3) [OF less.prems(1)] fit less.prems(4) by simp
    moreover have "WriteAt splice ?data (nat offset) s = (Inr (nat w, None), ?u)"
      using healthy_calls(4) [OF less.prems(1), of "nat offset" ?data splice] fit len less.prems(5) by simp
    ultimately have step: "writeRange splice artifact n offset s = writeRange splice artifact n (offset + w) ?u"
      using True len w
      by (subst writeRange.simps) (simp add: Let_def w_def [symmetric] io_bind_def)
    have "\<exists>t. writeRange splice artifact n (offset + w) ?u = (Inr n, t) \<and> sv_faults t = []"
      by (rule less.hyps) (use w less.prems fit len in \<open>auto simp: splice_length\<close>)
    with step show ?thesis by simp
  qed
qed

section \<open>The writer\<close>

definition want_digest :: "RootSlotWritePlan \<Rightarrow> string" where
  "want_digest plan = ToLower (TrimSpace (wp_ArtifactDigest plan))"

definition prefix_digest :: "(string \<Rightarrow> string) \<Rightarrow> int \<Rightarrow> string \<Rightarrow> string" where
  "prefix_digest sha256 n bytes = EncodeToString (sha256 (take (nat n) bytes))"

lemma WriteRootSlot_Inr:
  assumes "WriteRootSlot sha256 put request s = (Inr result, t)"
  obtains artifact u v where "rq_Artifact request = Some artifact" "rq_Target request"
    "wp_ExpectedSizeBytes (rq_Plan request) > 0" "want_digest (rq_Plan request) \<noteq> []"
    "wp_ExpectedSizeBytes (rq_Plan request) \<le> int (length artifact)"
    "prefix_digest sha256 (wp_ExpectedSizeBytes (rq_Plan request)) artifact = want_digest (rq_Plan request)"
    "sv_contents u = sv_contents s"
    "writeRange put artifact (wp_ExpectedSizeBytes (rq_Plan request)) 0 u = (Inr (rr_BytesWritten result), v)"
    "sv_contents t = sv_contents v" "wp_ExpectedSizeBytes (rq_Plan request) \<le> int (length (sv_contents t))"
    "prefix_digest sha256 (wp_ExpectedSizeBytes (rq_Plan request)) (sv_contents t) = want_digest (rq_Plan request)"
    "rr_Slot result = wp_Slot (rq_Plan request)" "rr_SHA256 result = want_digest (rq_Plan request)"
    "rr_GPTLabel result = rt_GPTLabel (wp_TargetPartition (rq_Plan request))"
proof -
  let ?p = "rq_Plan request"
  let ?n = "wp_ExpectedSizeBytes ?p" and ?w = "want_digest ?p"
  obtain artifact where a: "rq_Artifact request = Some artifact"
    using assms by (cases "rq_Artifact request") (auto simp: WriteRootSlot_def io_run)
  from assms obtain written got verified u v x where
      g: "rq_Target request" "?n > 0" "?w \<noteq> []" "got = ?w" "verified = ?w"
    and h: "hashRange sha256 artifact ?n s = (Inr got, u)" and w: "writeRange put artifact ?n 0 u = (Inr written, v)"
    and y: "Sync v = (Inr (), x)" and c: "hashRange sha256 (sv_contents x) ?n x = (Inr verified, t)"
    and r: "result = \<lparr>rr_Slot = wp_Slot ?p, rr_GPTLabel = rt_GPTLabel (wp_TargetPartition ?p), rr_BytesWritten = written,
                rr_SHA256 = verified\<rparr>"
    by (auto simp: WriteRootSlot_def a Let_def io_run want_digest_def)
  have "sv_contents u = sv_contents s" "sv_contents x = sv_contents v" "sv_contents t = sv_contents x"
    using io_relD [OF hashRange_contents h] io_relD [OF Sync_contents y] io_relD [OF hashRange_contents c]
    by (simp_all add: same_contents_def)
  with a g w r hashRange_Inr [OF h] hashRange_Inr [OF c] show thesis
    by (intro that [of artifact u v]) (simp_all add: prefix_digest_def)
qed

lemma written_slot_holds_artifact:
  assumes "WriteRootSlot sha256 splice request s = (Inr result, t)" and "rq_Artifact request = Some artifact"
  defines "n \<equiv> nat (wp_ExpectedSizeBytes (rq_Plan request))"
  shows "sv_contents t = take n artifact @ drop n (sv_contents s) \<and> n \<le> length artifact \<and> n \<le> length (sv_contents s) \<and>
    rr_BytesWritten result = wp_ExpectedSizeBytes (rq_Plan request)"
proof -
  from assms(1) obtain u v where "wp_ExpectedSizeBytes (rq_Plan request) > 0" "sv_contents u = sv_contents s"
    "writeRange splice artifact (wp_ExpectedSizeBytes (rq_Plan request)) 0 u = (Inr (rr_BytesWritten result), v)"
    "sv_contents t = sv_contents v"
    by (rule WriteRootSlot_Inr) (use assms(2) in auto)
  with writeRange_Inr [of artifact _ 0 u] show ?thesis
    by (fastforce simp: n_def overlay_def)
qed

text \<open>An artifact whose digest differs leaves the device as it was, whatever fails.\<close>

lemma mismatched_artifact_not_written:
  assumes run: "WriteRootSlot sha256 put request s = (r, t)" and a: "rq_Artifact request = Some artifact"
    and bad: "prefix_digest sha256 (wp_ExpectedSizeBytes (rq_Plan request)) artifact \<noteq> want_digest (rq_Plan request)"
  shows "sv_contents t = sv_contents s"
proof -
  let ?n = "wp_ExpectedSizeBytes (rq_Plan request)"
  obtain x u where h: "hashRange sha256 artifact ?n s = (x, u)" by (cases "hashRange sha256 artifact ?n s")
  have c: "sv_contents u = sv_contents s" using io_relD [OF hashRange_contents h] by (simp add: same_contents_def)
  have x: "got \<noteq> want_digest (rq_Plan request)" if "x = Inr got" for got
    using hashRange_Inr(2) [of sha256 artifact ?n s got u] h that bad by (simp add: prefix_digest_def)
  show ?thesis
  proof (cases x)
    case (Inl e)
    then show ?thesis
      using run c
      by (auto simp: WriteRootSlot_def a Let_def io_then_def io_bind_def io_wrap_def io_reject_def io_need_def reject_def h
          split: if_splits)
  next
    case (Inr got)
    then show ?thesis
      using run c x [OF Inr]
      by (auto simp: WriteRootSlot_def a Let_def io_then_def io_bind_def io_wrap_def io_reject_def io_need_def reject_def h
          want_digest_def split: if_splits)
  qed
qed

text \<open>Without device errors the write succeeds exactly when artifact and slot are large enough and the digest matches.\<close>

lemma WriteRootSlot_healthy:
  assumes "sv_faults s = []" "rq_Artifact request = Some artifact" "rq_Target request"
    and "wp_ExpectedSizeBytes (rq_Plan request) > 0" "want_digest (rq_Plan request) \<noteq> []"
    and "wp_ExpectedSizeBytes (rq_Plan request) \<le> int (length artifact)"
    and "wp_ExpectedSizeBytes (rq_Plan request) \<le> int (length (sv_contents s))"
    and "prefix_digest sha256 (wp_ExpectedSizeBytes (rq_Plan request)) artifact = want_digest (rq_Plan request)"
  shows "\<exists>result t. WriteRootSlot sha256 splice request s = (Inr result, t)"
proof -
  let ?n = "wp_ExpectedSizeBytes (rq_Plan request)"
  obtain t where t: "writeRange splice artifact ?n 0 s = (Inr ?n, t)" "sv_faults t = []"
    using writeRange_healthy [of s 0 ?n artifact] assms by (auto simp: nat_le_iff)
  have "sv_contents t = overlay 0 (nat ?n) artifact (sv_contents s)"
    using writeRange_Inr [OF t(1)] assms(4) by simp
  then have "take (nat ?n) (sv_contents t) = take (nat ?n) artifact"
    using assms(6) by (simp add: overlay_def)
  moreover from this have "int (length (take (nat ?n) (sv_contents t))) = ?n"
    using assms(4,6) by simp
  moreover have "int (length (take (nat ?n) artifact)) = ?n" using assms(4,6) by simp
  ultimately have "hashRange sha256 artifact ?n s = (Inr (want_digest (rq_Plan request)), s)"
    "hashRange sha256 (sv_contents t) ?n t = (Inr (want_digest (rq_Plan request)), t)"
    using assms(8) healthy_calls(1) [OF assms(1)] healthy_calls(1) [OF t(2)]
    by (simp_all add: prefix_digest_def del: length_take)
  then show ?thesis
    using assms t healthy_calls(2) [OF t(2)]
    by (simp add: WriteRootSlot_def Let_def io_then_def io_bind_def io_wrap_def io_reject_def io_need_def reject_def
        io_get_def io_ok_def want_digest_def)
qed

section \<open>The persisted state\<close>

interpretation slot_file: fault_disk sh_faults "\<lambda>fs s. s\<lparr>sh_faults := fs\<rparr>"
  by unfold_locales simp

text \<open>A state that answers every later run of the same plan without touching the device.\<close>

definition write_recorded :: "RootSlotWritePlan \<Rightarrow> RootSlotState json_file \<Rightarrow> bool" where
  "write_recorded plan f \<longleftrightarrow>
     f = BadFile \<or> (\<exists>st. f = File st \<and> sameSlotState st (slotState plan) \<and> ro_WriteStarted st)"

lemma sameSlotState_upd [simp]:
  "sameSlotState (slotState plan\<lparr>ro_WriteStarted := a, ro_UpdatedAt := b\<rparr>) (slotState plan)"
  "sameSlotState (slotState plan\<lparr>ro_WriteStarted := a, ro_WriteComplete := c, ro_UpdatedAt := b\<rparr>) (slotState plan)"
  "sameSlotState (slotState plan\<lparr>ro_WriteStarted := a, ro_WriteComplete := c, ro_ValidationComplete := d, ro_UpdatedAt := b\<rparr>)
     (slotState plan)"
  by (simp_all add: sameSlotState_def slotState_def)

lemma file_slot_store_sel [simp]:
  "ss_SaveSlotState (file_slot_store now) = SaveSlotState now" "ss_LoadSlotState (file_slot_store now) = LoadSlotState"
  by (simp_all add: file_slot_store_def)

abbreviation file_install where
  "file_install sha256 put now request \<equiv>
     install_recorded (file_slot_store now) request (\<lambda>q. on_device (WriteRootSlot sha256 put q))"

lemma run_file_slot_eq:
  "run_file_slot sha256 put now request retry s =
     (case sh_file s of
        NoFile \<Rightarrow> file_install sha256 put now request s
      | BadFile \<Rightarrow> (Inl (Wrap ''load root slot state: %w'' [] (Errorf ''decode root slot state'' [])), s)
      | File current \<Rightarrow>
          if \<not> sameSlotState current (slotState (rq_Plan request)) then (Inl ErrSlotStateConflict, s)
          else if ro_ValidationComplete current then (Inr (skipped_result (rq_Plan request)), s)
          else if ro_WriteStarted current \<and> \<not> retry then (Inl ErrSlotRetryRequired, s)
          else file_install sha256 put now request s)"
  by (cases "sh_file s")
     (simp_all add: run_file_slot_def runRootSlot_def LoadSlotState_def io_bind_def io_catch_def io_get_def io_err_def
       io_fail_def io_ok_def)

lemma SaveSlotState_cases:
  assumes "SaveSlotState now st s = (r, t)"
  shows "sh_device t = sh_device s \<and>
    (r = Inr () \<longrightarrow> sh_file t = File (st\<lparr>ro_UpdatedAt := now\<rparr>)) \<and>
    (sh_file t = sh_file s \<or> sh_file t = BadFile \<or> sh_file t = File (st\<lparr>ro_UpdatedAt := now\<rparr>))"
proof -
  let ?new = "File (st\<lparr>ro_UpdatedAt := now\<rparr>)"
  have mk: "sh_device v = sh_device u \<and> sh_file v = sh_file u" if "sh_call (\<lambda>s. s) u = (x, v)" for x u v
    using that unfolding sh_call_def by (cases rule: slot_file.call_cases) auto
  have call: "sh_device v = sh_device u \<and> (sh_file v = sh_file u \<or> sh_file v = g) \<and> (x = Inr () \<longrightarrow> sh_file v = g)"
    if "sh_call (\<lambda>s. s\<lparr>sh_file := g\<rparr>) u = (x, v)" for g x u v
    using that unfolding sh_call_def by (cases rule: slot_file.call_cases) auto
  obtain d q where d: "sh_call (\<lambda>s. s) s = (d, q)" by (cases "sh_call (\<lambda>s. s) s")
  obtain a u where a: "sh_call (\<lambda>s. s) q = (a, u)" by (cases "sh_call (\<lambda>s. s) q")
  obtain b v where b: "sh_call (\<lambda>s. s\<lparr>sh_file := BadFile\<rparr>) u = (b, v)" by (cases "sh_call (\<lambda>s. s\<lparr>sh_file := BadFile\<rparr>) u")
  obtain c w where c: "sh_call (\<lambda>s. s\<lparr>sh_file := ?new\<rparr>) v = (c, w)" by (cases "sh_call (\<lambda>s. s\<lparr>sh_file := ?new\<rparr>) v")
  have "(r = Inr () \<longrightarrow> c = Inr () \<and> t = w) \<and> t \<in> {q, u, v, w}"
    using assms by (cases d; cases a; cases b; cases c) (auto simp: SaveSlotState_def io_then_def io_bind_def io_wrap_def d a b c)
  with mk [OF d] mk [OF a] call [OF b] call [OF c] show ?thesis by auto
qed

lemma SaveSlotState_recorded:
  assumes "SaveSlotState now st s = (r, t)" and "write_recorded plan (sh_file s)"
    and "sameSlotState (st\<lparr>ro_UpdatedAt := now\<rparr>) (slotState plan)" "ro_WriteStarted st"
  shows "write_recorded plan (sh_file t)"
  using SaveSlotState_cases [OF assms(1)] assms(2-4) by (auto simp: write_recorded_def)

lemma on_device_file: "on_device m s = (r, t) \<Longrightarrow> sh_file t = sh_file s"
  by (auto simp: on_device_def split: prod.splits)

text \<open>Whatever fails, a run that changed the device leaves a state that stops the next run.\<close>

lemma install_recorded_changes:
  assumes run: "install_recorded (file_slot_store now) request (\<lambda>q. on_device (m q)) s = (r, t)"
    and changed: "sh_device t \<noteq> sh_device s"
  shows "write_recorded (rq_Plan request) (sh_file t)"
proof -
  let ?plan = "rq_Plan request" and ?st = "(slotState (rq_Plan request))\<lparr>ro_WriteStarted := True\<rparr>"
  let ?st2 = "?st\<lparr>ro_WriteComplete := True\<rparr>" and ?st3 = "?st\<lparr>ro_WriteComplete := True, ro_ValidationComplete := True\<rparr>"
  obtain a u where a: "SaveSlotState now ?st s = (a, u)" by (cases "SaveSlotState now ?st s")
  obtain b v where b: "on_device (m request) u = (b, v)" by (cases "on_device (m request) u")
  obtain c w where c: "SaveSlotState now ?st2 v = (c, w)" by (cases "SaveSlotState now ?st2 v")
  obtain d x where d: "SaveSlotState now ?st3 w = (d, x)" by (cases "SaveSlotState now ?st3 w")
  have "a = Inr ()"
  proof (rule ccontr)
    assume "a \<noteq> Inr ()"
    then have "t = u" using run a by (cases a) (auto simp: install_recorded_def Let_def io_then_def io_bind_def)
    with SaveSlotState_cases [OF a] changed show False by simp
  qed
  then have u: "write_recorded ?plan (sh_file u)"
    using SaveSlotState_cases [OF a] by (simp add: write_recorded_def)
  then have v: "write_recorded ?plan (sh_file v)" using on_device_file [OF b] by simp
  have w: "write_recorded ?plan (sh_file w)" by (rule SaveSlotState_recorded [OF c v]) simp_all
  have x: "write_recorded ?plan (sh_file x)" by (rule SaveSlotState_recorded [OF d w]) simp_all
  have "t \<in> {v, w, x}"
    using run \<open>a = Inr ()\<close> a b c d
    by (cases b; cases c; cases d)
       (auto simp: install_recorded_def Let_def io_then_def io_bind_def io_ok_def)
  with v w x show ?thesis by auto
qed

lemma run_file_slot_changes:
  assumes "run_file_slot sha256 put now request retry s = (r, t)" and "sh_device t \<noteq> sh_device s"
  shows "write_recorded (rq_Plan request) (sh_file t)"
proof -
  have "file_install sha256 put now request s = (r, t)"
    using assms by (auto simp: run_file_slot_eq split: json_file.splits if_splits)
  then show ?thesis by (rule install_recorded_changes) fact
qed

lemma run_file_slot_stopped:
  assumes "write_recorded (rq_Plan request) (sh_file s)"
  shows "snd (run_file_slot sha256 put now request False s) = s"
  using assms by (auto simp: run_file_slot_eq write_recorded_def)

lemma torn_state_refused:
  "sh_file s = BadFile \<Longrightarrow> run_file_slot sha256 put now request retry s
     = (Inl (Wrap ''load root slot state: %w'' [] (Errorf ''decode root slot state'' [])), s)"
  by (simp add: run_file_slot_eq)

lemma file_install_recorded:
  assumes "file_install sha256 put now request s = (Inr result, t)"
  shows "\<exists>st. sh_file t = File st \<and> sameSlotState st (slotState (rq_Plan request)) \<and> ro_ValidationComplete st"
proof -
  from assms obtain w where
    "SaveSlotState now (slotState (rq_Plan request)
        \<lparr>ro_WriteStarted := True, ro_WriteComplete := True, ro_ValidationComplete := True\<rparr>) w = (Inr (), t)"
    by (auto simp: install_recorded_def Let_def io_run)
  from SaveSlotState_cases [OF this] show ?thesis by simp
qed

lemma successful_run_recorded:
  assumes "run_file_slot sha256 put now request retry s = (Inr result, t)"
  shows "\<exists>st. sh_file t = File st \<and> sameSlotState st (slotState (rq_Plan request)) \<and> ro_ValidationComplete st"
  using assms file_install_recorded
  by (auto simp: run_file_slot_eq split: json_file.splits if_splits)

end
