(* ===== verification/DiskExecutorFacts.thy ===== *)
theory DiskExecutorFacts
  imports DiskExecutor InstallManifest RootSlotFacts
begin

text \<open>
  Properties of disk execution: what the destructive operations of a plan touch, that the groups divide the operations,
  and that nothing runs without authority. The locale \<open>disk_execution\<close> is the contract between the executor and the
  interfaces it is given: when each of them stays within a preorder, so does every run of operations.
\<close>

section \<open>Destructive operations\<close>

definition on_target :: "DiskLayoutPlan \<Rightarrow> DiskOperation \<Rightarrow> bool" where
  "on_target plan p \<longleftrightarrow>
     op_Command p = ''wipefs'' \<and> op_Args p = [''--all'', lp_TargetDiskPath plan] \<or>
     op_Command p = ''systemd-repart'' \<and> op_Args p = repartArgs (lp_TargetDiskPath plan) \<or>
     op_Command p = ''katlos-write-root-slot'' \<and>
       (\<exists>q \<in> set (lp_Partitions plan). pp_Name q = bt_RootSlot (lp_Boot plan) \<and> op_Args p = [pp_GPTLabel q]) \<or>
     op_Command p = ''bootctl'' \<and> op_Args p = [''install'']"

definition on_volume :: "VolumePlan \<Rightarrow> DiskOperation \<Rightarrow> bool" where
  "on_volume v p \<longleftrightarrow>
     (vp_Repartition v \<and> op_Command p = ''systemd-repart'' \<and> op_Args p = repartArgs (vp_DevicePath v) \<or>
      \<not> vp_Repartition v \<and> vp_Wipe v \<and>
        (op_Command p = ''wipefs'' \<and> op_Args p = [''--all'', vp_DevicePath v] \<or>
         op_Command p = ''mkfs.'' @ vp_Filesystem v \<and> op_Args p = mkfs_args (vp_Filesystem v) @ [vp_DevicePath v]))"

lemmas operation_defs = operation_def destructive_def

lemma volumeOperations_destructive:
  "p \<in> set (volumeOperations v) \<Longrightarrow> op_Destructive p \<Longrightarrow> on_volume v p"
  by (auto simp: volumeOperations_def operation_defs on_volume_def split: if_splits)

lemma partition_operations_destructive:
  "p \<in> set (partition_operations plan pre q) \<Longrightarrow> q \<in> set (lp_Partitions plan) \<Longrightarrow> op_Destructive p \<Longrightarrow> on_target plan p"
  by (auto simp: partition_operations_def operation_defs on_target_def split: if_splits)

lemma BuildDiskOperations_cases:
  assumes "p \<in> set (BuildDiskOperations plan pre)"
  obtains (target) "p \<in> set (target_operations plan)"
    | (part) q where "q \<in> set (lp_Partitions plan)" "p \<in> set (partition_operations plan (target_prefix pre) q)"
    | (boot) "p = boot_loader_operation"
    | (vol) v where "v \<in> set (lp_VolumeMounts plan)" "p \<in> set (volume_mount_operations (target_prefix pre) v)"
  using assms by (auto simp: BuildDiskOperations_def Let_def split: if_splits)

lemma target_operations_destructive: "p \<in> set (target_operations plan) \<Longrightarrow> op_Destructive p \<Longrightarrow> on_target plan p"
  by (auto simp: target_operations_def Let_def on_target_def operation_defs)

lemma destructive_operations_confined:
  assumes "p \<in> set (BuildDiskOperations plan pre)" "op_Destructive p"
  shows "on_target plan p \<or> (\<exists>v \<in> set (lp_VolumeMounts plan). on_volume v p)"
  using assms(1)
proof (cases rule: BuildDiskOperations_cases)
  case target
  with target_operations_destructive assms(2) show ?thesis by blast
next
  case part
  with partition_operations_destructive assms(2) show ?thesis by blast
next
  case boot
  then show ?thesis by (simp add: on_target_def boot_loader_operation_def operation_defs)
next
  case (vol v)
  with assms(2) have "p \<in> set (volumeOperations v)"
    by (auto simp: volume_mount_operations_def operation_def)
  with vol(1) assms(2) volumeOperations_destructive show ?thesis by blast
qed

lemma planned_destruction:
  assumes layout: "PlanDiskLayout sha256 facts request = Inr plan"
    and p: "p \<in> set (BuildDiskOperations plan pre)" "op_Destructive p"
  shows "\<exists>target. MatchTargetDisk facts (lr_TargetDisk request) = Inr target \<and> lp_TargetDiskPath plan = bd_Path (tm_Device target) \<and>
     (on_target plan p \<or>
      (\<exists>v r. v \<in> set (lp_VolumeMounts plan) \<and> r \<in> set (lr_Volumes request) \<and> vr_Wipe r \<and> on_volume v p \<and>
             volume_contained facts (tm_Device target) r v))"
proof -
  obtain target :: TargetDiskMatch where t: "MatchTargetDisk facts (lr_TargetDisk request) = Inr target"
    "lp_TargetDiskPath plan = bd_Path (tm_Device target)"
    "PlanVolumes sha256 facts (tm_Device target) (lr_Volumes request) = Inr (lp_VolumeMounts plan)"
    using layout by (rule PlanDiskLayout_Inr)
  note all = PlanVolumes_contained(1) [OF t(3)]
  have "on_target plan p \<or> (\<exists>v r. v \<in> set (lp_VolumeMounts plan) \<and> r \<in> set (lr_Volumes request) \<and> vr_Wipe r \<and>
      on_volume v p \<and> volume_contained facts (tm_Device target) r v)"
    using destructive_operations_confined [OF p] list_all2_right [OF all]
    by (fastforce simp: on_volume_def volume_contained_def)
  with t(1,2) show ?thesis by blast
qed

section \<open>Groups\<close>

definition all_groups :: "string list" where
  "all_groups = [PrepareOperations, PartitionOperations, FormatOperations, MountOperations]"

lemmas group_defs = operationInGroup_def PrepareOperations_def PartitionOperations_def FormatOperations_def
  MountOperations_def Let_def HasPrefix_def

lemma group_names [simp]:
  "operationInGroup p PrepareOperations \<longleftrightarrow> op_Name p = ''wipe-target-signatures''"
  "operationInGroup p PartitionOperations \<longleftrightarrow> op_Name p = ''create-gpt'' \<or> op_Name p = ''reread-partitions'' \<or>
     op_Name p = ''settle-partitions'' \<or> HasPrefix (op_Name p) ''repart-volume-'' \<or> HasPrefix (op_Name p) ''settle-volume-''"
  "operationInGroup p FormatOperations \<longleftrightarrow> HasPrefix (op_Name p) ''format-''"
  "operationInGroup p MountOperations \<longleftrightarrow> HasPrefix (op_Name p) ''create-mountpoint-'' \<or> HasPrefix (op_Name p) ''mount-'' \<or>
     op_Name p = ''install-systemd-boot''"
  by (simp_all add: group_defs)

definition one_group :: "DiskOperation \<Rightarrow> bool" where
  "one_group p \<longleftrightarrow> length (filter (operationInGroup p) all_groups) = 1"

lemma one_group_names:
  "op_Name p = ''wipe-target-signatures'' \<Longrightarrow> one_group p" "op_Name p = ''create-gpt'' \<Longrightarrow> one_group p"
  "op_Name p = ''reread-partitions'' \<Longrightarrow> one_group p" "op_Name p = ''settle-partitions'' \<Longrightarrow> one_group p"
  "op_Name p = ''repart-volume-'' @ n \<Longrightarrow> one_group p" "op_Name p = ''settle-volume-'' @ n \<Longrightarrow> one_group p"
  "op_Name p = ''format-'' @ n \<Longrightarrow> one_group p" "op_Name p = ''create-mountpoint-'' @ n \<Longrightarrow> one_group p"
  "op_Name p = ''mount-'' @ n \<Longrightarrow> one_group p" "op_Name p = ''install-systemd-boot'' \<Longrightarrow> one_group p"
  by (simp_all add: one_group_def all_groups_def HasPrefix_def)

lemma root_write_no_group: "isRootWrite p \<Longrightarrow> filter (operationInGroup p) all_groups = []"
  by (auto simp: isRootWrite_def all_groups_def HasPrefix_def)

lemma volumeOperations_grouped: "p \<in> set (volumeOperations v) \<Longrightarrow> one_group p"
proof -
  assume "p \<in> set (volumeOperations v)"
  then have "(\<exists>n. op_Name p = ''repart-volume-'' @ n) \<or> (\<exists>n. op_Name p = ''settle-volume-'' @ n) \<or>
      (\<exists>n. op_Name p = ''format-'' @ n)"
    by (auto simp: volumeOperations_def operation_defs split: if_splits)
  then show ?thesis using one_group_names(5-7) by metis
qed

lemma volume_mounts_grouped: "p \<in> set (volume_mount_operations pre v) \<Longrightarrow> one_group p"
proof -
  assume "p \<in> set (volume_mount_operations pre v)"
  then consider "p \<in> set (volumeOperations v)" | (m) n where "op_Name p = ''create-mountpoint-'' @ n"
    | (n) n where "op_Name p = ''mount-'' @ n"
    by (auto simp: volume_mount_operations_def operation_def)
  then show ?thesis
  proof cases
    case m
    then show ?thesis by (simp add: one_group_names(8))
  next
    case n
    then show ?thesis by (simp add: one_group_names(9))
  qed (rule volumeOperations_grouped)
qed

lemma partition_operations_grouped: "p \<in> set (partition_operations plan pre q) \<Longrightarrow> isRootWrite p \<or> one_group p"
proof -
  assume "p \<in> set (partition_operations plan pre q)"
  then consider "isRootWrite p" | (m) n where "op_Name p = ''create-mountpoint-'' @ n" | (n) n where "op_Name p = ''mount-'' @ n"
    by (auto simp: partition_operations_def operation_defs isRootWrite_def split: if_splits)
  then show ?thesis
  proof cases
    case m
    then show ?thesis by (simp add: one_group_names(8))
  next
    case n
    then show ?thesis by (simp add: one_group_names(9))
  qed simp
qed

lemma target_operations_grouped: "p \<in> set (target_operations plan) \<Longrightarrow> one_group p"
  by (auto simp: target_operations_def Let_def operation_defs intro: one_group_names(1-4))

lemma operations_grouped:
  assumes "p \<in> set (BuildDiskOperations plan pre)"
  shows "isRootWrite p \<or> one_group p"
  using assms
proof (cases rule: BuildDiskOperations_cases)
  case target
  then show ?thesis using target_operations_grouped by blast
next
  case part
  then show ?thesis using partition_operations_grouped by blast
next
  case boot
  then show ?thesis by (simp add: one_group_names(10) boot_loader_operation_def operation_defs)
next
  case vol
  then show ?thesis using volume_mounts_grouped by blast
qed

section \<open>Authority\<close>

lemma executeOperations_refused:
  "hasDestructiveOperations ps \<Longrightarrow> \<not> xr_AllowDestructive request \<Longrightarrow>
   executeOperations temp wr e request ps s = (Inl ErrDestructiveInstallNotAllowed, s)"
  by (simp add: executeOperations_def io_err_def)

lemma executeOperations_dry:
  "xr_DryRun request \<Longrightarrow> snd (executeOperations temp wr e request ps s) = s"
  by (simp add: executeOperations_def io_err_def io_ok_def Let_def)

text \<open>Preparing a volume that keeps its filesystem runs nothing.\<close>

lemma PrepareVolume_reused:
  "\<not> vp_Repartition plan \<Longrightarrow> \<not> vp_Wipe plan \<Longrightarrow> snd (PrepareVolume temp wr commands plan s) = s"
  by (cases commands)
     (simp_all add: PrepareVolume_def executeOperations_def volumeOperations_def hasDestructiveOperations_def io_then_def io_bind_def
       io_ok_def io_err_def io_fail_def Let_def)

section \<open>The contract of the interfaces\<close>

locale disk_execution = io_frame R for R :: "'s \<Rightarrow> 's \<Rightarrow> bool" +
  fixes temp :: "'s TempFiles" and e :: "'s DiskExecutor" and wr :: "RootSlotInstallRequest \<Rightarrow> ('s, RootSlotInstallResult) io"
  assumes commands_stay: "ex_Commands e = Some c \<Longrightarrow> io_rel R (cr_Run c name args)"
    and output_stays: "ex_Commands e = Some c \<Longrightarrow> cr_Output c = Some f \<Longrightarrow> io_rel R (f name args)"
    and temp_stays: "io_rel R (tf_MkdirTemp temp)" "io_rel R (tf_WriteFile temp path data)" "io_rel R (tf_RemoveAll temp path)"
    and before_stays: "ex_BeforeOperation e = Some g \<Longrightarrow> io_rel R (g p)"
    and default_stays: "ex_InstallRootSlot e = None" "ex_InstallBoot e = None" "ex_RecordStateMounted e = None"
      "ex_RootSlotState e = None" "io_rel R (wr q)"
begin

lemma finally_stays: "io_rel R m \<Longrightarrow> io_rel R cleanup \<Longrightarrow> io_rel R (io_finally m cleanup)"
  unfolding io_finally_def by (intro rel_bind rel_catch rel_pure)

lemma repart_stays: "ex_Commands e = Some c \<Longrightarrow> io_rel R (runRepartOperation temp c p)"
  unfolding runRepartOperation_def Let_def
  by (intro rel_bind rel_wrap finally_stays rel_then rel_each rel_prod rel_if temp_stays commands_stay)

lemma part_uuid_stays:
  assumes "ex_Commands e = Some c" "cr_Output c = Some f"
  shows "io_rel R (ReadPartUUID f label)"
  unfolding ReadPartUUID_def by (intro rel_bind rel_wrap rel_if rel_pure output_stays [OF assms])

lemma install_boot_stays:
  assumes "ex_Commands e = Some c" "cr_Output c = Some f"
  shows "io_rel R (InstallBoot (cr_Run c) f plan pre)"
  unfolding InstallBoot_def Let_def
  by (intro rel_then rel_option rel_bind rel_prod rel_wrap rel_pure part_uuid_stays [OF assms] commands_stay [OF assms(1)])

lemma operation_stays:
  assumes c: "ex_Commands e = Some c"
  shows "io_rel R (run_operation temp wr e c request boot p)"
proof -
  have "io_rel R (case ex_BeforeOperation e of Some f \<Rightarrow> f p | None \<Rightarrow> io_ok ())"
    by (intro rel_option rel_pure before_stays)
  moreover have "io_rel R (root_write_operation wr e request p)"
    unfolding root_write_operation_def runRootSlot_def default_stays option.case
    by (intro rel_option rel_then rel_bind rel_wrap rel_pure default_stays)
  moreover have "io_rel R (boot_operation e c request p)"
    unfolding boot_operation_def default_stays option.case
    by (intro rel_option rel_pure rel_wrap install_boot_stays [OF c])
  moreover have "io_rel R (command_operation temp e c p)"
    unfolding command_operation_def default_stays option.case
    by (intro rel_then rel_wrap rel_if rel_pure repart_stays [OF c] commands_stay [OF c])
  ultimately show ?thesis
    unfolding run_operation_def by (intro rel_then rel_if rel_bind rel_pure)
qed

lemma operations_stay: "ex_Commands e = Some c \<Longrightarrow> io_rel R (run_operations temp wr e c request boot ps)"
proof (induction ps arbitrary: boot)
  case Nil
  then show ?case by (simp add: rel_pure)
next
  case (Cons p ps)
  then show ?case unfolding run_operations.simps by (intro rel_bind operation_stays) auto
qed

lemma execute_stays: "io_rel R (executeOperations temp wr e request ps)"
  unfolding executeOperations_def Let_def by (intro rel_if rel_option rel_bind rel_pure operations_stay)

lemma group_stays: "io_rel R (ExecuteGroup temp wr e request grp)"
  unfolding ExecuteGroup_def by (intro rel_then rel_pure execute_stays)

end

end
