(* ===== verification/InstallRunner.thy ===== *)
theory InstallRunner
  imports DiskExecutorFacts Metadata
begin

text \<open>
  The installer (\<^verbatim>\<open>internal/installer/runner.go\<close>, \<^verbatim>\<open>progress.go\<close>, \<^verbatim>\<open>state_store.go\<close>, and the status record of
  \<^verbatim>\<open>status/status.go\<close>): the steps of an installation, the checkpoint and status it persists after and during each, the
  refusal of a changed request after an interrupted one, and the failure record.

  \<open>install_host\<close> is the installer's context together with the files of its state directory, the root slot device and
  the trace of the commands it ran; each trace entry also keeps the status file as it was when the command started.
  Every system call and every check of the cancelled context consumes an entry of the fault schedule. The code around
  the runner is an argument, \<open>install_env\<close>: decoding the manifest and encoding it again, resolving and verifying the image, what
  the machine answers to discovery and to \<^verbatim>\<open>blkid\<close>, and the steps that only materialise files on the mounted target.
  The heartbeat that repeats the current progress record every two seconds is not a step of its own.
\<close>

section \<open>Steps and statuses\<close>

definition DiscoverInstallerInput :: string where "DiscoverInstallerInput = ''DiscoverInstallerInput''"
definition WaitForLocalConfig :: string where "WaitForLocalConfig = ''WaitForLocalConfig''"
definition LoadManifest :: string where "LoadManifest = ''LoadManifest''"
definition SelectNode :: string where "SelectNode = ''SelectNode''"
definition CollectHardwareFacts :: string where "CollectHardwareFacts = ''CollectHardwareFacts''"
definition VerifyTrust :: string where "VerifyTrust = ''VerifyTrust''"
definition PlanInstall :: string where "PlanInstall = ''PlanInstall''"
definition PrepareDisk :: string where "PrepareDisk = ''PrepareDisk''"
definition CreatePartitions :: string where "CreatePartitions = ''CreatePartitions''"
definition FormatFilesystems :: string where "FormatFilesystems = ''FormatFilesystems''"
definition MountTarget :: string where "MountTarget = ''MountTarget''"
definition InstallRootSlot :: string where "InstallRootSlot = ''InstallRootSlot''"
definition InstallBootArtifacts :: string where "InstallBootArtifacts = ''InstallBootArtifacts''"
definition InstallExtensions :: string where "InstallExtensions = ''InstallExtensions''"
definition InstallSeed :: string where "InstallSeed = ''InstallSeed''"
definition InstallMountUnits :: string where "InstallMountUnits = ''InstallMountUnits''"
definition WriteInstallRecord :: string where "WriteInstallRecord = ''WriteInstallRecord''"
definition VerifyTarget :: string where "VerifyTarget = ''VerifyTarget''"
definition Reboot :: string where "Reboot = ''Reboot''"

definition StateRunning :: string where "StateRunning = ''running''"
definition StateWaitingForConfig :: string where "StateWaitingForConfig = ''waiting-for-config''"
definition StateInstallRefused :: string where "StateInstallRefused = ''install-refused''"
definition StateFailedBeforeMutation :: string where "StateFailedBeforeMutation = ''failed-before-mutation''"
definition StateFailedAfterMutation :: string where "StateFailedAfterMutation = ''failed-after-mutation''"
definition StateRebootRequested :: string where "StateRebootRequested = ''reboot-requested''"

record KatlosImage =
  ki_ExtensionRelease :: "string option"
  ki_Flavour :: string
  ki_URL :: string
  ki_LocalRef :: string
  ki_SHA256 :: string
  ki_SizeBytes :: uint64
  ki_Version :: string
  ki_Architecture :: string
  ki_RuntimeInterface :: string
  ki_Role :: string

record StatusImage =
  si_URL :: string
  si_LocalRef :: string
  si_SHA256 :: string
  si_SizeBytes :: uint64
  si_Version :: string
  si_Architecture :: string
  si_RuntimeInterface :: string
  si_Role :: string

record Progress =
  pg_Operation :: string
  pg_Target :: string
  pg_StartedAt :: time

record InstallStatus =
  it_Progress :: "Progress option"
  it_APIVersion :: string
  it_Kind :: string
  it_State :: string
  it_CurrentStep :: string
  it_CompletedSteps :: "string list"
  it_InputMode :: string
  it_InputSource :: string
  it_RequestDigest :: string
  it_BundleDigest :: string
  it_SourceDigest :: string
  it_NodeMaterialDigest :: string
  it_InstallMaterialDigest :: string
  it_KatlosImage :: StatusImage
  it_TargetDiskStableID :: string
  it_SelectedRootSlot :: string
  it_InstalledGeneration :: string
  it_BootArtifactVersion :: string
  it_RefusalReason :: string
  it_RetryHint :: string
  it_LastError :: string
  it_FinalHandoff :: string
  it_WipeTargetAccepted :: bool
  it_DestructiveMutation :: bool
  it_UpdatedAt :: time

record Checkpoint =
  cp_CurrentStep :: string
  cp_CompletedSteps :: "string list"
  cp_UpdatedAt :: time

text \<open>The manifest: its install section and image; \<open>im_Node\<close> is the encoded node section, which these steps do not read.\<close>

record InstallManifestDoc =
  im_Install :: InstallConfig
  im_KatlosImage :: KatlosImage
  im_Node :: string

record Component =
  cm_Name :: string
  cm_Path :: string
  cm_SHA256 :: string
  cm_SizeBytes :: int

record Payload =
  py_Root :: string
  py_Runtime :: Component
  py_Boot :: Component

record Context =
  cx_ManifestPath :: string
  cx_TargetRoot :: string
  cx_Manifest :: InstallManifestDoc
  cx_LoaderRecord :: "Record option"
  cx_KatlosImage :: "Payload option"
  cx_DefaultKatlosImage :: KatlosImage
  cx_KatlosImageFromMedia :: bool
  cx_HardwareFacts :: HardwareFacts
  cx_RootProfile :: RootDiskProfile
  cx_DiskLayout :: "DiskLayoutPlan option"
  cx_RootSlotPlan :: "RootSlotWritePlan option"
  cx_CurrentRootSlot :: string
  cx_RootPartitionUUID :: string
  cx_VolumeBindings :: "VolumeBinding list"
  cx_Completed :: "string list"
  cx_InputMode :: string
  cx_InputSource :: string
  cx_RequestDigest :: string
  cx_BundleDigest :: string
  cx_SourceDigest :: string
  cx_NodeMaterialDigest :: string
  cx_InstallMaterialDigest :: string
  cx_HaltIfInstalled :: bool
  cx_PreviousStatus :: "InstallStatus option"
  cx_progress :: "InstallStatus option"
  cx_progress_err :: error
  cx_imageReleaseAttempted :: bool

record trace_entry =
  te_Command :: string
  te_Args :: "string list"
  te_Status :: "InstallStatus json_file"

text \<open>\<open>ih_currentStep\<close> is the local variable of \<open>Run\<close> that its deferred function reads.\<close>

record install_host =
  ih_ctx :: Context
  ih_status :: "InstallStatus json_file"
  ih_checkpoint :: "Checkpoint json_file"
  ih_target_status :: "InstallStatus json_file"
  ih_trace :: "trace_entry list"
  ih_device :: slot_device
  ih_currentStep :: string
  ih_faults :: "fault list"

text \<open>A nil interface of the context is \<open>None\<close> or \<open>False\<close>; answers of the machine depend on the commands run so far.\<close>

record install_env =
  iv_now :: time
  iv_sha256 :: "string \<Rightarrow> string"
  iv_put :: device_write
  iv_RedactSource :: "string \<Rightarrow> string"
  iv_RedactError :: "err \<Rightarrow> string"
  iv_Commands :: bool
  iv_Output :: "(trace_entry list \<Rightarrow> string \<Rightarrow> string list \<Rightarrow> string res) option"
  iv_Store :: bool
  iv_Discovery :: "(trace_entry list \<Rightarrow> HardwareFacts res) option"
  iv_ReadManifest :: "string \<Rightarrow> string res"
  iv_Decode :: "string \<Rightarrow> KatlosImage \<Rightarrow> (InstallManifestDoc \<times> bool) res"
  iv_Marshal :: "InstallManifestDoc \<Rightarrow> string res"
  iv_KatlosResolver :: "(KatlosImage \<Rightarrow> Payload res) option"
  iv_MediaKatlosResolver :: "(KatlosImage \<Rightarrow> Payload res) option"
  iv_VerifyImage :: "Context \<Rightarrow> error"
  iv_FirstInstallRecord :: "Payload \<Rightarrow> RootSlotWritePlan \<Rightarrow> Context \<Rightarrow> Record res"
  iv_Materialize :: "string \<Rightarrow> Context \<Rightarrow> Record option res"
  iv_RootSlotTarget :: bool
  iv_RootSlotOpener :: bool
  iv_OpenComponent :: "string \<Rightarrow> string res"
  iv_CloseImage :: error
  iv_Retained :: "err \<Rightarrow> bool"
  iv_TempDir :: string

section \<open>Plans\<close>

definition NewPlan :: "bool \<Rightarrow> string list" where
  "NewPlan preseededManifest =
     [DiscoverInstallerInput] @ (if preseededManifest then [] else [WaitForLocalConfig])
     @ [LoadManifest, SelectNode, CollectHardwareFacts, VerifyTrust, PlanInstall, PrepareDisk, CreatePartitions,
        FormatFilesystems, MountTarget, InstallRootSlot, InstallBootArtifacts, InstallExtensions, InstallSeed,
        InstallMountUnits, WriteInstallRecord, VerifyTarget, Reboot]"

definition ErrInstallRefused :: err where "ErrInstallRefused = Errorf ''install refused'' []"
definition ErrInstalledTarget :: err where "ErrInstalledTarget = Errorf ''installed KatlOS target detected'' []"

text \<open>\<open>errors.Is\<close> for a sentinel error.\<close>

fun errors_is :: "err \<Rightarrow> err \<Rightarrow> bool" where
  "errors_is (Errorf f as) target = (Errorf f as = target)"
| "errors_is (Wrap f as e) target = (Wrap f as e = target \<or> errors_is e target)"
| "errors_is OsNotExist target = (OsNotExist = target)"
| "errors_is (OsError m) target = (OsError m = target)"
| "errors_is (Joined es) target = (Joined es = target \<or> list_ex (\<lambda>e. errors_is e target) es)"

section \<open>Status records\<close>

definition mutationStarted :: "string list \<Rightarrow> string \<Rightarrow> bool" where
  "mutationStarted completed current \<longleftrightarrow>
     current = PrepareDisk \<or>
     list_ex (\<lambda>step. step = PrepareDisk \<or> step = CreatePartitions \<or> step = FormatFilesystems \<or> step = MountTarget \<or>
                    step = InstallRootSlot) completed"

definition targetDiskStableID :: "DiskSelector \<Rightarrow> string" where
  "targetDiskStableID selector =
     (if ds_ByID selector \<noteq> [] then ds_ByID selector
      else if ds_WWN selector \<noteq> [] then ''wwn:'' @ ds_WWN selector
      else if ds_Serial selector \<noteq> [] then ''serial:'' @ ds_Serial selector
      else [])"

definition ImageFromManifest :: "install_env \<Rightarrow> InstallManifestDoc \<Rightarrow> StatusImage" where
  "ImageFromManifest env m =
     (let image = im_KatlosImage m in
      \<lparr>si_URL = iv_RedactSource env (ki_URL image), si_LocalRef = ki_LocalRef image, si_SHA256 = ki_SHA256 image,
       si_SizeBytes = ki_SizeBytes image, si_Version = ki_Version image, si_Architecture = ki_Architecture image,
       si_RuntimeInterface = ki_RuntimeInterface image, si_Role = ki_Role image\<rparr>)"

definition statusForStep :: "string \<Rightarrow> string" where
  "statusForStep sid =
     (if sid = WaitForLocalConfig then StateWaitingForConfig
      else if sid = Reboot then StateRebootRequested else StateRunning)"

definition failureState :: "Context \<Rightarrow> string \<Rightarrow> err \<Rightarrow> string" where
  "failureState install sid e =
     (if errors_is e ErrInstallRefused \<or> errors_is e ErrInstalledTarget then StateInstallRefused
      else if \<not> mutationStarted (cx_Completed install) sid then StateFailedBeforeMutation
      else StateFailedAfterMutation)"

definition before_mutation_state :: "string \<Rightarrow> bool" where
  "before_mutation_state state \<longleftrightarrow> state = StateFailedBeforeMutation \<or> state = StateInstallRefused"

definition statusFromContext :: "install_env \<Rightarrow> Context \<Rightarrow> string \<Rightarrow> string \<Rightarrow> error \<Rightarrow> InstallStatus" where
  "statusFromContext env install state current e =
     \<lparr>it_Progress = None, it_APIVersion = ''katl.dev/v1alpha1'', it_Kind = ''InstallToBootstrapStatus'', it_State = state,
      it_CurrentStep = current, it_CompletedSteps = cx_Completed install, it_InputMode = cx_InputMode install,
      it_InputSource = iv_RedactSource env (cx_InputSource install), it_RequestDigest = cx_RequestDigest install,
      it_BundleDigest = cx_BundleDigest install, it_SourceDigest = cx_SourceDigest install,
      it_NodeMaterialDigest = cx_NodeMaterialDigest install, it_InstallMaterialDigest = cx_InstallMaterialDigest install,
      it_KatlosImage = ImageFromManifest env (cx_Manifest install),
      it_TargetDiskStableID = targetDiskStableID (ic_TargetDisk (im_Install (cx_Manifest install))),
      it_SelectedRootSlot = (case cx_LoaderRecord install of None \<Rightarrow> [] | Some r \<Rightarrow> rs_Slot (re_Root r)),
      it_InstalledGeneration = (case cx_LoaderRecord install of None \<Rightarrow> [] | Some r \<Rightarrow> re_GenerationID r),
      it_BootArtifactVersion = (case cx_LoaderRecord install of None \<Rightarrow> [] | Some r \<Rightarrow> bt_UKIPath (re_Boot r)),
      it_RefusalReason = (case e of None \<Rightarrow> [] | Some x \<Rightarrow> iv_RedactError env x),
      it_RetryHint =
        (case e of
           None \<Rightarrow> []
         | Some x \<Rightarrow>
             if errors_is x ErrInstalledTarget
             then ''boot the installed disk, run katlctl install apply to reinstall, or remove katl.halt-if-installed=1 from the PXE profile''
             else if before_mutation_state state then ''fix input or environment and rerun before disk mutation''
             else ''inspect target state before rerun or repair''),
      it_LastError = (case e of None \<Rightarrow> [] | Some x \<Rightarrow> iv_RedactError env x), it_FinalHandoff = [],
      it_WipeTargetAccepted = ic_WipeTarget (im_Install (cx_Manifest install)),
      it_DestructiveMutation =
        (mutationStarted (cx_Completed install) current \<or> e \<noteq> None \<and> \<not> before_mutation_state state),
      it_UpdatedAt = iv_now env\<rparr>"

section \<open>Persisted state\<close>

definition ih_call :: "(install_host \<Rightarrow> install_host) \<Rightarrow> (install_host, unit) io" where
  "ih_call = fault_call ih_faults (\<lambda>fs s. s\<lparr>ih_faults := fs\<rparr>)"

definition ctx_done :: "(install_host, unit) io" where
  "ctx_done = ih_call (\<lambda>s. s)"

definition get_ctx :: "(install_host, Context) io" where
  "get_ctx = io_get ih_ctx"

definition upd_ctx :: "(Context \<Rightarrow> Context) \<Rightarrow> (install_host, unit) io" where
  "upd_ctx f = io_upd (\<lambda>s. s\<lparr>ih_ctx := f (ih_ctx s)\<rparr>)"

text \<open>The status file is replaced atomically, the checkpoint by \<open>os.WriteFile\<close>.\<close>

definition SaveStatus :: "InstallStatus \<Rightarrow> (install_host, unit) io" where
  "SaveStatus st = io_wrap ''write install status: %w'' [] (ih_call (\<lambda>s. s\<lparr>ih_status := File st\<rparr>))"

definition SaveCheckpoint :: "install_env \<Rightarrow> string \<Rightarrow> string list \<Rightarrow> (install_host, unit) io" where
  "SaveCheckpoint env current completed =
     (let checkpoint = \<lparr>cp_CurrentStep = current, cp_CompletedSteps = completed, cp_UpdatedAt = iv_now env\<rparr> in
      io_then ctx_done
     (io_then (io_wrap ''create state directory: %w'' [] (ih_call (\<lambda>s. s)))
       (io_wrap ''write checkpoint: %w'' []
         (io_then (ih_call (\<lambda>s. s\<lparr>ih_checkpoint := BadFile\<rparr>)) (ih_call (\<lambda>s. s\<lparr>ih_checkpoint := File checkpoint\<rparr>))))))"

definition LoadStatus :: "(install_host, InstallStatus) io" where
  "LoadStatus =
     io_bind (io_get ih_status) (\<lambda>f.
       case f of
         NoFile \<Rightarrow> io_err (Wrap ''read install status: %w'' [] OsNotExist)
       | BadFile \<Rightarrow> io_fail ''decode install status'' []
       | File st \<Rightarrow> io_ok st)"

definition targetStatusReady :: "Context \<Rightarrow> string \<Rightarrow> bool" where
  "targetStatusReady install current \<longleftrightarrow>
     cx_TargetRoot install \<noteq> [] \<and> (current = MountTarget \<or> MountTarget \<in> set (cx_Completed install))"

text \<open>A failure is recorded under a context that cannot be cancelled.\<close>

definition writeTargetStatus :: "bool \<Rightarrow> string \<Rightarrow> InstallStatus \<Rightarrow> (install_host, unit) io" where
  "writeTargetStatus cancellable current st =
     io_bind get_ctx (\<lambda>install.
       io_when (targetStatusReady install current)
         (io_then (io_when cancellable ctx_done)
         (io_then (io_reject (TrimSpace (cx_TargetRoot install) = []) ''runtime root is required'' [])
           (io_wrap ''write install status: %w'' [] (ih_call (\<lambda>s. s\<lparr>ih_target_status := File st\<rparr>))))))"

definition loadPreviousStatus :: "(install_host, unit) io" where
  "loadPreviousStatus =
     io_bind get_ctx (\<lambda>install.
       if cx_PreviousStatus install \<noteq> None then io_ok ()
       else io_bind (io_catch (io_then ctx_done LoadStatus)) (\<lambda>loaded.
         case loaded of
           Inl e \<Rightarrow> if isErrNotExist e then io_ok () else io_err (Wrap ''load previous install status: %w'' [] e)
         | Inr st \<Rightarrow> upd_ctx (\<lambda>c. c\<lparr>cx_PreviousStatus := Some st\<rparr>)))"

definition refuseChangedInterruptedRequest :: "Context \<Rightarrow> error" where
  "refuseChangedInterruptedRequest install =
     (case cx_PreviousStatus install of
        None \<Rightarrow> None
      | Some previous \<Rightarrow>
          if \<not> it_DestructiveMutation previous then None
          else if it_RequestDigest previous = [] \<or> it_RequestDigest previous = cx_RequestDigest install then None
          else Some (Wrap ''%w: previous destructive install request digest %s does not match current request digest %s''
                 [it_RequestDigest previous, cx_RequestDigest install] ErrInstallRefused))"

section \<open>Progress\<close>

definition startProgress :: "install_env \<Rightarrow> string \<Rightarrow> (install_host, unit) io" where
  "startProgress env step =
     io_bind get_ctx (\<lambda>install.
       let st = (statusFromContext env install StateRunning step None)
             \<lparr>it_Progress := Some \<lparr>pg_Operation = step,
                pg_Target = (case cx_DiskLayout install of None \<Rightarrow> [] | Some l \<Rightarrow> lp_TargetDiskPath l),
                pg_StartedAt = iv_now env\<rparr>\<rparr>
       in io_then ctx_done
         (io_then (SaveStatus st) (upd_ctx (\<lambda>c. c\<lparr>cx_progress := Some st, cx_progress_err := None\<rparr>))))"

definition stopProgress :: "(install_host, unit) io" where
  "stopProgress =
     io_bind get_ctx (\<lambda>install.
       if cx_progress install = None then io_ok ()
       else io_then (upd_ctx (\<lambda>c. c\<lparr>cx_progress := None\<rparr>)) (io_need (cx_progress_err install)))"

definition operation_target :: "string \<Rightarrow> string list \<Rightarrow> string" where
  "operation_target disk args = foldl (\<lambda>target a. if HasPrefix a ''/dev/'' then a else target) disk args"

definition reportDiskOperation :: "install_env \<Rightarrow> DiskOperation \<Rightarrow> (install_host, unit) io" where
  "reportDiskOperation env p =
     io_bind get_ctx (\<lambda>install.
       case cx_progress install of
         None \<Rightarrow> io_ok ()
       | Some st \<Rightarrow>
           (case cx_progress_err install of
              Some e \<Rightarrow> io_err e
            | None \<Rightarrow>
                let disk = (case cx_DiskLayout install of None \<Rightarrow> [] | Some l \<Rightarrow> lp_TargetDiskPath l);
                    st' = st\<lparr>it_Progress := Some \<lparr>pg_Operation = op_Name p, pg_Target = operation_target disk (op_Args p),
                               pg_StartedAt = iv_now env\<rparr>, it_UpdatedAt := iv_now env\<rparr>
                in io_then (upd_ctx (\<lambda>c. c\<lparr>cx_progress := Some st'\<rparr>))
                  (io_bind (io_catch (SaveStatus st')) (\<lambda>saved.
                     io_then (upd_ctx (\<lambda>c. c\<lparr>cx_progress_err := error_of saved\<rparr>)) (io_lift saved)))))"

definition recordStep :: "install_env \<Rightarrow> string \<Rightarrow> (install_host, unit) io" where
  "recordStep env sid =
     io_then stopProgress
    (io_then (upd_ctx (\<lambda>c. c\<lparr>cx_Completed := cx_Completed c @ [sid]\<rparr>))
    (io_bind get_ctx (\<lambda>install.
     io_then (SaveCheckpoint env sid (cx_Completed install))
    (let st = statusFromContext env install (statusForStep sid) sid None
     in io_then ctx_done (io_then (SaveStatus st) (writeTargetStatus True sid st))))))"

definition recordFailure :: "install_env \<Rightarrow> string \<Rightarrow> err \<Rightarrow> (install_host, unit) io" where
  "recordFailure env sid e =
     io_bind get_ctx (\<lambda>install.
       let st = statusFromContext env install (failureState install sid e) sid (Some e)
       in io_then (SaveStatus st) (writeTargetStatus False sid st))"

section \<open>Commands and disk groups\<close>

definition host_run :: "string \<Rightarrow> string list \<Rightarrow> (install_host, unit) io" where
  "host_run name args =
     ih_call (\<lambda>s. s\<lparr>ih_trace := ih_trace s @ [\<lparr>te_Command = name, te_Args = args, te_Status = ih_status s\<rparr>]\<rparr>)"

definition host_output :: "(trace_entry list \<Rightarrow> string \<Rightarrow> string list \<Rightarrow> string res) \<Rightarrow> string \<Rightarrow> string list \<Rightarrow>
     (install_host, string) io" where
  "host_output answer name args = io_bind (io_get ih_trace) (\<lambda>trace. io_lift (answer trace name args))"

definition host_commands :: "install_env \<Rightarrow> install_host CommandRunner option" where
  "host_commands env =
     (if iv_Commands env then Some \<lparr>cr_Run = host_run, cr_Output = map_option host_output (iv_Output env)\<rparr> else None)"

definition host_temp :: "install_env \<Rightarrow> install_host TempFiles" where
  "host_temp env = \<lparr>tf_MkdirTemp = io_then (ih_call (\<lambda>s. s)) (io_ok (iv_TempDir env)),
     tf_WriteFile = (\<lambda>path data. ih_call (\<lambda>s. s)), tf_RemoveAll = (\<lambda>path. ih_call (\<lambda>s. s))\<rparr>"

definition on_slot_device :: "(slot_device, 'a) io \<Rightarrow> (install_host, 'a) io" where
  "on_slot_device m = (\<lambda>s. case m (ih_device s) of (r, d) \<Rightarrow> (r, s\<lparr>ih_device := d\<rparr>))"

definition host_write :: "install_env \<Rightarrow> RootSlotInstallRequest \<Rightarrow> (install_host, RootSlotInstallResult) io" where
  "host_write env request = on_slot_device (WriteRootSlot (iv_sha256 env) (iv_put env) request)"

definition diskExecutionRequest :: "Context \<Rightarrow> DiskLayoutPlan \<Rightarrow> DiskExecutionRequest" where
  "diskExecutionRequest install layout =
     \<lparr>xr_Plan = layout, xr_RootSlotInstall = None, xr_RetryRootSlot = False,
      xr_AllowDestructive = ic_WipeTarget (im_Install (cx_Manifest install)), xr_DryRun = False,
      xr_TargetMountPrefix = cx_TargetRoot install\<rparr>"

definition install_executor :: "install_env \<Rightarrow> install_host DiskExecutor" where
  "install_executor env = \<lparr>ex_Commands = host_commands env, ex_InstallRootSlot = None, ex_InstallBoot = None,
     ex_RootSlotState = None, ex_RecordStateMounted = None, ex_BeforeOperation = Some (reportDiskOperation env)\<rparr>"

definition executeDiskGroupResult :: "install_env \<Rightarrow> string \<Rightarrow> (install_host, DiskExecutionResult) io" where
  "executeDiskGroupResult env grp =
     io_then ctx_done
    (io_bind get_ctx (\<lambda>install.
       case cx_DiskLayout install of
         None \<Rightarrow> io_ok \<lparr>xs_Operations = [], xs_DryRun = False, xs_Boot = None\<rparr>
       | Some layout \<Rightarrow>
           ExecuteGroup (host_temp env) (host_write env) (install_executor env) (diskExecutionRequest install layout) grp))"

definition executeDiskGroup :: "install_env \<Rightarrow> string \<Rightarrow> (install_host, unit) io" where
  "executeDiskGroup env grp = io_bind (executeDiskGroupResult env grp) (\<lambda>_. io_ok ())"

section \<open>The steps\<close>

definition stub_step :: "install_env \<Rightarrow> string \<Rightarrow> (install_host, unit) io" where
  "stub_step env sid = io_then ctx_done (recordStep env sid)"

definition KatlosImageEmpty :: "KatlosImage \<Rightarrow> bool" where
  "KatlosImageEmpty img \<longleftrightarrow>
     img = \<lparr>ki_ExtensionRelease = None, ki_Flavour = [], ki_URL = [], ki_LocalRef = [], ki_SHA256 = [], ki_SizeBytes = 0,
              ki_Version = [], ki_Architecture = [], ki_RuntimeInterface = [], ki_Role = []\<rparr>"

definition Digest :: "(string \<Rightarrow> string) \<Rightarrow> string \<Rightarrow> string" where
  "Digest sha256 data = EncodeToString (sha256 data)"

text \<open>The digest of a request is that of the manifest encoded again, so that it does not depend on its layout in the file.\<close>

definition DigestManifest :: "install_env \<Rightarrow> InstallManifestDoc \<Rightarrow> string res" where
  "DigestManifest env m =
     (case iv_Marshal env m of
        Inl e \<Rightarrow> Inl (Wrap ''normalize install request: %w'' [] e)
      | Inr data \<Rightarrow> Inr (Digest (iv_sha256 env) data))"

definition load_manifest_step :: "install_env \<Rightarrow> (install_host, unit) io" where
  "load_manifest_step env =
     io_then ctx_done
    (io_bind get_ctx (\<lambda>install.
     io_then (io_reject (cx_ManifestPath install = []) ''manifest path is required'' [])
    (io_bind (io_wrap ''open manifest: %w'' [] (io_lift (iv_ReadManifest env (cx_ManifestPath install)))) (\<lambda>data.
     io_then (upd_ctx (\<lambda>c. c\<lparr>cx_RequestDigest := Digest (iv_sha256 env) data,
        cx_InputSource := (if cx_InputSource c = [] then cx_ManifestPath c else cx_InputSource c)\<rparr>))
    (io_bind (io_lift (iv_Decode env data (cx_DefaultKatlosImage install))) (\<lambda>(decoded, defaulted).
     io_then (upd_ctx (\<lambda>c. c\<lparr>cx_Manifest := decoded,
        cx_KatlosImageFromMedia := (defaulted \<or> \<not> KatlosImageEmpty (cx_DefaultKatlosImage c) \<and>
                                      im_KatlosImage decoded = cx_DefaultKatlosImage c)\<rparr>))
    (io_bind (io_lift (DigestManifest env decoded)) (\<lambda>digest.
     io_then (upd_ctx (\<lambda>c. c\<lparr>cx_RequestDigest := digest\<rparr>))
    (io_bind get_ctx (\<lambda>c.
     io_then (io_need (refuseChangedInterruptedRequest c)) (recordStep env LoadManifest)))))))))))"

definition discover :: "install_env \<Rightarrow> string \<Rightarrow> (install_host, HardwareFacts) io" where
  "discover env missing =
     (case iv_Discovery env of
        None \<Rightarrow> io_fail missing []
      | Some f \<Rightarrow> io_bind (io_get ih_trace) (\<lambda>trace. io_lift (f trace)))"

definition collect_facts_step :: "install_env \<Rightarrow> (install_host, unit) io" where
  "collect_facts_step env =
     io_then ctx_done
    (io_then (io_when (iv_Discovery env \<noteq> None)
       (io_bind (discover env []) (\<lambda>facts. upd_ctx (\<lambda>c. c\<lparr>cx_HardwareFacts := facts\<rparr>))))
     (recordStep env CollectHardwareFacts))"

text \<open>The checks of the image and of the selected extensions that precede the first change of a disk are \<open>iv_VerifyImage\<close>.\<close>

definition verify_image_step :: "install_env \<Rightarrow> (install_host, unit) io" where
  "verify_image_step env =
     io_then ctx_done
    (io_bind get_ctx (\<lambda>install.
     let resolver = (if cx_KatlosImageFromMedia install \<and> iv_MediaKatlosResolver env \<noteq> None
                     then iv_MediaKatlosResolver env else iv_KatlosResolver env)
     in io_then
         (case resolver of
            None \<Rightarrow> io_ok ()
          | Some f \<Rightarrow> io_bind (io_lift (f (im_KatlosImage (cx_Manifest install)))) (\<lambda>payload.
              upd_ctx (\<lambda>c. c\<lparr>cx_KatlosImage := Some payload, cx_imageReleaseAttempted := False\<rparr>)))
        (io_bind get_ctx (\<lambda>c. io_then (io_need (iv_VerifyImage env c)) (recordStep env VerifyTrust)))))"

definition runtimeRootSizeMiB :: "int \<Rightarrow> uint64" where
  "runtimeRootSizeMiB sizeBytes =
     (if sizeBytes \<le> 0 then 0 else of_int ((sizeBytes + 1024 * 1024 - 1) div (1024 * 1024)))"

definition RuntimeArtifact :: "Payload \<Rightarrow> ArtifactVerification" where
  "RuntimeArtifact p = \<lparr>av_Name = cm_Name (py_Runtime p), av_Kind = ArtifactRuntimeRoot, av_SHA256 = cm_SHA256 (py_Runtime p),
     av_SizeBytes = cm_SizeBytes (py_Runtime p)\<rparr>"

definition targetHasKatlOS :: "HardwareFacts \<Rightarrow> string \<Rightarrow> bool" where
  "targetHasKatlOS facts path =
     list_ex (\<lambda>d. bd_Path d = path \<and>
        list_ex (\<lambda>p. bd_GPTLabel p \<in> set [GPTLabelESP, GPTLabelRootA, GPTLabelRootB, GPTLabelState]) (bd_Partitions d))
       (hf_BlockDevices facts)"

definition plan_layout :: "install_env \<Rightarrow> Context \<Rightarrow> Payload \<Rightarrow> (DiskLayoutPlan \<times> RootSlotWritePlan) res" where
  "plan_layout env install payload =
     res_bind (BuildDiskLayoutRequest (im_Install (cx_Manifest install)) (cx_RootProfile install)
        (runtimeRootSizeMiB (cm_SizeBytes (py_Runtime payload)))) (\<lambda>request.
     res_bind (PlanDiskLayout (iv_sha256 env) (cx_HardwareFacts install) request) (\<lambda>layout.
     res_bind (PlanRootSlotWrite layout
        \<lparr>rw_RuntimeArtifact = RuntimeArtifact payload, rw_CurrentSlot = cx_CurrentRootSlot install\<rparr>) (\<lambda>rootPlan.
       Inr (layout, rootPlan))))"

definition planInstall :: "install_env \<Rightarrow> Payload \<Rightarrow> (install_host, unit) io" where
  "planInstall env payload =
     io_bind get_ctx (\<lambda>install.
     io_bind (io_lift (plan_layout env install payload)) (\<lambda>(layout, rootPlan).
     io_then (upd_ctx (\<lambda>c. c\<lparr>cx_DiskLayout := Some layout, cx_RootSlotPlan := Some rootPlan\<rparr>))
       (io_when (TrimSpace (cx_RootPartitionUUID install) \<noteq> [])
         (io_bind get_ctx (\<lambda>c. io_bind (io_lift (iv_FirstInstallRecord env payload rootPlan c))
            (\<lambda>r. upd_ctx (\<lambda>c. c\<lparr>cx_LoaderRecord := Some r\<rparr>)))))))"

definition plan_install_step :: "install_env \<Rightarrow> (install_host, unit) io" where
  "plan_install_step env =
     io_then ctx_done
    (io_bind get_ctx (\<lambda>install.
     io_then
      (case cx_KatlosImage install of
         None \<Rightarrow> io_ok ()
       | Some payload \<Rightarrow>
           io_when (hf_BlockDevices (cx_HardwareFacts install) \<noteq> [])
             (io_then (planInstall env payload)
               (io_bind get_ctx (\<lambda>c.
                  case cx_DiskLayout c of
                    None \<Rightarrow> io_ok ()
                  | Some layout \<Rightarrow>
                      if cx_HaltIfInstalled c \<and> targetHasKatlOS (cx_HardwareFacts c) (lp_TargetDiskPath layout)
                      then io_err (Wrap ''%w on %s; boot the installed disk, or explicitly reinstall with katlctl install apply''
                             [lp_TargetDiskPath layout] ErrInstalledTarget)
                      else io_ok ()))))
      (recordStep env PlanInstall)))"

definition prepare_disk_step :: "install_env \<Rightarrow> (install_host, unit) io" where
  "prepare_disk_step env = io_then (executeDiskGroup env PrepareOperations) (recordStep env PrepareDisk)"

definition create_partitions_step :: "install_env \<Rightarrow> (install_host, unit) io" where
  "create_partitions_step env = io_then (executeDiskGroup env PartitionOperations) (recordStep env CreatePartitions)"

definition generation_binding :: "DiskVolumeBinding \<Rightarrow> VolumeBinding" where
  "generation_binding b =
     \<lparr>vb_Name = db_Name b, vb_PartitionUUID = db_PartitionUUID b, vb_FilesystemUUID = db_FilesystemUUID b\<rparr>"

definition bindInstalledVolumes :: "install_env \<Rightarrow> (install_host, unit) io" where
  "bindInstalledVolumes env =
     io_bind get_ctx (\<lambda>install.
       case cx_DiskLayout install of
         None \<Rightarrow> io_ok ()
       | Some layout \<Rightarrow>
           io_when (lp_VolumeMounts layout \<noteq> [])
             (io_bind (if iv_Discovery env = None
                       then io_fail ''hardware discovery is required to bind installed volumes'' []
                       else io_wrap ''rediscover installed volumes: %w'' [] (discover env [])) (\<lambda>facts.
              io_bind (io_lift (BindVolumePlans facts (lp_VolumeMounts layout))) (\<lambda>(plans, bindings).
                upd_ctx (\<lambda>c. c\<lparr>cx_HardwareFacts := facts, cx_DiskLayout := Some (layout\<lparr>lp_VolumeMounts := plans\<rparr>),
                               cx_VolumeBindings := map generation_binding bindings\<rparr>)))))"

definition format_filesystems_step :: "install_env \<Rightarrow> (install_host, unit) io" where
  "format_filesystems_step env =
     io_then (executeDiskGroup env FormatOperations)
       (io_then (bindInstalledVolumes env) (recordStep env FormatFilesystems))"

definition read_root_uuid :: "install_env \<Rightarrow> RootSlotWritePlan \<Rightarrow> (install_host, unit) io" where
  "read_root_uuid env rootPlan =
     io_bind get_ctx (\<lambda>c.
       io_when (TrimSpace (cx_RootPartitionUUID c) = [])
         (case iv_Output env of
            None \<Rightarrow> io_fail ''command runner must support output to read root partition UUID'' []
          | Some answer \<Rightarrow>
              io_bind (ReadPartUUID (host_output answer) (rt_GPTLabel (wp_TargetPartition rootPlan)))
                (\<lambda>uuid. upd_ctx (\<lambda>c. c\<lparr>cx_RootPartitionUUID := uuid\<rparr>))))"

definition ensure_loader_record :: "install_env \<Rightarrow> (install_host, unit) io" where
  "ensure_loader_record env =
     io_bind get_ctx (\<lambda>install.
       if cx_LoaderRecord install \<noteq> None then io_ok ()
       else case cx_KatlosImage install of
         None \<Rightarrow> io_ok ()
       | Some payload \<Rightarrow>
           (case cx_RootSlotPlan install of
              None \<Rightarrow> io_ok ()
            | Some rootPlan \<Rightarrow>
                io_then (read_root_uuid env rootPlan)
                  (io_bind get_ctx (\<lambda>c. io_bind (io_lift (iv_FirstInstallRecord env payload rootPlan c))
                     (\<lambda>r. upd_ctx (\<lambda>c. c\<lparr>cx_LoaderRecord := Some r\<rparr>))))))"

definition mount_target_step :: "install_env \<Rightarrow> (install_host, unit) io" where
  "mount_target_step env =
     io_then ctx_done
    (io_bind (executeDiskGroupResult env MountOperations) (\<lambda>result.
     io_then (case xs_Boot result of
                None \<Rightarrow> io_ok ()
              | Some boot \<Rightarrow> io_when (TrimSpace (bo_RootPartitionUUID boot) \<noteq> [])
                  (upd_ctx (\<lambda>c. c\<lparr>cx_RootPartitionUUID := bo_RootPartitionUUID boot\<rparr>)))
    (io_then (ensure_loader_record env) (recordStep env MountTarget))))"

definition ComponentPath :: "Payload \<Rightarrow> Component \<Rightarrow> string" where
  "ComponentPath p component = PathJoin [py_Root p, cm_Path component]"

text \<open>The target is given, or opened by its partition label; closing the files has no effect on the model.\<close>

definition open_root_slot :: "install_env \<Rightarrow> RootSlotWritePlan \<Rightarrow> (install_host, unit) io" where
  "open_root_slot env rootPlan =
     (if iv_RootSlotTarget env then io_ok ()
      else if iv_RootSlotOpener env
      then io_then ctx_done
            (io_bind (io_lift (RootSlotDevicePath (wp_TargetPartition rootPlan) [])) (\<lambda>path.
               io_wrap ''open root slot device %s: %w'' [path] (ih_call (\<lambda>s. s))))
      else io_fail ''root slot target is required'' [])"

definition install_root_slot_step :: "install_env \<Rightarrow> (install_host, unit) io" where
  "install_root_slot_step env =
     io_then ctx_done
    (io_bind get_ctx (\<lambda>install.
     case cx_KatlosImage install of
       None \<Rightarrow> if cx_RootSlotPlan install = None then recordStep env InstallRootSlot
               else io_fail ''KatlOS image payload is required to install root slot'' []
     | Some payload \<Rightarrow>
         (case cx_RootSlotPlan install of
            None \<Rightarrow> io_fail ''root slot plan is required'' []
          | Some rootPlan \<Rightarrow>
              io_then (open_root_slot env rootPlan)
             (io_bind (io_wrap ''open runtime root component: %w'' []
                         (io_lift (iv_OpenComponent env (ComponentPath payload (py_Runtime payload))))) (\<lambda>source.
              io_bind (host_write env \<lparr>rq_Plan = rootPlan, rq_Artifact = Some source, rq_Target = True\<rparr>) (\<lambda>_.
                recordStep env InstallRootSlot))))))"

text \<open>A step that only materialises files may replace the loader record; it needs one except where the source does not ask.\<close>

definition materialize_step :: "install_env \<Rightarrow> string \<Rightarrow> bool \<Rightarrow> string \<Rightarrow> (install_host, unit) io" where
  "materialize_step env sid needsRecord what =
     io_then ctx_done
    (io_bind get_ctx (\<lambda>install.
     io_then (io_reject (needsRecord \<and> cx_LoaderRecord install = None) (''loader generation record is required to '' @ what) [])
    (io_bind (io_lift (iv_Materialize env sid install)) (\<lambda>r.
     io_then (upd_ctx (\<lambda>c. c\<lparr>cx_LoaderRecord := r\<rparr>)) (recordStep env sid)))))"

definition install_boot_artifacts_step :: "install_env \<Rightarrow> (install_host, unit) io" where
  "install_boot_artifacts_step env =
     io_bind get_ctx (\<lambda>install.
       if cx_KatlosImage install = None then stub_step env InstallBootArtifacts
       else materialize_step env InstallBootArtifacts True ''install boot artifacts'')"

definition install_seed_step :: "install_env \<Rightarrow> (install_host, unit) io" where
  "install_seed_step env =
     io_bind get_ctx (\<lambda>install.
       if cx_TargetRoot install = [] then io_then ctx_done (io_fail ''target root is required'' [])
       else materialize_step env InstallSeed False [])"

definition verify_target_step :: "install_env \<Rightarrow> (install_host, unit) io" where
  "verify_target_step env =
     io_then ctx_done
    (io_bind get_ctx (\<lambda>install.
     case cx_DiskLayout install of
       None \<Rightarrow> recordStep env VerifyTarget
     | Some layout \<Rightarrow>
         io_bind (discover env ''discovery source is required to verify target layout'') (\<lambda>facts.
         io_then (upd_ctx (\<lambda>c. c\<lparr>cx_HardwareFacts := facts\<rparr>))
        (io_then (io_need (ValidateAppliedLayoutAt facts layout (cx_TargetRoot install)))
          (recordStep env VerifyTarget)))))"

definition closeImage :: "install_env \<Rightarrow> (install_host, unit) io" where
  "closeImage env = io_then (upd_ctx (\<lambda>c. c\<lparr>cx_imageReleaseAttempted := True\<rparr>)) (io_need (iv_CloseImage env))"

definition reboot_step :: "install_env \<Rightarrow> (install_host, unit) io" where
  "reboot_step env =
     io_then ctx_done
    (io_then (io_wrap ''release install image before reboot: %w'' [] (closeImage env))
    (io_then (io_wrap ''persist reboot status: %w'' [] (recordStep env Reboot))
    (io_then (io_wrap ''sync install state: %w'' [] (host_run ''sync'' []))
      (io_wrap ''request system reboot: %w'' []
        (host_run ''systemd-run'' [''--unit=katl-installer-reboot'', ''--on-active=2s'', ''systemctl'', ''--no-block'', ''reboot''])))))"

definition run_step :: "install_env \<Rightarrow> string \<Rightarrow> (install_host, unit) io" where
  "run_step env sid =
     (if sid = LoadManifest then load_manifest_step env
      else if sid = CollectHardwareFacts then collect_facts_step env
      else if sid = VerifyTrust then verify_image_step env
      else if sid = PlanInstall then plan_install_step env
      else if sid = PrepareDisk then prepare_disk_step env
      else if sid = CreatePartitions then create_partitions_step env
      else if sid = FormatFilesystems then format_filesystems_step env
      else if sid = MountTarget then mount_target_step env
      else if sid = InstallRootSlot then install_root_slot_step env
      else if sid = InstallBootArtifacts then install_boot_artifacts_step env
      else if sid = InstallExtensions then materialize_step env InstallExtensions True ''install extensions''
      else if sid = InstallSeed then install_seed_step env
      else if sid = InstallMountUnits then materialize_step env InstallMountUnits True ''install mount units''
      else if sid = WriteInstallRecord then materialize_step env WriteInstallRecord True ''materialize generated confext''
      else if sid = VerifyTarget then verify_target_step env
      else if sid = Reboot then reboot_step env
      else stub_step env sid)"

section \<open>The runner\<close>

text \<open>\<open>errors.Join\<close> of two outcomes.\<close>

definition join_outcomes :: "'a res \<Rightarrow> 'b res \<Rightarrow> unit res" where
  "join_outcomes a b = (case errorsJoin [error_of a, error_of b] of None \<Rightarrow> Inr () | Some e \<Rightarrow> Inl e)"

definition runner_turn :: "install_env \<Rightarrow> string \<Rightarrow> (install_host, unit) io" where
  "runner_turn env sid =
     io_then (io_upd (\<lambda>s. s\<lparr>ih_currentStep := sid\<rparr>))
    (io_then (startProgress env sid)
    (io_bind (io_catch (run_step env sid)) (\<lambda>outcome.
     io_bind (io_catch stopProgress) (\<lambda>stopped. io_lift (join_outcomes outcome stopped)))))"

definition runner_body :: "install_env \<Rightarrow> string list \<Rightarrow> (install_host, unit) io" where
  "runner_body env plan =
     io_then (io_reject (\<not> iv_Commands env) ''command runner is required'' [])
    (io_then (io_reject (\<not> iv_Store env) ''state store is required'' [])
    (io_then loadPreviousStatus (io_each (runner_turn env) plan)))"

text \<open>The deferred function: release the image once, then record a failure under the step that was running.\<close>

definition release_image :: "install_env \<Rightarrow> unit res \<Rightarrow> (install_host, unit res) io" where
  "release_image env outcome =
     io_bind get_ctx (\<lambda>install.
       if cx_imageReleaseAttempted install \<or> (case outcome of Inl e \<Rightarrow> iv_Retained env e | Inr _ \<Rightarrow> False) then io_ok outcome
       else io_bind (io_catch (closeImage env)) (\<lambda>closed. io_ok (join_outcomes outcome closed)))"

definition record_outcome :: "install_env \<Rightarrow> unit res \<Rightarrow> (install_host, unit) io" where
  "record_outcome env outcome =
     io_bind (io_get ih_currentStep) (\<lambda>current.
       case outcome of
         Inr _ \<Rightarrow> io_ok ()
       | Inl e \<Rightarrow>
           if current = [] then io_err e
           else io_bind (io_catch (recordFailure env current e)) (\<lambda>recorded.
             io_err (Wrap ''%s: %w'' [current]
               (case recorded of Inr _ \<Rightarrow> e | Inl f \<Rightarrow> Joined [e, Wrap ''record failure status: %w'' [] f]))))"

definition Runner_Run :: "install_env \<Rightarrow> string list \<Rightarrow> (install_host, unit) io" where
  "Runner_Run env plan =
     io_then (io_upd (\<lambda>s. s\<lparr>ih_currentStep := []\<rparr>))
    (io_bind (io_catch (runner_body env plan)) (\<lambda>outcome.
     io_bind (release_image env outcome) (record_outcome env)))"

end
