(* ===== verification/InstallRunnerFacts.thy ===== *)
theory InstallRunnerFacts
  imports InstallRunner
begin

text \<open>
  What the installer's status file promises. A status announces the mutation of a request when it is marked destructive
  and carries the digest of that request; every command of a run is started under a status that announces it, and the
  status keeps announcing it whatever happens later.
\<close>

section \<open>Announced mutation\<close>

definition marked :: "string \<Rightarrow> InstallStatus \<Rightarrow> bool" where
  "marked d st \<longleftrightarrow> it_DestructiveMutation st \<and> it_RequestDigest st = d"

definition announces :: "string \<Rightarrow> InstallStatus json_file \<Rightarrow> bool" where
  "announces d f \<longleftrightarrow> (\<exists>st. f = File st \<and> marked d st)"

definition good_ctx :: "(string list \<Rightarrow> bool) \<Rightarrow> string \<Rightarrow> Context \<Rightarrow> bool" where
  "good_ctx K d c \<longleftrightarrow> cx_RequestDigest c = d \<and> (\<forall>st. cx_progress c = Some st \<longrightarrow> marked d st) \<and> K (cx_Completed c)"

definition announced :: "(string list \<Rightarrow> bool) \<Rightarrow> string \<Rightarrow> install_host \<Rightarrow> bool" where
  "announced K d s \<longleftrightarrow> good_ctx K d (ih_ctx s) \<and> announces d (ih_status s)"

definition under_notice :: "(string list \<Rightarrow> bool) \<Rightarrow> string \<Rightarrow> install_host \<Rightarrow> install_host \<Rightarrow> bool" where
  "under_notice K d s t \<longleftrightarrow>
     (announced K d s \<longrightarrow> announced K d t \<and> ih_currentStep t = ih_currentStep s \<and>
        (\<exists>es. ih_trace t = ih_trace s @ es \<and> (\<forall>e \<in> set es. announces d (te_Status e))))"

interpretation notice: io_frame "under_notice K d"
proof
  show "under_notice K d s s" for s by (auto simp: under_notice_def)
  show "under_notice K d s u" if "under_notice K d s t" "under_notice K d t u" for s t u
    using that unfolding under_notice_def by (metis (no_types, lifting) Un_iff append_assoc set_append)
qed

lemma notice_get_ctx:
  assumes "\<And>c. good_ctx K d c \<Longrightarrow> io_rel (under_notice K d) (f c)"
  shows "io_rel (under_notice K d) (io_bind get_ctx f)"
proof (rule io_relI)
  fix s
  show "under_notice K d s (snd (io_bind get_ctx f s))"
  proof (cases "announced K d s")
    case True
    then have "io_rel (under_notice K d) (f (ih_ctx s))" using assms by (simp add: announced_def)
    then show ?thesis by (simp add: io_rel_def get_ctx_def io_get_def io_bind_def)
  qed (simp add: under_notice_def)
qed

lemma notice_upd_ctx:
  assumes "\<And>c. good_ctx K d c \<Longrightarrow> good_ctx K d (f c)"
  shows "io_rel (under_notice K d) (upd_ctx f)"
  using assms by (auto simp: io_rel_def upd_ctx_def io_upd_def under_notice_def announced_def)

interpretation host: fault_disk ih_faults "\<lambda>fs s. s\<lparr>ih_faults := fs\<rparr>"
  by unfold_locales simp

lemma notice_call:
  assumes "\<And>s. under_notice K d s (f s)" "\<And>s fs. f (s\<lparr>ih_faults := fs\<rparr>) = (f s)\<lparr>ih_faults := fs\<rparr>"
  shows "io_rel (under_notice K d) (ih_call f)"
proof -
  have fs: "under_notice K d s (t\<lparr>ih_faults := fs\<rparr>) \<longleftrightarrow> under_notice K d s t" for s t fs
    by (simp add: under_notice_def announced_def)
  show ?thesis
    unfolding ih_call_def
    by (rule host.call_frame) (simp_all add: assms fs notice.frame_refl)
qed

lemma notice_plain_calls:
  "io_rel (under_notice K d) (ih_call (\<lambda>s. s))"
  "io_rel (under_notice K d) ctx_done"
  "io_rel (under_notice K d) (ih_call (\<lambda>s. s\<lparr>ih_checkpoint := cp\<rparr>))"
  "io_rel (under_notice K d) (ih_call (\<lambda>s. s\<lparr>ih_target_status := ts\<rparr>))"
  unfolding ctx_done_def by (rule notice_call; simp add: under_notice_def announced_def)+

lemma notice_SaveStatus: "marked d st \<Longrightarrow> io_rel (under_notice K d) (SaveStatus st)"
  unfolding SaveStatus_def
  by (intro notice.rel_wrap notice_call) (auto simp: under_notice_def announced_def announces_def)

lemma notice_run: "io_rel (under_notice K d) (host_run name args)"
  unfolding host_run_def by (rule notice_call) (simp_all add: under_notice_def announced_def)

lemma notice_get: "(\<And>x. io_rel (under_notice K d) (f x)) \<Longrightarrow> io_rel (under_notice K d) (io_bind (io_get g) f)"
  by (intro notice.rel_bind notice.rel_pure)

section \<open>Progress and records\<close>

definition records_step :: "(string list \<Rightarrow> bool) \<Rightarrow> string \<Rightarrow> bool" where
  "records_step K sid \<longleftrightarrow> (\<forall>c. K c \<longrightarrow> K (c @ [sid]) \<and> mutationStarted c sid)"

lemma mutationStarted_append: "mutationStarted c sid \<Longrightarrow> mutationStarted (c @ cs) sid"
  by (auto simp: mutationStarted_def)

lemma marked_statusFromContext:
  "cx_RequestDigest c = d \<Longrightarrow> mutationStarted (cx_Completed c) sid \<Longrightarrow> marked d (statusFromContext env c state sid e)"
  by (simp add: marked_def statusFromContext_def)

lemma marked_progress [simp]: "marked d (st\<lparr>it_Progress := p\<rparr>) = marked d st" "marked d (st\<lparr>it_UpdatedAt := u\<rparr>) = marked d st"
  by (simp_all add: marked_def)

lemma notice_startProgress:
  assumes "records_step K sid"
  shows "io_rel (under_notice K d) (startProgress env sid)"
  unfolding startProgress_def Let_def
proof (rule notice_get_ctx)
  fix c
  assume "good_ctx K d c"
  then have m: "marked d (statusFromContext env c StateRunning sid None)"
    using assms by (auto simp: good_ctx_def records_step_def intro: marked_statusFromContext)
  then show "io_rel (under_notice K d)
     (io_then ctx_done (io_then (SaveStatus ((statusFromContext env c StateRunning sid None)
         \<lparr>it_Progress := Some \<lparr>pg_Operation = sid,
            pg_Target = (case cx_DiskLayout c of None \<Rightarrow> [] | Some l \<Rightarrow> lp_TargetDiskPath l), pg_StartedAt = iv_now env\<rparr>\<rparr>))
       (upd_ctx (\<lambda>ctx. ctx\<lparr>cx_progress := Some ((statusFromContext env c StateRunning sid None)
         \<lparr>it_Progress := Some \<lparr>pg_Operation = sid,
            pg_Target = (case cx_DiskLayout c of None \<Rightarrow> [] | Some l \<Rightarrow> lp_TargetDiskPath l), pg_StartedAt = iv_now env\<rparr>\<rparr>),
         cx_progress_err := None\<rparr>))))"
    by (intro notice.rel_then notice_plain_calls notice_SaveStatus notice_upd_ctx) (simp_all add: good_ctx_def)
qed

lemma notice_stopProgress: "io_rel (under_notice K d) stopProgress"
  unfolding stopProgress_def
  by (intro notice_get_ctx notice.rel_if notice.rel_then notice.rel_pure notice_upd_ctx) (simp add: good_ctx_def)

lemma notice_reportDiskOperation: "io_rel (under_notice K d) (reportDiskOperation env p)"
  unfolding reportDiskOperation_def Let_def
  by (intro notice_get_ctx notice.rel_option notice.rel_then notice.rel_bind notice.rel_catch notice.rel_pure notice_upd_ctx
      notice_SaveStatus) (auto simp: good_ctx_def)

lemma notice_writeTargetStatus: "io_rel (under_notice K d) (writeTargetStatus b sid st)"
  unfolding writeTargetStatus_def
  by (intro notice_get_ctx notice.rel_when notice.rel_then notice.rel_wrap notice.rel_pure notice_plain_calls)

lemma notice_SaveCheckpoint: "io_rel (under_notice K d) (SaveCheckpoint env sid c)"
  unfolding SaveCheckpoint_def Let_def by (intro notice.rel_then notice.rel_wrap notice_plain_calls)

lemma notice_recordStep:
  assumes "records_step K sid"
  shows "io_rel (under_notice K d) (recordStep env sid)"
  unfolding recordStep_def Let_def
proof (intro notice.rel_then notice_stopProgress notice_get_ctx notice_SaveCheckpoint notice_plain_calls notice_writeTargetStatus
    notice_SaveStatus)
  show "io_rel (under_notice K d) (upd_ctx (\<lambda>c. c\<lparr>cx_Completed := cx_Completed c @ [sid]\<rparr>))"
    by (rule notice_upd_ctx) (use assms in \<open>auto simp: good_ctx_def records_step_def\<close>)
  show "marked d (statusFromContext env c (statusForStep sid) sid None)" if "good_ctx K d c" for c
    using that assms by (auto simp: good_ctx_def records_step_def intro: marked_statusFromContext)
qed

section \<open>Steps under notice\<close>

lemma notice_host_write: "io_rel (under_notice K d) (host_write env q)"
  by (auto simp: io_rel_def host_write_def on_slot_device_def under_notice_def announced_def split: prod.splits)

interpretation install_disk: disk_execution "under_notice K d" "host_temp env" "install_executor env" "host_write env"
proof
  fix c name args
  assume "ex_Commands (install_executor env) = Some c"
  then have c: "cr_Run c = host_run" "cr_Output c = map_option host_output (iv_Output env)"
    by (auto simp: install_executor_def host_commands_def split: if_splits)
  show "io_rel (under_notice K d) (cr_Run c name args)" by (simp add: c notice_run)
  show "io_rel (under_notice K d) (f name args)" if "cr_Output c = Some f" for f
    using that unfolding c host_output_def by (auto intro!: notice_get notice.rel_pure)
next
  show "io_rel (under_notice K d) (tf_MkdirTemp (host_temp env))" "io_rel (under_notice K d) (tf_WriteFile (host_temp env) path data)"
    "io_rel (under_notice K d) (tf_RemoveAll (host_temp env) path)" for path data
    by (simp_all add: host_temp_def notice_plain_calls notice.rel_then notice.rel_pure)
  show "io_rel (under_notice K d) (g p)" if "ex_BeforeOperation (install_executor env) = Some g" for g p
    using that by (auto simp: install_executor_def notice_reportDiskOperation)
  show "ex_InstallRootSlot (install_executor env) = None" "ex_InstallBoot (install_executor env) = None"
    "ex_RecordStateMounted (install_executor env) = None" "ex_RootSlotState (install_executor env) = None"
    by (simp_all add: install_executor_def)
  show "io_rel (under_notice K d) (host_write env q)" for q by (rule notice_host_write)
qed

lemma notice_group: "io_rel (under_notice K d) (executeDiskGroupResult env grp)"
  unfolding executeDiskGroupResult_def
  by (intro notice.rel_then notice_plain_calls notice_get_ctx notice.rel_option notice.rel_pure install_disk.group_stays)

lemma notice_discover: "io_rel (under_notice K d) (discover env missing)"
  unfolding discover_def by (intro notice.rel_option notice.rel_pure notice_get)

lemma notice_ReadPartUUID: "io_rel (under_notice K d) (ReadPartUUID (host_output answer) label)"
  unfolding ReadPartUUID_def host_output_def
  by (intro notice.rel_bind notice.rel_wrap notice.rel_if notice.rel_pure notice_get)

lemma good_ctx_upd [simp]:
  "good_ctx K d (c\<lparr>cx_HardwareFacts := a1\<rparr>) = good_ctx K d c" "good_ctx K d (c\<lparr>cx_DiskLayout := a2\<rparr>) = good_ctx K d c"
  "good_ctx K d (c\<lparr>cx_VolumeBindings := a3\<rparr>) = good_ctx K d c" "good_ctx K d (c\<lparr>cx_RootPartitionUUID := a4\<rparr>) = good_ctx K d c"
  "good_ctx K d (c\<lparr>cx_LoaderRecord := a5\<rparr>) = good_ctx K d c" "good_ctx K d (c\<lparr>cx_imageReleaseAttempted := a6\<rparr>) = good_ctx K d c"
  by (simp_all add: good_ctx_def)

lemma notice_ctx: "io_rel (under_notice K d) get_ctx"
  by (simp add: get_ctx_def notice.rel_pure)

lemmas notice_steps = notice.rel_then notice.rel_bind notice.rel_when notice.rel_wrap notice.rel_prod notice.rel_if
  notice.rel_option notice.rel_pure notice_plain_calls notice_ctx notice_upd_ctx notice_group notice_discover notice_ReadPartUUID

lemma notice_bindInstalledVolumes: "io_rel (under_notice K d) (bindInstalledVolumes env)"
  unfolding bindInstalledVolumes_def by (intro notice_steps) simp

lemma notice_read_root_uuid: "io_rel (under_notice K d) (read_root_uuid env rootPlan)"
  unfolding read_root_uuid_def by (intro notice_steps) simp

lemma notice_ensure_loader_record: "io_rel (under_notice K d) (ensure_loader_record env)"
  unfolding ensure_loader_record_def by (intro notice_read_root_uuid notice_steps) simp

lemma notice_open_root_slot: "io_rel (under_notice K d) (open_root_slot env rootPlan)"
  unfolding open_root_slot_def by (intro notice_steps)

lemma notice_disk_steps:
  "records_step K PrepareDisk \<Longrightarrow> io_rel (under_notice K d) (prepare_disk_step env)"
  "records_step K CreatePartitions \<Longrightarrow> io_rel (under_notice K d) (create_partitions_step env)"
  "records_step K FormatFilesystems \<Longrightarrow> io_rel (under_notice K d) (format_filesystems_step env)"
  "records_step K MountTarget \<Longrightarrow> io_rel (under_notice K d) (mount_target_step env)"
  "records_step K InstallRootSlot \<Longrightarrow> io_rel (under_notice K d) (install_root_slot_step env)"
  unfolding prepare_disk_step_def create_partitions_step_def format_filesystems_step_def executeDiskGroup_def
    mount_target_step_def install_root_slot_step_def
  by (intro notice_bindInstalledVolumes notice_recordStep notice_ensure_loader_record notice_open_root_slot notice_host_write
      notice_steps; simp)+

lemma notice_materialize_step:
  "records_step K sid \<Longrightarrow> io_rel (under_notice K d) (materialize_step env sid b what)"
  unfolding materialize_step_def by (intro notice_recordStep notice_steps) simp_all

lemma notice_closeImage: "io_rel (under_notice K d) (closeImage env)"
  unfolding closeImage_def by (intro notice_steps) simp

lemma notice_late_steps:
  assumes "\<And>sid. records_step K sid"
  shows "io_rel (under_notice K d) (stub_step env sid)" "io_rel (under_notice K d) (install_boot_artifacts_step env)"
    "io_rel (under_notice K d) (install_seed_step env)" "io_rel (under_notice K d) (verify_target_step env)"
    "io_rel (under_notice K d) (reboot_step env)"
  unfolding stub_step_def install_boot_artifacts_step_def install_seed_step_def verify_target_step_def reboot_step_def
  by (intro notice_materialize_step notice_recordStep notice_closeImage notice_run assms notice_steps; simp)+

lemma notice_run_step:
  assumes K: "\<And>sid. records_step K sid" and later: "sid \<notin> {LoadManifest, CollectHardwareFacts, VerifyTrust, PlanInstall}"
  shows "io_rel (under_notice K d) (run_step env sid)"
  using later unfolding run_step_def
  by (simp add: notice_disk_steps notice_materialize_step notice_late_steps K)

lemma notice_turn:
  assumes start: "records_step K sid" and step: "io_rel (under_notice K d) (run_step env sid)"
    and s: "announced K d s" and run: "runner_turn env sid s = (r, t)"
  shows "announced K d t \<and> (\<exists>es. ih_trace t = ih_trace s @ es \<and> (\<forall>e \<in> set es. announces d (te_Status e))) \<and> ih_currentStep t = sid"
proof -
  let ?u = "s\<lparr>ih_currentStep := sid\<rparr>"
  let ?rest = "io_then (startProgress env sid) (io_bind (io_catch (run_step env sid)) (\<lambda>outcome.
     io_bind (io_catch stopProgress) (\<lambda>stopped. io_lift (join_outcomes outcome stopped))))"
  have "io_rel (under_notice K d) ?rest"
    by (intro notice.rel_then notice.rel_bind notice.rel_catch notice.rel_pure notice_startProgress notice_stopProgress start step)
  moreover have "?rest ?u = (r, t)"
    using run by (simp add: runner_turn_def io_then_def io_bind_def io_upd_def)
  ultimately have "under_notice K d ?u t" by (rule io_relD)
  with s show ?thesis by (auto simp: under_notice_def announced_def)
qed

section \<open>The steps before the disk is touched\<close>

definition no_commands :: "install_host \<Rightarrow> install_host \<Rightarrow> bool" where
  "no_commands s t \<longleftrightarrow> ih_trace t = ih_trace s"

interpretation quiet: io_frame no_commands
  by unfold_locales (auto simp: no_commands_def)

lemma quiet_ctx: "io_rel no_commands get_ctx" "io_rel no_commands (upd_ctx f)"
  by (simp_all add: get_ctx_def upd_ctx_def io_rel_def io_get_def io_upd_def no_commands_def)

lemma quiet_call:
  assumes "\<And>s. ih_trace (f s) = ih_trace s"
  shows "io_rel no_commands (ih_call f)"
  unfolding ih_call_def by (rule host.call_frame) (simp_all add: no_commands_def assms)

lemma quiet_calls: "io_rel no_commands ctx_done" "io_rel no_commands (SaveStatus st)" "io_rel no_commands (SaveCheckpoint env sid c)"
  "io_rel no_commands LoadStatus"
  unfolding ctx_done_def SaveStatus_def SaveCheckpoint_def LoadStatus_def Let_def
  by (auto intro!: quiet.rel_then quiet.rel_bind quiet.rel_wrap quiet.rel_pure quiet_call split: json_file.splits)

lemmas quiet_steps = quiet.rel_then quiet.rel_bind quiet.rel_when quiet.rel_wrap quiet.rel_prod quiet.rel_if quiet.rel_catch
  quiet.rel_option quiet.rel_sum quiet.rel_pure quiet_ctx quiet_calls quiet_call

lemma quiet_progress:
  "io_rel no_commands (startProgress env sid)" "io_rel no_commands stopProgress"
  "io_rel no_commands (writeTargetStatus b sid st)" "io_rel no_commands (recordFailure env sid e)"
  "io_rel no_commands (closeImage env)" "io_rel no_commands loadPreviousStatus"
  unfolding startProgress_def stopProgress_def writeTargetStatus_def recordFailure_def closeImage_def loadPreviousStatus_def Let_def
  by (intro quiet_steps; simp)+

lemma quiet_recordStep: "io_rel no_commands (recordStep env sid)"
  unfolding recordStep_def Let_def by (intro quiet_steps quiet_progress)

lemma quiet_discover: "io_rel no_commands (discover env missing)"
  unfolding discover_def by (intro quiet_steps)

lemma quiet_early_steps:
  "io_rel no_commands (stub_step env sid)" "io_rel no_commands (load_manifest_step env)"
  "io_rel no_commands (collect_facts_step env)" "io_rel no_commands (verify_image_step env)"
  "io_rel no_commands (plan_install_step env)"
  unfolding stub_step_def load_manifest_step_def collect_facts_step_def verify_image_step_def plan_install_step_def
    planInstall_def Let_def
  by (intro quiet_recordStep quiet_discover quiet_steps)+

definition early_steps :: "string list" where
  "early_steps = [DiscoverInstallerInput, WaitForLocalConfig, LoadManifest, SelectNode, CollectHardwareFacts, VerifyTrust, PlanInstall]"

lemmas step_ids = DiscoverInstallerInput_def WaitForLocalConfig_def LoadManifest_def SelectNode_def CollectHardwareFacts_def
  VerifyTrust_def PlanInstall_def PrepareDisk_def CreatePartitions_def FormatFilesystems_def MountTarget_def
  InstallRootSlot_def InstallBootArtifacts_def InstallExtensions_def InstallSeed_def InstallMountUnits_def
  WriteInstallRecord_def VerifyTarget_def Reboot_def

lemma early_run_step:
  "run_step env DiscoverInstallerInput = stub_step env DiscoverInstallerInput"
  "run_step env WaitForLocalConfig = stub_step env WaitForLocalConfig"
  "run_step env SelectNode = stub_step env SelectNode" "run_step env LoadManifest = load_manifest_step env"
  "run_step env CollectHardwareFacts = collect_facts_step env" "run_step env VerifyTrust = verify_image_step env"
  "run_step env PlanInstall = plan_install_step env" "run_step env PrepareDisk = prepare_disk_step env"
  by (simp_all add: run_step_def step_ids)

lemma quiet_early_turn: "sid \<in> set early_steps \<Longrightarrow> io_rel no_commands (runner_turn env sid)"
proof -
  assume "sid \<in> set early_steps"
  then have "io_rel no_commands (run_step env sid)"
    unfolding early_steps_def by (auto simp: early_run_step quiet_early_steps)
  then show ?thesis
    unfolding runner_turn_def
    by (intro quiet_progress quiet_steps) (simp_all add: io_rel_def io_upd_def no_commands_def)
qed

section \<open>A whole run\<close>

lemma io_each_append: "io_each f (xs @ ys) = io_then (io_each f xs) (io_each f ys)"
proof (induction xs)
  case (Cons x xs)
  then show ?case by (auto simp: io_then_def io_bind_def fun_eq_iff split: prod.splits sum.splits)
qed (auto simp: io_then_def io_bind_def io_ok_def)

definition late_steps :: "string list" where
  "late_steps = [CreatePartitions, FormatFilesystems, MountTarget, InstallRootSlot, InstallBootArtifacts, InstallExtensions,
     InstallSeed, InstallMountUnits, WriteInstallRecord, VerifyTarget, Reboot]"

lemma NewPlan_split: "\<exists>pre. NewPlan b = pre @ PrepareDisk # late_steps \<and> set pre \<subseteq> set early_steps"
  by (rule exI [of _ "takeWhile (\<lambda>i. i \<noteq> PrepareDisk) (NewPlan b)"])
     (simp add: NewPlan_def late_steps_def early_steps_def step_ids)

abbreviation prepared :: "string list \<Rightarrow> bool" where "prepared c \<equiv> PrepareDisk \<in> set c"

lemma records_prepared: "records_step prepared sid" "records_step (\<lambda>_. True) PrepareDisk"
  by (auto simp: records_step_def mutationStarted_def list_ex_iff)

lemma announced_weaken: "announced K d s \<Longrightarrow> L (cx_Completed (ih_ctx s)) \<Longrightarrow> announced L d s"
  by (simp add: announced_def good_ctx_def)

lemma late_turns:
  assumes "set ids \<subseteq> set late_steps" "announced prepared d s" "io_each (runner_turn env) ids s = (r, t)"
  shows "announced prepared d t \<and> (\<exists>es. ih_trace t = ih_trace s @ es \<and> (\<forall>e \<in> set es. announces d (te_Status e)))"
  using assms
proof (induction ids arbitrary: s)
  case Nil
  then show ?case by (auto simp: io_ok_def)
next
  case (Cons sid ids)
  have step: "io_rel (under_notice prepared d) (run_step env sid)"
    by (rule notice_run_step [OF records_prepared(1)]) (use Cons.prems(1) in \<open>auto simp: late_steps_def step_ids\<close>)
  obtain a u where turn: "runner_turn env sid s = (a, u)" by (cases "runner_turn env sid s")
  note n = notice_turn [OF records_prepared(1) step Cons.prems(2) turn]
  show ?case
  proof (cases a)
    case (Inl e)
    with Cons.prems(3) turn have "t = u" by (simp add: io_then_def io_bind_def)
    with n show ?thesis by blast
  next
    case (Inr x)
    with Cons.prems(3) turn have "io_each (runner_turn env) ids u = (r, t)" by (simp add: io_then_def io_bind_def)
    with Cons.IH [of u] Cons.prems(1) n have
      "announced prepared d t \<and> (\<exists>es. ih_trace t = ih_trace u @ es \<and> (\<forall>e \<in> set es. announces d (te_Status e)))" by auto
    with n show ?thesis by (metis (no_types, lifting) Un_iff append_assoc set_append)
  qed
qed

definition recorded_steps :: "install_host \<Rightarrow> install_host \<Rightarrow> bool" where
  "recorded_steps s t \<longleftrightarrow> cx_Completed (ih_ctx t) = cx_Completed (ih_ctx s) \<and>
     cx_RequestDigest (ih_ctx t) = cx_RequestDigest (ih_ctx s) \<and> ih_currentStep t = ih_currentStep s"

interpretation recorded: io_frame recorded_steps
  by unfold_locales (auto simp: recorded_steps_def)

lemma recorded_calls:
  "(\<And>s. ih_ctx (f s) = ih_ctx s \<and> ih_currentStep (f s) = ih_currentStep s) \<Longrightarrow> io_rel recorded_steps (ih_call f)"
  "io_rel recorded_steps get_ctx"
  "(\<And>c. cx_Completed (f' c) = cx_Completed c \<and> cx_RequestDigest (f' c) = cx_RequestDigest c) \<Longrightarrow> io_rel recorded_steps (upd_ctx f')"
  unfolding ih_call_def
  by (rule host.call_frame; simp add: recorded_steps_def)
     (simp_all add: get_ctx_def upd_ctx_def io_rel_def io_get_def io_upd_def recorded_steps_def)

lemma recorded_progress:
  "io_rel recorded_steps (startProgress env sid)" "io_rel recorded_steps stopProgress"
  "io_rel recorded_steps (SaveCheckpoint env sid c)" "io_rel recorded_steps (SaveStatus st)"
  "io_rel recorded_steps (writeTargetStatus b sid st)" "io_rel recorded_steps ctx_done"
  unfolding startProgress_def stopProgress_def SaveCheckpoint_def SaveStatus_def writeTargetStatus_def ctx_done_def Let_def
  by (intro recorded.rel_then recorded.rel_bind recorded.rel_if recorded.rel_when recorded.rel_wrap recorded.rel_pure
      recorded_calls; simp)+

lemma recordStep_completed:
  assumes "recordStep env sid s = (Inr x, t)"
  shows "sid \<in> set (cx_Completed (ih_ctx t))"
proof -
  let ?rest = "io_bind get_ctx (\<lambda>install.
     io_then (SaveCheckpoint env sid (cx_Completed install))
    (let st = statusFromContext env install (statusForStep sid) sid None
     in io_then ctx_done (io_then (SaveStatus st) (writeTargetStatus True sid st))))"
  obtain u where u: "?rest (u\<lparr>ih_ctx := (ih_ctx u)\<lparr>cx_Completed := cx_Completed (ih_ctx u) @ [sid]\<rparr>\<rparr>) = (Inr x, t)"
    using assms by (auto simp: recordStep_def io_then_Inr upd_ctx_def io_upd_run)
  have "io_rel recorded_steps ?rest"
    unfolding Let_def by (intro recorded.rel_bind recorded.rel_then recorded_progress recorded_calls)
  from io_relD [OF this u] show ?thesis by (simp add: recorded_steps_def)
qed

lemma call_Inr:
  assumes "ih_call f s = (Inr x, t)"
  obtains fs where "t = f (s\<lparr>ih_faults := fs\<rparr>)"
  using assms unfolding ih_call_def by (cases rule: host.call_cases) auto

lemma startProgress_announces:
  assumes "startProgress env sid s = (Inr x, t)" and "mutationStarted (cx_Completed (ih_ctx s)) sid" "K (cx_Completed (ih_ctx s))"
  shows "announced K (cx_RequestDigest (ih_ctx s)) t"
proof -
  define st where "st = (statusFromContext env (ih_ctx s) StateRunning sid None)
             \<lparr>it_Progress := Some \<lparr>pg_Operation = sid,
                pg_Target = (case cx_DiskLayout (ih_ctx s) of None \<Rightarrow> [] | Some l \<Rightarrow> lp_TargetDiskPath l),
                pg_StartedAt = iv_now env\<rparr>\<rparr>"
  have m: "marked (cx_RequestDigest (ih_ctx s)) st"
    using assms(2) by (simp add: st_def marked_statusFromContext)
  from assms(1) obtain u v where u: "ih_call (\<lambda>s. s) s = (Inr (), u)"
    and v: "ih_call (\<lambda>s. s\<lparr>ih_status := File st\<rparr>) u = (Inr (), v)"
    and t: "t = v\<lparr>ih_ctx := (ih_ctx v)\<lparr>cx_progress := Some st, cx_progress_err := None\<rparr>\<rparr>"
    by (auto simp: startProgress_def get_ctx_def io_run Let_def st_def ctx_done_def SaveStatus_def upd_ctx_def)
  obtain fs gs where "u = s\<lparr>ih_faults := fs\<rparr>" "v = (u\<lparr>ih_faults := gs\<rparr>)\<lparr>ih_status := File st\<rparr>"
    using call_Inr [OF u] call_Inr [OF v] by metis
  with m assms(3) show ?thesis
    by (simp add: t announced_def good_ctx_def announces_def)
qed

text \<open>What has been shown when a run stops: no command yet, or the mutation is announced and stays announced.\<close>

definition noticed :: "install_host \<Rightarrow> install_host \<Rightarrow> bool" where
  "noticed s t \<longleftrightarrow>
     (\<exists>es. ih_trace t = ih_trace s @ es \<and> (\<forall>e \<in> set es. announces (cx_RequestDigest (ih_ctx t)) (te_Status e)) \<and>
        (es \<noteq> [] \<longrightarrow> (\<exists>K. announced K (cx_RequestDigest (ih_ctx t)) t \<and> (\<forall>c. K c \<longrightarrow> mutationStarted c (ih_currentStep t)))))"

lemma noticed_quiet: "ih_trace t = ih_trace s \<Longrightarrow> noticed s t"
  by (simp add: noticed_def)

lemma noticed_from: "no_commands s u \<Longrightarrow> noticed u t \<Longrightarrow> noticed s t"
  by (simp add: noticed_def no_commands_def)

lemma announced_digest: "announced K d t \<Longrightarrow> cx_RequestDigest (ih_ctx t) = d"
  by (simp add: announced_def good_ctx_def)

lemma noticedI:
  assumes "announced K d t" "ih_trace t = ih_trace s @ es" "\<forall>e \<in> set es. announces d (te_Status e)"
    "\<forall>c. K c \<longrightarrow> mutationStarted c (ih_currentStep t)"
  shows "noticed s t"
  using assms announced_digest [OF assms(1)] unfolding noticed_def by blast

lemma prepare_turn:
  assumes run: "runner_turn env PrepareDisk s = (r, t)"
  shows "noticed s t \<and> (r = Inr () \<longrightarrow> announced prepared (cx_RequestDigest (ih_ctx t)) t \<and>
     (\<exists>es. ih_trace t = ih_trace s @ es \<and> (\<forall>e \<in> set es. announces (cx_RequestDigest (ih_ctx t)) (te_Status e))))"
proof -
  let ?u = "s\<lparr>ih_currentStep := PrepareDisk\<rparr>" and ?all = "\<lambda>_ :: string list. True"
  let ?rest = "io_bind (io_catch (run_step env PrepareDisk)) (\<lambda>outcome.
     io_bind (io_catch stopProgress) (\<lambda>stopped. io_lift (join_outcomes outcome stopped)))"
  obtain a v where start: "startProgress env PrepareDisk ?u = (a, v)" by (cases "startProgress env PrepareDisk ?u")
  have q: "ih_trace v = ih_trace s" using io_relD [OF quiet_progress(1) start] by (simp add: no_commands_def)
  have c: "ih_currentStep v = PrepareDisk" using io_relD [OF recorded_progress(1) start] by (simp add: recorded_steps_def)
  show ?thesis
  proof (cases a)
    case (Inl e)
    then have "r = Inl e" "t = v" using run start by (auto simp: runner_turn_def io_then_def io_bind_def io_upd_def)
    then show ?thesis using noticed_quiet q by simp
  next
    case (Inr x)
    define d where "d = cx_RequestDigest (ih_ctx s)"
    have v: "announced ?all d v"
      using startProgress_announces [of env PrepareDisk ?u x v ?all] start Inr by (simp add: mutationStarted_def d_def)
    have rest: "?rest v = (r, t)" using run start Inr by (simp add: runner_turn_def io_then_def io_bind_def io_upd_def)
    have "io_rel (under_notice ?all d) ?rest"
      using notice_disk_steps(1) [OF records_prepared(2)]
      by (intro notice.rel_bind notice.rel_catch notice.rel_pure notice_stopProgress) (simp add: early_run_step)
    from io_relD [OF this rest] v obtain es where t: "announced ?all d t" "ih_currentStep t = PrepareDisk"
      "ih_trace t = ih_trace s @ es" "\<forall>e \<in> set es. announces d (te_Status e)"
      by (auto simp: under_notice_def c q)
    have n: "noticed s t" by (rule noticedI [OF t(1,3,4)]) (simp add: t(2) mutationStarted_def)
    have "announced prepared d t" if "r = Inr ()"
    proof (rule announced_weaken [OF t(1)])
      from rest that obtain w where w: "run_step env PrepareDisk v = (Inr (), w)" and st: "snd (stopProgress w) = t"
        by (cases "run_step env PrepareDisk v"; cases "fst (run_step env PrepareDisk v)"; cases "stopProgress (snd (run_step env PrepareDisk v))")
           (auto simp: io_bind_def io_catch_def io_lift_def join_outcomes_def errorsJoin_def map_filter_def split: option.splits list.splits)
      from w obtain w0 where "recordStep env PrepareDisk w0 = (Inr (), w)"
        by (auto simp: early_run_step prepare_disk_step_def io_run)
      then have "prepared (cx_Completed (ih_ctx w))" by (rule recordStep_completed)
      moreover obtain b where "stopProgress w = (b, t)" using st by (metis prod.collapse)
      ultimately show "prepared (cx_Completed (ih_ctx t))"
        using io_relD [OF recorded_progress(2)] by (metis recorded_steps_def)
    qed
    then show ?thesis using n t announced_digest [OF t(1)] by auto
  qed
qed

lemma io_then_split:
  assumes "io_then m n s = (r, t)"
  obtains (stop) e where "m s = (Inl e, t)" "r = Inl e" | (go) x u where "m s = (Inr x, u)" "n u = (r, t)"
  using assms by (cases "m s"; cases "fst (m s)") (auto simp: io_then_def io_bind_def)

lemma late_noticed:
  assumes "announced prepared d u" "ih_trace u = ih_trace s @ es" "\<forall>e \<in> set es. announces d (te_Status e)"
    and run: "io_each (runner_turn env) late_steps u = (r, t)"
  shows "noticed s t"
proof -
  obtain fs where t: "announced prepared d t" "ih_trace t = ih_trace u @ fs" "\<forall>e \<in> set fs. announces d (te_Status e)"
    using late_turns [OF _ assms(1) run] by blast
  then show ?thesis
    using assms(2,3) by (intro noticedI [OF t(1), of s "es @ fs"]) (auto simp: mutationStarted_def list_ex_iff)
qed

lemma turns_noticed:
  assumes run: "io_each (runner_turn env) (NewPlan b) s = (r, t)"
  shows "noticed s t"
proof -
  obtain pre where pre: "NewPlan b = pre @ PrepareDisk # late_steps" "set pre \<subseteq> set early_steps"
    using NewPlan_split by blast
  have q: "io_rel no_commands (io_each (runner_turn env) pre)"
    using pre(2) by (intro quiet.rel_each quiet_early_turn) auto
  from run have "io_then (io_each (runner_turn env) pre)
     (io_then (runner_turn env PrepareDisk) (io_each (runner_turn env) late_steps)) s = (r, t)"
    by (simp add: pre(1) io_each_append)
  then show ?thesis
  proof (cases rule: io_then_split)
    case (stop e)
    then show ?thesis using io_relD [OF q stop(1)] noticed_quiet by (simp add: no_commands_def)
  next
    case (go x u)
    have n: "no_commands s u" by (rule io_relD [OF q go(1)])
    from go(2) have "noticed u t"
    proof (cases rule: io_then_split)
      case (stop e)
      then show ?thesis using prepare_turn by blast
    next
      case (go x' v)
      then obtain es where "announced prepared (cx_RequestDigest (ih_ctx v)) v" "ih_trace v = ih_trace u @ es"
        "\<forall>e \<in> set es. announces (cx_RequestDigest (ih_ctx v)) (te_Status e)"
        using prepare_turn [OF go(1)] by auto
      then show ?thesis using go(2) by (rule late_noticed)
    qed
    with n show ?thesis by (rule noticed_from)
  qed
qed

lemma body_noticed:
  assumes "runner_body env (NewPlan b) s = (r, t)"
  shows "noticed s t"
proof -
  have q: "io_rel no_commands (io_reject c f as)" "io_rel no_commands loadPreviousStatus" for c f as
    by (simp_all add: quiet.rel_pure quiet_progress)
  from assms show ?thesis unfolding runner_body_def
    by (elim io_then_split)
       (auto dest!: io_relD [OF q(1)] io_relD [OF q(2)] turns_noticed
         intro: noticed_quiet noticed_from simp: no_commands_def noticed_def)
qed

lemma record_outcome_quiet:
  assumes "record_outcome env outcome u = (r, t)"
  shows "no_commands u t"
  using assms by (cases outcome; cases "ih_currentStep u = []")
    (auto simp: record_outcome_def io_bind_def io_get_def io_ok_def io_err_def io_catch_def no_commands_def
      dest!: io_relD [OF quiet_progress(4)] split: prod.splits)

lemma noticed_record:
  assumes n: "noticed s u" and run: "record_outcome env outcome u = (r, t)"
  shows "noticed s t"
proof -
  have quiet: "no_commands u t" by (rule record_outcome_quiet [OF run])
  show ?thesis
  proof (cases "ih_trace u = ih_trace s")
    case True
    with quiet show ?thesis by (simp add: noticed_quiet no_commands_def)
  next
    case False
    with n obtain K es where u: "announced K (cx_RequestDigest (ih_ctx u)) u" "ih_trace u = ih_trace s @ es"
      "\<forall>e \<in> set es. announces (cx_RequestDigest (ih_ctx u)) (te_Status e)" "\<forall>c. K c \<longrightarrow> mutationStarted c (ih_currentStep u)"
      by (auto simp: noticed_def)
    let ?d = "cx_RequestDigest (ih_ctx u)"
    have f: "io_rel (under_notice K ?d) (recordFailure env (ih_currentStep u) e)" for e
      unfolding recordFailure_def Let_def
    proof (intro notice_get_ctx notice.rel_then notice_SaveStatus notice_writeTargetStatus)
      fix c
      assume "good_ctx K ?d c"
      then show "marked ?d (statusFromContext env c (failureState c (ih_currentStep u) e) (ih_currentStep u) (Some e))"
        using u(4) by (intro marked_statusFromContext) (auto simp: good_ctx_def)
    qed
    have "under_notice K ?d u t"
      using run by (cases outcome; cases "ih_currentStep u = []")
        (auto simp: record_outcome_def io_bind_def io_get_def io_ok_def io_err_def io_catch_def notice.frame_refl
          dest!: io_relD [OF f] split: prod.splits)
    with u quiet show ?thesis
      by (intro noticedI [of K ?d t s es]) (auto simp: under_notice_def no_commands_def)
  qed
qed

lemma noticed_release:
  assumes n: "noticed s u" and run: "release_image env outcome u = (r, t)"
  shows "noticed s t"
proof -
  have "no_commands u t \<and> ih_status t = ih_status u \<and> ih_currentStep t = ih_currentStep u \<and>
      (ih_ctx t = ih_ctx u \<or> ih_ctx t = (ih_ctx u)\<lparr>cx_imageReleaseAttempted := True\<rparr>)"
    using run
    by (auto simp: release_image_def closeImage_def get_ctx_def upd_ctx_def io_bind_def io_then_def io_get_def io_upd_def io_ok_def
        io_catch_def io_need_def no_commands_def split: if_splits option.splits)
  then have "noticed s t \<longleftrightarrow> noticed s u"
    by (auto simp: noticed_def no_commands_def announced_def)
  with n show ?thesis by blast
qed

theorem run_noticed: "noticed s (snd (Runner_Run env (NewPlan b) s))"
proof -
  let ?s = "s\<lparr>ih_currentStep := []\<rparr>"
  obtain a u where a: "runner_body env (NewPlan b) ?s = (a, u)" by (cases "runner_body env (NewPlan b) ?s")
  obtain c v where c: "release_image env a u = (c, v)" by (cases "release_image env a u")
  obtain o' where o: "c = Inr o'"
    using c by (auto simp: release_image_def closeImage_def get_ctx_def upd_ctx_def io_bind_def io_then_def io_get_def
        io_upd_def io_ok_def io_catch_def io_need_def split: if_splits option.splits)
  obtain r t where t: "record_outcome env o' v = (r, t)" by (cases "record_outcome env o' v")
  have "snd (Runner_Run env (NewPlan b) s) = t"
    by (simp add: Runner_Run_def io_then_def io_bind_def io_upd_def io_catch_def a c o t)
  moreover have "noticed ?s t"
    by (rule noticed_record [OF noticed_release [OF body_noticed [OF a] c] t])
  ultimately show ?thesis by (simp add: noticed_def)
qed

end
