(* ===== verification/InstallRefusal.thy ===== *)
theory InstallRefusal
  imports InstallRunnerFacts
begin

text \<open>
  The refusal of a changed request after an interrupted installation: while the previous status announces a mutation of
  another request, no command is run, whatever fails; and without failures the run is refused and its own status no longer
  announces the mutation.
\<close>

section \<open>No command before the refusal\<close>

definition same_previous :: "install_host \<Rightarrow> install_host \<Rightarrow> bool" where
  "same_previous s t \<longleftrightarrow>
     cx_PreviousStatus (ih_ctx t) = cx_PreviousStatus (ih_ctx s) \<and> cx_ManifestPath (ih_ctx t) = cx_ManifestPath (ih_ctx s) \<and>
     cx_DefaultKatlosImage (ih_ctx t) = cx_DefaultKatlosImage (ih_ctx s)"

interpretation previous: io_frame same_previous
  by unfold_locales (auto simp: same_previous_def)

lemma previous_calls:
  "(\<And>s. ih_ctx (f s) = ih_ctx s) \<Longrightarrow> io_rel same_previous (ih_call f)"
  "io_rel same_previous get_ctx"
  "(\<And>c. cx_PreviousStatus (f' c) = cx_PreviousStatus c \<and> cx_ManifestPath (f' c) = cx_ManifestPath c \<and>
      cx_DefaultKatlosImage (f' c) = cx_DefaultKatlosImage c) \<Longrightarrow> io_rel same_previous (upd_ctx f')"
  unfolding ih_call_def
  by (rule host.call_frame; simp add: same_previous_def)
     (simp_all add: get_ctx_def upd_ctx_def io_rel_def io_get_def io_upd_def same_previous_def)

lemmas previous_steps = previous.rel_then previous.rel_bind previous.rel_if previous.rel_when previous.rel_wrap
  previous.rel_prod previous.rel_catch previous.rel_pure previous_calls

lemma previous_progress:
  "io_rel same_previous (startProgress env sid)" "io_rel same_previous stopProgress" "io_rel same_previous (recordStep env sid)"
proof -
  show start: "io_rel same_previous (startProgress env sid)" and stop: "io_rel same_previous stopProgress"
    unfolding startProgress_def stopProgress_def ctx_done_def SaveStatus_def Let_def
    by (intro previous_steps; simp)+
  show "io_rel same_previous (recordStep env sid)"
    unfolding recordStep_def SaveCheckpoint_def SaveStatus_def writeTargetStatus_def ctx_done_def Let_def
    by (intro stop previous_steps; simp)
qed

lemma previous_stub_turn:
  assumes "run_step env sid = stub_step env sid"
  shows "io_rel same_previous (runner_turn env sid)"
proof -
  have "io_rel same_previous (io_upd (\<lambda>s. s\<lparr>ih_currentStep := sid\<rparr>))"
    by (simp add: io_rel_def io_upd_def same_previous_def)
  then show ?thesis
    unfolding runner_turn_def assms stub_step_def ctx_done_def by (intro previous_progress previous_steps; simp)
qed

text \<open>The manifest that a run in this context reads, if it can be read, has another digest than the previous request.\<close>

definition changed_request :: "install_env \<Rightarrow> Context \<Rightarrow> InstallStatus \<Rightarrow> bool" where
  "changed_request env c prev \<longleftrightarrow>
     it_DestructiveMutation prev \<and> it_RequestDigest prev \<noteq> [] \<and>
     (\<forall>data doc defaulted. iv_ReadManifest env (cx_ManifestPath c) = Inr data \<longrightarrow>
        iv_Decode env data (cx_DefaultKatlosImage c) = Inr (doc, defaulted) \<longrightarrow> DigestManifest env doc \<noteq> Inr (it_RequestDigest prev))"

lemma same_previous_changed:
  "same_previous s t \<Longrightarrow> changed_request env (ih_ctx t) prev = changed_request env (ih_ctx s) prev"
  by (simp add: same_previous_def changed_request_def)

lemma load_step_refused:
  assumes prev: "cx_PreviousStatus (ih_ctx s) = Some prev" and changed: "changed_request env (ih_ctx s) prev"
  shows "load_manifest_step env s \<noteq> (Inr x, t)"
proof
  assume "load_manifest_step env s = (Inr x, t)"
  then obtain v c digest data m defaulted where v: "ctx_done s = (Inr (), v)" and m: "DigestManifest env m = Inr digest"
      "iv_ReadManifest env (cx_ManifestPath (ih_ctx v)) = Inr data" "iv_Decode env data (cx_DefaultKatlosImage (ih_ctx v)) = Inr (m, defaulted)"
    and c: "refuseChangedInterruptedRequest c = None" "cx_RequestDigest c = digest"
      "cx_PreviousStatus c = cx_PreviousStatus (ih_ctx v)"
    by (auto simp: load_manifest_step_def get_ctx_def upd_ctx_def io_run split: prod.splits)
  have "ih_ctx v = ih_ctx s"
    using v unfolding ctx_done_def by (auto elim: call_Inr)
  with prev changed c m show False
    by (auto simp: refuseChangedInterruptedRequest_def changed_request_def split: if_splits)
qed

lemma refused_turn:
  assumes "cx_PreviousStatus (ih_ctx s) = Some prev" "changed_request env (ih_ctx s) prev"
  shows "\<exists>e t. runner_turn env LoadManifest s = (Inl e, t)"
proof -
  let ?u = "s\<lparr>ih_currentStep := LoadManifest\<rparr>"
  obtain a v where a: "startProgress env LoadManifest ?u = (a, v)" by (cases "startProgress env LoadManifest ?u")
  show ?thesis
  proof (cases a)
    case (Inl e)
    with a show ?thesis by (simp add: runner_turn_def io_then_def io_bind_def io_upd_def)
  next
    case (Inr x)
    have sp: "same_previous s v" using io_relD [OF previous_progress(1) a] by (simp add: same_previous_def)
    have "cx_PreviousStatus (ih_ctx v) = Some prev" using sp assms(1) by (simp add: same_previous_def)
    then obtain e w where w: "load_manifest_step env v = (Inl e, w)"
      using load_step_refused [of v prev env] same_previous_changed [OF sp] assms(2) by (cases "load_manifest_step env v"; cases "fst (load_manifest_step env v)") auto
    obtain f y where "stopProgress w = (f, y)" by (cases "stopProgress w")
    with w a Inr show ?thesis
      by (cases f) (simp_all add: runner_turn_def early_run_step io_then_def io_bind_def io_upd_def io_catch_def io_lift_def
          join_outcomes_def errorsJoin_def map_filter_simps)
  qed
qed

lemma NewPlan_load:
  "\<exists>pre rest. NewPlan b = pre @ LoadManifest # rest \<and> set pre \<subseteq> {DiscoverInstallerInput, WaitForLocalConfig}"
  by (rule exI [of _ "takeWhile (\<lambda>i. i \<noteq> LoadManifest) (NewPlan b)"])
     (simp add: NewPlan_def step_ids)

lemma turns_stop_at_refusal:
  assumes "cx_PreviousStatus (ih_ctx s) = Some prev" "changed_request env (ih_ctx s) prev" and run: "io_each (runner_turn env) (NewPlan b) s = (r, t)"
  shows "no_commands s t \<and> isl r"
proof -
  obtain pre rest where p: "NewPlan b = pre @ LoadManifest # rest" "set pre \<subseteq> {DiscoverInstallerInput, WaitForLocalConfig}"
    using NewPlan_load by blast
  have q: "io_rel no_commands (io_each (runner_turn env) pre)"
    using p(2) by (intro quiet.rel_each quiet_early_turn) (auto simp: early_steps_def)
  have k: "io_rel same_previous (io_each (runner_turn env) pre)"
    using p(2) by (intro previous.rel_each previous_stub_turn) (auto simp: early_run_step)
  from run have "io_then (io_each (runner_turn env) pre) (io_then (runner_turn env LoadManifest) (io_each (runner_turn env) rest)) s = (r, t)"
    by (simp add: p(1) io_each_append)
  then show ?thesis
  proof (cases rule: io_then_split)
    case (stop e)
    then show ?thesis using io_relD [OF q] by auto
  next
    case (go x u)
    have "cx_PreviousStatus (ih_ctx u) = Some prev"
      using io_relD [OF k go(1)] assms(1) by (simp add: same_previous_def)
    then obtain e v where v: "runner_turn env LoadManifest u = (Inl e, v)"
      using refused_turn same_previous_changed [OF io_relD [OF k go(1)]] assms(2) by blast
    then have "t = v" "isl r" using go(2) by (auto simp: io_then_def io_bind_def)
    moreover have "io_rel no_commands (runner_turn env LoadManifest)"
      by (rule quiet_early_turn) (simp add: early_steps_def)
    then have "no_commands u v" using v by (rule io_relD)
    ultimately show ?thesis using io_relD [OF q go(1)] quiet.frame_trans by blast
  qed
qed

lemma record_error: "isl (fst (io_bind (release_image env (Inl e)) (record_outcome env) s))"
proof -
  have rec: "isl (fst (record_outcome env (Inl f) v))" for f v
    by (simp add: record_outcome_def io_bind_def io_get_def io_err_def io_catch_def split: prod.splits)
  show ?thesis
    using rec
    by (simp add: release_image_def io_bind_def get_ctx_def io_get_def io_ok_def io_catch_def join_outcomes_def errorsJoin_def map_filter_simps
        error_of_def split: prod.splits list.splits option.splits)
qed

lemma load_previous:
  assumes "loadPreviousStatus s = (Inr x, t)" "cx_PreviousStatus (ih_ctx s) = None" "ih_status s = File prev"
  shows "cx_PreviousStatus (ih_ctx t) = Some prev \<and> cx_ManifestPath (ih_ctx t) = cx_ManifestPath (ih_ctx s) \<and>
    cx_DefaultKatlosImage (ih_ctx t) = cx_DefaultKatlosImage (ih_ctx s)"
proof -
  obtain a u where u: "ctx_done s = (a, u)" by (cases "ctx_done s")
  have st: "ih_status u = ih_status s" "ih_ctx u = ih_ctx s"
    using u unfolding ctx_done_def ih_call_def by (cases rule: host.call_cases; auto)+
  have ne: "\<not> isErrNotExist e" if "a = Inl e" for e
    using u that unfolding ctx_done_def ih_call_def by (cases rule: host.call_cases) auto
  show ?thesis
    using assms u st ne
    by (cases a)
       (auto simp: loadPreviousStatus_def get_ctx_def io_bind_def io_get_def io_catch_def io_then_def LoadStatus_def io_ok_def
         upd_ctx_def io_upd_def io_err_def split: if_splits)
qed

lemma changed_request_runs_nothing:
  assumes "ih_status s = File prev" "cx_PreviousStatus (ih_ctx s) = None" "changed_request env (ih_ctx s) prev"
  shows "ih_trace (snd (Runner_Run env (NewPlan b) s)) = ih_trace s \<and> isl (fst (Runner_Run env (NewPlan b) s))"
proof -
  let ?s = "s\<lparr>ih_currentStep := []\<rparr>"
  have body: "no_commands ?s t \<and> isl r" if run: "runner_body env (NewPlan b) ?s = (r, t)" for r t
  proof -
    show ?thesis
    proof (cases "iv_Commands env \<and> iv_Store env")
      case False
      with run have "t = ?s \<and> isl r"
        by (auto simp: runner_body_def io_then_def io_bind_def io_reject_def io_need_def reject_def split: if_splits)
      then show ?thesis by (simp add: quiet.frame_refl)
    next
      case True
      with run have "io_then loadPreviousStatus (io_each (runner_turn env) (NewPlan b)) ?s = (r, t)"
        by (simp add: runner_body_def io_then_def io_bind_def io_reject_def io_need_def reject_def)
      then show ?thesis
      proof (cases rule: io_then_split)
        case (stop e)
        then show ?thesis using io_relD [OF quiet_progress(6)] by auto
      next
        case (go x u)
        have u: "cx_PreviousStatus (ih_ctx u) = Some prev" "changed_request env (ih_ctx u) prev"
          using load_previous [OF go(1), of prev] assms by (simp_all add: changed_request_def)
        have "no_commands u t \<and> isl r" using u go(2) by (rule turns_stop_at_refusal)
        then show ?thesis using io_relD [OF quiet_progress(6) go(1)] quiet.frame_trans by blast
      qed
    qed
  qed
  have rest: "io_rel no_commands (io_bind (release_image env outcome) (record_outcome env))" for outcome
    unfolding release_image_def record_outcome_def by (intro quiet_progress quiet_steps)
  obtain a u where u: "runner_body env (NewPlan b) ?s = (a, u)" by (cases "runner_body env (NewPlan b) ?s")
  then have run: "Runner_Run env (NewPlan b) s = io_bind (release_image env a) (record_outcome env) u"
    by (simp add: Runner_Run_def io_then_def io_upd_def io_catch_def io_bind_def)
  have "no_commands u (snd (io_bind (release_image env a) (record_outcome env) u))"
    using rest by (simp add: io_rel_def)
  with run body [OF u] show ?thesis by (cases a) (simp_all add: no_commands_def record_error)
qed

section \<open>The refused run\<close>

lemma healthy_call: "ih_faults s = [] \<Longrightarrow> ih_call f s = (Inr (), f s)"
  by (simp add: ih_call_def fault_call_def)

lemmas healthy_run = healthy_call io_then_def io_bind_def io_get_def io_upd_def io_ok_def io_err_def io_catch_def io_lift_def
  io_wrap_def io_need_def io_reject_def io_when_def reject_def get_ctx_def upd_ctx_def ctx_done_def SaveStatus_def
  join_outcomes_def errorsJoin_def map_filter_simps

lemma healthy_startProgress:
  assumes "ih_faults s = []"
  shows "\<exists>st. startProgress env sid s = (Inr (), s\<lparr>ih_status := File st,
     ih_ctx := (ih_ctx s)\<lparr>cx_progress := Some st, cx_progress_err := None\<rparr>\<rparr>)"
  using assms by (simp add: startProgress_def healthy_run Let_def) metis

lemma healthy_stopProgress:
  "cx_progress_err (ih_ctx s) = None \<Longrightarrow> stopProgress s = (Inr (), s\<lparr>ih_ctx := (ih_ctx s)\<lparr>cx_progress := None\<rparr>\<rparr>)"
  by (cases "cx_progress (ih_ctx s)") (simp_all add: stopProgress_def healthy_run)

definition waiting_host :: "InstallStatus \<Rightarrow> install_host \<Rightarrow> bool" where
  "waiting_host prev s \<longleftrightarrow>
     ih_faults s = [] \<and> cx_PreviousStatus (ih_ctx s) = Some prev \<and>
     set (cx_Completed (ih_ctx s)) \<subseteq> {DiscoverInstallerInput, WaitForLocalConfig}"

lemma healthy_recordStep:
  assumes "ih_faults s = []" "cx_progress_err (ih_ctx s) = None" "sid \<noteq> MountTarget" "MountTarget \<notin> set (cx_Completed (ih_ctx s))"
  shows "\<exists>cp st. recordStep env sid s =
     (Inr (), s\<lparr>ih_ctx := (ih_ctx s)\<lparr>cx_progress := None, cx_Completed := cx_Completed (ih_ctx s) @ [sid]\<rparr>,
                 ih_checkpoint := cp, ih_status := st\<rparr>)"
  using assms
  by (simp add: recordStep_def healthy_stopProgress healthy_run SaveCheckpoint_def writeTargetStatus_def targetStatusReady_def Let_def)
     blast

lemma healthy_stub_turn:
  assumes "run_step env sid = stub_step env sid" "sid \<in> {DiscoverInstallerInput, WaitForLocalConfig}" "waiting_host prev s"
  shows "\<exists>t. runner_turn env sid s = (Inr (), t) \<and> waiting_host prev t \<and> cx_ManifestPath (ih_ctx t) = cx_ManifestPath (ih_ctx s) \<and>
    cx_DefaultKatlosImage (ih_ctx t) = cx_DefaultKatlosImage (ih_ctx s) \<and>
    cx_imageReleaseAttempted (ih_ctx t) = cx_imageReleaseAttempted (ih_ctx s)"
proof -
  let ?u = "s\<lparr>ih_currentStep := sid\<rparr>"
  have h: "ih_faults ?u = []" using assms(3) by (simp add: waiting_host_def)
  obtain st where st: "startProgress env sid ?u = (Inr (), ?u\<lparr>ih_status := File st,
     ih_ctx := (ih_ctx ?u)\<lparr>cx_progress := Some st, cx_progress_err := None\<rparr>\<rparr>)" (is "_ = (_, ?v)")
    using healthy_startProgress [OF h] by blast
  have "MountTarget \<notin> set (cx_Completed (ih_ctx ?v))" "sid \<noteq> MountTarget"
    using assms(2,3) by (auto simp: waiting_host_def step_ids)
  then obtain cp st' where r: "recordStep env sid ?v =
     (Inr (), ?v\<lparr>ih_ctx := (ih_ctx ?v)\<lparr>cx_progress := None, cx_Completed := cx_Completed (ih_ctx ?v) @ [sid]\<rparr>,
                 ih_checkpoint := cp, ih_status := st'\<rparr>)"
    using healthy_recordStep [of ?v sid env] h by auto
  have "run_step env sid ?v = recordStep env sid ?v"
    unfolding assms(1) stub_step_def using h by (simp add: healthy_run)
  with st r show ?thesis
    using assms(2,3) by (auto simp: runner_turn_def healthy_run healthy_stopProgress waiting_host_def)
qed

lemma healthy_refused_turn:
  assumes w: "waiting_host prev s" and changed: "it_DestructiveMutation prev" "it_RequestDigest prev \<noteq> []" "it_RequestDigest prev \<noteq> digest"
    and m: "iv_ReadManifest env (cx_ManifestPath (ih_ctx s)) = Inr data" "cx_ManifestPath (ih_ctx s) \<noteq> []"
      "iv_Decode env data (cx_DefaultKatlosImage (ih_ctx s)) = Inr (doc, defaulted)" "DigestManifest env doc = Inr digest"
  shows "\<exists>e t. runner_turn env LoadManifest s = (Inl e, t) \<and> errors_is e ErrInstallRefused \<and> ih_faults t = [] \<and>
    ih_currentStep t = LoadManifest \<and> cx_imageReleaseAttempted (ih_ctx t) = cx_imageReleaseAttempted (ih_ctx s) \<and>
    set (cx_Completed (ih_ctx t)) \<subseteq> {DiscoverInstallerInput, WaitForLocalConfig}"
proof -
  let ?u = "s\<lparr>ih_currentStep := LoadManifest\<rparr>"
  have h: "ih_faults ?u = []" using w by (simp add: waiting_host_def)
  obtain st where st: "startProgress env LoadManifest ?u = (Inr (), ?u\<lparr>ih_status := File st,
     ih_ctx := (ih_ctx ?u)\<lparr>cx_progress := Some st, cx_progress_err := None\<rparr>\<rparr>)" (is "_ = (_, ?v)")
    using healthy_startProgress [OF h] by blast
  have "\<exists>t. load_manifest_step env ?v = (Inl (Wrap
       ''%w: previous destructive install request digest %s does not match current request digest %s''
                 [it_RequestDigest prev, digest] ErrInstallRefused), t) \<and> ih_faults t = [] \<and>
      ih_currentStep t = LoadManifest \<and> cx_progress_err (ih_ctx t) = None \<and> cx_Completed (ih_ctx t) = cx_Completed (ih_ctx s) \<and>
      cx_imageReleaseAttempted (ih_ctx t) = cx_imageReleaseAttempted (ih_ctx s)"
    using changed m w by (simp add: load_manifest_step_def healthy_run refuseChangedInterruptedRequest_def waiting_host_def)
  then show ?thesis
    using st w by (auto simp: runner_turn_def early_run_step healthy_run healthy_stopProgress waiting_host_def ErrInstallRefused_def)
qed

lemma healthy_refused_turns:
  assumes w: "waiting_host prev s" and changed: "it_DestructiveMutation prev" "it_RequestDigest prev \<noteq> []" "it_RequestDigest prev \<noteq> digest"
    and m: "iv_ReadManifest env (cx_ManifestPath (ih_ctx s)) = Inr data" "cx_ManifestPath (ih_ctx s) \<noteq> []"
      "iv_Decode env data (cx_DefaultKatlosImage (ih_ctx s)) = Inr (doc, defaulted)" "DigestManifest env doc = Inr digest"
  shows "\<exists>e t. io_each (runner_turn env) (NewPlan b) s = (Inl e, t) \<and> errors_is e ErrInstallRefused \<and> ih_faults t = [] \<and>
    ih_currentStep t = LoadManifest \<and> set (cx_Completed (ih_ctx t)) \<subseteq> {DiscoverInstallerInput, WaitForLocalConfig}"
proof -
  have go: "\<exists>e t. io_each (runner_turn env) (pre @ LoadManifest # rest) s = (Inl e, t) \<and> errors_is e ErrInstallRefused \<and> ih_faults t = [] \<and>
      ih_currentStep t = LoadManifest \<and> set (cx_Completed (ih_ctx t)) \<subseteq> {DiscoverInstallerInput, WaitForLocalConfig}"
    if "set pre \<subseteq> {DiscoverInstallerInput, WaitForLocalConfig}" "waiting_host prev s"
      "iv_ReadManifest env (cx_ManifestPath (ih_ctx s)) = Inr data" "cx_ManifestPath (ih_ctx s) \<noteq> []"
      "iv_Decode env data (cx_DefaultKatlosImage (ih_ctx s)) = Inr (doc, defaulted)" for pre rest s
    using that
  proof (induction pre arbitrary: s)
    case Nil
    obtain e t where "runner_turn env LoadManifest s = (Inl e, t)" "errors_is e ErrInstallRefused" "ih_faults t = []"
      "ih_currentStep t = LoadManifest" "set (cx_Completed (ih_ctx t)) \<subseteq> {DiscoverInstallerInput, WaitForLocalConfig}"
      using healthy_refused_turn [OF Nil(2) changed Nil(3-5) m(4)] by blast
    then show ?case by (simp add: io_then_def io_bind_def)
  next
    case (Cons sid pre)
    then have sid: "run_step env sid = stub_step env sid" "sid \<in> {DiscoverInstallerInput, WaitForLocalConfig}"
      by (auto simp: early_run_step)
    obtain u where "runner_turn env sid s = (Inr (), u)" "waiting_host prev u"
      "cx_ManifestPath (ih_ctx u) = cx_ManifestPath (ih_ctx s)" "cx_DefaultKatlosImage (ih_ctx u) = cx_DefaultKatlosImage (ih_ctx s)"
      using healthy_stub_turn [OF sid Cons.prems(2)] by blast
    with Cons.IH [of u] Cons.prems show ?case by (simp add: io_then_def io_bind_def)
  qed
  show ?thesis using NewPlan_load [of b] go w m by metis
qed

lemma refused_outcome:
  assumes "errors_is e ErrInstallRefused" "ih_faults u = []" "ih_currentStep u = LoadManifest"
    "set (cx_Completed (ih_ctx u)) \<subseteq> {DiscoverInstallerInput, WaitForLocalConfig}"
  shows "\<exists>e' t st. io_bind (release_image env (Inl e)) (record_outcome env) u = (Inl e', t) \<and> errors_is e' ErrInstallRefused \<and>
    ih_status t = File st \<and> it_State st = StateInstallRefused \<and> \<not> it_DestructiveMutation st"
proof -
  have rec: "\<exists>e' t st. record_outcome env (Inl f) v = (Inl e', t) \<and> errors_is e' ErrInstallRefused \<and>
      ih_status t = File st \<and> it_State st = StateInstallRefused \<and> \<not> it_DestructiveMutation st"
    if "errors_is f ErrInstallRefused" "ih_faults v = []" "ih_currentStep v = LoadManifest"
      "set (cx_Completed (ih_ctx v)) \<subseteq> {DiscoverInstallerInput, WaitForLocalConfig}" for f v
  proof -
    have "\<not> mutationStarted (cx_Completed (ih_ctx v)) LoadManifest" "\<not> targetStatusReady (ih_ctx v) LoadManifest"
      using that(4) by (auto simp: mutationStarted_def targetStatusReady_def list_ex_iff step_ids)
    moreover have "LoadManifest \<noteq> []" by (simp add: step_ids)
    ultimately show ?thesis
      using that(1-3)
      by (simp add: record_outcome_def recordFailure_def healthy_run writeTargetStatus_def Let_def failureState_def
          statusFromContext_def before_mutation_state_def)
  qed
  have "\<exists>f v. release_image env (Inl e) u = (Inr (Inl f), v) \<and> errors_is f ErrInstallRefused \<and> ih_faults v = [] \<and>
      ih_currentStep v = LoadManifest \<and> cx_Completed (ih_ctx v) = cx_Completed (ih_ctx u)"
    using assms by (cases "iv_CloseImage env") (simp_all add: release_image_def closeImage_def healthy_run)
  with rec assms(4) show ?thesis by (fastforce simp: io_bind_def)
qed

lemma refusal_forgets_mutation:
  assumes "ih_faults s = []" "ih_status s = File prev" "cx_PreviousStatus (ih_ctx s) = None" "cx_Completed (ih_ctx s) = []"
    and changed: "it_DestructiveMutation prev" "it_RequestDigest prev \<noteq> []" "it_RequestDigest prev \<noteq> digest" and env: "iv_Commands env" "iv_Store env"
    and m: "iv_ReadManifest env (cx_ManifestPath (ih_ctx s)) = Inr data" "cx_ManifestPath (ih_ctx s) \<noteq> []"
      "iv_Decode env data (cx_DefaultKatlosImage (ih_ctx s)) = Inr (doc, defaulted)" "DigestManifest env doc = Inr digest"
  shows "\<exists>e t st. Runner_Run env (NewPlan b) s = (Inl e, t) \<and> errors_is e ErrInstallRefused \<and>
    ih_status t = File st \<and> it_State st = StateInstallRefused \<and> \<not> it_DestructiveMutation st"
proof -
  let ?s = "s\<lparr>ih_currentStep := []\<rparr>" and ?u = "s\<lparr>ih_currentStep := [], ih_ctx := (ih_ctx s)\<lparr>cx_PreviousStatus := Some prev\<rparr>\<rparr>"
  have load: "loadPreviousStatus ?s = (Inr (), ?u)"
    using assms(1-3) by (simp add: loadPreviousStatus_def healthy_run LoadStatus_def)
  have "waiting_host prev ?u" using assms(1,4) by (simp add: waiting_host_def)
  then obtain e t where t: "io_each (runner_turn env) (NewPlan b) ?u = (Inl e, t)" "errors_is e ErrInstallRefused" "ih_faults t = []"
    "ih_currentStep t = LoadManifest" "set (cx_Completed (ih_ctx t)) \<subseteq> {DiscoverInstallerInput, WaitForLocalConfig}"
    using healthy_refused_turns [OF _ changed _ _ _ m(4), of ?u data] m(1-3) by fastforce
  have "runner_body env (NewPlan b) ?s = (Inl e, t)"
    using env load t(1) by (simp add: runner_body_def healthy_run)
  then have "Runner_Run env (NewPlan b) s = io_bind (release_image env (Inl e)) (record_outcome env) t"
    by (simp add: Runner_Run_def io_then_def io_upd_def io_catch_def io_bind_def)
  with refused_outcome [OF t(2-5)] show ?thesis by simp
qed

lemma unmarked_never_refused:
  "cx_PreviousStatus c = Some st \<Longrightarrow> \<not> it_DestructiveMutation st \<Longrightarrow> refuseChangedInterruptedRequest c = None"
  by (simp add: refuseChangedInterruptedRequest_def)

section \<open>The first command\<close>

lemma prepare_group:
  "filterOperations (BuildDiskOperations plan pre) PrepareOperations
     = [destructive (operation ''wipe-target-signatures'' ''wipefs'' [''--all'', lp_TargetDiskPath plan])]"
proof -
  have "filter (\<lambda>p. op_Name p = ''wipe-target-signatures'') (partition_operations plan pr q) = []" for pr q
    by (auto simp: partition_operations_def operation_defs)
  moreover have "filter (\<lambda>p. op_Name p = ''wipe-target-signatures'') (volume_mount_operations pr v) = []" for pr v
    by (auto simp: volume_mount_operations_def volumeOperations_def operation_defs)
  ultimately show ?thesis
    by (simp add: filterOperations_def BuildDiskOperations_def Let_def filter_concat comp_def boot_loader_operation_def
        target_operations_def operation_defs concat_eq_Nil_conv)
qed

text \<open>On a planned layout with leave to wipe, and without failures, preparing the disk runs one command: the wipe of the target.\<close>

lemma prepare_disk_wipes:
  assumes s: "ih_faults s = []" "iv_Commands env" "cx_DiskLayout (ih_ctx s) = Some plan" "checkBootPlan plan = None"
    "ic_WipeTarget (im_Install (cx_Manifest (ih_ctx s)))" "cx_TargetRoot (ih_ctx s) = root"
    "MountTarget \<notin> set (cx_Completed (ih_ctx s))"
  shows "\<exists>t status. runner_turn env PrepareDisk s = (Inr (), t) \<and>
    ih_trace t = ih_trace s @ [\<lparr>te_Command = ''wipefs'', te_Args = [''--all'', lp_TargetDiskPath plan], te_Status = status\<rparr>]"
proof -
  let ?u = "s\<lparr>ih_currentStep := PrepareDisk\<rparr>"
  let ?op = "destructive (operation ''wipe-target-signatures'' ''wipefs'' [''--all'', lp_TargetDiskPath plan])"
  obtain st where st: "startProgress env PrepareDisk ?u = (Inr (), ?u\<lparr>ih_status := File st,
     ih_ctx := (ih_ctx ?u)\<lparr>cx_progress := Some st, cx_progress_err := None\<rparr>\<rparr>)" (is "_ = (_, ?v)")
    using healthy_startProgress [of ?u] s(1) by auto
  have op: "op_Name ?op = ''wipe-target-signatures''" "op_Command ?op = ''wipefs''" "op_Args ?op = [''--all'', lp_TargetDiskPath plan]"
    "op_Definitions ?op = []" "\<not> isRootWrite ?op"
    by (simp_all add: operation_defs isRootWrite_def)
  have "\<exists>w status. executeDiskGroup env PrepareOperations ?v = (Inr (), w) \<and> ih_faults w = [] \<and>
      ih_trace w = ih_trace s @ [\<lparr>te_Command = ''wipefs'', te_Args = [''--all'', lp_TargetDiskPath plan], te_Status = status\<rparr>] \<and>
      cx_progress_err (ih_ctx w) = None \<and> MountTarget \<notin> set (cx_Completed (ih_ctx w))"
    using s
    by (simp add: executeDiskGroup_def executeDiskGroupResult_def ExecuteGroup_def prepare_group executeOperations_def
        diskExecutionRequest_def install_executor_def host_commands_def run_operation_def command_operation_def host_run_def
        reportDiskOperation_def op healthy_run Let_def)
  then obtain w status where w: "executeDiskGroup env PrepareOperations ?v = (Inr (), w)" "ih_faults w = []"
      "ih_trace w = ih_trace s @ [\<lparr>te_Command = ''wipefs'', te_Args = [''--all'', lp_TargetDiskPath plan], te_Status = status\<rparr>]"
      "cx_progress_err (ih_ctx w) = None" "MountTarget \<notin> set (cx_Completed (ih_ctx w))" by blast
  obtain t where t: "recordStep env PrepareDisk w = (Inr (), t)" "ih_trace t = ih_trace w" "cx_progress_err (ih_ctx t) = None"
    using healthy_recordStep [OF w(2,4) _ w(5), of PrepareDisk env] w(4) by (auto simp: step_ids)
  show ?thesis
    using st w t by (simp add: runner_turn_def early_run_step prepare_disk_step_def healthy_run healthy_stopProgress)
qed

end
