(* ===== verification/InstallFixtures.thy ===== *)
theory InstallFixtures
  imports InstallRefusal
begin

text \<open>
  Concrete machines for the witnesses of the installer: two disks, a manifest with a data volume, a small runtime image, and
  an environment whose every answer succeeds.
\<close>

section \<open>Disks\<close>

definition fx_disk :: "string \<Rightarrow> string \<Rightarrow> BlockDevice list \<Rightarrow> BlockDevice" where
  "fx_disk name serial partitions =
     BlockDevice name (''/dev/'' @ name) ''disk'' [''/dev/disk/by-id/ata-'' @ serial] [] serial [] [] [] [] 42949672960 False [] [] []
       partitions"

definition fx_partition :: "string \<Rightarrow> string \<Rightarrow> BlockDevice" where
  "fx_partition name label =
     BlockDevice name (''/dev/'' @ name) ''part'' [] [] [] [] label (''uuid-'' @ name) [] 1048576 False [] [] [] []"

definition fx_facts :: HardwareFacts where
  "fx_facts = no_facts\<lparr>hf_BlockDevices := [fx_disk ''sda'' ''A'' [], fx_disk ''sdb'' ''B'' []]\<rparr>"

definition fx_selector :: "string \<Rightarrow> DiskSelector" where
  "fx_selector serial = \<lparr>ds_ByID = [], ds_WWN = [], ds_Serial = serial, ds_MinSizeMiB = 1024\<rparr>"

definition fx_volume :: Volume where
  "fx_volume = \<lparr>vo_Name = ''data'', vo_Selector = \<lparr>vs_Disk = Some (fx_selector ''B''), vs_Partition = None\<rparr>,
     vo_Filesystem = ''xfs'', vo_Wipe = True\<rparr>"

definition fx_install :: InstallConfig where
  "fx_install = \<lparr>ic_WipeTarget = True, ic_TargetDisk = fx_selector ''A'', ic_Volumes = [fx_volume]\<rparr>"

definition fx_sha256 :: "string \<Rightarrow> string" where
  "fx_sha256 s = replicate 32 (char_of (length s))"

definition fx_volume_request :: VolumeRequest where
  "fx_volume_request = \<lparr>vr_Name = ''data'', vr_Disk = Some (diskSelector (fx_selector ''B'')), vr_Partition = None,
     vr_Filesystem = ''xfs'', vr_Wipe = True\<rparr>"

definition fx_request :: DiskLayoutRequest where
  "fx_request = \<lparr>lr_TargetDisk = diskSelector (fx_selector ''A''), lr_ESPSizeMiB = 512, lr_XBOOTLDRSizeMiB = 0, lr_RootA = 8192,
     lr_RootB = 8192, lr_State = \<lparr>sr_Filesystem = ''ext4'', sr_MinSizeMiB = 8192\<rparr>, lr_Etcd = None,
     lr_Volumes = [fx_volume_request], lr_InitialRootSlot = RootSlotA, lr_RuntimeRootSizeMiB = 1\<rparr>"

lemma fx_request_built: "BuildDiskLayoutRequest fx_install DefaultRootDiskProfile 1 = Inr fx_request"
  by code_simp

definition fx_target :: TargetDiskMatch where
  "fx_target = \<lparr>tm_Device = fx_disk ''sda'' ''A'' [], tm_Signatures = []\<rparr>"

lemma fx_target_matched: "MatchTargetDisk fx_facts (diskSelector (fx_selector ''A'')) = Inr fx_target"
  by code_simp

lemma fx_other_matched:
  "MatchTargetDisk fx_facts (diskSelector (fx_selector ''B'')) = Inr \<lparr>tm_Device = fx_disk ''sdb'' ''B'' [], tm_Signatures = []\<rparr>"
  by code_simp

definition fx_mib_disk :: "string \<Rightarrow> string \<Rightarrow> PartitionPlan" where
  "fx_mib_disk name label = partition_plan name label ''root-x86-64'' ''squashfs'' (if name = ''root-a'' then ''/'' else []) 8192"

definition fx_partitions :: "PartitionPlan list" where
  "fx_partitions =
     [partition_plan ''esp'' GPTLabelESP ''esp'' ''vfat'' ''/efi'' 512, fx_mib_disk ''root-a'' GPTLabelRootA,
      fx_mib_disk ''root-b'' GPTLabelRootB,
      (partition_plan ''state'' GPTLabelState ''var'' ''ext4'' ''/var'' 24064)\<lparr>pp_Remaining := True\<rparr>]"

lemma fx_partitions_planned: "planTargetPartitions (fx_disk ''sda'' ''A'' []) (default_layout fx_request) = Inr fx_partitions"
  by code_simp

definition fx_volume_plan :: VolumePlan where
  "fx_volume_plan =
     \<lparr>vp_Name = ''data'', vp_TargetKind = ''disk'', vp_DevicePath = ''/dev/sdb'', vp_MountSource = ''/dev/disk/by-partlabel/u-data'',
      vp_Filesystem = ''xfs'', vp_MountPath = ''/var/mnt/data'', vp_Wipe = True, vp_Repartition = True,
      vp_TypeUUID = volumePartitionTypeUUID fx_sha256 ''data'', vp_Signatures = []\<rparr>"

lemma fx_volumes_planned:
  "PlanVolumes fx_sha256 fx_facts (fx_disk ''sda'' ''A'' []) (lr_Volumes (default_layout fx_request)) = Inr [fx_volume_plan]"
proof -
  have v: "lr_Volumes (default_layout fx_request) = [fx_volume_request]"
    by (simp add: fx_request_def default_layout_def)
  have n: "validateMountName ''volume'' ''data'' = None" by code_simp
  have f: "IsSupportedVolumeFilesystem ''xfs''" by code_simp
  show ?thesis
    by (simp add: PlanVolumes_def v fx_volume_request_def plan_volume_def n f plan_disk_volume_def fx_other_matched wrap_res_def fx_disk_def
        volume_plan_def fx_volume_plan_def volumePartitionLabel_def VolumeMountRoot_def)
qed

definition fx_layout :: DiskLayoutPlan where
  "fx_layout = \<lparr>lp_TargetDiskPath = ''/dev/sda'', lp_Partitions = fx_partitions, lp_VolumeMounts = [fx_volume_plan],
     lp_Boot = bootTarget RootSlotA GPTLabelRootA, lp_Signatures = []\<rparr>"

lemma fx_layout_planned: "PlanDiskLayout fx_sha256 fx_facts fx_request = Inr fx_layout"
proof -
  have n: "normalizeLayoutRequest fx_request = Inr (default_layout fx_request)"
    by (simp add: normalizeLayoutRequest_def validateRootSlot_def MinimumRootMiB_def fx_request_def)
  have t: "lr_TargetDisk (default_layout fx_request) = diskSelector (fx_selector ''A'')"
    by (simp add: fx_request_def default_layout_def)
  have b: "planBootTarget (lr_InitialRootSlot (default_layout fx_request)) = Inr (bootTarget RootSlotA GPTLabelRootA)"
    by (simp add: planBootTarget_def fx_request_def default_layout_def RootSlotA_def)
  show ?thesis
    by (simp add: PlanDiskLayout_def n t fx_target_matched wrap_res_def fx_target_def fx_partitions_planned fx_volumes_planned b
        fx_layout_def) (simp add: fx_disk_def)
qed

lemma fx_sizes_fit: "sizes_fit (default_layout fx_request)"
  by (simp add: sizes_fit_def requested_mib_def default_layout_def fx_request_def)

section \<open>Writing a root slot\<close>

definition fx_artifact :: string where "fx_artifact = ''runtime''"

definition fx_rootwrite :: RootSlotWriteRequest where
  "fx_rootwrite = \<lparr>rw_RuntimeArtifact = \<lparr>av_Name = ''runtime'', av_Kind = ArtifactRuntimeRoot,
     av_SHA256 = EncodeToString (fx_sha256 fx_artifact), av_SizeBytes = 7\<rparr>, rw_CurrentSlot = RootSlotA\<rparr>"

definition fx_slot_plan :: RootSlotWritePlan where
  "fx_slot_plan = projr (PlanRootSlotWrite fx_layout fx_rootwrite)"

lemma fx_slot_planned: "PlanRootSlotWrite fx_layout fx_rootwrite = Inr fx_slot_plan"
  by code_simp

definition fx_slot_request :: RootSlotInstallRequest where
  "fx_slot_request = \<lparr>rq_Plan = fx_slot_plan, rq_Artifact = Some fx_artifact, rq_Target = True\<rparr>"

definition fx_device :: "dev_fault list \<Rightarrow> slot_device" where
  "fx_device faults = \<lparr>sv_contents = ''an older image'', sv_faults = faults\<rparr>"

section \<open>Installing\<close>

definition fx_image :: KatlosImage where
  "fx_image = \<lparr>ki_ExtensionRelease = None, ki_Flavour = [], ki_URL = [], ki_LocalRef = [], ki_SHA256 = [], ki_SizeBytes = 0,
     ki_Version = [], ki_Architecture = [], ki_RuntimeInterface = [], ki_Role = []\<rparr>"

definition fx_doc :: InstallManifestDoc where
  "fx_doc = \<lparr>im_Install = fx_install, im_KatlosImage = fx_image, im_Node = ''node''\<rparr>"

definition fx_env :: install_env where
  "fx_env =
     \<lparr>iv_now = 1, iv_sha256 = fx_sha256, iv_put = splice, iv_RedactSource = (\<lambda>s. s), iv_RedactError = (\<lambda>e. ''error''),
      iv_Commands = True, iv_Output = Some (\<lambda>trace name args. Inr ''uuid''), iv_Store = True,
      iv_Discovery = None, iv_ReadManifest = (\<lambda>path. Inr ''document''),
      iv_Decode = (\<lambda>data image. Inr (fx_doc, False)), iv_Marshal = (\<lambda>m. Inr (im_Node m)), iv_KatlosResolver = None,
      iv_MediaKatlosResolver = None, iv_VerifyImage = (\<lambda>c. None), iv_FirstInstallRecord = (\<lambda>p r c. Inl (OsError ''none'')),
      iv_Materialize = (\<lambda>step c. Inr (cx_LoaderRecord c)), iv_RootSlotTarget = True, iv_RootSlotOpener = False,
      iv_OpenComponent = (\<lambda>path. Inr fx_artifact), iv_CloseImage = None, iv_Retained = (\<lambda>e. False),
      iv_TempDir = ''/tmp/katl-repart-1''\<rparr>"

definition fx_context :: "DiskLayoutPlan option \<Rightarrow> Context" where
  "fx_context layout =
     \<lparr>cx_ManifestPath = ''/run/manifest.yaml'', cx_TargetRoot = ''/mnt/target'', cx_Manifest = fx_doc, cx_LoaderRecord = None,
      cx_KatlosImage = None, cx_DefaultKatlosImage = fx_image, cx_KatlosImageFromMedia = False, cx_HardwareFacts = no_facts,
      cx_RootProfile = DefaultRootDiskProfile, cx_DiskLayout = layout, cx_RootSlotPlan = None, cx_CurrentRootSlot = [],
      cx_RootPartitionUUID = [], cx_VolumeBindings = [], cx_Completed = [], cx_InputMode = ''test'', cx_InputSource = [],
      cx_RequestDigest = [], cx_BundleDigest = [], cx_SourceDigest = [], cx_NodeMaterialDigest = [], cx_InstallMaterialDigest = [],
      cx_HaltIfInstalled = False, cx_PreviousStatus = None, cx_progress = None, cx_progress_err = None,
      cx_imageReleaseAttempted = False\<rparr>"

definition fx_host :: "DiskLayoutPlan option \<Rightarrow> InstallStatus json_file \<Rightarrow> install_host" where
  "fx_host layout status =
     \<lparr>ih_ctx = fx_context layout, ih_status = status, ih_checkpoint = NoFile, ih_target_status = NoFile, ih_trace = [],
      ih_device = fx_device [], ih_currentStep = [], ih_faults = []\<rparr>"

end
