(* ===== verification/InstallFixtureRuns.thy ===== *)
theory InstallFixtureRuns
  imports InstallFixtures
begin

text \<open>
  A run of the installer on the concrete machine that reaches the disk: the steps before the first mutation succeed, then
  the target is wiped, and whatever follows only adds commands.
\<close>

definition fx_ready :: "install_host \<Rightarrow> bool" where
  "fx_ready s \<longleftrightarrow>
     ih_faults s = [] \<and> ih_trace s = [] \<and> cx_DiskLayout (ih_ctx s) = Some fx_layout \<and> cx_KatlosImage (ih_ctx s) = None \<and>
     cx_PreviousStatus (ih_ctx s) = None \<and> cx_ManifestPath (ih_ctx s) \<noteq> [] \<and> cx_Manifest (ih_ctx s) = fx_doc \<and>
     MountTarget \<notin> set (cx_Completed (ih_ctx s)) \<and> cx_progress_err (ih_ctx s) = None"

lemma fx_env_answers [simp]:
  "iv_ReadManifest fx_env path = Inr ''document''" "iv_Decode fx_env data img = Inr (fx_doc, False)"
  "DigestManifest fx_env m = Inr (Digest fx_sha256 (im_Node m))" "iv_Discovery fx_env = None" "iv_KatlosResolver fx_env = None"
  "iv_MediaKatlosResolver fx_env = None" "iv_VerifyImage fx_env c = None" "iv_Commands fx_env" "iv_Store fx_env"
  "iv_CloseImage fx_env = None" "iv_Retained fx_env e = False"
  by (simp_all add: fx_env_def DigestManifest_def)

lemma fx_record:
  assumes "fx_ready s" "sid \<noteq> MountTarget"
  shows "\<exists>t. recordStep fx_env sid s = (Inr (), t) \<and> fx_ready t"
  using healthy_recordStep [of s sid fx_env] assms by (fastforce simp: fx_ready_def)

lemma fx_step:
  assumes "fx_ready s" "sid \<in> set early_steps"
  shows "\<exists>t. run_step fx_env sid s = (Inr (), t) \<and> fx_ready t"
proof -
  have sid: "sid \<noteq> MountTarget" using assms(2) by (auto simp: early_steps_def step_ids)
  have h: "ih_faults s = []" "cx_PreviousStatus (ih_ctx s) = None" "cx_ManifestPath (ih_ctx s) \<noteq> []" "cx_KatlosImage (ih_ctx s) = None"
    using assms(1) by (simp_all add: fx_ready_def)
  note calls = fx_record [OF assms(1) sid]
  consider "run_step fx_env sid = stub_step fx_env sid" | "sid = LoadManifest" | "sid = CollectHardwareFacts"
    | "sid = VerifyTrust" | "sid = PlanInstall"
    using assms(2) by (auto simp: early_steps_def early_run_step)
  then show ?thesis
  proof cases
    case 1
    with calls h show ?thesis by (simp add: stub_step_def healthy_run)
  next
    case 2
    have "\<exists>t. recordStep fx_env LoadManifest u = (Inr (), t) \<and> fx_ready t" if "fx_ready u" for u
      using fx_record [OF that sid] 2 by simp
    with assms(1) 2 h show ?thesis
      by (simp add: early_run_step load_manifest_step_def healthy_run refuseChangedInterruptedRequest_def fx_ready_def)
  next
    case 3
    with calls h show ?thesis by (simp add: early_run_step collect_facts_step_def healthy_run)
  next
    case 4
    with calls h show ?thesis by (simp add: early_run_step verify_image_step_def healthy_run)
  next
    case 5
    with calls h show ?thesis by (simp add: early_run_step plan_install_step_def healthy_run)
  qed
qed

lemma fx_turn:
  assumes "fx_ready s" "sid \<in> set early_steps"
  shows "\<exists>t. runner_turn fx_env sid s = (Inr (), t) \<and> fx_ready t"
proof -
  let ?u = "s\<lparr>ih_currentStep := sid\<rparr>"
  obtain st where st: "startProgress fx_env sid ?u = (Inr (), ?u\<lparr>ih_status := File st,
     ih_ctx := (ih_ctx ?u)\<lparr>cx_progress := Some st, cx_progress_err := None\<rparr>\<rparr>)" (is "_ = (_, ?v)")
    using healthy_startProgress [of ?u] assms(1) by (auto simp: fx_ready_def)
  have "fx_ready ?v" using assms(1) by (simp add: fx_ready_def)
  then obtain t where t: "run_step fx_env sid ?v = (Inr (), t)" "fx_ready t" using fx_step assms(2) by blast
  then have "stopProgress t = (Inr (), t\<lparr>ih_ctx := (ih_ctx t)\<lparr>cx_progress := None\<rparr>\<rparr>)"
    by (simp add: fx_ready_def healthy_stopProgress)
  with st t show ?thesis by (simp add: runner_turn_def healthy_run fx_ready_def)
qed

lemma fx_turns: "fx_ready s \<Longrightarrow> set ids \<subseteq> set early_steps \<Longrightarrow> \<exists>t. io_each (runner_turn fx_env) ids s = (Inr (), t) \<and> fx_ready t"
proof (induction ids arbitrary: s)
  case (Cons sid ids)
  then obtain u where "runner_turn fx_env sid s = (Inr (), u)" "fx_ready u" using fx_turn by force
  with Cons show ?case by (simp add: io_then_def io_bind_def)
qed (simp add: io_ok_def)

text \<open>The run on a machine with a planned layout wipes the target disk.\<close>

lemma fx_prepare:
  assumes "fx_ready s"
  shows "\<exists>t st. runner_turn fx_env PrepareDisk s = (Inr (), t) \<and>
    ih_trace t = [\<lparr>te_Command = ''wipefs'', te_Args = [''--all'', ''/dev/sda''], te_Status = st\<rparr>]"
proof -
  have "checkBootPlan fx_layout = None" by code_simp
  moreover have "lp_TargetDiskPath fx_layout = ''/dev/sda''" by (simp add: fx_layout_def)
  moreover have "ic_WipeTarget (im_Install fx_doc)" "iv_Commands fx_env" by (simp_all add: fx_doc_def fx_install_def)
  ultimately show ?thesis using prepare_disk_wipes [of s fx_env fx_layout] assms by (simp add: fx_ready_def)
qed

lemma fx_body:
  assumes "runner_body fx_env (NewPlan b) ((fx_host (Some fx_layout) NoFile)\<lparr>ih_currentStep := []\<rparr>) = (r, t)"
  shows "\<exists>st es. ih_trace t = \<lparr>te_Command = ''wipefs'', te_Args = [''--all'', ''/dev/sda''], te_Status = st\<rparr> # es"
proof -
  let ?s = "(fx_host (Some fx_layout) NoFile)\<lparr>ih_currentStep := []\<rparr>"
  have s: "fx_ready ?s" by (simp add: fx_ready_def fx_host_def fx_context_def)
  have load: "loadPreviousStatus ?s = (Inr (), ?s)"
    by (simp add: loadPreviousStatus_def healthy_run LoadStatus_def fx_host_def fx_context_def)
  obtain pre where pre: "NewPlan b = pre @ PrepareDisk # late_steps" "set pre \<subseteq> set early_steps" using NewPlan_split by blast
  obtain u where u: "io_each (runner_turn fx_env) pre ?s = (Inr (), u)" "fx_ready u" using fx_turns [OF s pre(2)] by blast
  obtain v st where v: "runner_turn fx_env PrepareDisk u = (Inr (), v)"
    "ih_trace v = [\<lparr>te_Command = ''wipefs'', te_Args = [''--all'', ''/dev/sda''], te_Status = st\<rparr>]" using fx_prepare [OF u(2)] by blast
  have "io_each (runner_turn fx_env) late_steps v = (r, t)"
    using assms load u(1) v(1) by (simp add: runner_body_def pre(1) io_each_append healthy_run)
  moreover have "announced prepared (cx_RequestDigest (ih_ctx v)) v" using prepare_turn [OF v(1)] by blast
  ultimately show ?thesis using late_turns [OF subset_refl] v(2) by fastforce
qed

lemma fx_run_wipes:
  "\<exists>st es. ih_trace (snd (Runner_Run fx_env (NewPlan b) (fx_host (Some fx_layout) NoFile)))
     = \<lparr>te_Command = ''wipefs'', te_Args = [''--all'', ''/dev/sda''], te_Status = st\<rparr> # es"
proof -
  let ?s = "fx_host (Some fx_layout) NoFile"
  obtain r t where b: "runner_body fx_env (NewPlan b) (?s\<lparr>ih_currentStep := []\<rparr>) = (r, t)" by fastforce
  obtain c u where c: "release_image fx_env r t = (Inr c, u)" "ih_trace u = ih_trace t"
    by (cases "cx_imageReleaseAttempted (ih_ctx t)"; cases r) (auto simp: release_image_def closeImage_def healthy_run)
  obtain x v where v: "record_outcome fx_env c u = (x, v)" by fastforce
  have "ih_trace v = ih_trace u" using record_outcome_quiet [OF v] by (simp add: no_commands_def)
  moreover have "snd (Runner_Run fx_env (NewPlan b) ?s) = v"
    by (simp add: Runner_Run_def io_then_def io_bind_def io_upd_def io_catch_def b c(1) v)
  ultimately show ?thesis using fx_body [OF b] c(2) by simp
qed

section \<open>Interrupted runs\<close>

text \<open>What a run of another request left behind after it had begun to wipe.\<close>

definition fx_interrupted :: InstallStatus where
  "fx_interrupted = (statusFromContext fx_env (fx_context None) StateRunning PrepareDisk None)
     \<lparr>it_RequestDigest := Digest fx_sha256 ''another node'', it_DestructiveMutation := True\<rparr>"

lemma fx_interrupted_marked [simp]: "it_DestructiveMutation fx_interrupted" "it_RequestDigest fx_interrupted = Digest fx_sha256 ''another node''"
  by (simp_all add: fx_interrupted_def)

lemma fx_interrupted_other:
  "it_RequestDigest fx_interrupted \<noteq> []" "Digest fx_sha256 (im_Node fx_doc) \<noteq> it_RequestDigest fx_interrupted"
  unfolding fx_interrupted_marked by code_simp+

lemma fx_host_fields [simp]:
  "ih_status (fx_host layout f) = f" "ih_faults (fx_host layout f) = []" "ih_trace (fx_host layout f) = []"
  "cx_PreviousStatus (ih_ctx (fx_host layout f)) = None" "cx_Completed (ih_ctx (fx_host layout f)) = []"
  "cx_ManifestPath (ih_ctx (fx_host layout f)) \<noteq> []"
  by (simp_all add: fx_host_def fx_context_def)

text \<open>A device whose first access that changes it fails after three bytes.\<close>

definition fx_torn_host :: slot_host where
  "fx_torn_host = \<lparr>sh_device = fx_device [DevOk, DevFail 3 ''input/output error''], sh_file = NoFile, sh_faults = []\<rparr>"

lemma fx_torn_run: "sh_device (snd (run_file_slot fx_sha256 splice 1 fx_slot_request False fx_torn_host)) \<noteq> sh_device fx_torn_host"
  by code_simp

end
