(* ===== verification/OperationRegister.thy ===== *)
theory OperationRegister
  imports OperationReconcile
begin

text \<open>
  What the operation store promises, without directories, journals and snapshots: a register of operations, in which an
  entry is made once and then only revised. \<open>register_step\<close> has one rule for each, stated on the fields of the records. Every history of the
  store, with whatever failures, is a sequence of such steps on the abstraction \<open>register_of\<close>.
\<close>

section \<open>The register\<close>

inductive register_step :: "op_env \<Rightarrow> (string \<rightharpoonup> OperationRecord) \<Rightarrow> (string \<rightharpoonup> OperationRecord) \<Rightarrow> bool" for oe where
  enter: "m g = None \<Longrightarrow> or_OperationID r = g \<Longrightarrow> or_LatestJournalSeq r = 1 \<Longrightarrow> opValidateRecord oe r = None \<Longrightarrow>
    register_step oe m (m(g \<mapsto> r))"
| revise: "m g = Some r \<Longrightarrow> \<not> or_Terminal r \<Longrightarrow> op_le r r' \<Longrightarrow> or_LatestJournalSeq r' = or_LatestJournalSeq r + 1 \<Longrightarrow>
    opValidateRecord oe r' = None \<Longrightarrow> register_step oe m (m(g \<mapsto> r'))"

definition register_of :: "op_store \<Rightarrow> string \<rightharpoonup> OperationRecord" where
  "register_of s g = (if op_events s g = [] then None else Some (je_Record (last (op_events s g))))"

section \<open>One journal\<close>

lemma chain_seq_next:
  assumes "chain oe (es @ [e])" "es \<noteq> []"
  shows "or_LatestJournalSeq (je_Record e) = or_LatestJournalSeq (je_Record (last es)) + 1"
proof -
  have c: "chain oe es" using chain_append [OF assms(1)] .
  have "je_Sequence (last es) = int (length es)" using chain_last_seq [OF c assms(2)] .
  moreover have "je_Sequence e = int (length es) + 1" using chain_last_seq [OF assms(1)] by simp
  moreover have "or_LatestJournalSeq (je_Record x) = je_Sequence x" if "x \<in> set (es @ [e])" for x
    using ValidateEvent_seq [OF chain_member_valid [OF assms(1) that]] by simp
  then have "or_LatestJournalSeq (je_Record e) = je_Sequence e" "or_LatestJournalSeq (je_Record (last es)) = je_Sequence (last es)"
    using assms(2) by simp_all
  ultimately show ?thesis by simp
qed

lemma chain_registers:
  assumes "chain oe (es @ fs)" "\<forall>e \<in> set (es @ fs). or_OperationID (je_Record e) = g"
    "m g = (if es = [] then None else Some (je_Record (last es)))"
  shows "(register_step oe)\<^sup>*\<^sup>* m (m(g := if es @ fs = [] then None else Some (je_Record (last (es @ fs)))))"
  using assms
proof (induction fs rule: rev_induct)
  case Nil
  then have "m(g := if es @ [] = [] then None else Some (je_Record (last (es @ [])))) = m" by (simp add: fun_eq_iff)
  then show ?case by simp
next
  case (snoc e fs)
  let ?xs = "es @ fs"
  let ?u = "m(g := if ?xs = [] then None else Some (je_Record (last ?xs)))"
  have c: "chain oe (?xs @ [e])" using snoc.prems(1) by simp
  have ih: "(register_step oe)\<^sup>*\<^sup>* m ?u"
  proof (rule snoc.IH)
    show "chain oe ?xs" using chain_append [OF c] .
    show "\<forall>e \<in> set ?xs. or_OperationID (je_Record e) = g" using snoc.prems(2) by simp
  qed (fact snoc.prems(3))
  have v: "ValidateEvent oe e = None" "continues ?xs e" using c [unfolded chain_snoc_iff] by simp_all
  have "register_step oe ?u (?u(g \<mapsto> je_Record e))"
  proof (cases "?xs = []")
    case True
    then show ?thesis
      using v snoc.prems(2) ValidateEvent_seq [OF v(1)] ValidateEvent_record [OF v(1)]
      by (intro register_step.enter) (simp_all add: continues_def)
  next
    case False
    then have t: "ValidateTransition (je_Record (last ?xs)) (je_Record e) = None" using v(2) by (simp add: continues_def)
    then have "\<not> or_Terminal (je_Record (last ?xs))" by (simp add: ValidateTransition_def)
    with False transition_le [OF t ValidateEvent_record [OF v(1)]] chain_seq_next [OF c False] ValidateEvent_record [OF v(1)]
    show ?thesis by (intro register_step.revise) simp_all
  qed
  with ih have "(register_step oe)\<^sup>*\<^sup>* m (?u(g \<mapsto> je_Record e))" by (metis rtranclp.rtrancl_into_rtrancl)
  moreover have "?u(g \<mapsto> je_Record e) = m(g := if es @ fs @ [e] = [] then None else Some (je_Record (last (es @ fs @ [e]))))" by simp
  ultimately show ?case by (simp only:)
qed

section \<open>The whole store\<close>

lemma finite_journals: "finite {g. op_events s g \<noteq> []}"
proof (rule finite_subset)
  show "{g. op_events s g \<noteq> []} \<subseteq> dom (map_of (os_dirs s))"
    by (auto simp: op_events_def journal_at_def op_at_def dom_def split: option.splits)
qed (rule finite_dom_map_of)

lemma advance_registers:
  assumes "ops_ok oe t" "op_grows s t"
  shows "(register_step oe)\<^sup>*\<^sup>* (register_of s) (register_of t)"
proof -
  have part: "(register_step oe)\<^sup>*\<^sup>* (register_of s) (\<lambda>h. if h \<in> G then register_of t h else register_of s h)" if "finite G" for G
    using that
  proof induction
    case (insert g G)
    let ?m = "\<lambda>h. if h \<in> G then register_of t h else register_of s h"
    obtain fs where fs: "op_events t g = op_events s g @ fs" using assms(2) by (auto simp: op_grows_def prefix_def)
    have t: "register_of t g = (if op_events s g @ fs = [] then None else Some (je_Record (last (op_events s g @ fs))))"
      by (simp only: register_of_def fs)
    have "(register_step oe)\<^sup>*\<^sup>* ?m (?m(g := register_of t g))" unfolding t
    proof (rule chain_registers)
      show "chain oe (op_events s g @ fs)" using ops_ok_chain [OF assms(1), of g] by (simp only: fs)
      show "\<forall>e \<in> set (op_events s g @ fs). or_OperationID (je_Record e) = g" using ops_ok_owner [OF assms(1), of _ g] by (simp only: fs) blast
      show "?m g = (if op_events s g = [] then None else Some (je_Record (last (op_events s g))))"
        using insert.hyps(2) by (simp add: register_of_def)
    qed
    moreover have "?m(g := register_of t g) = (\<lambda>h. if h \<in> insert g G then register_of t h else register_of s h)" by auto
    ultimately show ?case using rtranclp_trans [OF insert.IH] by simp
  qed simp
  have "op_events s h = []" if "op_events t h = []" for h
    using assms(2) that by (simp add: op_grows_def) (metis prefix_Nil)
  then have "(\<lambda>h. if h \<in> {g. op_events t g \<noteq> []} then register_of t h else register_of s h) = register_of t"
    by (auto simp: register_of_def fun_eq_iff split: if_splits)
  with part [OF finite_journals, of t] show ?thesis by simp
qed

lemma history_registers:
  assumes "(op_step oe)\<^sup>*\<^sup>* s t" "ops_ok oe s"
  shows "(register_step oe)\<^sup>*\<^sup>* (register_of s) (register_of t)"
  using advance_registers [OF journal.run_inv [OF assms]] journal.run_rel [OF assms(1)] by (simp add: advances_def)

section \<open>Calls that report success\<close>

lemma read_register:
  assumes "ops_ok oe s" "Store_Read oe operationID s = (Inr r, t)"
  shows "(\<exists>g. operationDir operationID = Inr g \<and> register_of s g = Some r) \<and> register_of t = register_of s"
proof
  show "\<exists>g. operationDir operationID = Inr g \<and> register_of s g = Some r"
    using Read_events [OF assms] by (metis register_of_def)
  show "register_of t = register_of s"
    using calm_journal(2) [OF io_relD [OF calm_Read assms(2)]] by (simp add: register_of_def fun_eq_iff)
qed

lemma create_register:
  assumes "ops_ok oe s" "Store_Create oe record0 eventID now s = (Inr r, t)"
  shows "register_of s (or_OperationID r) = None \<and> register_of t = (register_of s)(or_OperationID r \<mapsto> r)"
  using Create_acknowledged(1,2) [OF assms] by (auto simp: register_of_def fun_eq_iff split: if_splits)

lemma update_register:
  assumes "ops_ok oe s" "Store_Update oe operationID eventID eventType mutate s = (Inr r, t)"
  shows "\<exists>g previous edited. operationDir operationID = Inr g \<and> register_of s g = Some previous \<and> mutate previous = Inr edited \<and>
    register_of t = (register_of s)(g \<mapsto> r) \<and>
    r = edited\<lparr>or_RecordRevision := inc64 (or_RecordRevision previous), or_LatestJournalSeq := or_LatestJournalSeq previous + 1,
               or_UpdatedAt := or_UpdatedAt r\<rparr>"
proof (rule Update_acknowledged [OF assms])
  fix g edited
  let ?p = "je_Record (last (op_events s g))"
  assume u: "operationDir operationID = Inr g" "op_events s g \<noteq> []" "mutate ?p = Inr edited" "r = stamp_next oe ?p edited"
    "op_events t = (op_events s)(g := op_events s g @ [update_event eventID eventType r])"
  have "ops_ok oe t" using journal.run_inv [OF r_into_rtranclp assms(1)] op_step.op_update [OF assms(2)] by blast
  then have "chain oe (op_events s g @ [update_event eventID eventType r])" using ops_ok_chain [of oe t g] u(5) by simp
  then have "or_LatestJournalSeq r = or_LatestJournalSeq ?p + 1" using chain_seq_next u(2) by fastforce
  moreover have "register_of s g = Some ?p" "register_of t = (register_of s)(g \<mapsto> r)"
    using u(2,5) by (simp_all add: register_of_def fun_eq_iff)
  moreover have "r = edited\<lparr>or_RecordRevision := inc64 (or_RecordRevision ?p), or_LatestJournalSeq := or_LatestJournalSeq r,
    or_UpdatedAt := or_UpdatedAt r\<rparr>"
    unfolding u(4) stamp_next_def by simp
  ultimately show ?thesis using u(1,3) by metis
qed

end
