(* ===== verification/Spec2Isabelle.thy ===== *)
theory Spec2Isabelle
  imports AgentFixtures ConfigPlanFixtures InstallFixtureRuns OperationRegister
begin

text \<open>
  KatlOS node state: a verification of the state machine that installs, boots, promotes, rolls back
  and removes the generations of a node, of the durable store of the operations that run on it, of the part of the
  node's agent that admits operations, commits their outcome and recovers after a restart, of the planning of
  configuration changes, and of the installer's way from a manifest to a written disk.

  \<^bold>\<open>The program.\<close> A KatlOS node runs one of several \<^emph>\<open>generations\<close>. A generation is a directory below
  \<^verbatim>\<open>/var/lib/katl/generations\<close> with an immutable specification (root slot, unified kernel image,
  extensions, kernel command line) and a mutable status (commit, boot and health state). The record
  \<^verbatim>\<open>/var/lib/katl/boot/selection.json\<close> names the default, target, trial, active, booted and last known
  good generation, and firmware variables name the loader entry to boot. A new generation is written
  (\<^verbatim>\<open>split.go\<close>), selected for a trial boot (\<^verbatim>\<open>management.go\<close>, \<^verbatim>\<open>boot_selection.go\<close>), booted through its
  loader entry (\<^verbatim>\<open>loader.go\<close>, \<^verbatim>\<open>activation.go\<close>), and after the boot either promoted or failed
  (\<^verbatim>\<open>boot_health.go\<close>), where one automatic reboot may be authorized (\<^verbatim>\<open>boot_recovery.go\<close>). Old generations
  are removed by a retention policy. All of these are in \<^verbatim>\<open>src/internal/generation\<close>.

  What the node's agent is asked to do (host upgrade, configuration apply, bootstrap, reset, etcd member removal) is an
  \<^emph>\<open>operation\<close>. Its record is kept in \<^verbatim>\<open>src/internal/installer/operation\<close>: one directory per operation with a journal of
  numbered events, each the complete record after a checked transition, and a snapshot of the latest one. After a
  reboot the store classifies what was left running and marks what needs repair.

  The agent itself is in \<^verbatim>\<open>src/internal/katlc/agent\<close>. It admits a request when its identifier is new and no unfinished
  operation holds one of its resource locks (\<^verbatim>\<open>server.go\<close>, \<^verbatim>\<open>destructive_reset.go\<close>, \<^verbatim>\<open>etcd_member.go\<close>), promotes a
  generation in place or commits it to a trial boot (\<^verbatim>\<open>executor.go\<close>), and before it serves requests it finishes
  promotions, audits the operations an earlier process left behind and discards what was being rendered
  (\<^verbatim>\<open>service.go\<close>, \<^verbatim>\<open>promotion_recovery.go\<close>, \<^verbatim>\<open>generation_apply_recovery.go\<close>).

  A change of a node's configuration is decided per domain and turned into a generation record and a status
  (\<^verbatim>\<open>internal/installer/configapply\<close>, \<^verbatim>\<open>matrix.go\<close> and \<^verbatim>\<open>planner.go\<close>).

  A node is first installed from a manifest (\<^verbatim>\<open>src/internal/installer\<close>). The runner (\<^verbatim>\<open>runner.go\<close>, \<^verbatim>\<open>progress.go\<close>) goes through a
  fixed plan of steps and keeps a status file: hardware is discovered (\<^verbatim>\<open>discovery\<close>), the disk, its partitions and the data
  volumes are selected and laid out (\<^verbatim>\<open>disk/layout.go\<close>), the disk operations are built and executed in groups
  (\<^verbatim>\<open>disk/executor.go\<close>, \<^verbatim>\<open>disk/boot.go\<close>) and the runtime image is written to a root slot (\<^verbatim>\<open>disk/root_slot*.go\<close>).

  \<^bold>\<open>The theories.\<close> Each opens with a description of its own.
  \<^item> \<open>Prelude\<close>, \<open>Go_IO\<close>: errors as values of \<open>err\<close> (\<open>fmt.Errorf\<close>, \<open>%w\<close>, \<open>errors.Join\<close>, \<open>errors.Is\<close>), the result type
    \<open>'a res\<close>, a monad of stateful operations that may fail, and the locale \<open>io_frame\<close>: a relation
    between states that is closed under the combinators, so that a frame property of an operation is
    proved by its rules.
  \<^item> \<open>Go_Strings\<close>, \<open>Go_Path\<close>: the functions of \<^verbatim>\<open>strings\<close>, \<^verbatim>\<open>path\<close> and \<^verbatim>\<open>path/filepath\<close> the package calls, on byte
    strings, with the laws of trimming, splitting and cleaning that the components need. Case is folded for ASCII letters only.
  \<^item> \<open>Segments\<close>, \<open>Activation\<close>: identifier and path checks, activation plans, loader entries
    (\<^verbatim>\<open>activation.go\<close>, \<^verbatim>\<open>loader.go\<close>).
  \<^item> \<open>KernelCmdline\<close>, \<open>KernelModule\<close>, \<open>ExtensionRelease\<close>: \<^verbatim>\<open>internal/kernelcmdline\<close>, \<^verbatim>\<open>internal/flavour\<close>,
    \<^verbatim>\<open>internal/kernelmodule\<close> (contracts and index selection) and \<^verbatim>\<open>internal/extensionrelease\<close>.
  \<^item> \<open>Metadata\<close>, \<open>ConfigApply\<close>, \<open>Split\<close>, \<open>UpgradeHandoff\<close>: the records, their construction, normal forms and validation
    (\<^verbatim>\<open>metadata.go\<close>, \<^verbatim>\<open>module_indexes.go\<close>, \<^verbatim>\<open>config_apply_status.go\<close>, \<^verbatim>\<open>split.go\<close>, \<^verbatim>\<open>upgrade_handoff.go\<close>). The
    admitted status updates are specified by two inductive machines, \<open>commit_step\<close> and \<open>boot_step\<close>.
  \<^item> \<open>NodeStore\<close>: the durable state \<open>node\<close> and the operations that read and write it (\<^verbatim>\<open>split.go\<close>,
    \<^verbatim>\<open>boot_selection.go\<close>, \<^verbatim>\<open>config_apply_status.go\<close>, \<^verbatim>\<open>upgrade_handoff.go\<close>). A file is absent, malformed or holds the
    decoded record. Every system call that changes the disk consumes one entry of the fault schedule
    \<open>nd_faults\<close>: it succeeds, fails before its effect, or fails after it. An empty schedule means success.
    \<open>ErrorFacts\<close> and \<open>StoreFacts\<close> hold its lemmas: what a read after a write returns, the
    invariant \<open>store_ok\<close> and the relation \<open>evolves\<close> between a node and its later states.
  \<^item> \<open>BootHealth\<close>, \<open>BootHealthFacts\<close>: \<^verbatim>\<open>boot_health.go\<close> and \<^verbatim>\<open>boot_recovery.go\<close>, live promotion with its compensation
    included, and what each report leaves behind.
  \<^item> \<open>Management\<close>, \<open>ManagementFacts\<close>: \<^verbatim>\<open>management.go\<close>, \<^verbatim>\<open>retention.go\<close>, \<^verbatim>\<open>mutation.go\<close>, \<^verbatim>\<open>initialize.go\<close>; the relation
    \<open>spares\<close> says which records and files an operation leaves alone.
  \<^item> \<open>Lifecycle\<close>: the node as a transition system. \<open>record_step\<close> has one rule per operation, with any
    outcome; \<open>node_step\<close> adds removals. The locale \<open>step_system\<close> lifts invariants and preorders to runs.
  \<^item> \<open>OperationRecord\<close>, \<open>OperationChecks\<close>: the operation record with its request bodies and evidence, every check of a
    record and of a transition, the classification of stale operations and their completion (\<^verbatim>\<open>store.go\<close>,
    \<^verbatim>\<open>completion.go\<close>, \<^verbatim>\<open>disk/authority.go\<close>). Sequence numbers and revisions are Go's \<open>int\<close>, incremented by \<open>inc64\<close>.
  \<^item> \<open>OperationStore\<close>: the tree of the store \<open>op_store\<close> and its operations, from the journal file names to the
    reconciliation at boot. System calls fail as they do for a node.
  \<^item> \<open>OperationFacts\<close>, \<open>OperationRuns\<close>, \<open>OperationReconcile\<close>: the inductive histories \<open>chain\<close>, the relation \<open>calm\<close> of steps that
    touch no journal and \<open>appended\<close> of the one that does, the invariant \<open>ops_ok\<close>, the transition system \<open>op_step\<close>
    with the order \<open>op_le\<close> on records, reading back, success on a disk without faults, reconciliation.
  \<^item> \<open>OperationRegister\<close>: the abstract specification of the store, a register of records with two kinds of steps \<open>register_step\<close>, and
    the refinement: along \<open>register_of\<close> every history of the store is one of the register.
  \<^item> \<open>AgentState\<close>: the agent's state, a node and an operation store, operations lifted from either, and the locale
    \<open>agent_frame\<close> that lifts their frame properties.
  \<^item> \<open>AgentAdmission\<close>, \<open>AgentAdmissionFacts\<close>: submission of requests, resource locks, dispatch failures; the invariant
    \<open>admitted\<close> (disjoint locks, unique request identifiers) and the relation \<open>admits\<close> that every update of the agent respects.
  \<^item> \<open>AgentExecutor\<close>, \<open>AgentExecutorFacts\<close>: loader entries of candidates, live promotion, trial commits, abandoning.
  \<^item> \<open>AgentRecovery\<close>, \<open>AgentRuns\<close>, \<open>AgentRecoveryFacts\<close>: the three recoveries at startup, the transition system
    \<open>agent_step\<close>, and what each recovery does to each operation and generation; \<open>still_runs\<close> and \<open>waiting_bootstrap\<close> say in the
    fields of a record which operations the audit leaves alone and which it makes continuable.
  \<^item> \<open>AgentContinuation\<close>: the search for the operation a bootstrap continues (\<^verbatim>\<open>bootstrap_continuation.go\<close>).
  \<^item> \<open>ConfigPlan\<close>, \<open>ConfigPlanFacts\<close>: the domain policies, \<open>Plan\<close> and \<open>PlanChange\<close>; \<open>admissible\<close> and \<open>applies_live\<close> say what a policy
    allows, independently of the loop that decides.
  \<^item> \<open>Discovery\<close>, \<open>DiskLayout\<close>, \<open>DiskLayoutFacts\<close>: selectors, safety checks and the facts read from \<^verbatim>\<open>lsblk\<close>, \<^verbatim>\<open>findmnt\<close> and \<^verbatim>\<open>ip\<close>; the layout
    of the target disk and of the volumes. Sizes are \<open>uint64\<close>, so that sums and products wrap as in the code.
  \<^item> \<open>InstallManifest\<close>: the install section of the manifest and the layout request built from it.
  \<^item> \<open>RootSlotWrite\<close>, \<open>RootSlotFacts\<close>: choosing and writing a root slot on a device that may fail after any number of bytes, and the
    state file that makes an interrupted write visible.
  \<^item> \<open>DiskExecutor\<close>, \<open>DiskExecutorFacts\<close>: the list of disk operations, their groups and their execution against the interface of a command
    runner; the locale \<open>disk_execution\<close> is the contract under which an execution keeps a relation between states.
  \<^item> \<open>InstallRunner\<close>, \<open>InstallRunnerFacts\<close>, \<open>InstallRefusal\<close>: the runner with its status, checkpoint and trace of commands, each
    with the status file at that moment; the relation \<open>under_notice\<close> of steps that run announced, by which
    \<open>disk_execution\<close> is interpreted; what happens to a changed request.
  \<^item> \<open>Fixtures\<close>, \<open>OperationFixtures\<close>, \<open>AgentFixtures\<close>, \<open>ConfigPlanFixtures\<close>, \<open>InstallFixtures\<close>, \<open>InstallFixtureRuns\<close>: concrete nodes, stores and requests, and the evaluated runs on which the
    properties are instantiated.

  \<^bold>\<open>The properties.\<close> C1 and C2 hold along every history of a node. C3 to C5 say what a boot report
  leaves behind, C6 that an interrupted publication can be repeated. C7 to C9 are about pruning, C10 about replacing a slot.
  C11 and C12 are about activation and loader entries.
  C14 and C15 state two places where an update has no effect or cannot succeed. C13 and C16 to C21 are about the operation store: C13 that
  it refines a register of operations, the others what
  stays of an operation along every history, what one call does, what is read from a damaged directory, and the
  reconciliation at boot. C22 to C30 are about the agent: C22 to C24 hold along every history of it, C25 to C27 say what its
  recovery at startup does and leaves, C28 and C29 what a trial commit does when it succeeds and when it fails late, and C30
  that a loop over stored receipts ends. C31 to C38 are about installing: C31 to C33 about the announcement of destructive
  mutation and the refusal of changed requests, C34 and C35 about the planned layout and its operations, C36 to C38 about
  root slots. C39 and C40 are about planning configuration changes. The theorems without a number state further properties of the same
  components.

  \<^bold>\<open>Parameters.\<close> \<open>env\<close> holds what is not computed by the package: the clock \<open>en_now\<close>, the digests of the
  canonical JSON of a specification and of a module inventory (\<open>en_spec_digest\<close>, \<open>en_module_digest\<close>), the OCI
  reference parser \<open>en_ParseNamed\<close> of a third-party module and the secret redaction \<open>en_redact\<close>. \<open>op_env\<close> does the same
  for the operation store: clock, URL and date parsers, and the digests of attachments and journals. \<open>agent_env\<close> joins
  both for the agent and adds what its process provides: boot identity, identifiers of new operations, the text and the signal of an error,
  the firmware setters, the mounting of the boot partition and the reading of files outside the two stores. The parser
  of durations (\<open>time.ParseDuration\<close>, which rounds through floating point) and the format of dates are arguments of
  the functions that use them. Firmware setters are arguments, as in the code, and may fail with or without
  effect. \<open>install_env\<close> is the surroundings of an installation: clock, digests, the answers of the discovery and of commands that print,
  the decoding of a manifest and its encoding as JSON (\<open>iv_Decode\<close>, \<open>iv_Marshal\<close>; the digest of a request is computed from the latter), the resolution of images and the steps that only copy files. The digest function, the effect of a
  write on a device, the temporary directory and the command runner are arguments of the disk operations. No property
  assumes anything about these parameters, except \<open>reconcile_boot_succeeds\<close> that the clock is not at the zero time, and C37 that a
  write that succeeds replaces the bytes it covers. Times are nanoseconds since the zero time as
  integers, so that zero is the zero time. Identifiers, paths and messages are byte strings.

  \<^bold>\<open>Termination.\<close> Every definition is total: loops are structural recursion over lists, and the scanners of
  \<open>Go_Strings\<close>, the loop \<open>writeRange\<close> over the chunks of an image and \<open>replace_all\<close> have termination proofs by a measure; no fuel is
  used. The one loop that follows references stored on
  disk, \<open>follow_receipts\<close>, is a partial function, and C30 proves that it returns.

  \<^bold>\<open>Not modelled.\<close> The JSON and protobuf forms of records and their envelopes (a file is its decoded record),
  the advisory lock files (operations run one at a time, as they do under the lock), directory permissions,
  the digests of artifact trees, the redaction expressions, the rendering of static systemd units
  (\<^verbatim>\<open>state.go\<close>), the mounting and composing of module images. Of the agent: the transport and the translation of requests
  of other kinds than reset and etcd member removal, the execution of operations (running kubeadm, rendering
  configuration, downloading images), and the services that only report. Of the installer: the decoding of manifests, the
  resolution and verification of images, the steps that copy files and render configuration (one parameter each), the goroutine that
  refreshes the status every two seconds (it saves the same status with a newer time), and the bundles and plans of a cluster.
  Cluster bootstrap, command line, release tools and virtual machine tests.
\<close>

section \<open>Histories of a node\<close>

text \<open>
  C1. Whatever sequence of operations a node goes through, with whatever failures of its system calls,
  its durable records stay valid: the boot selection passes its validation, every specification
  is valid and lies in the directory of its identifier, every status carries the digest of the
  specification beside it and only known states.
\<close>

theorem reachable_records_valid:
  assumes "(node_step env)\<^sup>*\<^sup>* s t" "store_ok env s"
  shows "store_ok env t"
  using assms by (rule node.run_inv)

theorem reachable_records_valid_witness:
  "store_ok demo_env (snd (Initialize demo_env ''/'' spec_a empty_node))"
proof (rule reachable_records_valid)
  show "(node_step demo_env)\<^sup>*\<^sup>* empty_node (snd (Initialize demo_env ''/'' spec_a empty_node))"
    by (rule r_into_rtranclp) (rule node_step.keep [OF record_step.initialize [OF run_outcome [OF initialize_run]]])
  show "store_ok demo_env empty_node" by (rule store_ok_empty)
qed

text \<open>
  C2. A published specification is immutable and its status only moves along the admitted transitions:
  along every history without removals the specification file of a generation keeps its content,
  and the status file is reached from the earlier one by accepted updates.
\<close>

theorem published_generation_history:
  assumes "(record_step env)\<^sup>*\<^sup>* s t" "gd_spec (gen_at s g) = File spec" "gd_status (gen_at s g) = File a"
  shows "gd_spec (gen_at t g) = File spec \<and> (\<exists>b. gd_status (gen_at t g) = File b \<and> status_move\<^sup>*\<^sup>* a b)"
  using records.run_rel [OF assms(1)] assms(2,3) by (auto simp: evolves_def dir_evolves_def)

theorem published_generation_history_witness:
  "gd_spec (gen_at (snd (RecordBootHealth demo_env (health_request ''failure'') trial_node)) ''b'') = File spec_b \<and>
   (\<exists>b. gd_status (gen_at (snd (RecordBootHealth demo_env (health_request ''failure'') trial_node)) ''b'') = File b \<and>
        status_move\<^sup>*\<^sup>* trial_b b)"
proof (rule published_generation_history)
  show "(record_step demo_env)\<^sup>*\<^sup>* trial_node (snd (RecordBootHealth demo_env (health_request ''failure'') trial_node))"
    by (rule r_into_rtranclp) (rule record_step.health [OF run_outcome [OF failure_run]])
qed (simp_all add: trial_node_def gen_at_def split_dir_def)

text \<open>
  The states a generation does not come back from: along every history without removals an abandoned
  generation stays abandoned, a generation that left the candidate state does not return to it,
  and a generation that was tried at boot stays either good or failed.
\<close>

theorem final_states:
  assumes "(record_step env)\<^sup>*\<^sup>* s t" "gd_spec (gen_at s g) = File spec" "gd_status (gen_at s g) = File a"
    "gd_status (gen_at t g) = File b"
  shows "(st_CommitState a = CommitStateAbandoned \<longrightarrow> st_CommitState b = CommitStateAbandoned) \<and>
    (st_CommitState a \<noteq> CommitStateCandidate \<longrightarrow> st_CommitState b \<noteq> CommitStateCandidate) \<and>
    (st_BootState a \<in> {BootStateGood, BootStateFailed} \<longrightarrow> st_BootState b \<in> {BootStateGood, BootStateFailed})"
proof -
  from records.run_rel [OF assms(1)] have "dir_evolves (gen_at s g) (gen_at t g)" by (simp add: evolves_def)
  with assms(2-4) have "status_move\<^sup>*\<^sup>* a b" by (auto simp: dir_evolves_def)
  then show ?thesis using status_moves_abandoned status_moves_not_candidate status_moves_tried by blast
qed

theorem final_states_witness:
  "{b. gd_status (gen_at (snd (RecordBootHealth demo_env (health_request ''failure'') trial_node)) ''a'') = File b}
     \<subseteq> {b. st_BootState b \<in> {BootStateGood, BootStateFailed}}"
proof -
  let ?t = "snd (RecordBootHealth demo_env (health_request ''failure'') trial_node)"
  have run: "(record_step demo_env)\<^sup>*\<^sup>* trial_node ?t"
    by (rule r_into_rtranclp) (rule record_step.health [OF run_outcome [OF failure_run]])
  have a: "gd_spec (gen_at trial_node ''a'') = File spec_a" "gd_status (gen_at trial_node ''a'') = File good_a"
    by (simp_all add: trial_node_def gen_at_def split_dir_def)
  have "st_BootState good_a \<in> {BootStateGood, BootStateFailed}" by code_simp
  with final_states [OF run a] show ?thesis by blast
qed

section \<open>Boot health\<close>

text \<open>
  C3. A promotion is backed by evidence and complete: on a node without generations of the legacy single-file form
  (\<open>no_legacy\<close>; C14 shows that their status updates are lost), when a success report promotes a generation, the kernel
  command line named that generation and its root partition, and afterwards it is the default, the
  active and the booted generation of the selection, nothing is pending, no recovery is required,
  and its records read back with a known-good status.
\<close>

theorem promotion_outcome:
  assumes "RecordBootHealth env q s = (Inr res, t)" "TrimSpace (hq_Result q) = BootHealthSuccess" "hr_Promoted res"
    "no_legacy s"
  shows "\<exists>b spec st0 st. ReadGeneration env (cleanRoot (hq_Root q)) (hr_GenerationID res) s = Inr (spec, st0) \<and>
    boot_evidence spec (hr_GenerationID res) (hq_CommandLine q) \<and> nd_selection t = File b \<and>
    bs_DefaultGenerationID b = hr_GenerationID res \<and> bs_ActiveGenerationID b = hr_GenerationID res \<and>
    bs_BootedGenerationID b = hr_GenerationID res \<and> bs_TargetBootGenerationID b = [] \<and> bs_TrialGenerationID b = [] \<and>
    \<not> bs_PendingHealthValidation b \<and> \<not> bs_RecoveryRequired b \<and>
    ReadGeneration env (cleanRoot (hq_Root q)) (hr_GenerationID res) t = Inr (spec, st) \<and> IsKnownGood st"
  using assms by (rule report_success)

theorem promotion_outcome_witness:
  "\<exists>b spec st. nd_selection (snd (RecordBootHealth demo_env (health_request ''success'') trial_node)) = File b \<and>
     bs_DefaultGenerationID b = ''b'' \<and>
     ReadGeneration demo_env ''/'' ''b'' (snd (RecordBootHealth demo_env (health_request ''success'') trial_node)) = Inr (spec, st) \<and>
     IsKnownGood st"
proof -
  have "TrimSpace (hq_Result (health_request ''success'')) = BootHealthSuccess" by code_simp
  moreover have "cleanRoot (hq_Root (health_request ''success'')) = ''/''" by code_simp
  ultimately show ?thesis
    using promotion_outcome [OF run_outcome [OF success_run] _ _ no_legacy_trial] by auto
qed

text \<open>
  C4. A failed boot never leaves the node on the failed generation without saying so: after a failure report
  that took effect the selection is valid, names the failed generation, has no trial or target left,
  and either asks for recovery or its default is a generation that reads back as known good.
\<close>

theorem failed_boot_falls_back:
  assumes "RecordBootHealth env q s = (Inr res, t)" "TrimSpace (hq_Result q) \<noteq> BootHealthSuccess" "hr_Failed res"
  shows "\<exists>b. nd_selection t = File b \<and> ValidateBootSelection b = None \<and> bs_FailedBootGenerationID b = hr_GenerationID res \<and>
    \<not> bs_PendingHealthValidation b \<and> bs_TargetBootGenerationID b = [] \<and> bs_TrialGenerationID b = [] \<and>
    hr_RecoveryRequired res = bs_RecoveryRequired b \<and>
    (bs_RecoveryRequired b \<or> validRollbackTarget env (cleanRoot (hq_Root q)) (bs_DefaultGenerationID b) t)"
proof -
  from report_failure [OF assms(1,2)] obtain fs g now where
    "failBootedGeneration env q g now (s\<lparr>nd_faults := fs\<rparr>) = (Inr res, t)" by blast
  from failed_boot_outcome [OF this assms(3)] show ?thesis by blast
qed

theorem failed_boot_falls_back_witness:
  "\<exists>b. nd_selection (snd (RecordBootHealth demo_env (health_request ''failure'') trial_node)) = File b \<and>
     ValidateBootSelection b = None \<and> \<not> bs_RecoveryRequired b \<and>
     validRollbackTarget demo_env ''/'' (bs_DefaultGenerationID b)
       (snd (RecordBootHealth demo_env (health_request ''failure'') trial_node))"
proof -
  have "TrimSpace (hq_Result (health_request ''failure'')) \<noteq> BootHealthSuccess" by code_simp
  moreover have "cleanRoot (hq_Root (health_request ''failure'')) = ''/''" by code_simp
  ultimately show ?thesis using failed_boot_falls_back [OF run_outcome [OF failure_run]] by auto
qed

text \<open>
  C5. One authorization gives at most one automatic reboot: a failure report that asks for a reboot found the
  authorization, consumed it and does not require recovery, and no later failure report on the resulting
  node asks for a reboot again.
\<close>

theorem single_automatic_reboot:
  assumes "RecordBootHealth env q s = (Inr res, t)" "TrimSpace (hq_Result q) \<noteq> BootHealthSuccess" "hr_RebootRequested res"
  shows "nd_arm s \<noteq> NoFile \<and> nd_arm t = NoFile \<and> \<not> hr_RecoveryRequired res \<and>
    (\<forall>q' res' t'. RecordBootHealth env q' t = (Inr res', t') \<and> TrimSpace (hq_Result q') \<noteq> BootHealthSuccess \<longrightarrow>
       \<not> hr_RebootRequested res')"
  using report_reboot [OF assms] report_reboot by blast

theorem single_automatic_reboot_witness:
  "nd_arm trial_node \<noteq> NoFile \<and> nd_arm (snd (RecordBootHealth demo_env (health_request ''failure'') trial_node)) = NoFile"
proof -
  have "TrimSpace (hq_Result (health_request ''failure'')) \<noteq> BootHealthSuccess" by code_simp
  then show ?thesis using single_automatic_reboot [OF run_outcome [OF failure_run]] by auto
qed

section \<open>Publishing generations\<close>

text \<open>
  C6. An interrupted publication can be repeated: whatever the outcome of a first attempt to publish a valid
  generation in a directory that holds no records yet, a second attempt whose system calls succeed
  returns without error and the specification and status read back.
\<close>

theorem publication_retry:
  assumes "ValidateGenerationStatus env spec (stamped env spec status) = None" "TrimSpace root \<noteq> []"
    "PlanActivation env (RecordFromSplit spec status) = Inr p" "trimmed (gs_GenerationID spec)"
    "gd_spec (gen_at s (gs_GenerationID spec)) = NoFile" "gd_status (gen_at s (gs_GenerationID spec)) = NoFile"
    "WriteGeneration env root spec status s = (r, t)"
  shows "\<exists>u. WriteGeneration env root spec status (t\<lparr>nd_faults := []\<rparr>) = (Inr (), u) \<and>
    ReadGeneration env root (gs_GenerationID spec) u = Inr (spec, stamped env spec status)"
  using assms by (rule WriteGeneration_retry)

theorem publication_retry_witness:
  "\<exists>u. WriteGeneration demo_env ''/'' spec_b trial_b
        ((snd (WriteGeneration demo_env ''/'' spec_b trial_b (empty_node\<lparr>nd_faults := [IoOk, IoFailAfter ''sync'']\<rparr>)))\<lparr>nd_faults := []\<rparr>)
      = (Inr (), u) \<and> ReadGeneration demo_env ''/'' ''b'' u = Inr (spec_b, trial_b)"
proof -
  let ?s = "empty_node\<lparr>nd_faults := [IoOk, IoFailAfter ''sync'']\<rparr>"
  have id: "gs_GenerationID spec_b = ''b''" by (simp add: spec_b_def demo_spec_def)
  have st: "stamped demo_env spec_b trial_b = trial_b" by code_simp
  obtain p where p: "PlanActivation demo_env (RecordFromSplit spec_b trial_b) = Inr p"
    using plan_run by (cases "PlanActivation demo_env (RecordFromSplit spec_b trial_b)") auto
  have "TrimSpace ''/'' \<noteq> []" by code_simp
  moreover have "trimmed ''b''" by code_simp
  moreover have "gd_spec (gen_at ?s ''b'') = NoFile" "gd_status (gen_at ?s ''b'') = NoFile"
    by (simp_all add: gen_at_def empty_node_def empty_gen_def)
  moreover obtain r t where run: "WriteGeneration demo_env ''/'' spec_b trial_b ?s = (r, t)" by fastforce
  ultimately show ?thesis
    using publication_retry [of demo_env spec_b trial_b "''/''" p ?s r t] p demo_valid(2) unfolding id st by simp
qed

text \<open>
  A status update that returns without error is what the next read sees, together with the unchanged
  specification.
\<close>

theorem status_update_reads_back:
  assumes "ReadGeneration env root raw s = Inr (spec, status0)" "gd_spec (gen_at s (TrimSpace raw)) \<noteq> NoFile"
    "WriteGenerationStatus env root spec status s = (Inr u, t)"
  shows "ReadGeneration env root raw t = Inr (spec, status)"
  using assms by (rule WriteGenerationStatus_reads_back)

theorem status_update_reads_back_witness:
  "ReadGeneration demo_env ''/'' ''b'' (snd (WriteGenerationStatus demo_env ''/'' spec_b (failed_status 50 [] trial_b) trial_node)) =
     Inr (spec_b, failed_status 50 [] trial_b)"
proof (rule status_update_reads_back [OF trial_read _ run_outcome [OF status_run]])
  have "TrimSpace ''b'' = ''b''" by code_simp
  then show "gd_spec (gen_at trial_node (TrimSpace ''b'')) \<noteq> NoFile" by (simp add: trial_node_def gen_at_def split_dir_def)
qed

section \<open>Removing and pruning generations\<close>

text \<open>
  Removing a generation, whatever its outcome, leaves the records of every generation that the boot
  selection names (active, booted, default, next boot, trial, rollback) as they were.
\<close>

theorem remove_keeps_selected:
  assumes "Remove env root g s = (r, t)" "ReadBootSelection root s = Inr b" "h \<in> selected_ids b"
  shows "gen_at t h = gen_at s h"
  using assms by (rule Remove_selected)

theorem remove_keeps_selected_witness:
  "gen_at (snd (Remove demo_env ''/'' ''a'' idle_node)) ''a'' = gen_at idle_node ''a''"
proof (rule remove_keeps_selected [OF _ idle_selection_read])
  show "Remove demo_env ''/'' ''a'' idle_node = (fst (Remove demo_env ''/'' ''a'' idle_node), snd (Remove demo_env ''/'' ''a'' idle_node))"
    by simp
  show "''a'' \<in> selected_ids idle_selection" by (simp add: selected_ids_def idle_selection_def)
qed

text \<open>
  C7. Pruning, whatever its policy and its outcome, leaves the records of every generation that the boot
  selection names as they were.
\<close>

theorem prune_keeps_selected:
  assumes "Prune ParseDuration env root policy now s = (r, t)" "ReadBootSelection root s = Inr b" "h \<in> selected_ids b"
  shows "gen_at t h = gen_at s h"
  using assms by (rule Prune_selected)

theorem prune_keeps_selected_witness:
  "gen_at (snd (Prune no_durations demo_env ''/'' demo_policy (10 ^ 16) idle_node)) ''a'' = gen_at idle_node ''a''"
  by (rule prune_keeps_selected [OF run_outcome [OF prune_run] idle_selection_read])
     (simp add: selected_ids_def idle_selection_def)

text \<open>
  C8. Pruning removes no file that a generation it keeps still references: an extension file of a listed
  generation whose records are protected is still there afterwards, even when it lies in the directory of
  another generation.
\<close>

theorem prune_keeps_shared_files:
  assumes "Prune ParseDuration env root policy now s = (r, t)" "ReadBootSelection root s = Inr b"
    "inspect env root b s = Inr items" "other \<in> set items" "p \<in> set (ext_paths (mg_Spec other))"
    "plain_file p" "mg_ID other \<in> spared items" "p \<in> set (nd_paths s)"
  shows "p \<in> set (nd_paths t)"
  using assms by (rule Prune_shared_files)

theorem prune_keeps_shared_files_witness:
  "''/var/lib/katl/generations/a/confext/node.raw'' \<in>
     set (nd_paths (snd (Prune no_durations demo_env ''/'' demo_policy (10 ^ 16) idle_node)))"
proof (rule prune_keeps_shared_files [OF run_outcome [OF prune_run] idle_selection_read idle_listing, of "demo_listing ! 1"])
  show "demo_listing ! 1 \<in> set demo_listing" by (simp add: demo_listing_def)
  show "''/var/lib/katl/generations/a/confext/node.raw'' \<in> set (ext_paths (mg_Spec (demo_listing ! 1)))"
    by (simp add: demo_listing_def managed_def ext_paths_def spec_a_def demo_spec_def demo_confext_def)
  show "plain_file ''/var/lib/katl/generations/a/confext/node.raw''" by code_simp
  show "mg_ID (demo_listing ! 1) \<in> spared demo_listing"
    by (simp add: spared_def demo_listing_def managed_def spec_a_def spec_b_def spec_c_def demo_spec_def)
  show "''/var/lib/katl/generations/a/confext/node.raw'' \<in> set (nd_paths idle_node)"
    by (simp add: idle_node_def trial_node_def empty_node_def demo_paths_def)
qed

text \<open>
  Every slot keeps a way back: when a slot has a bootable known-good generation before pruning, some
  bootable known-good generation of that slot has its records untouched afterwards.
\<close>

theorem prune_keeps_slot_rollback:
  assumes "Prune ParseDuration env root policy now s = (r, t)" "ReadBootSelection root s = Inr b"
    "inspect env root b s = Inr items" "i \<in> set items" "slot_keeper i" "distinct (map mg_ID items)"
  shows "\<exists>k \<in> set items. slot_keeper k \<and> mg_Slot k = mg_Slot i \<and> gen_at t (mg_ID k) = gen_at s (mg_ID k)"
  using assms by (rule Prune_slot_rollback)

theorem prune_keeps_slot_rollback_witness:
  "\<exists>k \<in> set demo_listing. slot_keeper k \<and> mg_Slot k = mg_Slot (demo_listing ! 2) \<and>
     gen_at (snd (Prune no_durations demo_env ''/'' demo_policy (10 ^ 16) idle_node)) (mg_ID k) = gen_at idle_node (mg_ID k)"
proof (rule prune_keeps_slot_rollback [OF run_outcome [OF prune_run] idle_selection_read idle_listing])
  show "demo_listing ! 2 \<in> set demo_listing" by (simp add: demo_listing_def)
  show "slot_keeper (demo_listing ! 2)" by code_simp
  show "distinct (map mg_ID demo_listing)" by code_simp
qed

text \<open>
  C9. Pruning respects the retention floors: a generation it reports as removed was not protected and was
  either marked unavailable, or its slot was replaced, or it is older than the maximum age and at least
  the configured number of newer generations of the same version and flavour are listed before it.
\<close>

theorem prune_respects_retention:
  assumes "Prune ParseDuration env root policy now s = (Inr (removed, e), t)" "ReadBootSelection root s = Inr b"
    "inspect env root b s = Inr items" "Retention_Limits ParseDuration policy = Inr (n, age)" "g \<in> set removed"
  shows "\<exists>pre i post. items = pre @ i # post \<and> mg_ID i = g \<and> mg_ProtectedBy i = [] \<and>
    (st_UnavailableReason (mg_Status i) \<noteq> [] \<or> mg_UnavailableReason i = SlotReplaced \<or>
     n \<le> newer_peers pre i \<and> gs_CreatedAt (mg_Spec i) < now - age)"
  using assms by (rule Prune_retention)

theorem prune_respects_retention_witness:
  "\<exists>pre i post. demo_listing = pre @ i # post \<and> mg_ID i = ''c'' \<and> mg_ProtectedBy i = [] \<and>
    (st_UnavailableReason (mg_Status i) \<noteq> [] \<or> mg_UnavailableReason i = SlotReplaced \<or>
     1 \<le> newer_peers pre i \<and> gs_CreatedAt (mg_Spec i) < 10 ^ 16 - day_ns)"
proof (rule prune_respects_retention [OF run_outcome [OF prune_run] idle_selection_read idle_listing])
  show "Retention_Limits no_durations demo_policy = Inr (1, day_ns)" by code_simp
qed simp

text \<open>
  The listing is complete and ordered: it has one item per visible generation directory, each item holds
  what reading its directory returns, and no item is newer than one listed before it.
\<close>

theorem listing_complete:
  assumes "inspect env root b s = Inr items"
  shows "length items = length (visible_names s) \<and>
    (\<forall>name \<in> set (visible_names s). \<exists>i \<in> set items. ReadGeneration env root name s = Inr (mg_Spec i, mg_Status i)) \<and>
    (\<forall>i \<in> set items. \<exists>name \<in> set (visible_names s). ReadGeneration env root name s = Inr (mg_Spec i, mg_Status i)) \<and>
    sorted_wrt (\<lambda>x y. \<not> newer y x) items"
  using inspect_length [OF assms] inspect_item_listed [OF assms] inspect_item_read [OF assms] inspect_sorted [OF assms] by blast

theorem listing_complete_witness:
  "length demo_listing = length (visible_names idle_node) \<and> sorted_wrt (\<lambda>x y. \<not> newer y x) demo_listing"
  using listing_complete [OF idle_listing] by blast

section \<open>Selecting, replacing and starting\<close>

text \<open>
  A selection that returns without error chose a listed generation that can boot and is known good, on
  a node with no pending boot; it published the new selection and changed no generation record.
\<close>

theorem select_outcome:
  assumes "Select env q s = (Inr u, t)"
  shows "\<exists>b items i. ReadBootSelection (sq_Root q) s = Inr b \<and> inspect env (sq_Root q) b s = Inr items \<and> i \<in> set items \<and>
    mg_ID i = sq_GenerationID q \<and> mg_UnavailableReason i = [] \<and> IsKnownGood (mg_Status i) \<and>
    \<not> bs_PendingHealthValidation b \<and> \<not> bs_RecoveryRequired b \<and> same_gens s t \<and>
    nd_selection t = File (selected_selection (en_now env) q (mg_Spec i) b)"
  using assms by (rule Select_outcome)

theorem select_outcome_witness:
  "\<exists>b items i. inspect demo_env ''/'' b idle_node = Inr items \<and> i \<in> set items \<and> mg_ID i = ''c'' \<and> IsKnownGood (mg_Status i) \<and>
     nd_selection (snd (Select demo_env (select_request ''c'') idle_node)) =
       File (selected_selection 100 (select_request ''c'') (mg_Spec i) b)"
  using select_outcome [OF run_outcome [OF select_run]] by (auto simp: select_request_def demo_env_def)

text \<open>
  C10. Before a slot is overwritten nothing points at it: when a slot was invalidated without error, the
  selection names no generation of that slot in any of its fields and the status file of each of them
  says that the slot was replaced.
\<close>

theorem invalidated_slot_unreferenced:
  assumes "InvalidateSlot env root uuid now f h s = (Inr u, t)"
  shows "\<exists>b items b'. ReadBootSelection root s = Inr b \<and> inspect env root b s = Inr items \<and> nd_selection t = File b' \<and>
    (\<forall>i \<in> set items. EqualFold (mg_Slot i) uuid \<longrightarrow>
       mg_ID i \<notin> selected_ids b' \<union> {bs_Generation0FallbackID b', bs_FailedBootGenerationID b'} \<and> marked_replaced t (mg_ID i))"
  using assms by (rule InvalidateSlot_outcome)

theorem invalidated_slot_unreferenced_witness:
  "marked_replaced (snd (InvalidateSlot demo_env ''/'' ''SLOT-b'' 70 None None idle_node)) ''b''"
proof -
  have i: "demo_listing ! 0 \<in> set demo_listing" "mg_ID (demo_listing ! 0) = ''b''"
    by (simp_all add: demo_listing_def managed_def spec_b_def demo_spec_def)
  have "EqualFold (mg_Slot (demo_listing ! 0)) ''SLOT-b''" by code_simp
  with invalidated_slot_unreferenced [OF run_outcome [OF invalidate_run]] idle_selection_read idle_listing i show ?thesis by auto
qed

section \<open>Activation and loader entries\<close>

text \<open>
  C11. An activation plan stays in its directories: the activation paths of its links are distinct, those of
  system extensions lie below /run/extensions and those of configuration extensions below
  /run/confexts, and every source lies in the directory of the planned generation.
\<close>

theorem activation_plan_confined:
  assumes "PlanActivation env r = Inr p"
  shows "distinct (map al_ActivationPath (plan_all_links p)) \<and>
    (\<forall>l \<in> set (ap_Sysexts p). below DefaultExtensionsActivationDir (al_ActivationPath l)) \<and>
    (\<forall>l \<in> set (ap_BundledConfexts p @ ap_Confexts p). below DefaultConfextsActivationDir (al_ActivationPath l)) \<and>
    (\<forall>l \<in> set (plan_all_links p). \<exists>k \<in> {''sysext'', ''bundled-confext'', ''confext''}.
       let d = PathJoin [GenerationRecordsDir, ap_GenerationID p, k] in al_SourcePath l = d \<or> below d (al_SourcePath l))"
  using PlanActivation_distinct [OF assms] PlanActivation_below [OF assms] PlanActivation_sources [OF assms] by blast

theorem activation_plan_confined_witness:
  "\<exists>p. PlanActivation demo_env (RecordFromSplit spec_b trial_b) = Inr p \<and> distinct (map al_ActivationPath (plan_all_links p))"
proof -
  obtain p where p: "PlanActivation demo_env (RecordFromSplit spec_b trial_b) = Inr p"
    using plan_run by (cases "PlanActivation demo_env (RecordFromSplit spec_b trial_b)") auto
  with activation_plan_confined [OF p] show ?thesis by blast
qed

text \<open>
  C12. A boot through a loader entry selects the generation of the entry: when the options of an entry contain
  no white space, the generation read back from the kernel command line they form is the one the
  entry was rendered for.
\<close>

theorem loader_entry_selects_generation:
  assumes "entryOptions r m g slot uuid = Inr opts" "list_all space_free opts" "cleanSegment n raw = Inr g"
  shows "SelectedGenerationFromCommandLine (Join opts '' '') = Inr g"
  using assms by (rule entry_command_line_roundtrip)

theorem loader_entry_selects_generation_witness:
  "SelectedGenerationFromCommandLine (Join (projr (entryOptions (RecordFromSplit spec_b trial_b) ''0'' ''b'' ''s'' ''u'')) '' '') = Inr ''b''"
proof (rule loader_entry_selects_generation)
  have "\<not> isl (entryOptions (RecordFromSplit spec_b trial_b) ''0'' ''b'' ''s'' ''u'')" by code_simp
  then show "entryOptions (RecordFromSplit spec_b trial_b) ''0'' ''b'' ''s'' ''u'' =
      Inr (projr (entryOptions (RecordFromSplit spec_b trial_b) ''0'' ''b'' ''s'' ''u''))"
    by (cases "entryOptions (RecordFromSplit spec_b trial_b) ''0'' ''b'' ''s'' ''u''") auto
  show "list_all space_free (projr (entryOptions (RecordFromSplit spec_b trial_b) ''0'' ''b'' ''s'' ''u''))" by code_simp
  show "cleanSegment [] ''b'' = Inr ''b''" by code_simp
qed

section \<open>Module indexes and release manifests\<close>

text \<open>
  The binding of module indexes depends on the selected inventory, not on the order or repetition of the
  bundles: contracts with the same set give the same index selection.
\<close>

theorem index_selection_order_independent:
  assumes "IndexInputs module_digest cs = Inr sel" "set cs' = set cs"
  shows "IndexInputs module_digest cs' = Inr sel"
proof -
  have "cs' \<noteq> [] \<longleftrightarrow> cs \<noteq> []" using assms(2) by (cases cs; cases cs') auto
  with assms show ?thesis unfolding IndexInputs_spec by (simp add: inventory_def)
qed

theorem index_selection_order_independent_witness:
  "IndexInputs module_names [contract_2, contract_1, contract_2] = IndexInputs module_names [contract_1, contract_2]"
proof -
  obtain sel where sel: "IndexInputs module_names [contract_1, contract_2] = Inr sel"
    using index_run by (cases "IndexInputs module_names [contract_1, contract_2]") auto
  have "IndexInputs module_names [contract_2, contract_1, contract_2] = Inr sel"
    by (rule index_selection_order_independent [OF sel]) auto
  with sel show ?thesis by simp
qed

section \<open>Normal forms of records\<close>

text \<open>
  A new configuration apply status is valid, planned, belongs to the generation of the request, lists each
  changed domain once and carries no rollback.
\<close>

theorem new_config_apply_status_valid:
  assumes "NewConfigApplyStatus redact now q = Inr s"
  shows "ValidateConfigApplyStatus s = None \<and> cs_Phase s = ConfigApplyPhasePlanned \<and>
    cs_GenerationID s = TrimSpace (cq_GenerationID q) \<and> distinct (cs_ChangedDomains s) \<and> cs_Rollback s = None"
  using NewConfigApplyStatus_Inr [OF assms] by blast

theorem new_config_apply_status_valid_witness:
  "\<exists>s. NewConfigApplyStatus (\<lambda>s. s) 9 demo_apply = Inr s \<and> ValidateConfigApplyStatus s = None"
proof -
  obtain s where s: "NewConfigApplyStatus (\<lambda>s. s) 9 demo_apply = Inr s"
    using apply_run by (cases "NewConfigApplyStatus (\<lambda>s. s) 9 demo_apply") auto
  with new_config_apply_status_valid [OF s] show ?thesis by blast
qed

section \<open>Where an update has no effect\<close>

text \<open>
  C14. A status written for a generation of the single-file form is lost: the write succeeds, and every later
  read still returns the status the single file holds.
\<close>

theorem legacy_status_update_ineffective:
  assumes "gd_spec (gen_at s (TrimSpace raw)) = NoFile"
    and "ReadGeneration env root raw s = Inr (spec, status0)"
    and "WriteGenerationStatus env root spec status s = (Inr u, t)"
  shows "ReadGeneration env root raw t = Inr (spec, status0)"
  using assms by (rule legacy_status_write_lost)

theorem legacy_status_update_ineffective_witness:
  "ReadGeneration demo_env ''/'' ''b''
     (snd (WriteGenerationStatus demo_env ''/'' spec_b (failed_status 50 [] legacy_status) legacy_node)) =
   Inr (spec_b, legacy_status)"
proof (rule legacy_status_update_ineffective)
  show "gd_spec (gen_at legacy_node (TrimSpace ''b'')) = NoFile" by code_simp
qed (rule legacy_read, rule run_outcome [OF legacy_write])

text \<open>
  C15. A failed boot without a recorded known-good generation cannot fall back to the default: the selection it
  would write is rejected, so the report fails for every such node.
\<close>

theorem fallback_to_default_fails:
  assumes "TrimSpace (bs_PreviousKnownGoodGenerationID b) = []" "\<not> bs_OneShot b" "bs_DefaultGenerationID b \<noteq> g"
    "TrimSpace (bs_DefaultGenerationID b) \<noteq> []" "TrimSpace g \<noteq> []"
    and "validRollbackTarget env (cleanRoot (hq_Root q)) (TrimSpace (bs_DefaultGenerationID b)) s"
  shows "fail_fallback env q g now b armed s \<noteq> (Inr res, t)"
  using assms by (rule fallback_to_default_rejected)

theorem fallback_to_default_fails_witness:
  "\<forall>res t. fail_fallback demo_env (health_request ''failure'') ''b'' 50 bare_selection False trial_node \<noteq> (Inr res, t)"
proof (intro allI)
  fix res t
  have v: "validRollbackTarget demo_env (cleanRoot (hq_Root (health_request ''failure'')))
      (TrimSpace (bs_DefaultGenerationID bare_selection)) trial_node" by code_simp
  show "fail_fallback demo_env (health_request ''failure'') ''b'' 50 bare_selection False trial_node \<noteq> (Inr res, t)"
    by (rule fallback_to_default_fails [OF _ _ _ _ _ v]) code_simp+
qed

section \<open>The operation store\<close>

text \<open>
  C13. The store implements a register of operations. With directories, journals, snapshots, torn writes and repairs abstracted
  away, every history of the store, whatever fails in it, is a sequence of two kinds of steps: a valid record is entered
  under an identifier that was free, with sequence number one, or the unfinished record of an operation is revised into a
  valid one that keeps its identity and evidence and has the next number. At every moment of such a history a read that succeeds
  returns what the register holds and changes nothing in it, a creation that succeeds enters the returned record and nothing else,
  and an update that succeeds applies its function to the registered record and puts the result, with a new
  revision, sequence number and time, in its place and changes nothing else.
\<close>

theorem store_refines_register:
  assumes "(op_step oe)\<^sup>*\<^sup>* s t" "ops_ok oe s"
  shows "(register_step oe)\<^sup>*\<^sup>* (register_of s) (register_of t) \<and>
    (\<forall>operationID r u. Store_Read oe operationID t = (Inr r, u) \<longrightarrow>
       (\<exists>g. operationDir operationID = Inr g \<and> register_of t g = Some r) \<and> register_of u = register_of t) \<and>
    (\<forall>record0 eventID now r u. Store_Create oe record0 eventID now t = (Inr r, u) \<longrightarrow>
       register_of t (or_OperationID r) = None \<and> register_of u = (register_of t)(or_OperationID r \<mapsto> r)) \<and>
    (\<forall>operationID eventID eventType mutate r u. Store_Update oe operationID eventID eventType mutate t = (Inr r, u) \<longrightarrow>
       (\<exists>g previous edited. operationDir operationID = Inr g \<and> register_of t g = Some previous \<and> mutate previous = Inr edited \<and>
          register_of u = (register_of t)(g \<mapsto> r) \<and>
          r = edited\<lparr>or_RecordRevision := inc64 (or_RecordRevision previous), or_LatestJournalSeq := or_LatestJournalSeq previous + 1,
                     or_UpdatedAt := or_UpdatedAt r\<rparr>))"
proof -
  have ok: "ops_ok oe t" using assms by (rule journal.run_inv)
  show ?thesis
    by (intro conjI allI impI; (rule history_registers [OF assms] | erule read_register [OF ok, THEN conjunct1]
      | erule read_register [OF ok, THEN conjunct2] | erule create_register [OF ok, THEN conjunct1]
      | erule create_register [OF ok, THEN conjunct2] | erule update_register [OF ok]))
qed

theorem store_refines_register_witness:
  "(register_step demo_op_env)\<^sup>*\<^sup>* Map.empty (register_of marked_ops) \<and>
   register_of created_ops = [''op1'' \<mapsto> new_record demo_operation 10]"
proof -
  obtain r where m: "Store_AddPreExecMutationMarker demo_op_env ''op1'' demo_marker created_ops = (Inr r, marked_ops)"
    by (rule marked_pair)
  have id: "or_OperationID (new_record demo_operation 10) = ''op1''" by code_simp
  have none: "register_of empty_ops = Map.empty"
    by (simp add: register_of_def fun_eq_iff empty_ops_def op_events_def journal_at_def op_at_def events_of_def)
  have "(op_step demo_op_env)\<^sup>*\<^sup>* empty_ops marked_ops"
    using op_step.op_create [OF created_pair] op_step.op_marker [OF m] by (meson r_into_rtranclp rtranclp.rtrancl_into_rtrancl)
  from store_refines_register [OF this empty_ops_ok] have run: "(register_step demo_op_env)\<^sup>*\<^sup>* Map.empty (register_of marked_ops)"
    using none by simp
  from store_refines_register [OF rtranclp.rtrancl_refl empty_ops_ok [of demo_op_env]] created_pair
  have "register_of created_ops = (register_of empty_ops)(or_OperationID (new_record demo_operation 10) \<mapsto> new_record demo_operation 10)" by blast
  with run none id show ?thesis by simp
qed

text \<open>
  C16. What an operation has recorded stays: along every history of the store, with any mutation functions and any
  failures of system calls, a later read of an operation returns a record with the same identity, expectations and
  request, with at least the same phases, mutation evidence, tool invocations and artifacts; and once a read has
  returned a terminal record every later read returns that very record.
\<close>

theorem operation_record_history:
  assumes "(op_step oe)\<^sup>*\<^sup>* s t" "ops_ok oe s" "Store_Read oe operationID s = (Inr a, s')" "Store_Read oe operationID t = (Inr b, t')"
  shows "op_le a b \<and> (or_Terminal a \<longrightarrow> b = a)"
proof -
  from Read_events [OF assms(2,3)] obtain g where
    g: "operationDir operationID = Inr g" "op_events s g \<noteq> []" "a = je_Record (last (op_events s g))" .
  from Read_events [OF journal.run_inv [OF assms(1,2)] assms(4)] g(1) have "b = je_Record (last (op_events t g))" by auto
  with operation_history [OF assms(1,2) g(2)] g(3) show ?thesis by auto
qed

theorem operation_record_history_witness:
  "\<exists>a b. fst (Store_Read demo_op_env ''op1'' created_ops) = Inr a \<and> fst (Store_Read demo_op_env ''op1'' marked_ops) = Inr b \<and> op_le a b"
proof -
  obtain r where m: "Store_AddPreExecMutationMarker demo_op_env ''op1'' demo_marker created_ops = (Inr r, marked_ops)"
    by (rule marked_pair)
  have run: "(op_step demo_op_env)\<^sup>*\<^sup>* created_ops marked_ops"
    by (rule r_into_rtranclp) (rule op_step.op_marker [OF m])
  have a: "Store_Read demo_op_env ''op1'' created_ops = (Inr (new_record demo_operation 10), created_ops)"
    using Create_acknowledged(3) [OF empty_ops_ok created_pair] by simp
  have b: "Store_Read demo_op_env ''op1'' marked_ops = (Inr r, marked_ops)"
    using Update_acknowledged [OF created_ops_ok m [unfolded Store_AddPreExecMutationMarker_def]] by blast
  from operation_record_history [OF run created_ops_ok a b] show ?thesis using a b by simp
qed

text \<open>
  C17. An update is atomic. Whatever fails, the history of the operation afterwards is the old one, in which case the
  update reports an error, or the old one with exactly one further event, which is valid and an admitted transition of
  the last; other operations are untouched. When the update reports success the event carries the returned record
  and the next read returns it and changes nothing.
\<close>

theorem update_atomic:
  assumes "ops_ok oe s" "Store_Update oe operationID eventID eventType mutate s = (r, t)" "operationDir operationID = Inr g"
  shows "isl r \<and> op_events t = op_events s \<or>
    (\<exists>e. op_events t = (op_events s)(g := op_events s g @ [e]) \<and> ValidateEvent oe e = None \<and> continues (op_events s g) e \<and>
         (\<forall>n. r = Inr n \<longrightarrow> je_Record e = n \<and> Store_Read oe operationID t = (Inr n, t)))"
  using assms by (rule Update_atomic)

theorem update_atomic_witness:
  "\<exists>e. op_events marked_ops ''op1'' = op_events created_ops ''op1'' @ [e] \<and>
       Store_Read demo_op_env ''op1'' marked_ops = (Inr (je_Record e), marked_ops)"
proof -
  obtain r where m: "Store_AddPreExecMutationMarker demo_op_env ''op1'' demo_marker created_ops = (Inr r, marked_ops)"
    by (rule marked_pair)
  from update_atomic [OF created_ops_ok m [unfolded Store_AddPreExecMutationMarker_def] op1_dir] show ?thesis by auto
qed

text \<open>
  A created operation reads back: creation succeeds only for an operation without events, leaves exactly one event,
  which holds the returned record, touches no other operation, and the next read returns that record.
\<close>

theorem create_reads_back:
  assumes "ops_ok oe s" "Store_Create oe record0 eventID now s = (Inr r, t)"
  shows "op_events s (or_OperationID r) = [] \<and>
    (\<exists>e. je_Record e = r \<and> op_events t = (op_events s)(or_OperationID r := [e])) \<and>
    Store_Read oe (or_OperationID r) t = (Inr r, t)"
  using Create_acknowledged [OF assms] by blast

theorem create_reads_back_witness:
  "Store_Read demo_op_env ''op1'' created_ops = (Inr (new_record demo_operation 10), created_ops)"
  using create_reads_back [OF empty_ops_ok created_pair] by simp

text \<open>
  C18. Whatever files lie in a journal directory, what is read from it is a history the store could have written: its
  events are valid, each is an admitted transition of the one before, and the sequence numbers count from one
  and stay within 64 bits.
\<close>

theorem journal_reads_chain:
  assumes "readJournal oe journal = Inr es"
  shows "chain oe es \<and> map je_Sequence es = map int [1..<Suc (length es)] \<and> int (length es) \<le> 2 ^ 63 - 1"
  using readJournal_chain [OF assms] chain_sequences by blast

theorem journal_reads_chain_witness:
  "\<exists>e. readJournal demo_op_env (journal_at created_ops ''op1'') = Inr [e] \<and> je_Sequence e = 1"
proof -
  obtain e where e: "op_events created_ops ''op1'' = [e]"
    using Create_acknowledged(2) [OF empty_ops_ok created_pair] by auto
  then obtain files where "journal_at created_ops ''op1'' = Some files"
    by (cases "journal_at created_ops ''op1''") (auto simp: op_events_def)
  then have "readJournal demo_op_env (journal_at created_ops ''op1'') = Inr [e]"
    using ops_ok_journal(2) [OF created_ops_ok] e by simp
  from this journal_reads_chain [OF this] show ?thesis by auto
qed

text \<open>
  C19. The snapshot is only a cache. A read on a disk without faults returns what the journal alone determines, the
  record of its last event, whether the snapshot file is missing, damaged, stale or forged.
\<close>

theorem read_is_journal_record:
  assumes "os_faults s = []"
  shows "fst (Store_Read oe operationID s) = journal_record oe operationID s"
  using assms by (rule Read_journal_record)

theorem read_is_journal_record_witness:
  "fst (Store_Read demo_op_env ''op1'' marked_ops) = journal_record demo_op_env ''op1'' marked_ops"
  by (rule read_is_journal_record) (use marked_state in blast)

text \<open>
  C20. A reconciliation at boot treats each operation by what it left behind. One that is finished or still runs keeps its
  history. Every other gets exactly one event with its classification; with evidence of external mutation it
  needs recovery and is not completed; and it is completed automatically only when it was at the final step of
  bookkeeping on the host.
\<close>

theorem reconcile_boot_outcome:
  assumes "ops_ok oe s" "Store_ReconcileBoot oe now bootID live s = (Inr report, t)" "g \<in> set (listed s)"
    and "a = je_Record (last (op_events s g))" "b = je_Record (last (op_events t g))"
  shows "(if left_running (TrimSpace bootID) live a
          then (\<exists>e. op_events t g = op_events s g @ [e]) \<and> or_Interruption b = ClassifyStale a \<and>
               (mutation_evidence a \<longrightarrow> or_RecoveryRequired b \<and> \<not> or_Terminal b \<and> or_Result b = ResultFailedNeedsRepair) \<and>
               (or_Terminal b \<longrightarrow> canCompleteHostBookkeeping a)
          else op_events t g = op_events s g)"
  unfolding assms(4,5) using assms(1-3) by (rule ReconcileBoot_outcome)

theorem reconcile_boot_outcome_witness:
  "or_RecoveryRequired (je_Record (last (op_events booted_ops ''op1''))) \<and>
   \<not> or_Terminal (je_Record (last (op_events booted_ops ''op1'')))"
proof -
  obtain r where b: "Store_ReconcileBoot demo_op_env 60 ''boot2'' None marked_ops = (Inr r, booted_ops)" by (rule booted_pair)
  have "''op1'' \<in> set (listed marked_ops)" using marked_state by simp
  from reconcile_boot_outcome [OF marked_ops_ok b this refl refl] marked_record show ?thesis by simp
qed

text \<open>
  The reconciliation at boot cannot get stuck on the records: on a disk without faults, when every operation has an
  event and its counters can still advance, it succeeds, whatever the operations are and whichever of them run.
\<close>

theorem reconcile_boot_succeeds:
  assumes "ops_ok oe s" "os_faults s = []" "oe_now oe \<noteq> 0"
    "\<forall>g. op_at s g \<noteq> None \<longrightarrow> op_events s g \<noteq> [] \<and> room (je_Record (last (op_events s g)))"
  shows "\<exists>report t. Store_ReconcileBoot oe now bootID live s = (Inr report, t)"
  using assms by (rule ReconcileBoot_succeeds)

theorem reconcile_boot_succeeds_witness:
  "\<exists>report t. Store_ReconcileBoot demo_op_env 0 [] None marked_ops = (Inr report, t)"
proof (rule reconcile_boot_succeeds [OF marked_ops_ok])
  have "op_at marked_ops g \<noteq> None \<Longrightarrow> g = ''op1''" for g
    using marked_state by (auto simp: op_at_def map_of_eq_None_iff simp flip: set_map)
  then show "\<forall>g. op_at marked_ops g \<noteq> None \<longrightarrow>
      op_events marked_ops g \<noteq> [] \<and> room (je_Record (last (op_events marked_ops g)))"
    using marked_state marked_record by blast
qed (use marked_state in \<open>simp_all add: demo_op_env_def\<close>)

text \<open>
  C21. A creation that was interrupted after it made the directory and before it wrote the first event blocks the store:
  listing the operations and the reconciliation at boot fail for all of them until that directory is removed or
  the operation is created again.
\<close>

theorem interrupted_create_blocks:
  assumes "ops_ok oe s" "os_root s" "op_at s g \<noteq> None" "op_events s g = []"
  shows "(\<exists>e t. Store_ReconcileBoot oe now bootID live s = (Inl e, t)) \<and> (\<exists>e t. Store_List oe s = (Inl e, t))"
  using eventless_blocks [OF assms] by blast

theorem interrupted_create_blocks_witness:
  "\<exists>e t. Store_ReconcileBoot demo_op_env 60 ''boot2'' None torn_ops = (Inl e, t)"
proof -
  have "ops_ok demo_op_env (empty_ops\<lparr>os_faults := [IoOk, IoOk, IoFailBefore ''EIO'']\<rparr>)"
    by (simp add: ops_ok_def empty_ops_def op_at_def)
  from ops_ok_Create [OF this surjective_pairing] have "ops_ok demo_op_env torn_ops" unfolding torn_ops_def .
  from interrupted_create_blocks [OF this, of "''op1''" 60 "''boot2''" None] torn_run show ?thesis by blast
qed

section \<open>The agent\<close>

text \<open>
  C22. Along every history of the agent, its recoveries at startup, the submissions and the updates of running operations
  included, and with any failures of system calls on either store, the records of the generations stay valid and every
  journal stays a history of admitted transitions of the operation it lies with.
\<close>

theorem agent_history:
  assumes "(agent_step env oe)\<^sup>*\<^sup>* s t" "agent_ok env oe s"
  shows "store_ok env (ag_node t) \<and> (\<forall>g. chain oe (op_events (ag_ops t) g) \<and>
    (\<forall>e \<in> set (op_events (ag_ops t) g). or_OperationID (je_Record e) = g))"
proof -
  have ok: "agent_ok env oe t" using assms by (rule histories.run_inv)
  then have "ops_ok oe (ag_ops t)" by (simp add: agent_ok_def admitted_def)
  with ok show ?thesis using ops_ok_chain ops_ok_owner by (auto simp: agent_ok_def)
qed

theorem agent_history_witness:
  "store_ok demo_env (ag_node (snd (startup later_env \<lparr>ag_node = empty_node, ag_ops = reset_ops\<rparr>)))"
proof -
  let ?s = "\<lparr>ag_node = empty_node, ag_ops = reset_ops\<rparr>"
  have "ae_env later_env = demo_env" "ae_op later_env = demo_op_env" by (simp_all add: later_env_def demo_agent_env_def)
  then have "agent_step demo_env demo_op_env ?s (snd (startup later_env ?s))"
    by (rule agent_step.agent_startup) (rule prod.collapse [symmetric])
  moreover have "agent_ok demo_env demo_op_env ?s" using reset_admitted by (simp add: agent_ok_def store_ok_empty)
  ultimately show ?thesis using agent_history [OF r_into_rtranclp] by blast
qed

text \<open>
  C23. Unfinished operations exclude each other: along every history of the agent two operations that are not finished
  hold no resource lock in common, and no two operations carry the same request identifier, if that is not empty and has no blanks
  around it (\<open>request_id\<close>: an identifier is stored as it was given and looked up trimmed, so that a padded one is not
  found again). In the history the updates of running operations are arbitrary except that they keep the locks, the
  request identifier and the request digest of the record, which no update of the agent touches.
\<close>

theorem locks_exclusive:
  assumes "(agent_step env oe)\<^sup>*\<^sup>* s t" "agent_ok env oe s" "recorded (ag_ops t) g" "recorded (ag_ops t) h" "g \<noteq> h"
  shows "(\<not> or_Terminal (last_record (ag_ops t) g) \<and> \<not> or_Terminal (last_record (ag_ops t) h) \<longrightarrow>
      set (or_ResourceLocks (last_record (ag_ops t) g)) \<inter> set (or_ResourceLocks (last_record (ag_ops t) h)) = {}) \<and>
    (request_id (or_ClientRequestID (last_record (ag_ops t) g)) \<longrightarrow>
      or_ClientRequestID (last_record (ag_ops t) h) \<noteq> or_ClientRequestID (last_record (ag_ops t) g))"
proof -
  have "admitted oe (ag_ops t)" using histories.run_inv [OF assms(1,2)] by (simp add: agent_ok_def)
  then have "exclusive (ag_ops t)" "unique_requests (ag_ops t)" by (simp_all add: admitted_def)
  with assms(3-5) show ?thesis unfolding exclusive_def unique_requests_def unfinished_def by blast
qed

theorem locks_exclusive_witness:
  "set (or_ResourceLocks (last_record shared_ops ''reset1'')) \<inter> set (or_ResourceLocks (last_record shared_ops ''op1'')) = {}"
proof -
  let ?s = "\<lparr>ag_node = empty_node, ag_ops = shared_ops\<rparr>"
  have "agent_ok demo_env demo_op_env ?s" using shared_admitted by (simp add: agent_ok_def store_ok_empty)
  from locks_exclusive [OF rtranclp.rtrancl_refl this, of "''reset1''" "''op1''"] shared_state show ?thesis by simp
qed

text \<open>
  C24. A request is carried out once, if its identifier is not empty and has no blanks around it (\<open>request_id\<close>; a padded one is
  carried out again): after a submission created an operation, and whatever the agent did since (as in C23), a request with the
  same identifier that is answered without error is answered with that operation, has the same digest and adds nothing to
  any journal.
\<close>

theorem repeated_request:
  assumes "acceptOperation ae q digest (ag_ops s) = (Inr (Created c), ops)" "agent_ok env (ae_op ae) s"
    "(agent_step env (ae_op ae))\<^sup>*\<^sup>* (s\<lparr>ag_ops := ops\<rparr>) t" "request_id (sq_ClientRequestId q)"
    "sq_ClientRequestId q' = sq_ClientRequestId q" "ae_op ae' = ae_op ae"
    "acceptOperation ae' q' digest' (ag_ops t) = (Inr sub, u)"
  shows "\<exists>old. sub = Existing old \<and> or_OperationID old = or_OperationID c \<and> digest' = TrimSpace digest \<and>
    op_events u = op_events (ag_ops t)"
proof -
  have adm: "admitted (ae_op ae) (ag_ops s)" using assms(2) by (simp add: agent_ok_def)
  from acceptOperation_created [OF adm assms(1)] obtain r0 where r: "submitted_record q r0" "or_RequestDigest r0 = digest"
    "c = new_record r0 (if ae_now ae = 0 then oe_now (ae_op ae) else ae_now ae)"
    "recorded ops (or_OperationID c)" "last_record ops (or_OperationID c) = c" "admitted (ae_op ae) ops" .
  note new = submitted_new_record [OF r(1), of "if ae_now ae = 0 then oe_now (ae_op ae) else ae_now ae", folded r(3)]
  have t: "admits (ae_op ae) ops (ag_ops t)" using histories.run_rel [OF assms(3)] by (simp add: agent_rel_def)
  have same: "same_admission c (last_record (ag_ops t) (or_OperationID c))" using admitsD(2) [OF t r(6,4)] r(5) by simp
  have rec: "recorded (ag_ops t) (or_OperationID c)" using recorded_grows t r(4) by (auto simp: admits_def)
  have ok: "admitted (ae_op ae') (ag_ops t)" using admitsD(1) [OF t r(6)] assms(6) by simp
  have "or_ClientRequestID (last_record (ag_ops t) (or_OperationID c)) = sq_ClientRequestId q'"
    using same new(3) assms(5) by (simp add: same_admission_def)
  note rep = acceptOperation_repeat [OF ok rec this _ assms(7)]
  have "sub = Existing (last_record (ag_ops t) (or_OperationID c)) \<and> or_RequestDigest (last_record (ag_ops t) (or_OperationID c)) = digest'"
    using rep(2) assms(4,5) by simp
  moreover have "or_OperationID (last_record (ag_ops t) (or_OperationID c)) = or_OperationID c"
    using ok rec ops_ok_owner by (auto simp: admitted_def recorded_def last_record_def)
  moreover have "calm (ag_ops t) u" using rep(1) assms(4,5) by simp
  ultimately show ?thesis using same new(6) r(2) calm_last(4) by (auto simp: same_admission_def)
qed

theorem repeated_request_witness:
  "\<exists>old u. acceptOperation later_env (reset_request ''r1'') ''d'' (ag_ops restarted) = (Inr (Existing old), u) \<and> or_OperationID old = ''reset1''"
proof -
  let ?s = "\<lparr>ag_node = empty_node, ag_ops = empty_ops\<rparr>"
  have env: "ae_op demo_agent_env = demo_op_env" "ae_op later_env = demo_op_env" by (simp_all add: later_env_def demo_agent_env_def)
  obtain c where c: "acceptOperation demo_agent_env (reset_request ''r1'') ''d'' empty_ops = (Inr (Created c), reset_ops)"
    "or_OperationID c = ''reset1''" by (rule reset_pair)
  obtain sub u where again: "acceptOperation later_env (reset_request ''r1'') ''d'' (ag_ops restarted) = (Inr sub, u)"
    using run_success [OF restart_run] by blast
  have ok: "agent_ok demo_env (ae_op demo_agent_env) ?s" using empty_ops_admitted by (simp add: agent_ok_def store_ok_empty)
  have id: "request_id (sq_ClientRequestId (reset_request ''r1''))" unfolding request_id_def by code_simp
  have "acceptOperation demo_agent_env (reset_request ''r1'') ''d'' (ag_ops ?s) = (Inr (Created c), reset_ops)" using c(1) by simp
  from repeated_request [OF this ok _ id refl _ again] restarted_step env c(2) again show ?thesis by fastforce
qed

text \<open>
  C25. What a successful audit at startup does to an operation, by the fields of its record before, \<open>a\<close>, and after, \<open>b\<close>. A finished
  operation and one whose invocation of this boot still runs are unchanged. One with an executor plan that did nothing,
  without mutation evidence, invocations or completed phases, is failed at the time of the audit, needs repair and says that it did not start.
  One that no process runs and that left mutation evidence needs repair and recovery and is marked as interrupted after
  mutation; a bootstrap that was waiting for the health of the node is finished so that it can be continued. And the audit finishes
  nothing else: what it finished succeeded only as host bookkeeping at its last phase without any evidence, and otherwise failed,
  needs repair, and had a plan and either not started or been such a bootstrap. Plan, invocations and phases stay.
\<close>

theorem audit_startup_outcome:
  assumes "admitted (ae_op ae) s" "AuditStartup ae now s = (Inr report, t)" "recorded s g" "now \<noteq> 0"
    "a = last_record s g" "b = last_record t g"
  shows "recorded t g \<and>
    (or_Terminal a \<or> still_runs ae a \<longrightarrow> b = a) \<and>
    (\<not> or_Terminal a \<and> or_ExecutorPlan a \<noteq> None \<and> \<not> or_ExternalMutationStarted a \<and> \<not> or_MutatingToolRan a \<and>
       or_PreExecMutationMarkers a = [] \<and> or_Invocations a = [] \<and> or_PhaseIndex a = 0 \<and> or_CompletedPhases a = [] \<longrightarrow>
       or_Terminal b \<and> or_CompletedAt b = Some now \<and> or_Phase b = ''startup-audit-not-started'' \<and>
       or_Result b = ''failed-needs-repair'' \<and> or_RecoveryRequired b \<and>
       or_FailureReason b = en_redact (ae_env ae) ''agent stopped before executor start'' \<and>
       or_NextAction b = ''resubmit operation request; previous accepted attempt did not start'') \<and>
    (\<not> or_Terminal a \<and> \<not> still_runs ae a \<and>
       (or_ExternalMutationStarted a \<or> or_MutatingToolRan a \<or> or_PreExecMutationMarkers a \<noteq> [] \<or> or_MutationScopes a \<noteq> []) \<longrightarrow>
       or_RecoveryRequired b \<and> or_Result b = ''failed-needs-repair'' \<and> or_Interruption b = ''stale-post-mutation'' \<and>
       (waiting_bootstrap a \<longrightarrow> or_Terminal b \<and> or_FailureReason b = ''bootstrap health wait interrupted'')) \<and>
    (\<not> or_Terminal a \<and> or_Terminal b \<longrightarrow> \<not> still_runs ae a \<and>
       (or_Result b = ''succeeded'' \<and> or_Resume a = ResumeHostBookkeeping \<and> or_OperationKind a = ''host-bookkeeping'' \<and>
          or_Scope a = ''host-generation'' \<and> or_Phase a = ''record-operation-complete'' \<and> \<not> or_ExternalMutationStarted a \<and>
          \<not> or_MutatingToolRan a \<and> or_MutatingToolInvocations a = [] \<and> or_PreExecMutationMarkers a = [] \<and> or_MutationScopes a = [] \<or>
        or_Result b = ''failed-needs-repair'' \<and> or_RecoveryRequired b \<and> or_ExecutorPlan a \<noteq> None \<and>
          (\<not> or_ExternalMutationStarted a \<and> \<not> or_MutatingToolRan a \<and> or_PreExecMutationMarkers a = [] \<and> or_Invocations a = [] \<or>
           waiting_bootstrap a))) \<and>
    or_ExecutorPlan b = or_ExecutorPlan a \<and> or_Invocations b = or_Invocations a \<and> or_CompletedPhases b = or_CompletedPhases a"
proof -
  from AuditStartup_outcome [OF assms(1-3)] assms(4-6) have rec: "recorded t g" and b: "b = audited_record ae now a" by simp_all
  have keep: "or_Terminal a \<or> still_runs ae a \<longrightarrow> b = a" using audited_kept_running b by blast
  show ?thesis
    by (intro conjI; (rule rec | rule keep
      | (rule impI, elim conjE, (rule audited_unstarted [OF _ _ _ _ _ _ _ _ b]; assumption))
      | (rule impI, elim conjE, (rule audited_mutated [OF _ _ _ b]; assumption))
      | (rule impI, elim conjE, (rule audited_finished [OF _ b]; assumption))
      | simp add: b audited_evidence))
qed

theorem audit_startup_outcome_witness:
  "or_Terminal (last_record stopped_ops ''op1'') \<and> or_Result (last_record stopped_ops ''op1'') = ''failed-needs-repair'' \<and>
   or_CompletedAt (last_record stopped_ops ''op1'') = Some 90"
proof -
  let ?a = "last_record planned_ops ''op1''"
  obtain report where run: "AuditStartup later_env 90 planned_ops = (Inr report, stopped_ops)" by (rule stopped_pair)
  have adm: "admitted (ae_op later_env) planned_ops" using planned_admitted by (simp add: later_env_def demo_agent_env_def)
  have "\<not> or_Terminal ?a \<and> or_ExecutorPlan ?a \<noteq> None \<and> \<not> or_ExternalMutationStarted ?a \<and> \<not> or_MutatingToolRan ?a \<and>
      or_PreExecMutationMarkers ?a = [] \<and> or_Invocations ?a = [] \<and> or_PhaseIndex ?a = 0 \<and> or_CompletedPhases ?a = []"
    unfolding planned_record [THEN conjunct2] by (intro conjI; code_simp)
  with audit_startup_outcome [OF adm run planned_record [THEN conjunct1] _ refl refl] show ?thesis by simp
qed

text \<open>
  C26. A reset or a removal of an etcd member that was accepted before the agent stopped is not finished by the audits of any
  number of restarts: it keeps its locks, and every later request of a kind that takes locks is refused or
  answered with an earlier operation.
\<close>

theorem interrupted_request_blocks:
  assumes "admitted (ae_op ae) s" "acceptOperation ae q digest s = (Inr (Created c), t)"
    "sq_OperationKind q \<in> {OperationKindDestructiveReset, OperationKindEtcdMemberRemove}"
    "(audited (ae_op ae))\<^sup>*\<^sup>* t u" "ae_op ae' = ae_op ae" "resourceLocks (sq_OperationKind q') \<noteq> []"
    "acceptOperation ae' q' digest' u = (r, v)"
  shows "unfinished u (or_OperationID c) \<and> (\<forall>sub. r = Inr sub \<longrightarrow> (\<exists>old. sub = Existing old)) \<and> op_events v = op_events u"
proof -
  note c = created_stuck [OF assms(1-3)]
  from audits_stuck [OF assms(4) c(1,2)] c(4) have u: "admitted (ae_op ae') u" "unfinished u (or_OperationID c)"
    "''generation-state.lock'' \<in> set (or_ResourceLocks (last_record u (or_OperationID c)))"
    using assms(5) by (simp_all add: stuck_def)
  with generation_lock assms(6) have "set (or_ResourceLocks (last_record u (or_OperationID c))) \<inter> set (resourceLocks (sq_OperationKind q')) \<noteq> {}"
    by blast
  from acceptOperation_refused [OF u(1,2) this assms(7)] u(2) show ?thesis using calm_last(4) by blast
qed

theorem interrupted_request_blocks_witness:
  "unfinished audited_ops ''reset1'' \<and> op_events (snd (acceptOperation later_env (reset_request ''r2'') ''d'' audited_ops)) = op_events audited_ops"
proof -
  have env: "ae_op demo_agent_env = demo_op_env" "ae_op later_env = demo_op_env" by (simp_all add: later_env_def demo_agent_env_def)
  obtain c where c: "acceptOperation demo_agent_env (reset_request ''r1'') ''d'' empty_ops = (Inr (Created c), reset_ops)"
    "or_OperationID c = ''reset1''" by (rule reset_pair)
  obtain report where "AuditStartup later_env 90 reset_ops = (Inr report, audited_ops)" by (rule audited_pair)
  then have run: "(audited (ae_op demo_agent_env))\<^sup>*\<^sup>* reset_ops audited_ops" unfolding audited_def using env by auto
  have kind: "sq_OperationKind (reset_request cid) \<in> {OperationKindDestructiveReset, OperationKindEtcdMemberRemove}" for cid
    by (simp add: reset_request_def)
  have "resourceLocks (sq_OperationKind (reset_request ''r2'')) \<noteq> []" by code_simp
  from interrupted_request_blocks [OF empty_ops_admitted c(1) kind run _ this prod.collapse [symmetric]] env c(2)
  show ?thesis by simp
qed

text \<open>
  C27. Discarding what an interrupted configuration apply was rendering, whatever the outcome, leaves the boot selection and the
  records of every generation it names as they were.
\<close>

theorem recovery_spares_selected:
  assumes "recoverInterruptedConfigApplies ae now s = (r, t)" "clean_candidates (ae_op ae) (ag_ops s)"
    "ReadBootSelection (ae_root ae) (ag_node s) = Inr b"
  shows "nd_selection (ag_node t) = nd_selection (ag_node s) \<and>
    (\<forall>h. bootSelectionReferences b h \<longrightarrow> gen_at (ag_node t) h = gen_at (ag_node s) h)"
  using recoverInterrupted_spares [OF assms] by (simp add: spares_boot_def)

theorem recovery_spares_selected_witness:
  "gen_at (ag_node (snd (recoverInterruptedConfigApplies later_env 95 render_agent))) ''a'' = gen_at render_node ''a''"
proof -
  have "ReadBootSelection (ae_root later_env) (ag_node render_agent) = Inr idle_selection" by code_simp
  moreover have "clean_candidates (ae_op later_env) (ag_ops render_agent)"
    using apply_ops_clean by (simp add: later_env_def demo_agent_env_def render_agent_def)
  ultimately show ?thesis
    using recovery_spares_selected [OF prod.collapse [symmetric], of later_env render_agent idle_selection 95]
    by (simp add: bootSelectionReferences_def idle_selection_def render_agent_def)
qed

text \<open>
  C28. A trial boot that was committed is armed and recorded. The candidate is one published as a specification and a status file
  (\<open>gd_spec\<close> is present; C14 is about the legacy form) and was a candidate. Afterwards the selection names it as target and trial generation
  with its own loader entry, asks for the validation of its health under the transaction of the operation, keeps the default as it
  was and remembers it as the known-good generation to fall back to; the one-shot entry of the firmware was set to its loader entry; and its
  records read back with the specification unchanged and a status that is committed by the operation, trying and of unknown health.
\<close>

theorem trial_commit_outcome:
  assumes "commitTrialGeneration ae r now reason s = (Inr k, t)" "c = TrimSpace (or_CandidateGenerationID r)"
    "gd_spec (gen_at s c) \<noteq> NoFile"
  shows "\<exists>spec status b b' status'. ReadGeneration (ae_env ae) (ae_root ae) c s = Inr (spec, status) \<and>
    st_CommitState status = ''candidate'' \<and> ReadBootSelection (ae_root ae) s = Inr b \<and> nd_selection t = File b' \<and>
    bs_TargetBootGenerationID b' = c \<and> bs_TrialGenerationID b' = c \<and>
    bs_TargetBootEntry b' = TrimSpace (bt_LoaderEntryPath (gs_Boot spec)) \<and>
    bs_TrialBootEntry b' = TrimSpace (bt_LoaderEntryPath (gs_Boot spec)) \<and>
    bs_PendingHealthValidation b' \<and> bs_PendingTransactionID b' = or_OperationID r \<and>
    bs_PersistentDefaultPromotion b' = DefaultPromotionPending \<and> \<not> bs_OneShot b' \<and>
    bs_DefaultGenerationID b' = bs_DefaultGenerationID b \<and> bs_DefaultBootEntry b' = bs_DefaultBootEntry b \<and>
    bs_ActiveGenerationID b' = bs_ActiveGenerationID b \<and> bs_BootedGenerationID b' = bs_BootedGenerationID b \<and>
    bs_PreviousKnownGoodGenerationID b' = bs_DefaultGenerationID b \<and> bs_PreviousKnownGoodBootEntry b' = bs_DefaultBootEntry b \<and>
    nd_efi t = (case ae_SetBootOneshot ae of None \<Rightarrow> nd_efi s
                | Some f \<Rightarrow> snd (f (ae_root ae) (TrimSpace (bt_LoaderEntryPath (gs_Boot spec))) (nd_efi s))) \<and>
    ReadGeneration (ae_env ae) (ae_root ae) c t = Inr (spec, status') \<and>
    st_CommitState status' = ''committed'' \<and> st_BootState status' = ''trying'' \<and> st_HealthState status' = ''unknown'' \<and>
    st_CommittedByOperation status' = or_OperationID r \<and> st_CommittedAt status' = Some now \<and>
    length (st_StatusTransitions status') = Suc (length (st_StatusTransitions status))"
proof (rule commitTrial_success [OF assms(1)])
  show "gd_spec (gen_at s (TrimSpace (or_CandidateGenerationID r))) \<noteq> NoFile" using assms(2,3) by simp
  fix spec :: GenerationSpec and status b
  let ?entry = "TrimSpace (bt_LoaderEntryPath (gs_Boot spec))" and ?c = "TrimSpace (or_CandidateGenerationID r)"
  let ?b' = "armed_selection b ?c ?entry (or_OperationID r) now" and ?status' = "trial_status now (or_OperationID r) reason status"
  assume "ReadGeneration (ae_env ae) (ae_root ae) ?c s = Inr (spec, status)" "st_CommitState status = CommitStateCandidate"
    "ReadBootSelection (ae_root ae) s = Inr b" "nd_selection t = File ?b'" "nd_efi t = oneshot_efi ae ?entry (nd_efi s)"
    "ReadGeneration (ae_env ae) (ae_root ae) ?c t = Inr (spec, ?status')"
  then show ?thesis unfolding assms(2)
    by (intro exI [of _ spec] exI [of _ status] exI [of _ b] exI [of _ ?b'] exI [of _ ?status'])
      (simp add: armed_selection_def trial_status_def Let_def oneshot_efi_def CommitStateCandidate_def CommitStateCommitted_def
        BootStateTrying_def HealthStateUnknown_def split: option.splits)
qed

theorem trial_commit_outcome_witness:
  "\<exists>spec status b. ReadGeneration demo_env ''/'' ''b'' (snd (commitTrialGeneration demo_agent_env trial_operation 75 ''trial'' candidate_node)) =
     Inr (spec, status) \<and> st_CommitState status = ''committed'' \<and> st_BootState status = ''trying'' \<and>
     nd_selection (snd (commitTrialGeneration demo_agent_env trial_operation 75 ''trial'' candidate_node)) = File b \<and>
     bs_TrialGenerationID b = ''b'' \<and> bs_PendingHealthValidation b"
proof -
  have id: "''b'' = TrimSpace (or_CandidateGenerationID trial_operation)" by code_simp
  have env: "ae_env demo_agent_env = demo_env" "ae_root demo_agent_env = ''/''" by (simp_all add: demo_agent_env_def)
  have "gd_spec (gen_at candidate_node ''b'') \<noteq> NoFile" by (simp add: candidate_node_def gen_at_def split_dir_def)
  from trial_commit_outcome [OF run_outcome [OF trial_run] id this, unfolded env] show ?thesis by blast
qed

text \<open>
  C29. When the status of a trial boot cannot be written, the earlier boot selection is put back, and the firmware still
  has the one-shot entry of the candidate: the next boot starts a generation the selection does not name.
\<close>

theorem failed_trial_commit:
  assumes "writeCandidateLoaderEntry ae (TrimSpace (or_CandidateGenerationID r)) s = (Inr (spec, status, entry), u)"
    "commitTrialGeneration ae r now reason s = (Inl (Wrap ''commit candidate generation: %w'' [] e), t)"
    "ae_SetBootOneshot ae = Some f"
  shows "\<exists>b. ReadBootSelection (ae_root ae) s = Inr b \<and> nd_selection t = File b \<and>
    nd_efi t = snd (f (ae_root ae) entry (nd_efi s))"
  by (rule commitTrial_status_error [OF assms(1,2)]) (use assms(3) in \<open>auto simp: oneshot_efi_def\<close>)

theorem failed_trial_commit_witness:
  "nd_efi (snd (commitTrialGeneration demo_agent_env trial_operation 75 ''trial'' failing_node)) =
     snd (set_oneshot ''/'' ''loader/entries/katl-b.conf'' (nd_efi failing_node))"
proof -
  have id: "TrimSpace (or_CandidateGenerationID trial_operation) = ''b''" by code_simp
  have set: "ae_SetBootOneshot demo_agent_env = Some set_oneshot" "ae_root demo_agent_env = ''/''" by (simp_all add: demo_agent_env_def)
  from failed_trial_commit [OF run_outcome [OF failing_entry_run, folded id] run_outcome [OF failing_trial_error] set(1)] set(2)
  show ?thesis by auto
qed

text \<open>
  C30. The search for the operation a bootstrap continues always ends, also on receipts that form a cycle: it changes no journal,
  and what it finds resumes nothing and is the operation it started from or a recorded one.
\<close>

theorem continuation_search_returns:
  assumes "ops_ok oe s"
  shows "\<exists>x t. receipts oe previous s = Some (x, t) \<and> op_events t = op_events s \<and>
    (\<forall>r ids. x = Inr (r, ids) \<longrightarrow> resume_of r = None \<and> or_OperationID r \<in> set ids \<and>
       (r = previous \<or> (\<exists>g. recorded s g \<and> r = last_record s g)))"
  using receipts_return [OF assms, of previous] calm_last(4) by (auto simp: found_receipt_def)

theorem continuation_search_returns_witness:
  "\<exists>x t. receipts demo_op_env cyclic_operation cyclic_ops = Some (x, t) \<and> op_events t = op_events cyclic_ops"
  using continuation_search_returns [OF cyclic_ok, of cyclic_operation] by blast

section \<open>Installing\<close>

text \<open>
  C31. No disk command runs unannounced: whatever system call or command fails, every command an install runs on a disk was
  started while the status file on the installer said that destructive mutation had begun for the request being installed, and after
  such a command the status file left behind still says so.
\<close>

theorem install_mutation_announced:
  assumes "Runner_Run env (NewPlan b) s = (r, t)"
  shows "\<exists>es. ih_trace t = ih_trace s @ es \<and> (\<forall>e \<in> set es. announces (cx_RequestDigest (ih_ctx t)) (te_Status e)) \<and>
    (es \<noteq> [] \<longrightarrow> announces (cx_RequestDigest (ih_ctx t)) (ih_status t))"
  using run_noticed [of s env b] assms by (auto simp: noticed_def announced_def)

theorem install_mutation_announced_witness:
  "\<exists>e es. ih_trace (snd (Runner_Run fx_env (NewPlan False) (fx_host (Some fx_layout) NoFile))) = e # es \<and>
     te_Command e = ''wipefs'' \<and> te_Args e = [''--all'', ''/dev/sda''] \<and>
     announces (cx_RequestDigest (ih_ctx (snd (Runner_Run fx_env (NewPlan False) (fx_host (Some fx_layout) NoFile))))) (te_Status e)"
proof -
  let ?t = "snd (Runner_Run fx_env (NewPlan False) (fx_host (Some fx_layout) NoFile))"
  obtain st es where run: "ih_trace ?t = \<lparr>te_Command = ''wipefs'', te_Args = [''--all'', ''/dev/sda''], te_Status = st\<rparr> # es"
    using fx_run_wipes by blast
  from install_mutation_announced [OF prod.collapse [symmetric], of fx_env False "fx_host (Some fx_layout) NoFile"] run
  show ?thesis by auto
qed

text \<open>
  C32. After an install that had begun to change a disk, a different request is refused before it reaches a disk: when the status file
  says that a disk was changed for a request, and the manifest that the next run reads from its path, if it can be read and decoded, has
  another digest than that request, then whatever else fails the run ends with an error and starts no command.
\<close>

theorem changed_request_refused:
  assumes "Runner_Run env (NewPlan b) s = (r, t)" "ih_status s = File prev" "cx_PreviousStatus (ih_ctx s) = None"
    "it_DestructiveMutation prev" "it_RequestDigest prev \<noteq> []"
    "\<forall>data doc defaulted. iv_ReadManifest env (cx_ManifestPath (ih_ctx s)) = Inr data \<longrightarrow>
       iv_Decode env data (cx_DefaultKatlosImage (ih_ctx s)) = Inr (doc, defaulted) \<longrightarrow> DigestManifest env doc \<noteq> Inr (it_RequestDigest prev)"
  shows "ih_trace t = ih_trace s \<and> isl r"
  using changed_request_runs_nothing [of s prev env b] assms by (simp add: changed_request_def)

theorem changed_request_refused_witness:
  "ih_trace (snd (Runner_Run fx_env (NewPlan False) (fx_host (Some fx_layout) (File fx_interrupted)))) = []"
  using changed_request_refused [OF prod.collapse [symmetric], of "fx_host (Some fx_layout) (File fx_interrupted)" fx_interrupted fx_env False]
    fx_interrupted_other by simp

text \<open>
  C33. The refusal lasts for one run: when the status file says that a disk was changed for a request, the manifest of the next run is read and
  has another digest, and nothing fails, the run is refused, and the status it leaves no longer says that a
  disk was changed, so the run after it refuses no request.
\<close>

theorem refusal_forgotten:
  assumes "ih_faults s = []" "ih_status s = File prev" "cx_PreviousStatus (ih_ctx s) = None" "cx_Completed (ih_ctx s) = []"
    "it_DestructiveMutation prev" "it_RequestDigest prev \<noteq> []" "it_RequestDigest prev \<noteq> digest" "iv_Commands env" "iv_Store env"
    "iv_ReadManifest env (cx_ManifestPath (ih_ctx s)) = Inr data" "cx_ManifestPath (ih_ctx s) \<noteq> []"
    "iv_Decode env data (cx_DefaultKatlosImage (ih_ctx s)) = Inr (doc, defaulted)" "DigestManifest env doc = Inr digest"
  shows "\<exists>e t st. Runner_Run env (NewPlan b) s = (Inl e, t) \<and> errors_is e ErrInstallRefused \<and> ih_status t = File st \<and>
    \<not> it_DestructiveMutation st \<and> (\<forall>c. refuseChangedInterruptedRequest (c\<lparr>cx_PreviousStatus := Some st\<rparr>) = None)"
  using refusal_forgets_mutation [OF assms] unmarked_never_refused by fastforce

theorem refusal_forgotten_witness:
  "\<exists>e t st. Runner_Run fx_env (NewPlan False) (fx_host (Some fx_layout) (File fx_interrupted)) = (Inl e, t) \<and>
    errors_is e ErrInstallRefused \<and> ih_status t = File st \<and> \<not> it_DestructiveMutation st \<and>
    (\<forall>c. refuseChangedInterruptedRequest (c\<lparr>cx_PreviousStatus := Some st\<rparr>) = None)"
  by (rule refusal_forgotten [where prev = fx_interrupted and doc = fx_doc and defaulted = False and digest = "Digest fx_sha256 (im_Node fx_doc)"])
     (use fx_interrupted_other in auto)

text \<open>
  C34. A planned layout fits the disk it was planned for: the target is the one disk the selector names, writable, without mounts and large
  enough; the partitions have distinct labels and their sizes add up to the disk's size in MiB, the state partition has
  at least the requested minimum and both root slots hold the runtime root. The sum of the requested sizes has to fit in 64 bits.
\<close>

theorem layout_fills_disk:
  assumes "PlanDiskLayout sha256 facts request = Inr plan" "sizes_fit (default_layout request)"
  shows "\<exists>target. MatchDiskIdentity facts (lr_TargetDisk request) = Inr target \<and>
    wipeable_disk facts (lr_TargetDisk request) target \<and> lp_TargetDiskPath plan = bd_Path target \<and>
    map pp_GPTLabel (lp_Partitions plan) = layout_labels (default_layout request) \<and>
    distinct (map pp_GPTLabel (lp_Partitions plan)) \<and>
    sum_list (map (unat \<circ> pp_SizeMiB) (lp_Partitions plan)) = unat (bd_SizeBytes target) div (1024 * 1024) \<and>
    sr_MinSizeMiB (lr_State (default_layout request)) \<le> pp_SizeMiB (last (lp_Partitions plan)) \<and>
    lr_RuntimeRootSizeMiB request \<le> lr_RootA request \<and> lr_RuntimeRootSizeMiB request \<le> lr_RootB request"
proof -
  obtain target :: TargetDiskMatch where t: "MatchTargetDisk facts (lr_TargetDisk request) = Inr target"
    "normalizeLayoutRequest request = Inr (default_layout request)" "lp_TargetDiskPath plan = bd_Path (tm_Device target)"
    "planTargetPartitions (tm_Device target) (default_layout request) = Inr (lp_Partitions plan)"
    using assms(1) by (rule PlanDiskLayout_Inr)
  from t(1) have "MatchDiskIdentity facts (lr_TargetDisk request) = Inr (tm_Device target) \<and>
      wipeable_disk facts (lr_TargetDisk request) (tm_Device target)" by (simp add: MatchTargetDisk_Inr)
  with t(3) planTargetPartitions_Inr(2) [OF t(4)] layout_labels_distinct planned_partitions_fill_disk [OF t(4) assms(2)]
    normalizeLayoutRequest_Inr(4,5) [OF t(2)]
  show ?thesis by (intro exI [of _ "tm_Device target"]) simp
qed

theorem layout_fills_disk_witness:
  "\<exists>target. lp_TargetDiskPath fx_layout = bd_Path target \<and> wipeable_disk fx_facts (lr_TargetDisk fx_request) target \<and>
     sum_list (map (unat \<circ> pp_SizeMiB) (lp_Partitions fx_layout)) = unat (bd_SizeBytes target) div (1024 * 1024)"
proof -
  from layout_fills_disk [OF fx_layout_planned fx_sizes_fit] show ?thesis by blast
qed

text \<open>
  C35. Destruction is confined to what was selected and allowed: every destructive operation built from a planned layout acts on the
  target disk, or on the device of a volume whose request says that it may be wiped, and that device is a whole unmounted disk
  other than the target, or an unmounted partition of such a disk that is not one of Katl's own.
\<close>

theorem planned_destruction_confined:
  assumes "PlanDiskLayout sha256 facts request = Inr plan" "p \<in> set (BuildDiskOperations plan pre)" "op_Destructive p"
  shows "\<exists>target. MatchTargetDisk facts (lr_TargetDisk request) = Inr target \<and> lp_TargetDiskPath plan = bd_Path (tm_Device target) \<and>
    (on_target plan p \<or>
     (\<exists>v r. v \<in> set (lp_VolumeMounts plan) \<and> r \<in> set (lr_Volumes request) \<and> vr_Wipe r \<and> on_volume v p \<and>
            volume_contained facts (tm_Device target) r v))"
  using assms by (rule planned_destruction)

theorem planned_destruction_confined_witness:
  "\<exists>p v r. p \<in> set (BuildDiskOperations fx_layout ''/mnt/target'') \<and> op_Args p = repartArgs ''/dev/sdb'' \<and>
     v \<in> set (lp_VolumeMounts fx_layout) \<and> r \<in> set (lr_Volumes fx_request) \<and> vr_Wipe r \<and> on_volume v p"
proof -
  let ?p = "hd (volumeOperations fx_volume_plan)"
  have "?p \<in> set (volumeOperations fx_volume_plan)" by (simp add: volumeOperations_def fx_volume_plan_def)
  then have p: "?p \<in> set (BuildDiskOperations fx_layout ''/mnt/target'')"
    by (simp add: BuildDiskOperations_def Let_def fx_layout_def volume_mount_operations_def target_operations_def)
  have q: "op_Destructive ?p" "op_Args ?p = repartArgs ''/dev/sdb''" "op_Command ?p = ''systemd-repart''"
    by (simp_all add: volumeOperations_def fx_volume_plan_def operation_defs)
  have "\<not> on_target fx_layout ?p" by (simp add: on_target_def q fx_layout_def repartArgs_def)
  with planned_destruction_confined [OF fx_layout_planned p q(1)] p q show ?thesis by blast
qed

text \<open>
  C36. The running system is never overwritten: the slot planned for the runtime image differs from the current one and is the first
  boot slot when there is none; it is a partition of the planned layout and has room for the whole image.
\<close>

theorem root_slot_plan_safe:
  assumes "PlanDiskLayout sha256 facts request = Inr layout" "sizes_fit (default_layout request)"
    "PlanRootSlotWrite layout rw = Inr plan" "av_SizeBytes (rw_RuntimeArtifact rw) < 2 ^ 63"
  shows "wp_Slot plan \<noteq> rw_CurrentSlot rw \<and> (rw_CurrentSlot rw = [] \<longrightarrow> wp_Slot plan = bt_RootSlot (lp_Boot layout)) \<and>
    (\<exists>p \<in> set (lp_Partitions layout). pp_Name p = wp_Slot plan \<and> pp_GPTLabel p = rt_GPTLabel (wp_TargetPartition plan) \<and>
       nat (av_SizeBytes (rw_RuntimeArtifact rw)) \<le> unat (pp_SizeMiB p) * (1024 * 1024))"
proof -
  note w = PlanRootSlotWrite_Inr [OF assms(3)]
  have "\<exists>p \<in> set (lp_Partitions layout). pp_Name p = wp_Slot plan \<and> pp_GPTLabel p = rt_GPTLabel (wp_TargetPartition plan) \<and>
      pp_SizeMiB p = rt_SizeMiB (wp_TargetPartition plan)"
    using findRootSlot_Inr(1) [OF w(2)] by metis
  with selectWriteSlot_Inr [OF w(1)] slot_of_planned_layout [OF assms] w(4) show ?thesis by auto
qed

theorem root_slot_plan_safe_witness:
  "wp_Slot fx_slot_plan \<noteq> RootSlotA"
proof -
  from root_slot_plan_safe [OF fx_layout_planned fx_sizes_fit fx_slot_planned] show ?thesis by (simp add: fx_rootwrite_def)
qed

text \<open>
  C37. A root slot is written with the verified image or not at all: an image whose digest differs from the planned one leaves the
  device as it was, whatever fails; a write that returns without error left exactly the image in front of the old contents; and on a
  device without errors, with image and slot large enough and the right digest, the write returns without error.
\<close>

theorem root_slot_write_exact:
  assumes "WriteRootSlot sha256 splice request s = (r, t)" "rq_Artifact request = Some artifact"
    "n = wp_ExpectedSizeBytes (rq_Plan request)"
  shows "(prefix_digest sha256 n artifact \<noteq> want_digest (rq_Plan request) \<longrightarrow> sv_contents t = sv_contents s) \<and>
    (\<forall>result. r = Inr result \<longrightarrow> sv_contents t = take (nat n) artifact @ drop (nat n) (sv_contents s) \<and> rr_BytesWritten result = n) \<and>
    (sv_faults s = [] \<and> rq_Target request \<and> 0 < n \<and> want_digest (rq_Plan request) \<noteq> [] \<and> n \<le> int (length artifact) \<and>
     n \<le> int (length (sv_contents s)) \<and> prefix_digest sha256 n artifact = want_digest (rq_Plan request) \<longrightarrow>
       (\<exists>result. r = Inr result))"
  using mismatched_artifact_not_written [OF assms(1,2)] written_slot_holds_artifact [of sha256 request s _ t artifact]
    WriteRootSlot_healthy [of s request artifact sha256] assms by auto

theorem root_slot_write_exact_witness:
  "sv_contents (snd (WriteRootSlot fx_sha256 splice fx_slot_request (fx_device []))) = ''runtimer image''"
proof -
  have n: "wp_ExpectedSizeBytes (rq_Plan fx_slot_request) = 7" by code_simp
  have "prefix_digest fx_sha256 7 fx_artifact = want_digest (rq_Plan fx_slot_request)" "want_digest (rq_Plan fx_slot_request) \<noteq> []"
    by code_simp+
  then show ?thesis
    using root_slot_write_exact [OF prod.collapse [symmetric], of fx_slot_request fx_artifact 7 fx_sha256 "fx_device []"] n
    by (auto simp: fx_slot_request_def fx_device_def fx_artifact_def)
qed

text \<open>
  C38. An interrupted write of a root slot is noticed: when a run changed the device, whatever its outcome, the state file says that the
  write was started or is torn, and the next run without explicit retry changes neither the device nor the state file.
\<close>

theorem interrupted_slot_write:
  assumes "run_file_slot sha256 put now request retry s = (r, t)" "sh_device t \<noteq> sh_device s"
  shows "write_recorded (rq_Plan request) (sh_file t) \<and>
    (\<forall>sha256' put' now' request'. rq_Plan request' = rq_Plan request \<longrightarrow>
       snd (run_file_slot sha256' put' now' request' False (t\<lparr>sh_faults := fs\<rparr>)) = t\<lparr>sh_faults := fs\<rparr>)"
  using run_file_slot_changes [OF assms] run_file_slot_stopped by simp

theorem interrupted_slot_write_witness:
  "snd (run_file_slot fx_sha256 splice 2 fx_slot_request False (snd (run_file_slot fx_sha256 splice 1 fx_slot_request False fx_torn_host)))
     = snd (run_file_slot fx_sha256 splice 1 fx_slot_request False fx_torn_host)"
proof -
  let ?t = "snd (run_file_slot fx_sha256 splice 1 fx_slot_request False fx_torn_host)"
  have "sh_device ?t \<noteq> sh_device fx_torn_host" by (rule fx_torn_run)
  from interrupted_slot_write [OF prod.collapse [symmetric] this, of "sh_faults ?t"] show ?thesis by simp
qed

section \<open>Planning configuration changes\<close>

text \<open>
  C39. A set of changes is accepted exactly when its mode is known, it is not empty and each change is in a known domain
  whose policy admits the mode; the accepted mode is live exactly when every change may be applied live and the next
  boot was not asked for.
\<close>

theorem config_plan_decision:
  "(snd (Plan raw cs) = None \<longleftrightarrow> (\<exists>mode. normalizeRequestedMode raw = Inr mode \<and> cs \<noteq> [] \<and> (\<forall>c \<in> set cs. admissible mode c))) \<and>
   (snd (Plan raw cs) = None \<longrightarrow>
      dc_AcceptedMode (fst (Plan raw cs)) =
        (if dc_RequestedMode (fst (Plan raw cs)) \<noteq> ApplyModeNextBoot \<and> (\<forall>c \<in> set cs. applies_live c)
         then ApplyModeLive else ApplyModeNextBoot) \<and>
      distinct (dc_ChangedDomains (fst (Plan raw cs))) \<and>
      set (dc_ChangedDomains (fst (Plan raw cs))) = (\<lambda>c. TrimSpace (ch_Domain c)) ` set cs)"
proof (intro conjI impI)
  assume "snd (Plan raw cs) = None"
  then have p: "Plan raw cs = (fst (Plan raw cs), None)" by (metis prod.collapse)
  show "dc_AcceptedMode (fst (Plan raw cs)) =
        (if dc_RequestedMode (fst (Plan raw cs)) \<noteq> ApplyModeNextBoot \<and> (\<forall>c \<in> set cs. applies_live c)
         then ApplyModeLive else ApplyModeNextBoot)" by (rule Plan_result(4) [OF p])
  show "distinct (dc_ChangedDomains (fst (Plan raw cs)))" by (rule Plan_result(2) [OF p])
  show "set (dc_ChangedDomains (fst (Plan raw cs))) = (\<lambda>c. TrimSpace (ch_Domain c)) ` set cs" by (rule Plan_result(3) [OF p])
qed (rule Plan_accepts)

theorem config_plan_decision_witness:
  "dc_AcceptedMode (fst (Plan ''auto'' [fx_change])) = ApplyModeLive"
proof -
  obtain d where d: "Plan ''auto'' [fx_change] = (d, None)" "dc_RequestedMode d = ApplyModeAuto" using fx_plan_accepted by blast
  with config_plan_decision [of "''auto''" "[fx_change]"] fx_change_live plan_names show ?thesis by simp
qed

text \<open>
  C40. A planned change is admitted, and gives records that can be published. Every change is admitted by the policy of its domain, and the
  status is live exactly when every change may be applied live and the next boot was not asked for. The new
  generation has the same Kubernetes extension as the current one, that is the same payload version and the same digest up to the case
  of its letters, or neither has one; it is valid, keeps the root slot, the kernel image and the runtime, follows the current one under another name and
  is pending. The status is valid, belongs to the new generation, and has one action per changed domain; the action is planned exactly
  when the domain is not one of kubeadm and is applied live or is the host configuration.
\<close>

theorem config_plan_change:
  assumes "PlanChange ParseNamed redact now current request = (d, Inr (rec, status))"
  shows "(\<exists>mode. normalizeRequestedMode (nc_Mode request) = Inr mode \<and> nc_Changes request \<noteq> [] \<and>
       (\<forall>c \<in> set (nc_Changes request). admissible mode c) \<and>
       cs_AcceptedApplyMode status = (if mode \<noteq> ApplyModeNextBoot \<and> (\<forall>c \<in> set (nc_Changes request). applies_live c)
         then ApplyModeLive else ApplyModeNextBoot)) \<and>
    (kubernetesSysext (re_Sysexts current) = None \<and> kubernetesSysext (re_Sysexts rec) = None \<or>
       (\<exists>x y. kubernetesSysext (re_Sysexts current) = Some x \<and> kubernetesSysext (re_Sysexts rec) = Some y \<and>
          er_PayloadVersion y = er_PayloadVersion x \<and> er_SHA256 y = ToLower (er_SHA256 x))) \<and>
    ValidateRecord ParseNamed rec = None \<and> re_Root rec = re_Root current \<and> re_RuntimeVersion rec = re_RuntimeVersion current \<and>
    bt_UKIPath (re_Boot rec) = bt_UKIPath (re_Boot current) \<and> re_BootState rec = ''pending'' \<and>
    re_PreviousGenerationID rec = TrimSpace (re_GenerationID current) \<and> re_GenerationID rec \<noteq> re_GenerationID current \<and>
    ValidateConfigApplyStatus status = None \<and> cs_GenerationID status = re_GenerationID rec \<and>
    map da_Domain (cs_DomainActions status) = dc_ChangedDomains d \<and> distinct (dc_ChangedDomains d) \<and>
    set (dc_ChangedDomains d) = (\<lambda>c. TrimSpace (ch_Domain c)) ` set (nc_Changes request) \<and>
    (\<forall>act \<in> set (cs_DomainActions status). da_Status act = ''planned'' \<longleftrightarrow>
       da_Domain act \<notin> {DomainKubeadmConfig, DomainSelectedKubeadmConfig} \<and>
       (cs_AcceptedApplyMode status = ApplyModeLive \<or> da_Domain act = DomainHostConfiguration))"
proof -
  note p = PlanChange_success [OF assms] and rec = PlanChange_record [OF assms] and st = PlanChange_status [OF assms]
  note plan = Plan_result [OF p(1)]
  have "\<forall>c \<in> set (nc_Changes request). admissible (dc_RequestedMode d) c" "nc_Changes request \<noteq> []"
    using Plan_accepts [of "nc_Mode request" "nc_Changes request"] p(1) plan(1) by auto
  then have mode: "\<exists>mode. normalizeRequestedMode (nc_Mode request) = Inr mode \<and> nc_Changes request \<noteq> [] \<and>
       (\<forall>c \<in> set (nc_Changes request). admissible mode c) \<and>
       cs_AcceptedApplyMode status = (if mode \<noteq> ApplyModeNextBoot \<and> (\<forall>c \<in> set (nc_Changes request). applies_live c)
         then ApplyModeLive else ApplyModeNextBoot)"
    using plan(1,4) st(1) by (intro exI [of _ "dc_RequestedMode d"]) simp
  have acts: "\<forall>act \<in> set (cs_DomainActions status). da_Status act = ''planned'' \<longleftrightarrow>
       da_Domain act \<notin> {DomainKubeadmConfig, DomainSelectedKubeadmConfig} \<and>
       (cs_AcceptedApplyMode status = ApplyModeLive \<or> da_Domain act = DomainHostConfiguration)"
    unfolding st(1,5) using PlanChange_modes(1) [OF assms] domainActions_planned mode_names by fastforce
  have doms: "map da_Domain (cs_DomainActions status) = dc_ChangedDomains d" unfolding st(5) by (rule domainActions_domains)
  show ?thesis
    by (intro conjI; (rule mode | rule PlanChange_kubernetes [OF assms] | rule rec | rule p(4) | rule st(2) | rule doms | rule plan(2,3) | rule acts))
qed

theorem config_plan_change_witness:
  "\<exists>d rec status. PlanChange (\<lambda>_. None) (\<lambda>s. s) 50 (RecordFromSplit spec_a good_a) fx_node_change = (d, Inr (rec, status)) \<and>
     re_Root rec = gs_Root spec_a \<and> map da_Domain (cs_DomainActions status) = dc_ChangedDomains d"
proof -
  obtain d rec status where run: "PlanChange (\<lambda>_. None) (\<lambda>s. s) 50 (RecordFromSplit spec_a good_a) fx_node_change = (d, Inr (rec, status))"
    by (rule fx_change_planned)
  have "re_Root (RecordFromSplit spec_a good_a) = gs_Root spec_a" by (simp add: RecordFromSplit_def)
  with config_plan_change [OF run] run show ?thesis by auto
qed

end
